(* ===== verification/Prelude.thy ===== *)
theory Prelude
  imports Main "HOL-Library.Word" "HOL-Library.Monad_Syntax"
begin

unbundle bit_operations_syntax

text \<open>
  Shared vocabulary of the development: the C integer types as words, the treatment of
  undefined behaviour, byte splitting and joining, and the generic list and option
  lemmas the component theories rely on.

  A C function that may read outside an object, or that may stop in
  \<^verbatim>\<open>OPENER_ASSERT\<close>, is modelled as a function into \<open>option\<close>: \<open>None\<close> is
  that abnormal end, never an ordinary error return.  Ordinary error returns are values
  (\<open>EipStatus\<close>, the general status codes).
\<close>

section \<open>C types (typedefs.h)\<close>

type_synonym u8 = "8 word"
type_synonym u16 = "16 word"
type_synonym u32 = "32 word"
type_synonym u64 = "64 word"
type_synonym size_t = "64 word"

text \<open>\<open>buf\<close> is what a C byte pointer gives access to: the octets from the pointer to
  the end of the object it points into.\<close>

type_synonym buf = "u8 list"

datatype EipStatus = kEipStatusError | kEipStatusOk | kEipStatusOkSend

text \<open>The enumeration has the values -1, 0 and 1; comparisons of statuses in the code
  (\<^verbatim>\<open>return_value >= 0\<close>) follow that order.\<close>

primrec status_value :: "EipStatus \<Rightarrow> int" where
  "status_value kEipStatusError = -1"
| "status_value kEipStatusOk = 0"
| "status_value kEipStatusOkSend = 1"

instantiation EipStatus :: linorder
begin

definition less_eq_EipStatus :: "EipStatus \<Rightarrow> EipStatus \<Rightarrow> bool" where
  "less_eq_EipStatus a b \<longleftrightarrow> status_value a \<le> status_value b"

definition less_EipStatus :: "EipStatus \<Rightarrow> EipStatus \<Rightarrow> bool" where
  "less_EipStatus a b \<longleftrightarrow> status_value a < status_value b"

instance
proof
  fix a b c :: EipStatus
  show "a < b \<longleftrightarrow> a \<le> b \<and> \<not> b \<le> a"
    by (auto simp: less_EipStatus_def less_eq_EipStatus_def)
  show "a \<le> a"
    by (simp add: less_eq_EipStatus_def)
  show "a \<le> c" if "a \<le> b" "b \<le> c"
    using that by (simp add: less_eq_EipStatus_def)
  show "a = b" if "a \<le> b" "b \<le> a"
    using that by (cases a; cases b) (simp_all add: less_eq_EipStatus_def)
  show "a \<le> b \<or> b \<le> a"
    by (auto simp: less_eq_EipStatus_def)
qed

end

text \<open>Socket descriptors are plain \<^verbatim>\<open>int\<close>s of the operating system, compared with the
  invalid socket only; times are \<^verbatim>\<open>unsigned long\<close> milliseconds on a 64-bit target.\<close>

type_synonym socket_fd = int
type_synonym MilliSeconds = "64 word"

definition kEipInvalidSocket :: socket_fd where
  "kEipInvalidSocket = -1"

section \<open>Abnormal ends\<close>

definition c_assert :: "bool \<Rightarrow> unit option" where
  "c_assert b = (if b then Some () else None)"

lemma c_assert_Some [simp]: "c_assert b = Some u \<longleftrightarrow> b"
  by (simp add: c_assert_def)

lemma c_assert_None [simp]: "c_assert b = None \<longleftrightarrow> \<not> b"
  by (simp add: c_assert_def)

lemma c_assert_True [simp]: "c_assert True = Some ()"
  by (simp add: c_assert_def)

lemma c_assert_False [simp]: "c_assert False = None"
  by (simp add: c_assert_def)

text \<open>\<open>peek p i\<close> is the C expression \<^verbatim>\<open>p[i]\<close>.\<close>

definition peek :: "buf \<Rightarrow> nat \<Rightarrow> u8 option" where
  "peek p i = (if i < length p then Some (p ! i) else None)"

text \<open>\<open>skip n p\<close> is \<^verbatim>\<open>p += n\<close>; moving past the end of the object (one past the end
  is allowed) is an abnormal end.\<close>

definition skip :: "nat \<Rightarrow> buf \<Rightarrow> buf option" where
  "skip n p = (if n \<le> length p then Some (drop n p) else None)"

text \<open>\<open>store p i b\<close> is \<^verbatim>\<open>p[i] = b\<close>.\<close>

definition store :: "buf \<Rightarrow> nat \<Rightarrow> u8 \<Rightarrow> buf option" where
  "store p i b = (if i < length p then Some (p[i := b]) else None)"

lemma store_Cons_0 [simp]: "store (c # cs) 0 b = Some (b # cs)"
  by (simp add: store_def)

lemma store_Some_iff: "store p i b = Some q \<longleftrightarrow> i < length p \<and> q = p[i := b]"
  by (auto simp: store_def)

lemma peek_Cons_0 [simp]: "peek (b # bs) 0 = Some b"
  by (simp add: peek_def)

lemma peek_Cons_Suc [simp]: "peek (b # bs) (Suc i) = peek bs i"
  by (simp add: peek_def)

lemma peek_Nil [simp]: "peek [] i = None"
  by (simp add: peek_def)

lemma peek_Some_iff: "peek p i = Some b \<longleftrightarrow> i < length p \<and> b = p ! i"
  by (auto simp: peek_def)

lemma peek_numeral [simp]:
  "peek (b # bs) (numeral n) = peek bs (pred_numeral n)"
  by (simp add: numeral_eq_Suc)

lemma peek_One [simp]: "peek (b # bs) 1 = peek bs 0"
  by (simp add: peek_def)

lemma skip_append [simp]: "length xs = n \<Longrightarrow> skip n (xs @ ys) = Some ys"
  by (auto simp: skip_def)

lemma skip_Some_iff: "skip n p = Some q \<longleftrightarrow> n \<le> length p \<and> q = drop n p"
  by (auto simp: skip_def)

section \<open>Octets of a word, least significant first\<close>

definition le16 :: "u16 \<Rightarrow> buf" where
  "le16 w = [ucast w, ucast (drop_bit 8 w)]"

definition le32 :: "u32 \<Rightarrow> buf" where
  "le32 w = [ucast w, ucast (drop_bit 8 w), ucast (drop_bit 16 w), ucast (drop_bit 24 w)]"

definition le64 :: "u64 \<Rightarrow> buf" where
  "le64 w = [ucast w, ucast (drop_bit 8 w), ucast (drop_bit 16 w), ucast (drop_bit 24 w),
     ucast (drop_bit 32 w), ucast (drop_bit 40 w), ucast (drop_bit 48 w),
     ucast (drop_bit 56 w)]"

definition join16 :: "u8 \<Rightarrow> u8 \<Rightarrow> u16" where
  "join16 b0 b1 = ucast b0 OR push_bit 8 (ucast b1)"

definition join32 :: "u8 \<Rightarrow> u8 \<Rightarrow> u8 \<Rightarrow> u8 \<Rightarrow> u32" where
  "join32 b0 b1 b2 b3 =
     ucast b0 OR push_bit 8 (ucast b1) OR push_bit 16 (ucast b2) OR push_bit 24 (ucast b3)"

lemma length_le16 [simp]: "length (le16 w) = 2"
  by (simp add: le16_def)

lemma length_le32 [simp]: "length (le32 w) = 4"
  by (simp add: le32_def)

lemma length_le64 [simp]: "length (le64 w) = 8"
  by (simp add: le64_def)

lemma join16_split [simp]: "join16 (ucast w) (ucast (drop_bit 8 w)) = w"
  for w :: u16
  by (rule bit_word_eqI) (auto simp: join16_def bit_simps)

lemma join32_split [simp]:
  "join32 (ucast w) (ucast (drop_bit 8 w)) (ucast (drop_bit 16 w)) (ucast (drop_bit 24 w)) = w"
  for w :: u32
proof (rule bit_word_eqI)
  fix n assume "n < LENGTH(32)"
  then show "bit (join32 (ucast w) (ucast (drop_bit 8 w)) (ucast (drop_bit 16 w))
      (ucast (drop_bit 24 w))) n = bit w n"
    by (cases "n < 8"; cases "n < 16"; cases "n < 24")
      (auto simp: join32_def bit_simps)
qed

lemma le16_join16 [simp]: "le16 (join16 b0 b1) = [b0, b1]"
proof -
  have "ucast (join16 b0 b1) = b0"
    by (rule bit_word_eqI) (auto simp: join16_def bit_simps)
  moreover have "ucast (drop_bit 8 (join16 b0 b1)) = b1"
    by (rule bit_word_eqI) (auto simp: join16_def bit_simps dest: bit_imp_le_length)
  ultimately show ?thesis
    by (simp add: le16_def)
qed

lemma le32_join32 [simp]: "le32 (join32 b0 b1 b2 b3) = [b0, b1, b2, b3]"
proof -
  have "ucast (join32 b0 b1 b2 b3) = b0"
    by (rule bit_word_eqI) (auto simp: join32_def bit_simps)
  moreover have "ucast (drop_bit 8 (join32 b0 b1 b2 b3)) = b1"
    by (rule bit_word_eqI) (auto simp: join32_def bit_simps dest: bit_imp_le_length)
  moreover have "ucast (drop_bit 16 (join32 b0 b1 b2 b3)) = b2"
    by (rule bit_word_eqI) (auto simp: join32_def bit_simps dest: bit_imp_le_length)
  moreover have "ucast (drop_bit 24 (join32 b0 b1 b2 b3)) = b3"
    by (rule bit_word_eqI) (auto simp: join32_def bit_simps dest: bit_imp_le_length)
  ultimately show ?thesis
    by (simp add: le32_def)
qed

lemma le16_inject [simp]: "le16 v = le16 w \<longleftrightarrow> v = w"
proof
  assume "le16 v = le16 w"
  then have "join16 (ucast v) (ucast (drop_bit 8 v)) = join16 (ucast w) (ucast (drop_bit 8 w))"
    by (simp only: le16_def list.inject)
  then show "v = w"
    by (simp only: join16_split)
qed simp

lemma le32_inject [simp]: "le32 v = le32 w \<longleftrightarrow> v = w"
proof
  assume "le32 v = le32 w"
  then have "join32 (ucast v) (ucast (drop_bit 8 v)) (ucast (drop_bit 16 v)) (ucast (drop_bit 24 v))
      = join32 (ucast w) (ucast (drop_bit 8 w)) (ucast (drop_bit 16 w)) (ucast (drop_bit 24 w))"
    by (simp only: le32_def list.inject)
  then show "v = w"
    by (simp only: join32_split)
qed simp

lemma ucast_or: "ucast (a OR b) = (ucast a OR ucast b :: 'b::len word)"
  for a b :: "'a::len word"
  by (rule bit_word_eqI) (auto simp: bit_simps)

lemma and_single_bit: "x AND push_bit n 1 = (if bit x n then push_bit n 1 else 0)"
  for x :: "'a::len word"
  by (rule bit_word_eqI) (auto simp: bit_simps)

lemma ucast_and: "ucast (a AND b) = (ucast a AND ucast b :: 'b::len word)"
  for a b :: "'a::len word"
  by (rule bit_word_eqI) (auto simp: bit_simps)

lemma ucast_ucast_id: "unat v < 2 ^ LENGTH('b) \<Longrightarrow> ucast (ucast v :: 'b::len word) = v"
  for v :: "'a::len word"
  by (simp add: word_unat_eq_iff unsigned_ucast_eq unsigned_take_bit_eq take_bit_nat_eq_self)

lemma unat_less_exp: "unat x < 2 ^ LENGTH('a)" for x :: "'a::len word"
  by (rule unsigned_less)

lemma unat_ucast_mod: "unat (ucast x :: 'b::len word) = unat x mod 2 ^ LENGTH('b)"
  for x :: "'a::len word"
  by (simp add: unsigned_ucast_eq unsigned_take_bit_eq take_bit_eq_mod)

lemma unat_push_bit:
  "2 ^ n * unat x < 2 ^ LENGTH('a) \<Longrightarrow> unat (push_bit n x) = 2 ^ n * unat x"
  for x :: "'a::len word"
  by (simp add: unsigned_push_bit_eq push_bit_eq_mult [where 'a = nat] take_bit_nat_eq_self
      mult.commute del: push_bit_eq_mult)

section \<open>Lists updated by index\<close>

text \<open>Writing consecutive cells one by one is replacing a segment.\<close>

lemma list_update_segment_Cons:
  assumes "p < length xs"
  shows "xs[p := b] = take p xs @ [b] @ drop (Suc p) xs"
  using assms by (simp add: upd_conv_take_nth_drop)

definition overwrite :: "nat \<Rightarrow> 'a list \<Rightarrow> 'a list \<Rightarrow> 'a list" where
  "overwrite p bs xs = take p xs @ bs @ drop (p + length bs) xs"

lemma length_overwrite [simp]:
  "p + length bs \<le> length xs \<Longrightarrow> length (overwrite p bs xs) = length xs"
  by (simp add: overwrite_def)

lemma overwrite_Nil [simp]: "overwrite p [] xs = xs"
  by (simp add: overwrite_def)

lemma overwrite_append:
  assumes "p + length bs + length cs \<le> length xs"
  shows "overwrite (p + length bs) cs (overwrite p bs xs) = overwrite p (bs @ cs) xs"
  using assms by (simp add: overwrite_def ac_simps)

lemma overwrite_update:
  assumes "p + length bs < length xs"
  shows "(overwrite p bs xs)[p + length bs := c] = overwrite p (bs @ [c]) xs"
proof -
  have "(overwrite p bs xs)[p + length bs := c] = overwrite (p + length bs) [c] (overwrite p bs xs)"
    using assms by (simp add: overwrite_def upd_conv_take_nth_drop)
  then show ?thesis
    using overwrite_append [of p bs "[c]" xs] assms by simp
qed

lemma take_overwrite [simp]:
  "p + length bs \<le> length xs \<Longrightarrow> take p (overwrite p bs xs) = take p xs"
  by (simp add: overwrite_def)

lemma take_overwrite_end:
  assumes "p + length bs \<le> length xs" "n = p + length bs"
  shows "take n (overwrite p bs xs) = take p xs @ bs"
  using assms by (simp add: overwrite_def)

lemma drop_overwrite [simp]:
  "p + length bs \<le> length xs \<Longrightarrow> n = p + length bs \<Longrightarrow>
   drop n (overwrite p bs xs) = drop n xs"
  by (simp add: overwrite_def)

section \<open>Options\<close>

lemma bind_Some_iff:
  "(m \<bind> f) = Some y \<longleftrightarrow> (\<exists>x. m = Some x \<and> f x = Some y)"
  by (cases m) auto

lemma bind_None_iff:
  "(m \<bind> f) = None \<longleftrightarrow> m = None \<or> (\<exists>x. m = Some x \<and> f x = None)"
  by (cases m) auto

end
