(* ===== verification/Endian.thy ===== *)
theory Endian
  imports Prelude
begin

unbundle bit_operations_syntax

text \<open>
  The octet layer: \<^verbatim>\<open>utils/enipmessage.[ch]\<close> (the message under construction) and
  \<^verbatim>\<open>enet_encap/endianconv.c\<close> (reading little-endian fields off a byte pointer and
  writing them into a message).

  A message is the fixed array \<^verbatim>\<open>message_buffer\<close>, the write pointer as an offset into
  that array, and \<^verbatim>\<open>used_message_length\<close>, a \<^verbatim>\<open>size_t\<close> that wraps.  The field
  \<open>overrun\<close> is not in the code: it records that some write fell outside the array
  (undefined behaviour in C), so that ``this encoder stays inside the buffer'' is a
  statement of the model.
\<close>

section \<open>ENIPMessage\<close>

definition PC_OPENER_ETHERNET_BUFFER_SIZE :: nat where
  "PC_OPENER_ETHERNET_BUFFER_SIZE = 512"

record ENIPMessage =
  message_buffer :: "u8 list"
  current_message_position :: nat
  used_message_length :: size_t
  overrun :: bool

definition InitializeENIPMessage :: "ENIPMessage" where
  "InitializeENIPMessage =
     \<lparr>message_buffer = replicate PC_OPENER_ETHERNET_BUFFER_SIZE 0,
      current_message_position = 0, used_message_length = 0, overrun = False\<rparr>"

text \<open>\<open>poke i b m\<close> is \<^verbatim>\<open>m->current_message_position[i] = b\<close>.\<close>

definition poke :: "nat \<Rightarrow> u8 \<Rightarrow> ENIPMessage \<Rightarrow> ENIPMessage" where
  "poke i b m =
     (let a = current_message_position m + i in
      if a < length (message_buffer m)
      then m\<lparr>message_buffer := (message_buffer m)[a := b]\<rparr>
      else m\<lparr>overrun := True\<rparr>)"

text \<open>\<open>copy_octets 0 bs m\<close> is
  \<^verbatim>\<open>memcpy(m->current_message_position, bs, length bs)\<close>.\<close>

fun copy_octets :: "nat \<Rightarrow> u8 list \<Rightarrow> ENIPMessage \<Rightarrow> ENIPMessage" where
  "copy_octets i [] m = m"
| "copy_octets i (b # bs) m = copy_octets (Suc i) bs (poke i b m)"

definition MoveMessageNOctets :: "int \<Rightarrow> ENIPMessage \<Rightarrow> ENIPMessage" where
  "MoveMessageNOctets amount_of_bytes_moved m =
     (let p = int (current_message_position m) + amount_of_bytes_moved in
      m\<lparr>current_message_position := nat p,
        used_message_length := used_message_length m + of_int amount_of_bytes_moved,
        overrun := (overrun m \<or> p < 0)\<rparr>)"

definition FillNextNMessageOctetsWith :: "u8 \<Rightarrow> nat \<Rightarrow> ENIPMessage \<Rightarrow> ENIPMessage" where
  "FillNextNMessageOctetsWith value n m = copy_octets 0 (replicate n value) m"

definition FillNextNMessageOctetsWithValueAndMoveToNextPosition ::
    "u8 \<Rightarrow> nat \<Rightarrow> ENIPMessage \<Rightarrow> ENIPMessage" where
  "FillNextNMessageOctetsWithValueAndMoveToNextPosition value n m =
     MoveMessageNOctets (int n) (FillNextNMessageOctetsWith value n m)"

section \<open>Adding fields\<close>

definition AddSintToMessage :: "u8 \<Rightarrow> ENIPMessage \<Rightarrow> ENIPMessage" where
  "AddSintToMessage data m = MoveMessageNOctets 1 (poke 0 data m)"

definition AddIntToMessage :: "u16 \<Rightarrow> ENIPMessage \<Rightarrow> ENIPMessage" where
  "AddIntToMessage data m =
     MoveMessageNOctets 2 (poke 1 (ucast (drop_bit 8 data)) (poke 0 (ucast data) m))"

definition AddDintToMessage :: "u32 \<Rightarrow> ENIPMessage \<Rightarrow> ENIPMessage" where
  "AddDintToMessage data m =
     MoveMessageNOctets 4
       (poke 3 (ucast (drop_bit 24 data)) (poke 2 (ucast (drop_bit 16 data))
         (poke 1 (ucast (drop_bit 8 data)) (poke 0 (ucast data) m))))"

definition AddLintToMessage :: "u64 \<Rightarrow> ENIPMessage \<Rightarrow> ENIPMessage" where
  "AddLintToMessage data m =
     MoveMessageNOctets 8
       (poke 7 (ucast (drop_bit 56 data)) (poke 6 (ucast (drop_bit 48 data))
         (poke 5 (ucast (drop_bit 40 data)) (poke 4 (ucast (drop_bit 32 data))
           (poke 3 (ucast (drop_bit 24 data)) (poke 2 (ucast (drop_bit 16 data))
             (poke 1 (ucast (drop_bit 8 data)) (poke 0 (ucast data) m))))))))"

text \<open>The block copies of the callers: \<^verbatim>\<open>memcpy\<close> at the write pointer, then the
  pointer and the length both advanced.\<close>

definition append_octets :: "u8 list \<Rightarrow> ENIPMessage \<Rightarrow> ENIPMessage" where
  "append_octets bs m = MoveMessageNOctets (int (length bs)) (copy_octets 0 bs m)"

section \<open>Reading fields\<close>

text \<open>A reader returns the value and the advanced pointer.\<close>

definition GetUsintFromMessage :: "buf \<Rightarrow> (u8 \<times> buf) option" where
  "GetUsintFromMessage p = do {
     b0 \<leftarrow> peek p 0;
     q \<leftarrow> skip 1 p;
     Some (b0, q) }"

definition GetSintFromMessage :: "buf \<Rightarrow> (u8 \<times> buf) option" where
  "GetSintFromMessage p = do {
     b0 \<leftarrow> peek p 0;
     q \<leftarrow> skip 1 p;
     Some (b0, q) }"

definition GetByteFromMessage :: "buf \<Rightarrow> (u8 \<times> buf) option" where
  "GetByteFromMessage p = do {
     b0 \<leftarrow> peek p 0;
     q \<leftarrow> skip 1 p;
     Some (b0, q) }"

definition GetBoolFromMessage :: "buf \<Rightarrow> (u8 \<times> buf) option" where
  "GetBoolFromMessage p = do {
     b0 \<leftarrow> peek p 0;
     q \<leftarrow> skip 1 p;
     Some (b0, q) }"

definition GetUintFromMessage :: "buf \<Rightarrow> (u16 \<times> buf) option" where
  "GetUintFromMessage p = do {
     b0 \<leftarrow> peek p 0;
     b1 \<leftarrow> peek p 1;
     q \<leftarrow> skip 2 p;
     Some (ucast b0 OR push_bit 8 (ucast b1), q) }"

definition GetIntFromMessage :: "buf \<Rightarrow> (u16 \<times> buf) option" where
  "GetIntFromMessage p = do {
     b0 \<leftarrow> peek p 0;
     b1 \<leftarrow> peek p 1;
     q \<leftarrow> skip 2 p;
     Some (ucast b0 OR push_bit 8 (ucast b1), q) }"

definition GetWordFromMessage :: "buf \<Rightarrow> (u16 \<times> buf) option" where
  "GetWordFromMessage p = do {
     b0 \<leftarrow> peek p 0;
     b1 \<leftarrow> peek p 1;
     q \<leftarrow> skip 2 p;
     Some (ucast b0 OR push_bit 8 (ucast b1), q) }"

definition GetUdintFromMessage :: "buf \<Rightarrow> (u32 \<times> buf) option" where
  "GetUdintFromMessage p = do {
     b0 \<leftarrow> peek p 0;
     b1 \<leftarrow> peek p 1;
     b2 \<leftarrow> peek p 2;
     b3 \<leftarrow> peek p 3;
     q \<leftarrow> skip 4 p;
     Some (ucast b0 OR push_bit 8 (ucast b1) OR push_bit 16 (ucast b2)
             OR push_bit 24 (ucast b3), q) }"

definition GetDintFromMessage :: "buf \<Rightarrow> (u32 \<times> buf) option" where
  "GetDintFromMessage p = do {
     b0 \<leftarrow> peek p 0;
     b1 \<leftarrow> peek p 1;
     b2 \<leftarrow> peek p 2;
     b3 \<leftarrow> peek p 3;
     q \<leftarrow> skip 4 p;
     Some (ucast b0 OR push_bit 8 (ucast b1) OR push_bit 16 (ucast b2)
             OR push_bit 24 (ucast b3), q) }"

definition GetDwordFromMessage :: "buf \<Rightarrow> (u32 \<times> buf) option" where
  "GetDwordFromMessage p = do {
     b0 \<leftarrow> peek p 0;
     b1 \<leftarrow> peek p 1;
     b2 \<leftarrow> peek p 2;
     b3 \<leftarrow> peek p 3;
     q \<leftarrow> skip 4 p;
     Some (ucast b0 OR push_bit 8 (ucast b1) OR push_bit 16 (ucast b2)
             OR push_bit 24 (ucast b3), q) }"

text \<open>The 64-bit reader of the code takes the first octet as the most significant one,
  unlike every other reader and unlike \<open>AddLintToMessage\<close>.\<close>

definition GetLintFromMessage :: "buf \<Rightarrow> (u64 \<times> buf) option" where
  "GetLintFromMessage p = do {
     b0 \<leftarrow> peek p 0;
     b1 \<leftarrow> peek p 1;
     b2 \<leftarrow> peek p 2;
     b3 \<leftarrow> peek p 3;
     b4 \<leftarrow> peek p 4;
     b5 \<leftarrow> peek p 5;
     b6 \<leftarrow> peek p 6;
     b7 \<leftarrow> peek p 7;
     q \<leftarrow> skip 8 p;
     Some ((push_bit 56 (ucast b0) AND 0xFF00000000000000)
         + (push_bit 48 (ucast b1) AND 0x00FF000000000000)
         + (push_bit 40 (ucast b2) AND 0x0000FF0000000000)
         + (push_bit 32 (ucast b3) AND 0x000000FF00000000)
         + (push_bit 24 (ucast b4) AND 0x00000000FF000000)
         + (push_bit 16 (ucast b5) AND 0x0000000000FF0000)
         + (push_bit 8 (ucast b6) AND 0x000000000000FF00)
         + (ucast b7 AND 0x00000000000000FF), q) }"

section \<open>Endianness of the platform and socket addresses\<close>

datatype OpenerEndianess =
  kOpenerEndianessUnknown | kOpENerEndianessLittle | kOpENerEndianessBig

text \<open>\<open>host\<close> is the memory layout of the host's \<^verbatim>\<open>int\<close> 1: whether its first octet
  is 1.\<close>

definition DetermineEndianess :: "bool \<Rightarrow> OpenerEndianess" where
  "DetermineEndianess host = (if host then kOpENerEndianessLittle else kOpENerEndianessBig)"

text \<open>\<^verbatim>\<open>htons(AF_INET)\<close>: \<^verbatim>\<open>AF_INET\<close> is 2; \<^verbatim>\<open>htons\<close> swaps the two octets on a
  little-endian host and is the identity on a big-endian one.\<close>

definition swap16 :: "u16 \<Rightarrow> u16" where
  "swap16 w = push_bit 8 w OR drop_bit 8 w"

definition htons :: "OpenerEndianess \<Rightarrow> u16 \<Rightarrow> u16" where
  "htons e w = (if e = kOpENerEndianessLittle then swap16 w else w)"

definition AF_INET :: u16 where
  "AF_INET = 2"

definition EncapsulateIpAddress ::
    "OpenerEndianess \<Rightarrow> u16 \<Rightarrow> u32 \<Rightarrow> ENIPMessage \<Rightarrow> ENIPMessage option" where
  "EncapsulateIpAddress g_opener_platform_endianess port address m =
     (if g_opener_platform_endianess = kOpENerEndianessLittle then
        Some (AddDintToMessage address
          (AddIntToMessage port
            (AddIntToMessage (htons g_opener_platform_endianess AF_INET) m)))
      else if g_opener_platform_endianess = kOpENerEndianessBig then
        Some (AddSintToMessage (ucast (drop_bit 24 address))
          (AddSintToMessage (ucast (drop_bit 16 address))
            (AddSintToMessage (ucast (drop_bit 8 address))
              (AddSintToMessage (ucast address)
                (AddSintToMessage (ucast port)
                  (AddSintToMessage (ucast (drop_bit 8 port))
                    (AddIntToMessage (htons g_opener_platform_endianess AF_INET) m)))))))
      else None)"

section \<open>Every encoder appends a fixed octet sequence\<close>

text \<open>\<open>enc\<close> collects the equations \<open>encoder args = append_octets octets\<close>; with
  \<open>append_octets_append\<close> they turn any composition of encoders into one append.\<close>

named_theorems enc

lemma poke_pos [simp]:
  "current_message_position (poke i b m) = current_message_position m"
  by (simp add: poke_def Let_def)

lemma poke_used [simp]: "used_message_length (poke i b m) = used_message_length m"
  by (simp add: poke_def Let_def)

lemma length_poke [simp]: "length (message_buffer (poke i b m)) = length (message_buffer m)"
  by (simp add: poke_def Let_def)

lemma copy_octets_frame [simp]:
  "current_message_position (copy_octets i bs m) = current_message_position m"
  "used_message_length (copy_octets i bs m) = used_message_length m"
  "length (message_buffer (copy_octets i bs m)) = length (message_buffer m)"
  by (induction bs arbitrary: i m) simp_all

lemma copy_octets_append:
  "copy_octets i (bs @ cs) m = copy_octets (i + length bs) cs (copy_octets i bs m)"
  by (induction bs arbitrary: i m) simp_all

lemma poke_move:
  "poke i b (MoveMessageNOctets (int k) m) = MoveMessageNOctets (int k) (poke (k + i) b m)"
  by (simp add: poke_def MoveMessageNOctets_def Let_def nat_add_distrib ac_simps)

lemma copy_octets_move:
  "copy_octets i bs (MoveMessageNOctets (int k) m)
     = MoveMessageNOctets (int k) (copy_octets (k + i) bs m)"
  by (induction bs arbitrary: i m) (simp_all add: poke_move)

lemma move_move [simp]:
  "MoveMessageNOctets (int j) (MoveMessageNOctets (int k) m) = MoveMessageNOctets (int (k + j)) m"
  by (simp add: MoveMessageNOctets_def Let_def ac_simps)

lemma append_octets_append [simp]:
  "append_octets cs (append_octets bs m) = append_octets (bs @ cs) m"
  by (simp add: append_octets_def copy_octets_move copy_octets_append del: of_nat_add)

lemma append_octets_Nil [simp]: "append_octets [] m = m"
  by (simp add: append_octets_def MoveMessageNOctets_def Let_def)

lemma AddSint_enc [enc]: "AddSintToMessage d m = append_octets [d] m"
  by (simp add: AddSintToMessage_def append_octets_def)

lemma AddInt_enc [enc]: "AddIntToMessage d m = append_octets (le16 d) m"
  by (simp add: AddIntToMessage_def append_octets_def le16_def numeral_2_eq_2)

lemma AddDint_enc [enc]: "AddDintToMessage d m = append_octets (le32 d) m"
  by (simp add: AddDintToMessage_def append_octets_def le32_def eval_nat_numeral)

lemma AddLint_enc [enc]: "AddLintToMessage d m = append_octets (le64 d) m"
  by (simp add: AddLintToMessage_def append_octets_def le64_def eval_nat_numeral)

lemma Fill_enc [enc]:
  "FillNextNMessageOctetsWithValueAndMoveToNextPosition v n m = append_octets (replicate n v) m"
  by (simp add: FillNextNMessageOctetsWithValueAndMoveToNextPosition_def
      FillNextNMessageOctetsWith_def append_octets_def)

definition sockaddr_octets :: "OpenerEndianess \<Rightarrow> u16 \<Rightarrow> u32 \<Rightarrow> u8 list" where
  "sockaddr_octets e port address =
     (if e = kOpENerEndianessLittle then [0, 2] @ le16 port @ le32 address
      else [2, 0] @ rev (le16 port) @ le32 address)"

lemma le16_AF_INET:
  "le16 (htons kOpENerEndianessLittle AF_INET) = [0, 2]"
  "le16 (htons kOpENerEndianessBig AF_INET) = [2, 0]"
  by code_simp+

lemma EncapsulateIpAddress_enc [enc]:
  "EncapsulateIpAddress e port address m =
     (if e = kOpenerEndianessUnknown then None
      else Some (append_octets (sockaddr_octets e port address) m))"
  by (cases e)
    (simp_all add: EncapsulateIpAddress_def enc sockaddr_octets_def le16_AF_INET,
     simp add: le16_def le32_def)

section \<open>What an append leaves in the buffer\<close>

lemma copy_octets_fits:
  assumes "current_message_position m + i + length bs \<le> length (message_buffer m)"
  shows "copy_octets i bs m =
    m\<lparr>message_buffer := overwrite (current_message_position m + i) bs (message_buffer m)\<rparr>"
  using assms
proof (induction bs arbitrary: i m)
  case Nil
  then show ?case by simp
next
  case (Cons b bs)
  let ?a = "current_message_position m + i"
  have p: "poke i b m = m\<lparr>message_buffer := overwrite ?a [b] (message_buffer m)\<rparr>"
    using Cons.prems by (simp add: poke_def Let_def overwrite_def upd_conv_take_nth_drop)
  have o: "overwrite (Suc ?a) bs (overwrite ?a [b] (message_buffer m))
      = overwrite ?a (b # bs) (message_buffer m)"
    using overwrite_append [of ?a "[b]" bs "message_buffer m"] Cons.prems by simp
  show ?case
    using Cons.IH [of "poke i b m" "Suc i"] Cons.prems by (simp add: p o)
qed

text \<open>The octets sent on the wire.\<close>

definition payload :: "ENIPMessage \<Rightarrow> u8 list" where
  "payload m = take (unat (used_message_length m)) (message_buffer m)"

text \<open>A message under construction: the write pointer and the length agree and nothing
  was written outside the array.\<close>

definition msg_wf :: "ENIPMessage \<Rightarrow> bool" where
  "msg_wf m \<longleftrightarrow> length (message_buffer m) = PC_OPENER_ETHERNET_BUFFER_SIZE
     \<and> current_message_position m = unat (used_message_length m)
     \<and> current_message_position m \<le> PC_OPENER_ETHERNET_BUFFER_SIZE \<and> \<not> overrun m"

definition room :: "ENIPMessage \<Rightarrow> nat" where
  "room m = PC_OPENER_ETHERNET_BUFFER_SIZE - current_message_position m"

lemma msg_wf_Initialize [simp]: "msg_wf InitializeENIPMessage"
  by (simp add: msg_wf_def InitializeENIPMessage_def)

lemma payload_Initialize [simp]: "payload InitializeENIPMessage = []"
  by (simp add: payload_def InitializeENIPMessage_def)

lemma room_Initialize [simp]: "room InitializeENIPMessage = PC_OPENER_ETHERNET_BUFFER_SIZE"
  by (simp add: room_def InitializeENIPMessage_def)

lemma append_octets_fits:
  assumes "current_message_position m + length bs \<le> length (message_buffer m)"
  shows "append_octets bs m =
    m\<lparr>message_buffer := overwrite (current_message_position m) bs (message_buffer m),
      current_message_position := current_message_position m + length bs,
      used_message_length := used_message_length m + of_nat (length bs)\<rparr>"
  using assms copy_octets_fits [of m 0 bs]
  by (cases m) (simp add: append_octets_def MoveMessageNOctets_def Let_def nat_add_distrib)

lemma append_octets_pos:
  "current_message_position (append_octets bs m) = current_message_position m + length bs"
  by (simp add: append_octets_def MoveMessageNOctets_def Let_def nat_add_distrib)

lemma append_octets_used [simp]:
  "used_message_length (append_octets bs m) = used_message_length m + of_nat (length bs)"
  by (simp add: append_octets_def MoveMessageNOctets_def Let_def)

lemma room_append_octets:
  "room (append_octets bs m) = room m - length bs"
  by (simp add: room_def append_octets_pos)

lemma append_octets_wf:
  assumes "msg_wf m" "length bs \<le> room m"
  shows "msg_wf (append_octets bs m)"
    and "payload (append_octets bs m) = payload m @ bs"
proof -
  let ?p = "current_message_position m"
  have fits: "?p + length bs \<le> length (message_buffer m)"
    using assms by (auto simp: msg_wf_def room_def)
  have len: "length bs \<le> 512" "?p \<le> 512" "?p + length bs \<le> 512"
    using assms by (auto simp: msg_wf_def room_def PC_OPENER_ETHERNET_BUFFER_SIZE_def)
  have p: "?p = unat (used_message_length m)"
    using assms by (simp add: msg_wf_def)
  have "unat (of_nat (length bs) :: size_t) = length bs"
    using len by (simp add: unat_of_nat)
  then have used: "unat (used_message_length m + of_nat (length bs)) = ?p + length bs"
    using len p by (simp add: unat_word_ariths)
  show "msg_wf (append_octets bs m)"
    using assms fits used by (simp add: append_octets_fits msg_wf_def)
  show "payload (append_octets bs m) = payload m @ bs"
    using fits used p by (simp add: append_octets_fits payload_def take_overwrite_end)
qed

text \<open>Moving over an octet keeps whatever the buffer holds there.\<close>

lemma move_one_append:
  assumes "msg_wf m" "1 \<le> room m"
  shows "MoveMessageNOctets 1 m
    = append_octets [message_buffer m ! current_message_position m] m"
proof -
  have "current_message_position m < length (message_buffer m)"
    using assms by (auto simp: msg_wf_def room_def)
  then show ?thesis
    by (simp add: append_octets_def poke_def Let_def)
qed

lemma append_octets_Initialize:
  assumes "length bs \<le> PC_OPENER_ETHERNET_BUFFER_SIZE"
  shows "msg_wf (append_octets bs InitializeENIPMessage)"
    and "payload (append_octets bs InitializeENIPMessage) = bs"
  using append_octets_wf [of InitializeENIPMessage bs] assms by simp_all
section \<open>Reading back what was written\<close>

lemma GetUint_le16 [simp]: "GetUintFromMessage (le16 w @ rest) = Some (w, rest)"
  by (simp add: GetUintFromMessage_def le16_def skip_def flip: join16_def)

lemma GetInt_le16 [simp]: "GetIntFromMessage (le16 w @ rest) = Some (w, rest)"
  by (simp add: GetIntFromMessage_def le16_def skip_def flip: join16_def)

lemma GetUdint_le32 [simp]: "GetUdintFromMessage (le32 w @ rest) = Some (w, rest)"
  by (simp add: GetUdintFromMessage_def le32_def skip_def flip: join32_def)

lemma GetDint_le32 [simp]: "GetDintFromMessage (le32 w @ rest) = Some (w, rest)"
  by (simp add: GetDintFromMessage_def le32_def skip_def flip: join32_def)

text \<open>The other readers of the same width read the same octets.\<close>

lemma reader_aliases [simp]:
  "GetSintFromMessage = GetUsintFromMessage"
  "GetByteFromMessage = GetUsintFromMessage"
  "GetBoolFromMessage = GetUsintFromMessage"
  "GetIntFromMessage = GetUintFromMessage"
  "GetWordFromMessage = GetUintFromMessage"
  "GetDintFromMessage = GetUdintFromMessage"
  "GetDwordFromMessage = GetUdintFromMessage"
  by (simp_all add: fun_eq_iff GetSintFromMessage_def GetUsintFromMessage_def
      GetByteFromMessage_def GetBoolFromMessage_def GetIntFromMessage_def
      GetUintFromMessage_def GetWordFromMessage_def GetDintFromMessage_def
      GetUdintFromMessage_def GetDwordFromMessage_def)

lemma GetUsint_Cons [simp]: "GetUsintFromMessage (b # bs) = Some (b, bs)"
  by (simp add: GetUsintFromMessage_def skip_def)

lemma GetUint_Cons: "GetUintFromMessage (a # b # bs) = Some (join16 a b, bs)"
  by (simp add: GetUintFromMessage_def skip_def join16_def)

lemma GetUdint_Cons:
  "GetUdintFromMessage (a # b # c # d # bs) = Some (join32 a b c d, bs)"
  by (simp add: GetUdintFromMessage_def skip_def join32_def)

lemma list_at_least2: "2 \<le> length p \<Longrightarrow> \<exists>a b q. p = a # b # q"
  by (cases p rule: remdups_adj.cases) auto

lemma GetUsint_Some_iff:
  "GetUsintFromMessage p = Some (w, q) \<longleftrightarrow> p = w # q"
  by (cases p) (auto simp: GetUsintFromMessage_def skip_def)

lemma GetUint_Some_iff:
  "GetUintFromMessage p = Some (w, q) \<longleftrightarrow> p = le16 w @ q"
proof
  assume r: "GetUintFromMessage p = Some (w, q)"
  then have "2 \<le> length p"
    by (auto simp: GetUintFromMessage_def bind_Some_iff peek_Some_iff)
  then obtain a b t where "p = a # b # t"
    using list_at_least2 by blast
  with r show "p = le16 w @ q"
    by (auto simp: GetUint_Cons)
qed simp

lemma GetUdint_Some_iff:
  "GetUdintFromMessage p = Some (w, q) \<longleftrightarrow> p = le32 w @ q"
proof
  assume r: "GetUdintFromMessage p = Some (w, q)"
  then have l: "4 \<le> length p"
    by (auto simp: GetUdintFromMessage_def bind_Some_iff peek_Some_iff)
  then obtain a b t where t: "p = a # b # t"
    using list_at_least2 [of p] by auto
  with l obtain c d u where "t = c # d # u"
    using list_at_least2 [of t] by auto
  with t r show "p = le32 w @ q"
    by (auto simp: GetUdint_Cons)
qed simp

lemma GetUsint_None_iff: "GetUsintFromMessage p = None \<longleftrightarrow> length p < 1"
  by (cases p) (auto simp: GetUsintFromMessage_def skip_def)

lemma GetUint_None_iff: "GetUintFromMessage p = None \<longleftrightarrow> length p < 2"
  by (auto simp: GetUintFromMessage_def bind_None_iff peek_def skip_def)

lemma GetUdint_None_iff: "GetUdintFromMessage p = None \<longleftrightarrow> length p < 4"
  by (auto simp: GetUdintFromMessage_def bind_None_iff peek_def skip_def)

section \<open>Field codecs as an interface\<close>

text \<open>
  What a client of the octet layer relies on for a field: a writer that appends a
  fixed-width octet sequence and a reader that takes exactly this sequence off and is
  defined on nothing else.
\<close>

locale field_codec =
  fixes put :: "'v \<Rightarrow> ENIPMessage \<Rightarrow> ENIPMessage"
    and get :: "buf \<Rightarrow> ('v \<times> buf) option"
    and octets :: "'v \<Rightarrow> u8 list"
    and width :: nat
  assumes put_octets: "put v m = append_octets (octets v) m"
    and get_iff: "get p = Some (v, q) \<longleftrightarrow> p = octets v @ q"
    and length_octets: "length (octets v) = width"
begin

lemma get_put_octets: "get (octets v @ rest) = Some (v, rest)"
  by (simp add: get_iff)

lemma octets_inj: "octets v = octets w \<Longrightarrow> v = w"
  using get_iff [of "octets v" v "[]"] get_iff [of "octets v" w "[]"] by simp

lemma get_consumes: "get p = Some (v, q) \<Longrightarrow> length p = width + length q"
  by (simp add: get_iff length_octets)

lemma put_wf: "msg_wf m \<Longrightarrow> width \<le> room m \<Longrightarrow> msg_wf (put v m)"
  by (simp add: put_octets append_octets_wf length_octets)

lemma put_then_get:
  assumes "msg_wf m" "width \<le> room m"
  shows "get (drop (current_message_position m) (payload (put v m))) = Some (v, [])"
proof -
  have "length (payload m) = current_message_position m"
    using assms by (auto simp: payload_def msg_wf_def)
  then show ?thesis
    using assms append_octets_wf(2) [of m "octets v"]
    by (simp add: put_octets length_octets get_put_octets [of v "[]", simplified])
qed

end

text \<open>Two fields in a row are again a field.\<close>

locale field_codec_pair = a: field_codec puta geta octa wa + b: field_codec putb getb octb wb
  for puta :: "'a \<Rightarrow> ENIPMessage \<Rightarrow> ENIPMessage" and geta octa wa
    and putb :: "'b \<Rightarrow> ENIPMessage \<Rightarrow> ENIPMessage" and getb octb wb
begin

definition put2 :: "'a \<times> 'b \<Rightarrow> ENIPMessage \<Rightarrow> ENIPMessage" where
  "put2 v m = putb (snd v) (puta (fst v) m)"

definition get2 :: "buf \<Rightarrow> (('a \<times> 'b) \<times> buf) option" where
  "get2 p = do { (x, q) \<leftarrow> geta p; (y, r) \<leftarrow> getb q; Some ((x, y), r) }"

sublocale pair: field_codec put2 get2 "\<lambda>v. octa (fst v) @ octb (snd v)" "wa + wb"
proof unfold_locales
  fix v m show "put2 v m = append_octets (octa (fst v) @ octb (snd v)) m"
    by (simp add: put2_def a.put_octets b.put_octets)
next
  fix p v q
  show "get2 p = Some (v, q) \<longleftrightarrow> p = (octa (fst v) @ octb (snd v)) @ q"
    by (cases v) (auto simp: get2_def bind_Some_iff a.get_iff b.get_iff)
next
  fix v show "length (octa (fst v) @ octb (snd v)) = wa + wb"
    by (simp add: a.length_octets b.length_octets)
qed

end

interpretation usint: field_codec AddSintToMessage GetUsintFromMessage "\<lambda>v. [v]" 1
  by unfold_locales (simp_all add: enc GetUsint_Some_iff)

interpretation uint: field_codec AddIntToMessage GetUintFromMessage le16 2
  by unfold_locales (simp_all add: enc GetUint_Some_iff)

interpretation udint: field_codec AddDintToMessage GetUdintFromMessage le32 4
  by unfold_locales (simp_all add: enc GetUdint_Some_iff)

interpretation revision: field_codec_pair
    AddSintToMessage GetUsintFromMessage "\<lambda>v. [v]" 1
    AddSintToMessage GetUsintFromMessage "\<lambda>v. [v]" 1
  by unfold_locales

section \<open>The 64-bit fields\<close>

lemma shifted_octet_mask:
  "push_bit k (ucast (b :: u8) :: u64) AND push_bit k (mask 8) = push_bit k (ucast b)"
  by (rule bit_word_eqI) (auto simp: bit_simps dest: bit_imp_le_length)

lemma add_shifted_octet:
  fixes x :: u64
  assumes "take_bit (k + 8) x = 0"
  shows "x + push_bit k (ucast (b :: u8)) = x OR push_bit k (ucast b)"
proof (rule disjunctive_add)
  fix n
  have "\<not> bit x n" if "n < k + 8"
  proof -
    have "bit (take_bit (k + 8) x) n = bit (0 :: u64) n"
      by (simp only: assms)
    then show ?thesis
      using that by (simp add: bit_take_bit_iff)
  qed
  moreover have "\<not> bit (push_bit k (ucast b) :: u64) n" if "\<not> n < k + 8"
    using that by (auto simp: bit_simps dest: bit_imp_le_length)
  ultimately show "\<not> bit x n \<or> \<not> bit (push_bit k (ucast b) :: u64) n"
    by blast
qed

definition join64 :: "u8 \<Rightarrow> u8 \<Rightarrow> u8 \<Rightarrow> u8 \<Rightarrow> u8 \<Rightarrow> u8 \<Rightarrow> u8 \<Rightarrow> u8 \<Rightarrow> u64" where
  "join64 b0 b1 b2 b3 b4 b5 b6 b7 =
     push_bit 56 (ucast b7) OR push_bit 48 (ucast b6) OR push_bit 40 (ucast b5)
       OR push_bit 32 (ucast b4) OR push_bit 24 (ucast b3) OR push_bit 16 (ucast b2)
       OR push_bit 8 (ucast b1) OR ucast b0"

lemma take_push_octet: "k \<le> j \<Longrightarrow> take_bit k (push_bit j (x :: u64)) = 0"
  by (rule bit_word_eqI) (auto simp: bit_simps)

lemma GetLint_Cons:
  "GetLintFromMessage (b7 # b6 # b5 # b4 # b3 # b2 # b1 # b0 # bs)
     = Some (join64 b0 b1 b2 b3 b4 b5 b6 b7, bs)"
proof -
  have masks: "(0xFF00000000000000 :: u64) = push_bit 56 (mask 8)"
    "(0x00FF000000000000 :: u64) = push_bit 48 (mask 8)"
    "(0x0000FF0000000000 :: u64) = push_bit 40 (mask 8)"
    "(0x000000FF00000000 :: u64) = push_bit 32 (mask 8)"
    "(0x00000000FF000000 :: u64) = push_bit 24 (mask 8)"
    "(0x0000000000FF0000 :: u64) = push_bit 16 (mask 8)"
    "(0x000000000000FF00 :: u64) = push_bit 8 (mask 8)"
    "(0x00000000000000FF :: u64) = push_bit 0 (mask 8)"
    by (simp_all add: mask_eq_exp_minus_1)
  have last: "x + ucast b0 = x OR ucast b0" if "take_bit 8 x = 0" for x :: u64
    using add_shifted_octet [of 0 x b0] that by simp
  show ?thesis
    unfolding GetLintFromMessage_def masks shifted_octet_mask
    using shifted_octet_mask [of 0 b0]
    by (simp add: skip_def join64_def add_shifted_octet take_push_octet take_bit_or last or.assoc)
qed

lemma peel_octet:
  "push_bit k (drop_bit k w) =
     push_bit (k + 8) (drop_bit (k + 8) w) OR push_bit k (ucast (ucast (drop_bit k w) :: u8))"
  for w :: u64
proof (rule bit_word_eqI)
  fix n assume "n < LENGTH(64)"
  then show "bit (push_bit k (drop_bit k w)) n = bit (push_bit (k + 8) (drop_bit (k + 8) w)
      OR push_bit k (ucast (ucast (drop_bit k w) :: u8))) n"
    by (cases "n < k + 8") (auto simp: bit_simps)
qed

lemma join64_split:
  "join64 (ucast w) (ucast (drop_bit 8 w)) (ucast (drop_bit 16 w)) (ucast (drop_bit 24 w))
     (ucast (drop_bit 32 w)) (ucast (drop_bit 40 w)) (ucast (drop_bit 48 w))
     (ucast (drop_bit 56 w)) = w"
  for w :: u64
  using peel_octet [of 0 w] peel_octet [of 8 w] peel_octet [of 16 w] peel_octet [of 24 w]
    peel_octet [of 32 w] peel_octet [of 40 w] peel_octet [of 48 w] peel_octet [of 56 w]
  by (simp add: join64_def or.assoc drop_bit_word_beyond)

lemma GetLint_rev: "GetLintFromMessage (rev (le64 w) @ rest) = Some (w, rest)"
  by (simp add: le64_def GetLint_Cons join64_split)
lemma octet_same:
  "j + 8 \<le> 64 \<Longrightarrow> ucast (drop_bit j (push_bit j (ucast (b :: u8)) :: u64)) = b"
  by (rule bit_word_eqI) (auto simp: bit_simps)

lemma octet_above:
  "i + 8 \<le> j \<Longrightarrow> ucast (drop_bit i (push_bit j (ucast (b :: u8)) :: u64)) = (0 :: u8)"
  by (rule bit_word_eqI) (auto simp: bit_simps)

lemma octet_below:
  "j + 8 \<le> i \<Longrightarrow> ucast (drop_bit i (push_bit j (ucast (b :: u8)) :: u64)) = (0 :: u8)"
  by (rule bit_word_eqI) (auto simp: bit_simps dest: bit_imp_le_length)

lemmas octet_shifts = octet_same octet_above octet_below octet_same [of 0, simplified]
  octet_above [of 0, simplified] octet_below [of 0, simplified]

lemma le64_join64: "le64 (join64 b0 b1 b2 b3 b4 b5 b6 b7) = [b0, b1, b2, b3, b4, b5, b6, b7]"
  unfolding le64_def join64_def
  by (simp add: drop_bit_or ucast_or octet_shifts)

section \<open>Properties\<close>

text \<open>C21: fields written one after another by the Add functions into a message with room
  for them are read back, in order and with nothing left over, by the Get functions; the
  message stays well formed and its octets before the new ones are kept.\<close>

theorem add_fields_get_fields_roundtrip:
  assumes "msg_wf m" and "7 \<le> room m"
  shows "let m' = AddDintToMessage c (AddIntToMessage b (AddSintToMessage a m));
             start = current_message_position m
         in msg_wf m' \<and> take start (payload m') = payload m \<and>
            (\<exists>p q. GetUsintFromMessage (drop start (payload m')) = Some (a, p)
               \<and> GetUintFromMessage p = Some (b, q)
               \<and> GetUdintFromMessage q = Some (c, []))"
proof -
  let ?m' = "AddDintToMessage c (AddIntToMessage b (AddSintToMessage a m))"
  have m': "?m' = append_octets ([a] @ le16 b @ le32 c) m"
    by (simp add: enc)
  have wf: "msg_wf ?m'" and p: "payload ?m' = payload m @ [a] @ le16 b @ le32 c"
    unfolding m' using assms by (simp_all add: append_octets_wf)
  have l: "length (payload m) = current_message_position m"
    using assms(1) by (auto simp: payload_def msg_wf_def)
  then have "take (current_message_position m) (payload ?m') = payload m"
    and "drop (current_message_position m) (payload ?m') = [a] @ le16 b @ le32 c @ []"
    by (simp_all add: p)
  then show ?thesis
    using wf by (simp add: Let_def uint.get_put_octets udint.get_put_octets
        del: append_Nil2)
qed

theorem add_fields_get_fields_roundtrip_witness:
  "msg_wf InitializeENIPMessage \<and> 7 \<le> room InitializeENIPMessage \<and>
   (\<exists>p. GetUsintFromMessage (payload (AddDintToMessage 3 (AddIntToMessage 2
      (AddSintToMessage 1 InitializeENIPMessage)))) = Some (1, p))"
proof -
  have r: "7 \<le> room InitializeENIPMessage"
    by (simp add: PC_OPENER_ETHERNET_BUFFER_SIZE_def)
  have z: "current_message_position InitializeENIPMessage = 0"
    by (simp add: InitializeENIPMessage_def)
  show ?thesis
    using add_fields_get_fields_roundtrip [OF msg_wf_Initialize r, of 3 2 1] r
    by (auto simp: Let_def z)
qed

text \<open>The 64-bit reader is not the inverse of the 64-bit writer.
  What \<^verbatim>\<open>AddLintToMessage\<close> wrote, \<^verbatim>\<open>GetLintFromMessage\<close> reads with the octets in reverse
  order, so the value 1 comes back as 2^56.\<close>

theorem add_lint_get_lint_reverses:
  "(\<exists>v. GetLintFromMessage (payload (AddLintToMessage w InitializeENIPMessage)) = Some (v, [])
      \<and> le64 v = rev (le64 w))
   \<and> GetLintFromMessage (payload (AddLintToMessage 1 InitializeENIPMessage))
      = Some (0x0100000000000000, [])"
proof
  have p: "payload (AddLintToMessage u InitializeENIPMessage) = le64 u" for u
    by (simp add: enc append_octets_Initialize PC_OPENER_ETHERNET_BUFFER_SIZE_def)
  show "\<exists>v. GetLintFromMessage (payload (AddLintToMessage w InitializeENIPMessage)) = Some (v, [])
      \<and> le64 v = rev (le64 w)"
    by (simp add: p le64_def [of w] GetLint_Cons le64_join64)
  have "le64 1 = [1, 0, 0, 0, 0, 0, 0, 0]" by code_simp
  moreover have "join64 0 0 0 0 0 0 0 1 = 0x0100000000000000" by (simp add: join64_def)
  ultimately show "GetLintFromMessage (payload (AddLintToMessage 1 InitializeENIPMessage))
      = Some (0x0100000000000000, [])"
    by (simp add: p GetLint_Cons)
qed
end
