(* ===== verification/Linked_List.thy ===== *)
theory Linked_List
  imports Prelude
begin

text \<open>
  \<^verbatim>\<open>utils/doublylinkedlist.[ch]\<close>: the pointer list that holds the open connections.

  The memory of the list is an explicit array of nodes; a node pointer is an index into
  it, \<^verbatim>\<open>NULL\<close> is \<open>None\<close>, and following \<^verbatim>\<open>NULL\<close> or a pointer outside the array is an
  abnormal end.  The allocator and the deallocator are the two function pointers the
  list was initialised with; they are arguments of the operations here, and the locale
  \<open>node_pool\<close> states what the list code relies on.
\<close>

section \<open>Nodes and the list object\<close>

record 'd node =
  previous :: "nat option"
  "next" :: "nat option"
  data :: "'d option"

record 'd dll =
  nodes :: "'d node list"
  first :: "nat option"
  last :: "nat option"
  attached :: bool  \<comment> \<open>the two function pointers are not \<^verbatim>\<open>NULL\<close>\<close>

definition null_node :: "'d node" where
  "null_node = \<lparr>previous = None, next = None, data = None\<rparr>"

type_synonym 'd allocator = "'d node list \<Rightarrow> nat option"
type_synonym 'd deallocator = "nat \<Rightarrow> 'd node list \<Rightarrow> 'd node list"

text \<open>\<open>node_of a s\<close> is the access \<^verbatim>\<open>*a\<close>, \<open>assign a f s\<close> a store into that node.\<close>

definition node_of :: "nat option \<Rightarrow> 'd dll \<Rightarrow> 'd node option" where
  "node_of p s = do { a \<leftarrow> p; if a < length (nodes s) then Some (nodes s ! a) else None }"

definition assign :: "nat option \<Rightarrow> ('d node \<Rightarrow> 'd node) \<Rightarrow> 'd dll \<Rightarrow> 'd dll option" where
  "assign p f s = do {
     a \<leftarrow> p;
     if a < length (nodes s) then Some (s\<lparr>nodes := (nodes s)[a := f (nodes s ! a)]\<rparr>)
     else None }"

section \<open>Operations\<close>

definition DoublyLinkedListInitialize :: "'d node list \<Rightarrow> 'd dll" where
  "DoublyLinkedListInitialize memory =
     \<lparr>nodes = memory, first = None, last = None, attached = True\<rparr>"

definition DoublyLinkedListNodeCreate ::
    "'d allocator \<Rightarrow> 'd \<Rightarrow> 'd dll \<Rightarrow> (nat \<times> 'd dll) option" where
  "DoublyLinkedListNodeCreate allocator d s = do {
     let new_node = allocator (nodes s);
     s \<leftarrow> assign new_node (\<lambda>n. n\<lparr>data := Some d\<rparr>) s;
     a \<leftarrow> new_node;
     Some (a, s) }"

definition DoublyLinkedListNodeDestroy ::
    "'d deallocator \<Rightarrow> nat \<Rightarrow> 'd dll \<Rightarrow> 'd dll option" where
  "DoublyLinkedListNodeDestroy deallocator a s = do {
     c_assert (attached s);
     Some (s\<lparr>nodes := deallocator a (nodes s)\<rparr>) }"

definition DoublyLinkedListInsertAtHead ::
    "'d allocator \<Rightarrow> 'd \<Rightarrow> 'd dll \<Rightarrow> 'd dll option" where
  "DoublyLinkedListInsertAtHead allocator d s = do {
     c_assert (attached s);
     (new_node, s) \<leftarrow> DoublyLinkedListNodeCreate allocator d s;
     if first s = None then
       Some (s\<lparr>first := Some new_node, last := Some new_node\<rparr>)
     else do {
       s \<leftarrow> assign (Some new_node) (\<lambda>n. n\<lparr>next := first s\<rparr>) s;
       s \<leftarrow> assign (first s) (\<lambda>n. n\<lparr>previous := Some new_node\<rparr>) s;
       Some (s\<lparr>first := Some new_node\<rparr>) } }"

definition DoublyLinkedListInsertAtTail ::
    "'d allocator \<Rightarrow> 'd \<Rightarrow> 'd dll \<Rightarrow> 'd dll option" where
  "DoublyLinkedListInsertAtTail allocator d s = do {
     c_assert (attached s);
     (new_node, s) \<leftarrow> DoublyLinkedListNodeCreate allocator d s;
     if last s = None then
       Some (s\<lparr>first := Some new_node, last := Some new_node\<rparr>)
     else do {
       s \<leftarrow> assign (Some new_node) (\<lambda>n. n\<lparr>previous := last s\<rparr>) s;
       s \<leftarrow> assign (last s) (\<lambda>n. n\<lparr>next := Some new_node\<rparr>) s;
       Some (s\<lparr>last := Some new_node\<rparr>) } }"

definition DoublyLinkedListInsertBeforeNode ::
    "'d allocator \<Rightarrow> nat \<Rightarrow> 'd \<Rightarrow> 'd dll \<Rightarrow> 'd dll option" where
  "DoublyLinkedListInsertBeforeNode allocator nd d s = do {
     c_assert (attached s);
     if first s = Some nd then DoublyLinkedListInsertAtHead allocator d s
     else do {
       (new_node, s) \<leftarrow> DoublyLinkedListNodeCreate allocator d s;
       n \<leftarrow> node_of (Some nd) s;
       s \<leftarrow> assign (Some new_node) (\<lambda>m. m\<lparr>previous := previous n\<rparr>) s;
       s \<leftarrow> assign (Some new_node) (\<lambda>m. m\<lparr>next := Some nd\<rparr>) s;
       s \<leftarrow> assign (Some nd) (\<lambda>m. m\<lparr>previous := Some new_node\<rparr>) s;
       n \<leftarrow> node_of (Some new_node) s;
       assign (previous n) (\<lambda>m. m\<lparr>next := Some new_node\<rparr>) s } }"

definition DoublyLinkedListInsertAfterNode ::
    "'d allocator \<Rightarrow> nat \<Rightarrow> 'd \<Rightarrow> 'd dll \<Rightarrow> 'd dll option" where
  "DoublyLinkedListInsertAfterNode allocator nd d s = do {
     c_assert (attached s);
     if last s = Some nd then DoublyLinkedListInsertAtTail allocator d s
     else do {
       (new_node, s) \<leftarrow> DoublyLinkedListNodeCreate allocator d s;
       s \<leftarrow> assign (Some new_node) (\<lambda>m. m\<lparr>previous := Some nd\<rparr>) s;
       n \<leftarrow> node_of (Some nd) s;
       s \<leftarrow> assign (Some new_node) (\<lambda>m. m\<lparr>next := next n\<rparr>) s;
       n \<leftarrow> node_of (Some nd) s;
       s \<leftarrow> assign (next n) (\<lambda>m. m\<lparr>previous := Some new_node\<rparr>) s;
       assign (Some nd) (\<lambda>m. m\<lparr>next := Some new_node\<rparr>) s } }"

definition DoublyLinkedListRemoveNode ::
    "'d deallocator \<Rightarrow> nat \<Rightarrow> 'd dll \<Rightarrow> 'd dll option" where
  "DoublyLinkedListRemoveNode deallocator nd s = do {
     n \<leftarrow> node_of (Some nd) s;
     let prv = previous n;
     let nxt = next n;
     s \<leftarrow> (if first s = Some nd \<and> last s = Some nd then
             Some (s\<lparr>first := None, last := None\<rparr>)
           else do {
             let s = (if first s = Some nd then s\<lparr>first := nxt\<rparr> else s);
             let s = (if last s = Some nd then s\<lparr>last := prv\<rparr> else s);
             s \<leftarrow> (if prv \<noteq> None then assign prv (\<lambda>m. m\<lparr>next := nxt\<rparr>) s else Some s);
             if nxt \<noteq> None then assign nxt (\<lambda>m. m\<lparr>previous := prv\<rparr>) s else Some s });
     DoublyLinkedListNodeDestroy deallocator nd s }"

text \<open>The loop of \<^verbatim>\<open>DoublyLinkedListDestroy\<close>; \<open>fuel\<close> bounds its iterations and running
  out of it is an abnormal end, so the lemmas below prove that it returns.\<close>

fun destroy_from :: "nat \<Rightarrow> 'd deallocator \<Rightarrow> nat option \<Rightarrow> 'd dll \<Rightarrow> 'd dll option" where
  "destroy_from 0 deallocator iterator s = (if iterator = None then Some s else None)"
| "destroy_from (Suc fuel) deallocator iterator s =
     (case iterator of
        None \<Rightarrow> Some s
      | Some to_delete \<Rightarrow> do {
          n \<leftarrow> node_of (Some to_delete) s;
          s \<leftarrow> DoublyLinkedListNodeDestroy deallocator to_delete s;
          destroy_from fuel deallocator (next n) s })"

definition DoublyLinkedListDestroy ::
    "nat \<Rightarrow> 'd deallocator \<Rightarrow> 'd dll \<Rightarrow> 'd dll option" where
  "DoublyLinkedListDestroy fuel deallocator s = do {
     s \<leftarrow> destroy_from fuel deallocator (first s) s;
     Some (s\<lparr>first := None, last := None, attached := False\<rparr>) }"

section \<open>The list a heap represents\<close>

text \<open>\<open>seg h p xs q\<close>: the nodes \<open>xs\<close> are chained in both directions, the first one's
  \<^verbatim>\<open>previous\<close> is \<open>p\<close> and the last one's \<^verbatim>\<open>next\<close> is \<open>q\<close>.\<close>

definition head_or :: "nat list \<Rightarrow> nat option \<Rightarrow> nat option" where
  "head_or xs q = (case xs of [] \<Rightarrow> q | x # _ \<Rightarrow> Some x)"

definition last_or :: "nat option \<Rightarrow> nat list \<Rightarrow> nat option" where
  "last_or p xs = (if xs = [] then p else Some (List.last xs))"

lemma head_or_simps [simp]: "head_or [] q = q" "head_or (x # xs) q = Some x"
  by (simp_all add: head_or_def)

lemma last_or_simps [simp]: "last_or p [] = p" "last_or p (xs @ [x]) = Some x"
  by (simp_all add: last_or_def)

lemma last_or_Cons [simp]: "last_or p (x # xs) = last_or (Some x) xs"
  by (simp add: last_or_def)

lemma head_or_append [simp]: "head_or (xs @ ys) q = head_or xs (head_or ys q)"
  by (cases xs) simp_all

lemma last_or_append [simp]: "last_or p (xs @ ys) = last_or (last_or p xs) ys"
  by (simp add: last_or_def)

lemma head_or_None_iff: "head_or xs None = None \<longleftrightarrow> xs = []"
  by (cases xs) simp_all

lemma last_or_None_iff: "last_or None xs = None \<longleftrightarrow> xs = []"
  by (simp add: last_or_def)

lemma head_or_last_or_mem:
  "head_or xs None = Some a \<Longrightarrow> a \<in> set xs"
  "last_or None xs = Some b \<Longrightarrow> b \<in> set xs"
  by (auto simp: head_or_def last_or_def split: list.splits if_splits)

fun seg :: "'d node list \<Rightarrow> nat option \<Rightarrow> nat list \<Rightarrow> nat option \<Rightarrow> bool" where
  "seg h p [] q \<longleftrightarrow> True"
| "seg h p (a # xs) q \<longleftrightarrow> a < length h \<and> previous (h ! a) = p \<and> next (h ! a) = head_or xs q
     \<and> data (h ! a) \<noteq> None \<and> seg h (Some a) xs q"

lemma seg_append [simp]:
  "seg h p (xs @ ys) q \<longleftrightarrow> seg h p xs (head_or ys q) \<and> seg h (last_or p xs) ys q"
  by (induction xs arbitrary: p) auto

lemma seg_frame [simp]: "a \<notin> set xs \<Longrightarrow> seg (h[a := n]) p xs q \<longleftrightarrow> seg h p xs q"
  by (induction xs arbitrary: p) auto

lemma seg_bound: "seg h p xs q \<Longrightarrow> a \<in> set xs \<Longrightarrow> a < length h"
  by (induction xs arbitrary: p) auto

lemma seg_data: "seg h p xs q \<Longrightarrow> a \<in> set xs \<Longrightarrow> data (h ! a) \<noteq> None"
  by (induction xs arbitrary: p) auto

text \<open>The representation invariant: the chain from \<open>first\<close> to \<open>last\<close>, and every
  node outside the chain all zero, which is how the pool marks a free node.\<close>

definition rep :: "'d dll \<Rightarrow> nat list \<Rightarrow> bool" where
  "rep s xs \<longleftrightarrow> attached s \<and> distinct xs \<and> seg (nodes s) None xs None
     \<and> first s = head_or xs None \<and> last s = last_or None xs
     \<and> (\<forall>a < length (nodes s). a \<notin> set xs \<longrightarrow> nodes s ! a = null_node)"

text \<open>The abstract list: the data of the nodes in chain order.\<close>

definition contents :: "'d dll \<Rightarrow> nat list \<Rightarrow> 'd list" where
  "contents s xs = map (\<lambda>a. the (data (nodes s ! a))) xs"

text \<open>What the list code relies on: the allocator hands out an all-zero node of the
  array if there is one, and the deallocator zeroes the node.\<close>

locale node_pool =
  fixes alloc :: "'d allocator"
    and free :: "'d deallocator"
  assumes alloc_fresh: "alloc h = Some a \<Longrightarrow> a < length h \<and> h ! a = null_node"
    and alloc_None: "alloc h = None \<Longrightarrow> \<forall>n \<in> set h. n \<noteq> null_node"
    and free_zeroes: "free a h = h[a := null_node]"
begin

lemma fresh_notin: "rep s xs \<Longrightarrow> alloc (nodes s) = Some a \<Longrightarrow> a \<notin> set xs"
  using seg_data [of "nodes s" None xs None a] alloc_fresh [of "nodes s" a]
  by (auto simp: rep_def null_node_def)

text \<open>The node just created, seen from the invariant.\<close>

lemma create:
  assumes "rep s xs" "alloc (nodes s) = Some a"
  shows "DoublyLinkedListNodeCreate alloc d s
    = Some (a, s\<lparr>nodes := (nodes s)[a := \<lparr>previous = None, next = None, data = Some d\<rparr>]\<rparr>)"
  using assms alloc_fresh [OF assms(2)]
  by (simp add: DoublyLinkedListNodeCreate_def assign_def Let_def null_node_def)

lemma insert_at_head:
  assumes r: "rep s xs" and a: "alloc (nodes s) = Some a"
  obtains s' where "DoublyLinkedListInsertAtHead alloc d s = Some s'"
    and "rep s' (a # xs)" and "contents s' (a # xs) = d # contents s xs"
    and "length (nodes s') = length (nodes s)"
proof -
  have an: "a \<notin> set xs" and al: "a < length (nodes s)" "nodes s ! a = null_node"
    using fresh_notin [OF r a] alloc_fresh [OF a] by simp_all
  show ?thesis
  proof (cases xs)
    case Nil
    with r al show ?thesis
      by (intro that [of "s\<lparr>nodes := (nodes s)[a := \<lparr>previous = None, next = None, data = Some d\<rparr>],
            first := Some a, last := Some a\<rparr>"])
        (auto simp: DoublyLinkedListInsertAtHead_def create [OF r a] rep_def contents_def nth_list_update)
  next
    case (Cons b ys)
    let ?h = "(nodes s)[a := \<lparr>previous = None, next = Some b, data = Some d\<rparr>,
                        b := (nodes s ! b)\<lparr>previous := Some a\<rparr>]"
    have "DoublyLinkedListInsertAtHead alloc d s = Some (s\<lparr>nodes := ?h, first := Some a\<rparr>)"
      using r al an Cons
      by (auto simp: DoublyLinkedListInsertAtHead_def create [OF r a] rep_def assign_def)
    then show ?thesis
      using r al an Cons
      by (elim that) (auto simp: rep_def contents_def nth_list_update)
  qed
qed

lemma insert_at_tail:
  assumes r: "rep s xs" and a: "alloc (nodes s) = Some a"
  obtains s' where "DoublyLinkedListInsertAtTail alloc d s = Some s'"
    and "rep s' (xs @ [a])" and "contents s' (xs @ [a]) = contents s xs @ [d]"
    and "length (nodes s') = length (nodes s)"
proof -
  have an: "a \<notin> set xs" and al: "a < length (nodes s)" "nodes s ! a = null_node"
    using fresh_notin [OF r a] alloc_fresh [OF a] by simp_all
  show ?thesis
  proof (cases xs rule: rev_cases)
    case Nil
    with r al show ?thesis
      by (intro that [of "s\<lparr>nodes := (nodes s)[a := \<lparr>previous = None, next = None, data = Some d\<rparr>],
            first := Some a, last := Some a\<rparr>"])
        (auto simp: DoublyLinkedListInsertAtTail_def create [OF r a] rep_def contents_def nth_list_update)
  next
    case (snoc ys b)
    let ?h = "(nodes s)[a := \<lparr>previous = Some b, next = None, data = Some d\<rparr>,
                        b := (nodes s ! b)\<lparr>next := Some a\<rparr>]"
    have "DoublyLinkedListInsertAtTail alloc d s = Some (s\<lparr>nodes := ?h, last := Some a\<rparr>)"
      using r al an snoc
      by (auto simp: DoublyLinkedListInsertAtTail_def create [OF r a] rep_def assign_def)
    then show ?thesis
      using r al an snoc
      by (elim that) (auto simp: rep_def contents_def nth_list_update)
  qed
qed

lemma insert_before:
  assumes r: "rep s (ys @ b # zs)" and a: "alloc (nodes s) = Some a"
  obtains s' where "DoublyLinkedListInsertBeforeNode alloc b d s = Some s'"
    and "rep s' (ys @ a # b # zs)"
    and "contents s' (ys @ a # b # zs) = contents s ys @ d # contents s (b # zs)"
proof (cases ys rule: rev_cases)
  case Nil
  have f: "first s = Some b" and att: "attached s"
    using r Nil by (simp_all add: rep_def)
  obtain s' where "DoublyLinkedListInsertAtHead alloc d s = Some s'"
    "rep s' (a # b # zs)" "contents s' (a # b # zs) = d # contents s (b # zs)"
    using insert_at_head [OF r a] Nil by auto
  then show ?thesis
    using Nil f att by (intro that [of s'])
      (simp_all add: DoublyLinkedListInsertBeforeNode_def contents_def)
next
  case (snoc us c)
  have an: "a \<notin> set (ys @ b # zs)" and al: "a < length (nodes s)" "nodes s ! a = null_node"
    using fresh_notin [OF r a] alloc_fresh [OF a] by simp_all
  have f: "first s \<noteq> Some b"
    using r snoc head_or_last_or_mem(1) [of us b] by (cases us) (auto simp: rep_def)
  let ?h = "(nodes s)[a := \<lparr>previous = Some c, next = Some b, data = Some d\<rparr>,
                      b := (nodes s ! b)\<lparr>previous := Some a\<rparr>,
                      c := (nodes s ! c)\<lparr>next := Some a\<rparr>]"
  have "DoublyLinkedListInsertBeforeNode alloc b d s = Some (s\<lparr>nodes := ?h\<rparr>)"
    using r al an snoc f
    by (auto simp: DoublyLinkedListInsertBeforeNode_def create [OF r a] rep_def assign_def
        node_of_def)
  then show ?thesis
    using r al an snoc
    by (elim that) (auto simp: rep_def contents_def nth_list_update)
qed

lemma insert_after:
  assumes r: "rep s (ys @ b # zs)" and a: "alloc (nodes s) = Some a"
  obtains s' where "DoublyLinkedListInsertAfterNode alloc b d s = Some s'"
    and "rep s' (ys @ b # a # zs)"
    and "contents s' (ys @ b # a # zs) = contents s (ys @ [b]) @ d # contents s zs"
proof (cases zs)
  case Nil
  have f: "last s = Some b" and att: "attached s"
    using r Nil by (simp_all add: rep_def)
  obtain s' where "DoublyLinkedListInsertAtTail alloc d s = Some s'"
    "rep s' (ys @ [b, a])" "contents s' (ys @ [b, a]) = contents s (ys @ [b]) @ [d]"
    using insert_at_tail [OF r a] Nil by auto
  then show ?thesis
    using Nil f att by (intro that [of s'])
      (simp_all add: DoublyLinkedListInsertAfterNode_def contents_def)
next
  case (Cons c us)
  have an: "a \<notin> set (ys @ b # zs)" and al: "a < length (nodes s)" "nodes s ! a = null_node"
    using fresh_notin [OF r a] alloc_fresh [OF a] by simp_all
  have f: "last s \<noteq> Some b"
    using r Cons head_or_last_or_mem(2) [of us b] by (auto simp: rep_def last_or_def split: if_splits)
  let ?h = "(nodes s)[a := \<lparr>previous = Some b, next = Some c, data = Some d\<rparr>,
                      c := (nodes s ! c)\<lparr>previous := Some a\<rparr>,
                      b := (nodes s ! b)\<lparr>next := Some a\<rparr>]"
  have "DoublyLinkedListInsertAfterNode alloc b d s = Some (s\<lparr>nodes := ?h\<rparr>)"
    using r al an Cons f
    by (auto simp: DoublyLinkedListInsertAfterNode_def create [OF r a] rep_def assign_def
        node_of_def)
  then show ?thesis
    using r al an Cons
    by (elim that) (auto simp: rep_def contents_def nth_list_update)
qed

text \<open>Removal also leaves the freed node with a null \<^verbatim>\<open>next\<close>: a loop that advances through
  the node it has just removed stops there.\<close>

lemma remove:
  assumes r: "rep s (ys @ b # zs)"
  obtains s' where "DoublyLinkedListRemoveNode free b s = Some s'"
    and "rep s' (ys @ zs)" and "contents s' (ys @ zs) = contents s (ys @ zs)"
    and "next (nodes s' ! b) = None" and "length (nodes s') = length (nodes s)"
proof (cases ys rule: rev_cases)
  case Nil
  note ys = this
  show ?thesis
  proof (cases zs)
    case Nil
    have "DoublyLinkedListRemoveNode free b s
      = Some (s\<lparr>nodes := (nodes s)[b := null_node], first := None, last := None\<rparr>)"
      using r ys Nil
      by (auto simp: DoublyLinkedListRemoveNode_def DoublyLinkedListNodeDestroy_def rep_def
          node_of_def free_zeroes Let_def)
    then show ?thesis
      using r ys Nil
      by (elim that) (auto simp: rep_def contents_def nth_list_update null_node_def)
  next
    case (Cons c us)
    let ?h = "(nodes s)[c := (nodes s ! c)\<lparr>previous := None\<rparr>, b := null_node]"
    have "DoublyLinkedListRemoveNode free b s = Some (s\<lparr>nodes := ?h, first := Some c\<rparr>)"
      using r ys Cons
      by (auto simp: DoublyLinkedListRemoveNode_def DoublyLinkedListNodeDestroy_def rep_def
          node_of_def free_zeroes Let_def assign_def last_or_def split: if_splits)
    then show ?thesis
      using r ys Cons
      by (elim that) (auto simp: rep_def contents_def nth_list_update null_node_def)
  qed
next
  case (snoc us c)
  note ys = this
  have f: "first s \<noteq> Some b"
    using r snoc head_or_last_or_mem(1) [of us b] by (cases us) (auto simp: rep_def)
  show ?thesis
  proof (cases zs)
    case Nil
    let ?h = "(nodes s)[c := (nodes s ! c)\<lparr>next := None\<rparr>, b := null_node]"
    have "DoublyLinkedListRemoveNode free b s = Some (s\<lparr>nodes := ?h, last := Some c\<rparr>)"
      using r ys Nil f
      by (auto simp: DoublyLinkedListRemoveNode_def DoublyLinkedListNodeDestroy_def rep_def
          node_of_def free_zeroes Let_def assign_def)
    then show ?thesis
      using r ys Nil
      by (elim that) (auto simp: rep_def contents_def nth_list_update null_node_def)
  next
    case (Cons e vs)
    have l: "last s \<noteq> Some b"
      using r Cons head_or_last_or_mem(2) [of vs b]
      by (auto simp: rep_def last_or_def split: if_splits)
    let ?h = "(nodes s)[c := (nodes s ! c)\<lparr>next := Some e\<rparr>,
                        e := (nodes s ! e)\<lparr>previous := Some c\<rparr>, b := null_node]"
    have "DoublyLinkedListRemoveNode free b s = Some (s\<lparr>nodes := ?h\<rparr>)"
      using r ys Cons f l
      by (auto simp: DoublyLinkedListRemoveNode_def DoublyLinkedListNodeDestroy_def rep_def
          node_of_def free_zeroes Let_def assign_def)
    then show ?thesis
      using r ys Cons
      by (elim that) (auto simp: rep_def contents_def nth_list_update null_node_def)
  qed
qed

lemma destroy_from_frees:
  assumes "attached s" "seg (nodes s) p xs None" "distinct xs" "length xs \<le> fuel"
  shows "\<exists>h. destroy_from fuel free (head_or xs None) s = Some (s\<lparr>nodes := h\<rparr>)
    \<and> length h = length (nodes s)
    \<and> (\<forall>a < length h. h ! a = (if a \<in> set xs then null_node else nodes s ! a))"
  using assms
proof (induction xs arbitrary: p s fuel)
  case Nil
  then show ?case
    by (intro exI [of _ "nodes s"]) (cases fuel; simp)
next
  case (Cons a xs)
  then obtain f where f: "fuel = Suc f" "length xs \<le> f"
    by (cases fuel) auto
  let ?s = "s\<lparr>nodes := (nodes s)[a := null_node]\<rparr>"
  have "attached ?s" "seg (nodes ?s) (Some a) xs None" "distinct xs"
    using Cons.prems by auto
  from Cons.IH [OF this f(2)] obtain h where
    h: "destroy_from f free (head_or xs None) ?s = Some (?s\<lparr>nodes := h\<rparr>)"
      "length h = length (nodes s)"
      "\<forall>b < length h. h ! b = (if b \<in> set xs then null_node else nodes ?s ! b)"
    by auto
  have "destroy_from fuel free (Some a) s = destroy_from f free (head_or xs None) ?s"
    using Cons.prems f(1)
    by (simp add: node_of_def DoublyLinkedListNodeDestroy_def free_zeroes)
  with h show ?case
    by (intro exI [of _ h]) (auto simp: nth_list_update)
qed

lemma destroy:
  assumes r: "rep s xs" and fuel: "length xs \<le> fuel"
  obtains s' where "DoublyLinkedListDestroy fuel free s = Some s'"
    and "first s' = None" "last s' = None" "\<not> attached s'"
    and "nodes s' = replicate (length (nodes s)) null_node"
proof -
  have "attached s" "seg (nodes s) None xs None" "distinct xs"
    and f: "first s = head_or xs None"
    and z: "\<forall>a < length (nodes s). a \<notin> set xs \<longrightarrow> nodes s ! a = null_node"
    using r by (simp_all add: rep_def)
  from destroy_from_frees [OF this(1-3) fuel] obtain h where
    h: "destroy_from fuel free (head_or xs None) s = Some (s\<lparr>nodes := h\<rparr>)"
      "length h = length (nodes s)"
      "\<forall>a < length h. h ! a = (if a \<in> set xs then null_node else nodes s ! a)"
    by blast
  have "h = replicate (length (nodes s)) null_node"
    using h(2,3) z by (intro nth_equalityI) auto
  with h(1) f show ?thesis
    by (intro that [of "s\<lparr>nodes := h, first := None, last := None, attached := False\<rparr>"])
      (simp_all add: DoublyLinkedListDestroy_def)
qed

lemma initialize: "rep (DoublyLinkedListInitialize (replicate n null_node)) []"
  by (simp add: rep_def DoublyLinkedListInitialize_def)

text \<open>With no free node left, creating one follows the null pointer the allocator
  returned.\<close>

lemma insert_exhausted:
  "alloc (nodes s) = None \<Longrightarrow> DoublyLinkedListInsertAtHead alloc d s = None"
  "alloc (nodes s) = None \<Longrightarrow> DoublyLinkedListInsertAtTail alloc d s = None"
  by (simp_all add: DoublyLinkedListInsertAtHead_def DoublyLinkedListInsertAtTail_def
      DoublyLinkedListNodeCreate_def assign_def Let_def bind_None_iff)

lemma alloc_Some_if_room:
  assumes r: "rep s xs" and "length xs < length (nodes s)"
  shows "\<exists>a. alloc (nodes s) = Some a"
proof (rule ccontr)
  assume "\<nexists>a. alloc (nodes s) = Some a"
  then have none: "\<forall>n \<in> set (nodes s). n \<noteq> null_node"
    using alloc_None by (cases "alloc (nodes s)") auto
  then have "{..<length (nodes s)} \<subseteq> set xs"
    using r by (force simp: rep_def)
  then have "length (nodes s) \<le> card (set xs)"
    using card_mono [of "set xs" "{..<length (nodes s)}"] by simp
  also have "card (set xs) \<le> length xs"
    by (rule card_length)
  finally show False
    using assms(2) by simp
qed

lemma alloc_None_if_full:
  assumes r: "rep s xs" and "length (nodes s) \<le> length xs"
  shows "alloc (nodes s) = None"
proof (cases "alloc (nodes s)")
  case (Some a)
  have "a \<notin> set xs" "a < length (nodes s)"
    using fresh_notin [OF r Some] alloc_fresh [OF Some] by simp_all
  moreover have "set xs \<subseteq> {..<length (nodes s)}"
    using r seg_bound by (fastforce simp: rep_def)
  ultimately have "set xs \<subset> {..<length (nodes s)}"
    by auto
  then have "card (set xs) < length (nodes s)"
    using psubset_card_mono [of "{..<length (nodes s)}" "set xs"] by simp
  then show ?thesis
    using r assms(2) by (simp add: rep_def distinct_card)
qed simp

end

end
