(* ===== verification/Cip_Types.thy ===== *)
theory Cip_Types
  imports Endian
begin

text \<open>
  The data of \<^verbatim>\<open>cip/ciptypes.h\<close>, \<^verbatim>\<open>cip/ciperror.h\<close> and \<^verbatim>\<open>cip/cipepath.h\<close> that several
  components share: paths, the message router's request and response, strings.
\<close>

section \<open>Paths\<close>

record CipEpath =
  path_size :: u8
  class_id :: u16
  instance_number :: u16
  attribute_number :: u16

record CipConnectionPathEpath =
  epath_class_id :: u32
  epath_instance_id :: u16
  epath_attribute_id_or_connection_point :: u32

definition zero_epath :: CipConnectionPathEpath where
  "zero_epath = \<lparr>epath_class_id = 0, epath_instance_id = 0,
     epath_attribute_id_or_connection_point = 0\<rparr>"

section \<open>Strings\<close>

text \<open>A string structure owns a block of octets; \<open>None\<close> is the null pointer.\<close>

record CipString =
  string_length :: u16
  string_octets :: "buf option"

record CipShortString =
  short_string_length :: u8
  short_string_octets :: "buf option"

section \<open>Message router request and response\<close>

text \<open>The request's \<^verbatim>\<open>data\<close> pointer is the octets it gives access to.\<close>

record CipMessageRouterRequest =
  service :: u8
  request_path :: CipEpath
  request_data_size :: size_t
  request_data :: buf

record CipMessageRouterResponse =
  reply_service :: u8
  reserved :: u8
  general_status :: u8
  size_of_additional_status :: u8
  additional_status :: "u16 list"
  message :: ENIPMessage

definition MAX_SIZE_OF_ADD_STATUS :: nat where
  "MAX_SIZE_OF_ADD_STATUS = 2"

text \<open>\<^verbatim>\<open>memset\<close> to zero, then \<open>InitializeENIPMessage\<close> on the message.\<close>

definition InitializeMessageRouterResponse :: CipMessageRouterResponse where
  "InitializeMessageRouterResponse =
     \<lparr>reply_service = 0, reserved = 0, general_status = 0, size_of_additional_status = 0,
      additional_status = replicate MAX_SIZE_OF_ADD_STATUS 0,
      message = InitializeENIPMessage\<rparr>"

end
