(* ===== verification/Electronic_Key.thy ===== *)
theory Electronic_Key
  imports Endian
begin

unbundle bit_operations_syntax

text \<open>
  \<^verbatim>\<open>cip/cipelectronickey.[ch]\<close>: the key by which an originator says which device it
  expects.  A key of format 4 is the record below; the untyped \<^verbatim>\<open>key_data\<close> pointer of
  \<^verbatim>\<open>CipElectronicKey\<close> is an optional such record.
\<close>

record ElectronicKeyFormat4 =
  vendor_id :: u16
  device_type :: u16
  product_code :: u16
  major_revision_compatibility :: u8
  minor_revision :: u8

record CipElectronicKey =
  key_format :: u8
  key_data :: "ElectronicKeyFormat4 option"

definition ElectronicKeySetKeyFormat :: "u8 \<Rightarrow> CipElectronicKey \<Rightarrow> CipElectronicKey" where
  "ElectronicKeySetKeyFormat f electronic_key = electronic_key\<lparr>key_format := f\<rparr>"

definition ElectronicKeyGetKeyFormat :: "CipElectronicKey \<Rightarrow> u16" where
  "ElectronicKeyGetKeyFormat electronic_key = ucast (key_format electronic_key)"

definition ElectronicKeySetKeyData ::
    "ElectronicKeyFormat4 option \<Rightarrow> CipElectronicKey \<Rightarrow> CipElectronicKey" where
  "ElectronicKeySetKeyData d electronic_key = electronic_key\<lparr>key_data := d\<rparr>"

definition ElectronicKeyGetKeyData :: "CipElectronicKey \<Rightarrow> ElectronicKeyFormat4 option" where
  "ElectronicKeyGetKeyData electronic_key = key_data electronic_key"

text \<open>\<^verbatim>\<open>calloc\<close>: all fields zero; that the 10 octets are there is taken as given.\<close>

definition ElectronicKeyFormat4New :: ElectronicKeyFormat4 where
  "ElectronicKeyFormat4New = \<lparr>vendor_id = 0, device_type = 0, product_code = 0,
     major_revision_compatibility = 0, minor_revision = 0\<rparr>"

definition ElectronicKeyFormat4SetVendorId ::
    "u16 \<Rightarrow> ElectronicKeyFormat4 \<Rightarrow> ElectronicKeyFormat4" where
  "ElectronicKeyFormat4SetVendorId v k = k\<lparr>vendor_id := v\<rparr>"

definition ElectronicKeyFormat4GetVendorId :: "ElectronicKeyFormat4 \<Rightarrow> u16" where
  "ElectronicKeyFormat4GetVendorId k = vendor_id k"

definition ElectronicKeyFormat4SetDeviceType ::
    "u16 \<Rightarrow> ElectronicKeyFormat4 \<Rightarrow> ElectronicKeyFormat4" where
  "ElectronicKeyFormat4SetDeviceType v k = k\<lparr>device_type := v\<rparr>"

definition ElectronicKeyFormat4GetDeviceType :: "ElectronicKeyFormat4 \<Rightarrow> u16" where
  "ElectronicKeyFormat4GetDeviceType k = device_type k"

definition ElectronicKeyFormat4SetProductCode ::
    "u16 \<Rightarrow> ElectronicKeyFormat4 \<Rightarrow> ElectronicKeyFormat4" where
  "ElectronicKeyFormat4SetProductCode v k = k\<lparr>product_code := v\<rparr>"

definition ElectronicKeyFormat4GetProductCode :: "ElectronicKeyFormat4 \<Rightarrow> u16" where
  "ElectronicKeyFormat4GetProductCode k = product_code k"

definition ElectronicKeyFormat4SetMajorRevisionCompatibility ::
    "u8 \<Rightarrow> ElectronicKeyFormat4 \<Rightarrow> ElectronicKeyFormat4" where
  "ElectronicKeyFormat4SetMajorRevisionCompatibility v k = k\<lparr>major_revision_compatibility := v\<rparr>"

definition ElectronicKeyFormat4GetMajorRevision :: "ElectronicKeyFormat4 \<Rightarrow> u8" where
  "ElectronicKeyFormat4GetMajorRevision k = major_revision_compatibility k AND 0x7F"

definition ElectronicKeyFormat4GetMajorRevisionCompatibility ::
    "ElectronicKeyFormat4 \<Rightarrow> bool" where
  "ElectronicKeyFormat4GetMajorRevisionCompatibility k \<longleftrightarrow>
     0x80 = major_revision_compatibility k AND 0x80"

definition ElectronicKeyFormat4SetMinorRevision ::
    "u8 \<Rightarrow> ElectronicKeyFormat4 \<Rightarrow> ElectronicKeyFormat4" where
  "ElectronicKeyFormat4SetMinorRevision v k = k\<lparr>minor_revision := v\<rparr>"

definition ElectronicKeyFormat4GetMinorRevision :: "ElectronicKeyFormat4 \<Rightarrow> u8" where
  "ElectronicKeyFormat4GetMinorRevision k = minor_revision k"

lemmas key_defs =
  ElectronicKeySetKeyFormat_def ElectronicKeyGetKeyFormat_def ElectronicKeySetKeyData_def
  ElectronicKeyGetKeyData_def ElectronicKeyFormat4SetVendorId_def
  ElectronicKeyFormat4GetVendorId_def ElectronicKeyFormat4SetDeviceType_def
  ElectronicKeyFormat4GetDeviceType_def ElectronicKeyFormat4SetProductCode_def
  ElectronicKeyFormat4GetProductCode_def ElectronicKeyFormat4SetMajorRevisionCompatibility_def
  ElectronicKeyFormat4SetMinorRevision_def ElectronicKeyFormat4GetMinorRevision_def

text \<open>The compatibility bit and the major revision are the two parts of one octet.\<close>

lemma octet_split_top:
  "(if 0x80 = x AND 0x80 then 0x80 else 0) OR x AND 0x7F = x" for x :: u8
proof -
  have top: "(0x80 :: u8) = push_bit 7 1" and low: "(0x7F :: u8) = mask 7"
    by (simp_all add: mask_eq_exp_minus_1)
  have "(if bit x 7 then push_bit 7 1 else 0) OR x AND mask 7 = x"
    by (rule bit_word_eqI) (auto simp: bit_simps less_Suc_eq eval_nat_numeral)
  then show ?thesis
    unfolding top low and_single_bit by (auto split: if_splits)
qed

lemma major_revision_split:
  "(if ElectronicKeyFormat4GetMajorRevisionCompatibility k then 0x80 else 0)
     OR ElectronicKeyFormat4GetMajorRevision k = major_revision_compatibility k"
  by (simp only: ElectronicKeyFormat4GetMajorRevisionCompatibility_def
      ElectronicKeyFormat4GetMajorRevision_def octet_split_top)

end
