(* ===== verification/Epath.thy ===== *)
theory Epath
  imports Cip_Types Electronic_Key
begin

unbundle bit_operations_syntax

text \<open>
  \<^verbatim>\<open>cip/cipepath.[ch]\<close>: reading and building the segments of an EPATH.  A path is the
  octets its pointer gives access to; the functions look at its first octets.  The
  assertions of the code are kept, so a function applied to a segment of another kind
  ends abnormally (\<open>None\<close>).
\<close>

section \<open>Segment kinds (cipepath.h)\<close>

datatype SegmentType =
    kSegmentTypePortSegment | kSegmentTypeLogicalSegment | kSegmentTypeNetworkSegment
  | kSegmentTypeSymbolicSegment | kSegmentTypeDataSegment | kSegmentTypeDataTypeConstructed
  | kSegmentTypeDataTypeElementary | kSegmentTypeReserved | kSegmentTypeInvalid

datatype LogicalSegmentLogicalType =
    kLogicalSegmentLogicalTypeClassId | kLogicalSegmentLogicalTypeInstanceId
  | kLogicalSegmentLogicalTypeMemberId | kLogicalSegmentLogicalTypeConnectionPoint
  | kLogicalSegmentLogicalTypeAttributeId | kLogicalSegmentLogicalTypeSpecial
  | kLogicalSegmentLogicalTypeServiceId | kLogicalSegmentLogicalTypeExtendedLogical
  | kLogicalSegmentLogicalTypeInvalid

datatype LogicalSegmentExtendedLogicalType =
    kLogicalSegmentExtendedLogicalTypeReserved
  | kLogicalSegmentExtendedLogicalTypeArrayIndex
  | kLogicalSegmentExtendedLogicalTypeIndirectArrayIndex
  | kLogicalSegmentExtendedLogicalTypeBitIndex
  | kLogicalSegmentExtendedLogicalTypeIndirectBitIndex
  | kLogicalSegmentExtendedLogicalTypeStructureMemberNumber
  | kLogicalSegmentExtendedLogicalTypeStructureMemberHandle
  | kLogicalSegmentExtendedLogicalTypeInvalid

datatype LogicalSegmentLogicalFormat =
    kLogicalSegmentLogicalFormatEightBit | kLogicalSegmentLogicalFormatSixteenBit
  | kLogicalSegmentLogicalFormatThirtyTwoBit | kLogicalSegmentLogicalFormatInvalid

datatype LogicalSegmentSpecialTypeLogicalFormat =
    kLogicalSegmentSpecialTypeLogicalFormatReserved
  | kLogicalSegmentSpecialTypeLogicalFormatElectronicKey

datatype ElectronicKeySegmentFormat =
    kElectronicKeySegmentFormatReserved | kElectronicKeySegmentFormatKeyFormat4

datatype NetworkSegmentSubtype =
    kNetworkSegmentSubtypeReserved | kNetworkSegmentSubtypeScheduleSegment
  | kNetworkSegmentSubtypeFixedTagSegment
  | kNetworkSegmentSubtypeProductionInhibitTimeInMilliseconds
  | kNetworkSegmentSubtypeSafetySegment
  | kNetworkSegmentSubtypeProductionInhibitTimeInMicroseconds
  | kNetworkSegmentSubtypeExtendedNetworkSegment

datatype DataSegmentSubtype =
    kDataSegmentSubtypeReserved | kDataSegmentSubtypeSimpleData
  | kDataSegmentSubtypeANSIExtendedSymbol

datatype SymbolicSegmentFormat =
    kSymbolicSegmentFormatASCII | kSymbolicSegmentFormatExtendedString

datatype SymbolicSegmentExtendedFormat =
    kSymbolicSegmentExtendedFormatDoubleByteChars
  | kSymbolicSegmentExtendedFormatTripleByteChars
  | kSymbolicSegmentExtendedFormatNumericSymbolUSINT
  | kSymbolicSegmentExtendedFormatNumericSymbolUINT
  | kSymbolicSegmentExtendedFormatNumericSymbolUDINT
  | kSymbolicSegmentExtendedFormatReserved

section \<open>Any segment\<close>

definition GetPathSegmentType :: "buf \<Rightarrow> SegmentType option" where
  "GetPathSegmentType cip_path = do {
     b \<leftarrow> peek cip_path 0;
     let segment_type = b AND 0xE0;
     Some (if segment_type = 0x00 then kSegmentTypePortSegment
       else if segment_type = 0x20 then kSegmentTypeLogicalSegment
       else if segment_type = 0x40 then kSegmentTypeNetworkSegment
       else if segment_type = 0x60 then kSegmentTypeSymbolicSegment
       else if segment_type = 0x80 then kSegmentTypeDataSegment
       else if segment_type = 0xA0 then kSegmentTypeDataTypeConstructed
       else if segment_type = 0xC0 then kSegmentTypeDataTypeElementary
       else if segment_type = 0xE0 then kSegmentTypeReserved
       else kSegmentTypeInvalid) }"

fun SetPathSegmentType :: "SegmentType \<Rightarrow> buf \<Rightarrow> buf option" where
  "SetPathSegmentType kSegmentTypePortSegment cip_path = store cip_path 0 0x00"
| "SetPathSegmentType kSegmentTypeLogicalSegment cip_path = store cip_path 0 0x20"
| "SetPathSegmentType kSegmentTypeNetworkSegment cip_path = store cip_path 0 0x40"
| "SetPathSegmentType kSegmentTypeSymbolicSegment cip_path = store cip_path 0 0x60"
| "SetPathSegmentType kSegmentTypeDataSegment cip_path = store cip_path 0 0x80"
| "SetPathSegmentType kSegmentTypeDataTypeConstructed cip_path = store cip_path 0 0xA0"
| "SetPathSegmentType kSegmentTypeDataTypeElementary cip_path = store cip_path 0 0xC0"
| "SetPathSegmentType kSegmentTypeReserved cip_path = store cip_path 0 0xE0"
| "SetPathSegmentType kSegmentTypeInvalid cip_path = None"

text \<open>\<^verbatim>\<open>(*cip_path) |= x\<close>.\<close>

definition or_first :: "u8 \<Rightarrow> buf \<Rightarrow> buf option" where
  "or_first x cip_path = do { b \<leftarrow> peek cip_path 0; store cip_path 0 (b OR x) }"

text \<open>\<^verbatim>\<open>OPENER_ASSERT(t == GetPathSegmentType(cip_path))\<close>.\<close>

definition assert_segment :: "SegmentType \<Rightarrow> buf \<Rightarrow> unit option" where
  "assert_segment t cip_path = do {
     t' \<leftarrow> GetPathSegmentType cip_path;
     c_assert (t' = t) }"

section \<open>Port segments\<close>

definition GetPathPortSegmentExtendedLinkAddressSizeBit :: "buf \<Rightarrow> bool option" where
  "GetPathPortSegmentExtendedLinkAddressSizeBit cip_path = do {
     b \<leftarrow> peek cip_path 0;
     Some (0x10 = b AND 0x10) }"

definition GetPathPortSegmentPortIdentifier :: "buf \<Rightarrow> u32 option" where
  "GetPathPortSegmentPortIdentifier cip_path = do {
     b \<leftarrow> peek cip_path 0;
     let port_identifier = ucast (b AND 0x0F);
     assert_segment kSegmentTypePortSegment cip_path;
     c_assert (port_identifier \<noteq> 0);
     Some port_identifier }"

definition SetPathPortSegmentPortIdentifier :: "u32 \<Rightarrow> buf \<Rightarrow> buf option" where
  "SetPathPortSegmentPortIdentifier port_identifier cip_path = do {
     c_assert (port_identifier < 16);
     or_first (ucast port_identifier) cip_path }"

definition GetPathPortSegmentLinkAddressSize :: "buf \<Rightarrow> u32 option" where
  "GetPathPortSegmentLinkAddressSize cip_path = do {
     e \<leftarrow> GetPathPortSegmentExtendedLinkAddressSizeBit cip_path;
     c_assert e;
     b \<leftarrow> peek cip_path 1;
     Some (ucast b) }"

definition GetPathPortSegmentExtendedPortNumber :: "buf \<Rightarrow> u32 option" where
  "GetPathPortSegmentExtendedPortNumber cip_path = do {
     i \<leftarrow> GetPathPortSegmentPortIdentifier cip_path;
     c_assert (i = 15);
     e \<leftarrow> GetPathPortSegmentExtendedLinkAddressSizeBit cip_path;
     let kExtendedPortSegmentPosition = (if e then 2 else 1);
     lo \<leftarrow> peek cip_path kExtendedPortSegmentPosition;
     hi \<leftarrow> peek cip_path (kExtendedPortSegmentPosition + 1);
     Some (ucast lo + push_bit 8 (ucast hi)) }"

definition SetPathPortSegmentExtendedPortIdentifier :: "u32 \<Rightarrow> buf \<Rightarrow> buf option" where
  "SetPathPortSegmentExtendedPortIdentifier extended_port_identifier cip_path = do {
     cip_path \<leftarrow> SetPathPortSegmentPortIdentifier 15 cip_path;
     e \<leftarrow> GetPathPortSegmentExtendedLinkAddressSizeBit cip_path;
     let kExtendedPortSegmentPosition = (if e then 2 else 1);
     cip_path \<leftarrow> store cip_path kExtendedPortSegmentPosition
       (ucast (extended_port_identifier AND 0x00FF));
     store cip_path (kExtendedPortSegmentPosition + 1)
       (ucast (drop_bit 8 (extended_port_identifier AND 0xFF00))) }"

section \<open>Logical segments\<close>

definition GetPathLogicalSegmentLogicalType :: "buf \<Rightarrow> LogicalSegmentLogicalType option" where
  "GetPathLogicalSegmentLogicalType cip_path = do {
     assert_segment kSegmentTypeLogicalSegment cip_path;
     b \<leftarrow> peek cip_path 0;
     let logical_type = b AND 0x1C;
     Some (if logical_type = 0x00 then kLogicalSegmentLogicalTypeClassId
       else if logical_type = 0x04 then kLogicalSegmentLogicalTypeInstanceId
       else if logical_type = 0x08 then kLogicalSegmentLogicalTypeMemberId
       else if logical_type = 0x0C then kLogicalSegmentLogicalTypeConnectionPoint
       else if logical_type = 0x10 then kLogicalSegmentLogicalTypeAttributeId
       else if logical_type = 0x14 then kLogicalSegmentLogicalTypeSpecial
       else if logical_type = 0x18 then kLogicalSegmentLogicalTypeServiceId
       else if logical_type = 0x1C then kLogicalSegmentLogicalTypeExtendedLogical
       else kLogicalSegmentLogicalTypeInvalid) }"

fun SetPathLogicalSegmentLogicalType ::
    "LogicalSegmentLogicalType \<Rightarrow> buf \<Rightarrow> buf option" where
  "SetPathLogicalSegmentLogicalType logical_type cip_path = do {
     assert_segment kSegmentTypeLogicalSegment cip_path;
     case logical_type of
       kLogicalSegmentLogicalTypeClassId \<Rightarrow> or_first 0x00 cip_path
     | kLogicalSegmentLogicalTypeInstanceId \<Rightarrow> or_first 0x04 cip_path
     | kLogicalSegmentLogicalTypeMemberId \<Rightarrow> or_first 0x08 cip_path
     | kLogicalSegmentLogicalTypeConnectionPoint \<Rightarrow> or_first 0x0C cip_path
     | kLogicalSegmentLogicalTypeAttributeId \<Rightarrow> or_first 0x10 cip_path
     | kLogicalSegmentLogicalTypeSpecial \<Rightarrow> or_first 0x14 cip_path
     | kLogicalSegmentLogicalTypeServiceId \<Rightarrow> or_first 0x18 cip_path
     | kLogicalSegmentLogicalTypeExtendedLogical \<Rightarrow> or_first 0x1C cip_path
     | kLogicalSegmentLogicalTypeInvalid \<Rightarrow> None }"

definition GetPathLogicalSegmentLogicalFormat ::
    "buf \<Rightarrow> LogicalSegmentLogicalFormat option" where
  "GetPathLogicalSegmentLogicalFormat cip_path = do {
     assert_segment kSegmentTypeLogicalSegment cip_path;
     b \<leftarrow> peek cip_path 0;
     let logical_format = b AND 0x03;
     Some (if logical_format = 0x00 then kLogicalSegmentLogicalFormatEightBit
       else if logical_format = 0x01 then kLogicalSegmentLogicalFormatSixteenBit
       else if logical_format = 0x02 then kLogicalSegmentLogicalFormatThirtyTwoBit
       else kLogicalSegmentLogicalFormatInvalid) }"

fun SetPathLogicalSegmentLogicalFormat ::
    "LogicalSegmentLogicalFormat \<Rightarrow> buf \<Rightarrow> buf option" where
  "SetPathLogicalSegmentLogicalFormat format cip_path = do {
     assert_segment kSegmentTypeLogicalSegment cip_path;
     case format of
       kLogicalSegmentLogicalFormatEightBit \<Rightarrow> or_first 0x00 cip_path
     | kLogicalSegmentLogicalFormatSixteenBit \<Rightarrow> or_first 0x01 cip_path
     | kLogicalSegmentLogicalFormatThirtyTwoBit \<Rightarrow> or_first 0x02 cip_path
     | kLogicalSegmentLogicalFormatInvalid \<Rightarrow> None }"

text \<open>The value of a logical segment; a reserved format yields the number of the invalid
  format, 3, and advances over the segment octet only.\<close>

definition CipEpathGetLogicalValue :: "buf \<Rightarrow> (u32 \<times> buf) option" where
  "CipEpathGetLogicalValue p = do {
     logical_format \<leftarrow> GetPathLogicalSegmentLogicalFormat p;
     p \<leftarrow> skip 1 p;
     case logical_format of
       kLogicalSegmentLogicalFormatEightBit \<Rightarrow> do {
         (v, p) \<leftarrow> GetByteFromMessage p;
         Some (ucast v, p) }
     | kLogicalSegmentLogicalFormatSixteenBit \<Rightarrow> do {
         p \<leftarrow> skip 1 p;
         (v, p) \<leftarrow> GetWordFromMessage p;
         Some (ucast v, p) }
     | kLogicalSegmentLogicalFormatThirtyTwoBit \<Rightarrow> do {
         p \<leftarrow> skip 1 p;
         GetDwordFromMessage p }
     | kLogicalSegmentLogicalFormatInvalid \<Rightarrow> Some (3, p) }"

fun CipEpathSetLogicalValue ::
    "u32 \<Rightarrow> LogicalSegmentLogicalFormat \<Rightarrow> CipMessageRouterResponse
     \<Rightarrow> CipMessageRouterResponse option" where
  "CipEpathSetLogicalValue logical_value kLogicalSegmentLogicalFormatEightBit r = do {
     c_assert (logical_value \<le> 0xFF);
     Some (r\<lparr>message := AddSintToMessage (ucast logical_value) (message r)\<rparr>) }"
| "CipEpathSetLogicalValue logical_value kLogicalSegmentLogicalFormatSixteenBit r = do {
     let r = r\<lparr>message := MoveMessageNOctets 1 (message r)\<rparr>;
     c_assert (logical_value \<le> 0xFFFF);
     Some (r\<lparr>message := AddIntToMessage (ucast logical_value) (message r)\<rparr>) }"
| "CipEpathSetLogicalValue logical_value kLogicalSegmentLogicalFormatThirtyTwoBit r = do {
     let r = r\<lparr>message := MoveMessageNOctets 1 (message r)\<rparr>;
     Some (r\<lparr>message := AddDintToMessage logical_value (message r)\<rparr>) }"
| "CipEpathSetLogicalValue logical_value kLogicalSegmentLogicalFormatInvalid r = None"

definition GetPathLogicalSegmentExtendedLogicalType ::
    "buf \<Rightarrow> LogicalSegmentExtendedLogicalType option" where
  "GetPathLogicalSegmentExtendedLogicalType cip_path = do {
     t \<leftarrow> GetPathLogicalSegmentLogicalType cip_path;
     c_assert (t = kLogicalSegmentLogicalTypeExtendedLogical);
     extended_logical_type \<leftarrow> peek cip_path 1;
     Some (if extended_logical_type = 0x01 then kLogicalSegmentExtendedLogicalTypeArrayIndex
       else if extended_logical_type = 0x02
         then kLogicalSegmentExtendedLogicalTypeIndirectArrayIndex
       else if extended_logical_type = 0x03 then kLogicalSegmentExtendedLogicalTypeBitIndex
       else if extended_logical_type = 0x04
         then kLogicalSegmentExtendedLogicalTypeIndirectBitIndex
       else if extended_logical_type = 0x05
         then kLogicalSegmentExtendedLogicalTypeStructureMemberNumber
       else if extended_logical_type = 0x06
         then kLogicalSegmentExtendedLogicalTypeStructureMemberHandle
       else if extended_logical_type = 0x00 then kLogicalSegmentExtendedLogicalTypeReserved
       else kLogicalSegmentExtendedLogicalTypeInvalid) }"

definition GetPathLogicalSegmentSpecialTypeLogicalType ::
    "buf \<Rightarrow> LogicalSegmentSpecialTypeLogicalFormat option" where
  "GetPathLogicalSegmentSpecialTypeLogicalType cip_path = do {
     assert_segment kSegmentTypeLogicalSegment cip_path;
     t \<leftarrow> GetPathLogicalSegmentLogicalType cip_path;
     c_assert (t = kLogicalSegmentLogicalTypeSpecial);
     b \<leftarrow> peek cip_path 0;
     let logical_format = b AND 0x03;
     Some (if logical_format = 0x00
       then kLogicalSegmentSpecialTypeLogicalFormatElectronicKey
       else kLogicalSegmentSpecialTypeLogicalFormatReserved) }"

definition GetPathLogicalSegmentElectronicKeyFormat ::
    "buf \<Rightarrow> ElectronicKeySegmentFormat option" where
  "GetPathLogicalSegmentElectronicKeyFormat cip_path = do {
     t \<leftarrow> GetPathLogicalSegmentSpecialTypeLogicalType cip_path;
     c_assert (t = kLogicalSegmentSpecialTypeLogicalFormatElectronicKey);
     b \<leftarrow> peek cip_path 1;
     Some (if b = 0x04 then kElectronicKeySegmentFormatKeyFormat4
       else kElectronicKeySegmentFormatReserved) }"

definition GetElectronicKeyFormat4FromMessage ::
    "buf \<Rightarrow> ElectronicKeyFormat4 \<Rightarrow> (ElectronicKeyFormat4 \<times> buf) option" where
  "GetElectronicKeyFormat4FromMessage p key = do {
     f \<leftarrow> GetPathLogicalSegmentElectronicKeyFormat p;
     c_assert (f = kElectronicKeySegmentFormatKeyFormat4);
     p \<leftarrow> skip 2 p;
     (v, p) \<leftarrow> GetUintFromMessage p;
     let key = ElectronicKeyFormat4SetVendorId v key;
     (v, p) \<leftarrow> GetUintFromMessage p;
     let key = ElectronicKeyFormat4SetDeviceType v key;
     (v, p) \<leftarrow> GetUintFromMessage p;
     let key = ElectronicKeyFormat4SetProductCode v key;
     (b, p) \<leftarrow> GetByteFromMessage p;
     let key = ElectronicKeyFormat4SetMajorRevisionCompatibility b key;
     (b, p) \<leftarrow> GetUsintFromMessage p;
     Some (ElectronicKeyFormat4SetMinorRevision b key, p) }"

section \<open>Network segments\<close>

definition GetPathNetworkSegmentSubtype :: "buf \<Rightarrow> NetworkSegmentSubtype option" where
  "GetPathNetworkSegmentSubtype cip_path = do {
     assert_segment kSegmentTypeNetworkSegment cip_path;
     b \<leftarrow> peek cip_path 0;
     let subtype = b AND 0x1F;
     Some (if subtype = 0x01 then kNetworkSegmentSubtypeScheduleSegment
       else if subtype = 0x02 then kNetworkSegmentSubtypeFixedTagSegment
       else if subtype = 0x03
         then kNetworkSegmentSubtypeProductionInhibitTimeInMilliseconds
       else if subtype = 0x04 then kNetworkSegmentSubtypeSafetySegment
       else if subtype = 0x10
         then kNetworkSegmentSubtypeProductionInhibitTimeInMicroseconds
       else if subtype = 0x1F then kNetworkSegmentSubtypeExtendedNetworkSegment
       else kNetworkSegmentSubtypeReserved) }"

definition GetPathNetworkSegmentProductionInhibitTimeInMilliseconds ::
    "buf \<Rightarrow> u8 option" where
  "GetPathNetworkSegmentProductionInhibitTimeInMilliseconds cip_path = do {
     assert_segment kSegmentTypeNetworkSegment cip_path;
     t \<leftarrow> GetPathNetworkSegmentSubtype cip_path;
     c_assert (t = kNetworkSegmentSubtypeProductionInhibitTimeInMilliseconds);
     peek cip_path 1 }"

definition GetPathNetworkSegmentProductionInhibitTimeInMicroseconds ::
    "buf \<Rightarrow> u32 option" where
  "GetPathNetworkSegmentProductionInhibitTimeInMicroseconds cip_path = do {
     assert_segment kSegmentTypeNetworkSegment cip_path;
     t \<leftarrow> GetPathNetworkSegmentSubtype cip_path;
     c_assert (t = kNetworkSegmentSubtypeProductionInhibitTimeInMicroseconds);
     n \<leftarrow> peek cip_path 1;
     c_assert (n = 2);
     message_runner \<leftarrow> skip 2 cip_path;
     (v, _) \<leftarrow> GetUdintFromMessage message_runner;
     Some v }"

section \<open>Symbolic segments\<close>

definition GetPathSymbolicSegmentFormat :: "buf \<Rightarrow> SymbolicSegmentFormat option" where
  "GetPathSymbolicSegmentFormat cip_path = do {
     b \<leftarrow> peek cip_path 0;
     Some (if b AND 0x1F = 0x00 then kSymbolicSegmentFormatExtendedString
       else kSymbolicSegmentFormatASCII) }"

definition GetPathSymbolicSegmentASCIIFormatLength :: "buf \<Rightarrow> u32 option" where
  "GetPathSymbolicSegmentASCIIFormatLength cip_path = do {
     b \<leftarrow> peek cip_path 0;
     let len = ucast (b AND 0x1F);
     c_assert (len \<noteq> 0);
     Some len }"

definition GetPathSymbolicSegmentNumericType ::
    "buf \<Rightarrow> SymbolicSegmentExtendedFormat option" where
  "GetPathSymbolicSegmentNumericType cip_path = do {
     b \<leftarrow> peek cip_path 1;
     let numeric_subtype = b AND 0x1F;
     Some (if numeric_subtype = 0x06 then kSymbolicSegmentExtendedFormatNumericSymbolUSINT
       else if numeric_subtype = 0x07 then kSymbolicSegmentExtendedFormatNumericSymbolUINT
       else if numeric_subtype = 0x08 then kSymbolicSegmentExtendedFormatNumericSymbolUDINT
       else kSymbolicSegmentExtendedFormatReserved) }"

definition GetPathSymbolicSegmentExtendedFormat ::
    "buf \<Rightarrow> SymbolicSegmentExtendedFormat option" where
  "GetPathSymbolicSegmentExtendedFormat cip_path = do {
     assert_segment kSegmentTypeSymbolicSegment cip_path;
     f \<leftarrow> GetPathSymbolicSegmentFormat cip_path;
     c_assert (f = kSymbolicSegmentFormatExtendedString);
     b \<leftarrow> peek cip_path 1;
     let extended_type = b AND 0xE0;
     if extended_type = 0x20 then Some kSymbolicSegmentExtendedFormatDoubleByteChars
     else if extended_type = 0x40 then Some kSymbolicSegmentExtendedFormatTripleByteChars
     else if extended_type = 0xC0 then GetPathSymbolicSegmentNumericType cip_path
     else Some kSymbolicSegmentExtendedFormatReserved }"

section \<open>Data segments\<close>

definition GetPathDataSegmentSubtype :: "buf \<Rightarrow> DataSegmentSubtype option" where
  "GetPathDataSegmentSubtype cip_path = do {
     b \<leftarrow> peek cip_path 0;
     let data_subtype = b AND 0x1F;
     Some (if data_subtype = 0x00 then kDataSegmentSubtypeSimpleData
       else if data_subtype = 0x11 then kDataSegmentSubtypeANSIExtendedSymbol
       else kDataSegmentSubtypeReserved) }"

definition GetPathDataSegmentSimpleDataWordLength :: "buf \<Rightarrow> u8 option" where
  "GetPathDataSegmentSimpleDataWordLength cip_path = do {
     assert_segment kSegmentTypeDataSegment cip_path;
     t \<leftarrow> GetPathDataSegmentSubtype cip_path;
     c_assert (t = kDataSegmentSubtypeSimpleData);
     message_runner \<leftarrow> skip 1 cip_path;
     (n, _) \<leftarrow> GetUsintFromMessage message_runner;
     Some n }"

section \<open>Special purpose functions\<close>

definition CipEpathGetNeededLogicalFormatForValue :: "u32 \<Rightarrow> LogicalSegmentLogicalFormat" where
  "CipEpathGetNeededLogicalFormatForValue v =
     (let logical_format = kLogicalSegmentLogicalFormatEightBit;
          logical_format = (if 0xFF < v then kLogicalSegmentLogicalFormatSixteenBit
                            else logical_format)
      in if 0xFFFF < v then kLogicalSegmentLogicalFormatThirtyTwoBit
         else logical_format)"

text \<open>The loop of \<^verbatim>\<open>CipEpathEqual\<close>, with \<open>n\<close> the iterations left.\<close>

fun epath_octets_equal :: "nat \<Rightarrow> nat \<Rightarrow> buf \<Rightarrow> buf \<Rightarrow> bool option" where
  "epath_octets_equal i 0 path1 path2 = Some True"
| "epath_octets_equal i (Suc n) path1 path2 = do {
     a \<leftarrow> peek path1 i;
     b \<leftarrow> peek path2 i;
     if a \<noteq> b then Some False else epath_octets_equal (Suc i) n path1 path2 }"

definition CipEpathEqual :: "buf \<Rightarrow> u16 \<Rightarrow> buf \<Rightarrow> u16 \<Rightarrow> bool option" where
  "CipEpathEqual path1 path1_length path2 path2_length =
     (if path1_length \<noteq> path2_length then Some False
      else epath_octets_equal 0 (unat path1_length) path1 path2)"

section \<open>Facts shared by the properties\<close>

lemma SetPath_logical_Cons:
  assumes "t \<noteq> kLogicalSegmentLogicalTypeInvalid" "f \<noteq> kLogicalSegmentLogicalFormatInvalid"
  obtains h where "do { p \<leftarrow> SetPathSegmentType kSegmentTypeLogicalSegment (b # bs);
     p \<leftarrow> SetPathLogicalSegmentLogicalType t p;
     SetPathLogicalSegmentLogicalFormat f p } = Some (h # bs)"
  and "\<And>rest. GetPathLogicalSegmentLogicalType (h # rest) = Some t"
  and "\<And>rest. GetPathLogicalSegmentLogicalFormat (h # rest) = Some f"
  using assms
  by (cases t; cases f)
   (simp_all add: or_first_def assert_segment_def GetPathSegmentType_def
     GetPathLogicalSegmentLogicalType_def GetPathLogicalSegmentLogicalFormat_def)

lemma GetLogicalValue_Cons:
  "CipEpathGetLogicalValue (h # p) =
    (case GetPathLogicalSegmentLogicalFormat (h # p) of None \<Rightarrow> None | Some f \<Rightarrow>
      (case f of
       kLogicalSegmentLogicalFormatEightBit \<Rightarrow> do {
         (v, p) \<leftarrow> GetByteFromMessage p;
         Some (ucast v, p) }
     | kLogicalSegmentLogicalFormatSixteenBit \<Rightarrow> do {
         p \<leftarrow> skip 1 p;
         (v, p) \<leftarrow> GetWordFromMessage p;
         Some (ucast v, p) }
     | kLogicalSegmentLogicalFormatThirtyTwoBit \<Rightarrow> do {
         p \<leftarrow> skip 1 p;
         GetDwordFromMessage p }
     | kLogicalSegmentLogicalFormatInvalid \<Rightarrow> Some (3, p)))"
  by (simp add: CipEpathGetLogicalValue_def skip_def split: option.splits)

text \<open>The octets of a logical value, the pad octet included.\<close>

fun logical_value_octets :: "LogicalSegmentLogicalFormat \<Rightarrow> u8 \<Rightarrow> u32 \<Rightarrow> u8 list" where
  "logical_value_octets kLogicalSegmentLogicalFormatEightBit pad v = [ucast v]"
| "logical_value_octets kLogicalSegmentLogicalFormatSixteenBit pad v = pad # le16 (ucast v)"
| "logical_value_octets kLogicalSegmentLogicalFormatThirtyTwoBit pad v = pad # le32 v"
| "logical_value_octets kLogicalSegmentLogicalFormatInvalid pad v = []"

fun logical_value_fits :: "LogicalSegmentLogicalFormat \<Rightarrow> u32 \<Rightarrow> bool" where
  "logical_value_fits kLogicalSegmentLogicalFormatEightBit v \<longleftrightarrow> v \<le> 0xFF"
| "logical_value_fits kLogicalSegmentLogicalFormatSixteenBit v \<longleftrightarrow> v \<le> 0xFFFF"
| "logical_value_fits kLogicalSegmentLogicalFormatThirtyTwoBit v \<longleftrightarrow> True"
| "logical_value_fits kLogicalSegmentLogicalFormatInvalid v \<longleftrightarrow> False"

lemma CipEpathSetLogicalValue_fits:
  assumes "msg_wf (message r)" "5 \<le> room (message r)" "logical_value_fits f v"
  shows "CipEpathSetLogicalValue v f r = Some (r\<lparr>message := append_octets
    (logical_value_octets f (message_buffer (message r) ! current_message_position (message r)) v)
    (message r)\<rparr>)"
  using assms
  by (cases f) (simp_all add: enc move_one_append)

lemma ucast_ucast_u8: "v \<le> 0xFF \<Longrightarrow> ucast (ucast v :: u8) = v" for v :: u32
  by (rule ucast_ucast_id) (simp add: word_le_nat_alt)

lemma ucast_ucast_u16: "v \<le> 0xFFFF \<Longrightarrow> ucast (ucast v :: u16) = v" for v :: u32
  by (rule ucast_ucast_id) (simp add: word_le_nat_alt)

lemma GetLogicalValue_octets:
  assumes "GetPathLogicalSegmentLogicalFormat (h # logical_value_octets f pad v @ rest) = Some f"
    and "logical_value_fits f v"
  shows "CipEpathGetLogicalValue (h # logical_value_octets f pad v @ rest) = Some (v, rest)"
  using assms
  by (cases f) (simp_all add: GetLogicalValue_Cons skip_def ucast_ucast_u8 ucast_ucast_u16)

lemma epath_octets_equal_take:
  assumes "i + n \<le> length p" "i + n \<le> length q"
  shows "epath_octets_equal i n p q = Some (take n (drop i p) = take n (drop i q))"
  using assms
proof (induction n arbitrary: i)
  case 0
  then show ?case by simp
next
  case (Suc n)
  then have "take (Suc n) (drop i p) = p ! i # take n (drop (Suc i) p)"
    "take (Suc n) (drop i q) = q ! i # take n (drop (Suc i) q)"
    by (simp_all add: take_Suc_conv_app_nth Cons_nth_drop_Suc [symmetric])
  with Suc show ?case
    by (simp add: peek_def)
qed

section \<open>Properties\<close>

text \<open>C19: a logical segment built with the setters is read back by the getters.  For every
  logical type and format, the segment octet set through \<^verbatim>\<open>SetPathSegmentType\<close>,
  \<^verbatim>\<open>SetPathLogicalSegmentLogicalType\<close> and \<^verbatim>\<open>SetPathLogicalSegmentLogicalFormat\<close> yields
  that type and format, and the value that \<^verbatim>\<open>CipEpathSetLogicalValue\<close> appends (after the pad
  octet of the wider formats) is what \<^verbatim>\<open>CipEpathGetLogicalValue\<close> reads, which then stands at
  the octet after the segment.\<close>

theorem logical_segment_roundtrip:
  assumes "t \<noteq> kLogicalSegmentLogicalTypeInvalid" and "logical_value_fits f v"
    and "msg_wf (message r)" and "5 \<le> room (message r)"
  shows "\<exists>h r'. do { p \<leftarrow> SetPathSegmentType kSegmentTypeLogicalSegment [b];
                    p \<leftarrow> SetPathLogicalSegmentLogicalType t p;
                    SetPathLogicalSegmentLogicalFormat f p } = Some [h]
    \<and> CipEpathSetLogicalValue v f r = Some r'
    \<and> (let value_octets = drop (current_message_position (message r)) (payload (message r')) in
        GetPathLogicalSegmentLogicalType (h # value_octets @ rest) = Some t
        \<and> GetPathLogicalSegmentLogicalFormat (h # value_octets @ rest) = Some f
        \<and> CipEpathGetLogicalValue (h # value_octets @ rest) = Some (v, rest))"
proof -
  have f: "f \<noteq> kLogicalSegmentLogicalFormatInvalid"
    using assms(2) by (cases f) simp_all
  obtain h where h: "do { p \<leftarrow> SetPathSegmentType kSegmentTypeLogicalSegment [b];
                    p \<leftarrow> SetPathLogicalSegmentLogicalType t p;
                    SetPathLogicalSegmentLogicalFormat f p } = Some [h]"
    and g: "\<And>rest. GetPathLogicalSegmentLogicalType (h # rest) = Some t"
      "\<And>rest. GetPathLogicalSegmentLogicalFormat (h # rest) = Some f"
    using SetPath_logical_Cons [OF assms(1) f] by metis
  let ?bs = "logical_value_octets f
    (message_buffer (message r) ! current_message_position (message r)) v"
  let ?r = "r\<lparr>message := append_octets ?bs (message r)\<rparr>"
  have "length ?bs \<le> 5"
    by (cases f) simp_all
  then have "payload (message ?r) = payload (message r) @ ?bs"
    using assms(3,4) append_octets_wf(2) [of "message r" ?bs] by simp
  moreover have "length (payload (message r)) = current_message_position (message r)"
    using assms(3) by (auto simp: payload_def msg_wf_def)
  ultimately have "drop (current_message_position (message r)) (payload (message ?r)) = ?bs"
    by simp
  then show ?thesis
    using h g CipEpathSetLogicalValue_fits [OF assms(3,4,2)] GetLogicalValue_octets [OF _ assms(2)]
    by (intro exI [of _ h] exI [of _ ?r]) (simp add: Let_def)
qed

theorem logical_segment_roundtrip_witness:
  "\<exists>h r'. CipEpathSetLogicalValue 0x1234 kLogicalSegmentLogicalFormatSixteenBit
      InitializeMessageRouterResponse = Some r'
    \<and> CipEpathGetLogicalValue (h # drop 0 (payload (message r')) @ [7]) = Some (0x1234, [7])"
  using logical_segment_roundtrip [where t = kLogicalSegmentLogicalTypeInstanceId
      and f = kLogicalSegmentLogicalFormatSixteenBit and v = "0x1234"
      and r = InitializeMessageRouterResponse and b = "0" and rest = "[7]"]
  by (simp add: InitializeMessageRouterResponse_def PC_OPENER_ETHERNET_BUFFER_SIZE_def Let_def)
    (auto simp: InitializeENIPMessage_def)

text \<open>The format chosen for a value is sufficient and the smallest: the setter accepts the
  value in it, and it rejects the value in every narrower format.\<close>

theorem needed_format_is_minimal:
  "CipEpathSetLogicalValue v (CipEpathGetNeededLogicalFormatForValue v) r \<noteq> None
   \<and> (CipEpathGetNeededLogicalFormatForValue v \<noteq> kLogicalSegmentLogicalFormatEightBit
        \<longleftrightarrow> CipEpathSetLogicalValue v kLogicalSegmentLogicalFormatEightBit r = None)
   \<and> (CipEpathGetNeededLogicalFormatForValue v = kLogicalSegmentLogicalFormatThirtyTwoBit
        \<longleftrightarrow> CipEpathSetLogicalValue v kLogicalSegmentLogicalFormatSixteenBit r = None)"
proof -
  have "\<not> 0xFF < v \<Longrightarrow> \<not> 0xFFFF < v"
    by (simp add: not_less word_le_nat_alt)
  then show ?thesis
    by (auto simp: CipEpathGetNeededLogicalFormatForValue_def Let_def bind_None_iff not_less)
qed

text \<open>\<^verbatim>\<open>CipEpathEqual\<close> decides equality of the two paths of the stated lengths, without
  reading beyond them.\<close>

theorem epath_equal_iff:
  assumes "unat m \<le> length p" and "unat n \<le> length q"
  shows "CipEpathEqual p m q n = Some (take (unat m) p = take (unat n) q)"
proof (cases "m = n")
  case True
  then show ?thesis
    using assms by (simp add: CipEpathEqual_def epath_octets_equal_take)
next
  case False
  then have "unat m \<noteq> unat n"
    by (simp add: word_unat_eq_iff)
  then have "take (unat m) p \<noteq> take (unat n) q"
    using assms by (metis length_take min.absorb2)
  with False show ?thesis
    by (auto simp: CipEpathEqual_def)
qed

theorem epath_equal_iff_witness:
  "CipEpathEqual [0x20, 0x04, 9] 2 [0x20, 0x04] 2 = Some True"
  using epath_equal_iff [of 2 "[0x20, 0x04, 9]" 2 "[0x20, 0x04]"] by simp

text \<open>An electronic key segment of format 4 on the wire is read into the key's fields, and
  the reader stops right after its ten octets.\<close>

theorem electronic_key_read:
  "GetElectronicKeyFormat4FromMessage
     ([0x34, 0x04] @ le16 v @ le16 d @ le16 c @ [major, minor] @ rest) key
   = Some (\<lparr>vendor_id = v, device_type = d, product_code = c,
            major_revision_compatibility = major, minor_revision = minor\<rparr>, rest)"
proof -
  have l: "GetPathLogicalSegmentElectronicKeyFormat (0x34 # 0x04 # p)
      = Some kElectronicKeySegmentFormatKeyFormat4" for p
    by (simp add: GetPathLogicalSegmentElectronicKeyFormat_def assert_segment_def
        GetPathLogicalSegmentSpecialTypeLogicalType_def GetPathSegmentType_def
        GetPathLogicalSegmentLogicalType_def)
  show ?thesis
    by (cases key) (simp add: GetElectronicKeyFormat4FromMessage_def l skip_def key_defs)
qed

text \<open>An extended port number set in a port segment is read back modulo 2^16, with and
  without the link address size octet, and nothing but the port octets changes.\<close>

theorem extended_port_roundtrip:
  "SetPathPortSegmentExtendedPortIdentifier x [0x00, p1, p2]
     = Some [0x0F, ucast x, ucast (drop_bit 8 x)]
   \<and> GetPathPortSegmentExtendedPortNumber [0x0F, ucast x, ucast (drop_bit 8 x)]
     = Some (x AND 0xFFFF)
   \<and> SetPathPortSegmentExtendedPortIdentifier x [0x10, p1, p2, p3]
     = Some [0x1F, p1, ucast x, ucast (drop_bit 8 x)]
   \<and> GetPathPortSegmentExtendedPortNumber [0x1F, p1, ucast x, ucast (drop_bit 8 x)]
     = Some (x AND 0xFFFF)"
proof -
  have m8: "(0xFF :: u32) = mask 8"
    by (simp add: mask_eq_exp_minus_1)
  have lo: "ucast (y AND 0xFF) = (ucast y :: u8)" for y :: u32
    unfolding m8 by (rule bit_word_eqI) (auto simp: bit_simps)
  have sum: "ucast (ucast x :: u8) + push_bit 8 (ucast (ucast (drop_bit 8 x) :: u8)) = x AND 0xFFFF"
  proof -
    have "ucast (ucast x :: u8) + push_bit 8 (ucast (ucast (drop_bit 8 x) :: u8))
      = (ucast (ucast x :: u8) OR push_bit 8 (ucast (ucast (drop_bit 8 x) :: u8)) :: u32)"
      by (rule disjunctive_add) (auto simp: bit_simps dest: bit_imp_le_length)
    also have "\<dots> = x AND mask 16"
      by (rule bit_word_eqI) (auto simp: bit_simps)
    finally show ?thesis
      by (simp add: mask_eq_exp_minus_1)
  qed
  show ?thesis
    by (simp add: SetPathPortSegmentExtendedPortIdentifier_def SetPathPortSegmentPortIdentifier_def
        or_first_def GetPathPortSegmentExtendedLinkAddressSizeBit_def
        GetPathPortSegmentExtendedPortNumber_def GetPathPortSegmentPortIdentifier_def
        assert_segment_def GetPathSegmentType_def store_def lo sum)
qed

end
