(* ===== verification/Xorshift.thy ===== *)
theory Xorshift
  imports Prelude
begin

unbundle bit_operations_syntax

text \<open>
  \<^verbatim>\<open>utils/xorshiftrandom.c\<close>: the pseudo random generator behind the delays of list
  identity replies and the random connection identifiers.  The file-global seed is passed
  and returned; the clock is a parameter, what \<^verbatim>\<open>time(NULL)\<close> returns when it is read.
\<close>

definition SetXorShiftSeed :: "u32 \<Rightarrow> u32" where
  "SetXorShiftSeed seed = seed"

definition CalculateNextSeed :: "u32 \<Rightarrow> u32 \<Rightarrow> u32" where
  "CalculateNextSeed now xor_shift_seed =
     (let x = (if xor_shift_seed = 0 then SetXorShiftSeed now else xor_shift_seed);
          x = x XOR push_bit 13 x;
          x = x XOR drop_bit 17 x
      in x XOR push_bit 5 x)"

text \<open>The value drawn and the new seed.\<close>

definition NextXorShiftUint32 :: "u32 \<Rightarrow> u32 \<Rightarrow> u32 \<times> u32" where
  "NextXorShiftUint32 now xor_shift_seed =
     (let xor_shift_seed = CalculateNextSeed now xor_shift_seed
      in (xor_shift_seed, xor_shift_seed))"

section \<open>A step never loses the seed\<close>

lemma xor_same_0: "x XOR y = 0 \<Longrightarrow> x = y"
  for x y :: "'a::len word"
proof -
  assume "x XOR y = 0"
  then have "(x XOR y) XOR y = y"
    by simp
  then show ?thesis
    by (simp add: xor.assoc)
qed

lemma xor_push_bit_eq_0:
  fixes x :: "'a::len word"
  assumes "0 < k" and "x XOR push_bit k x = 0"
  shows "x = 0"
proof (rule bit_word_eqI)
  fix n assume "n < LENGTH('a)"
  have "x = push_bit k x"
    using assms(2) xor_same_0 [of x "push_bit k x"] by simp
  then have step: "bit x m \<longleftrightarrow> k \<le> m \<and> possible_bit TYPE('a word) m \<and> bit x (m - k)" for m
    by (metis bit_push_bit_iff)
  have "\<not> bit x m" for m
  proof (induction m rule: less_induct)
    case (less m)
    then show ?case
      using step [of m] assms(1) by auto
  qed
  then show "bit x n = bit (0 :: 'a word) n"
    by simp
qed

lemma xor_drop_bit_eq_0:
  fixes x :: "'a::len word"
  assumes "0 < k" and "x XOR drop_bit k x = 0"
  shows "x = 0"
proof (rule bit_word_eqI)
  fix n assume "n < LENGTH('a)"
  have "x = drop_bit k x"
    using assms(2) xor_same_0 [of x "drop_bit k x"] by simp
  then have step: "bit x m \<longleftrightarrow> bit x (k + m)" for m
    by (metis bit_drop_bit_eq comp_apply)
  have "\<not> bit x m" for m
  proof (induction "LENGTH('a) - m" arbitrary: m rule: less_induct)
    case less
    show ?case
    proof (cases "m < LENGTH('a)")
      case True
      then show ?thesis
        using less [of "k + m"] step [of m] assms(1) by simp
    next
      case False
      then show ?thesis
        using bit_imp_le_length [of x m] by auto
    qed
  qed
  then show "bit x n = bit (0 :: 'a word) n"
    by simp
qed

text \<open>Both shift steps are linear and without kernel, so they are injective.\<close>

lemma push_step_inject:
  "x XOR push_bit k x = y XOR push_bit k y \<longleftrightarrow> x = y" if "0 < k"
  for x y :: "'a::len word"
proof
  assume "x XOR push_bit k x = y XOR push_bit k y"
  moreover have "(x XOR y) XOR push_bit k (x XOR y)
      = (x XOR push_bit k x) XOR (y XOR push_bit k y)"
    by (simp only: push_bit_xor ac_simps)
  ultimately have "(x XOR y) XOR push_bit k (x XOR y) = 0"
    by (simp only: xor_self_eq)
  then show "x = y"
    using xor_push_bit_eq_0 [OF that] xor_same_0 by blast
qed simp

lemma drop_step_inject:
  "x XOR drop_bit k x = y XOR drop_bit k y \<longleftrightarrow> x = y" if "0 < k"
  for x y :: "'a::len word"
proof
  assume "x XOR drop_bit k x = y XOR drop_bit k y"
  moreover have "(x XOR y) XOR drop_bit k (x XOR y)
      = (x XOR drop_bit k x) XOR (y XOR drop_bit k y)"
    by (simp only: drop_bit_xor ac_simps)
  ultimately have "(x XOR y) XOR drop_bit k (x XOR y) = 0"
    by (simp only: xor_self_eq)
  then show "x = y"
    using xor_drop_bit_eq_0 [OF that] xor_same_0 by blast
qed simp

definition xorshift :: "u32 \<Rightarrow> u32" where
  "xorshift x =
     (let x = x XOR push_bit 13 x; x = x XOR drop_bit 17 x in x XOR push_bit 5 x)"

lemma CalculateNextSeed_xorshift:
  "CalculateNextSeed now seed = xorshift (if seed = 0 then now else seed)"
  by (simp only: CalculateNextSeed_def xorshift_def SetXorShiftSeed_def Let_def)

lemma xorshift_inject [simp]: "xorshift x = xorshift y \<longleftrightarrow> x = y"
  by (simp only: xorshift_def Let_def push_step_inject drop_step_inject zero_less_numeral)

lemma xorshift_0 [simp]: "xorshift x = 0 \<longleftrightarrow> x = 0"
  using xorshift_inject [of x 0] by (simp add: xorshift_def)

text \<open>The stream drawn from a seed.\<close>

primrec draws :: "u32 \<Rightarrow> nat \<Rightarrow> u32 \<Rightarrow> u32 list" where
  "draws now 0 seed = []"
| "draws now (Suc n) seed =
     (let (v, seed) = NextXorShiftUint32 now seed in v # draws now n seed)"

text \<open>From a non-zero seed the generator never draws zero and never consults the clock
  again, however often it is called, and two non-zero seeds that give the same draw are equal, so
  the sequence has no lead-in: it only repeats by returning to its first seed.\<close>

theorem xorshift_stream_nonzero_and_clock_free:
  assumes "seed \<noteq> 0"
  shows "0 \<notin> set (draws now n seed) \<and> draws now n seed = draws now' n seed
    \<and> (\<forall>seed'. seed' \<noteq> 0 \<and> NextXorShiftUint32 now seed' = NextXorShiftUint32 now seed
          \<longrightarrow> seed' = seed)"
proof -
  have "0 \<notin> set (draws now n seed) \<and> draws now n seed = draws now' n seed"
    using assms
  proof (induction n arbitrary: seed)
    case (Suc n)
    then show ?case
      using Suc.IH [of "xorshift seed"]
      by (simp add: NextXorShiftUint32_def Let_def CalculateNextSeed_xorshift)
  qed simp
  moreover have "\<forall>seed'. seed' \<noteq> 0 \<and> NextXorShiftUint32 now seed' = NextXorShiftUint32 now seed
      \<longrightarrow> seed' = seed"
    using assms by (simp add: NextXorShiftUint32_def Let_def CalculateNextSeed_xorshift)
  ultimately show ?thesis
    by blast
qed

theorem xorshift_stream_nonzero_and_clock_free_witness:
  "0 \<notin> set (draws 5 3 1) \<and> draws 5 3 1 = draws 6 3 1"
  using xorshift_stream_nonzero_and_clock_free [of 1 5 3 6, OF one_neq_zero] by blast

end
