(* ===== verification/Socket_Timer.thy ===== *)
theory Socket_Timer
  imports Prelude
begin

text \<open>
  \<^verbatim>\<open>ports/socket_timer.[ch]\<close>: the array of time stamps kept per open TCP socket for the
  encapsulation inactivity timeout.  The array is a list; a pointer into it is an index,
  and the search returns \<open>None\<close> where the code returns \<^verbatim>\<open>NULL\<close>.
\<close>

record SocketTimer =
  socket :: socket_fd
  last_update :: MilliSeconds

definition SocketTimerSetSocket :: "socket_fd \<Rightarrow> SocketTimer \<Rightarrow> SocketTimer" where
  "SocketTimerSetSocket s t = t\<lparr>socket := s\<rparr>"

definition SocketTimerSetLastUpdate :: "MilliSeconds \<Rightarrow> SocketTimer \<Rightarrow> SocketTimer" where
  "SocketTimerSetLastUpdate actual_time t = t\<lparr>last_update := actual_time\<rparr>"

definition SocketTimerGetLastUpdate :: "SocketTimer \<Rightarrow> MilliSeconds" where
  "SocketTimerGetLastUpdate t = last_update t"

definition SocketTimerClear :: "SocketTimer \<Rightarrow> SocketTimer" where
  "SocketTimerClear t = t\<lparr>socket := kEipInvalidSocket, last_update := 0\<rparr>"

definition SocketTimerArrayInitialize :: "SocketTimer list \<Rightarrow> SocketTimer list" where
  "SocketTimerArrayInitialize ts = map SocketTimerClear ts"

fun search_socket :: "nat \<Rightarrow> socket_fd \<Rightarrow> SocketTimer list \<Rightarrow> nat option" where
  "search_socket i s [] = None"
| "search_socket i s (t # ts) = (if s = socket t then Some i else search_socket (Suc i) s ts)"

definition SocketTimerArrayGetSocketTimer :: "SocketTimer list \<Rightarrow> socket_fd \<Rightarrow> nat option" where
  "SocketTimerArrayGetSocketTimer ts s = search_socket 0 s ts"

definition SocketTimerArrayGetEmptySocketTimer :: "SocketTimer list \<Rightarrow> nat option" where
  "SocketTimerArrayGetEmptySocketTimer ts = SocketTimerArrayGetSocketTimer ts kEipInvalidSocket"

section \<open>The search\<close>

lemma search_socket_Some_iff:
  "search_socket k s ts = Some j
   \<longleftrightarrow> (\<exists>i < length ts. j = k + i \<and> socket (ts ! i) = s \<and> (\<forall>l < i. socket (ts ! l) \<noteq> s))"
proof (induction ts arbitrary: k)
  case (Cons t ts)
  show ?case
  proof (cases "socket t = s")
    case True
    then show ?thesis
      by (auto simp: less_Suc_eq_0_disj nth_Cons')
  next
    case False
    then show ?thesis
      by (force simp: Cons less_Suc_eq_0_disj All_less_Suc2)
  qed
qed simp

lemma GetSocketTimer_Some_iff:
  "SocketTimerArrayGetSocketTimer ts s = Some j
   \<longleftrightarrow> j < length ts \<and> socket (ts ! j) = s \<and> (\<forall>l < j. socket (ts ! l) \<noteq> s)"
  by (auto simp: SocketTimerArrayGetSocketTimer_def search_socket_Some_iff)

lemma search_socket_None_iff: "search_socket k s ts = None \<longleftrightarrow> s \<notin> socket ` set ts"
  by (induction ts arbitrary: k) auto

lemma GetSocketTimer_None_iff:
  "SocketTimerArrayGetSocketTimer ts s = None \<longleftrightarrow> s \<notin> socket ` set ts"
  by (simp add: SocketTimerArrayGetSocketTimer_def search_socket_None_iff)

text \<open>An array in use: a valid socket has at most one entry.\<close>

definition timers_wf :: "SocketTimer list \<Rightarrow> bool" where
  "timers_wf ts \<longleftrightarrow> (\<forall>i < length ts. \<forall>j < length ts. socket (ts ! i) = socket (ts ! j)
     \<longrightarrow> socket (ts ! i) \<noteq> kEipInvalidSocket \<longrightarrow> i = j)"

lemma timers_wf_initialized: "timers_wf (SocketTimerArrayInitialize ts)"
  by (simp add: timers_wf_def SocketTimerArrayInitialize_def SocketTimerClear_def)

text \<open>The entry a new socket is given keeps the array well formed.\<close>

lemma timers_wf_update:
  assumes "timers_wf ts" and "socket r \<in> socket ` set ts \<Longrightarrow> socket r = kEipInvalidSocket"
  shows "timers_wf (ts[i := r])"
  unfolding timers_wf_def
proof (intro allI impI)
  fix k j assume kj: "k < length (ts[i := r])" "j < length (ts[i := r])"
    "socket (ts[i := r] ! k) = socket (ts[i := r] ! j)" "socket (ts[i := r] ! k) \<noteq> kEipInvalidSocket"
  have "socket (ts ! k) \<noteq> socket r" "socket (ts ! j) \<noteq> socket r"
    if "socket r \<noteq> kEipInvalidSocket"
    using that assms(2) kj by (metis image_eqI length_list_update nth_mem)+
  then show "k = j"
    using kj assms(1) by (cases "k = i"; cases "j = i") (auto simp: timers_wf_def nth_list_update)
qed

section \<open>Removing a socket's entries (ports/generic\_networkhandler.c)\<close>

text \<open>The loop of \<^verbatim>\<open>RemoveSocketTimerFromList\<close> clears entries as long as the search finds
  one; \<open>None\<close> is the loop that never ends.\<close>

partial_function (option) RemoveSocketTimerFromList ::
    "socket_fd \<Rightarrow> SocketTimer list \<Rightarrow> SocketTimer list option" where
  "RemoveSocketTimerFromList s ts =
     (case SocketTimerArrayGetSocketTimer ts s of
        None \<Rightarrow> Some ts
      | Some i \<Rightarrow> RemoveSocketTimerFromList s (ts[i := SocketTimerClear (ts ! i)]))"

declare RemoveSocketTimerFromList.simps [code]

definition cleared :: "socket_fd \<Rightarrow> SocketTimer list \<Rightarrow> SocketTimer list" where
  "cleared s ts = map (\<lambda>t. if socket t = s then SocketTimerClear t else t) ts"

lemma RemoveSocketTimerFromList_valid:
  assumes "s \<noteq> kEipInvalidSocket"
  shows "RemoveSocketTimerFromList s ts = Some (cleared s ts)"
proof (induction "length (filter (\<lambda>t. socket t = s) ts)" arbitrary: ts rule: less_induct)
  case less
  show ?case
  proof (cases "SocketTimerArrayGetSocketTimer ts s")
    case None
    then have "cleared s ts = ts"
      by (auto simp: GetSocketTimer_None_iff cleared_def intro!: map_idI)
    with None show ?thesis
      by (subst RemoveSocketTimerFromList.simps) simp
  next
    case (Some i)
    then have i: "i < length ts" "socket (ts ! i) = s"
      by (auto simp: GetSocketTimer_Some_iff)
    let ?ts = "ts[i := SocketTimerClear (ts ! i)]"
    have split: "ts = take i ts @ ts ! i # drop (Suc i) ts"
      using i(1) by (simp add: id_take_nth_drop)
    have upd: "?ts = take i ts @ SocketTimerClear (ts ! i) # drop (Suc i) ts"
      using i(1) by (simp add: upd_conv_take_nth_drop)
    have ne: "socket (SocketTimerClear (ts ! i)) \<noteq> s"
      using assms by (simp add: SocketTimerClear_def)
    have "length (filter (\<lambda>t. socket t = s) ?ts) < length (filter (\<lambda>t. socket t = s) ts)"
      unfolding upd by (subst (3) split) (use ne i in simp)
    moreover have "cleared s ?ts = cleared s ts"
      unfolding upd by (subst (3) split) (use ne i in \<open>simp add: cleared_def\<close>)
    ultimately show ?thesis
      using Some less by (subst RemoveSocketTimerFromList.simps) simp
  qed
qed

lemma RemoveSocketTimerFromList_invalid_diverges:
  assumes "kEipInvalidSocket \<in> socket ` set ts"
  shows "RemoveSocketTimerFromList kEipInvalidSocket ts = None"
proof -
  have "\<not> (s = kEipInvalidSocket \<and> kEipInvalidSocket \<in> socket ` set ts)"
    if "RemoveSocketTimerFromList s ts = Some us" for s us ts
  proof (rule RemoveSocketTimerFromList.raw_induct
      [where P = "\<lambda>s ts us. \<not> (s = kEipInvalidSocket \<and> kEipInvalidSocket \<in> socket ` set ts)",
        OF _ that])
    fix f s ts us
    assume IH: "\<And>s ts us. f s ts = Some us \<Longrightarrow> \<not> (s = kEipInvalidSocket \<and> kEipInvalidSocket \<in> socket ` set ts)"
      and step: "(case SocketTimerArrayGetSocketTimer ts s of None \<Rightarrow> Some ts
        | Some i \<Rightarrow> f s (ts[i := SocketTimerClear (ts ! i)])) = Some us"
    show "\<not> (s = kEipInvalidSocket \<and> kEipInvalidSocket \<in> socket ` set ts)"
    proof
      assume inv: "s = kEipInvalidSocket \<and> kEipInvalidSocket \<in> socket ` set ts"
      then obtain i where i: "SocketTimerArrayGetSocketTimer ts s = Some i"
        using GetSocketTimer_None_iff [of ts kEipInvalidSocket] by auto
      then have "i < length ts"
        by (simp add: GetSocketTimer_Some_iff)
      then have "SocketTimerClear (ts ! i) \<in> set (ts[i := SocketTimerClear (ts ! i)])"
        by (simp add: set_update_memI)
      then have "kEipInvalidSocket \<in> socket ` set (ts[i := SocketTimerClear (ts ! i)])"
        by (rule rev_image_eqI) (simp add: SocketTimerClear_def)
      with IH [of s "ts[i := SocketTimerClear (ts ! i)]" us] step i inv show False
        by simp
    qed
  qed
  with assms show ?thesis
    by (cases "RemoveSocketTimerFromList kEipInvalidSocket ts") auto
qed

lemma timers_wf_cleared: "timers_wf ts \<Longrightarrow> timers_wf (cleared s ts)"
  by (fastforce simp: timers_wf_def cleared_def SocketTimerClear_def)

lemma sockets_cleared:
  "s \<noteq> kEipInvalidSocket \<Longrightarrow>
   socket ` set (cleared s ts) - {kEipInvalidSocket} = socket ` set ts - {s, kEipInvalidSocket}"
  by (auto simp: cleared_def SocketTimerClear_def image_iff)

text \<open>C8: removing the timers of a valid socket returns, clears every entry of that socket and
  leaves the others alone; asked to remove the invalid socket, which marks the free entries, the
  loop never returns as long as there is a free entry.\<close>

theorem remove_socket_timer_returns_iff:
  "RemoveSocketTimerFromList s ts =
     (if s = kEipInvalidSocket \<and> kEipInvalidSocket \<in> socket ` set ts then None
      else Some (map (\<lambda>t. if socket t = s then SocketTimerClear t else t) ts))"
proof (cases "s = kEipInvalidSocket")
  case True
  show ?thesis
  proof (cases "s \<in> socket ` set ts")
    case False
    then have "SocketTimerArrayGetSocketTimer ts s = None"
      by (simp add: GetSocketTimer_None_iff)
    moreover have "map (\<lambda>t. if socket t = s then SocketTimerClear t else t) ts = ts"
      using False by (auto intro!: map_idI)
    ultimately show ?thesis
      using True False by (subst RemoveSocketTimerFromList.simps) simp
  qed (use True RemoveSocketTimerFromList_invalid_diverges in simp)
next
  case False
  then show ?thesis
    by (simp add: RemoveSocketTimerFromList_valid cleared_def)
qed

end
