(* ===== verification/Conn_Object.thy ===== *)
theory Conn_Object
  imports Electronic_Key Cip_Types
begin

unbundle bit_operations_syntax

text \<open>
  \<^verbatim>\<open>cip/cipconnectionobject.[ch]\<close>: the CIP connection object.  The object is a record with
  the structure's fields; its operations are functions on it.  What the code reads of the
  environment is an argument: the draws of \<^verbatim>\<open>rand()\<close>, the incarnation identifier and the
  connection counter of \<^verbatim>\<open>GetConnectionId\<close>, the numbers of the connections already open.

  A pointer to a CIP instance is the pair of class code and instance number that identifies it,
  and the four connection function pointers are the names of the functions they may hold.  The
  two path octet pointers, which the code only ever clears, are left out.
\<close>

section \<open>Enumerations\<close>

datatype ConnectionObjectState =
  kConnectionObjectStateNonExistent
| kConnectionObjectStateConfiguring
| kConnectionObjectStateWaitingForConnectionID
| kConnectionObjectStateEstablished
| kConnectionObjectStateTimedOut
| kConnectionObjectStateDeferredDelete
| kConnectionObjectStateClosing
| kConnectionObjectStateInvalid

datatype ConnectionObjectInstanceType =
  kConnectionObjectInstanceTypeInvalid
| kConnectionObjectInstanceTypeExplicitMessaging
| kConnectionObjectInstanceTypeIO
| kConnectionObjectInstanceTypeIOExclusiveOwner
| kConnectionObjectInstanceTypeIOInputOnly
| kConnectionObjectInstanceTypeIOListenOnly
| kConnectionObjectInstanceTypeCipBridged

datatype ConnectionObjectTransportClassTriggerDirection =
  kConnectionObjectTransportClassTriggerDirectionClient
| kConnectionObjectTransportClassTriggerDirectionServer

datatype ConnectionObjectTransportClassTriggerProductionTrigger =
  kConnectionObjectTransportClassTriggerProductionTriggerInvalid
| kConnectionObjectTransportClassTriggerProductionTriggerCyclic
| kConnectionObjectTransportClassTriggerProductionTriggerChangeOfState
| kConnectionObjectTransportClassTriggerProductionTriggerApplicationObject

datatype ConnectionObjectTransportClassTriggerTransportClass =
  kConnectionObjectTransportClassTriggerTransportClassInvalid
| kConnectionObjectTransportClassTriggerTransportClass0
| kConnectionObjectTransportClassTriggerTransportClass1
| kConnectionObjectTransportClassTriggerTransportClass2
| kConnectionObjectTransportClassTriggerTransportClass3

datatype ConnectionObjectWatchdogTimeoutAction =
  kConnectionObjectWatchdogTimeoutActionTransitionToTimedOut
| kConnectionObjectWatchdogTimeoutActionAutoDelete
| kConnectionObjectWatchdogTimeoutActionAutoReset
| kConnectionObjectWatchdogTimeoutActionDeferredDelete
| kConnectionObjectWatchdogTimeoutActionInvalid

datatype ConnectionObjectConnectionType =
  kConnectionObjectConnectionTypeNull
| kConnectionObjectConnectionTypeMulticast
| kConnectionObjectConnectionTypePointToPoint
| kConnectionObjectConnectionTypeInvalid

datatype ConnectionObjectPriority =
  kConnectionObjectPriorityLow
| kConnectionObjectPriorityHigh
| kConnectionObjectPriorityScheduled
| kConnectionObjectPriorityUrgent
| kConnectionObjectPriorityExplicit

datatype ConnectionObjectConnectionSizeType =
  kConnectionObjectConnectionSizeTypeFixed
| kConnectionObjectConnectionSizeTypeVariable

section \<open>The connection object\<close>

text \<open>The values the four function pointers take in the code; \<open>None\<close> is \<^verbatim>\<open>NULL\<close>.\<close>

datatype ConnectionCloseFunction = CloseConnection_fn | CloseIoConnection_fn
datatype ConnectionTimeoutFunction = Class3ConnectionTimeoutHandler_fn | HandleIoConnectionTimeOut_fn
datatype ConnectionSendDataFunction = SendConnectedData_fn
datatype ConnectionReceiveDataFunction = HandleReceivedIoConnectionData_fn

type_synonym instance_ref = "u32 \<times> u16"

record sockaddr_in =
  sin_port :: u16
  s_addr :: u32

record CipConnectionObject =
  state :: u8
  instance_type :: ConnectionObjectInstanceType
  transport_class_trigger :: u8
  produced_connection_size :: u16
  consumed_connection_size :: u16
  expected_packet_rate :: u16
  cip_produced_connection_id :: u32
  cip_consumed_connection_id :: u32
  watchdog_timeout_action :: u16
  produced_connection_path_length :: u16
  produced_path :: CipConnectionPathEpath
  consumed_connection_path_length :: u16
  consumed_path :: CipConnectionPathEpath
  production_inhibit_time :: u16
  connection_timeout_multiplier :: u8
  electronic_key :: CipElectronicKey
  configuration_path :: CipConnectionPathEpath
  producing_instance :: "instance_ref option"
  consuming_instance :: "instance_ref option"
  requested_produced_connection_size :: u16
  requested_consumed_connection_size :: u16
  transmission_trigger_timer :: u64
  inactivity_watchdog_timer :: u64
  last_package_watchdog_timer :: u64
  production_inhibit_timer :: u64
  connection_serial_number :: u16
  originator_vendor_id :: u16
  originator_serial_number :: u32
  connection_number :: u16
  o_to_t_requested_packet_interval :: u32
  o_to_t_network_connection_parameters :: u32
  t_to_o_requested_packet_interval :: u32
  t_to_o_network_connection_parameters :: u32
  sequence_count_producing :: u16
  sequence_count_consuming :: u16
  eip_level_sequence_count_producing :: u32
  eip_level_sequence_count_consuming :: u32
  eip_first_level_sequence_count_received :: bool
  correct_originator_to_target_size :: u16
  correct_target_to_originator_size :: u16
  socket_producing :: socket_fd
  socket_consuming :: socket_fd
  remote_address :: sockaddr_in
  originator_address :: sockaddr_in
  associated_encapsulation_session :: u32
  connection_close_function :: "ConnectionCloseFunction option"
  connection_timeout_function :: "ConnectionTimeoutFunction option"
  connection_send_data_function :: "ConnectionSendDataFunction option"
  connection_receive_data_function :: "ConnectionReceiveDataFunction option"
  last_reply_sent :: ENIPMessage
  is_large_forward_open :: bool

definition zero_sockaddr :: sockaddr_in where
  "zero_sockaddr = \<lparr>sin_port = 0, s_addr = 0\<rparr>"

text \<open>An object of all zero octets, as static storage and \<^verbatim>\<open>memset\<close> leave it: the sockets
  are descriptor 0, and the last reply is an empty message whose write pointer is at offset 0 of
  nothing.\<close>

definition zero_connection_object :: CipConnectionObject where
  "zero_connection_object =
     \<lparr>state = 0, instance_type = kConnectionObjectInstanceTypeExplicitMessaging,
      transport_class_trigger = 0, produced_connection_size = 0, consumed_connection_size = 0,
      expected_packet_rate = 0, cip_produced_connection_id = 0, cip_consumed_connection_id = 0,
      watchdog_timeout_action = 0, produced_connection_path_length = 0, produced_path = zero_epath,
      consumed_connection_path_length = 0, consumed_path = zero_epath, production_inhibit_time = 0,
      connection_timeout_multiplier = 0, electronic_key = \<lparr>key_format = 0, key_data = None\<rparr>,
      configuration_path = zero_epath, producing_instance = None, consuming_instance = None,
      requested_produced_connection_size = 0, requested_consumed_connection_size = 0,
      transmission_trigger_timer = 0, inactivity_watchdog_timer = 0,
      last_package_watchdog_timer = 0, production_inhibit_timer = 0, connection_serial_number = 0,
      originator_vendor_id = 0, originator_serial_number = 0, connection_number = 0,
      o_to_t_requested_packet_interval = 0, o_to_t_network_connection_parameters = 0,
      t_to_o_requested_packet_interval = 0, t_to_o_network_connection_parameters = 0,
      sequence_count_producing = 0, sequence_count_consuming = 0,
      eip_level_sequence_count_producing = 0, eip_level_sequence_count_consuming = 0,
      eip_first_level_sequence_count_received = False, correct_originator_to_target_size = 0,
      correct_target_to_originator_size = 0, socket_producing = 0, socket_consuming = 0,
      remote_address = zero_sockaddr, originator_address = zero_sockaddr,
      associated_encapsulation_session = 0, connection_close_function = None,
      connection_timeout_function = None, connection_send_data_function = None,
      connection_receive_data_function = None, last_reply_sent = InitializeENIPMessage,
      is_large_forward_open = False\<rparr>"

section \<open>State and types\<close>

definition ConnectionObjectGetState :: "CipConnectionObject \<Rightarrow> ConnectionObjectState" where
  "ConnectionObjectGetState c =
     (if state c = 0 then kConnectionObjectStateNonExistent
      else if state c = 1 then kConnectionObjectStateConfiguring
      else if state c = 2 then kConnectionObjectStateWaitingForConnectionID
      else if state c = 3 then kConnectionObjectStateEstablished
      else if state c = 4 then kConnectionObjectStateTimedOut
      else if state c = 5 then kConnectionObjectStateDeferredDelete
      else if state c = 6 then kConnectionObjectStateClosing
      else kConnectionObjectStateInvalid)"

fun ConnectionObjectSetState ::
    "ConnectionObjectState \<Rightarrow> CipConnectionObject \<Rightarrow> CipConnectionObject option" where
  "ConnectionObjectSetState kConnectionObjectStateNonExistent c = Some (c\<lparr>state := 0\<rparr>)"
| "ConnectionObjectSetState kConnectionObjectStateConfiguring c = Some (c\<lparr>state := 1\<rparr>)"
| "ConnectionObjectSetState kConnectionObjectStateWaitingForConnectionID c = Some (c\<lparr>state := 2\<rparr>)"
| "ConnectionObjectSetState kConnectionObjectStateEstablished c = Some (c\<lparr>state := 3\<rparr>)"
| "ConnectionObjectSetState kConnectionObjectStateTimedOut c = Some (c\<lparr>state := 4\<rparr>)"
| "ConnectionObjectSetState kConnectionObjectStateDeferredDelete c = Some (c\<lparr>state := 5\<rparr>)"
| "ConnectionObjectSetState kConnectionObjectStateClosing c = Some (c\<lparr>state := 6\<rparr>)"
| "ConnectionObjectSetState kConnectionObjectStateInvalid c = None"

definition ConnectionObjectInitializeEmpty :: "CipConnectionObject option" where
  "ConnectionObjectInitializeEmpty = do {
     c \<leftarrow> ConnectionObjectSetState kConnectionObjectStateNonExistent zero_connection_object;
     Some (c\<lparr>socket_producing := kEipInvalidSocket, socket_consuming := kEipInvalidSocket\<rparr>) }"

definition ConnectionObjectGetInstanceType ::
    "CipConnectionObject \<Rightarrow> ConnectionObjectInstanceType" where
  "ConnectionObjectGetInstanceType c = instance_type c"

definition ConnectionObjectSetInstanceType ::
    "ConnectionObjectInstanceType \<Rightarrow> CipConnectionObject \<Rightarrow> CipConnectionObject" where
  "ConnectionObjectSetInstanceType t c = c\<lparr>instance_type := t\<rparr>"

text \<open>The attribute value on the wire; the fault case stops in the assertion.\<close>

definition ConnectionObjectGetInstanceTypeForAttribute :: "CipConnectionObject \<Rightarrow> u8 option" where
  "ConnectionObjectGetInstanceTypeForAttribute c =
     (case instance_type c of
        kConnectionObjectInstanceTypeExplicitMessaging \<Rightarrow> Some 0
      | kConnectionObjectInstanceTypeIO \<Rightarrow> Some 1
      | kConnectionObjectInstanceTypeIOExclusiveOwner \<Rightarrow> Some 1
      | kConnectionObjectInstanceTypeIOInputOnly \<Rightarrow> Some 1
      | kConnectionObjectInstanceTypeIOListenOnly \<Rightarrow> Some 1
      | kConnectionObjectInstanceTypeCipBridged \<Rightarrow> Some 2
      | kConnectionObjectInstanceTypeInvalid \<Rightarrow> None)"

definition ConnectionObjectIsTypeNonLOIOConnection :: "CipConnectionObject \<Rightarrow> bool" where
  "ConnectionObjectIsTypeNonLOIOConnection c =
     (case instance_type c of
        kConnectionObjectInstanceTypeIO \<Rightarrow> True
      | kConnectionObjectInstanceTypeIOExclusiveOwner \<Rightarrow> True
      | kConnectionObjectInstanceTypeIOInputOnly \<Rightarrow> True
      | _ \<Rightarrow> False)"

definition ConnectionObjectIsTypeIOConnection :: "CipConnectionObject \<Rightarrow> bool" where
  "ConnectionObjectIsTypeIOConnection c =
     (case instance_type c of
        kConnectionObjectInstanceTypeIO \<Rightarrow> True
      | kConnectionObjectInstanceTypeIOExclusiveOwner \<Rightarrow> True
      | kConnectionObjectInstanceTypeIOInputOnly \<Rightarrow> True
      | kConnectionObjectInstanceTypeIOListenOnly \<Rightarrow> True
      | _ \<Rightarrow> False)"

section \<open>Transport class and trigger\<close>

definition ConnectionObjectGetTransportClassTriggerDirection ::
    "CipConnectionObject \<Rightarrow> ConnectionObjectTransportClassTriggerDirection" where
  "ConnectionObjectGetTransportClassTriggerDirection c =
     (if transport_class_trigger c AND 0x80 = 0x80
      then kConnectionObjectTransportClassTriggerDirectionServer
      else kConnectionObjectTransportClassTriggerDirectionClient)"

definition ConnectionObjectGetTransportClassTriggerProductionTrigger ::
    "CipConnectionObject \<Rightarrow> ConnectionObjectTransportClassTriggerProductionTrigger" where
  "ConnectionObjectGetTransportClassTriggerProductionTrigger c =
     (let t = transport_class_trigger c AND 0x70 in
      if t = 0 then kConnectionObjectTransportClassTriggerProductionTriggerCyclic
      else if t = 0x10 then kConnectionObjectTransportClassTriggerProductionTriggerChangeOfState
      else if t = 0x20 then kConnectionObjectTransportClassTriggerProductionTriggerApplicationObject
      else kConnectionObjectTransportClassTriggerProductionTriggerInvalid)"

definition ConnectionObjectGetTransportClassTriggerTransportClass ::
    "CipConnectionObject \<Rightarrow> ConnectionObjectTransportClassTriggerTransportClass" where
  "ConnectionObjectGetTransportClassTriggerTransportClass c =
     (let t = transport_class_trigger c AND 0x0F in
      if t = 0 then kConnectionObjectTransportClassTriggerTransportClass0
      else if t = 1 then kConnectionObjectTransportClassTriggerTransportClass1
      else if t = 2 then kConnectionObjectTransportClassTriggerTransportClass2
      else if t = 3 then kConnectionObjectTransportClassTriggerTransportClass3
      else kConnectionObjectTransportClassTriggerTransportClassInvalid)"

section \<open>Fields read and written as they are\<close>

definition ConnectionObjectGetProducedConnectionSize :: "CipConnectionObject \<Rightarrow> u16" where
  "ConnectionObjectGetProducedConnectionSize c = produced_connection_size c"

definition ConnectionObjectSetProducedConnectionSize ::
    "u16 \<Rightarrow> CipConnectionObject \<Rightarrow> CipConnectionObject" where
  "ConnectionObjectSetProducedConnectionSize n c = c\<lparr>produced_connection_size := n\<rparr>"

definition ConnectionObjectGetConsumedConnectionSize :: "CipConnectionObject \<Rightarrow> u16" where
  "ConnectionObjectGetConsumedConnectionSize c = consumed_connection_size c"

definition ConnectionObjectSetConsumedConnectionSize ::
    "u16 \<Rightarrow> CipConnectionObject \<Rightarrow> CipConnectionObject" where
  "ConnectionObjectSetConsumedConnectionSize n c = c\<lparr>consumed_connection_size := n\<rparr>"

definition ConnectionObjectGetCipProducedConnectionID :: "CipConnectionObject \<Rightarrow> u32" where
  "ConnectionObjectGetCipProducedConnectionID c = cip_produced_connection_id c"

definition ConnectionObjectSetCipProducedConnectionID ::
    "u32 \<Rightarrow> CipConnectionObject \<Rightarrow> CipConnectionObject" where
  "ConnectionObjectSetCipProducedConnectionID i c = c\<lparr>cip_produced_connection_id := i\<rparr>"

definition ConnectionObjectGetCipConsumedConnectionID :: "CipConnectionObject \<Rightarrow> u32" where
  "ConnectionObjectGetCipConsumedConnectionID c = cip_consumed_connection_id c"

definition ConnectionObjectSetCipConsumedConnectionID ::
    "u32 \<Rightarrow> CipConnectionObject \<Rightarrow> CipConnectionObject" where
  "ConnectionObjectSetCipConsumedConnectionID i c = c\<lparr>cip_consumed_connection_id := i\<rparr>"

definition ConnectionObjectGetProducedConnectionPathLength :: "CipConnectionObject \<Rightarrow> u16" where
  "ConnectionObjectGetProducedConnectionPathLength c = produced_connection_path_length c"

definition ConnectionObjectSetProducedConnectionPathLength ::
    "u16 \<Rightarrow> CipConnectionObject \<Rightarrow> CipConnectionObject" where
  "ConnectionObjectSetProducedConnectionPathLength n c = c\<lparr>produced_connection_path_length := n\<rparr>"

definition ConnectionObjectGetConsumedConnectionPathLength :: "CipConnectionObject \<Rightarrow> u16" where
  "ConnectionObjectGetConsumedConnectionPathLength c = consumed_connection_path_length c"

definition ConnectionObjectSetConsumedConnectionPathLength ::
    "u16 \<Rightarrow> CipConnectionObject \<Rightarrow> CipConnectionObject" where
  "ConnectionObjectSetConsumedConnectionPathLength n c = c\<lparr>consumed_connection_path_length := n\<rparr>"

definition ConnectionObjectGetProductionInhibitTime :: "CipConnectionObject \<Rightarrow> u16" where
  "ConnectionObjectGetProductionInhibitTime c = production_inhibit_time c"

definition ConnectionObjectSetProductionInhibitTime ::
    "u16 \<Rightarrow> CipConnectionObject \<Rightarrow> CipConnectionObject" where
  "ConnectionObjectSetProductionInhibitTime t c = c\<lparr>production_inhibit_time := t\<rparr>"

definition ConnectionObjectGetConnectionSerialNumber :: "CipConnectionObject \<Rightarrow> u16" where
  "ConnectionObjectGetConnectionSerialNumber c = connection_serial_number c"

definition ConnectionObjectSetConnectionSerialNumber ::
    "u16 \<Rightarrow> CipConnectionObject \<Rightarrow> CipConnectionObject" where
  "ConnectionObjectSetConnectionSerialNumber n c = c\<lparr>connection_serial_number := n\<rparr>"

definition ConnectionObjectGetOriginatorVendorId :: "CipConnectionObject \<Rightarrow> u16" where
  "ConnectionObjectGetOriginatorVendorId c = originator_vendor_id c"

definition ConnectionObjectSetOriginatorVendorId ::
    "u16 \<Rightarrow> CipConnectionObject \<Rightarrow> CipConnectionObject" where
  "ConnectionObjectSetOriginatorVendorId v c = c\<lparr>originator_vendor_id := v\<rparr>"

definition ConnectionObjectGetOriginatorSerialNumber :: "CipConnectionObject \<Rightarrow> u32" where
  "ConnectionObjectGetOriginatorSerialNumber c = originator_serial_number c"

definition ConnectionObjectSetOriginatorSerialNumber ::
    "u32 \<Rightarrow> CipConnectionObject \<Rightarrow> CipConnectionObject" where
  "ConnectionObjectSetOriginatorSerialNumber n c = c\<lparr>originator_serial_number := n\<rparr>"

definition ConnectionObjectGetConnectionTimeoutMultiplier :: "CipConnectionObject \<Rightarrow> u8" where
  "ConnectionObjectGetConnectionTimeoutMultiplier c = connection_timeout_multiplier c"

definition ConnectionObjectSetConnectionTimeoutMultiplier ::
    "u8 \<Rightarrow> CipConnectionObject \<Rightarrow> CipConnectionObject" where
  "ConnectionObjectSetConnectionTimeoutMultiplier m c = c\<lparr>connection_timeout_multiplier := m\<rparr>"

definition ConnectionObjectGetOToTRequestedPacketInterval :: "CipConnectionObject \<Rightarrow> u32" where
  "ConnectionObjectGetOToTRequestedPacketInterval c = o_to_t_requested_packet_interval c"

definition ConnectionObjectSetOToTRequestedPacketInterval ::
    "u32 \<Rightarrow> CipConnectionObject \<Rightarrow> CipConnectionObject" where
  "ConnectionObjectSetOToTRequestedPacketInterval r c = c\<lparr>o_to_t_requested_packet_interval := r\<rparr>"

definition ConnectionObjectGetTToORequestedPacketInterval :: "CipConnectionObject \<Rightarrow> u32" where
  "ConnectionObjectGetTToORequestedPacketInterval c = t_to_o_requested_packet_interval c"

definition ConnectionObjectSetTToORequestedPacketInterval ::
    "u32 \<Rightarrow> CipConnectionObject \<Rightarrow> CipConnectionObject" where
  "ConnectionObjectSetTToORequestedPacketInterval r c = c\<lparr>t_to_o_requested_packet_interval := r\<rparr>"

definition ConnectionObjectGetExpectedPacketRate :: "CipConnectionObject \<Rightarrow> u16" where
  "ConnectionObjectGetExpectedPacketRate c = expected_packet_rate c"

definition ConnectionObjectSetTToONetworkConnectionParameters ::
    "u32 \<Rightarrow> CipConnectionObject \<Rightarrow> CipConnectionObject" where
  "ConnectionObjectSetTToONetworkConnectionParameters p c = c\<lparr>t_to_o_network_connection_parameters := p\<rparr>"

definition ConnectionObjectSetOToTNetworkConnectionParameters ::
    "u32 \<Rightarrow> CipConnectionObject \<Rightarrow> CipConnectionObject" where
  "ConnectionObjectSetOToTNetworkConnectionParameters p c = c\<lparr>o_to_t_network_connection_parameters := p\<rparr>"

section \<open>Packet rates\<close>

definition kOpenerTimerTickInMilliSeconds :: MilliSeconds where
  "kOpenerTimerTickInMilliSeconds = 10"

text \<open>The remainder is computed in 64 bits and stored in a \<^verbatim>\<open>CipUdint\<close>.\<close>

definition remainder_to_resolution :: "CipConnectionObject \<Rightarrow> u32" where
  "remainder_to_resolution c =
     ucast (ucast (t_to_o_requested_packet_interval c) mod (kOpenerTimerTickInMilliSeconds * 1000))"

definition ConnectionObjectGetRequestedPacketInterval :: "CipConnectionObject \<Rightarrow> u16" where
  "ConnectionObjectGetRequestedPacketInterval c =
     (if remainder_to_resolution c = 0
      then ucast (t_to_o_requested_packet_interval c div 1000)
      else ucast (t_to_o_requested_packet_interval c div 1000 - remainder_to_resolution c div 1000))"

definition ConnectionObjectSetExpectedPacketRate ::
    "CipConnectionObject \<Rightarrow> CipConnectionObject" where
  "ConnectionObjectSetExpectedPacketRate c =
     (if remainder_to_resolution c = 0
      then c\<lparr>expected_packet_rate := ucast (t_to_o_requested_packet_interval c div 1000)\<rparr>
      else c\<lparr>expected_packet_rate := ucast (t_to_o_requested_packet_interval c div 1000
              + (ucast kOpenerTimerTickInMilliSeconds - remainder_to_resolution c div 1000))\<rparr>)"

section \<open>Watchdog\<close>

definition ConnectionObjectGetWatchdogTimeoutAction ::
    "CipConnectionObject \<Rightarrow> ConnectionObjectWatchdogTimeoutAction" where
  "ConnectionObjectGetWatchdogTimeoutAction c =
     (let a = watchdog_timeout_action c in
      if a = 0 then kConnectionObjectWatchdogTimeoutActionTransitionToTimedOut
      else if a = 1 then kConnectionObjectWatchdogTimeoutActionAutoDelete
      else if a = 2 then kConnectionObjectWatchdogTimeoutActionAutoReset
      else if a = 3 then kConnectionObjectWatchdogTimeoutActionDeferredDelete
      else kConnectionObjectWatchdogTimeoutActionInvalid)"

text \<open>The values of the enumeration are 0 to 4 in its order; anything above 3 is stored as
  the invalid action.\<close>

definition ConnectionObjectSetWatchdogTimeoutAction ::
    "u8 \<Rightarrow> CipConnectionObject \<Rightarrow> CipConnectionObject" where
  "ConnectionObjectSetWatchdogTimeoutAction a c =
     (if a = 0 then c\<lparr>watchdog_timeout_action := 0\<rparr>
      else if a = 1 then c\<lparr>watchdog_timeout_action := 1\<rparr>
      else if a = 2 then c\<lparr>watchdog_timeout_action := 2\<rparr>
      else if a = 3 then c\<lparr>watchdog_timeout_action := 3\<rparr>
      else c\<lparr>watchdog_timeout_action := 4\<rparr>)"

text \<open>Shifting a 64-bit value by 64 or more is undefined; the multiplier is an octet of the
  request that nothing has checked.\<close>

definition ConnectionObjectCalculateRegularInactivityWatchdogTimerValue ::
    "CipConnectionObject \<Rightarrow> u64 option" where
  "ConnectionObjectCalculateRegularInactivityWatchdogTimerValue c =
     (let shift = 2 + unat (connection_timeout_multiplier c) in
      if shift < 64
      then Some (push_bit shift (ucast (o_to_t_requested_packet_interval c) div 1000))
      else None)"

definition ConnectionObjectSetInitialInactivityWatchdogTimerValue ::
    "CipConnectionObject \<Rightarrow> CipConnectionObject option" where
  "ConnectionObjectSetInitialInactivityWatchdogTimerValue c = do {
     calculated_timeout_value \<leftarrow> ConnectionObjectCalculateRegularInactivityWatchdogTimerValue c;
     Some (c\<lparr>inactivity_watchdog_timer :=
       (if calculated_timeout_value > 10000 then calculated_timeout_value else 10000)\<rparr>) }"

definition ConnectionObjectResetInactivityWatchdogTimerValue ::
    "CipConnectionObject \<Rightarrow> CipConnectionObject option" where
  "ConnectionObjectResetInactivityWatchdogTimerValue c = do {
     v \<leftarrow> ConnectionObjectCalculateRegularInactivityWatchdogTimerValue c;
     Some (c\<lparr>inactivity_watchdog_timer := v\<rparr>) }"

definition ConnectionObjectResetLastPackageInactivityTimerValue ::
    "CipConnectionObject \<Rightarrow> CipConnectionObject option" where
  "ConnectionObjectResetLastPackageInactivityTimerValue c = do {
     v \<leftarrow> ConnectionObjectCalculateRegularInactivityWatchdogTimerValue c;
     Some (c\<lparr>last_package_watchdog_timer := v\<rparr>) }"

section \<open>Connection numbers\<close>

text \<open>\<open>draw rand numbers todo r k\<close> is the search loop of \<^verbatim>\<open>GenerateRandomConnectionNumber\<close> with
  candidate \<open>r\<close>, \<open>todo\<close> the numbers of the list nodes still to visit and \<open>k\<close> the index of the
  next value \<^verbatim>\<open>rand()\<close> returns; on a collision the function calls itself, which draws again and
  searches the whole list.  \<open>None\<close> is the recursion that never ends.\<close>

partial_function (option) draw ::
    "(nat \<Rightarrow> u16) \<Rightarrow> u16 list \<Rightarrow> u16 list \<Rightarrow> u16 \<Rightarrow> nat \<Rightarrow> (u16 \<times> nat) option" where
  "draw rand numbers todo rand_num k =
     (case todo of
        [] \<Rightarrow> Some (rand_num, k)
      | n # todo \<Rightarrow>
          if n = rand_num then do {
            (rand_num, k) \<leftarrow> draw rand numbers numbers (rand k) (Suc k);
            draw rand numbers todo rand_num k }
          else draw rand numbers todo rand_num k)"

declare draw.simps [code]

definition GenerateRandomConnectionNumber ::
    "(nat \<Rightarrow> u16) \<Rightarrow> u16 list \<Rightarrow> nat \<Rightarrow> (u16 \<times> nat) option" where
  "GenerateRandomConnectionNumber rand numbers k = draw rand numbers numbers (rand k) (Suc k)"

definition ConnectionObjectGetConnectionlNumber :: "CipConnectionObject \<Rightarrow> u32" where
  "ConnectionObjectGetConnectionlNumber c = ucast (connection_number c)"

definition ConnectionObjectSetConnectionNumber ::
    "(nat \<Rightarrow> u16) \<Rightarrow> u16 list \<Rightarrow> nat \<Rightarrow> CipConnectionObject \<Rightarrow> (CipConnectionObject \<times> nat) option" where
  "ConnectionObjectSetConnectionNumber rand numbers k c = do {
     (n, k) \<leftarrow> GenerateRandomConnectionNumber rand numbers k;
     Some (c\<lparr>connection_number := n\<rparr>, k) }"

section \<open>Network connection parameters\<close>

definition ConnectionObjectIsRedundantOwner :: "u32 \<Rightarrow> bool \<Rightarrow> bool" where
  "ConnectionObjectIsRedundantOwner connection_parameters is_lfo =
     (if is_lfo then connection_parameters AND push_bit 31 1 \<noteq> 0
      else connection_parameters AND push_bit 15 1 \<noteq> 0)"

definition ConnectionObjectIsOToTRedundantOwner :: "CipConnectionObject \<Rightarrow> bool" where
  "ConnectionObjectIsOToTRedundantOwner c =
     ConnectionObjectIsRedundantOwner (o_to_t_network_connection_parameters c) (is_large_forward_open c)"

definition ConnectionObjectIsTToORedundantOwner :: "CipConnectionObject \<Rightarrow> bool" where
  "ConnectionObjectIsTToORedundantOwner c =
     ConnectionObjectIsRedundantOwner (t_to_o_network_connection_parameters c) (is_large_forward_open c)"

definition ConnectionObjectGetConnectionType :: "u32 \<Rightarrow> bool \<Rightarrow> ConnectionObjectConnectionType" where
  "ConnectionObjectGetConnectionType connection_parameters is_lfo =
     (let connection_type =
        (if is_lfo then ucast (drop_bit 29 (connection_parameters AND push_bit 29 3))
         else ucast (drop_bit 13 (connection_parameters AND push_bit 13 3)) :: u8) in
      if connection_type = 0 then kConnectionObjectConnectionTypeNull
      else if connection_type = 1 then kConnectionObjectConnectionTypeMulticast
      else if connection_type = 2 then kConnectionObjectConnectionTypePointToPoint
      else kConnectionObjectConnectionTypeInvalid)"

definition ConnectionObjectGetOToTConnectionType ::
    "CipConnectionObject \<Rightarrow> ConnectionObjectConnectionType" where
  "ConnectionObjectGetOToTConnectionType c =
     ConnectionObjectGetConnectionType (o_to_t_network_connection_parameters c) (is_large_forward_open c)"

definition ConnectionObjectGetTToOConnectionType ::
    "CipConnectionObject \<Rightarrow> ConnectionObjectConnectionType" where
  "ConnectionObjectGetTToOConnectionType c =
     ConnectionObjectGetConnectionType (t_to_o_network_connection_parameters c) (is_large_forward_open c)"

definition ConnectionObjectGetPriority :: "u32 \<Rightarrow> bool \<Rightarrow> ConnectionObjectPriority option" where
  "ConnectionObjectGetPriority connection_parameters is_lfo =
     (let priority =
        (if is_lfo then ucast (drop_bit 26 (connection_parameters AND push_bit 26 3))
         else ucast (drop_bit 10 (connection_parameters AND push_bit 10 3)) :: u8) in
      if priority = 0 then Some kConnectionObjectPriorityLow
      else if priority = 1 then Some kConnectionObjectPriorityHigh
      else if priority = 2 then Some kConnectionObjectPriorityScheduled
      else if priority = 3 then Some kConnectionObjectPriorityUrgent
      else None)"

definition ConnectionObjectGetOToTPriority ::
    "CipConnectionObject \<Rightarrow> ConnectionObjectPriority option" where
  "ConnectionObjectGetOToTPriority c =
     ConnectionObjectGetPriority (o_to_t_network_connection_parameters c) (is_large_forward_open c)"

definition ConnectionObjectGetTToOPriority ::
    "CipConnectionObject \<Rightarrow> ConnectionObjectPriority option" where
  "ConnectionObjectGetTToOPriority c =
     ConnectionObjectGetPriority (t_to_o_network_connection_parameters c) (is_large_forward_open c)"

definition ConnectionObjectGetConnectionSizeType ::
    "u32 \<Rightarrow> bool \<Rightarrow> ConnectionObjectConnectionSizeType" where
  "ConnectionObjectGetConnectionSizeType connection_parameters is_lfo =
     (if (if is_lfo then connection_parameters AND push_bit 25 1 \<noteq> 0
          else connection_parameters AND push_bit 9 1 \<noteq> 0)
      then kConnectionObjectConnectionSizeTypeVariable
      else kConnectionObjectConnectionSizeTypeFixed)"

definition ConnectionObjectGetOToTConnectionSizeType ::
    "CipConnectionObject \<Rightarrow> ConnectionObjectConnectionSizeType" where
  "ConnectionObjectGetOToTConnectionSizeType c =
     ConnectionObjectGetConnectionSizeType (o_to_t_network_connection_parameters c)
       (is_large_forward_open c)"

definition ConnectionObjectGetTToOConnectionSizeType ::
    "CipConnectionObject \<Rightarrow> ConnectionObjectConnectionSizeType" where
  "ConnectionObjectGetTToOConnectionSizeType c =
     ConnectionObjectGetConnectionSizeType (t_to_o_network_connection_parameters c)
       (is_large_forward_open c)"

definition ConnectionObjectGetConnectionSize :: "u32 \<Rightarrow> bool \<Rightarrow> size_t" where
  "ConnectionObjectGetConnectionSize connection_parameters is_lfo =
     (let mask = (if is_lfo then 0x0000FFFF else 0x000001FF) in ucast (connection_parameters AND mask))"

definition ConnectionObjectGetOToTConnectionSize :: "CipConnectionObject \<Rightarrow> size_t" where
  "ConnectionObjectGetOToTConnectionSize c =
     ConnectionObjectGetConnectionSize (o_to_t_network_connection_parameters c) (is_large_forward_open c)"

definition ConnectionObjectGetTToOConnectionSize :: "CipConnectionObject \<Rightarrow> size_t" where
  "ConnectionObjectGetTToOConnectionSize c =
     ConnectionObjectGetConnectionSize (t_to_o_network_connection_parameters c) (is_large_forward_open c)"

section \<open>Setting an object up\<close>

text \<open>Reads the fixed part of a forward open request off the message; \<open>numbers\<close> are the
  connection numbers in the connection list.  The result is the object, the advanced pointer and
  the index of the next random draw.\<close>

definition ConnectionObjectInitializeFromMessage ::
    "(nat \<Rightarrow> u16) \<Rightarrow> u16 list \<Rightarrow> nat \<Rightarrow> buf \<Rightarrow> CipConnectionObject
     \<Rightarrow> (CipConnectionObject \<times> buf \<times> nat) option" where
  "ConnectionObjectInitializeFromMessage rand numbers k msg c = do {
     (priority_timetick, msg) \<leftarrow> GetByteFromMessage msg;
     (timeout_ticks, msg) \<leftarrow> GetUsintFromMessage msg;
     (v, msg) \<leftarrow> GetUdintFromMessage msg;
     let c = ConnectionObjectSetCipConsumedConnectionID v c;
     (v, msg) \<leftarrow> GetUdintFromMessage msg;
     let c = ConnectionObjectSetCipProducedConnectionID v c;
     (n, msg) \<leftarrow> GetUintFromMessage msg;
     let c = ConnectionObjectSetConnectionSerialNumber n c;
     (n, msg) \<leftarrow> GetUintFromMessage msg;
     let c = ConnectionObjectSetOriginatorVendorId n c;
     (v, msg) \<leftarrow> GetUdintFromMessage msg;
     let c = ConnectionObjectSetOriginatorSerialNumber v c;
     (c, k) \<leftarrow> ConnectionObjectSetConnectionNumber rand numbers k c;
     c \<leftarrow> ConnectionObjectSetState kConnectionObjectStateNonExistent c;
     let c = c\<lparr>sequence_count_producing := 0\<rparr>;
     (m, msg) \<leftarrow> GetUsintFromMessage msg;
     let c = ConnectionObjectSetConnectionTimeoutMultiplier m c;
     msg \<leftarrow> skip 3 msg;
     (v, msg) \<leftarrow> GetUdintFromMessage msg;
     let c = ConnectionObjectSetOToTRequestedPacketInterval v c;
     c \<leftarrow> ConnectionObjectSetInitialInactivityWatchdogTimerValue c;
     (v, msg) \<leftarrow> (if is_large_forward_open c then GetDwordFromMessage msg
       else do { (w, msg) \<leftarrow> GetWordFromMessage msg; Some (ucast w, msg) });
     let c = ConnectionObjectSetOToTNetworkConnectionParameters v c;
     (v, msg) \<leftarrow> GetUdintFromMessage msg;
     let c = ConnectionObjectSetTToORequestedPacketInterval v c;
     let c = ConnectionObjectSetExpectedPacketRate c;
     (v, msg) \<leftarrow> (if is_large_forward_open c then GetDwordFromMessage msg
       else do { (w, msg) \<leftarrow> GetWordFromMessage msg; Some (ucast w, msg) });
     let c = ConnectionObjectSetTToONetworkConnectionParameters v c;
     (b, msg) \<leftarrow> GetByteFromMessage msg;
     let c = c\<lparr>transport_class_trigger := b\<rparr>;
     Some (c, msg, k) }"

definition ConnectionObjectDeepCopy :: "CipConnectionObject \<Rightarrow> CipConnectionObject" where
  "ConnectionObjectDeepCopy source = source"

definition ConnectionObjectResetSequenceCounts :: "CipConnectionObject \<Rightarrow> CipConnectionObject" where
  "ConnectionObjectResetSequenceCounts c =
     c\<lparr>eip_level_sequence_count_producing := 0, sequence_count_producing := 0,
       eip_level_sequence_count_consuming := 0, eip_first_level_sequence_count_received := False,
       sequence_count_consuming := 0\<rparr>"

definition ConnectionObjectResetProductionInhibitTimer ::
    "CipConnectionObject \<Rightarrow> CipConnectionObject" where
  "ConnectionObjectResetProductionInhibitTimer c =
     c\<lparr>production_inhibit_timer := ucast (production_inhibit_time c)\<rparr>"

text \<open>\<^verbatim>\<open>GetConnectionId\<close> of \<^verbatim>\<open>cip/cipconnectionmanager.c\<close> in the default build: the static
  counter, incremented, in the low half under the incarnation identifier.\<close>

definition GetConnectionId :: "u32 \<Rightarrow> u16 \<Rightarrow> u32 \<times> u16" where
  "GetConnectionId incarnation_id connection_id =
     (let connection_id = connection_id + 1
      in (incarnation_id OR (ucast connection_id AND 0x0000FFFF), connection_id))"

definition ConnectionObjectGeneralConfiguration ::
    "u32 \<Rightarrow> u16 \<Rightarrow> CipConnectionObject \<Rightarrow> CipConnectionObject \<times> u16" where
  "ConnectionObjectGeneralConfiguration incarnation_id connection_id c =
     (let c = c\<lparr>socket_producing := kEipInvalidSocket, socket_consuming := kEipInvalidSocket\<rparr>;
          (c, connection_id) =
            (if ConnectionObjectGetOToTConnectionType c = kConnectionObjectConnectionTypePointToPoint
             then let (v, connection_id) = GetConnectionId incarnation_id connection_id
                  in (ConnectionObjectSetCipConsumedConnectionID v c, connection_id)
             else (c, connection_id));
          (c, connection_id) =
            (if ConnectionObjectGetTToOConnectionType c = kConnectionObjectConnectionTypeMulticast
             then let (v, connection_id) = GetConnectionId incarnation_id connection_id
                  in (ConnectionObjectSetCipProducedConnectionID v c, connection_id)
             else (c, connection_id));
          c = ConnectionObjectResetSequenceCounts c;
          c = ConnectionObjectSetWatchdogTimeoutAction 4 c;
          c = ConnectionObjectResetProductionInhibitTimer c
      in (c\<lparr>transmission_trigger_timer := 0\<rparr>, connection_id))"

section \<open>Comparisons\<close>

definition ConnectionObjectEqualOriginator ::
    "CipConnectionObject \<Rightarrow> CipConnectionObject \<Rightarrow> bool" where
  "ConnectionObjectEqualOriginator object1 object2 \<longleftrightarrow>
     originator_vendor_id object1 = originator_vendor_id object2
     \<and> originator_serial_number object1 = originator_serial_number object2"

definition EqualConnectionTriad :: "CipConnectionObject \<Rightarrow> CipConnectionObject \<Rightarrow> bool" where
  "EqualConnectionTriad object1 object2 \<longleftrightarrow>
     connection_serial_number object1 = connection_serial_number object2
     \<and> originator_vendor_id object1 = originator_vendor_id object2
     \<and> originator_serial_number object1 = originator_serial_number object2"

definition CipConnectionObjectOriginatorHasSameIP ::
    "CipConnectionObject \<Rightarrow> sockaddr_in \<Rightarrow> bool" where
  "CipConnectionObjectOriginatorHasSameIP c address \<longleftrightarrow>
     s_addr address = s_addr (originator_address c)"

section \<open>Properties\<close>

lemma draw_pass: "rand_num \<notin> set todo \<Longrightarrow> draw rand numbers todo rand_num k = Some (rand_num, k)"
proof (induction todo)
  case Nil
  show ?case
    by (subst draw.simps) simp
next
  case (Cons n todo)
  then show ?case
    by (subst draw.simps) auto
qed

lemma draw_fresh:
  assumes "\<forall>i < d. rand (k + i) \<in> set numbers" and "rand (k + d) \<notin> set numbers"
  shows "draw rand numbers numbers (rand k) (Suc k) = Some (rand (k + d), Suc (k + d))"
  using assms
proof (induction d arbitrary: k)
  case 0
  then show ?case
    by (simp add: draw_pass)
next
  case (Suc d)
  have "\<forall>i < d. rand (Suc k + i) \<in> set numbers"
    using Suc.prems(1) by (metis Suc_less_eq add_Suc_shift)
  then have IH: "draw rand numbers numbers (rand (Suc k)) (Suc (Suc k))
      = Some (rand (k + Suc d), Suc (k + Suc d))"
    using Suc.IH [of "Suc k"] Suc.prems(2) by simp
  have "rand k \<in> set numbers"
    using Suc.prems(1) by (metis add.right_neutral zero_less_Suc)
  then obtain ns ms where split: "numbers = ns @ rand k # ms" "rand k \<notin> set ns"
    by (metis split_list_first)
  have skip: "draw rand numbers (xs @ rand k # ms) (rand k) (Suc k)
      = draw rand numbers (rand k # ms) (rand k) (Suc k)" if "rand k \<notin> set xs" for xs
    using that
  proof (induction xs)
    case (Cons x xs)
    then have "x \<noteq> rand k"
      by auto
    with Cons show ?case
      by (subst draw.simps) simp
  qed simp
  have "rand (k + Suc d) \<notin> set ms"
    using Suc.prems(2) split(1) by simp
  then have "draw rand numbers (rand k # ms) (rand k) (Suc k)
      = Some (rand (k + Suc d), Suc (k + Suc d))"
    by (subst draw.simps) (simp add: IH draw_pass)
  then show ?case
    using skip [OF split(2)] split(1) by simp
qed

lemma draw_result:
  assumes "draw rand numbers todo r k = Some (n, k')"
  shows "k \<le> k' \<and> (n = r \<and> r \<notin> set todo \<or> n \<notin> set numbers \<and> (\<exists>i \<ge> k. n = rand i))"
proof -
  define P :: "(nat \<Rightarrow> u16) \<Rightarrow> u16 list \<Rightarrow> u16 list \<Rightarrow> u16 \<Rightarrow> nat \<Rightarrow> u16 \<times> nat \<Rightarrow> bool" where
    "P = (\<lambda>rand numbers todo r k y. k \<le> snd y \<and>
       (fst y = r \<and> r \<notin> set todo \<or> fst y \<notin> set numbers \<and> (\<exists>i \<ge> k. fst y = rand i)))"
  have "P rand numbers todo r k (n, k')"
  proof (rule draw.raw_induct [where P = P, OF _ assms])
    fix f rand numbers todo r k y
    assume IH: "\<And>rand numbers todo r k y. f rand numbers todo r k = Some y \<Longrightarrow> P rand numbers todo r k y"
      and step: "(case todo of [] \<Rightarrow> Some (r, k)
        | n # todo \<Rightarrow> if n = r then f rand numbers numbers (rand k) (Suc k) \<bind>
              (\<lambda>(rand_num, k). f rand numbers todo rand_num k)
            else f rand numbers todo r k) = Some y"
    show "P rand numbers todo r k y"
    proof (cases todo)
      case Nil
      then show ?thesis
        using step by (auto simp: P_def)
    next
      case (Cons m ms)
      show ?thesis
      proof (cases "m = r")
        case True
        then obtain r1 k1 where 1: "f rand numbers numbers (rand k) (Suc k) = Some (r1, k1)"
          and 2: "f rand numbers ms r1 k1 = Some y"
          using step Cons by (auto simp: bind_Some_iff)
        have k1: "Suc k \<le> k1" and r1: "r1 \<notin> set numbers" "\<exists>i \<ge> k. r1 = rand i"
          using IH [OF 1] by (auto simp: P_def dest: Suc_leD)
        have "k1 \<le> snd y" and "fst y = r1 \<or> fst y \<notin> set numbers \<and> (\<exists>i \<ge> k1. fst y = rand i)"
          using IH [OF 2] by (auto simp: P_def)
        moreover have "\<exists>i \<ge> k. fst y = rand i" if "\<exists>i \<ge> k1. fst y = rand i"
          using that k1 by (meson Suc_leD le_trans)
        ultimately show ?thesis
          using k1 r1 by (auto simp: P_def)
      next
        case False
        then show ?thesis
          using IH [of rand numbers ms r k y] step Cons by (auto simp: P_def)
      qed
    qed
  qed
  then show ?thesis
    by (simp add: P_def)
qed

text \<open>C20: The generated connection number is the first value of the random generator that no open connection
  uses, however often the search calls itself, and the function returns exactly if there is such a value.\<close>

theorem random_connection_number_is_first_unused_draw:
  "GenerateRandomConnectionNumber rand numbers k =
     (if \<exists>j \<ge> k. rand j \<notin> set numbers
      then let j = LEAST j. k \<le> j \<and> rand j \<notin> set numbers in Some (rand j, Suc j)
      else None)"
proof (cases "\<exists>j \<ge> k. rand j \<notin> set numbers")
  case True
  define j where "j = (LEAST j. k \<le> j \<and> rand j \<notin> set numbers)"
  have j: "k \<le> j" "rand j \<notin> set numbers"
    using LeastI_ex [OF True] by (simp_all add: j_def)
  have "rand (k + i) \<in> set numbers" if "i < j - k" for i
    using not_less_Least [of "k + i" "\<lambda>j. k \<le> j \<and> rand j \<notin> set numbers"] that
    unfolding j_def [symmetric] by simp
  then have "draw rand numbers numbers (rand k) (Suc k) = Some (rand j, Suc j)"
    using draw_fresh [of "j - k" rand k numbers] j by simp
  then show ?thesis
    using True by (simp add: GenerateRandomConnectionNumber_def j_def Let_def)
next
  case False
  have "draw rand numbers numbers (rand k) (Suc k) = None"
  proof (rule ccontr)
    assume "draw rand numbers numbers (rand k) (Suc k) \<noteq> None"
    then obtain n k' where "draw rand numbers numbers (rand k) (Suc k) = Some (n, k')"
      by auto
    from draw_result [OF this] False show False
      by (meson Suc_leD order_refl)
  qed
  then show ?thesis
    using False by (simp only: GenerateRandomConnectionNumber_def if_False)
qed

lemma unat_remainder_to_resolution:
  "unat (remainder_to_resolution c) = unat (t_to_o_requested_packet_interval c) mod 10000"
proof -
  have "unat (t_to_o_requested_packet_interval c) < 2 ^ 64"
    using unat_less_exp [of "t_to_o_requested_packet_interval c"] by (rule less_trans) simp
  moreover have "unat (t_to_o_requested_packet_interval c) mod 10000 < 2 ^ 32"
    by (rule less_trans [of _ 10000]) simp_all
  ultimately show ?thesis
    by (simp add: remainder_to_resolution_def kOpenerTimerTickInMilliSeconds_def unat_ucast_mod
        unat_mod_distrib)
qed

text \<open>The expected packet rate is the requested T-to-O interval in milliseconds rounded up to
  the ten-millisecond tick, the interval handed out by the getter is rounded down to it, both modulo
  $2^{16}$.\<close>

theorem packet_rates_are_rounded_to_ticks:
  "unat (expected_packet_rate (ConnectionObjectSetExpectedPacketRate c))
     = 10 * ((unat (t_to_o_requested_packet_interval c) + 9999) div 10000) mod 2 ^ 16
   \<and> unat (ConnectionObjectGetRequestedPacketInterval c)
     = 10 * (unat (t_to_o_requested_packet_interval c) div 10000) mod 2 ^ 16"
proof -
  define i where "i = t_to_o_requested_packet_interval c"
  define q where "q = unat i div 10000"
  define m where "m = unat i mod 10000"
  have r: "unat i = 10000 * q + m" and m: "m < 10000"
    by (simp_all add: q_def m_def)
  have i: "10000 * q + m < 2 ^ 32"
    using unat_less_exp [of i] r by simp
  have rem: "unat (remainder_to_resolution c) = m"
    by (simp add: unat_remainder_to_resolution m_def i_def)
  then have zero: "remainder_to_resolution c = 0 \<longleftrightarrow> m = 0"
    by (simp flip: unat_eq_0)
  have div: "unat (i div 1000) = 10 * q + m div 1000"
    "unat (remainder_to_resolution c div 1000) = m div 1000"
    using r by (simp_all add: unat_div_distrib rem)
  have le: "m div 1000 \<le> 9"
    using m by simp
  have up: "unat (i div 1000 + (10 - remainder_to_resolution c div 1000)) = 10 + 10 * q"
  proof -
    have s: "unat ((10 :: u32) - remainder_to_resolution c div 1000) = 10 - m div 1000"
      using le by (subst unat_sub) (simp_all add: word_le_nat_alt div)
    show ?thesis
      using le i by (subst unat_add_lem [THEN iffD1]) (simp_all add: s div)
  qed
  have down: "unat (i div 1000 - remainder_to_resolution c div 1000) = 10 * q"
    by (subst unat_sub) (simp_all add: word_le_nat_alt div)
  have c: "(10000 * q + m + 9999) div 10000 = (if m = 0 then q else q + 1)"
    using m by (cases "m = 0") auto
  show ?thesis
    using up down zero m
    by (simp add: ConnectionObjectSetExpectedPacketRate_def
        ConnectionObjectGetRequestedPacketInterval_def unat_ucast_mod
        kOpenerTimerTickInMilliSeconds_def div c flip: i_def)
      (simp add: r c div)
qed

text \<open>Reference encoding of the network connection parameters of a forward open request: the
  redundant owner flag, the connection type, the priority, the variable size flag and the size, at
  the bit positions of the 16-bit and the 32-bit format.\<close>

definition network_parameters ::
    "bool \<Rightarrow> bool \<Rightarrow> 2 word \<Rightarrow> 2 word \<Rightarrow> bool \<Rightarrow> u16 \<Rightarrow> u32" where
  "network_parameters is_lfo owner type prio variable sz =
     (if is_lfo
      then push_bit 31 (of_bool owner) OR push_bit 29 (ucast type) OR push_bit 26 (ucast prio)
        OR push_bit 25 (of_bool variable) OR ucast sz
      else push_bit 15 (of_bool owner) OR push_bit 13 (ucast type) OR push_bit 10 (ucast prio)
        OR push_bit 9 (of_bool variable) OR take_bit 9 (ucast sz))"

fun connection_type_of :: "2 word \<Rightarrow> ConnectionObjectConnectionType" where
  "connection_type_of t =
     (if t = 0 then kConnectionObjectConnectionTypeNull
      else if t = 1 then kConnectionObjectConnectionTypeMulticast
      else if t = 2 then kConnectionObjectConnectionTypePointToPoint
      else kConnectionObjectConnectionTypeInvalid)"

fun priority_of :: "2 word \<Rightarrow> ConnectionObjectPriority" where
  "priority_of p =
     (if p = 0 then kConnectionObjectPriorityLow
      else if p = 1 then kConnectionObjectPriorityHigh
      else if p = 2 then kConnectionObjectPriorityScheduled
      else kConnectionObjectPriorityUrgent)"

lemma field_masks: "(3 :: u32) = mask 2" "(0xFFFF :: u32) = mask 16" "(0x1FF :: u32) = mask 9"
  by (simp_all add: mask_eq_exp_minus_1)

lemma two_bit_field:
  fixes p :: u32 and t :: "2 word"
  assumes "\<And>i. i < 2 \<Longrightarrow> bit p (n + i) \<longleftrightarrow> bit t i"
  shows "ucast (drop_bit n (p AND push_bit n 3)) = (ucast t :: u8)"
proof (rule bit_word_eqI)
  fix i assume "i < LENGTH(8)"
  then show "bit (ucast (drop_bit n (p AND push_bit n 3)) :: u8) i = bit (ucast t :: u8) i"
    unfolding field_masks using assms [of i]
    by (cases "i < 2") (auto simp: bit_simps dest: bit_imp_le_length)
qed

lemma ucast_2_8: "ucast t = (0 :: u8) \<longleftrightarrow> t = 0" "ucast t = (1 :: u8) \<longleftrightarrow> t = 1"
    "ucast t = (2 :: u8) \<longleftrightarrow> t = 2" "ucast t = (3 :: u8) \<longleftrightarrow> t = 3" for t :: "2 word"
  by (simp_all add: word_unat_eq_iff unat_ucast_mod) (use unat_less_exp [of t] in auto)

text \<open>The decoders read back exactly the fields the parameters were composed of, in the 16-bit
  and in the 32-bit (large forward open) format; in particular the priority decoder never reaches
  its assertion.\<close>

theorem network_parameters_decoded:
  "ConnectionObjectIsRedundantOwner (network_parameters is_lfo owner type prio variable sz) is_lfo
     = owner
   \<and> ConnectionObjectGetConnectionType (network_parameters is_lfo owner type prio variable sz) is_lfo
     = connection_type_of type
   \<and> ConnectionObjectGetPriority (network_parameters is_lfo owner type prio variable sz) is_lfo
     = Some (priority_of prio)
   \<and> ConnectionObjectGetConnectionSizeType (network_parameters is_lfo owner type prio variable sz) is_lfo
     = (if variable then kConnectionObjectConnectionSizeTypeVariable
        else kConnectionObjectConnectionSizeTypeFixed)
   \<and> ConnectionObjectGetConnectionSize (network_parameters is_lfo owner type prio variable sz) is_lfo
     = (if is_lfo then ucast sz else take_bit 9 (ucast sz))"
  (is "?owner \<and> ?type \<and> ?prio \<and> ?var \<and> ?size")
proof (intro conjI)
  let ?p = "network_parameters is_lfo owner type prio variable sz"
  have bits: "bit ?p i \<longleftrightarrow> i < 32 \<and>
    (if is_lfo then (i = 31 \<and> owner) \<or> (29 \<le> i \<and> bit type (i - 29)) \<or> (26 \<le> i \<and> bit prio (i - 26))
        \<or> (i = 25 \<and> variable) \<or> bit sz i
     else (i = 15 \<and> owner) \<or> (13 \<le> i \<and> bit type (i - 13)) \<or> (10 \<le> i \<and> bit prio (i - 10))
        \<or> (i = 9 \<and> variable) \<or> (i < 9 \<and> bit sz i))" for i
    by (auto simp: network_parameters_def bit_simps)
  have lt: "\<And>i. bit type i \<Longrightarrow> i < 2" "\<And>i. bit prio i \<Longrightarrow> i < 2" "\<And>i. bit sz i \<Longrightarrow> i < 16"
    by (auto dest: bit_imp_le_length)
  have t: "ucast (drop_bit (if is_lfo then 29 else 13) (?p AND push_bit (if is_lfo then 29 else 13) 3))
      = (ucast type :: u8)"
    by (rule two_bit_field) (auto simp: bits dest: lt)
  have q: "ucast (drop_bit (if is_lfo then 26 else 10) (?p AND push_bit (if is_lfo then 26 else 10) 3))
      = (ucast prio :: u8)"
    by (rule two_bit_field) (auto simp: bits dest: lt)
  show ?owner
    unfolding ConnectionObjectIsRedundantOwner_def and_single_bit
    using bits [of 31] bits [of 15] by (cases is_lfo) (auto dest: lt)
  show ?type
    using t by (cases is_lfo) (simp_all add: ConnectionObjectGetConnectionType_def Let_def ucast_2_8)
  have four: "prio = 0 \<or> prio = 1 \<or> prio = 2 \<or> prio = 3"
    using unat_less_exp [of prio] by (auto simp: word_unat_eq_iff)
  show ?prio
    using q four by (cases is_lfo) (auto simp add: ConnectionObjectGetPriority_def Let_def ucast_2_8)
  show ?var
    unfolding ConnectionObjectGetConnectionSizeType_def and_single_bit
    using bits [of 25] bits [of 9] by (cases is_lfo) (auto dest: lt)
  show ?size
    unfolding ConnectionObjectGetConnectionSize_def field_masks Let_def
    by (rule bit_word_eqI) (auto simp: bit_simps bits dest: lt)
qed

lemma regular_watchdog_value:
  assumes "unat (connection_timeout_multiplier c) \<le> 39"
  shows "\<exists>v. ConnectionObjectCalculateRegularInactivityWatchdogTimerValue c = Some v
    \<and> unat v = 2 ^ (2 + unat (connection_timeout_multiplier c))
        * (unat (o_to_t_requested_packet_interval c) div 1000)"
proof -
  let ?m = "unat (connection_timeout_multiplier c)"
  let ?r = "unat (o_to_t_requested_packet_interval c)"
  have r: "?r < 2 ^ 32"
    using unat_less_exp [of "o_to_t_requested_packet_interval c"] by simp
  have u: "unat (ucast (o_to_t_requested_packet_interval c) div 1000 :: u64) = ?r div 1000"
    using r by (simp add: unat_div_distrib unat_ucast_mod)
  have "2 ^ (2 + ?m) * (?r div 1000) < 2 ^ 41 * (2 ^ 23 :: nat)"
    using assms r by (intro mult_le_less_imp_less power_increasing) simp_all
  then have "2 ^ (2 + ?m) * (?r div 1000) < 2 ^ 64"
    by (simp flip: power_add)
  then have "unat (push_bit (2 + ?m) (ucast (o_to_t_requested_packet_interval c) div 1000 :: u64))
      = 2 ^ (2 + ?m) * (?r div 1000)"
    using unat_push_bit [of "2 + ?m" "ucast (o_to_t_requested_packet_interval c) div 1000 :: u64"] u
    by simp
  then show ?thesis
    using assms by (simp add: ConnectionObjectCalculateRegularInactivityWatchdogTimerValue_def)
qed

lemma initial_watchdog_None_iff:
  "ConnectionObjectSetInitialInactivityWatchdogTimerValue c = None
   \<longleftrightarrow> 61 < unat (connection_timeout_multiplier c)"
  by (auto simp: ConnectionObjectSetInitialInactivityWatchdogTimerValue_def bind_None_iff
      ConnectionObjectCalculateRegularInactivityWatchdogTimerValue_def)

text \<open>The initial inactivity watchdog of a connection is the O-to-T interval in milliseconds
  times 4, 8, 16, ... according to the timeout multiplier, but at least ten seconds, for every
  multiplier up to 39; and setting it has no defined result for the multipliers above 61, which
  the request may carry.\<close>

lemma initial_watchdog_value:
  "(unat (connection_timeout_multiplier c) \<le> 39 \<longrightarrow>
     (\<exists>v. ConnectionObjectSetInitialInactivityWatchdogTimerValue c
            = Some (c\<lparr>inactivity_watchdog_timer := v\<rparr>)
        \<and> unat v = max 10000 (2 ^ (2 + unat (connection_timeout_multiplier c))
                               * (unat (o_to_t_requested_packet_interval c) div 1000))))
   \<and> (ConnectionObjectSetInitialInactivityWatchdogTimerValue c = None
        \<longleftrightarrow> 61 < unat (connection_timeout_multiplier c))"
proof (intro conjI impI)
  assume "unat (connection_timeout_multiplier c) \<le> 39"
  then obtain v where v: "ConnectionObjectCalculateRegularInactivityWatchdogTimerValue c = Some v"
    "unat v = 2 ^ (2 + unat (connection_timeout_multiplier c))
       * (unat (o_to_t_requested_packet_interval c) div 1000)"
    using regular_watchdog_value by blast
  have "unat (if 10000 < v then v else 10000) = max 10000 (unat v)"
    by (simp add: word_less_nat_alt max_def)
  moreover have "ConnectionObjectSetInitialInactivityWatchdogTimerValue c
      = Some (c\<lparr>inactivity_watchdog_timer := if 10000 < v then v else 10000\<rparr>)"
    by (simp add: ConnectionObjectSetInitialInactivityWatchdogTimerValue_def v(1))
  ultimately show "\<exists>v. ConnectionObjectSetInitialInactivityWatchdogTimerValue c
            = Some (c\<lparr>inactivity_watchdog_timer := v\<rparr>)
        \<and> unat v = max 10000 (2 ^ (2 + unat (connection_timeout_multiplier c))
                               * (unat (o_to_t_requested_packet_interval c) div 1000))"
    unfolding v(2) by blast
qed (rule initial_watchdog_None_iff)

text \<open>The octets of the fixed part of a (large) forward open request.\<close>

definition forward_open_octets :: "u8 \<Rightarrow> u8 \<Rightarrow> CipConnectionObject \<Rightarrow> u8 list \<Rightarrow> u8 list" where
  "forward_open_octets tick ticks c pad =
     [tick, ticks] @ le32 (cip_consumed_connection_id c) @ le32 (cip_produced_connection_id c)
     @ le16 (connection_serial_number c) @ le16 (originator_vendor_id c)
     @ le32 (originator_serial_number c) @ [connection_timeout_multiplier c] @ pad
     @ le32 (o_to_t_requested_packet_interval c)
     @ (if is_large_forward_open c then le32 (o_to_t_network_connection_parameters c)
        else le16 (ucast (o_to_t_network_connection_parameters c)))
     @ le32 (t_to_o_requested_packet_interval c)
     @ (if is_large_forward_open c then le32 (t_to_o_network_connection_parameters c)
        else le16 (ucast (t_to_o_network_connection_parameters c)))
     @ [transport_class_trigger c]"

lemma ucast_16_32: "ucast (ucast w :: u16) = (w :: u32)" if "drop_bit 16 w = 0"
proof -
  have "\<not> bit w i" if "16 \<le> i" for i
    using arg_cong [OF \<open>drop_bit 16 w = 0\<close>, of "\<lambda>v. bit v (i - 16)"] that
    by (simp add: bit_drop_bit_eq)
  then show ?thesis
    by (intro bit_word_eqI) (auto simp: bit_simps not_less intro: leI)
qed

text \<open>The two computed fields as functions of what they are computed from.\<close>

definition expected_rate :: "u32 \<Rightarrow> u16" where
  "expected_rate rpi = expected_packet_rate (ConnectionObjectSetExpectedPacketRate
     (zero_connection_object\<lparr>t_to_o_requested_packet_interval := rpi\<rparr>))"

lemma SetExpectedPacketRate_eq:
  "ConnectionObjectSetExpectedPacketRate c
   = c\<lparr>expected_packet_rate := expected_rate (t_to_o_requested_packet_interval c)\<rparr>"
  by (simp add: ConnectionObjectSetExpectedPacketRate_def expected_rate_def remainder_to_resolution_def)

definition initial_watchdog :: "u8 \<Rightarrow> u32 \<Rightarrow> u64 option" where
  "initial_watchdog m rpi = map_option inactivity_watchdog_timer
     (ConnectionObjectSetInitialInactivityWatchdogTimerValue
        (zero_connection_object\<lparr>connection_timeout_multiplier := m,
           o_to_t_requested_packet_interval := rpi\<rparr>))"

lemma SetInitialInactivityWatchdogTimerValue_eq:
  "ConnectionObjectSetInitialInactivityWatchdogTimerValue c = do {
     w \<leftarrow> initial_watchdog (connection_timeout_multiplier c) (o_to_t_requested_packet_interval c);
     Some (c\<lparr>inactivity_watchdog_timer := w\<rparr>) }"
  by (simp add: initial_watchdog_def ConnectionObjectSetInitialInactivityWatchdogTimerValue_def
      ConnectionObjectCalculateRegularInactivityWatchdogTimerValue_def)

text \<open>C11: the fixed part of a forward open request, in the short and in the large format, is read
  into the fields it encodes; the connection gets the first random number that is not among the numbers of
  the open connections, if there is one, the watchdog and the packet rate become what their setters
  compute from the fields (the watchdog from the O-to-T packet interval, where the comment of its setter names the
  expected packet rate), which is defined for a timeout multiplier of at most 61, the state is reset, no other
  field changes, and the reader stops right behind the last octet.\<close>

theorem forward_open_request_parsed:
  assumes "length pad = 3"
    and "is_large_forward_open c = is_large_forward_open d"
    and "is_large_forward_open d \<or> drop_bit 16 (o_to_t_network_connection_parameters d) = 0
           \<and> drop_bit 16 (t_to_o_network_connection_parameters d) = 0"
    and "\<forall>i < j. rand (k + i) \<in> set numbers" and "rand (k + j) \<notin> set numbers"
    and "unat (connection_timeout_multiplier d) \<le> 61"
  shows "\<exists>e. ConnectionObjectSetInitialInactivityWatchdogTimerValue (ConnectionObjectSetExpectedPacketRate d) = Some e
    \<and> ConnectionObjectInitializeFromMessage rand numbers k
         (forward_open_octets tick ticks d pad @ rest) c
       = Some (c\<lparr>state := 0, transport_class_trigger := transport_class_trigger d,
           expected_packet_rate := expected_packet_rate e,
           cip_produced_connection_id := cip_produced_connection_id d,
           cip_consumed_connection_id := cip_consumed_connection_id d,
           connection_timeout_multiplier := connection_timeout_multiplier d,
           inactivity_watchdog_timer := inactivity_watchdog_timer e,
           connection_serial_number := connection_serial_number d,
           originator_vendor_id := originator_vendor_id d,
           originator_serial_number := originator_serial_number d,
           connection_number := rand (k + j),
           o_to_t_requested_packet_interval := o_to_t_requested_packet_interval d,
           o_to_t_network_connection_parameters := o_to_t_network_connection_parameters d,
           t_to_o_requested_packet_interval := t_to_o_requested_packet_interval d,
           t_to_o_network_connection_parameters := t_to_o_network_connection_parameters d,
           sequence_count_producing := 0\<rparr>, rest, Suc (k + j))"
proof -
  obtain e where e: "ConnectionObjectSetInitialInactivityWatchdogTimerValue (ConnectionObjectSetExpectedPacketRate d) = Some e"
    using initial_watchdog_None_iff [of "ConnectionObjectSetExpectedPacketRate d"] assms(6)
    by (auto simp: SetExpectedPacketRate_eq)
  have w: "initial_watchdog (connection_timeout_multiplier d) (o_to_t_requested_packet_interval d)
      = Some (inactivity_watchdog_timer e)"
    and r: "expected_rate (t_to_o_requested_packet_interval d) = expected_packet_rate e"
    using e by (auto simp: SetInitialInactivityWatchdogTimerValue_eq SetExpectedPacketRate_eq bind_Some_iff)
  have pad: "skip 3 (pad @ q) = Some q" for q
    using assms(1) by simp
  have n: "GenerateRandomConnectionNumber rand numbers k = Some (rand (k + j), Suc (k + j))"
    unfolding GenerateRandomConnectionNumber_def by (rule draw_fresh [OF assms(4,5)])
  note defs = ConnectionObjectSetCipConsumedConnectionID_def
    ConnectionObjectSetCipProducedConnectionID_def
    ConnectionObjectSetConnectionSerialNumber_def ConnectionObjectSetOriginatorVendorId_def
    ConnectionObjectSetOriginatorSerialNumber_def ConnectionObjectSetConnectionNumber_def
    ConnectionObjectSetConnectionTimeoutMultiplier_def
    ConnectionObjectSetOToTRequestedPacketInterval_def
    ConnectionObjectSetTToORequestedPacketInterval_def
    ConnectionObjectSetOToTNetworkConnectionParameters_def
    ConnectionObjectSetTToONetworkConnectionParameters_def
    SetInitialInactivityWatchdogTimerValue_eq SetExpectedPacketRate_eq
  show ?thesis
    using assms(2,3) e by (cases "is_large_forward_open d")
      (simp_all add: ConnectionObjectInitializeFromMessage_def forward_open_octets_def defs n
        pad w r ucast_16_32)
qed

theorem forward_open_request_parsed_witness:
  "\<exists>c'. ConnectionObjectInitializeFromMessage (\<lambda>i. of_nat (5 + i)) [6, 5] 0
      (forward_open_octets 1 2 zero_connection_object [0, 0, 0] @ [9]) zero_connection_object
    = Some (c', [9], 3) \<and> connection_number c' = 7"
proof -
  have used: "\<forall>i < 2. (of_nat (5 + (0 + i)) :: u16) \<in> set [6, 5]" "(of_nat (5 + (0 + 2)) :: u16) \<notin> set [6, 5]"
    by (auto simp: less_2_cases_iff)
  from forward_open_request_parsed [OF _ _ _ used, of "[0, 0, 0]" zero_connection_object zero_connection_object 1 2 "[9]"]
  show ?thesis
    by (auto simp: zero_connection_object_def)
qed

text \<open>General configuration gives the connection a new identifier exactly in the directions in
  which the target chooses it, O-to-T for point to point and T-to-O for multicast, these are the next
  values of the counter below the incarnation identifier, distinct counter values give distinct
  identifiers; the sockets are invalid and all sequence counts and timers reset.\<close>

theorem general_configuration_identifiers:
  "let (c', counter') = ConnectionObjectGeneralConfiguration (push_bit 16 i) counter c;
       point_to_point = (ConnectionObjectGetOToTConnectionType c
          = kConnectionObjectConnectionTypePointToPoint);
       multicast = (ConnectionObjectGetTToOConnectionType c
          = kConnectionObjectConnectionTypeMulticast)
   in counter' = counter + of_bool point_to_point + of_bool multicast
    \<and> cip_consumed_connection_id c' =
        (if point_to_point then push_bit 16 i OR ucast (counter + 1)
         else cip_consumed_connection_id c)
    \<and> cip_produced_connection_id c' =
        (if multicast then push_bit 16 i OR ucast (counter + 1 + of_bool point_to_point)
         else cip_produced_connection_id c)
    \<and> (\<forall>m n :: u16. push_bit 16 i OR (ucast m :: u32) = push_bit 16 i OR ucast n \<longleftrightarrow> m = n)
    \<and> socket_producing c' = kEipInvalidSocket \<and> socket_consuming c' = kEipInvalidSocket
    \<and> sequence_count_producing c' = 0 \<and> sequence_count_consuming c' = 0
    \<and> eip_level_sequence_count_producing c' = 0 \<and> eip_level_sequence_count_consuming c' = 0
    \<and> \<not> eip_first_level_sequence_count_received c'
    \<and> transmission_trigger_timer c' = 0
    \<and> production_inhibit_timer c' = ucast (production_inhibit_time c)"
proof -
  have low: "ucast n AND 0xFFFF = (ucast n :: u32)" for n :: u16
    unfolding field_masks by (rule bit_word_eqI) (auto simp: bit_simps dest: bit_imp_le_length)
  have inj: "push_bit 16 i OR (ucast m :: u32) = push_bit 16 i OR ucast n \<longleftrightarrow> m = n" for m n :: u16
  proof
    assume eq: "push_bit 16 i OR (ucast m :: u32) = push_bit 16 i OR ucast n"
    show "m = n"
    proof (rule bit_word_eqI)
      fix k assume "k < LENGTH(16)"
      then show "bit m k = bit n k"
        using arg_cong [OF eq, of "\<lambda>w. bit w k"] by (simp add: bit_simps)
    qed
  qed simp
  show ?thesis
    by (simp add: ConnectionObjectGeneralConfiguration_def GetConnectionId_def low inj Let_def
        ConnectionObjectSetCipConsumedConnectionID_def ConnectionObjectSetCipProducedConnectionID_def
        ConnectionObjectGetOToTConnectionType_def ConnectionObjectGetTToOConnectionType_def
        ConnectionObjectResetSequenceCounts_def ConnectionObjectSetWatchdogTimeoutAction_def
        ConnectionObjectResetProductionInhibitTimer_def)
qed

end
