(* ===== verification/Conn_Pool.thy ===== *)
theory Conn_Pool
  imports Linked_List
begin

text \<open>
  The list of active connections (\<^verbatim>\<open>connection_list\<close> and its node pool in
  \<^verbatim>\<open>cip/cipconnectionobject.c\<close>, insertion and removal in
  \<^verbatim>\<open>cip/cipconnectionmanager.c\<close>).

  A connection object lives in one of the static arrays of the program, so a pointer to it is the
  array and the index: the explicit pool, the exclusive owner slots, the input only and the listen
  only slots of a connection path, or the one buffer object of the forward open service.  The list
  holds such pointers in nodes of a static pool.  The theory shows that the pool satisfies the
  contract \<open>node_pool\<close> of the list code, and that the operations on the pointer structure refine
  operations on the plain list of pointers in list order; the connection manager is modelled over
  that plain list.
\<close>

section \<open>Connection pointers\<close>

datatype conn_ref =
  explicit_connection_object_pool_ref nat
| exlusive_owner_ref nat
| input_only_ref nat nat
| listen_only_ref nat nat
| dummy_connection_object_ref

definition OPENER_CIP_NUM_EXPLICIT_CONNS :: nat where "OPENER_CIP_NUM_EXPLICIT_CONNS = 6"
definition OPENER_CIP_NUM_EXLUSIVE_OWNER_CONNS :: nat where "OPENER_CIP_NUM_EXLUSIVE_OWNER_CONNS = 1"
definition OPENER_CIP_NUM_INPUT_ONLY_CONNS :: nat where "OPENER_CIP_NUM_INPUT_ONLY_CONNS = 1"
definition OPENER_CIP_NUM_INPUT_ONLY_CONNS_PER_CON_PATH :: nat where
  "OPENER_CIP_NUM_INPUT_ONLY_CONNS_PER_CON_PATH = 3"
definition OPENER_CIP_NUM_LISTEN_ONLY_CONNS :: nat where "OPENER_CIP_NUM_LISTEN_ONLY_CONNS = 1"
definition OPENER_CIP_NUM_LISTEN_ONLY_CONNS_PER_CON_PATH :: nat where
  "OPENER_CIP_NUM_LISTEN_ONLY_CONNS_PER_CON_PATH = 3"

lemmas conn_nums = OPENER_CIP_NUM_EXPLICIT_CONNS_def OPENER_CIP_NUM_EXLUSIVE_OWNER_CONNS_def
  OPENER_CIP_NUM_INPUT_ONLY_CONNS_def OPENER_CIP_NUM_INPUT_ONLY_CONNS_PER_CON_PATH_def
  OPENER_CIP_NUM_LISTEN_ONLY_CONNS_def OPENER_CIP_NUM_LISTEN_ONLY_CONNS_PER_CON_PATH_def

definition kNodesAmount :: nat where
  "kNodesAmount = OPENER_CIP_NUM_EXPLICIT_CONNS + OPENER_CIP_NUM_INPUT_ONLY_CONNS
     + OPENER_CIP_NUM_EXLUSIVE_OWNER_CONNS + OPENER_CIP_NUM_LISTEN_ONLY_CONNS"

text \<open>The connection objects that can be in the list.\<close>

definition connection_slots :: "conn_ref list" where
  "connection_slots =
     map explicit_connection_object_pool_ref [0..<OPENER_CIP_NUM_EXPLICIT_CONNS]
     @ map exlusive_owner_ref [0..<OPENER_CIP_NUM_EXLUSIVE_OWNER_CONNS]
     @ [input_only_ref i j. i \<leftarrow> [0..<OPENER_CIP_NUM_INPUT_ONLY_CONNS],
          j \<leftarrow> [0..<OPENER_CIP_NUM_INPUT_ONLY_CONNS_PER_CON_PATH]]
     @ [listen_only_ref i j. i \<leftarrow> [0..<OPENER_CIP_NUM_LISTEN_ONLY_CONNS],
          j \<leftarrow> [0..<OPENER_CIP_NUM_LISTEN_ONLY_CONNS_PER_CON_PATH]]"

section \<open>The node pool\<close>

fun first_free_node :: "nat \<Rightarrow> 'd node list \<Rightarrow> nat option" where
  "first_free_node i [] = None"
| "first_free_node i (n # ns) =
     (if previous n = None \<and> next n = None \<and> data n = None then Some i
      else first_free_node (Suc i) ns)"

definition CipConnectionObjectListArrayAllocator :: "'d node list \<Rightarrow> nat option" where
  "CipConnectionObjectListArrayAllocator h = first_free_node 0 h"

definition CipConnectionObjectListArrayFree :: "nat \<Rightarrow> 'd node list \<Rightarrow> 'd node list" where
  "CipConnectionObjectListArrayFree node h = h[node := null_node]"

lemma first_free_node_Some:
  "first_free_node k h = Some a \<Longrightarrow> k \<le> a \<and> a < k + length h \<and> h ! (a - k) = null_node"
proof (induction h arbitrary: k)
  case (Cons n ns)
  then show ?case
    by (cases n) (fastforce simp: null_node_def nth_Cons' split: if_splits)
qed simp

lemma first_free_node_None: "first_free_node k h = None \<Longrightarrow> n \<in> set h \<Longrightarrow> n \<noteq> null_node"
  by (induction h arbitrary: k) (auto simp: null_node_def split: if_splits)

interpretation pool: node_pool CipConnectionObjectListArrayAllocator CipConnectionObjectListArrayFree
proof
  fix h :: "'a node list" and a
  assume "CipConnectionObjectListArrayAllocator h = Some a"
  then show "a < length h \<and> h ! a = null_node"
    using first_free_node_Some [of 0 h a] by (simp add: CipConnectionObjectListArrayAllocator_def)
qed (auto simp: CipConnectionObjectListArrayAllocator_def CipConnectionObjectListArrayFree_def
    dest: first_free_node_None)

section \<open>Insertion and removal of a connection\<close>

definition initial_connection_list :: "conn_ref dll" where
  "initial_connection_list = DoublyLinkedListInitialize (replicate kNodesAmount null_node)"

definition insert_connection :: "conn_ref \<Rightarrow> conn_ref dll \<Rightarrow> conn_ref dll option" where
  "insert_connection c s = DoublyLinkedListInsertAtHead CipConnectionObjectListArrayAllocator c s"

text \<open>The search loop of \<^verbatim>\<open>RemoveFromActiveConnections\<close>; \<open>fuel\<close> bounds its steps.\<close>

fun remove_connection_from ::
    "nat \<Rightarrow> nat option \<Rightarrow> conn_ref \<Rightarrow> conn_ref dll \<Rightarrow> conn_ref dll option" where
  "remove_connection_from fuel None c s = Some s"
| "remove_connection_from 0 (Some a) c s = None"
| "remove_connection_from (Suc fuel) (Some a) c s = do {
     n \<leftarrow> node_of (Some a) s;
     if data n = Some c then DoublyLinkedListRemoveNode CipConnectionObjectListArrayFree a s
     else remove_connection_from fuel (next n) c s }"

definition remove_connection :: "conn_ref \<Rightarrow> conn_ref dll \<Rightarrow> conn_ref dll option" where
  "remove_connection c s = remove_connection_from kNodesAmount (first s) c s"

text \<open>\<open>represents s cs\<close>: the pointer structure over the static pool holds the connections
  \<open>cs\<close>, first one first.\<close>

definition represents :: "conn_ref dll \<Rightarrow> conn_ref list \<Rightarrow> bool" where
  "represents s cs \<longleftrightarrow> (\<exists>xs. rep s xs \<and> contents s xs = cs \<and> length (nodes s) = kNodesAmount)"

lemma represents_initial: "represents initial_connection_list []"
  using pool.initialize [of kNodesAmount]
  by (force simp: represents_def initial_connection_list_def contents_def DoublyLinkedListInitialize_def)

lemma rep_length_le: "rep s xs \<Longrightarrow> length xs \<le> length (nodes s)"
proof -
  assume r: "rep s xs"
  then have "set xs \<subseteq> {..<length (nodes s)}"
    using seg_bound by (fastforce simp: rep_def)
  then have "card (set xs) \<le> length (nodes s)"
    using card_mono [of "{..<length (nodes s)}" "set xs"] by simp
  then show ?thesis
    using r by (simp add: rep_def distinct_card)
qed

lemma connection_list_length: "represents s cs \<Longrightarrow> length cs \<le> kNodesAmount"
  using rep_length_le by (force simp: represents_def contents_def)

lemma insert_connection_represents:
  assumes "represents s cs"
  shows "if length cs < kNodesAmount
    then (\<exists>s'. insert_connection c s = Some s' \<and> represents s' (c # cs))
    else insert_connection c s = None"
proof -
  obtain xs where xs: "rep s xs" "contents s xs = cs" "length (nodes s) = kNodesAmount"
    using assms by (auto simp: represents_def)
  have l: "length cs = length xs"
    using xs(2) by (auto simp: contents_def)
  show ?thesis
  proof (cases "length cs < kNodesAmount")
    case True
    then obtain a where a: "CipConnectionObjectListArrayAllocator (nodes s) = Some a"
      using pool.alloc_Some_if_room [OF xs(1)] xs(3) l by auto
    obtain s' where "insert_connection c s = Some s'" "rep s' (a # xs)"
      "contents s' (a # xs) = c # cs" "length (nodes s') = kNodesAmount"
      using pool.insert_at_head [OF xs(1) a, of c] xs(2,3) by (auto simp: insert_connection_def)
    then show ?thesis
      using True by (auto simp: represents_def)
  next
    case False
    then show ?thesis
      using pool.alloc_None_if_full [OF xs(1)] pool.insert_exhausted(1) [of s c] xs(3) l
      by (simp add: insert_connection_def)
  qed
qed

lemma contents_append [simp]: "contents s (us @ zs) = contents s us @ contents s zs"
  by (simp add: contents_def)

lemma contents_Nil [simp]: "contents s [] = []"
  by (simp add: contents_def)

lemma contents_Cons [simp]: "contents s (a # zs) = the (data (nodes s ! a)) # contents s zs"
  by (simp add: contents_def)

lemma rep_node:
  assumes "rep s (us @ a # zs)"
  shows "node_of (Some a) s = Some (nodes s ! a)" and "next (nodes s ! a) = head_or zs None"
    and "data (nodes s ! a) = Some (the (data (nodes s ! a)))"
  using assms by (auto simp: rep_def node_of_def)

lemma remove_connection_from_rep:
  assumes "rep s (us @ zs)" "length zs \<le> fuel"
  shows "\<exists>s' xs. remove_connection_from fuel (head_or zs None) c s = Some s' \<and> rep s' xs
    \<and> contents s' xs = contents s us @ remove1 c (contents s zs)
    \<and> length (nodes s') = length (nodes s)"
  using assms
proof (induction zs arbitrary: us fuel)
  case Nil
  then show ?case
    by (intro exI [of _ s] exI [of _ us]) (simp add: contents_def)
next
  case (Cons a zs)
  then obtain f where f: "fuel = Suc f" "length zs \<le> f"
    by (cases fuel) auto
  note node = rep_node [OF Cons.prems(1)]
  show ?case
  proof (cases "data (nodes s ! a) = Some c")
    case True
    obtain s' where "DoublyLinkedListRemoveNode CipConnectionObjectListArrayFree a s = Some s'"
      "rep s' (us @ zs)" "contents s' (us @ zs) = contents s (us @ zs)"
      "length (nodes s') = length (nodes s)"
      by (rule pool.remove [OF Cons.prems(1)])
    then show ?thesis
      using True f(1) node
      by (intro exI [of _ s'] exI [of _ "us @ zs"]) (simp add: node_of_def split: if_splits)
  next
    case False
    then have "the (data (nodes s ! a)) \<noteq> c"
      using node(3) by auto
    moreover have "rep s ((us @ [a]) @ zs)"
      using Cons.prems(1) by simp
    note Cons.IH [OF this f(2)]
    ultimately show ?thesis
      using False f(1) node by simp
  qed
qed

lemma remove_connection_represents:
  assumes "represents s cs"
  shows "\<exists>s'. remove_connection c s = Some s' \<and> represents s' (remove1 c cs)"
proof -
  obtain xs where xs: "rep s xs" "contents s xs = cs" "length (nodes s) = kNodesAmount"
    using assms by (auto simp: represents_def)
  then have "first s = head_or xs None" "length xs \<le> kNodesAmount"
    using rep_length_le [OF xs(1)] by (simp_all add: rep_def)
  then show ?thesis
    using remove_connection_from_rep [of s "[]" xs kNodesAmount c] xs
    by (auto simp: remove_connection_def represents_def contents_def)
qed

text \<open>C7: insertion and removal on the pointer structure over the static node pool are cons and
  removal on the list of connections, in every state they produce; an insertion is an abnormal end
  exactly if all nodes of the pool are in use.\<close>

theorem connection_list_refines_list:
  assumes "represents s cs"
  shows "(case insert_connection c s of
       None \<Rightarrow> length cs = kNodesAmount
     | Some s' \<Rightarrow> length cs < kNodesAmount \<and> represents s' (c # cs))
   \<and> (\<exists>s'. remove_connection c s = Some s' \<and> represents s' (remove1 c cs))"
proof -
  have "length cs \<le> kNodesAmount"
    using assms by (rule connection_list_length)
  then show ?thesis
    using insert_connection_represents [OF assms, of c] remove_connection_represents [OF assms, of c]
    by (auto split: if_splits)
qed

theorem connection_list_refines_list_witness:
  "\<exists>s'. remove_connection (exlusive_owner_ref 0) initial_connection_list = Some s'
     \<and> represents s' (remove1 (exlusive_owner_ref 0) [])"
  using connection_list_refines_list [OF represents_initial] by blast

fun insert_connections :: "conn_ref list \<Rightarrow> conn_ref dll \<Rightarrow> conn_ref dll option" where
  "insert_connections [] s = Some s"
| "insert_connections (c # cs) s = do { s \<leftarrow> insert_connection c s; insert_connections cs s }"

lemma insert_connections_represents:
  assumes "represents s cs"
  shows "if length cs + length ds \<le> kNodesAmount
    then (\<exists>s'. insert_connections ds s = Some s' \<and> represents s' (rev ds @ cs))
    else insert_connections ds s = None"
  using assms
proof (induction ds arbitrary: s cs)
  case Nil
  then show ?case
    using connection_list_length by auto
next
  case (Cons d ds)
  show ?case
  proof (cases "length cs < kNodesAmount")
    case True
    then obtain s' where s': "insert_connection d s = Some s'" "represents s' (d # cs)"
      using insert_connection_represents [OF Cons.prems, of d] by auto
    then show ?thesis
      using Cons.IH [OF s'(2)] by simp
  next
    case False
    then show ?thesis
      using insert_connection_represents [OF Cons.prems, of d] by simp
  qed
qed

text \<open>The node pool is too small: it has nine nodes for thirteen connection objects, so if the
  forward open service opens every connection the arrays have room for, one after the other, it ends
  by following the null pointer the allocator returned.\<close>

theorem node_pool_smaller_than_connection_slots:
  "distinct connection_slots \<and> length connection_slots = 13 \<and> kNodesAmount = 9
   \<and> insert_connections connection_slots initial_connection_list = None
   \<and> (\<forall>n. insert_connections (take n connection_slots) initial_connection_list \<noteq> None \<longleftrightarrow> n \<le> 9)"
proof -
  have k: "kNodesAmount = 9" and slots: "distinct connection_slots" "length connection_slots = 13"
    by code_simp+
  have "insert_connections (take n connection_slots) initial_connection_list \<noteq> None \<longleftrightarrow> n \<le> 9" for n
    using insert_connections_represents [OF represents_initial, of "take n connection_slots"] slots(2) k
    by (auto simp: min_def split: if_splits)
  moreover from this [of 13] have "insert_connections connection_slots initial_connection_list = None"
    using slots(2) by simp
  ultimately show ?thesis
    using k slots by blast
qed

end
