(* ===== verification/Cpf.thy ===== *)
theory Cpf
  imports Cip_Types
begin

unbundle bit_operations_syntax

text \<open>
  The Common Packet Format of \<^verbatim>\<open>enet_encap/cpf.[ch]\<close>: the address item, the data item and the
  two optional socket address items of a message, their decoding from a received packet and their
  encoding into a message.

  \<^verbatim>\<open>CipCommonPacketFormatData\<close> is a record of records; the data pointer of the data item is
  the octets it gives access to.  The code keeps one such structure in a global variable and
  decodes every packet into it without clearing it, so the decoder takes the structure of the
  packet before and updates it.
\<close>

section \<open>Items\<close>

definition kCipItemIdNullAddress :: u16 where "kCipItemIdNullAddress = 0x0000"
definition kCipItemIdListIdentityResponse :: u16 where "kCipItemIdListIdentityResponse = 0x000C"
definition kCipItemIdConnectionAddress :: u16 where "kCipItemIdConnectionAddress = 0x00A1"
definition kCipItemIdConnectedDataItem :: u16 where "kCipItemIdConnectedDataItem = 0x00B1"
definition kCipItemIdUnconnectedDataItem :: u16 where "kCipItemIdUnconnectedDataItem = 0x00B2"
definition kCipItemIdListServiceResponse :: u16 where "kCipItemIdListServiceResponse = 0x0100"
definition kCipItemIdSocketAddressInfoOriginatorToTarget :: u16 where
  "kCipItemIdSocketAddressInfoOriginatorToTarget = 0x8000"
definition kCipItemIdSocketAddressInfoTargetToOriginator :: u16 where
  "kCipItemIdSocketAddressInfoTargetToOriginator = 0x8001"
definition kCipItemIdSequencedAddressItem :: u16 where "kCipItemIdSequencedAddressItem = 0x8002"

lemmas item_ids = kCipItemIdNullAddress_def kCipItemIdListIdentityResponse_def
  kCipItemIdConnectionAddress_def kCipItemIdConnectedDataItem_def kCipItemIdUnconnectedDataItem_def
  kCipItemIdListServiceResponse_def kCipItemIdSocketAddressInfoOriginatorToTarget_def
  kCipItemIdSocketAddressInfoTargetToOriginator_def kCipItemIdSequencedAddressItem_def

definition kSequencedAddressItemLength :: u16 where
  "kSequencedAddressItemLength = 8"

record AddressData =
  connection_identifier :: u32
  sequence_number :: u32

record AddressItem =
  address_type_id :: u16
  address_length :: u16
  address_data :: AddressData

record DataItem =
  data_type_id :: u16
  data_length :: u16
  item_octets :: buf

record SocketAddressInfoItem =
  sockaddr_type_id :: u16
  sockaddr_length :: u16
  item_sin_family :: u16
  item_sin_port :: u16
  item_sin_addr :: u32
  nasin_zero :: "u8 list"

record CipCommonPacketFormatData =
  item_count :: u16
  address_item :: AddressItem
  data_item :: DataItem
  address_info_item :: "SocketAddressInfoItem list"  \<comment> \<open>an array of two\<close>

definition zero_sockaddr_item :: SocketAddressInfoItem where
  "zero_sockaddr_item = \<lparr>sockaddr_type_id = 0, sockaddr_length = 0, item_sin_family = 0,
     item_sin_port = 0, item_sin_addr = 0, nasin_zero = replicate 8 0\<rparr>"

text \<open>The global structure as static storage leaves it; its data pointer is \<^verbatim>\<open>NULL\<close>, which
  gives access to nothing.\<close>

definition zero_cpf :: CipCommonPacketFormatData where
  "zero_cpf = \<lparr>item_count = 0,
     address_item = \<lparr>address_type_id = 0, address_length = 0,
       address_data = \<lparr>connection_identifier = 0, sequence_number = 0\<rparr>\<rparr>,
     data_item = \<lparr>data_type_id = 0, data_length = 0, item_octets = []\<rparr>,
     address_info_item = [zero_sockaddr_item, zero_sockaddr_item]\<rparr>"

section \<open>Decoding\<close>

definition set_address_info_type_id ::
    "nat \<Rightarrow> u16 \<Rightarrow> CipCommonPacketFormatData \<Rightarrow> CipCommonPacketFormatData" where
  "set_address_info_type_id j t c = c\<lparr>address_info_item :=
     (address_info_item c)[j := (address_info_item c ! j)\<lparr>sockaddr_type_id := t\<rparr>]\<rparr>"

text \<open>The address item; the counter is the number of octets accounted for so far.\<close>

definition decode_address_item ::
    "buf \<Rightarrow> nat \<Rightarrow> AddressItem \<Rightarrow> (AddressItem \<times> buf \<times> nat) option" where
  "decode_address_item p length_count a = do {
     (t, p) \<leftarrow> GetUintFromMessage p;
     let a = a\<lparr>address_type_id := t\<rparr>;
     (n, p) \<leftarrow> GetUintFromMessage p;
     let a = a\<lparr>address_length := n\<rparr>;
     let length_count = length_count + 4;
     (a, p, length_count) \<leftarrow>
       (if 4 \<le> address_length a then do {
          (v, p) \<leftarrow> GetUdintFromMessage p;
          Some (a\<lparr>address_data := (address_data a)\<lparr>connection_identifier := v\<rparr>\<rparr>, p, length_count + 4) }
        else Some (a, p, length_count));
     (if address_length a = 8 then do {
        (v, p) \<leftarrow> GetUdintFromMessage p;
        Some (a\<lparr>address_data := (address_data a)\<lparr>sequence_number := v\<rparr>\<rparr>, p, length_count + 4) }
      else Some (a, p, length_count)) }"

text \<open>One socket address item; an item of another type is marked as not set and the pointer
  goes back to its type identifier, which stays counted.\<close>

definition decode_sockaddr_item ::
    "buf \<Rightarrow> nat \<Rightarrow> SocketAddressInfoItem \<Rightarrow> (SocketAddressInfoItem \<times> buf \<times> nat) option" where
  "decode_sockaddr_item p length_count s = do {
     (t, q) \<leftarrow> GetIntFromMessage p;
     let length_count = length_count + 2;
     if t = kCipItemIdSocketAddressInfoOriginatorToTarget
        \<or> t = kCipItemIdSocketAddressInfoTargetToOriginator
     then do {
       (n, q) \<leftarrow> GetIntFromMessage q;
       (f, q) \<leftarrow> GetIntFromMessage q;
       (port, q) \<leftarrow> GetIntFromMessage q;
       (addr, q) \<leftarrow> GetUdintFromMessage q;
       q' \<leftarrow> skip 8 q;
       Some (s\<lparr>sockaddr_type_id := t, sockaddr_length := n, item_sin_family := f,
               item_sin_port := port, item_sin_addr := addr, nasin_zero := take 8 q\<rparr>,
             q', length_count + 18) }
     else Some (s\<lparr>sockaddr_type_id := 0\<rparr>, p, length_count) }"

fun decode_sockaddr_items ::
    "nat \<Rightarrow> buf \<Rightarrow> nat \<Rightarrow> SocketAddressInfoItem list
     \<Rightarrow> (SocketAddressInfoItem list \<times> buf \<times> nat) option" where
  "decode_sockaddr_items 0 p length_count ss = Some (ss, p, length_count)"
| "decode_sockaddr_items (Suc n) p length_count [] = None"
| "decode_sockaddr_items (Suc n) p length_count (s # ss) = do {
     (s, p, length_count) \<leftarrow> decode_sockaddr_item p length_count s;
     (ss, p, length_count) \<leftarrow> decode_sockaddr_items n p length_count ss;
     Some (s # ss, p, length_count) }"

text \<open>The decoder.  The length is compared as a number: all terms are far below 2^64.\<close>

definition CreateCommonPacketFormatStructure ::
    "buf \<Rightarrow> nat \<Rightarrow> CipCommonPacketFormatData \<Rightarrow> (EipStatus \<times> CipCommonPacketFormatData) option" where
  "CreateCommonPacketFormatStructure p received_length c = do {
     let c = set_address_info_type_id 1 0 (set_address_info_type_id 0 0 c);
     (n, p) \<leftarrow> GetUintFromMessage p;
     let c = c\<lparr>item_count := n\<rparr>;
     let length_count = 2;
     (c, p, length_count) \<leftarrow>
       (if 1 \<le> item_count c then do {
          (a, p, length_count) \<leftarrow> decode_address_item p length_count (address_item c);
          Some (c\<lparr>address_item := a\<rparr>, p, length_count) }
        else Some (c, p, length_count));
     (status, c, length_count) \<leftarrow>
       (if 2 \<le> item_count c then do {
          (t, p) \<leftarrow> GetUintFromMessage p;
          (n, p) \<leftarrow> GetUintFromMessage p;
          let c = c\<lparr>data_item := \<lparr>data_type_id = t, data_length = n, item_octets = p\<rparr>\<rparr>;
          if length_count + 4 + unat n \<le> received_length then do {
            p \<leftarrow> skip (unat n) p;
            let length_count = length_count + 4 + unat n;
            let address_item_count = unat (item_count c - 2);
            (ss, p, length_count) \<leftarrow>
              decode_sockaddr_items (min 2 address_item_count) p length_count (address_info_item c);
            Some (kEipStatusOk, c\<lparr>address_info_item := ss\<rparr>, length_count) }
          else Some (kEipStatusError, c, length_count) }
        else Some (kEipStatusOk, c, length_count));
     (if status = kEipStatusError then Some (kEipStatusError, c)
      else do {
        let c = (if item_count c < 4 then set_address_info_type_id 1 0 c else c);
        let c = (if item_count c < 3 then set_address_info_type_id 0 0 c else c);
        (if length_count = received_length then Some (kEipStatusOk, c)
         else if 2 < item_count c then Some (kEipStatusOk, c)
         else Some (kEipStatusError, c)) }) }"

section \<open>Encoding\<close>

definition EncodeNullAddressItem :: "ENIPMessage \<Rightarrow> ENIPMessage" where
  "EncodeNullAddressItem m = AddIntToMessage 0 (AddIntToMessage kCipItemIdNullAddress m)"

definition EncodeConnectedAddressItem ::
    "CipCommonPacketFormatData \<Rightarrow> ENIPMessage \<Rightarrow> ENIPMessage" where
  "EncodeConnectedAddressItem c m =
     AddDintToMessage (connection_identifier (address_data (address_item c)))
       (AddIntToMessage 4 (AddIntToMessage kCipItemIdConnectionAddress m))"

definition EncodeSequencedAddressItem ::
    "CipCommonPacketFormatData \<Rightarrow> ENIPMessage \<Rightarrow> ENIPMessage" where
  "EncodeSequencedAddressItem c m =
     AddDintToMessage (sequence_number (address_data (address_item c)))
       (AddDintToMessage (connection_identifier (address_data (address_item c)))
         (AddIntToMessage kSequencedAddressItemLength
           (AddIntToMessage kCipItemIdSequencedAddressItem m)))"

definition EncodeItemCount :: "CipCommonPacketFormatData \<Rightarrow> ENIPMessage \<Rightarrow> ENIPMessage" where
  "EncodeItemCount c m = AddIntToMessage (item_count c) m"

definition EncodeDataItemType :: "CipCommonPacketFormatData \<Rightarrow> ENIPMessage \<Rightarrow> ENIPMessage" where
  "EncodeDataItemType c m = AddIntToMessage (data_type_id (data_item c)) m"

definition EncodeDataItemLength :: "CipCommonPacketFormatData \<Rightarrow> ENIPMessage \<Rightarrow> ENIPMessage" where
  "EncodeDataItemLength c m = AddIntToMessage (data_length (data_item c)) m"

text \<open>The block copies read \<open>n\<close> octets from the source pointer.\<close>

definition copy_block :: "nat \<Rightarrow> buf \<Rightarrow> ENIPMessage \<Rightarrow> ENIPMessage option" where
  "copy_block n p m = (if n \<le> length p then Some (append_octets (take n p) m) else None)"

definition EncodeDataItemData ::
    "CipCommonPacketFormatData \<Rightarrow> ENIPMessage \<Rightarrow> ENIPMessage option" where
  "EncodeDataItemData c m =
     copy_block (unat (data_length (data_item c))) (item_octets (data_item c)) m"

definition EncodeConnectedDataItemLength ::
    "CipMessageRouterResponse \<Rightarrow> ENIPMessage \<Rightarrow> ENIPMessage" where
  "EncodeConnectedDataItemLength r m =
     AddIntToMessage (ucast (used_message_length (message r) + 4 + 2
       + 2 * ucast (size_of_additional_status r))) m"

definition EncodeSequenceNumber ::
    "CipCommonPacketFormatData \<Rightarrow> ENIPMessage \<Rightarrow> ENIPMessage" where
  "EncodeSequenceNumber c m =
     AddIntToMessage (ucast (sequence_number (address_data (address_item c)))) m"

definition EncodeReplyService :: "CipMessageRouterResponse \<Rightarrow> ENIPMessage \<Rightarrow> ENIPMessage" where
  "EncodeReplyService r m = AddSintToMessage (reply_service r) m"

definition EncodeReservedFieldOfLengthByte ::
    "CipMessageRouterResponse \<Rightarrow> ENIPMessage \<Rightarrow> ENIPMessage" where
  "EncodeReservedFieldOfLengthByte r m = AddSintToMessage (reserved r) m"

definition EncodeGeneralStatus :: "CipMessageRouterResponse \<Rightarrow> ENIPMessage \<Rightarrow> ENIPMessage" where
  "EncodeGeneralStatus r m = AddSintToMessage (general_status r) m"

definition EncodeExtendedStatusLength ::
    "CipMessageRouterResponse \<Rightarrow> ENIPMessage \<Rightarrow> ENIPMessage" where
  "EncodeExtendedStatusLength r m = AddSintToMessage (size_of_additional_status r) m"

definition EncodeExtendedStatusDataItems ::
    "CipMessageRouterResponse \<Rightarrow> ENIPMessage \<Rightarrow> ENIPMessage" where
  "EncodeExtendedStatusDataItems r m =
     fold AddIntToMessage
       (take (min (unat (size_of_additional_status r)) MAX_SIZE_OF_ADD_STATUS) (additional_status r)) m"

definition EncodeExtendedStatus :: "CipMessageRouterResponse \<Rightarrow> ENIPMessage \<Rightarrow> ENIPMessage" where
  "EncodeExtendedStatus r m = EncodeExtendedStatusDataItems r (EncodeExtendedStatusLength r m)"

definition EncodeUnconnectedDataItemLength ::
    "CipMessageRouterResponse \<Rightarrow> ENIPMessage \<Rightarrow> ENIPMessage" where
  "EncodeUnconnectedDataItemLength r m =
     AddIntToMessage (ucast (used_message_length (message r) + 4
       + 2 * ucast (size_of_additional_status r))) m"

definition EncodeMessageRouterResponseData ::
    "CipMessageRouterResponse \<Rightarrow> ENIPMessage \<Rightarrow> ENIPMessage option" where
  "EncodeMessageRouterResponseData r m =
     copy_block (unat (used_message_length (message r))) (message_buffer (message r)) m"

definition EncodeSockaddrInfoItemTypeId ::
    "nat \<Rightarrow> CipCommonPacketFormatData \<Rightarrow> ENIPMessage \<Rightarrow> ENIPMessage option" where
  "EncodeSockaddrInfoItemTypeId item_type c m = do {
     c_assert (item_type = 0 \<or> item_type = 1);
     Some (AddIntToMessage (sockaddr_type_id (address_info_item c ! item_type)) m) }"

definition EncodeSockaddrInfoLength ::
    "nat \<Rightarrow> CipCommonPacketFormatData \<Rightarrow> ENIPMessage \<Rightarrow> ENIPMessage" where
  "EncodeSockaddrInfoLength item_type c m =
     AddIntToMessage (sockaddr_length (address_info_item c ! item_type)) m"

text \<open>The inner loop over \<open>j\<close>: the first socket address item of the given type, if any.\<close>

definition first_sockaddr_item :: "u16 \<Rightarrow> CipCommonPacketFormatData \<Rightarrow> nat option" where
  "first_sockaddr_item type c =
     (if sockaddr_type_id (address_info_item c ! 0) = type then Some 0
      else if sockaddr_type_id (address_info_item c ! 1) = type then Some 1
      else None)"

definition encode_sockaddr_type ::
    "OpenerEndianess \<Rightarrow> CipCommonPacketFormatData \<Rightarrow> u16 \<Rightarrow> ENIPMessage \<Rightarrow> ENIPMessage option" where
  "encode_sockaddr_type e c type m =
     (case first_sockaddr_item type c of
        None \<Rightarrow> Some m
      | Some j \<Rightarrow> do {
          m \<leftarrow> EncodeSockaddrInfoItemTypeId j c m;
          let m = EncodeSockaddrInfoLength j c m;
          m \<leftarrow> EncapsulateIpAddress e (item_sin_port (address_info_item c ! j))
                 (item_sin_addr (address_info_item c ! j)) m;
          Some (FillNextNMessageOctetsWithValueAndMoveToNextPosition 0 8 m) })"

text \<open>\<open>g\<close> is the global structure, whose sequence number the code uses even where the caller
  passes another structure.\<close>

definition AssembleLinearMessage ::
    "OpenerEndianess \<Rightarrow> CipCommonPacketFormatData \<Rightarrow> CipMessageRouterResponse option
     \<Rightarrow> CipCommonPacketFormatData \<Rightarrow> ENIPMessage \<Rightarrow> (EipStatus \<times> ENIPMessage) option" where
  "AssembleLinearMessage e g message_router_response c m = do {
     let m = (case message_router_response of
        None \<Rightarrow> m
      | Some r \<Rightarrow> AddIntToMessage 0 (AddDintToMessage 0 m));
     let m = EncodeItemCount c m;
     let t = address_type_id (address_item c);
     if t \<noteq> kCipItemIdNullAddress \<and> t \<noteq> kCipItemIdConnectionAddress
        \<and> t \<noteq> kCipItemIdSequencedAddressItem
     then Some (kEipStatusError, m)
     else do {
       let m = (if t = kCipItemIdNullAddress then EncodeNullAddressItem m
                else if t = kCipItemIdConnectionAddress then EncodeConnectedAddressItem c m
                else EncodeSequencedAddressItem c m);
       m \<leftarrow> (if data_type_id (data_item c) = kCipItemIdUnconnectedDataItem
               \<or> data_type_id (data_item c) = kCipItemIdConnectedDataItem
            then (case message_router_response of
                    Some r \<Rightarrow> do {
                      let m = EncodeDataItemType c m;
                      let m = (if data_type_id (data_item c) = kCipItemIdConnectedDataItem
                               then EncodeSequenceNumber g (EncodeConnectedDataItemLength r m)
                               else EncodeUnconnectedDataItemLength r m);
                      let m = EncodeReplyService r m;
                      let m = EncodeReservedFieldOfLengthByte r m;
                      let m = EncodeGeneralStatus r m;
                      let m = EncodeExtendedStatus r m;
                      EncodeMessageRouterResponseData r m }
                  | None \<Rightarrow> EncodeDataItemData c (EncodeDataItemLength c (EncodeDataItemType c m)))
            else Some m);
       m \<leftarrow> encode_sockaddr_type e c kCipItemIdSocketAddressInfoOriginatorToTarget m;
       m \<leftarrow> encode_sockaddr_type e c kCipItemIdSocketAddressInfoTargetToOriginator m;
       Some (kEipStatusOk, m) } }"

definition AssembleIOMessage ::
    "OpenerEndianess \<Rightarrow> CipCommonPacketFormatData \<Rightarrow> CipCommonPacketFormatData \<Rightarrow> ENIPMessage
     \<Rightarrow> ENIPMessage option" where
  "AssembleIOMessage e g c m = do {
     (status, m) \<leftarrow> AssembleLinearMessage e g None c m;
     Some m }"

section \<open>What the encoders append\<close>

definition additional_status_octets :: "CipMessageRouterResponse \<Rightarrow> u8 list" where
  "additional_status_octets r = concat (map le16
     (take (min (unat (size_of_additional_status r)) MAX_SIZE_OF_ADD_STATUS) (additional_status r)))"

lemma fold_AddInt_enc: "fold AddIntToMessage ws m = append_octets (concat (map le16 ws)) m"
  by (induction ws arbitrary: m) (simp_all add: enc)

lemma Encode_enc [enc]:
  "EncodeNullAddressItem m = append_octets [0, 0, 0, 0] m"
  "EncodeConnectedAddressItem c m = append_octets (le16 kCipItemIdConnectionAddress @ le16 4
     @ le32 (connection_identifier (address_data (address_item c)))) m"
  "EncodeSequencedAddressItem c m = append_octets (le16 kCipItemIdSequencedAddressItem
     @ le16 kSequencedAddressItemLength @ le32 (connection_identifier (address_data (address_item c)))
     @ le32 (sequence_number (address_data (address_item c)))) m"
  "EncodeItemCount c m = append_octets (le16 (item_count c)) m"
  "EncodeDataItemType c m = append_octets (le16 (data_type_id (data_item c))) m"
  "EncodeDataItemLength c m = append_octets (le16 (data_length (data_item c))) m"
  "EncodeSequenceNumber c m
     = append_octets (le16 (ucast (sequence_number (address_data (address_item c))))) m"
  "EncodeReplyService r m = append_octets [reply_service r] m"
  "EncodeReservedFieldOfLengthByte r m = append_octets [reserved r] m"
  "EncodeGeneralStatus r m = append_octets [general_status r] m"
  "EncodeExtendedStatus r m
     = append_octets (size_of_additional_status r # additional_status_octets r) m"
  "EncodeConnectedDataItemLength r m = append_octets (le16 (ucast (used_message_length (message r)
     + 4 + 2 + 2 * ucast (size_of_additional_status r)))) m"
  "EncodeUnconnectedDataItemLength r m = append_octets (le16 (ucast (used_message_length (message r)
     + 4 + 2 * ucast (size_of_additional_status r)))) m"
  "EncodeSockaddrInfoLength j c m = append_octets (le16 (sockaddr_length (address_info_item c ! j))) m"
  by (simp_all add: EncodeNullAddressItem_def EncodeConnectedAddressItem_def
      EncodeSequencedAddressItem_def EncodeItemCount_def EncodeDataItemType_def
      EncodeDataItemLength_def EncodeSequenceNumber_def EncodeReplyService_def
      EncodeReservedFieldOfLengthByte_def EncodeGeneralStatus_def EncodeExtendedStatus_def
      EncodeExtendedStatusLength_def EncodeExtendedStatusDataItems_def additional_status_octets_def
      EncodeConnectedDataItemLength_def EncodeUnconnectedDataItemLength_def
      EncodeSockaddrInfoLength_def enc fold_AddInt_enc item_ids)
    (simp_all add: le16_def)

text \<open>The octets of each part of an assembled message.\<close>

definition address_octets :: "AddressItem \<Rightarrow> u8 list" where
  "address_octets a =
     (if address_type_id a = kCipItemIdNullAddress then [0, 0, 0, 0]
      else if address_type_id a = kCipItemIdConnectionAddress
      then le16 (address_type_id a) @ le16 4 @ le32 (connection_identifier (address_data a))
      else le16 (address_type_id a) @ le16 8 @ le32 (connection_identifier (address_data a))
        @ le32 (sequence_number (address_data a)))"

definition response_octets ::
    "CipCommonPacketFormatData \<Rightarrow> CipCommonPacketFormatData \<Rightarrow> CipMessageRouterResponse \<Rightarrow> u8 list" where
  "response_octets g c r =
     le16 (data_type_id (data_item c))
     @ (if data_type_id (data_item c) = kCipItemIdConnectedDataItem
        then le16 (ucast (used_message_length (message r) + 4 + 2
               + 2 * ucast (size_of_additional_status r)))
             @ le16 (ucast (sequence_number (address_data (address_item g))))
        else le16 (ucast (used_message_length (message r) + 4
               + 2 * ucast (size_of_additional_status r))))
     @ [reply_service r, reserved r, general_status r, size_of_additional_status r]
     @ additional_status_octets r @ payload (message r)"

definition sockaddr_item_octets :: "OpenerEndianess \<Rightarrow> SocketAddressInfoItem \<Rightarrow> u8 list" where
  "sockaddr_item_octets e s = le16 (sockaddr_type_id s) @ le16 (sockaddr_length s)
     @ sockaddr_octets e (item_sin_port s) (item_sin_addr s) @ replicate 8 0"

definition sockaddr_items_octets :: "OpenerEndianess \<Rightarrow> CipCommonPacketFormatData \<Rightarrow> u8 list" where
  "sockaddr_items_octets e c =
     (case first_sockaddr_item kCipItemIdSocketAddressInfoOriginatorToTarget c of None \<Rightarrow> []
      | Some j \<Rightarrow> sockaddr_item_octets e (address_info_item c ! j))
     @ (case first_sockaddr_item kCipItemIdSocketAddressInfoTargetToOriginator c of None \<Rightarrow> []
      | Some j \<Rightarrow> sockaddr_item_octets e (address_info_item c ! j))"

lemma encode_sockaddr_type_enc:
  assumes "e \<noteq> kOpenerEndianessUnknown"
  shows "encode_sockaddr_type e c type m = Some (append_octets
    (case first_sockaddr_item type c of None \<Rightarrow> []
     | Some j \<Rightarrow> sockaddr_item_octets e (address_info_item c ! j)) m)"
  using assms
  by (auto simp: encode_sockaddr_type_def sockaddr_item_octets_def EncodeSockaddrInfoItemTypeId_def
      enc first_sockaddr_item_def split: option.split)

lemma copy_block_payload:
  assumes "unat (used_message_length q) \<le> length (message_buffer q)"
  shows "copy_block (unat (used_message_length q)) (message_buffer q) m
    = Some (append_octets (payload q) m)"
  using assms by (simp add: copy_block_def payload_def)

lemma AssembleLinearMessage_response:
  assumes "e \<noteq> kOpenerEndianessUnknown"
    and "address_type_id (address_item c) \<in> {kCipItemIdNullAddress, kCipItemIdConnectionAddress,
           kCipItemIdSequencedAddressItem}"
    and "data_type_id (data_item c) \<in> {kCipItemIdUnconnectedDataItem, kCipItemIdConnectedDataItem}"
    and "unat (used_message_length (message r)) \<le> length (message_buffer (message r))"
  shows "AssembleLinearMessage e g (Some r) c m = Some (kEipStatusOk, append_octets
    (replicate 6 0 @ le16 (item_count c) @ address_octets (address_item c) @ response_octets g c r
      @ sockaddr_items_octets e c) m)"
proof -
  have zero: "le32 0 @ le16 0 = replicate 6 0"
    by code_simp
  have "le16 kSequencedAddressItemLength = le16 8"
    by (simp add: kSequencedAddressItemLength_def)
  then show ?thesis
    using assms(2-)
    by (auto simp: AssembleLinearMessage_def enc encode_sockaddr_type_enc [OF assms(1)]
        EncodeMessageRouterResponseData_def copy_block_payload address_octets_def
        response_octets_def sockaddr_items_octets_def item_ids simp flip: zero)
qed

section \<open>Decoding what was encoded\<close>

lemma decode_address_octets:
  assumes "address_type_id a \<in> {kCipItemIdNullAddress, kCipItemIdConnectionAddress,
           kCipItemIdSequencedAddressItem}"
  shows "\<exists>a'. decode_address_item (address_octets a @ rest) k a0
      = Some (a', rest, k + length (address_octets a))
    \<and> address_type_id a' = address_type_id a
    \<and> (address_type_id a \<noteq> kCipItemIdNullAddress \<longrightarrow>
         connection_identifier (address_data a') = connection_identifier (address_data a))
    \<and> (address_type_id a = kCipItemIdSequencedAddressItem \<longrightarrow>
         sequence_number (address_data a') = sequence_number (address_data a))"
proof -
  have zero: "[0, 0, 0, 0] = le16 0 @ le16 0"
    by code_simp
  consider "address_type_id a = kCipItemIdNullAddress"
    | "address_type_id a = kCipItemIdConnectionAddress"
    | "address_type_id a = kCipItemIdSequencedAddressItem"
    using assms by auto
  then show ?thesis
    by cases (auto simp: address_octets_def decode_address_item_def zero Let_def item_ids)
qed

text \<open>The socket address items in the order in which they are sent.\<close>

definition sent_sockaddr_items :: "CipCommonPacketFormatData \<Rightarrow> SocketAddressInfoItem list" where
  "sent_sockaddr_items c =
     (case first_sockaddr_item kCipItemIdSocketAddressInfoOriginatorToTarget c of None \<Rightarrow> []
      | Some j \<Rightarrow> [address_info_item c ! j])
     @ (case first_sockaddr_item kCipItemIdSocketAddressInfoTargetToOriginator c of None \<Rightarrow> []
      | Some j \<Rightarrow> [address_info_item c ! j])"

lemma sockaddr_items_octets_sent:
  "sockaddr_items_octets e c = concat (map (sockaddr_item_octets e) (sent_sockaddr_items c))"
  by (simp add: sockaddr_items_octets_def sent_sockaddr_items_def split: option.split)

lemma sent_sockaddr_items_facts:
  "length (sent_sockaddr_items c) \<le> 2"
  "s \<in> set (sent_sockaddr_items c) \<Longrightarrow>
   sockaddr_type_id s \<in> {kCipItemIdSocketAddressInfoOriginatorToTarget,
     kCipItemIdSocketAddressInfoTargetToOriginator}"
  by (auto simp: sent_sockaddr_items_def first_sockaddr_item_def split: if_splits)

definition same_sockaddr :: "SocketAddressInfoItem \<Rightarrow> SocketAddressInfoItem \<Rightarrow> bool" where
  "same_sockaddr s t \<longleftrightarrow> sockaddr_type_id s = sockaddr_type_id t
     \<and> sockaddr_length s = sockaddr_length t \<and> item_sin_port s = item_sin_port t
     \<and> item_sin_addr s = item_sin_addr t"

lemma length_sockaddr_item_octets [simp]: "length (sockaddr_item_octets e s) = 20"
  by (simp add: sockaddr_item_octets_def sockaddr_octets_def)

lemma decode_sockaddr_item_octets:
  assumes "sockaddr_type_id s \<in> {kCipItemIdSocketAddressInfoOriginatorToTarget,
     kCipItemIdSocketAddressInfoTargetToOriginator}"
  shows "\<exists>s'. decode_sockaddr_item (sockaddr_item_octets kOpENerEndianessLittle s @ rest) k s0
      = Some (s', rest, k + 20) \<and> same_sockaddr s' s"
proof -
  have f: "[0, 2] = le16 0x0200"
    by code_simp
  have z: "skip 8 (replicate 8 (0 :: u8) @ rest) = Some rest"
    by simp
  show ?thesis
    using assms
    by (auto simp: decode_sockaddr_item_def sockaddr_item_octets_def sockaddr_octets_def f z
        same_sockaddr_def Let_def simp del: append_Cons)
qed

text \<open>The octets of a whole packet, and its decoding.\<close>

definition packet_octets ::
    "AddressItem \<Rightarrow> u16 \<Rightarrow> u8 list \<Rightarrow> SocketAddressInfoItem list \<Rightarrow> u8 list" where
  "packet_octets a t octets ss =
     le16 (of_nat (2 + length ss)) @ address_octets a @ le16 t @ le16 (of_nat (length octets))
     @ octets @ concat (map (sockaddr_item_octets kOpENerEndianessLittle) ss)"

definition packet_decoded ::
    "AddressItem \<Rightarrow> u16 \<Rightarrow> u8 list \<Rightarrow> SocketAddressInfoItem list \<Rightarrow> CipCommonPacketFormatData \<Rightarrow> bool" where
  "packet_decoded a t octets ss c \<longleftrightarrow>
     address_type_id (address_item c) = address_type_id a
     \<and> (address_type_id a \<noteq> kCipItemIdNullAddress \<longrightarrow>
          connection_identifier (address_data (address_item c)) = connection_identifier (address_data a))
     \<and> (address_type_id a = kCipItemIdSequencedAddressItem \<longrightarrow>
          sequence_number (address_data (address_item c)) = sequence_number (address_data a))
     \<and> data_type_id (data_item c) = t
     \<and> take (unat (data_length (data_item c))) (item_octets (data_item c)) = octets
     \<and> list_all2 same_sockaddr
          (filter (\<lambda>s. sockaddr_type_id s \<noteq> 0) (address_info_item c)) ss"

lemma set_address_info_type_id_simps [simp]:
  "item_count (set_address_info_type_id j v c) = item_count c"
  "address_item (set_address_info_type_id j v c) = address_item c"
  "data_item (set_address_info_type_id j v c) = data_item c"
  "address_info_item (set_address_info_type_id j v c)
     = (address_info_item c)[j := (address_info_item c ! j)\<lparr>sockaddr_type_id := v\<rparr>]"
  by (simp_all add: set_address_info_type_id_def)

lemma length_2_conv: "length xs = 2 \<longleftrightarrow> (\<exists>x y. xs = [x, y])"
  by (auto simp: length_Suc_conv numeral_2_eq_2)

lemma decode_two_sockaddr_items:
  "decode_sockaddr_items 2 p k [x, y] = do {
     (x, p, k) \<leftarrow> decode_sockaddr_item p k x;
     (y, p, k) \<leftarrow> decode_sockaddr_item p k y;
     Some ([x, y], p, k) }"
  by (auto simp: numeral_2_eq_2 split: Option.bind_split)

lemma packet_octets_decoded:
  assumes a: "address_type_id a \<in> {kCipItemIdNullAddress, kCipItemIdConnectionAddress,
           kCipItemIdSequencedAddressItem}"
    and n: "length octets < 2 ^ 16"
    and ss: "\<And>s. s \<in> set ss \<Longrightarrow> sockaddr_type_id s \<in> {kCipItemIdSocketAddressInfoOriginatorToTarget,
     kCipItemIdSocketAddressInfoTargetToOriginator}" "length ss \<le> 2"
    and c0: "length (address_info_item c0) = 2"
  shows "\<exists>c. CreateCommonPacketFormatStructure (packet_octets a t octets ss @ rest)
        (length (packet_octets a t octets ss)) c0 = Some (kEipStatusOk, c)
    \<and> packet_decoded a t octets ss c \<and> length (address_info_item c) = 2"
proof -
  obtain x y where xy: "address_info_item c0 = [x, y]"
    using c0 by (auto simp: length_2_conv)
  define k where "k = 2 + length (address_octets a)"
  obtain a' where a': "decode_address_item (address_octets a @ le16 t @ le16 (of_nat (length octets))
        @ octets @ concat (map (sockaddr_item_octets kOpENerEndianessLittle) ss) @ rest) 2 (address_item c0)
      = Some (a', le16 t @ le16 (of_nat (length octets))
        @ octets @ concat (map (sockaddr_item_octets kOpENerEndianessLittle) ss) @ rest, k)"
    and a'_facts: "address_type_id a' = address_type_id a"
      "address_type_id a \<noteq> kCipItemIdNullAddress \<longrightarrow>
         connection_identifier (address_data a') = connection_identifier (address_data a)"
      "address_type_id a = kCipItemIdSequencedAddressItem \<longrightarrow>
         sequence_number (address_data a') = sequence_number (address_data a)"
    using decode_address_octets [OF a, of _ 2 "address_item c0"] unfolding k_def by blast
  let ?e = "sockaddr_item_octets kOpENerEndianessLittle"
  have len: "length (packet_octets a t octets ss) = k + 4 + length octets + 20 * length ss"
    by (simp add: packet_octets_def k_def length_concat comp_def sum_list_triv)
  have un: "unat (of_nat (length octets) :: u16) = length octets"
    using n by (simp add: unat_of_nat)
  note defs = CreateCommonPacketFormatStructure_def xy un packet_decoded_def Let_def
    same_sockaddr_def
  consider (none) "ss = []" | (one) s where "ss = [s]" | (two) s1 s2 where "ss = [s1, s2]"
    using ss(2) by (cases ss; cases "tl ss") auto
  then show ?thesis
  proof cases
    case none
    then show ?thesis
      using a' a'_facts unfolding len unfolding packet_octets_def by (simp add: defs)
  next
    case (one s)
    obtain s' where "decode_sockaddr_item (?e s @ rest) (k + 4 + length octets)
          (x\<lparr>sockaddr_type_id := 0\<rparr>) = Some (s', rest, k + 4 + length octets + 20)"
      "same_sockaddr s' s"
      using decode_sockaddr_item_octets [OF ss(1)] one by (metis list.set_intros(1))
    moreover have "sockaddr_type_id s \<noteq> 0"
      using ss(1) [of s] one by (auto simp: item_ids)
    ultimately show ?thesis
      using one a' a'_facts unfolding len unfolding packet_octets_def by (simp add: defs)
  next
    case (two s1 s2)
    obtain s1' where "decode_sockaddr_item (?e s1 @ ?e s2 @ rest) (k + 4 + length octets)
          (x\<lparr>sockaddr_type_id := 0\<rparr>) = Some (s1', ?e s2 @ rest, k + 4 + length octets + 20)"
      "same_sockaddr s1' s1"
      using decode_sockaddr_item_octets [OF ss(1)] two by (metis list.set_intros(1))
    moreover obtain s2' where "decode_sockaddr_item (?e s2 @ rest) (k + 4 + length octets + 20)
          (y\<lparr>sockaddr_type_id := 0\<rparr>) = Some (s2', rest, k + 4 + length octets + 20 + 20)"
      "same_sockaddr s2' s2"
      using decode_sockaddr_item_octets [OF ss(1)] two by (metis list.set_intros)
    moreover have "sockaddr_type_id s1 \<noteq> 0" "sockaddr_type_id s2 \<noteq> 0"
      using ss(1) [of s1] ss(1) [of s2] two by (auto simp: item_ids)
    ultimately show ?thesis
      using two a' a'_facts unfolding len unfolding packet_octets_def
      by (simp add: defs decode_two_sockaddr_items)
  qed
qed

text \<open>A response whose additional status fits its array and whose data fit the buffer.\<close>

definition response_wf :: "CipMessageRouterResponse \<Rightarrow> bool" where
  "response_wf r \<longleftrightarrow> msg_wf (message r) \<and> length (additional_status r) = MAX_SIZE_OF_ADD_STATUS
     \<and> unat (size_of_additional_status r) \<le> MAX_SIZE_OF_ADD_STATUS"

definition reply_octets :: "CipMessageRouterResponse \<Rightarrow> u8 list" where
  "reply_octets r = [reply_service r, reserved r, general_status r, size_of_additional_status r]
     @ additional_status_octets r @ payload (message r)"

lemma response_wf_facts:
  assumes "response_wf r"
  shows "unat (used_message_length (message r)) \<le> length (message_buffer (message r))"
    and "length (payload (message r)) = unat (used_message_length (message r))"
    and "unat (used_message_length (message r)) \<le> 512"
    and "length (additional_status_octets r) = 2 * unat (size_of_additional_status r)"
  using assms by (auto simp: response_wf_def msg_wf_def payload_def PC_OPENER_ETHERNET_BUFFER_SIZE_def
      additional_status_octets_def length_concat comp_def sum_list_triv MAX_SIZE_OF_ADD_STATUS_def)

lemma reply_length_field:
  assumes "response_wf r"
  shows "ucast (used_message_length (message r) + 4 + 2 * ucast (size_of_additional_status r))
    = (of_nat (length (reply_octets r)) :: u16)"
    and "length (reply_octets r) < 1024"
proof -
  let ?u = "unat (used_message_length (message r))" and ?a = "unat (size_of_additional_status r)"
  have l: "length (reply_octets r) = ?u + 4 + 2 * ?a"
    using response_wf_facts [OF assms] by (simp add: reply_octets_def)
  have a: "?a \<le> 2"
    using assms by (simp add: response_wf_def MAX_SIZE_OF_ADD_STATUS_def)
  then show "length (reply_octets r) < 1024"
    using response_wf_facts(3) [OF assms] l by simp
  have "used_message_length (message r) + 4 + 2 * ucast (size_of_additional_status r)
      = of_nat (length (reply_octets r))"
    by (simp add: l)
  then show "ucast (used_message_length (message r) + 4 + 2 * ucast (size_of_additional_status r))
    = (of_nat (length (reply_octets r)) :: u16)"
    using \<open>length (reply_octets r) < 1024\<close>
    by (simp add: word_unat_eq_iff unat_ucast_mod unat_of_nat)
qed

text \<open>C6: the reply to an unconnected request, put together with its address item and its socket
  address items, is well formed and stays inside the message buffer if there is room for it, and a
  receiver that decodes it behind the interface handle and the timeout gets back the items and,
  as the data item, exactly the reply, whatever packet it decoded before.\<close>

theorem unconnected_reply_roundtrip:
  assumes "response_wf r" and "msg_wf m"
    and "address_type_id (address_item c) = kCipItemIdNullAddress"
    and "data_type_id (data_item c) = kCipItemIdUnconnectedDataItem"
    and "item_count c = of_nat (2 + length (sent_sockaddr_items c))"
    and "length (reply_octets r) + 60 \<le> room m"
    and "length (address_info_item c0) = 2"
  shows "\<exists>m' c'. AssembleLinearMessage kOpENerEndianessLittle g (Some r) c m = Some (kEipStatusOk, m')
    \<and> msg_wf m'
    \<and> CreateCommonPacketFormatStructure (drop (current_message_position m + 6) (payload m'))
        (length (payload m') - current_message_position m - 6) c0 = Some (kEipStatusOk, c')
    \<and> packet_decoded (address_item c) kCipItemIdUnconnectedDataItem (reply_octets r)
        (sent_sockaddr_items c) c'"
proof -
  let ?bs = "packet_octets (address_item c) kCipItemIdUnconnectedDataItem (reply_octets r)
    (sent_sockaddr_items c)"
  let ?m = "append_octets (replicate 6 0 @ ?bs) m"
  have asm: "AssembleLinearMessage kOpENerEndianessLittle g (Some r) c m = Some (kEipStatusOk, ?m)"
    using AssembleLinearMessage_response [of kOpENerEndianessLittle c r g m] assms(3-5)
      response_wf_facts(1) [OF assms(1)] reply_length_field(1) [OF assms(1)]
    by (simp add: packet_octets_def response_octets_def reply_octets_def sockaddr_items_octets_sent
        item_ids)
  have "length (concat (map (sockaddr_item_octets kOpENerEndianessLittle) (sent_sockaddr_items c))) \<le> 40"
    using sent_sockaddr_items_facts(1) [of c] by (simp add: length_concat comp_def sum_list_triv)
  then have "length (replicate 6 0 @ ?bs) \<le> room m"
    using assms(3,6) by (simp add: packet_octets_def address_octets_def)
  then have wf: "msg_wf ?m" "payload ?m = payload m @ replicate 6 0 @ ?bs"
    using append_octets_wf [OF assms(2)] by blast+
  have "length (payload m) = current_message_position m"
    using assms(2) by (auto simp: payload_def msg_wf_def)
  then have d: "drop (current_message_position m + 6) (payload ?m) = ?bs"
    "length (payload ?m) - current_message_position m - 6 = length ?bs"
    by (simp_all add: wf(2))
  obtain c' where "CreateCommonPacketFormatStructure ?bs (length ?bs) c0 = Some (kEipStatusOk, c')"
    "packet_decoded (address_item c) kCipItemIdUnconnectedDataItem (reply_octets r)
        (sent_sockaddr_items c) c'"
    using packet_octets_decoded [of "address_item c" "reply_octets r" "sent_sockaddr_items c" c0
        kCipItemIdUnconnectedDataItem "[]"] assms(3,7) reply_length_field(2) [OF assms(1)]
      sent_sockaddr_items_facts(1) [of c] sent_sockaddr_items_facts(2) [of _ c] by auto
  with asm wf(1) d show ?thesis
    by metis
qed

theorem unconnected_reply_roundtrip_witness:
  "\<exists>m' c'. AssembleLinearMessage kOpENerEndianessLittle zero_cpf
      (Some (InitializeMessageRouterResponse\<lparr>reply_service := 0x8E\<rparr>))
      (zero_cpf\<lparr>item_count := 2, data_item := \<lparr>data_type_id = 0xB2, data_length = 0, item_octets = []\<rparr>\<rparr>)
      InitializeENIPMessage = Some (kEipStatusOk, m')
    \<and> CreateCommonPacketFormatStructure (drop 6 (payload m')) (length (payload m') - 6) zero_cpf
      = Some (kEipStatusOk, c')
    \<and> take (unat (data_length (data_item c'))) (item_octets (data_item c')) = [0x8E, 0, 0, 0]"
proof -
  let ?r = "InitializeMessageRouterResponse\<lparr>reply_service := 0x8E\<rparr>"
  let ?c = "zero_cpf\<lparr>item_count := 2,
    data_item := \<lparr>data_type_id = 0xB2, data_length = 0, item_octets = []\<rparr>\<rparr>"
  have r: "response_wf ?r" "reply_octets ?r = [0x8E, 0, 0, 0]"
    by (simp_all add: response_wf_def reply_octets_def InitializeMessageRouterResponse_def
        MAX_SIZE_OF_ADD_STATUS_def additional_status_octets_def)
  have s: "sent_sockaddr_items ?c = []"
    by (simp add: sent_sockaddr_items_def first_sockaddr_item_def zero_cpf_def zero_sockaddr_item_def
        item_ids)
  obtain m' c' where "AssembleLinearMessage kOpENerEndianessLittle zero_cpf (Some ?r) ?c
      InitializeENIPMessage = Some (kEipStatusOk, m')"
    "CreateCommonPacketFormatStructure (drop (current_message_position InitializeENIPMessage + 6)
       (payload m')) (length (payload m') - current_message_position InitializeENIPMessage - 6) zero_cpf
      = Some (kEipStatusOk, c')"
    "packet_decoded (address_item ?c) kCipItemIdUnconnectedDataItem (reply_octets ?r) [] c'"
    using unconnected_reply_roundtrip [OF r(1) msg_wf_Initialize, of ?c zero_cpf zero_cpf] r(2) s
    by (auto simp: zero_cpf_def item_ids PC_OPENER_ETHERNET_BUFFER_SIZE_def)
  then show ?thesis
    using r(2) by (intro exI [of _ m'] exI [of _ c'])
      (simp add: packet_decoded_def InitializeENIPMessage_def)
qed

lemma AssembleIOMessage_octets:
  assumes "address_type_id (address_item c) \<in> {kCipItemIdConnectionAddress, kCipItemIdSequencedAddressItem}"
    and "data_type_id (data_item c) = kCipItemIdConnectedDataItem"
    and "unat (data_length (data_item c)) \<le> length (item_octets (data_item c))"
    and "item_count c = of_nat (2 + length (sent_sockaddr_items c))"
  shows "AssembleIOMessage kOpENerEndianessLittle g c m = Some (append_octets
    (packet_octets (address_item c) kCipItemIdConnectedDataItem
       (take (unat (data_length (data_item c))) (item_octets (data_item c)))
       (sent_sockaddr_items c)) m)"
proof -
  have "le16 kSequencedAddressItemLength = le16 8"
    by (simp add: kSequencedAddressItemLength_def)
  moreover have "length (take (unat (data_length (data_item c))) (item_octets (data_item c)))
      = unat (data_length (data_item c))"
    using assms(3) by simp
  ultimately show ?thesis
    using assms
    by (auto simp: AssembleIOMessage_def AssembleLinearMessage_def enc encode_sockaddr_type_enc
        EncodeDataItemData_def copy_block_def packet_octets_def address_octets_def item_ids
        sockaddr_items_octets_def simp flip: sockaddr_items_octets_sent)
qed

text \<open>C18: an I/O message, with a connected or a sequenced address item, carries the connection
  identifier, the sequence number and exactly the octets of the data item to a receiver that decodes
  it, whatever packet it decoded before.\<close>

theorem io_message_roundtrip:
  assumes "msg_wf m"
    and "address_type_id (address_item c) \<in> {kCipItemIdConnectionAddress, kCipItemIdSequencedAddressItem}"
    and "data_type_id (data_item c) = kCipItemIdConnectedDataItem"
    and "unat (data_length (data_item c)) \<le> length (item_octets (data_item c))"
    and "item_count c = of_nat (2 + length (sent_sockaddr_items c))"
    and "unat (data_length (data_item c)) + 60 \<le> room m"
    and "length (address_info_item c0) = 2"
  shows "\<exists>m' c'. AssembleIOMessage kOpENerEndianessLittle g c m = Some m' \<and> msg_wf m'
    \<and> CreateCommonPacketFormatStructure (drop (current_message_position m) (payload m'))
        (length (payload m') - current_message_position m) c0 = Some (kEipStatusOk, c')
    \<and> packet_decoded (address_item c) kCipItemIdConnectedDataItem
        (take (unat (data_length (data_item c))) (item_octets (data_item c))) (sent_sockaddr_items c) c'"
proof -
  let ?data = "take (unat (data_length (data_item c))) (item_octets (data_item c))"
  let ?bs = "packet_octets (address_item c) kCipItemIdConnectedDataItem ?data (sent_sockaddr_items c)"
  let ?m = "append_octets ?bs m"
  have l: "length ?data = unat (data_length (data_item c))"
    using assms(4) by simp
  then have l16: "length ?data < 2 ^ 16"
    using unat_less_exp [of "data_length (data_item c)"] by simp
  have "length (concat (map (sockaddr_item_octets kOpENerEndianessLittle) (sent_sockaddr_items c))) \<le> 40"
    using sent_sockaddr_items_facts(1) [of c] by (simp add: length_concat comp_def sum_list_triv)
  then have "length ?bs \<le> room m"
    using assms(6) l by (simp add: packet_octets_def address_octets_def)
  then have wf: "msg_wf ?m" "payload ?m = payload m @ ?bs"
    using append_octets_wf [OF assms(1)] by blast+
  have "length (payload m) = current_message_position m"
    using assms(1) by (auto simp: payload_def msg_wf_def)
  then have d: "drop (current_message_position m) (payload ?m) = ?bs"
    "length (payload ?m) - current_message_position m = length ?bs"
    by (simp_all add: wf(2))
  have "address_type_id (address_item c) \<in> {kCipItemIdNullAddress, kCipItemIdConnectionAddress,
           kCipItemIdSequencedAddressItem}"
    using assms(2) by auto
  then obtain c' where "CreateCommonPacketFormatStructure ?bs (length ?bs) c0 = Some (kEipStatusOk, c')"
    "packet_decoded (address_item c) kCipItemIdConnectedDataItem ?data (sent_sockaddr_items c) c'"
    using packet_octets_decoded [of "address_item c" ?data "sent_sockaddr_items c" c0
        kCipItemIdConnectedDataItem "[]"] assms(7) l16
      sent_sockaddr_items_facts(1) [of c] sent_sockaddr_items_facts(2) [of _ c] by auto
  with AssembleIOMessage_octets [OF assms(2-5)] wf(1) d show ?thesis
    by metis
qed

theorem io_message_roundtrip_witness:
  "\<exists>m' c'. AssembleIOMessage kOpENerEndianessLittle zero_cpf
      (zero_cpf\<lparr>item_count := 2,
         address_item := \<lparr>address_type_id = 0x8002, address_length = 8,
            address_data = \<lparr>connection_identifier = 7, sequence_number = 9\<rparr>\<rparr>,
         data_item := \<lparr>data_type_id = 0xB1, data_length = 3, item_octets = [1, 2, 3, 4]\<rparr>\<rparr>)
      InitializeENIPMessage = Some m'
    \<and> CreateCommonPacketFormatStructure (payload m') (length (payload m')) zero_cpf
      = Some (kEipStatusOk, c')
    \<and> take (unat (data_length (data_item c'))) (item_octets (data_item c')) = [1, 2, 3]
    \<and> sequence_number (address_data (address_item c')) = 9"
proof -
  let ?c = "zero_cpf\<lparr>item_count := 2,
         address_item := \<lparr>address_type_id = 0x8002, address_length = 8,
            address_data = \<lparr>connection_identifier = 7, sequence_number = 9\<rparr>\<rparr>,
         data_item := \<lparr>data_type_id = 0xB1, data_length = 3, item_octets = [1, 2, 3, 4]\<rparr>\<rparr>"
  have s: "sent_sockaddr_items ?c = []"
    by (simp add: sent_sockaddr_items_def first_sockaddr_item_def zero_cpf_def zero_sockaddr_item_def
        item_ids)
  obtain m' c' where "AssembleIOMessage kOpENerEndianessLittle zero_cpf ?c InitializeENIPMessage = Some m'"
    "CreateCommonPacketFormatStructure (drop (current_message_position InitializeENIPMessage)
       (payload m')) (length (payload m') - current_message_position InitializeENIPMessage) zero_cpf
      = Some (kEipStatusOk, c')"
    "packet_decoded (address_item ?c) kCipItemIdConnectedDataItem
       (take (unat (data_length (data_item ?c))) (item_octets (data_item ?c))) [] c'"
    using io_message_roundtrip [OF msg_wf_Initialize, of ?c zero_cpf zero_cpf] s
    by (auto simp: zero_cpf_def item_ids PC_OPENER_ETHERNET_BUFFER_SIZE_def)
  then show ?thesis
    by (intro exI [of _ m'] exI [of _ c'])
      (simp add: packet_decoded_def InitializeENIPMessage_def item_ids)
qed

text \<open>The structure is not cleared between packets: a packet of two octets that announces no
  item is accepted, and the address item and the data item are then those of the packet before.\<close>

theorem empty_packet_keeps_previous_items:
  "case CreateCommonPacketFormatStructure ([0, 0] @ rest) 2 c0 of
     None \<Rightarrow> False
   | Some (status, c) \<Rightarrow> status = kEipStatusOk \<and> address_item c = address_item c0
       \<and> data_item c = data_item c0"
proof -
  have "[0, 0] = le16 0"
    by code_simp
  then show ?thesis
    by (simp add: CreateCommonPacketFormatStructure_def Let_def)
qed

end
