(* ===== verification/Encap_Header.thy ===== *)
theory Encap_Header
  imports Cpf
begin

text \<open>
  The encapsulation header (\<^verbatim>\<open>enet_encap/encap.c\<close>): reading it from a received packet and writing
  it in front of a reply.
\<close>

definition ENCAPSULATION_HEADER_LENGTH :: nat where
  "ENCAPSULATION_HEADER_LENGTH = 24"

definition kSenderContextSize :: nat where
  "kSenderContextSize = 8"

definition kEncapsulationProtocolSuccess :: u32 where "kEncapsulationProtocolSuccess = 0x0000"
definition kEncapsulationProtocolInvalidCommand :: u32 where
  "kEncapsulationProtocolInvalidCommand = 0x0001"
definition kEncapsulationProtocolInsufficientMemory :: u32 where
  "kEncapsulationProtocolInsufficientMemory = 0x0002"
definition kEncapsulationProtocolIncorrectData :: u32 where
  "kEncapsulationProtocolIncorrectData = 0x0003"
definition kEncapsulationProtocolInvalidSessionHandle :: u32 where
  "kEncapsulationProtocolInvalidSessionHandle = 0x0064"
definition kEncapsulationProtocolUnsupportedProtocol :: u32 where
  "kEncapsulationProtocolUnsupportedProtocol = 0x0069"

lemmas protocol_errors = kEncapsulationProtocolSuccess_def kEncapsulationProtocolInvalidCommand_def
  kEncapsulationProtocolInsufficientMemory_def kEncapsulationProtocolIncorrectData_def
  kEncapsulationProtocolInvalidSessionHandle_def kEncapsulationProtocolUnsupportedProtocol_def

record EncapsulationData =
  command_code :: u16
  encap_data_length :: u16
  session_handle :: u32
  encap_status :: u32
  sender_context :: "u8 list"
  options :: u32
  communication_buffer_start :: buf
  current_communication_buffer_position :: buf

text \<open>The value is the number of octets left after the packet, negative for a fragment.\<close>

definition CreateEncapsulationStructure :: "buf \<Rightarrow> nat \<Rightarrow> (int \<times> EncapsulationData) option" where
  "CreateEncapsulationStructure receive_buffer receive_buffer_length = do {
     (c, p) \<leftarrow> GetUintFromMessage receive_buffer;
     (l, p) \<leftarrow> GetUintFromMessage p;
     (h, p) \<leftarrow> GetUdintFromMessage p;
     (st, p) \<leftarrow> GetUdintFromMessage p;
     q \<leftarrow> skip kSenderContextSize p;
     (opts, q) \<leftarrow> GetUdintFromMessage q;
     c_assert (receive_buffer_length \<le> 2147483647);
     Some (int receive_buffer_length - int ENCAPSULATION_HEADER_LENGTH - uint l,
       \<lparr>command_code = c, encap_data_length = l, session_handle = h, encap_status = st,
        sender_context = take kSenderContextSize p, options = opts,
        communication_buffer_start = receive_buffer,
        current_communication_buffer_position = q\<rparr>) }"

definition SkipEncapsulationHeader :: "ENIPMessage \<Rightarrow> ENIPMessage" where
  "SkipEncapsulationHeader m =
     m\<lparr>current_message_position := current_message_position m + ENCAPSULATION_HEADER_LENGTH\<rparr>"

definition GenerateEncapsulationHeader ::
    "EncapsulationData \<Rightarrow> size_t \<Rightarrow> u32 \<Rightarrow> u32 \<Rightarrow> ENIPMessage \<Rightarrow> ENIPMessage" where
  "GenerateEncapsulationHeader receive_data command_specific_data_length h protocol_status m =
     (let m = AddIntToMessage (command_code receive_data) m;
          m = AddIntToMessage (ucast command_specific_data_length) m;
          m = AddDintToMessage h m;
          m = AddDintToMessage protocol_status m;
          m = append_octets (take kSenderContextSize (sender_context receive_data)) m
      in AddDintToMessage 0 m)"

section \<open>Properties\<close>

definition header_octets :: "EncapsulationData \<Rightarrow> u16 \<Rightarrow> u32 \<Rightarrow> u32 \<Rightarrow> u8 list" where
  "header_octets receive_data n h st = le16 (command_code receive_data) @ le16 n @ le32 h @ le32 st
     @ take kSenderContextSize (sender_context receive_data) @ le32 0"

lemma GenerateEncapsulationHeader_enc [enc]:
  "GenerateEncapsulationHeader d n h st m = append_octets (header_octets d (ucast n) h st) m"
  by (simp add: GenerateEncapsulationHeader_def header_octets_def enc Let_def)

lemma length_header_octets:
  "length (sender_context d) = 8 \<Longrightarrow> length (header_octets d n h st) = 24"
  by (simp add: header_octets_def kSenderContextSize_def le16_def le32_def)

lemma sender_context_length:
  "CreateEncapsulationStructure p n = Some (k, d) \<Longrightarrow> length (sender_context d) = 8"
  by (auto simp: CreateEncapsulationStructure_def bind_Some_iff skip_def kSenderContextSize_def
      split: if_splits)

lemma Create_header_octets:
  assumes "length (sender_context d) = 8" and "k \<le> 2147483647"
  shows "CreateEncapsulationStructure (header_octets d n h st @ rest) k =
    Some (int k - 24 - uint n, \<lparr>command_code = command_code d, encap_data_length = n,
      session_handle = h, encap_status = st, sender_context = sender_context d, options = 0,
      communication_buffer_start = header_octets d n h st @ rest,
      current_communication_buffer_position = rest\<rparr>)"
  using assms
  by (simp add: CreateEncapsulationStructure_def header_octets_def kSenderContextSize_def
      ENCAPSULATION_HEADER_LENGTH_def)

text \<open>C27: the header of a reply whose body is shorter than 65536 octets, read back from a packet of at most
  2147483647 octets, has the command and the sender context of the request, the length, session and status it was
  given and no options, and the body follows.  The value returned is the number of octets received beyond the
  announced packet: 0 if the packet is complete, positive if it is too long, negative if it is incomplete.\<close>

theorem encapsulation_header_roundtrip:
  assumes "CreateEncapsulationStructure p k = Some (i, d)" and "unat n < 2 ^ 16" and "received \<le> 2147483647"
  shows "let m = GenerateEncapsulationHeader d n h st InitializeENIPMessage
    in msg_wf m \<and> length (payload m) = 24 \<and>
       (\<exists>d'. CreateEncapsulationStructure (payload m @ rest) received
           = Some (int received - (24 + int (unat n)), d')
         \<and> command_code d' = command_code d \<and> encap_data_length d' = ucast n
         \<and> session_handle d' = h \<and> encap_status d' = st \<and> options d' = 0
         \<and> sender_context d' = sender_context d
         \<and> current_communication_buffer_position d' = rest)"
proof -
  have l: "length (sender_context d) = 8"
    by (rule sender_context_length [OF assms(1)])
  have room: "length (header_octets d (ucast n) h st) \<le> room InitializeENIPMessage"
    by (simp add: length_header_octets [OF l] PC_OPENER_ETHERNET_BUFFER_SIZE_def)
  have u: "uint (ucast n :: u16) = int (unat n)"
    unfolding uint_nat unat_ucast_mod using assms(2) by simp
  then have "uint (ucast n :: u16) = uint n"
    by simp
  then show ?thesis
    using append_octets_wf [OF msg_wf_Initialize room]
    by (simp add: enc Let_def length_header_octets [OF l] Create_header_octets [OF l assms(3)])
qed

theorem encapsulation_header_roundtrip_witness:
  "\<exists>i d d'. CreateEncapsulationStructure (replicate 24 0) 24 = Some (i, d)
     \<and> CreateEncapsulationStructure (payload (GenerateEncapsulationHeader d 2 5 3 InitializeENIPMessage) @ [7]) 25
         = Some (-1, d') \<and> encap_status d' = 3 \<and> current_communication_buffer_position d' = [7]"
proof -
  let ?d = "\<lparr>command_code = 0, encap_data_length = 0, session_handle = 0, encap_status = 0,
      sender_context = replicate 8 0, options = 0,
      communication_buffer_start = replicate 24 0, current_communication_buffer_position = []\<rparr>"
  have "header_octets ?d 0 0 0 @ [] = replicate 24 0"
    by (simp add: header_octets_def kSenderContextSize_def le16_def le32_def numeral_eq_Suc)
  with Create_header_octets [of ?d 24 0 0 0 "[]"]
  have c: "CreateEncapsulationStructure (replicate 24 0) 24 = Some (0, ?d)"
    by simp
  have n: "unat (2 :: size_t) < 2 ^ 16" "(25 :: nat) \<le> 2147483647" "int 25 - (24 + int (unat (2 :: size_t))) = -1"
    by simp_all
  from encapsulation_header_roundtrip [OF c n(1,2), of 5 3 "[7]"]
  obtain d' where "CreateEncapsulationStructure (payload (GenerateEncapsulationHeader ?d 2 5 3
      InitializeENIPMessage) @ [7]) 25 = Some (-1, d')" "encap_status d' = 3"
    "current_communication_buffer_position d' = [7]"
    unfolding Let_def n(3) by blast
  with c show ?thesis
    by blast
qed
end
