(* ===== verification/Cip_Status.thy ===== *)
theory Cip_Status
  imports Prelude
begin

text \<open>
  The general status codes of \<^verbatim>\<open>cip/ciperror.h\<close>, the extended status codes of
  \<^verbatim>\<open>cip/cipconnectionmanager.h\<close> and the service and class codes that the modelled code uses.
\<close>

definition kCipErrorSuccess :: u8 where "kCipErrorSuccess = 0x00"
definition kCipErrorConnectionFailure :: u8 where "kCipErrorConnectionFailure = 0x01"
definition kCipErrorPathSegmentError :: u8 where "kCipErrorPathSegmentError = 0x04"
definition kCipErrorPathDestinationUnknown :: u8 where "kCipErrorPathDestinationUnknown = 0x05"
definition kCipErrorServiceNotSupported :: u8 where "kCipErrorServiceNotSupported = 0x08"
definition kCipErrorPrivilegeViolation :: u8 where "kCipErrorPrivilegeViolation = 0x0F"
definition kCipErrorNotEnoughData :: u8 where "kCipErrorNotEnoughData = 0x13"
definition kCipErrorTooMuchData :: u8 where "kCipErrorTooMuchData = 0x15"
definition kCipErrorPartialTransfer :: u8 where "kCipErrorPartialTransfer = 0x06"
definition kCipErrorInvalidAttributeValue :: u8 where "kCipErrorInvalidAttributeValue = 0x09"
definition kCipErrorAttributeListError :: u8 where "kCipErrorAttributeListError = 0x0A"
definition kCipErrorAttributeNotSetable :: u8 where "kCipErrorAttributeNotSetable = 0x0E"
definition kCipErrorAttributeNotSupported :: u8 where "kCipErrorAttributeNotSupported = 0x14"
definition kCipErrorInvalidParameter :: u8 where "kCipErrorInvalidParameter = 0x20"
definition kCipErrorAttributeNotGettable :: u8 where "kCipErrorAttributeNotGettable = 0x2C"
definition kCipErrorInstanceNotDeletable :: u8 where "kCipErrorInstanceNotDeletable = 0x2D"
definition kCipErrorPathSizeInvalid :: u8 where "kCipErrorPathSizeInvalid = 0x26"

lemmas cip_errors = kCipErrorSuccess_def kCipErrorConnectionFailure_def kCipErrorPathSegmentError_def
  kCipErrorPathDestinationUnknown_def kCipErrorServiceNotSupported_def kCipErrorPrivilegeViolation_def
  kCipErrorNotEnoughData_def kCipErrorTooMuchData_def kCipErrorPathSizeInvalid_def
  kCipErrorPartialTransfer_def kCipErrorInvalidAttributeValue_def kCipErrorAttributeListError_def
  kCipErrorAttributeNotSetable_def kCipErrorAttributeNotSupported_def kCipErrorInvalidParameter_def
  kCipErrorAttributeNotGettable_def kCipErrorInstanceNotDeletable_def

definition kConnectionManagerExtendedStatusCodeSuccess :: u16 where
  "kConnectionManagerExtendedStatusCodeSuccess = 0x00"
definition kConnectionManagerExtendedStatusCodeErrorConnectionInUseOrDuplicateForwardOpen :: u16 where
  "kConnectionManagerExtendedStatusCodeErrorConnectionInUseOrDuplicateForwardOpen = 0x0100"
definition kConnectionManagerExtendedStatusCodeErrorTransportClassAndTriggerCombinationNotSupported :: u16 where
  "kConnectionManagerExtendedStatusCodeErrorTransportClassAndTriggerCombinationNotSupported = 0x0103"
definition kConnectionManagerExtendedStatusCodeErrorOwnershipConflict :: u16 where
  "kConnectionManagerExtendedStatusCodeErrorOwnershipConflict = 0x0106"
definition kConnectionManagerExtendedStatusCodeErrorConnectionTargetConnectionNotFound :: u16 where
  "kConnectionManagerExtendedStatusCodeErrorConnectionTargetConnectionNotFound = 0x0107"
definition kConnectionManagerExtendedStatusCodeErrorRpiValuesNotAcceptable :: u16 where
  "kConnectionManagerExtendedStatusCodeErrorRpiValuesNotAcceptable = 0x0112"
definition kConnectionManagerExtendedStatusCodeErrorNoMoreConnectionsAvailable :: u16 where
  "kConnectionManagerExtendedStatusCodeErrorNoMoreConnectionsAvailable = 0x0113"
definition kConnectionManagerExtendedStatusCodeErrorVendorIdOrProductcodeError :: u16 where
  "kConnectionManagerExtendedStatusCodeErrorVendorIdOrProductcodeError = 0x0114"
definition kConnectionManagerExtendedStatusCodeErrorDeviceTypeError :: u16 where
  "kConnectionManagerExtendedStatusCodeErrorDeviceTypeError = 0x0115"
definition kConnectionManagerExtendedStatusCodeErrorRevisionMismatch :: u16 where
  "kConnectionManagerExtendedStatusCodeErrorRevisionMismatch = 0x0116"
definition kConnectionManagerExtendedStatusCodeNonListenOnlyConnectionNotOpened :: u16 where
  "kConnectionManagerExtendedStatusCodeNonListenOnlyConnectionNotOpened = 0x0119"
definition kConnectionManagerExtendedStatusCodeTargetObjectOutOfConnections :: u16 where
  "kConnectionManagerExtendedStatusCodeTargetObjectOutOfConnections = 0x011A"
definition kConnectionManagerExtendedStatusCodeProductionInhibitTimerGreaterThanRpi :: u16 where
  "kConnectionManagerExtendedStatusCodeProductionInhibitTimerGreaterThanRpi = 0x011B"
definition kConnectionManagerExtendedStatusCodeErrorInvalidOToTConnectionType :: u16 where
  "kConnectionManagerExtendedStatusCodeErrorInvalidOToTConnectionType = 0x0123"
definition kConnectionManagerExtendedStatusCodeErrorInvalidTToOConnectionType :: u16 where
  "kConnectionManagerExtendedStatusCodeErrorInvalidTToOConnectionType = 0x0124"
definition kConnectionManagerExtendedStatusCodeErrorInvalidOToTConnectionSize :: u16 where
  "kConnectionManagerExtendedStatusCodeErrorInvalidOToTConnectionSize = 0x0127"
definition kConnectionManagerExtendedStatusCodeErrorInvalidTToOConnectionSize :: u16 where
  "kConnectionManagerExtendedStatusCodeErrorInvalidTToOConnectionSize = 0x0128"
definition kConnectionManagerExtendedStatusCodeInvalidConfigurationApplicationPath :: u16 where
  "kConnectionManagerExtendedStatusCodeInvalidConfigurationApplicationPath = 0x0129"
definition kConnectionManagerExtendedStatusCodeInvalidConsumingApplicationPath :: u16 where
  "kConnectionManagerExtendedStatusCodeInvalidConsumingApplicationPath = 0x012A"
definition kConnectionManagerExtendedStatusCodeInvalidProducingApplicationPath :: u16 where
  "kConnectionManagerExtendedStatusCodeInvalidProducingApplicationPath = 0x012B"
definition kConnectionManagerExtendedStatusCodeInconsistentApplicationPathCombo :: u16 where
  "kConnectionManagerExtendedStatusCodeInconsistentApplicationPathCombo = 0x012F"
definition kConnectionManagerExtendedStatusCodeNullForwardOpenNotSupported :: u16 where
  "kConnectionManagerExtendedStatusCodeNullForwardOpenNotSupported = 0x0132"
definition kConnectionManagerExtendedStatusCodeMismatchedTToONetworkConnectionFixVar :: u16 where
  "kConnectionManagerExtendedStatusCodeMismatchedTToONetworkConnectionFixVar = 0x0135"
definition kConnectionManagerExtendedStatusCodeMismatchedTToONetworkConnectionPriority :: u16 where
  "kConnectionManagerExtendedStatusCodeMismatchedTToONetworkConnectionPriority = 0x0136"
definition kConnectionManagerExtendedStatusCodeMismatchedTransportClass :: u16 where
  "kConnectionManagerExtendedStatusCodeMismatchedTransportClass = 0x0137"
definition kConnectionManagerExtendedStatusCodeMismatchedTToOProductionTrigger :: u16 where
  "kConnectionManagerExtendedStatusCodeMismatchedTToOProductionTrigger = 0x0138"
definition kConnectionManagerExtendedStatusCodeMismatchedTToOProductionInhibitTimeSegment :: u16 where
  "kConnectionManagerExtendedStatusCodeMismatchedTToOProductionInhibitTimeSegment = 0x0139"
definition kConnectionManagerExtendedStatusCodeErrorInvalidSegmentTypeInPath :: u16 where
  "kConnectionManagerExtendedStatusCodeErrorInvalidSegmentTypeInPath = 0x0315"
definition kConnectionManagerExtendedStatusCodeMiscellaneous :: u16 where
  "kConnectionManagerExtendedStatusCodeMiscellaneous = 0x031C"
definition kConnectionManagerExtendedStatusCodeNotConfiguredForOffSubnetMulticast :: u16 where
  "kConnectionManagerExtendedStatusCodeNotConfiguredForOffSubnetMulticast = 0x0813"
definition kConnectionManagerExtendedStatusWrongCloser :: u16 where
  "kConnectionManagerExtendedStatusWrongCloser = 0xFFFF"

definition kForwardOpen :: u8 where "kForwardOpen = 0x54"
definition kLargeForwardOpen :: u8 where "kLargeForwardOpen = 0x5B"
definition kForwardClose :: u8 where "kForwardClose = 0x4E"
definition kGetConnectionData :: u8 where "kGetConnectionData = 0x56"
definition kSearchConnectionData :: u8 where "kSearchConnectionData = 0x57"

definition kCipIdentityClassCode :: u32 where "kCipIdentityClassCode = 0x01"
definition kCipMessageRouterClassCode :: u32 where "kCipMessageRouterClassCode = 0x02"
definition kCipAssemblyClassCode :: u32 where "kCipAssemblyClassCode = 0x04"
definition kCipConnectionManagerClassCode :: u32 where "kCipConnectionManagerClassCode = 0x06"
definition kCipQoSClassCode :: u32 where "kCipQoSClassCode = 0x48"
definition kCipTcpIpInterfaceClassCode :: u32 where "kCipTcpIpInterfaceClassCode = 0xF5"
definition kCipEthernetLinkClassCode :: u32 where "kCipEthernetLinkClassCode = 0xF6"

end
