(* ===== verification/Msg_Router.thy ===== *)
theory Msg_Router
  imports Cip_Types Cip_Status Electronic_Key Epath
begin

text \<open>
  The message router (\<^verbatim>\<open>cip/cipmessagerouter.c\<close>), the padded path of a request and the dispatch to
  the service of a class (\<^verbatim>\<open>cip/cipcommon.c\<close>).

  The registered classes are a list in registration order.  A service is a function over a state of
  type \<open>'st\<close>, which the message router only hands through; the stack puts its own state there.  The
  request structure of the C code is a global variable that every call overwrites before it is read.
\<close>

section \<open>Classes\<close>

text \<open>The arguments of a service function are the instance, the request, the response, the address
  of the originator and the session; it returns the status, the response and the state.\<close>

type_synonym ('addr, 'st) service_fn =
  "u16 \<Rightarrow> CipMessageRouterRequest \<Rightarrow> CipMessageRouterResponse \<Rightarrow> 'addr \<Rightarrow> u32 \<Rightarrow> 'st
   \<Rightarrow> (EipStatus \<times> CipMessageRouterResponse \<times> 'st) option"

text \<open>A slot of a service array; \<open>None\<close> is the null pointer.\<close>

record 'f CipServiceStruct =
  service_number :: u8
  service_function :: "'f option"

record ('addr, 'st) CipClass =
  class_code :: u32
  instances :: "u16 list"
  services :: "('addr, 'st) service_fn CipServiceStruct list"
  meta_class_services :: "('addr, 'st) service_fn CipServiceStruct list"

fun GetCipClass :: "('addr, 'st) CipClass list \<Rightarrow> u32 \<Rightarrow> ('addr, 'st) CipClass option" where
  "GetCipClass [] code = None"
| "GetCipClass (c # cs) code = (if class_code c = code then Some c else GetCipClass cs code)"

text \<open>Instance 0 is the class itself; it is found in every class.\<close>

definition GetCipInstance :: "('addr, 'st) CipClass \<Rightarrow> u16 \<Rightarrow> u16 option" where
  "GetCipInstance c n = (if n = 0 then Some 0 else if n \<in> set (instances c) then Some n else None)"

section \<open>The path of a request\<close>

text \<open>One pass of the loop of \<^verbatim>\<open>DecodePaddedEPath\<close>: the outer \<open>None\<close> is a read outside the buffer,
  the inner one the error return; otherwise the path, the pointer and the number of words decoded.\<close>

definition decode_path_element :: "CipEpath \<Rightarrow> buf \<Rightarrow> (CipEpath \<times> buf \<times> nat) option option" where
  "decode_path_element epath p = do {
     b \<leftarrow> peek p 0;
     if b AND 0xE0 = 0xE0 then Some None
     else if b = 0x20 then do { v \<leftarrow> peek p 1; p \<leftarrow> skip 2 p;
       Some (Some (epath\<lparr>class_id := ucast v\<rparr>, p, 1)) }
     else if b = 0x21 then do { p \<leftarrow> skip 2 p; (v, p) \<leftarrow> GetUintFromMessage p;
       Some (Some (epath\<lparr>class_id := v\<rparr>, p, 2)) }
     else if b = 0x24 then do { v \<leftarrow> peek p 1; p \<leftarrow> skip 2 p;
       Some (Some (epath\<lparr>instance_number := ucast v\<rparr>, p, 1)) }
     else if b = 0x25 then do { p \<leftarrow> skip 2 p; (v, p) \<leftarrow> GetUintFromMessage p;
       Some (Some (epath\<lparr>instance_number := v\<rparr>, p, 2)) }
     else if b = 0x30 then do { v \<leftarrow> peek p 1; p \<leftarrow> skip 2 p;
       Some (Some (epath\<lparr>attribute_number := ucast v\<rparr>, p, 1)) }
     else if b = 0x31 then do { p \<leftarrow> skip 2 p; (v, p) \<leftarrow> GetUintFromMessage p;
       Some (Some (epath\<lparr>attribute_number := v\<rparr>, p, 2)) }
     else if b = 0x28 then do { p \<leftarrow> skip 2 p; Some (Some (epath, p, 1)) }
     else if b = 0x29 then do { p \<leftarrow> skip 2 p; Some (Some (epath, p, 2)) }
     else Some None }"

lemma decode_path_element_count: "decode_path_element epath p = Some (Some (e, q, n)) \<Longrightarrow> 0 < n"
  by (auto simp: decode_path_element_def bind_Some_iff split: if_splits)

function decode_path_elements :: "nat \<Rightarrow> nat \<Rightarrow> CipEpath \<Rightarrow> buf \<Rightarrow> (CipEpath \<times> buf \<times> nat) option option" where
  "decode_path_elements words k epath p =
     (if k < words
      then (case decode_path_element epath p of
              None \<Rightarrow> None
            | Some None \<Rightarrow> Some None
            | Some (Some (epath, p, n)) \<Rightarrow> decode_path_elements words (k + n) epath p)
      else Some (Some (epath, p, k)))"
  by pat_completeness auto
termination
  by (relation "measure (\<lambda>(words, k, epath, p). words - k)") (auto dest: decode_path_element_count)

declare decode_path_elements.simps [simp del]

text \<open>On success: the path, the pointer behind it, and the number of octets consumed.\<close>

definition DecodePaddedEPath :: "buf \<Rightarrow> (CipEpath \<times> buf \<times> size_t) option option" where
  "DecodePaddedEPath p = do {
     b \<leftarrow> peek p 0;
     p \<leftarrow> skip 1 p;
     r \<leftarrow> decode_path_elements (unat b) 0
           \<lparr>path_size = b, class_id = 0, instance_number = 0, attribute_number = 0\<rparr> p;
     Some (case r of None \<Rightarrow> None | Some (epath, p, n) \<Rightarrow> Some (epath, p, of_nat (2 * n + 1))) }"

definition zero_request :: CipMessageRouterRequest where
  "zero_request = \<lparr>service = 0,
     request_path = \<lparr>path_size = 0, class_id = 0, instance_number = 0, attribute_number = 0\<rparr>,
     request_data_size = 0, request_data = []\<rparr>"

text \<open>\<^verbatim>\<open>data_length\<close> is a signed 16-bit integer that is decremented and then compared with, and
  subtracted from, a \<^verbatim>\<open>size_t\<close>, which converts it.\<close>

definition CreateMessageRouterRequestStructure ::
    "buf \<Rightarrow> u16 \<Rightarrow> (u8 \<times> CipMessageRouterRequest) option" where
  "CreateMessageRouterRequestStructure p data_length = do {
     b \<leftarrow> peek p 0;
     p \<leftarrow> skip 1 p;
     let data_length = data_length - 1;
     let request = zero_request\<lparr>service := b\<rparr>;
     r \<leftarrow> DecodePaddedEPath p;
     Some (case r of
         None \<Rightarrow> (kCipErrorPathSegmentError, request)
       | Some (epath, p, number_of_decoded_bytes) \<Rightarrow>
           let request = request\<lparr>request_path := epath\<rparr>
           in if number_of_decoded_bytes > scast data_length
              then (kCipErrorPathSizeInvalid, request)
              else (kCipErrorSuccess, request\<lparr>request_data := p,
                request_data_size := scast data_length - number_of_decoded_bytes\<rparr>)) }"

section \<open>Dispatch\<close>

fun find_service :: "u8 \<Rightarrow> 'f CipServiceStruct list \<Rightarrow> 'f CipServiceStruct option" where
  "find_service n [] = None"
| "find_service n (s # ss) = (if n = service_number s then Some s else find_service n ss)"

definition error_reply :: "u8 \<Rightarrow> CipMessageRouterRequest \<Rightarrow> CipMessageRouterResponse
    \<Rightarrow> CipMessageRouterResponse" where
  "error_reply status request r = r\<lparr>general_status := status, size_of_additional_status := 0,
     message := InitializeENIPMessage, reply_service := 0x80 OR service request\<rparr>"

definition NotifyClass ::
    "('addr, 'st) CipClass \<Rightarrow> CipMessageRouterRequest \<Rightarrow> CipMessageRouterResponse \<Rightarrow> 'addr \<Rightarrow> u32 \<Rightarrow> 'st
     \<Rightarrow> (EipStatus \<times> CipMessageRouterResponse \<times> 'st) option" where
  "NotifyClass c request r originator_address encapsulation_session st =
     (case GetCipInstance c (instance_number (request_path request)) of
        Some i \<Rightarrow>
          (case find_service (service request) (if i = 0 then meta_class_services c else services c) of
             Some s \<Rightarrow> do {
               f \<leftarrow> service_function s;
               f i request r originator_address encapsulation_session st }
           | None \<Rightarrow> Some (kEipStatusOkSend, error_reply kCipErrorServiceNotSupported request r, st))
      | None \<Rightarrow> Some (kEipStatusOkSend, error_reply kCipErrorPathDestinationUnknown request r, st))"

definition NotifyMessageRouter ::
    "('addr, 'st) CipClass list \<Rightarrow> buf \<Rightarrow> int \<Rightarrow> CipMessageRouterResponse \<Rightarrow> 'addr \<Rightarrow> u32 \<Rightarrow> 'st
     \<Rightarrow> (EipStatus \<times> CipMessageRouterResponse \<times> 'st) option" where
  "NotifyMessageRouter classes p data_length r originator_address encapsulation_session st = do {
     (status, request) \<leftarrow> CreateMessageRouterRequestStructure p (of_int data_length);
     if status \<noteq> kCipErrorSuccess
     then Some (kEipStatusOkSend, r\<lparr>general_status := status, size_of_additional_status := 0,
            reserved := 0, reply_service := 0x80 OR service request\<rparr>, st)
     else (case GetCipClass classes (ucast (class_id (request_path request))) of
         None \<Rightarrow> Some (kEipStatusOkSend, r\<lparr>general_status := kCipErrorPathDestinationUnknown,
            size_of_additional_status := 0, reserved := 0,
            reply_service := 0x80 OR service request\<rparr>, st)
       | Some c \<Rightarrow> NotifyClass c request (r\<lparr>reserved := 0\<rparr>) originator_address
            encapsulation_session st) }"

end
