(* ===== verification/Stack_State.thy ===== *)
theory Stack_State
  imports Conn_Object Conn_Pool Socket_Timer Cpf
begin

text \<open>
  The state the components of the stack share.  The global variables of the program are the fields
  of one record: the connection objects (the static arrays of \<^verbatim>\<open>cip/appcontype.c\<close> and
  \<^verbatim>\<open>cip/cipclass3connection.c\<close> and the buffer object of the forward open service, as a map from
  pointers to objects), the list of active connections, the encapsulation sessions and delayed
  messages of \<^verbatim>\<open>enet_encap/encap.c\<close>, the time stamps and the socket set of
  \<^verbatim>\<open>ports/generic_networkhandler.c\<close>, and what the device says about itself.  Calls that leave the
  program (closing a socket, sending a datagram, telling the application of a connection) are
  recorded in \<open>trace\<close>.  The results of system calls are a sequence of numbers; \<open>os_index\<close> counts
  how many were used.

  The list of connections is the plain list of \<open>Conn_Pool\<close>; that theory proves that the pointer
  structure in the static node pool refines it.
\<close>

datatype IoConnectionEvent =
  kIoConnectionEventOpened | kIoConnectionEventTimedOut | kIoConnectionEventClosed

datatype event =
  ShutdownSocketPlatform socket_fd
| CloseSocketPlatform socket_fd
| CheckIoConnectionEvent u16 u16 IoConnectionEvent
| sendto_event socket_fd "u8 list" sockaddr_in
| send_event socket_fd "u8 list"
| recv_event socket_fd nat
| SetQosOnSocket socket_fd u8
| setsockopt_multicast_ttl socket_fd u8
| setsockopt_multicast_if socket_fd u32
| sendDataToJava "u8 list"
| fwrite_event "u8 list" "u8 list"

text \<open>The identity object (\<^verbatim>\<open>cip/cipidentity.h\<close>), the TCP/IP interface object
  (\<^verbatim>\<open>cip/ciptcpipinterface.h\<close>, addresses in network byte order), the Ethernet link object
  (\<^verbatim>\<open>cip/cipethernetlink.h\<close>), the DLR object (\<^verbatim>\<open>cip/cipdlr.h\<close>) and the network status.\<close>

record CipIdentityObject =
  identity_vendor_id :: u16
  identity_device_type :: u16
  identity_product_code :: u16
  identity_major_revision :: u8
  identity_minor_revision :: u8
  identity_status :: u16
  identity_ext_status :: u16
  identity_serial_number :: u32
  identity_product_name :: "u8 list"
  identity_state :: u8

record CipTcpIpInterfaceConfiguration =
  interface_ip_address :: u32
  interface_network_mask :: u32
  interface_gateway :: u32
  name_server :: u32
  name_server_2 :: u32
  domain_name :: CipString

record MulticastAddressConfiguration =
  alloc_control :: u8
  reserved_shall_be_zero :: u8
  number_of_allocated_multicast_addresses :: u16
  starting_multicast_address :: u32

record CipTcpIpObject =
  tcpip_status :: u32
  config_capability :: u32
  config_control :: u32
  physical_link_object :: CipEpath
  interface_configuration :: CipTcpIpInterfaceConfiguration
  hostname :: CipString
  mcast_ttl_value :: u8
  mcast_config :: MulticastAddressConfiguration
  select_acd :: u8
  encapsulation_inactivity_timeout :: u16

record CipEthernetLinkMetaInterfaceCapability =
  capability_bits :: u32
  speed_duplex_selector :: u16

record CipEthernetLinkInterfaceControl =
  control_bits :: u16
  forced_interface_speed :: u16

record CipEthernetLinkObject =
  interface_speed :: u32
  interface_flags :: u32
  physical_address :: "u8 list"
  interface_control :: CipEthernetLinkInterfaceControl
  interface_type :: u8
  interface_label :: CipShortString
  interface_caps :: CipEthernetLinkMetaInterfaceCapability

record CipNodeAddress =
  device_ip :: u32
  device_mac :: "u8 list"

record CipDlrObject =
  network_topology :: u8
  dlr_network_status :: u8
  active_supervisor_address :: CipNodeAddress
  capability_flags :: u32

record NetworkStatus =
  tcp_listener :: socket_fd
  udp_unicast_listener :: socket_fd
  udp_global_broadcast_listener :: socket_fd
  udp_io_messaging :: socket_fd
  network_ip_address :: u32
  network_mask :: u32
  network_elapsed_time :: MilliSeconds

text \<open>The application connections of \<^verbatim>\<open>cip/appcontype.c\<close> and the functions a class opens its
  connections with.\<close>

record ConnectionPoint =
  output_assembly :: u32
  input_assembly :: u32
  config_assembly :: u32

datatype OpenConnectionFunction = EstablishClass3Connection_fn | EstablishIoConnection_fn

text \<open>The quality of service object (\<^verbatim>\<open>cip/cipqos.c\<close>) and the seven values of it that take effect
  together.\<close>

record CipQosDscpValues =
  dscp_event :: u8
  dscp_general :: u8
  dscp_urgent :: u8
  dscp_scheduled :: u8
  dscp_high :: u8
  dscp_low :: u8
  dscp_explicit_msg :: u8

record CipQosObject =
  q_frames_enable :: u8
  dscp :: CipQosDscpValues

definition default_dscp :: CipQosDscpValues where
  "default_dscp = \<lparr>dscp_event = 59, dscp_general = 47, dscp_urgent = 55, dscp_scheduled = 47,
     dscp_high = 43, dscp_low = 31, dscp_explicit_msg = 27\<rparr>"

text \<open>What a class remembers of itself (\<^verbatim>\<open>cip/ciptypes.h\<close>): its revision, the counts that its class
  attributes show, and the chain of its instances as the list of their numbers.\<close>

record CipClassData =
  class_revision :: u16
  max_instance :: u16
  number_of_instances :: u16
  instance_chain :: "u16 list"

record DelayedEncapsulationMessage =
  time_out :: u32
  delayed_socket :: socket_fd
  receiver :: sockaddr_in
  delayed_outgoing_message :: ENIPMessage

record stack =
  conn :: "conn_ref \<Rightarrow> CipConnectionObject"
  connection_list :: "conn_ref list"
  g_registered_sessions :: "socket_fd list"
  g_delayed_encapsulation_messages :: "DelayedEncapsulationMessage list"
  g_timestamps :: "SocketTimer list"
  g_actual_time :: MilliSeconds
  g_last_time :: MilliSeconds
  master_socket :: "socket_fd list"
  read_socket :: "socket_fd list"
  highest_socket_handle :: socket_fd
  g_current_active_tcp_socket :: socket_fd
  g_identity :: CipIdentityObject
  g_tcpip :: CipTcpIpObject
  g_qos :: CipQosObject
  s_active_dscp :: CipQosDscpValues
  g_network_status :: NetworkStatus
  g_common_packet_format_data_item :: CipCommonPacketFormatData
  g_incarnation_id :: u32
  last_connection_id :: u16
  g_ethernet_link :: "CipEthernetLinkObject list"
  g_dlr :: CipDlrObject
  g_classes :: "(u32 \<times> CipClassData) list"
  g_assembly_data :: "u16 \<Rightarrow> u8 list option"
  g_exlusive_owner_connections :: "ConnectionPoint list"
  g_input_only_connections :: "ConnectionPoint list"
  g_listen_only_connections :: "ConnectionPoint list"
  g_connection_management_list :: "(u32 \<times> OpenConnectionFunction option) list"
  g_config_data_buffer :: "buf option"
  g_config_data_length :: u32
  g_run_idle_state :: u32
  s_consume_run_idle :: bool
  s_produce_run_idle :: bool
  rand_index :: nat
  os_index :: nat
  trace :: "event list"

definition OPENER_NUMBER_OF_SUPPORTED_SESSIONS :: nat where
  "OPENER_NUMBER_OF_SUPPORTED_SESSIONS = 20"

definition ENCAP_NUMBER_OF_SUPPORTED_DELAYED_ENCAP_MESSAGES :: nat where
  "ENCAP_NUMBER_OF_SUPPORTED_DELAYED_ENCAP_MESSAGES = 2"

section \<open>Access\<close>

definition set_conn :: "conn_ref \<Rightarrow> CipConnectionObject \<Rightarrow> stack \<Rightarrow> stack" where
  "set_conn c x s = s\<lparr>conn := (conn s)(c := x)\<rparr>"

definition emit :: "event \<Rightarrow> stack \<Rightarrow> stack" where
  "emit e s = s\<lparr>trace := trace s @ [e]\<rparr>"

lemma conn_set_conn [simp]: "conn (set_conn c x s) d = (if d = c then x else conn s d)"
  by (simp add: set_conn_def)

lemma connection_list_set_conn [simp]: "connection_list (set_conn c x s) = connection_list s"
  by (simp add: set_conn_def)

lemma set_conn_other [simp]:
  "g_registered_sessions (set_conn c x s) = g_registered_sessions s"
  "g_timestamps (set_conn c x s) = g_timestamps s"
  "g_actual_time (set_conn c x s) = g_actual_time s"
  "g_tcpip (set_conn c x s) = g_tcpip s"
  "trace (set_conn c x s) = trace s"
  "master_socket (set_conn c x s) = master_socket s"
  "g_exlusive_owner_connections (set_conn c x s) = g_exlusive_owner_connections s"
  by (simp_all add: set_conn_def)

lemma emit_other [simp]:
  "conn (emit e s) = conn s"
  "connection_list (emit e s) = connection_list s"
  "g_registered_sessions (emit e s) = g_registered_sessions s"
  "g_timestamps (emit e s) = g_timestamps s"
  "g_actual_time (emit e s) = g_actual_time s"
  "g_tcpip (emit e s) = g_tcpip s"
  "trace (emit e s) = trace s @ [e]"
  "master_socket (emit e s) = master_socket s"
  "g_exlusive_owner_connections (emit e s) = g_exlusive_owner_connections s"
  by (simp_all add: emit_def)

section \<open>Walking the list of connections\<close>

text \<open>A node of the list is named by the connection it holds.  \<open>head_node\<close> is
  \<^verbatim>\<open>connection_list.first\<close> and \<open>next_node\<close> the link of a node; the link of a node that was removed
  is null, because the pool zeroes the nodes it takes back.  Reading through \<^verbatim>\<open>node->data\<close> of a
  node that was removed reads through a null pointer: \<open>node_data\<close> is then \<open>None\<close>.\<close>

fun successor :: "'a \<Rightarrow> 'a list \<Rightarrow> 'a option" where
  "successor x [] = None"
| "successor x [y] = None"
| "successor x (y # z # zs) = (if x = y then Some z else successor x (z # zs))"

definition head_node :: "stack \<Rightarrow> conn_ref option" where
  "head_node s = (case connection_list s of [] \<Rightarrow> None | c # cs \<Rightarrow> Some c)"

definition next_node :: "conn_ref \<Rightarrow> stack \<Rightarrow> conn_ref option" where
  "next_node c s = successor c (connection_list s)"

definition node_data :: "conn_ref \<Rightarrow> stack \<Rightarrow> conn_ref option" where
  "node_data c s = (if c \<in> set (connection_list s) then Some c else None)"

lemma successor_append:
  "x \<notin> set ys \<Longrightarrow> successor x (ys @ x # zs) = (case zs of [] \<Rightarrow> None | z # _ \<Rightarrow> Some z)"
proof (induction ys)
  case Nil
  then show ?case
    by (cases zs) auto
next
  case (Cons y ys)
  then show ?case
    by (cases ys) auto
qed

lemma successor_notin: "x \<notin> set xs \<Longrightarrow> successor x xs = None"
  by (induction x xs rule: successor.induct) auto

text \<open>The first connection of the list with a property, and the loops that only search.\<close>

fun find_connection :: "(CipConnectionObject \<Rightarrow> bool) \<Rightarrow> (conn_ref \<Rightarrow> CipConnectionObject)
    \<Rightarrow> conn_ref list \<Rightarrow> conn_ref option" where
  "find_connection P m [] = None"
| "find_connection P m (c # cs) = (if P (m c) then Some c else find_connection P m cs)"

lemma find_connection_Some:
  "find_connection P m cs = Some c \<Longrightarrow> c \<in> set cs \<and> P (m c)"
  by (induction cs) (auto split: if_splits)

lemma find_connection_None_iff: "find_connection P m cs = None \<longleftrightarrow> (\<forall>c \<in> set cs. \<not> P (m c))"
  by (induction cs) auto

section \<open>Sockets (ports/generic\_networkhandler.c)\<close>

definition CloseSocket :: "socket_fd \<Rightarrow> stack \<Rightarrow> stack" where
  "CloseSocket socket_handle s =
     (if kEipInvalidSocket \<noteq> socket_handle
      then emit (CloseSocketPlatform socket_handle)
             (s\<lparr>master_socket := removeAll socket_handle (master_socket s)\<rparr>)
      else s)"

definition CloseUdpSocket :: "socket_fd \<Rightarrow> stack \<Rightarrow> stack" where
  "CloseUdpSocket socket_handle s = CloseSocket socket_handle s"

definition CloseTcpSocket :: "socket_fd \<Rightarrow> stack \<Rightarrow> stack option" where
  "CloseTcpSocket socket_handle s = do {
     let s = emit (ShutdownSocketPlatform socket_handle) s;
     timestamps \<leftarrow> RemoveSocketTimerFromList socket_handle (g_timestamps s);
     Some (CloseSocket socket_handle (s\<lparr>g_timestamps := timestamps\<rparr>)) }"

lemma CloseUdpSocket_other [simp]:
  "conn (CloseUdpSocket f s) = conn s"
  "connection_list (CloseUdpSocket f s) = connection_list s"
  "g_registered_sessions (CloseUdpSocket f s) = g_registered_sessions s"
  "g_timestamps (CloseUdpSocket f s) = g_timestamps s"
  "g_actual_time (CloseUdpSocket f s) = g_actual_time s"
  "g_tcpip (CloseUdpSocket f s) = g_tcpip s"
  "g_exlusive_owner_connections (CloseUdpSocket f s) = g_exlusive_owner_connections s"
  by (simp_all add: CloseUdpSocket_def CloseSocket_def)

lemma CloseTcpSocket_valid:
  "f \<noteq> kEipInvalidSocket \<Longrightarrow> CloseTcpSocket f s = Some (CloseSocket f
     (emit (ShutdownSocketPlatform f) s\<lparr>g_timestamps := cleared f (g_timestamps s)\<rparr>))"
  by (simp add: CloseTcpSocket_def Let_def RemoveSocketTimerFromList_valid)

lemma CloseTcpSocket_Some:
  assumes "CloseTcpSocket f s = Some s'"
  shows "conn s' = conn s" "connection_list s' = connection_list s"
    "g_registered_sessions s' = g_registered_sessions s" "g_actual_time s' = g_actual_time s"
    "g_tcpip s' = g_tcpip s" "g_exlusive_owner_connections s' = g_exlusive_owner_connections s"
  using assms by (auto simp: CloseTcpSocket_def CloseSocket_def bind_Some_iff Let_def split: if_splits)

section \<open>The state before the first request\<close>

definition zero_connection_point :: ConnectionPoint where
  "zero_connection_point = \<lparr>output_assembly = 0, input_assembly = 0, config_assembly = 0\<rparr>"

text \<open>The initial values of \<^verbatim>\<open>g_tcpip\<close> in a build with one Ethernet link and without a settable
  interface configuration; the other objects start zero.\<close>

definition initial_tcpip :: CipTcpIpObject where
  "initial_tcpip = \<lparr>tcpip_status = 1, config_capability = 4, config_control = 2,
     physical_link_object = \<lparr>path_size = 2, class_id = 0xF6, instance_number = 1, attribute_number = 0\<rparr>,
     interface_configuration = \<lparr>interface_ip_address = 0, interface_network_mask = 0, interface_gateway = 0,
       name_server = 0, name_server_2 = 0, domain_name = \<lparr>string_length = 0, string_octets = None\<rparr>\<rparr>,
     hostname = \<lparr>string_length = 0, string_octets = None\<rparr>, mcast_ttl_value = 1,
     mcast_config = \<lparr>alloc_control = 0, reserved_shall_be_zero = 0,
       number_of_allocated_multicast_addresses = 1, starting_multicast_address = 0\<rparr>,
     select_acd = 0, encapsulation_inactivity_timeout = 120\<rparr>"

definition zero_ethernet_link :: CipEthernetLinkObject where
  "zero_ethernet_link = \<lparr>interface_speed = 0, interface_flags = 0, physical_address = replicate 6 0,
     interface_control = \<lparr>control_bits = 0, forced_interface_speed = 0\<rparr>, interface_type = 0,
     interface_label = \<lparr>short_string_length = 0, short_string_octets = None\<rparr>,
     interface_caps = \<lparr>capability_bits = 0, speed_duplex_selector = 0\<rparr>\<rparr>"

definition zero_dlr :: CipDlrObject where
  "zero_dlr = \<lparr>network_topology = 0, dlr_network_status = 0,
     active_supervisor_address = \<lparr>device_ip = 0, device_mac = replicate 6 0\<rparr>, capability_flags = 0\<rparr>"

text \<open>With the identity of \<^verbatim>\<open>ports/devicedata.h\<close> (the product name is \<^verbatim>\<open>Weight Scale\<close>) and the
  counter of \<^verbatim>\<open>GetConnectionId\<close>.\<close>

definition initial_stack :: stack where
  "initial_stack = \<lparr>conn = (\<lambda>c. zero_connection_object), connection_list = [],
     g_registered_sessions = replicate OPENER_NUMBER_OF_SUPPORTED_SESSIONS kEipInvalidSocket,
     g_delayed_encapsulation_messages = replicate ENCAP_NUMBER_OF_SUPPORTED_DELAYED_ENCAP_MESSAGES
       \<lparr>time_out = 0, delayed_socket = kEipInvalidSocket, receiver = zero_sockaddr,
        delayed_outgoing_message = InitializeENIPMessage\<rparr>,
     g_timestamps = replicate OPENER_NUMBER_OF_SUPPORTED_SESSIONS
       \<lparr>socket = kEipInvalidSocket, last_update = 0\<rparr>,
     g_actual_time = 0, g_last_time = 0, master_socket = [], read_socket = [], highest_socket_handle = 0,
     g_current_active_tcp_socket = 0,
     g_identity = \<lparr>identity_vendor_id = 1, identity_device_type = 12, identity_product_code = 65001,
       identity_major_revision = 1, identity_minor_revision = 0, identity_status = 0,
       identity_ext_status = 0, identity_serial_number = 0,
       identity_product_name = [0x57, 0x65, 0x69, 0x67, 0x68, 0x74, 0x20, 0x53, 0x63, 0x61, 0x6C, 0x65],
       identity_state = 0\<rparr>,
     g_tcpip = initial_tcpip,
     g_qos = \<lparr>q_frames_enable = 0, dscp = default_dscp\<rparr>, s_active_dscp = default_dscp,
     g_network_status = \<lparr>tcp_listener = 0, udp_unicast_listener = 0, udp_global_broadcast_listener = 0,
       udp_io_messaging = 0, network_ip_address = 0, network_mask = 0, network_elapsed_time = 0\<rparr>,
     g_common_packet_format_data_item = zero_cpf,
     g_incarnation_id = 0, last_connection_id = 18,
     g_ethernet_link = [zero_ethernet_link], g_dlr = zero_dlr, g_classes = [], g_assembly_data = (\<lambda>i. None),
     g_exlusive_owner_connections =
       replicate OPENER_CIP_NUM_EXLUSIVE_OWNER_CONNS zero_connection_point,
     g_input_only_connections = replicate OPENER_CIP_NUM_INPUT_ONLY_CONNS zero_connection_point,
     g_listen_only_connections = replicate OPENER_CIP_NUM_LISTEN_ONLY_CONNS zero_connection_point,
     g_connection_management_list = replicate 3 (0, None),
     g_config_data_buffer = None, g_config_data_length = 0, g_run_idle_state = 0,
     s_consume_run_idle = False, s_produce_run_idle = False,
     rand_index = 0, os_index = 0, trace = []\<rparr>"

end
