(* ===== verification/Conn_Close.thy ===== *)
theory Conn_Close
  imports Stack_State
begin

text \<open>
  Adding, finding and closing connections: the list operations of
  \<^verbatim>\<open>cip/cipconnectionmanager.c\<close>, the searches and the closing loops of \<^verbatim>\<open>cip/appcontype.c\<close>, and
  \<^verbatim>\<open>CloseIoConnection\<close> with the hand-over of the producing socket of
  \<^verbatim>\<open>cip/cipioconnection.c\<close>.

  A loop over the list of connections is a recursion on a node with a bound on its steps, the length
  of the list when the loop starts; running out of it is \<open>None\<close>, and the lemmas show that it does
  not happen.  \<^verbatim>\<open>CloseIoConnection\<close> closes other connections through their function pointers, which
  may call it again: \<open>CloseIoConnection_depth\<close> bounds the depth, and a depth of two is all there is.
\<close>

section \<open>The active connections\<close>

definition AddNewActiveConnection_to_list :: "conn_ref \<Rightarrow> stack \<Rightarrow> stack option" where
  "AddNewActiveConnection_to_list c s = do {
     c_assert (length (connection_list s) < kNodesAmount);
     let s = s\<lparr>connection_list := c # connection_list s\<rparr>;
     x \<leftarrow> ConnectionObjectSetState kConnectionObjectStateEstablished (conn s c);
     Some (set_conn c x s) }"

definition RemoveFromActiveConnections :: "conn_ref \<Rightarrow> stack \<Rightarrow> stack" where
  "RemoveFromActiveConnections c s = s\<lparr>connection_list := remove1 c (connection_list s)\<rparr>"

lemma RemoveFromActiveConnections_other [simp]:
  "conn (RemoveFromActiveConnections c s) = conn s"
  "connection_list (RemoveFromActiveConnections c s) = remove1 c (connection_list s)"
  "g_registered_sessions (RemoveFromActiveConnections c s) = g_registered_sessions s"
  "g_timestamps (RemoveFromActiveConnections c s) = g_timestamps s"
  "g_actual_time (RemoveFromActiveConnections c s) = g_actual_time s"
  "g_tcpip (RemoveFromActiveConnections c s) = g_tcpip s"
  "g_exlusive_owner_connections (RemoveFromActiveConnections c s) = g_exlusive_owner_connections s"
  "trace (RemoveFromActiveConnections c s) = trace s"
  by (simp_all add: RemoveFromActiveConnections_def)

section \<open>Searches\<close>

definition GetConnectedObject :: "u32 \<Rightarrow> stack \<Rightarrow> conn_ref option" where
  "GetConnectedObject connection_id s = find_connection (\<lambda>x.
       kConnectionObjectStateEstablished = ConnectionObjectGetState x
       \<and> connection_id = ConnectionObjectGetCipConsumedConnectionID x) (conn s) (connection_list s)"

definition GetConnectedOutputAssembly :: "u32 \<Rightarrow> stack \<Rightarrow> conn_ref option" where
  "GetConnectedOutputAssembly output_assembly_id s = find_connection (\<lambda>x.
       kConnectionObjectInstanceTypeIOExclusiveOwner = ConnectionObjectGetInstanceType x
       \<and> (kConnectionObjectStateEstablished = ConnectionObjectGetState x
          \<or> kConnectionObjectStateTimedOut = ConnectionObjectGetState x)
       \<and> output_assembly_id = ucast (epath_instance_id (produced_path x)))
     (conn s) (connection_list s)"

definition CheckForExistingConnection :: "CipConnectionObject \<Rightarrow> stack \<Rightarrow> conn_ref option" where
  "CheckForExistingConnection connection_object s = find_connection (\<lambda>x.
       kConnectionObjectStateEstablished = ConnectionObjectGetState x
       \<and> EqualConnectionTriad connection_object x) (conn s) (connection_list s)"

definition IsConnectedOutputAssembly :: "u16 \<Rightarrow> stack \<Rightarrow> bool" where
  "IsConnectedOutputAssembly n s = (find_connection (\<lambda>x.
       n = epath_instance_id (consumed_path x) \<and> ConnectionObjectIsTypeIOConnection x)
     (conn s) (connection_list s) \<noteq> None)"

definition GetExistingProducerIoConnection :: "bool \<Rightarrow> u32 \<Rightarrow> stack \<Rightarrow> conn_ref option" where
  "GetExistingProducerIoConnection multicast_only input_point s = find_connection (\<lambda>x.
       ConnectionObjectIsTypeIOConnection x
       \<and> input_point = ucast (epath_instance_id (produced_path x))
       \<and> kEipInvalidSocket \<noteq> socket_producing x
       \<and> (let cnxn_type = ConnectionObjectGetTToOConnectionType x
          in kConnectionObjectConnectionTypeMulticast = cnxn_type
             \<or> (\<not> multicast_only \<and> kConnectionObjectConnectionTypePointToPoint = cnxn_type)))
     (conn s) (connection_list s)"

definition GetNextNonControlMasterConnection :: "u32 \<Rightarrow> stack \<Rightarrow> conn_ref option" where
  "GetNextNonControlMasterConnection input_point s = find_connection (\<lambda>x.
       ConnectionObjectIsTypeNonLOIOConnection x
       \<and> kConnectionObjectStateEstablished = ConnectionObjectGetState x
       \<and> input_point = ucast (epath_instance_id (produced_path x))
       \<and> kConnectionObjectConnectionTypeMulticast = ConnectionObjectGetTToOConnectionType x
       \<and> kEipInvalidSocket = socket_producing x)
     (conn s) (connection_list s)"

definition ConnectionWithSameConfigPointExists :: "u32 \<Rightarrow> stack \<Rightarrow> bool" where
  "ConnectionWithSameConfigPointExists config_point s = (find_connection (\<lambda>x.
       config_point = ucast (epath_instance_id (configuration_path x)))
     (conn s) (connection_list s) \<noteq> None)"

section \<open>Closing\<close>

definition CloseConnection :: "conn_ref \<Rightarrow> stack \<Rightarrow> stack option" where
  "CloseConnection c s = do {
     let s = (if kConnectionObjectTransportClassTriggerTransportClass3
                 \<noteq> ConnectionObjectGetTransportClassTriggerTransportClass (conn s c)
        then let s = CloseUdpSocket (socket_consuming (conn s c)) s;
                 s = set_conn c ((conn s c)\<lparr>socket_consuming := kEipInvalidSocket\<rparr>) s;
                 s = CloseUdpSocket (socket_producing (conn s c)) s
             in set_conn c ((conn s c)\<lparr>socket_producing := kEipInvalidSocket\<rparr>) s
        else s);
     let s = RemoveFromActiveConnections c s;
     x \<leftarrow> ConnectionObjectInitializeEmpty;
     Some (set_conn c x s) }"

definition CloseCommunicationChannelsAndRemoveFromActiveConnectionsList ::
    "conn_ref \<Rightarrow> stack \<Rightarrow> stack option" where
  "CloseCommunicationChannelsAndRemoveFromActiveConnectionsList c s = do {
     let s = (if kEipInvalidSocket \<noteq> socket_consuming (conn s c)
              then CloseUdpSocket (socket_consuming (conn s c)) s else s);
     let s = (if kEipInvalidSocket \<noteq> socket_producing (conn s c)
              then CloseUdpSocket (socket_producing (conn s c)) s else s);
     let s = RemoveFromActiveConnections c s;
     x \<leftarrow> ConnectionObjectInitializeEmpty;
     Some (set_conn c x s) }"

text \<open>The C function returns 0 on success: \<open>True\<close> here is a transfer.\<close>

definition transfer_master_connection :: "conn_ref \<Rightarrow> stack \<Rightarrow> bool \<times> stack" where
  "transfer_master_connection c s =
     (case GetNextNonControlMasterConnection (ucast (epath_instance_id (produced_path (conn s c)))) s of
        None \<Rightarrow> (False, s)
      | Some active \<Rightarrow>
          let s = set_conn active ((conn s active)\<lparr>socket_producing := socket_producing (conn s c)\<rparr>) s;
              s = set_conn c ((conn s c)\<lparr>socket_producing := kEipInvalidSocket\<rparr>) s;
              s = set_conn active ((conn s active)\<lparr>
                    remote_address := remote_address (conn s c),
                    eip_level_sequence_count_producing := eip_level_sequence_count_producing (conn s c),
                    sequence_count_producing := sequence_count_producing (conn s c),
                    transmission_trigger_timer := transmission_trigger_timer (conn s c)\<rparr>) s
          in (True, s))"

text \<open>A call through \<^verbatim>\<open>connection_close_function\<close>, with \<open>close_io\<close> for the I/O connections.\<close>

definition call_close_function ::
    "(conn_ref \<Rightarrow> stack \<Rightarrow> stack option) \<Rightarrow> conn_ref \<Rightarrow> stack \<Rightarrow> stack option" where
  "call_close_function close_io c s =
     (case connection_close_function (conn s c) of
        None \<Rightarrow> None
      | Some CloseConnection_fn \<Rightarrow> CloseConnection c s
      | Some CloseIoConnection_fn \<Rightarrow> close_io c s)"

fun close_same_type :: "nat \<Rightarrow> (conn_ref \<Rightarrow> stack \<Rightarrow> stack option) \<Rightarrow> u32 \<Rightarrow> ConnectionObjectInstanceType
    \<Rightarrow> conn_ref option \<Rightarrow> stack \<Rightarrow> stack option" where
  "close_same_type n close_io input_point t None s = Some s"
| "close_same_type 0 close_io input_point t (Some c) s = None"
| "close_same_type (Suc n) close_io input_point t (Some c) s = do {
     c \<leftarrow> node_data c s;
     let node = next_node c s;
     s \<leftarrow> (if t = ConnectionObjectGetInstanceType (conn s c)
              \<and> input_point = ucast (epath_instance_id (produced_path (conn s c)))
           then call_close_function close_io c
                  (emit (CheckIoConnectionEvent (epath_instance_id (consumed_path (conn s c)))
                     (epath_instance_id (produced_path (conn s c))) kIoConnectionEventClosed) s)
           else Some s);
     close_same_type n close_io input_point t node s }"

primrec CloseIoConnection_depth :: "nat \<Rightarrow> conn_ref \<Rightarrow> stack \<Rightarrow> stack option" where
  "CloseIoConnection_depth 0 c s = None"
| "CloseIoConnection_depth (Suc d) c s = (
     let t = ConnectionObjectGetInstanceType (conn s c);
         conn_type = ConnectionObjectGetTToOConnectionType (conn s c);
         s = emit (CheckIoConnectionEvent (epath_instance_id (consumed_path (conn s c)))
               (epath_instance_id (produced_path (conn s c))) kIoConnectionEventClosed) s
     in do {
       x \<leftarrow> ConnectionObjectSetState kConnectionObjectStateNonExistent (conn s c);
       let s = set_conn c x s;
       s \<leftarrow> (if (t = kConnectionObjectInstanceTypeIOExclusiveOwner
                 \<or> t = kConnectionObjectInstanceTypeIOInputOnly)
                \<and> kConnectionObjectConnectionTypeMulticast = conn_type
                \<and> kEipInvalidSocket \<noteq> socket_producing (conn s c)
             then let (transferred, s) = transfer_master_connection c s
                  in if transferred then Some s
                     else close_same_type (length (connection_list s)) (CloseIoConnection_depth d)
                            (ucast (epath_instance_id (produced_path (conn s c))))
                            kConnectionObjectInstanceTypeIOListenOnly (head_node s) s
             else Some s);
       CloseCommunicationChannelsAndRemoveFromActiveConnectionsList c s })"

definition CloseIoConnection :: "conn_ref \<Rightarrow> stack \<Rightarrow> stack option" where
  "CloseIoConnection = CloseIoConnection_depth 2"

definition CloseAllConnectionsForInputWithSameType ::
    "u32 \<Rightarrow> ConnectionObjectInstanceType \<Rightarrow> stack \<Rightarrow> stack option" where
  "CloseAllConnectionsForInputWithSameType input_point t s =
     close_same_type (length (connection_list s)) CloseIoConnection input_point t (head_node s) s"

text \<open>\<^verbatim>\<open>connection_object->connection_close_function(connection_object)\<close>.\<close>

definition close_function :: "conn_ref \<Rightarrow> stack \<Rightarrow> stack option" where
  "close_function = call_close_function CloseIoConnection"

fun close_all :: "nat \<Rightarrow> conn_ref option \<Rightarrow> stack \<Rightarrow> stack option" where
  "close_all n None s = Some s"
| "close_all 0 (Some c) s = None"
| "close_all (Suc n) (Some c) s = do {
     s \<leftarrow> close_function c s;
     close_all n (head_node s) s }"

definition CloseAllConnections :: "stack \<Rightarrow> stack option" where
  "CloseAllConnections s = close_all (length (connection_list s)) (head_node s) s"

declare CloseIoConnection_depth.simps(2) [simp del]

section \<open>Closing one connection\<close>

definition empty_connection :: CipConnectionObject where
  "empty_connection = zero_connection_object
     \<lparr>socket_producing := kEipInvalidSocket, socket_consuming := kEipInvalidSocket\<rparr>"

lemma InitializeEmpty_eq: "ConnectionObjectInitializeEmpty = Some empty_connection"
  by (simp add: ConnectionObjectInitializeEmpty_def empty_connection_def zero_connection_object_def)

lemma SetState_NonExistent_other [simp]:
  "ConnectionObjectGetInstanceType (x\<lparr>state := v\<rparr>) = ConnectionObjectGetInstanceType x"
  "ConnectionObjectGetTToOConnectionType (x\<lparr>state := v\<rparr>) = ConnectionObjectGetTToOConnectionType x"
  by (simp_all add: ConnectionObjectGetInstanceType_def ConnectionObjectGetTToOConnectionType_def)

text \<open>What closing connections leaves alone.\<close>

definition same_sessions :: "stack \<Rightarrow> stack \<Rightarrow> bool" where
  "same_sessions s s' \<longleftrightarrow> g_registered_sessions s' = g_registered_sessions s
     \<and> g_timestamps s' = g_timestamps s \<and> g_actual_time s' = g_actual_time s
     \<and> g_tcpip s' = g_tcpip s \<and> g_exlusive_owner_connections s' = g_exlusive_owner_connections s"

lemma same_sessions_refl [simp]: "same_sessions s s"
  by (simp add: same_sessions_def)

lemma same_sessions_trans: "same_sessions s t \<Longrightarrow> same_sessions t u \<Longrightarrow> same_sessions s u"
  by (simp add: same_sessions_def)

lemma same_sessions_steps [simp]:
  "same_sessions s (set_conn c x t) = same_sessions s t"
  "same_sessions s (emit e t) = same_sessions s t"
  "same_sessions s (CloseUdpSocket f t) = same_sessions s t"
  "same_sessions s (RemoveFromActiveConnections c t) = same_sessions s t"
  "same_sessions (set_conn c x s) t = same_sessions s t"
  "same_sessions (emit e s) t = same_sessions s t"
  by (simp_all add: same_sessions_def)

text \<open>\<open>removed X s s'\<close>: exactly the connections in \<open>X\<close> were closed.\<close>

definition removed :: "(conn_ref \<Rightarrow> bool) \<Rightarrow> stack \<Rightarrow> stack \<Rightarrow> bool" where
  "removed X s s' \<longleftrightarrow> connection_list s' = filter (\<lambda>c. \<not> X c) (connection_list s)
     \<and> (\<forall>c. conn s' c = (if X c then empty_connection else conn s c))
     \<and> same_sessions s s'"

lemma removed_trans:
  assumes "removed X s t" and "removed Y t u"
  shows "removed (\<lambda>c. X c \<or> Y c) s u"
  using assms by (auto simp: removed_def intro: same_sessions_trans filter_cong)

lemma removed_set_conn:
  assumes "removed X (set_conn c x s) s'" and "X c"
  shows "removed X s s'"
  using assms by (simp add: removed_def)

lemma removed_emit [simp]: "removed X (emit e s) s' = removed X s s'"
  by (simp add: removed_def)

lemma CloseConnection_removed:
  assumes "distinct (connection_list s)"
  shows "\<exists>s'. CloseConnection c s = Some s' \<and> removed ((=) c) s s'"
  unfolding CloseConnection_def InitializeEmpty_eq Let_def bind.bind_lunit
  using assms by (auto simp: removed_def distinct_remove1_removeAll removeAll_filter_not_eq)

lemma CloseChannels_removed:
  assumes "distinct (connection_list s)"
  shows "\<exists>s'. CloseCommunicationChannelsAndRemoveFromActiveConnectionsList c s = Some s'
    \<and> removed ((=) c) s s'"
  unfolding CloseCommunicationChannelsAndRemoveFromActiveConnectionsList_def InitializeEmpty_eq Let_def
    bind.bind_lunit
  using assms by (auto simp: removed_def distinct_remove1_removeAll removeAll_filter_not_eq)


section \<open>The recursion is two calls deep\<close>

lemma close_same_type_cong:
  assumes "\<And>c s. ConnectionObjectGetInstanceType (conn s c) = t \<Longrightarrow> f c s = g c s"
  shows "close_same_type n f input_point t node s = close_same_type n g input_point t node s"
proof (induction n arbitrary: node s)
  case 0
  then show ?case
    by (cases node) simp_all
next
  case (Suc n)
  have call: "call_close_function f c s = call_close_function g c s"
    if "ConnectionObjectGetInstanceType (conn s c) = t" for c s
    using assms [OF that] by (simp add: call_close_function_def split: option.splits ConnectionCloseFunction.splits)
  have IH: "close_same_type n f input_point t nd = close_same_type n g input_point t nd" for nd
    by (rule ext) (rule Suc.IH)
  show ?case
  proof (cases node)
    case (Some c)
    show ?thesis
      unfolding Some close_same_type.simps Let_def node_data_def IH
      using call [of "emit e s" for e] by simp
  qed simp
qed

lemma CloseIoConnection_depth_listen_only:
  assumes "ConnectionObjectGetInstanceType (conn s c) = kConnectionObjectInstanceTypeIOListenOnly"
  shows "CloseIoConnection_depth (Suc d) c s =
    (let s = emit (CheckIoConnectionEvent (epath_instance_id (consumed_path (conn s c)))
               (epath_instance_id (produced_path (conn s c))) kIoConnectionEventClosed) s
     in CloseCommunicationChannelsAndRemoveFromActiveConnectionsList c
          (set_conn c ((conn s c)\<lparr>state := 0\<rparr>) s))"
  unfolding CloseIoConnection_depth.simps(2) Let_def using assms by simp

lemma CloseIoConnection_depth_enough:
  "CloseIoConnection_depth (Suc (Suc d)) c s = CloseIoConnection c s"
proof -
  have lo: "CloseIoConnection_depth (Suc d) c s = CloseIoConnection_depth (Suc 0) c s"
    if "ConnectionObjectGetInstanceType (conn s c) = kConnectionObjectInstanceTypeIOListenOnly" for d c s
    unfolding CloseIoConnection_depth_listen_only [OF that] ..
  have loop: "close_same_type n (CloseIoConnection_depth (Suc d)) i
      kConnectionObjectInstanceTypeIOListenOnly node
    = close_same_type n (CloseIoConnection_depth (Suc 0)) i
      kConnectionObjectInstanceTypeIOListenOnly node" for n i node
    by (rule ext) (rule close_same_type_cong [OF lo])
  show ?thesis
    unfolding CloseIoConnection_def numeral_2_eq_2 CloseIoConnection_depth.simps(2) [of "Suc d"]
      CloseIoConnection_depth.simps(2) [of "Suc 0"] loop ..
qed

text \<open>The listen only connections of an input.\<close>

definition listens_to :: "u32 \<Rightarrow> CipConnectionObject \<Rightarrow> bool" where
  "listens_to input_point x \<longleftrightarrow>
     ConnectionObjectGetInstanceType x = kConnectionObjectInstanceTypeIOListenOnly
     \<and> input_point = ucast (epath_instance_id (produced_path x))"

lemma close_listen_only:
  assumes "distinct (connection_list s)" and "connection_close_function (conn s c) \<noteq> None"
    and "ConnectionObjectGetInstanceType (conn s c) = kConnectionObjectInstanceTypeIOListenOnly"
  shows "\<exists>s'. call_close_function (CloseIoConnection_depth (Suc d)) c s = Some s' \<and> removed ((=) c) s s'"
proof (cases "connection_close_function (conn s c)")
  case (Some f)
  show ?thesis
  proof (cases f)
    case CloseConnection_fn
    then show ?thesis
      using Some CloseConnection_removed [OF assms(1)] by (simp add: call_close_function_def)
  next
    case CloseIoConnection_fn
    define s1 where "s1 = set_conn c ((conn s c)\<lparr>state := 0\<rparr>)
      (emit (CheckIoConnectionEvent (epath_instance_id (consumed_path (conn s c)))
         (epath_instance_id (produced_path (conn s c))) kIoConnectionEventClosed) s)"
    have d: "distinct (connection_list s1)"
      using assms(1) by (simp add: s1_def)
    have "CloseIoConnection_depth (Suc d) c s
        = CloseCommunicationChannelsAndRemoveFromActiveConnectionsList c s1"
      unfolding CloseIoConnection_depth_listen_only [OF assms(3)] Let_def s1_def by simp
    moreover obtain s' where
      "CloseCommunicationChannelsAndRemoveFromActiveConnectionsList c s1 = Some s'" "removed ((=) c) s1 s'"
      using CloseChannels_removed [OF d] by blast
    moreover from this(2) have "removed ((=) c) s s'"
      unfolding s1_def using removed_set_conn by (metis removed_emit)
    ultimately show ?thesis
      using Some CloseIoConnection_fn by (auto simp: call_close_function_def)
  qed
qed (use assms in simp)


lemma removed_cong: "removed X s s' \<Longrightarrow> (\<And>c. X c = Y c) \<Longrightarrow> removed Y s s'"
  by (simp add: removed_def)

lemma filter_ne_notin: "c \<notin> set xs \<Longrightarrow> filter ((\<noteq>) c) xs = xs"
  by (induction xs) auto

lemma close_listeners_loop:
  assumes "connection_list s = pre @ rest" and "distinct (pre @ rest)" and "length rest \<le> n"
    and "\<forall>c \<in> set rest. connection_close_function (conn s c) \<noteq> None"
  shows "\<exists>s'. close_same_type n (CloseIoConnection_depth (Suc d)) i
        kConnectionObjectInstanceTypeIOListenOnly (case rest of [] \<Rightarrow> None | c # _ \<Rightarrow> Some c) s = Some s'
      \<and> removed (\<lambda>c. c \<in> set rest \<and> listens_to i (conn s c)) s s'"
  using assms
proof (induction rest arbitrary: n pre s)
  case Nil
  then show ?case
    by (simp add: removed_def)
next
  case (Cons c rest)
  obtain m where n: "n = Suc m" "length rest \<le> m"
    using Cons.prems(3) by (cases n) auto
  have data: "node_data c s = Some c"
    using Cons.prems(1) by (simp add: node_data_def)
  have node: "next_node c s = (case rest of [] \<Rightarrow> None | c # _ \<Rightarrow> Some c)"
    using Cons.prems(1,2) by (simp add: next_node_def successor_append)
  let ?e = "CheckIoConnectionEvent (epath_instance_id (consumed_path (conn s c)))
     (epath_instance_id (produced_path (conn s c))) kIoConnectionEventClosed"
  show ?case
  proof (cases "listens_to i (conn s c)")
    case True
    then obtain s1 where s1: "call_close_function (CloseIoConnection_depth (Suc d)) c (emit ?e s) = Some s1"
      "removed ((=) c) s s1"
      using close_listen_only [of "emit ?e s" c d] Cons.prems by (auto simp: listens_to_def)
    have same: "conn s1 b = conn s b" if "b \<in> set rest" for b
      using that s1(2) Cons.prems(2) by (auto simp: removed_def)
    have l: "connection_list s1 = pre @ rest"
      using s1(2) Cons.prems(1,2) by (auto simp: removed_def filter_ne_notin)
    obtain s2 where s2: "close_same_type m (CloseIoConnection_depth (Suc d)) i
        kConnectionObjectInstanceTypeIOListenOnly (case rest of [] \<Rightarrow> None | c # _ \<Rightarrow> Some c) s1 = Some s2"
      "removed (\<lambda>c. c \<in> set rest \<and> listens_to i (conn s1 c)) s1 s2"
      using Cons.IH [OF l _ n(2)] Cons.prems(2,4) same by fastforce
    have "removed (\<lambda>b. b \<in> set (c # rest) \<and> listens_to i (conn s b)) s s2"
      by (rule removed_cong [OF removed_trans [OF s1(2) s2(2)]]) (use True same in auto)
    then show ?thesis
      using True s1(1) s2(1) by (auto simp: n data node listens_to_def)
  next
    case False
    obtain s2 where s2: "close_same_type m (CloseIoConnection_depth (Suc d)) i
        kConnectionObjectInstanceTypeIOListenOnly (case rest of [] \<Rightarrow> None | c # _ \<Rightarrow> Some c) s = Some s2"
      "removed (\<lambda>c. c \<in> set rest \<and> listens_to i (conn s c)) s s2"
      using Cons.IH [of s "pre @ [c]" m] Cons.prems n(2) by auto
    have "removed (\<lambda>b. b \<in> set (c # rest) \<and> listens_to i (conn s b)) s s2"
      by (rule removed_cong [OF s2(2)]) (use False in auto)
    then show ?thesis
      using False s2(1) by (auto simp: n data node listens_to_def)
  qed
qed

lemma close_listeners:
  assumes "distinct (connection_list s)"
    and "\<forall>c \<in> set (connection_list s). connection_close_function (conn s c) \<noteq> None"
  shows "\<exists>s'. close_same_type (length (connection_list s)) (CloseIoConnection_depth (Suc d)) i
        kConnectionObjectInstanceTypeIOListenOnly (head_node s) s = Some s'
      \<and> removed (\<lambda>c. c \<in> set (connection_list s) \<and> listens_to i (conn s c)) s s'"
  using close_listeners_loop [of s "[]" "connection_list s" _ d i] assms
  by (simp add: head_node_def)


section \<open>What closing an I/O connection does\<close>

definition produces_multicast :: "CipConnectionObject \<Rightarrow> bool" where
  "produces_multicast x \<longleftrightarrow>
     ConnectionObjectGetInstanceType x \<in> {kConnectionObjectInstanceTypeIOExclusiveOwner,
       kConnectionObjectInstanceTypeIOInputOnly}
     \<and> ConnectionObjectGetTToOConnectionType x = kConnectionObjectConnectionTypeMulticast
     \<and> socket_producing x \<noteq> kEipInvalidSocket"

definition can_inherit :: "CipConnectionObject \<Rightarrow> CipConnectionObject \<Rightarrow> bool" where
  "can_inherit x y \<longleftrightarrow> ConnectionObjectIsTypeNonLOIOConnection y
     \<and> ConnectionObjectGetState y = kConnectionObjectStateEstablished
     \<and> ConnectionObjectGetTToOConnectionType y = kConnectionObjectConnectionTypeMulticast
     \<and> epath_instance_id (produced_path y) = epath_instance_id (produced_path x)
     \<and> socket_producing y = kEipInvalidSocket"

definition heir :: "conn_ref \<Rightarrow> stack \<Rightarrow> conn_ref option" where
  "heir c s = (if produces_multicast (conn s c)
     then find_connection (can_inherit (conn s c)) (\<lambda>d. if d = c then empty_connection else conn s d)
            (connection_list s)
     else None)"

definition inherit :: "CipConnectionObject \<Rightarrow> CipConnectionObject \<Rightarrow> CipConnectionObject" where
  "inherit x y = y\<lparr>socket_producing := socket_producing x, remote_address := remote_address x,
     eip_level_sequence_count_producing := eip_level_sequence_count_producing x,
     sequence_count_producing := sequence_count_producing x,
     transmission_trigger_timer := transmission_trigger_timer x\<rparr>"

lemma find_connection_cong:
  "(\<And>c. c \<in> set cs \<Longrightarrow> P (m c) \<longleftrightarrow> Q (n c)) \<Longrightarrow> find_connection P m cs = find_connection Q n cs"
  by (induction cs) auto

lemma ucast_u16_u32_eq_iff [simp]: "ucast (a :: u16) = (ucast b :: u32) \<longleftrightarrow> a = b"
proof
  assume "ucast a = (ucast b :: u32)"
  then have "ucast (ucast a :: u32) = (ucast (ucast b :: u32) :: u16)"
    by simp
  then show "a = b"
    using unat_less_exp [of a] unat_less_exp [of b] by (simp add: ucast_ucast_id)
qed simp

lemma GetNext_heir:
  assumes "produces_multicast (conn s c)" and "v \<in> {0, 4}"
  shows "GetNextNonControlMasterConnection (ucast (epath_instance_id (produced_path (conn s c))))
    (set_conn c ((conn s c)\<lparr>state := v\<rparr>) s) = heir c s"
proof -
  have n: "\<not> can_inherit x empty_connection" for x
    by (simp add: can_inherit_def empty_connection_def zero_connection_object_def ConnectionObjectGetState_def)
  have st: "ConnectionObjectGetState ((conn s c)\<lparr>state := v\<rparr>) \<noteq> kConnectionObjectStateEstablished"
    using assms(2) by (auto simp: ConnectionObjectGetState_def)
  have "(ConnectionObjectIsTypeNonLOIOConnection x
       \<and> kConnectionObjectStateEstablished = ConnectionObjectGetState x
       \<and> ucast (epath_instance_id (produced_path (conn s c))) = (ucast (epath_instance_id (produced_path x)) :: u32)
       \<and> kConnectionObjectConnectionTypeMulticast = ConnectionObjectGetTToOConnectionType x
       \<and> kEipInvalidSocket = socket_producing x) = can_inherit (conn s c) x" for x
    by (auto simp: can_inherit_def)
  then show ?thesis
    using n st assms(1) unfolding GetNextNonControlMasterConnection_def heir_def
    by (auto simp: can_inherit_def intro!: find_connection_cong)
qed


lemma transfer_master_connection_eq:
  "transfer_master_connection c s =
     (case GetNextNonControlMasterConnection (ucast (epath_instance_id (produced_path (conn s c)))) s of
        None \<Rightarrow> (False, s)
      | Some a \<Rightarrow> if a = c then transfer_master_connection c s else
          (True, set_conn a (inherit (conn s c) (conn s a))
             (set_conn c ((conn s c)\<lparr>socket_producing := kEipInvalidSocket\<rparr>) s)))"
  by (simp add: transfer_master_connection_def inherit_def Let_def set_conn_def fun_upd_twist
      split: option.split)

text \<open>The state after the event and the change of state.\<close>

definition closing :: "conn_ref \<Rightarrow> stack \<Rightarrow> stack" where
  "closing c s = set_conn c ((conn s c)\<lparr>state := 0\<rparr>)
     (emit (CheckIoConnectionEvent (epath_instance_id (consumed_path (conn s c)))
        (epath_instance_id (produced_path (conn s c))) kIoConnectionEventClosed) s)"

lemma closing_simps [simp]:
  "connection_list (closing c s) = connection_list s"
  "conn (closing c s) d = (if d = c then (conn s c)\<lparr>state := 0\<rparr> else conn s d)"
  "same_sessions u (closing c s) = same_sessions u s"
  "same_sessions (closing c s) u = same_sessions s u"
  by (simp_all add: closing_def)

lemma GetNext_closing:
  assumes "produces_multicast (conn s c)"
  shows "GetNextNonControlMasterConnection (ucast (epath_instance_id (produced_path (conn s c))))
    (closing c s) = heir c s"
proof -
  have "heir c (emit e s) = heir c s" for e
    unfolding heir_def emit_other ..
  then show ?thesis
    using GetNext_heir [of "emit e s" c 0 for e] assms by (simp add: closing_def)
qed

lemma heir_not_self: "heir c s = Some h \<Longrightarrow> h \<noteq> c \<and> h \<in> set (connection_list s)"
  by (auto simp: heir_def can_inherit_def empty_connection_def zero_connection_object_def
      ConnectionObjectGetState_def split: if_splits dest!: find_connection_Some)

lemma CloseIoConnection_closing:
  "CloseIoConnection c s = do {
     s1 \<leftarrow> (if produces_multicast (conn s c)
           then (case heir c s of
               Some h \<Rightarrow> Some (set_conn h (inherit (conn s c) (conn s h))
                 (set_conn c ((conn s c)\<lparr>state := 0, socket_producing := kEipInvalidSocket\<rparr>) (closing c s)))
             | None \<Rightarrow> close_same_type (length (connection_list s)) (CloseIoConnection_depth (Suc 0))
                 (ucast (epath_instance_id (produced_path (conn s c))))
                 kConnectionObjectInstanceTypeIOListenOnly (head_node (closing c s)) (closing c s))
           else Some (closing c s));
     CloseCommunicationChannelsAndRemoveFromActiveConnectionsList c s1 }"
proof -
  have st: "ConnectionObjectSetState kConnectionObjectStateNonExistent (conn (emit e s) c)
      = Some ((conn s c)\<lparr>state := 0\<rparr>)" for e
    by simp
  have m: "((ConnectionObjectGetInstanceType (conn s c) = kConnectionObjectInstanceTypeIOExclusiveOwner
      \<or> ConnectionObjectGetInstanceType (conn s c) = kConnectionObjectInstanceTypeIOInputOnly)
    \<and> kConnectionObjectConnectionTypeMulticast = ConnectionObjectGetTToOConnectionType (conn s c)
    \<and> kEipInvalidSocket \<noteq> socket_producing (conn (closing c s) c)) = produces_multicast (conn s c)"
    by (auto simp: produces_multicast_def)
  have t: "transfer_master_connection c (closing c s) =
    (case heir c s of None \<Rightarrow> (False, closing c s) | Some h \<Rightarrow> (True,
      set_conn h (inherit (conn s c) (conn s h))
        (set_conn c ((conn s c)\<lparr>state := 0, socket_producing := kEipInvalidSocket\<rparr>) (closing c s))))"
    if "produces_multicast (conn s c)"
    using GetNext_closing [OF that] heir_not_self [of c s]
    by (subst transfer_master_connection_eq) (auto simp: inherit_def split: option.split)
  show ?thesis
    unfolding CloseIoConnection_def numeral_2_eq_2 CloseIoConnection_depth.simps(2) [of "Suc 0"] Let_def st
      bind.bind_lunit
    unfolding closing_def [symmetric] m
    using t by (simp split: option.split)
qed


text \<open>The connections that \<^verbatim>\<open>CloseIoConnection\<close> removes, besides handing over.\<close>

definition goes_with :: "conn_ref \<Rightarrow> stack \<Rightarrow> conn_ref \<Rightarrow> bool" where
  "goes_with c s d \<longleftrightarrow> d = c \<or> (produces_multicast (conn s c) \<and> heir c s = None
     \<and> d \<in> set (connection_list s)
     \<and> listens_to (ucast (epath_instance_id (produced_path (conn s c)))) (conn s d))"

definition after_handover :: "conn_ref \<Rightarrow> stack \<Rightarrow> conn_ref \<Rightarrow> CipConnectionObject" where
  "after_handover c s d = (if heir c s = Some d then inherit (conn s c) (conn s d) else conn s d)"

lemma CloseIoConnection_spec:
  assumes "distinct (connection_list s)"
    and "\<forall>d \<in> set (connection_list s). connection_close_function (conn s d) \<noteq> None"
  shows "\<exists>s'. CloseIoConnection c s = Some s'
    \<and> connection_list s' = filter (\<lambda>d. \<not> goes_with c s d) (connection_list s)
    \<and> (\<forall>d. conn s' d = (if goes_with c s d then empty_connection else after_handover c s d))
    \<and> same_sessions s s'"
proof (cases "heir c s")
  case (Some h)
  then have m: "produces_multicast (conn s c)" and h: "h \<noteq> c"
    using heir_not_self by (auto simp: heir_def split: if_splits)
  define s1 where "s1 = set_conn h (inherit (conn s c) (conn s h))
    (set_conn c ((conn s c)\<lparr>state := 0, socket_producing := kEipInvalidSocket\<rparr>) (closing c s))"
  obtain s' where "CloseCommunicationChannelsAndRemoveFromActiveConnectionsList c s1 = Some s'"
    "removed ((=) c) s1 s'"
    using CloseChannels_removed [of s1 c] assms(1) by (auto simp: s1_def)
  moreover from this(2) have "connection_list s' = filter (\<lambda>d. \<not> goes_with c s d) (connection_list s)"
    and "\<forall>d. conn s' d = (if goes_with c s d then empty_connection else after_handover c s d)"
    and "same_sessions s s'"
    using Some h by (auto simp: removed_def s1_def goes_with_def after_handover_def intro!: filter_cong)
  ultimately show ?thesis
    using m Some by (simp add: CloseIoConnection_closing s1_def)
next
  case None
  show ?thesis
  proof (cases "produces_multicast (conn s c)")
    case True
    have cf: "\<forall>d \<in> set (connection_list (closing c s)). connection_close_function (conn (closing c s) d) \<noteq> None"
      using assms(2) by auto
    obtain s1 where s1: "close_same_type (length (connection_list s)) (CloseIoConnection_depth (Suc 0))
       (ucast (epath_instance_id (produced_path (conn s c))))
       kConnectionObjectInstanceTypeIOListenOnly (head_node (closing c s)) (closing c s) = Some s1"
      "removed (\<lambda>d. d \<in> set (connection_list s)
         \<and> listens_to (ucast (epath_instance_id (produced_path (conn s c)))) (conn (closing c s) d))
       (closing c s) s1"
      using close_listeners [OF _ cf, of 0 "ucast (epath_instance_id (produced_path (conn s c)))"]
        assms(1) unfolding closing_simps(1) by blast
    obtain s' where s': "CloseCommunicationChannelsAndRemoveFromActiveConnectionsList c s1 = Some s'"
      "removed ((=) c) s1 s'"
      using CloseChannels_removed [of s1 c] s1(2) assms(1) by (auto simp: removed_def)
    have "connection_list s' = filter (\<lambda>d. \<not> goes_with c s d) (connection_list s)"
      and "\<forall>d. conn s' d = (if goes_with c s d then empty_connection else after_handover c s d)"
      and "same_sessions s s'"
      using removed_trans [OF s1(2) s'(2)] None True
      by (auto simp: removed_def goes_with_def after_handover_def intro!: filter_cong)
    then show ?thesis
      using s' s1 True None by (simp add: CloseIoConnection_closing)
  next
    case False
    obtain s' where "CloseCommunicationChannelsAndRemoveFromActiveConnectionsList c (closing c s) = Some s'"
      "removed ((=) c) (closing c s) s'"
      using CloseChannels_removed [of "closing c s" c] assms(1) by auto
    then show ?thesis
      using False None
      by (auto simp: removed_def CloseIoConnection_closing goes_with_def after_handover_def intro!: filter_cong)
  qed
qed


section \<open>What any closing leaves\<close>

definition connections_wf :: "stack \<Rightarrow> bool" where
  "connections_wf s \<longleftrightarrow> distinct (connection_list s)
     \<and> (\<forall>d \<in> set (connection_list s). connection_close_function (conn s d) \<noteq> None)"

text \<open>\<open>shrinks s s'\<close>: some connections were closed; the others are as they were, except that they may
  have been given the socket of one that was closed.\<close>

definition shrinks :: "stack \<Rightarrow> stack \<Rightarrow> bool" where
  "shrinks s s' \<longleftrightarrow> g_exlusive_owner_connections s' = g_exlusive_owner_connections s
     \<and> (\<exists>P. connection_list s' = filter P (connection_list s))
     \<and> (\<forall>d \<in> set (connection_list s'). conn s' d = conn s d \<or> (\<exists>x. conn s' d = inherit x (conn s d)))"

lemma inherit_inherit [simp]: "inherit x (inherit y z) = inherit x z"
  by (simp add: inherit_def)

lemma shrinks_refl [simp]: "shrinks s s"
  by (auto simp: shrinks_def intro!: exI [of _ "\<lambda>_. True"])

lemma shrinks_subset: "shrinks s s' \<Longrightarrow> set (connection_list s') \<subseteq> set (connection_list s)"
  by (auto simp: shrinks_def)

lemma shrinks_trans:
  assumes "shrinks s t" and "shrinks t u"
  shows "shrinks s u"
proof -
  obtain P Q where "connection_list t = filter P (connection_list s)"
    "connection_list u = filter Q (connection_list t)"
    using assms by (auto simp: shrinks_def)
  then have "connection_list u = filter (\<lambda>d. P d \<and> Q d) (connection_list s)"
    by simp
  moreover have "conn u d = conn s d \<or> (\<exists>x. conn u d = inherit x (conn s d))"
    if "d \<in> set (connection_list u)" for d
    using that assms shrinks_subset [OF assms(2)] by (force simp: shrinks_def)
  moreover have "g_exlusive_owner_connections u = g_exlusive_owner_connections s"
    using assms by (simp add: shrinks_def)
  ultimately show ?thesis
    by (auto simp: shrinks_def)
qed

lemma shrinks_wf: "shrinks s s' \<Longrightarrow> connections_wf s \<Longrightarrow> connections_wf s'"
  by (force simp: shrinks_def connections_wf_def inherit_def)

lemma removed_shrinks: "removed X s s' \<Longrightarrow> shrinks s s'"
  by (auto simp: removed_def shrinks_def same_sessions_def)

lemma close_function_returns:
  assumes "connections_wf s" and "connection_close_function (conn s c) \<noteq> None"
  shows "\<exists>s'. close_function c s = Some s' \<and> shrinks s s' \<and> c \<notin> set (connection_list s')
    \<and> same_sessions s s'"
proof (cases "connection_close_function (conn s c)")
  case (Some f)
  show ?thesis
  proof (cases f)
    case CloseConnection_fn
    then show ?thesis
      using Some CloseConnection_removed [of s c] assms(1) removed_shrinks
      by (fastforce simp: close_function_def call_close_function_def connections_wf_def removed_def)
  next
    case CloseIoConnection_fn
    obtain s' where s': "CloseIoConnection c s = Some s'"
      "connection_list s' = filter (\<lambda>d. \<not> goes_with c s d) (connection_list s)"
      "\<forall>d. conn s' d = (if goes_with c s d then empty_connection else after_handover c s d)"
      "same_sessions s s'"
      using CloseIoConnection_spec [of s c] assms(1) by (auto simp: connections_wf_def)
    have "shrinks s s'"
      using s'(2-4) by (auto simp: shrinks_def after_handover_def same_sessions_def)
    moreover have "c \<notin> set (connection_list s')"
      using s'(2) by (simp add: goes_with_def)
    ultimately show ?thesis
      using Some CloseIoConnection_fn s' by (simp add: close_function_def call_close_function_def)
  qed
qed (use assms in simp)

lemma close_function_shrinks:
  assumes "connections_wf s" and "c \<in> set (connection_list s)"
  shows "\<exists>s'. close_function c s = Some s' \<and> shrinks s s' \<and> c \<notin> set (connection_list s')
    \<and> same_sessions s s'"
  using assms close_function_returns [OF assms(1), of c] by (auto simp: connections_wf_def)

lemma close_function_outside:
  assumes "connections_wf s" and "close_function c s = Some s'" and "d \<notin> set (connection_list s)" and "d \<noteq> c"
  shows "conn s' d = conn s d"
proof (cases "connection_close_function (conn s c)")
  case (Some f)
  show ?thesis
  proof (cases f)
    case CloseConnection_fn
    then show ?thesis
      using Some CloseConnection_removed [of s c] assms
      by (auto simp: close_function_def call_close_function_def connections_wf_def removed_def)
  next
    case CloseIoConnection_fn
    then show ?thesis
      using Some CloseIoConnection_spec [of s c] assms heir_not_self [of c s d]
      by (auto simp: close_function_def call_close_function_def connections_wf_def goes_with_def after_handover_def)
  qed
qed (use assms in \<open>simp add: close_function_def call_close_function_def\<close>)

text \<open>C22: closing an I/O connection always returns and does exactly this: a connection that produces
  multicast data hands its socket, peer address and counters to the first established connection that
  produces the same input without a socket; if there is none, the listen only connections of that
  input are closed with it; nothing else changes, neither connections nor sessions.\<close>

theorem close_io_connection_effect:
  assumes "connections_wf s"
  shows "case heir c s of
      Some h \<Rightarrow> (\<exists>s'. CloseIoConnection c s = Some s' \<and> same_sessions s s'
        \<and> connection_list s' = remove1 c (connection_list s)
        \<and> conn s' = (conn s)(c := empty_connection, h := inherit (conn s c) (conn s h)))
    | None \<Rightarrow> (\<exists>s'. CloseIoConnection c s = Some s' \<and> same_sessions s s'
        \<and> (let gone = (\<lambda>d. d = c \<or> (produces_multicast (conn s c) \<and> d \<in> set (connection_list s)
                 \<and> listens_to (ucast (epath_instance_id (produced_path (conn s c)))) (conn s d)))
           in connection_list s' = filter (\<lambda>d. \<not> gone d) (connection_list s)
              \<and> conn s' = (\<lambda>d. if gone d then empty_connection else conn s d)))"
proof -
  have d: "distinct (connection_list s)"
    and f: "\<forall>d \<in> set (connection_list s). connection_close_function (conn s d) \<noteq> None"
    using assms by (auto simp: connections_wf_def)
  obtain s' where "CloseIoConnection c s = Some s'"
      "connection_list s' = filter (\<lambda>d. \<not> goes_with c s d) (connection_list s)"
      "\<forall>d. conn s' d = (if goes_with c s d then empty_connection else after_handover c s d)"
      "same_sessions s s'"
    using CloseIoConnection_spec [OF d f, of c] by blast
  then show ?thesis
    using d heir_not_self [of c s]
    by (auto simp: goes_with_def after_handover_def distinct_remove1_removeAll removeAll_filter_not_eq
        Let_def fun_eq_iff intro!: filter_cong split: option.split)
qed

definition example_connection :: "ConnectionObjectInstanceType \<Rightarrow> u32 \<Rightarrow> socket_fd \<Rightarrow> CipConnectionObject" where
  "example_connection t params fd = zero_connection_object
     \<lparr>state := 3, instance_type := t, t_to_o_network_connection_parameters := params,
      socket_producing := fd, socket_consuming := kEipInvalidSocket,
      connection_close_function := Some CloseIoConnection_fn\<rparr>"

definition example_stack :: stack where
  "example_stack = initial_stack
     \<lparr>connection_list := [listen_only_ref 0 0, input_only_ref 0 0, exlusive_owner_ref 0],
      conn := (conn initial_stack)
        (exlusive_owner_ref 0 := example_connection kConnectionObjectInstanceTypeIOExclusiveOwner 0x2000 5,
         input_only_ref 0 0 := example_connection kConnectionObjectInstanceTypeIOInputOnly 0x2000 (-1),
         listen_only_ref 0 0 := example_connection kConnectionObjectInstanceTypeIOListenOnly 0x2000 (-1))\<rparr>"

theorem close_io_connection_effect_witness:
  "\<exists>s'. CloseIoConnection (exlusive_owner_ref 0) example_stack = Some s'
    \<and> connection_list s' = [listen_only_ref 0 0, input_only_ref 0 0]
    \<and> socket_producing (conn s' (input_only_ref 0 0)) = 5"
proof -
  have h: "heir (exlusive_owner_ref 0) example_stack = Some (input_only_ref 0 0)"
    by code_simp
  have l: "connection_list example_stack = [listen_only_ref 0 0, input_only_ref 0 0, exlusive_owner_ref 0]"
    by (simp add: example_stack_def)
  have w: "connections_wf example_stack"
    unfolding connections_wf_def l by (simp add: example_stack_def example_connection_def)
  have f: "socket_producing (conn example_stack (exlusive_owner_ref 0)) = 5"
    by (simp add: example_stack_def example_connection_def)
  show ?thesis
    using close_io_connection_effect [OF w, of "exlusive_owner_ref 0"] f
    by (auto simp: h l inherit_def)
qed

section \<open>Closing adds events and gives up sockets\<close>

definition only_closes :: "stack \<Rightarrow> stack \<Rightarrow> bool" where
  "only_closes s s' \<longleftrightarrow> (\<exists>es. trace s' = trace s @ es) \<and> set (master_socket s') \<subseteq> set (master_socket s)"

lemma only_closes_refl [simp]: "only_closes s s"
  by (simp add: only_closes_def)

lemma only_closes_trans: "only_closes s t \<Longrightarrow> only_closes t u \<Longrightarrow> only_closes s u"
  by (auto simp: only_closes_def)

lemma only_closes_steps:
  "only_closes s t \<Longrightarrow> only_closes s (set_conn c x t)"
  "only_closes s t \<Longrightarrow> only_closes s (emit e t)"
  "only_closes s t \<Longrightarrow> only_closes s (CloseUdpSocket f t)"
  "only_closes s t \<Longrightarrow> only_closes s (RemoveFromActiveConnections c t)"
  by (auto simp: only_closes_def RemoveFromActiveConnections_def CloseUdpSocket_def CloseSocket_def set_conn_def emit_def)

lemma CloseConnection_only_closes: "CloseConnection c s = Some s' \<Longrightarrow> only_closes s s'"
  by (auto simp: CloseConnection_def InitializeEmpty_eq Let_def intro!: only_closes_steps split: if_splits)

lemma CloseChannels_only_closes:
  "CloseCommunicationChannelsAndRemoveFromActiveConnectionsList c s = Some s' \<Longrightarrow> only_closes s s'"
  by (auto simp: CloseCommunicationChannelsAndRemoveFromActiveConnectionsList_def InitializeEmpty_eq Let_def
      intro!: only_closes_steps split: if_splits)

lemma transfer_only_closes: "transfer_master_connection c s = (b, s') \<Longrightarrow> only_closes s s'"
  by (auto simp: transfer_master_connection_def Let_def intro!: only_closes_steps split: option.splits)

lemma close_same_type_only_closes:
  assumes "\<And>c s s'. close_io c s = Some s' \<Longrightarrow> only_closes s s'"
  shows "close_same_type n close_io i t node s = Some s' \<Longrightarrow> only_closes s s'"
proof (induction n arbitrary: i t node s s')
  case 0
  then show ?case
    by (cases node) simp_all
next
  case (Suc n)
  have call: "call_close_function close_io c u = Some v \<Longrightarrow> only_closes s u \<Longrightarrow> only_closes s v" for c u v
    using assms CloseConnection_only_closes only_closes_trans
    by (auto simp: call_close_function_def split: option.splits ConnectionCloseFunction.splits)
  show ?case
  proof (cases node)
    case (Some c)
    have loop: "close_same_type n close_io j r nd u = Some v \<Longrightarrow> only_closes s u \<Longrightarrow> only_closes s v" for j r nd u v
      using Suc.IH only_closes_trans by blast
    have closed: "call_close_function close_io b (emit e s) = Some v \<Longrightarrow> only_closes s v" for b e v
      using call only_closes_steps(2) [OF only_closes_refl] by blast
    show ?thesis
      using Suc.prems by (auto simp: Some node_data_def bind_Some_iff Let_def split: if_splits dest!: closed dest: loop)
  qed (use Suc.prems in simp)
qed

lemma CloseIoConnection_depth_only_closes: "CloseIoConnection_depth d c s = Some s' \<Longrightarrow> only_closes s s'"
proof (induction d arbitrary: c s s')
  case (Suc d)
  have start: "only_closes s v" if "only_closes (set_conn c x (emit e s)) v" for x e v
    using only_closes_trans [OF _ that] only_closes_steps(1,2) by simp
  have loop: "close_same_type n (CloseIoConnection_depth d) i t nd u = Some v \<Longrightarrow> only_closes u v" for n i t nd u v
    by (rule close_same_type_only_closes) (rule Suc.IH)
  show ?case
    using Suc.prems
    by (auto simp: CloseIoConnection_depth.simps(2) bind_Some_iff Let_def split: if_splits prod.splits
        dest!: CloseChannels_only_closes transfer_only_closes loop
        intro: start only_closes_trans)
qed simp

lemma close_function_only_closes: "close_function c s = Some s' \<Longrightarrow> only_closes s s'"
  by (auto simp: close_function_def call_close_function_def CloseIoConnection_def split: option.splits ConnectionCloseFunction.splits
      dest: CloseConnection_only_closes CloseIoConnection_depth_only_closes)

end
