(* ===== verification/Sessions.thy ===== *)
theory Sessions
  imports Conn_Close
begin

text \<open>
  The encapsulation sessions (\<^verbatim>\<open>enet_encap/encap.c\<close>) and the actions on a time-out
  (\<^verbatim>\<open>cip/cipclass3connection.c\<close>, \<^verbatim>\<open>cip/cipioconnection.c\<close>, the inactivity check of
  \<^verbatim>\<open>ports/generic_networkhandler.c\<close>).  A session is a socket in the table
  \<open>g_registered_sessions\<close>; its handle is the index plus one.  \<open>peer f\<close> is the address that
  \<^verbatim>\<open>getpeername\<close> finds for the socket \<open>f\<close>, 0 when it fails.
\<close>

section \<open>The session table\<close>

fun session_search :: "nat \<Rightarrow> socket_fd \<Rightarrow> socket_fd list \<Rightarrow> nat option" where
  "session_search i f [] = None"
| "session_search i f (g # gs) = (if g = f then Some i else session_search (Suc i) f gs)"

definition GetFreeSessionIndex :: "stack \<Rightarrow> nat option" where
  "GetFreeSessionIndex s = session_search 0 kEipInvalidSocket (g_registered_sessions s)"

definition GetSessionFromSocket :: "socket_fd \<Rightarrow> stack \<Rightarrow> u32" where
  "GetSessionFromSocket socket_handle s =
     (case session_search 0 socket_handle (g_registered_sessions s) of
        Some i \<Rightarrow> of_nat i
      | None \<Rightarrow> of_nat OPENER_NUMBER_OF_SUPPORTED_SESSIONS)"

definition CheckRegisteredSessions :: "u32 \<Rightarrow> stack \<Rightarrow> bool" where
  "CheckRegisteredSessions session_handle s \<longleftrightarrow>
     0 < session_handle \<and> session_handle \<le> of_nat OPENER_NUMBER_OF_SUPPORTED_SESSIONS
     \<and> kEipInvalidSocket \<noteq> g_registered_sessions s ! unat (session_handle - 1)"

definition set_session :: "nat \<Rightarrow> socket_fd \<Rightarrow> stack \<Rightarrow> stack" where
  "set_session i f s = s\<lparr>g_registered_sessions := (g_registered_sessions s)[i := f]\<rparr>"

lemma set_session_other [simp]:
  "conn (set_session i f s) = conn s"
  "connection_list (set_session i f s) = connection_list s"
  "g_registered_sessions (set_session i f s) = (g_registered_sessions s)[i := f]"
  "g_timestamps (set_session i f s) = g_timestamps s"
  "g_actual_time (set_session i f s) = g_actual_time s"
  "g_tcpip (set_session i f s) = g_tcpip s"
  "g_exlusive_owner_connections (set_session i f s) = g_exlusive_owner_connections s"
  by (simp_all add: set_session_def)

section \<open>Closing sessions\<close>

definition belongs_to_session :: "u32 \<Rightarrow> CipConnectionObject \<Rightarrow> bool" where
  "belongs_to_session h x \<longleftrightarrow>
     kConnectionObjectTransportClassTriggerTransportClass3
       = ConnectionObjectGetTransportClassTriggerTransportClass x
     \<and> associated_encapsulation_session x = h"

fun close_class3 :: "nat \<Rightarrow> u32 \<Rightarrow> conn_ref option \<Rightarrow> stack \<Rightarrow> stack option" where
  "close_class3 n h None s = Some s"
| "close_class3 0 h (Some c) s = None"
| "close_class3 (Suc n) h (Some c) s = do {
     c \<leftarrow> node_data c s;
     s \<leftarrow> (if belongs_to_session h (conn s c) then close_function c s else Some s);
     close_class3 n h (next_node c s) s }"

definition CloseClass3ConnectionBasedOnSession :: "u32 \<Rightarrow> stack \<Rightarrow> stack option" where
  "CloseClass3ConnectionBasedOnSession h s =
     close_class3 (length (connection_list s)) h (head_node s) s"

definition CloseSession :: "socket_fd \<Rightarrow> stack \<Rightarrow> stack option" where
  "CloseSession f s =
     (case session_search 0 f (g_registered_sessions s) of
        None \<Rightarrow> Some s
      | Some i \<Rightarrow> do {
          s \<leftarrow> CloseTcpSocket f s;
          CloseClass3ConnectionBasedOnSession (of_nat i + 1) (set_session i kEipInvalidSocket s) })"

definition RemoveSession :: "socket_fd \<Rightarrow> stack \<Rightarrow> stack option" where
  "RemoveSession f s =
     (case session_search 0 f (g_registered_sessions s) of
        None \<Rightarrow> Some s
      | Some i \<Rightarrow> CloseClass3ConnectionBasedOnSession (of_nat i + 1) (set_session i kEipInvalidSocket s))"

text \<open>The handle of a connection is used as an index without a check.\<close>

definition CloseSessionBySessionHandle :: "conn_ref \<Rightarrow> stack \<Rightarrow> stack option" where
  "CloseSessionBySessionHandle c s = do {
     let i = unat (associated_encapsulation_session (conn s c) - 1);
     c_assert (i < length (g_registered_sessions s));
     s \<leftarrow> CloseTcpSocket (g_registered_sessions s ! i) s;
     Some (set_session i kEipInvalidSocket s) }"

primrec close_sessions_of_peer ::
    "(socket_fd \<Rightarrow> u32) \<Rightarrow> conn_ref \<Rightarrow> nat list \<Rightarrow> stack \<Rightarrow> stack option" where
  "close_sessions_of_peer peer c [] s = Some s"
| "close_sessions_of_peer peer c (i # js) s = do {
     let f = g_registered_sessions s ! i;
     s \<leftarrow> (if kEipInvalidSocket \<noteq> f \<and> peer f = s_addr (originator_address (conn s c))
           then CloseSession f s else Some s);
     close_sessions_of_peer peer c js s }"

definition CloseEncapsulationSessionBySockAddr ::
    "(socket_fd \<Rightarrow> u32) \<Rightarrow> conn_ref \<Rightarrow> stack \<Rightarrow> stack option" where
  "CloseEncapsulationSessionBySockAddr peer c s =
     close_sessions_of_peer peer c [0..<OPENER_NUMBER_OF_SUPPORTED_SESSIONS] s"

primrec close_sessions :: "nat list \<Rightarrow> stack \<Rightarrow> stack option" where
  "close_sessions [] s = Some s"
| "close_sessions (i # js) s = do {
     s \<leftarrow> (if kEipInvalidSocket \<noteq> g_registered_sessions s ! i
           then do {
             s \<leftarrow> CloseTcpSocket (g_registered_sessions s ! i) s;
             Some (set_session i kEipInvalidSocket s) }
           else Some s);
     close_sessions js s }"

definition EncapsulationShutDown :: "stack \<Rightarrow> stack option" where
  "EncapsulationShutDown s = close_sessions [0..<OPENER_NUMBER_OF_SUPPORTED_SESSIONS] s"

definition CheckEncapsulationInactivity :: "socket_fd \<Rightarrow> stack \<Rightarrow> stack option" where
  "CheckEncapsulationInactivity socket_handle s =
     (if 0 < encapsulation_inactivity_timeout (g_tcpip s)
      then (case SocketTimerArrayGetSocketTimer (g_timestamps s) socket_handle of
              None \<Rightarrow> Some s
            | Some i \<Rightarrow>
                let diff_milliseconds = g_actual_time s - SocketTimerGetLastUpdate (g_timestamps s ! i)
                in if diff_milliseconds \<ge> 1000 * ucast (encapsulation_inactivity_timeout (g_tcpip s))
                   then do {
                     let h = GetSessionFromSocket socket_handle s;
                     s \<leftarrow> CloseClass3ConnectionBasedOnSession h s;
                     s \<leftarrow> CloseTcpSocket socket_handle s;
                     RemoveSession socket_handle s }
                   else Some s)
      else Some s)"

section \<open>Time-outs of connections\<close>

definition CheckForTimedOutConnectionsAndCloseTCPConnections ::
    "conn_ref \<Rightarrow> (conn_ref \<Rightarrow> stack \<Rightarrow> stack option) \<Rightarrow> stack \<Rightarrow> stack option" where
  "CheckForTimedOutConnectionsAndCloseTCPConnections c CloseSessions s =
     (if \<exists>d \<in> set (connection_list s). ConnectionObjectEqualOriginator (conn s c) (conn s d) \<and> c \<noteq> d
           \<and> kConnectionObjectStateTimedOut \<noteq> ConnectionObjectGetState (conn s d)
      then Some s else CloseSessions c s)"

definition Class3ConnectionTimeoutHandler :: "conn_ref \<Rightarrow> stack \<Rightarrow> stack option" where
  "Class3ConnectionTimeoutHandler c s = do {
     s \<leftarrow> CheckForTimedOutConnectionsAndCloseTCPConnections c CloseSessionBySessionHandle s;
     CloseConnection c s }"

definition HandleIoConnectionTimeOut ::
    "(socket_fd \<Rightarrow> u32) \<Rightarrow> conn_ref \<Rightarrow> stack \<Rightarrow> stack option" where
  "HandleIoConnectionTimeOut peer c s = do {
     let t = ConnectionObjectGetInstanceType (conn s c);
     let conn_type = ConnectionObjectGetTToOConnectionType (conn s c);
     let s = emit (CheckIoConnectionEvent (epath_instance_id (consumed_path (conn s c)))
               (epath_instance_id (produced_path (conn s c))) kIoConnectionEventTimedOut) s;
     x \<leftarrow> ConnectionObjectSetState kConnectionObjectStateTimedOut (conn s c);
     let s = set_conn c x s;
     s \<leftarrow> (if last_package_watchdog_timer (conn s c) = inactivity_watchdog_timer (conn s c)
           then CheckForTimedOutConnectionsAndCloseTCPConnections c
                  (CloseEncapsulationSessionBySockAddr peer) s
           else Some s);
     (handover, s) \<leftarrow>
       (if (t = kConnectionObjectInstanceTypeIOExclusiveOwner \<or> t = kConnectionObjectInstanceTypeIOInputOnly)
           \<and> kConnectionObjectConnectionTypeMulticast = conn_type
           \<and> kEipInvalidSocket \<noteq> socket_producing (conn s c)
        then let (transferred, s) = transfer_master_connection c s
             in if transferred then Some (True, s)
                else do {
                  s \<leftarrow> CloseAllConnectionsForInputWithSameType
                        (ucast (epath_instance_id (produced_path (conn s c))))
                        kConnectionObjectInstanceTypeIOListenOnly s;
                  Some (False, s) }
        else Some (False, s));
     s \<leftarrow> (if t = kConnectionObjectInstanceTypeIOExclusiveOwner \<and> \<not> handover
           then do {
             s \<leftarrow> CloseAllConnectionsForInputWithSameType
                   (ucast (epath_instance_id (produced_path (conn s c))))
                   kConnectionObjectInstanceTypeIOInputOnly s;
             CloseAllConnectionsForInputWithSameType
                   (ucast (epath_instance_id (produced_path (conn s c))))
                   kConnectionObjectInstanceTypeIOListenOnly s }
           else Some s);
     x \<leftarrow> ConnectionObjectSetState kConnectionObjectStateTimedOut (conn s c);
     Some (set_conn c x s) }"

definition call_timeout_function :: "(socket_fd \<Rightarrow> u32) \<Rightarrow> conn_ref \<Rightarrow> stack \<Rightarrow> stack option" where
  "call_timeout_function peer c s =
     (case connection_timeout_function (conn s c) of
        None \<Rightarrow> None
      | Some Class3ConnectionTimeoutHandler_fn \<Rightarrow> Class3ConnectionTimeoutHandler c s
      | Some HandleIoConnectionTimeOut_fn \<Rightarrow> HandleIoConnectionTimeOut peer c s)"

section \<open>Lemmas and properties\<close>

lemma session_search_Some_iff:
  "session_search k f gs = Some j
   \<longleftrightarrow> (\<exists>i < length gs. j = k + i \<and> gs ! i = f \<and> (\<forall>l < i. gs ! l \<noteq> f))"
proof (induction gs arbitrary: k)
  case (Cons g gs)
  show ?case
  proof (cases "g = f")
    case True
    then show ?thesis
      by (auto simp: less_Suc_eq_0_disj nth_Cons')
  next
    case False
    then show ?thesis
      by (force simp: Cons less_Suc_eq_0_disj All_less_Suc2)
  qed
qed simp

lemma session_search_None_iff: "session_search k f gs = None \<longleftrightarrow> f \<notin> set gs"
  by (induction gs arbitrary: k) auto

section \<open>The class 3 connections of a session\<close>

lemma close_class3_search:
  assumes "connection_list s = pre @ rest" and "distinct (pre @ rest)" and "length rest \<le> n"
    and "\<And>c t. close_function c s = Some t \<Longrightarrow> c \<in> set rest \<Longrightarrow> belongs_to_session h (conn s c)
       \<Longrightarrow> c \<notin> set (connection_list t)"
  shows "close_class3 n h (case rest of [] \<Rightarrow> None | c # _ \<Rightarrow> Some c) s =
    (case find_connection (belongs_to_session h) (conn s) rest of
       None \<Rightarrow> Some s | Some c \<Rightarrow> close_function c s)"
  using assms
proof (induction rest arbitrary: n pre)
  case Nil
  then show ?case
    by simp
next
  case (Cons c rest)
  obtain m where n: "n = Suc m" "length rest \<le> m"
    using Cons.prems(3) by (cases n) auto
  have data: "node_data c s = Some c"
    using Cons.prems(1) by (simp add: node_data_def)
  have node: "next_node c s = (case rest of [] \<Rightarrow> None | c # _ \<Rightarrow> Some c)"
    using Cons.prems(1,2) by (simp add: next_node_def successor_append)
  show ?case
  proof (cases "belongs_to_session h (conn s c)")
    case True
    have "next_node c t = None" if "close_function c s = Some t" for t
      using Cons.prems(4) [OF that] True by (simp add: next_node_def successor_notin)
    then show ?thesis
      using True by (auto simp: n data bind_eq_None_conv split: Option.bind_split)
  next
    case False
    then show ?thesis
      using Cons.IH [of "pre @ [c]" m] Cons.prems n by (simp add: data node)
  qed
qed


lemma find_connection_set_session [simp]:
  "find_connection P (conn (set_session i f s)) cs = find_connection P (conn s) cs"
  by simp

lemma CloseClass3_eq:
  assumes "connections_wf s"
  shows "CloseClass3ConnectionBasedOnSession h s =
    (case find_connection (belongs_to_session h) (conn s) (connection_list s) of
       None \<Rightarrow> Some s | Some c \<Rightarrow> close_function c s)"
  using close_class3_search [of s "[]" "connection_list s" "length (connection_list s)" h]
    close_function_shrinks [OF assms] assms
  by (fastforce simp: CloseClass3ConnectionBasedOnSession_def head_node_def connections_wf_def)

lemma CloseClass3_shrinks:
  assumes "connections_wf s"
  shows "\<exists>s'. CloseClass3ConnectionBasedOnSession h s = Some s' \<and> shrinks s s' \<and> same_sessions s s'"
  using close_function_shrinks [OF assms] find_connection_Some
  unfolding CloseClass3_eq [OF assms] by (fastforce split: option.split)

lemma CloseClass3_only_closes:
  "connections_wf s \<Longrightarrow> CloseClass3ConnectionBasedOnSession h s = Some s' \<Longrightarrow> only_closes s s'"
  by (auto simp: CloseClass3_eq split: option.splits dest: close_function_only_closes)

lemma connections_wf_cong:
  "connection_list s' = connection_list s \<Longrightarrow> conn s' = conn s \<Longrightarrow> connections_wf s' = connections_wf s"
  by (simp add: connections_wf_def)

lemma shrinks_cong:
  "connection_list s' = connection_list s \<Longrightarrow> conn s' = conn s
   \<Longrightarrow> g_exlusive_owner_connections s' = g_exlusive_owner_connections s \<Longrightarrow> shrinks s' t = shrinks s t"
  by (simp add: shrinks_def)

lemma RemoveSession_spec:
  assumes "connections_wf s"
  shows "\<exists>s'. RemoveSession f s = Some s' \<and> shrinks s s' \<and> g_timestamps s' = g_timestamps s
    \<and> g_actual_time s' = g_actual_time s \<and> g_tcpip s' = g_tcpip s
    \<and> g_registered_sessions s' = (case session_search 0 f (g_registered_sessions s) of
         None \<Rightarrow> g_registered_sessions s | Some i \<Rightarrow> (g_registered_sessions s)[i := kEipInvalidSocket])"
proof (cases "session_search 0 f (g_registered_sessions s)")
  case (Some i)
  have "connections_wf (set_session i kEipInvalidSocket s)"
    using assms by (simp add: connections_wf_def)
  from CloseClass3_shrinks [OF this, of "of_nat i + 1"] show ?thesis
    using Some by (auto simp: RemoveSession_def same_sessions_def shrinks_def)
qed (simp add: RemoveSession_def)


lemma CloseSession_spec:
  assumes "connections_wf s" and "f \<noteq> kEipInvalidSocket"
  shows "\<exists>s'. CloseSession f s = Some s' \<and> shrinks s s'
    \<and> length (g_registered_sessions s') = length (g_registered_sessions s)"
proof (cases "session_search 0 f (g_registered_sessions s)")
  case (Some i)
  obtain t where t: "CloseTcpSocket f s = Some t"
    using assms(2) by (simp add: CloseTcpSocket_valid)
  note same = CloseTcpSocket_Some [OF t]
  have "connections_wf (set_session i kEipInvalidSocket t)"
    using assms(1) same by (simp add: connections_wf_def)
  from CloseClass3_shrinks [OF this, of "of_nat i + 1"] show ?thesis
    using Some t same by (auto simp: CloseSession_def same_sessions_def shrinks_def)
qed (simp add: CloseSession_def)

lemma close_sessions_of_peer_spec:
  assumes "connections_wf s" and "\<forall>i \<in> set js. i < length (g_registered_sessions s)"
  shows "\<exists>s'. close_sessions_of_peer peer c js s = Some s' \<and> shrinks s s'"
  using assms
proof (induction js arbitrary: s)
  case (Cons i js)
  let ?f = "g_registered_sessions s ! i"
  show ?case
  proof (cases "kEipInvalidSocket \<noteq> ?f \<and> peer ?f = s_addr (originator_address (conn s c))")
    case True
    then obtain t where t: "CloseSession ?f s = Some t" "shrinks s t"
      "length (g_registered_sessions t) = length (g_registered_sessions s)"
      using CloseSession_spec [of s ?f] Cons.prems(1) by auto
    then obtain u where "close_sessions_of_peer peer c js t = Some u" "shrinks t u"
      using Cons.IH [of t] Cons.prems shrinks_wf by fastforce
    then show ?thesis
      using t True shrinks_trans by (auto simp: Let_def)
  next
    case False
    then show ?thesis
      using Cons by (auto simp: Let_def)
  qed
qed simp

lemma CloseEncapsulationSessionBySockAddr_spec:
  assumes "connections_wf s"
    and "length (g_registered_sessions s) = OPENER_NUMBER_OF_SUPPORTED_SESSIONS"
  shows "\<exists>s'. CloseEncapsulationSessionBySockAddr peer c s = Some s' \<and> shrinks s s'"
  using close_sessions_of_peer_spec [OF assms(1)] assms(2)
  by (simp add: CloseEncapsulationSessionBySockAddr_def)

text \<open>Only the first class 3 connection of a session is closed with the session: the loop reads
  the link of the node it has just given back, which is null, and stops.\<close>

theorem class3_close_stops_at_first:
  assumes "connections_wf s"
    and "find_connection (belongs_to_session h) (conn s) (connection_list s) = Some c"
    and "connection_close_function (conn s c) = Some CloseConnection_fn"
  shows "\<exists>s'. CloseClass3ConnectionBasedOnSession h s = Some s'
    \<and> connection_list s' = remove1 c (connection_list s) \<and> (\<forall>d. d \<noteq> c \<longrightarrow> conn s' d = conn s d)"
proof -
  have d: "distinct (connection_list s)"
    using assms(1) by (simp add: connections_wf_def)
  then show ?thesis
    using CloseConnection_removed [OF d, of c] assms(3)
    unfolding CloseClass3_eq [OF assms(1)] assms(2)
    by (auto simp: close_function_def call_close_function_def removed_def distinct_remove1_removeAll
        removeAll_filter_not_eq)
qed

definition class3_connection :: "u32 \<Rightarrow> CipConnectionObject" where
  "class3_connection h = zero_connection_object
     \<lparr>state := 3, transport_class_trigger := 0xA3, associated_encapsulation_session := h,
      connection_close_function := Some CloseConnection_fn\<rparr>"

definition class3_stack :: stack where
  "class3_stack = initial_stack
     \<lparr>connection_list := [explicit_connection_object_pool_ref 1, explicit_connection_object_pool_ref 0],
      conn := (\<lambda>c. class3_connection 1),
      g_registered_sessions := [5, 6] @ replicate 18 kEipInvalidSocket,
      g_timestamps := \<lparr>socket = 6, last_update = 0\<rparr> # replicate 19 \<lparr>socket = kEipInvalidSocket, last_update = 0\<rparr>,
      g_actual_time := 120000\<rparr>"

lemma class3_stack_simps [simp]:
  "connection_list class3_stack = [explicit_connection_object_pool_ref 1, explicit_connection_object_pool_ref 0]"
  "conn class3_stack c = class3_connection 1"
  "connections_wf class3_stack"
  "belongs_to_session 1 (class3_connection 1)"
  "connection_close_function (class3_connection 1) = Some CloseConnection_fn"
  by (simp_all add: class3_stack_def connections_wf_def class3_connection_def belongs_to_session_def
      zero_connection_object_def ConnectionObjectGetTransportClassTriggerTransportClass_def)

theorem class3_close_stops_at_first_witness:
  "\<exists>s'. CloseClass3ConnectionBasedOnSession 1 class3_stack = Some s'
    \<and> connection_list s' = [explicit_connection_object_pool_ref 0]
    \<and> belongs_to_session 1 (conn s' (explicit_connection_object_pool_ref 0))"
  using class3_close_stops_at_first [of class3_stack 1 "explicit_connection_object_pool_ref 1"]
  by auto

text \<open>C28: the inactivity check of a socket ends its session and clears its time stamps, but it hands
  the index of the session where the handle, the index plus one, is expected, so it also closes a class 3
  connection of the session before, whose socket stays open.\<close>

theorem inactivity_check_closes_neighbour:
  assumes "connections_wf s" and "f \<noteq> kEipInvalidSocket"
    and "session_search 0 f (g_registered_sessions s) = Some j"
    and "SocketTimerArrayGetSocketTimer (g_timestamps s) f = Some i"
    and "0 < encapsulation_inactivity_timeout (g_tcpip s)"
    and "1000 * ucast (encapsulation_inactivity_timeout (g_tcpip s))
         \<le> g_actual_time s - last_update (g_timestamps s ! i)"
    and "find_connection (belongs_to_session (of_nat j)) (conn s) (connection_list s) = Some c"
  shows "\<exists>s'. CheckEncapsulationInactivity f s = Some s' \<and> c \<notin> set (connection_list s')
    \<and> g_registered_sessions s' = (g_registered_sessions s)[j := kEipInvalidSocket]
    \<and> g_timestamps s' = cleared f (g_timestamps s)"
proof -
  have c: "c \<in> set (connection_list s)"
    using find_connection_Some [OF assms(7)] by simp
  have h: "GetSessionFromSocket f s = of_nat j"
    using assms(3) by (simp add: GetSessionFromSocket_def)
  obtain t where t: "close_function c s = Some t" "shrinks s t" "c \<notin> set (connection_list t)"
    "same_sessions s t"
    using close_function_shrinks [OF assms(1) c] by blast
  have t': "CloseClass3ConnectionBasedOnSession (of_nat j) s = Some t"
    using t(1) assms(7) by (simp add: CloseClass3_eq [OF assms(1)])
  obtain u where u: "CloseTcpSocket f t = Some u" and ts: "g_timestamps u = cleared f (g_timestamps s)"
    using t(4) assms(2) by (simp add: CloseTcpSocket_valid CloseSocket_def same_sessions_def)
  note same = CloseTcpSocket_Some [OF u]
  have "connections_wf u"
    using shrinks_wf [OF t(2) assms(1)] same by (simp add: connections_wf_def)
  then obtain v where v: "RemoveSession f u = Some v" "shrinks u v" "g_timestamps v = g_timestamps u"
    "g_registered_sessions v = (g_registered_sessions s)[j := kEipInvalidSocket]"
    using RemoveSession_spec [of u f] assms(3) same(3) t(4) by (auto simp: same_sessions_def)
  moreover have "c \<notin> set (connection_list v)"
    using t(3) same(2) shrinks_subset [OF v(2)] by auto
  ultimately show ?thesis
    using assms(4,5,6) t' u ts h by (auto simp: CheckEncapsulationInactivity_def Let_def
        SocketTimerGetLastUpdate_def)
qed

theorem inactivity_check_closes_neighbour_witness:
  "\<exists>s'. CheckEncapsulationInactivity 6 class3_stack = Some s'
    \<and> explicit_connection_object_pool_ref 1 \<notin> set (connection_list s')
    \<and> g_registered_sessions s' ! 0 = 5"
proof -
  have e: "g_registered_sessions class3_stack = 5 # 6 # replicate 18 kEipInvalidSocket"
    "g_timestamps class3_stack = \<lparr>socket = 6, last_update = 0\<rparr>
       # replicate 19 \<lparr>socket = kEipInvalidSocket, last_update = 0\<rparr>"
    "g_actual_time class3_stack = 120000"
    "encapsulation_inactivity_timeout (g_tcpip class3_stack) = 120"
    by (simp_all add: class3_stack_def initial_tcpip_def initial_stack_def)
  have "\<exists>s'. CheckEncapsulationInactivity 6 class3_stack = Some s'
    \<and> explicit_connection_object_pool_ref 1 \<notin> set (connection_list s')
    \<and> g_registered_sessions s' = (g_registered_sessions class3_stack)[1 := kEipInvalidSocket]
    \<and> g_timestamps s' = cleared 6 (g_timestamps class3_stack)"
    by (rule inactivity_check_closes_neighbour [where i = 0])
      (simp_all add: e kEipInvalidSocket_def SocketTimerArrayGetSocketTimer_def)
  then show ?thesis
    by (auto simp: e)
qed

definition timeout_stack :: stack where
  "timeout_stack = initial_stack
     \<lparr>connection_list := [input_only_ref 0 0, listen_only_ref 0 0, exlusive_owner_ref 0],
      conn := (conn initial_stack)
        (exlusive_owner_ref 0 := example_connection kConnectionObjectInstanceTypeIOExclusiveOwner 0x4000 5,
         listen_only_ref 0 0 := example_connection kConnectionObjectInstanceTypeIOListenOnly 0x4000 6,
         input_only_ref 0 0 := example_connection kConnectionObjectInstanceTypeIOInputOnly 0x2000 7)\<rparr>"

text \<open>An example: when an exclusive owner that produces point to point times out, every input only connection
  of its input is closed; if that takes a listen only connection along whose node comes next in the list,
  the loop goes on with the node it remembered, which is given back by then, and reads through its null
  data pointer.  With the two connections in the other order the same time-out is handled.\<close>

lemma timeout_reads_removed_node:
  "HandleIoConnectionTimeOut (\<lambda>_. 0) (exlusive_owner_ref 0) timeout_stack = None
   \<and> HandleIoConnectionTimeOut (\<lambda>_. 0) (exlusive_owner_ref 0) (timeout_stack
       \<lparr>connection_list := [listen_only_ref 0 0, input_only_ref 0 0, exlusive_owner_ref 0]\<rparr>) \<noteq> None"
proof
  show "HandleIoConnectionTimeOut (\<lambda>_. 0) (exlusive_owner_ref 0) timeout_stack = None"
    by code_simp
  show "HandleIoConnectionTimeOut (\<lambda>_. 0) (exlusive_owner_ref 0) (timeout_stack
       \<lparr>connection_list := [listen_only_ref 0 0, input_only_ref 0 0, exlusive_owner_ref 0]\<rparr>) \<noteq> None"
    by code_simp
qed

end
