(* ===== verification/Cpf_Notify.thy ===== *)
theory Cpf_Notify
  imports Encap_Header Msg_Router Sessions
begin

text \<open>
  The two entry points of the common packet format (\<^verbatim>\<open>NotifyCommonPacketFormat\<close> and
  \<^verbatim>\<open>NotifyConnectedCommonPacketFormat\<close> of \<^verbatim>\<open>enet_encap/cpf.c\<close>): an unconnected request is routed
  and answered, a connected one is first matched with its connection and its sequence count, and a
  repeated sequence count is answered with the reply that was sent before.

  \<open>e\<close> is the byte order of the platform and \<open>classes\<close> the classes registered with the message router.
\<close>

type_synonym stack_class = "(sockaddr_in, stack) CipClass"

definition set_cpf :: "CipCommonPacketFormatData \<Rightarrow> stack \<Rightarrow> stack" where
  "set_cpf c s = s\<lparr>g_common_packet_format_data_item := c\<rparr>"

lemma set_cpf_other [simp]:
  "conn (set_cpf c s) = conn s"
  "connection_list (set_cpf c s) = connection_list s"
  "g_registered_sessions (set_cpf c s) = g_registered_sessions s"
  "g_timestamps (set_cpf c s) = g_timestamps s"
  "g_common_packet_format_data_item (set_cpf c s) = c"
  by (simp_all add: set_cpf_def)

text \<open>The reply is assembled behind the place of the header, and the header is written in front of it
  with the length of what was assembled.\<close>

definition assemble_reply ::
    "OpenerEndianess \<Rightarrow> EncapsulationData \<Rightarrow> CipMessageRouterResponse \<Rightarrow> stack \<Rightarrow> ENIPMessage
     \<Rightarrow> ENIPMessage option" where
  "assemble_reply e received_data r s m = do {
     let m = SkipEncapsulationHeader m;
     let c = g_common_packet_format_data_item s;
     (status, m) \<leftarrow> AssembleLinearMessage e c (Some r) c m;
     let position = current_message_position m;
     let m = m\<lparr>current_message_position := 0\<rparr>;
     let m = GenerateEncapsulationHeader received_data (used_message_length m)
               (session_handle received_data) kEncapsulationProtocolSuccess m;
     Some (m\<lparr>current_message_position := position\<rparr>) }"

definition NotifyCommonPacketFormat ::
    "OpenerEndianess \<Rightarrow> stack_class list \<Rightarrow> EncapsulationData \<Rightarrow> sockaddr_in \<Rightarrow> ENIPMessage \<Rightarrow> stack
     \<Rightarrow> (EipStatus \<times> ENIPMessage \<times> stack) option" where
  "NotifyCommonPacketFormat e classes received_data originator m s = do {
     (status, c) \<leftarrow> CreateCommonPacketFormatStructure (current_communication_buffer_position received_data)
        (unat (encap_data_length received_data)) (g_common_packet_format_data_item s);
     let s = set_cpf c s;
     if status = kEipStatusError then Some (kEipStatusError, m, s)
     else if address_type_id (address_item c) = kCipItemIdNullAddress
     then if data_type_id (data_item c) = kCipItemIdUnconnectedDataItem
       then do {
         (status, r, s) \<leftarrow> NotifyMessageRouter classes (item_octets (data_item c))
            (uint (data_length (data_item c))) InitializeMessageRouterResponse originator
            (session_handle received_data) s;
         if status \<noteq> kEipStatusError
         then do {
           m \<leftarrow> assemble_reply e received_data r s m;
           Some (kEipStatusOkSend, m, s) }
         else Some (status, m, s) }
       else Some (kEipStatusOkSend, GenerateEncapsulationHeader received_data 0
              (session_handle received_data) kEncapsulationProtocolIncorrectData m, s)
     else Some (kEipStatusOkSend, GenerateEncapsulationHeader received_data 0
              (session_handle received_data) kEncapsulationProtocolIncorrectData m, s) }"

text \<open>The status at the end of \<^verbatim>\<open>NotifyConnectedCommonPacketFormat\<close>, whatever happened before.\<close>

definition connected_status :: "ENIPMessage \<Rightarrow> EipStatus" where
  "connected_status m = (if used_message_length m \<noteq> 0 then kEipStatusOkSend else kEipStatusOk)"

text \<open>A repeated sequence count: the last reply with a new header.  The C code leaves the write pointer
  in the received data; nothing writes through it any more, and the model leaves it behind the header.\<close>

definition repeat_last_reply :: "EncapsulationData \<Rightarrow> ENIPMessage \<Rightarrow> ENIPMessage" where
  "repeat_last_reply received_data last_reply =
     (let m = last_reply\<lparr>current_message_position := 0,
                used_message_length := used_message_length last_reply
                  - of_nat ENCAPSULATION_HEADER_LENGTH\<rparr>
      in GenerateEncapsulationHeader received_data (used_message_length m)
           (session_handle received_data) kEncapsulationProtocolSuccess m)"

definition set_address_data :: "AddressData \<Rightarrow> CipCommonPacketFormatData \<Rightarrow> CipCommonPacketFormatData" where
  "set_address_data a c = c\<lparr>address_item := (address_item c)\<lparr>address_data := a\<rparr>\<rparr>"

definition NotifyConnectedCommonPacketFormat ::
    "OpenerEndianess \<Rightarrow> stack_class list \<Rightarrow> EncapsulationData \<Rightarrow> sockaddr_in \<Rightarrow> ENIPMessage \<Rightarrow> stack
     \<Rightarrow> (EipStatus \<times> ENIPMessage \<times> stack) option" where
  "NotifyConnectedCommonPacketFormat e classes received_data originator m s = do {
     (status, c) \<leftarrow> CreateCommonPacketFormatStructure (current_communication_buffer_position received_data)
        (unat (encap_data_length received_data)) (g_common_packet_format_data_item s);
     let s = set_cpf c s;
     if status = kEipStatusError \<or> address_type_id (address_item c) \<noteq> kCipItemIdConnectionAddress
     then Some (connected_status m, m, s)
     else (case GetConnectedObject (connection_identifier (address_data (address_item c))) s of
         None \<Rightarrow> Some (connected_status m, m, s)
       | Some k \<Rightarrow> do {
           x \<leftarrow> ConnectionObjectResetInactivityWatchdogTimerValue (conn s k);
           let s = set_conn k x s;
           if data_type_id (data_item c) \<noteq> kCipItemIdConnectedDataItem
           then Some (connected_status m, m, s)
           else do {
             (n, p) \<leftarrow> GetUintFromMessage (item_octets (data_item c));
             let c = set_address_data ((address_data (address_item c))\<lparr>sequence_number := ucast n\<rparr>) c;
             let s = set_cpf c s;
             if sequence_count_consuming (conn s k) = n
             then Some (kEipStatusOkSend, repeat_last_reply received_data (last_reply_sent (conn s k)), s)
             else do {
               let s = set_conn k ((conn s k)\<lparr>sequence_count_consuming := n\<rparr>) s;
               x \<leftarrow> ConnectionObjectResetInactivityWatchdogTimerValue (conn s k);
               let s = set_conn k x s;
               (status, r, s) \<leftarrow> NotifyMessageRouter classes p
                  (uint (data_length (data_item c)) - 2) InitializeMessageRouterResponse
                  originator (session_handle received_data) s;
               if status \<noteq> kEipStatusError
               then do {
                 let c = g_common_packet_format_data_item s;
                 let s = set_cpf (set_address_data ((address_data (address_item c))
                           \<lparr>connection_identifier := cip_produced_connection_id (conn s k)\<rparr>) c) s;
                 m \<leftarrow> assemble_reply e received_data r s m;
                 let s = set_conn k ((conn s k)\<lparr>last_reply_sent := m\<rparr>) s;
                 Some (connected_status m, m, s) }
               else Some (connected_status m, m, s) } } }) }"

end
