(* ===== verification/Encap.thy ===== *)
theory Encap
  imports Cpf_Notify
begin

text \<open>
  The encapsulation layer (\<^verbatim>\<open>enet_encap/encap.c\<close>): the commands received over TCP and over UDP,
  registration of sessions, and the delayed answers to a broadcast list identity request.  A handler
  takes the received packet, the message under construction and the state.  \<open>rand\<close> is the sequence of
  values \<^verbatim>\<open>rand()\<close> returns.
\<close>

section \<open>Constants\<close>

definition kSupportedProtocolVersion :: u16 where "kSupportedProtocolVersion = 1"
definition kEncapsulationHeaderOptionsFlag :: u32 where "kEncapsulationHeaderOptionsFlag = 0x00"
definition kListIdentityDefaultDelayTime :: u16 where "kListIdentityDefaultDelayTime = 2000"
definition kListIdentityMinimumDelayTime :: u16 where "kListIdentityMinimumDelayTime = 500"
definition kOpenerEthernetPort :: u16 where "kOpenerEthernetPort = 44818"

definition kEncapsulationCommandNoOperation :: u16 where "kEncapsulationCommandNoOperation = 0x0000"
definition kEncapsulationCommandListServices :: u16 where "kEncapsulationCommandListServices = 0x0004"
definition kEncapsulationCommandListIdentity :: u16 where "kEncapsulationCommandListIdentity = 0x0063"
definition kEncapsulationCommandListInterfaces :: u16 where "kEncapsulationCommandListInterfaces = 0x0064"
definition kEncapsulationCommandRegisterSession :: u16 where "kEncapsulationCommandRegisterSession = 0x0065"
definition kEncapsulationCommandUnregisterSession :: u16 where "kEncapsulationCommandUnregisterSession = 0x0066"
definition kEncapsulationCommandSendRequestReplyData :: u16 where "kEncapsulationCommandSendRequestReplyData = 0x006F"
definition kEncapsulationCommandSendUnitData :: u16 where "kEncapsulationCommandSendUnitData = 0x0070"

lemmas encap_commands = kEncapsulationCommandNoOperation_def kEncapsulationCommandListServices_def
  kEncapsulationCommandListIdentity_def kEncapsulationCommandListInterfaces_def
  kEncapsulationCommandRegisterSession_def kEncapsulationCommandUnregisterSession_def
  kEncapsulationCommandSendRequestReplyData_def kEncapsulationCommandSendUnitData_def

section \<open>Service information\<close>

text \<open>The structure \<^verbatim>\<open>EncapsulationInit\<close> fills; its length is that of the C structure.\<close>

record EncapsulationServiceInformation =
  type_code :: u16
  service_information_length :: u16
  encapsulation_protocol_version :: u16
  capability_flags :: u16
  name_of_service :: "u8 list"

definition g_service_information :: EncapsulationServiceInformation where
  "g_service_information = \<lparr>type_code = kCipItemIdListServiceResponse,
     service_information_length = 24, encapsulation_protocol_version = 1,
     capability_flags = 0x0020 OR 0x0100,
     name_of_service = [0x43, 0x6F, 0x6D, 0x6D, 0x75, 0x6E, 0x69, 0x63, 0x61, 0x74, 0x69, 0x6F, 0x6E,
        0x73, 0, 0]\<rparr>"

definition HandleReceivedListServicesCommand :: "EncapsulationData \<Rightarrow> ENIPMessage \<Rightarrow> ENIPMessage" where
  "HandleReceivedListServicesCommand receive_data m =
     (let i = g_service_information;
          m = GenerateEncapsulationHeader receive_data (2 + 24) 0 kEncapsulationProtocolSuccess m;
          m = AddIntToMessage 1 m;
          m = AddIntToMessage (type_code i) m;
          m = AddIntToMessage (service_information_length i - 4) m;
          m = AddIntToMessage (encapsulation_protocol_version i) m;
          m = AddIntToMessage (capability_flags i) m
      in append_octets (name_of_service i) m)"

definition HandleReceivedListInterfacesCommand :: "EncapsulationData \<Rightarrow> ENIPMessage \<Rightarrow> ENIPMessage" where
  "HandleReceivedListInterfacesCommand receive_data m =
     AddIntToMessage 0 (GenerateEncapsulationHeader receive_data 2 0 kEncapsulationProtocolSuccess m)"

section \<open>List identity\<close>

definition ListIdentityGetCipIdentityItemLength :: "CipIdentityObject \<Rightarrow> u16" where
  "ListIdentityGetCipIdentityItemLength i =
     of_nat (2 + 2 + 2 + 4 + 8 * 1 + 2 + 2 + 2 + 2 * 1 + 2 + 4 + 1 + length (identity_product_name i) + 1)"

definition EncodeListIdentityCipIdentityItem ::
    "OpenerEndianess \<Rightarrow> stack \<Rightarrow> ENIPMessage \<Rightarrow> ENIPMessage option" where
  "EncodeListIdentityCipIdentityItem e s m = do {
     let i = g_identity s;
     let m = AddIntToMessage 0x0C m;
     let m = AddIntToMessage (ListIdentityGetCipIdentityItemLength i) m;
     let m = AddIntToMessage kSupportedProtocolVersion m;
     m \<leftarrow> EncapsulateIpAddress e (htons e kOpenerEthernetPort) (interface_ip_address (interface_configuration (g_tcpip s))) m;
     let m = FillNextNMessageOctetsWithValueAndMoveToNextPosition 0 8 m;
     let m = AddIntToMessage (identity_vendor_id i) m;
     let m = AddIntToMessage (identity_device_type i) m;
     let m = AddIntToMessage (identity_product_code i) m;
     let m = AddSintToMessage (identity_major_revision i) m;
     let m = AddSintToMessage (identity_minor_revision i) m;
     let m = AddIntToMessage (identity_status i) m;
     let m = AddDintToMessage (identity_serial_number i) m;
     let m = AddSintToMessage (of_nat (length (identity_product_name i))) m;
     let m = append_octets (identity_product_name i) m;
     Some (AddSintToMessage (identity_state i) m) }"

definition EncapsulateListIdentityResponseMessage ::
    "OpenerEndianess \<Rightarrow> EncapsulationData \<Rightarrow> stack \<Rightarrow> ENIPMessage \<Rightarrow> ENIPMessage option" where
  "EncapsulateListIdentityResponseMessage e receive_data s m = do {
     let n = ListIdentityGetCipIdentityItemLength (g_identity s) + 2 + 2 + 2;
     let m = GenerateEncapsulationHeader receive_data (ucast n) 0 kEncapsulationProtocolSuccess m;
     let m = AddIntToMessage 1 m;
     EncodeListIdentityCipIdentityItem e s m }"

definition HandleReceivedListIdentityCommandTcp ::
    "OpenerEndianess \<Rightarrow> EncapsulationData \<Rightarrow> stack \<Rightarrow> ENIPMessage \<Rightarrow> ENIPMessage option" where
  "HandleReceivedListIdentityCommandTcp e receive_data s m =
     EncapsulateListIdentityResponseMessage e receive_data s m"

text \<open>The delay is a random number below a limit that the request states in its sender context.\<close>

definition maximum_delay_time :: "u16 \<Rightarrow> u16" where
  "maximum_delay_time t = (if t = 0 then kListIdentityDefaultDelayTime
     else if kListIdentityMinimumDelayTime > t then kListIdentityMinimumDelayTime else t)"

definition DetermineDelayTime :: "u32 \<Rightarrow> buf \<Rightarrow> u32 option" where
  "DetermineDelayTime random buffer_start = do {
     p \<leftarrow> skip 12 buffer_start;
     (t, p) \<leftarrow> GetUintFromMessage p;
     Some (random mod ucast (maximum_delay_time t)) }"

fun free_delayed_message :: "nat \<Rightarrow> DelayedEncapsulationMessage list \<Rightarrow> nat option" where
  "free_delayed_message i [] = None"
| "free_delayed_message i (d # ds) =
     (if kEipInvalidSocket = delayed_socket d then Some i else free_delayed_message (Suc i) ds)"

definition HandleReceivedListIdentityCommandUdp ::
    "(nat \<Rightarrow> u32) \<Rightarrow> OpenerEndianess \<Rightarrow> socket_fd \<Rightarrow> sockaddr_in \<Rightarrow> EncapsulationData \<Rightarrow> stack
     \<Rightarrow> stack option" where
  "HandleReceivedListIdentityCommandUdp rand e f from_address receive_data s =
     (case free_delayed_message 0 (g_delayed_encapsulation_messages s) of
        None \<Rightarrow> Some s
      | Some i \<Rightarrow> do {
          t \<leftarrow> DetermineDelayTime (rand (rand_index s)) (communication_buffer_start receive_data);
          m \<leftarrow> EncapsulateListIdentityResponseMessage e receive_data s InitializeENIPMessage;
          Some (s\<lparr>rand_index := Suc (rand_index s),
            g_delayed_encapsulation_messages := (g_delayed_encapsulation_messages s)
              [i := \<lparr>time_out = t, delayed_socket = f, receiver = from_address,
                     delayed_outgoing_message = m\<rparr>]\<rparr>) })"

text \<open>The time-out is a signed 32-bit integer from which an \<^verbatim>\<open>unsigned long\<close> is subtracted.\<close>

definition manage_delayed_message ::
    "MilliSeconds \<Rightarrow> DelayedEncapsulationMessage \<Rightarrow> DelayedEncapsulationMessage \<times> event list" where
  "manage_delayed_message elapsed_time d =
     (if kEipInvalidSocket \<noteq> delayed_socket d
      then let d = d\<lparr>time_out := time_out d - ucast elapsed_time\<rparr>
           in if sint (time_out d) \<le> 0
              then (d\<lparr>delayed_socket := kEipInvalidSocket\<rparr>,
                    [sendto_event (delayed_socket d) (payload (delayed_outgoing_message d)) (receiver d)])
              else (d, [])
      else (d, []))"

definition ManageEncapsulationMessages :: "MilliSeconds \<Rightarrow> stack \<Rightarrow> stack" where
  "ManageEncapsulationMessages elapsed_time s =
     (let r = map (manage_delayed_message elapsed_time) (g_delayed_encapsulation_messages s)
      in s\<lparr>g_delayed_encapsulation_messages := map fst r, trace := trace s @ concat (map snd r)\<rparr>)"

section \<open>Sessions\<close>

definition EncapsulateRegisterSessionCommandResponseMessage ::
    "EncapsulationData \<Rightarrow> u32 \<Rightarrow> u32 \<Rightarrow> ENIPMessage \<Rightarrow> ENIPMessage" where
  "EncapsulateRegisterSessionCommandResponseMessage receive_data h protocol_status m =
     AddIntToMessage 0 (AddIntToMessage 1 (GenerateEncapsulationHeader receive_data 4 h protocol_status m))"

text \<open>The time stamp of the session goes into a free entry of the table; if there were none, the
  search's null pointer would be written through.\<close>

definition HandleReceivedRegisterSessionCommand ::
    "socket_fd \<Rightarrow> EncapsulationData \<Rightarrow> ENIPMessage \<Rightarrow> stack \<Rightarrow> (ENIPMessage \<times> stack) option" where
  "HandleReceivedRegisterSessionCommand f receive_data m s = do {
     (protocol_version, p) \<leftarrow> GetUintFromMessage (current_communication_buffer_position receive_data);
     (option_flag, p) \<leftarrow> GetUintFromMessage p;
     (protocol_status, h, s) \<leftarrow>
       (if 0 < protocol_version \<and> protocol_version \<le> kSupportedProtocolVersion \<and> 0 = option_flag
        then (case session_search 0 f (g_registered_sessions s) of
            Some i \<Rightarrow> Some (kEncapsulationProtocolInvalidCommand, of_nat i + 1, s)
          | None \<Rightarrow> (case GetFreeSessionIndex s of
              None \<Rightarrow> Some (kEncapsulationProtocolInsufficientMemory, 0, s)
            | Some i \<Rightarrow> do {
                j \<leftarrow> SocketTimerArrayGetEmptySocketTimer (g_timestamps s);
                let t = SocketTimerSetLastUpdate (g_actual_time s)
                          (SocketTimerSetSocket f (g_timestamps s ! j));
                let s = s\<lparr>g_timestamps := (g_timestamps s)[j := t]\<rparr>;
                Some (kEncapsulationProtocolSuccess, of_nat i + 1, set_session i f s) }))
        else Some (kEncapsulationProtocolUnsupportedProtocol, 0, s));
     Some (EncapsulateRegisterSessionCommandResponseMessage receive_data h protocol_status m, s) }"

definition HandleReceivedUnregisterSessionCommand ::
    "EncapsulationData \<Rightarrow> ENIPMessage \<Rightarrow> stack \<Rightarrow> (EipStatus \<times> ENIPMessage \<times> stack) option" where
  "HandleReceivedUnregisterSessionCommand receive_data m s =
     (let h = session_handle receive_data; i = unat (h - 1)
      in if 0 < h \<and> h \<le> of_nat OPENER_NUMBER_OF_SUPPORTED_SESSIONS
            \<and> kEipInvalidSocket \<noteq> g_registered_sessions s ! i
         then do {
           s \<leftarrow> CloseTcpSocket (g_registered_sessions s ! i) s;
           s \<leftarrow> CloseClass3ConnectionBasedOnSession (of_nat i + 1) (set_session i kEipInvalidSocket s);
           Some (kEipStatusOk, m, s) }
         else Some (kEipStatusOkSend, GenerateEncapsulationHeader receive_data 0 h
                kEncapsulationProtocolInvalidSessionHandle m, s))"

text \<open>The common part of the two data commands; \<open>notify\<close> is the function the packet is handed to.\<close>

definition handle_data_command ::
    "(EncapsulationData \<Rightarrow> sockaddr_in \<Rightarrow> ENIPMessage \<Rightarrow> stack \<Rightarrow> (EipStatus \<times> ENIPMessage \<times> stack) option)
     \<Rightarrow> EncapsulationData \<Rightarrow> sockaddr_in \<Rightarrow> ENIPMessage \<Rightarrow> stack
     \<Rightarrow> (EipStatus \<times> ENIPMessage \<times> stack) option" where
  "handle_data_command notify receive_data originator m s =
     (if encap_data_length receive_data \<ge> 6
      then do {
        (v, p) \<leftarrow> GetDintFromMessage (current_communication_buffer_position receive_data);
        (w, p) \<leftarrow> GetIntFromMessage p;
        let receive_data = receive_data\<lparr>current_communication_buffer_position := p,
              encap_data_length := encap_data_length receive_data - 6\<rparr>;
        if CheckRegisteredSessions (session_handle receive_data) s
        then notify receive_data originator m s
        else Some (kEipStatusOkSend, GenerateEncapsulationHeader receive_data 0
               (session_handle receive_data) kEncapsulationProtocolInvalidSessionHandle
               InitializeENIPMessage, s) }
      else Some (kEipStatusOk, m, s))"

definition HandleReceivedSendUnitDataCommand ::
    "OpenerEndianess \<Rightarrow> stack_class list \<Rightarrow> EncapsulationData \<Rightarrow> sockaddr_in \<Rightarrow> ENIPMessage \<Rightarrow> stack
     \<Rightarrow> (EipStatus \<times> ENIPMessage \<times> stack) option" where
  "HandleReceivedSendUnitDataCommand e classes =
     handle_data_command (NotifyConnectedCommonPacketFormat e classes)"

definition HandleReceivedSendRequestResponseDataCommand ::
    "OpenerEndianess \<Rightarrow> stack_class list \<Rightarrow> EncapsulationData \<Rightarrow> sockaddr_in \<Rightarrow> ENIPMessage \<Rightarrow> stack
     \<Rightarrow> (EipStatus \<times> ENIPMessage \<times> stack) option" where
  "HandleReceivedSendRequestResponseDataCommand e classes =
     handle_data_command (NotifyCommonPacketFormat e classes)"

definition HandleReceivedInvalidCommand ::
    "EncapsulationData \<Rightarrow> ENIPMessage \<Rightarrow> EipStatus \<times> ENIPMessage" where
  "HandleReceivedInvalidCommand receive_data m = (kEipStatusOkSend,
     GenerateEncapsulationHeader receive_data 0 (session_handle receive_data)
       kEncapsulationProtocolInvalidCommand m)"

section \<open>A packet received\<close>

text \<open>The result: status, number of octets behind the packet, the message and the state.\<close>

definition HandleReceivedExplictTcpData ::
    "OpenerEndianess \<Rightarrow> stack_class list \<Rightarrow> socket_fd \<Rightarrow> buf \<Rightarrow> nat \<Rightarrow> sockaddr_in \<Rightarrow> ENIPMessage \<Rightarrow> stack
     \<Rightarrow> (EipStatus \<times> int \<times> ENIPMessage \<times> stack) option" where
  "HandleReceivedExplictTcpData e classes f buffer n originator m s = do {
     (remaining_bytes, d) \<leftarrow> CreateEncapsulationStructure buffer n;
     if remaining_bytes < 0 then Some (kEipStatusError, 0, m, s)
     else if kEncapsulationHeaderOptionsFlag \<noteq> options d
     then Some (kEipStatusOk, remaining_bytes, m, s)
     else do {
       let d = d\<lparr>encap_status := kEncapsulationProtocolSuccess\<rparr>;
       let c = command_code d;
       (st, m, s) \<leftarrow>
         (if c = kEncapsulationCommandNoOperation then Some (kEipStatusOk, m, s)
          else if c = kEncapsulationCommandListServices
          then Some (kEipStatusOkSend, HandleReceivedListServicesCommand d m, s)
          else if c = kEncapsulationCommandListIdentity
          then do { m \<leftarrow> HandleReceivedListIdentityCommandTcp e d s m; Some (kEipStatusOkSend, m, s) }
          else if c = kEncapsulationCommandListInterfaces
          then Some (kEipStatusOkSend, HandleReceivedListInterfacesCommand d m, s)
          else if c = kEncapsulationCommandRegisterSession
          then do { (m, s) \<leftarrow> HandleReceivedRegisterSessionCommand f d m s; Some (kEipStatusOkSend, m, s) }
          else if c = kEncapsulationCommandUnregisterSession
          then HandleReceivedUnregisterSessionCommand d m s
          else if c = kEncapsulationCommandSendRequestReplyData
          then HandleReceivedSendRequestResponseDataCommand e classes d originator m s
          else if c = kEncapsulationCommandSendUnitData
          then HandleReceivedSendUnitDataCommand e classes d originator m s
          else let (st, m) = HandleReceivedInvalidCommand d m in Some (st, m, s));
       Some (st, remaining_bytes, m, s) } }"

text \<open>Commands that are not for UDP leave the message empty, and an empty reply is sent.\<close>

definition HandleReceivedExplictUdpData ::
    "(nat \<Rightarrow> u32) \<Rightarrow> OpenerEndianess \<Rightarrow> socket_fd \<Rightarrow> sockaddr_in \<Rightarrow> buf \<Rightarrow> nat \<Rightarrow> bool \<Rightarrow> ENIPMessage \<Rightarrow> stack
     \<Rightarrow> (EipStatus \<times> int \<times> ENIPMessage \<times> stack) option" where
  "HandleReceivedExplictUdpData rand e f from_address buffer n unicast m s = do {
     (remaining_bytes, d) \<leftarrow> CreateEncapsulationStructure buffer n;
     if remaining_bytes < 0 then Some (kEipStatusError, 0, m, s)
     else if kEncapsulationHeaderOptionsFlag \<noteq> options d
     then Some (kEipStatusOk, remaining_bytes, m, s)
     else do {
       let d = d\<lparr>encap_status := kEncapsulationProtocolSuccess\<rparr>;
       let c = command_code d;
       (st, m, s) \<leftarrow>
         (if c = kEncapsulationCommandListServices
          then Some (kEipStatusOkSend, HandleReceivedListServicesCommand d m, s)
          else if c = kEncapsulationCommandListIdentity
          then if unicast
            then do { m \<leftarrow> HandleReceivedListIdentityCommandTcp e d s m; Some (kEipStatusOkSend, m, s) }
            else do { s \<leftarrow> HandleReceivedListIdentityCommandUdp rand e f from_address d s;
                      Some (kEipStatusOk, m, s) }
          else if c = kEncapsulationCommandListInterfaces
          then Some (kEipStatusOkSend, HandleReceivedListInterfacesCommand d m, s)
          else Some (kEipStatusOkSend, m, s));
       Some (st, remaining_bytes, m, s) } }"

section \<open>The table of sessions stays consistent\<close>

text \<open>The sockets of the sessions are distinct and every time stamp in use belongs to one of them.\<close>

definition sessions_wf :: "stack \<Rightarrow> bool" where
  "sessions_wf s \<longleftrightarrow> length (g_registered_sessions s) = OPENER_NUMBER_OF_SUPPORTED_SESSIONS
     \<and> length (g_timestamps s) = OPENER_NUMBER_OF_SUPPORTED_SESSIONS
     \<and> timers_wf (g_timestamps s)
     \<and> distinct (filter (\<lambda>f. f \<noteq> kEipInvalidSocket) (g_registered_sessions s))
     \<and> socket ` set (g_timestamps s) - {kEipInvalidSocket} \<subseteq> set (g_registered_sessions s)"

lemma free_timer_for_free_session:
  assumes "sessions_wf s" and "GetFreeSessionIndex s \<noteq> None"
  shows "SocketTimerArrayGetEmptySocketTimer (g_timestamps s) \<noteq> None"
proof
  assume "SocketTimerArrayGetEmptySocketTimer (g_timestamps s) = None"
  then have n: "kEipInvalidSocket \<notin> socket ` set (g_timestamps s)"
    by (simp add: SocketTimerArrayGetEmptySocketTimer_def GetSocketTimer_None_iff)
  let ?ts = "map socket (g_timestamps s)" and ?gs = "g_registered_sessions s"
  have "distinct ?ts"
    unfolding distinct_conv_nth
  proof (intro allI impI)
    fix i j assume ij: "i < length ?ts" "j < length ?ts" "i \<noteq> j"
    then have "socket (g_timestamps s ! i) \<noteq> kEipInvalidSocket"
      using n by (metis image_eqI length_map nth_mem)
    then show "?ts ! i \<noteq> ?ts ! j"
      using assms(1) ij by (auto simp: sessions_wf_def timers_wf_def)
  qed
  from distinct_card [OF this] have "card (set ?ts) = 20"
    using assms(1) by (simp add: sessions_wf_def OPENER_NUMBER_OF_SUPPORTED_SESSIONS_def)
  moreover have "socket ` set (g_timestamps s) \<subseteq> set ?gs"
    using assms(1) n by (simp add: sessions_wf_def)
  then have "set ?ts \<subseteq> set ?gs - {kEipInvalidSocket}"
    using n unfolding set_map by blast
  moreover have "card (set ?gs - {kEipInvalidSocket}) < card (set ?gs)"
    using assms(2) by (intro psubset_card_mono)
      (auto simp: GetFreeSessionIndex_def session_search_None_iff)
  moreover have "card (set ?gs) \<le> 20"
    using card_length [of ?gs] assms(1)
    by (simp add: sessions_wf_def OPENER_NUMBER_OF_SUPPORTED_SESSIONS_def)
  ultimately show False
    using card_mono [of "set ?gs - {kEipInvalidSocket}" "set ?ts"] by simp
qed

lemma filter_update_invalid:
  assumes "distinct (filter P xs)" and "i < length xs" and "\<not> P y"
  shows "distinct (filter P (xs[i := y]))" and "set (xs[i := y]) - {x. \<not> P x} = set xs - {xs ! i} - {x. \<not> P x}"
proof -
  have split: "xs = take i xs @ xs ! i # drop (Suc i) xs"
    using assms(2) by (rule id_take_nth_drop)
  have upd: "xs[i := y] = take i xs @ y # drop (Suc i) xs"
    using assms(2) by (rule upd_conv_take_nth_drop)
  have d: "distinct (filter P (take i xs @ xs ! i # drop (Suc i) xs))"
    using assms(1) split by simp
  show "distinct (filter P (xs[i := y]))"
    unfolding upd using d assms(3) by (auto split: if_splits)
  show "set (xs[i := y]) - {x. \<not> P x} = set xs - {xs ! i} - {x. \<not> P x}"
    unfolding upd arg_cong [OF split, of set] using d assms(3) by (auto split: if_splits)
qed

lemma sessions_wf_closed:
  assumes "sessions_wf s" and "i < 20" and "f = g_registered_sessions s ! i" and "f \<noteq> kEipInvalidSocket"
    and "g_registered_sessions s' = (g_registered_sessions s)[i := kEipInvalidSocket]"
    and "g_timestamps s' = cleared f (g_timestamps s)"
  shows "sessions_wf s'"
proof -
  let ?gs = "g_registered_sessions s"
  have i: "i < length ?gs"
    using assms(1,2) by (simp add: sessions_wf_def OPENER_NUMBER_OF_SUPPORTED_SESSIONS_def)
  have d: "distinct (filter (\<lambda>f. f \<noteq> kEipInvalidSocket) ?gs)"
    using assms(1) by (simp add: sessions_wf_def)
  have "set (?gs[i := kEipInvalidSocket]) - {kEipInvalidSocket} = set ?gs - {f, kEipInvalidSocket}"
    using filter_update_invalid(2) [OF d i, of kEipInvalidSocket] assms(3) by auto
  moreover have "socket ` set (cleared f (g_timestamps s)) - {kEipInvalidSocket}
      = socket ` set (g_timestamps s) - {f, kEipInvalidSocket}"
    by (rule sockets_cleared [OF assms(4)])
  ultimately show ?thesis
    using assms filter_update_invalid(1) [OF d i, of kEipInvalidSocket] timers_wf_cleared
    by (auto simp: sessions_wf_def cleared_def)
qed

lemma sessions_wf_opened:
  assumes "sessions_wf s" and "f \<noteq> kEipInvalidSocket" and "f \<notin> set (g_registered_sessions s)"
    and "i < 20" and "g_registered_sessions s ! i = kEipInvalidSocket"
    and "socket (g_timestamps s ! j) = kEipInvalidSocket" and "j < 20"
    and "g_registered_sessions s' = (g_registered_sessions s)[i := f]"
    and "g_timestamps s' = (g_timestamps s)[j := t]" and "socket t = f"
  shows "sessions_wf s'"
proof -
  let ?gs = "g_registered_sessions s" and ?ts = "g_timestamps s"
  have i: "i < length ?gs" and j: "j < length ?ts"
    using assms(1,4,7) by (simp_all add: sessions_wf_def OPENER_NUMBER_OF_SUPPORTED_SESSIONS_def)
  have split: "?gs = take i ?gs @ kEipInvalidSocket # drop (Suc i) ?gs"
    using id_take_nth_drop [OF i] assms(5) by simp
  have upd: "?gs[i := f] = take i ?gs @ f # drop (Suc i) ?gs"
    using i by (rule upd_conv_take_nth_drop)
  have d: "distinct (filter (\<lambda>f. f \<noteq> kEipInvalidSocket) (take i ?gs @ kEipInvalidSocket # drop (Suc i) ?gs))"
    using assms(1) split by (simp add: sessions_wf_def)
  have fn: "f \<notin> set (take i ?gs)" "f \<notin> set (drop (Suc i) ?gs)"
    using assms(3) by (auto dest: in_set_takeD in_set_dropD)
  have "distinct (filter (\<lambda>f. f \<noteq> kEipInvalidSocket) (?gs[i := f]))"
    unfolding upd using d fn assms(2) by auto
  moreover have sub: "set ?gs - {kEipInvalidSocket} \<union> {f} \<subseteq> set (?gs[i := f])"
    unfolding upd by (subst (1) split) auto
  moreover have "f \<notin> socket ` set ?ts"
    using assms(1-3) by (auto simp: sessions_wf_def)
  then have "timers_wf (?ts[j := t])"
    using assms(1,10) by (intro timers_wf_update) (auto simp: sessions_wf_def)
  moreover have "socket ` set (?ts[j := t]) - {kEipInvalidSocket} \<subseteq> set (?gs[i := f])"
  proof
    fix g assume g: "g \<in> socket ` set (?ts[j := t]) - {kEipInvalidSocket}"
    then have "g = f \<or> g \<in> socket ` set ?ts - {kEipInvalidSocket}"
      using set_update_subset_insert [of ?ts j t] assms(10) by auto
    then show "g \<in> set (?gs[i := f])"
      using assms(1) sub by (auto simp: sessions_wf_def)
  qed
  ultimately show ?thesis
    using assms by (auto simp: sessions_wf_def)
qed


lemma CloseTcpSocket_session:
  assumes "CloseTcpSocket f s = Some t" and "f \<noteq> kEipInvalidSocket"
  shows "g_timestamps t = cleared f (g_timestamps s)"
  using assms by (auto simp: CloseTcpSocket_valid CloseSocket_def)

text \<open>The handle of a slot is its index plus one.\<close>

lemma slot_handle:
  assumes "i < 20"
  shows "unat (of_nat i + 1 - 1 :: u32) = i" and "0 < (of_nat i + 1 :: u32)"
    and "(of_nat i + 1 :: u32) \<le> of_nat OPENER_NUMBER_OF_SUPPORTED_SESSIONS"
proof -
  show "unat (of_nat i + 1 - 1 :: u32) = i"
    using assms by (simp add: unat_of_nat)
  have "of_nat i + 1 = (of_nat (i + 1) :: u32)"
    by simp
  then have "unat (of_nat i + 1 :: u32) = i + 1"
    using assms by (simp only: unat_of_nat) simp
  then show "0 < (of_nat i + 1 :: u32)" "(of_nat i + 1 :: u32) \<le> of_nat OPENER_NUMBER_OF_SUPPORTED_SESSIONS"
    using assms by (simp_all add: word_less_nat_alt word_le_nat_alt OPENER_NUMBER_OF_SUPPORTED_SESSIONS_def)
qed

text \<open>The command after the request was read.\<close>

lemma register_session_run:
  assumes "current_communication_buffer_position d = le16 version @ le16 flags @ rest"
  shows "HandleReceivedRegisterSessionCommand f d m s = do {
     (protocol_status, h, s) \<leftarrow>
       (if version = 1 \<and> flags = 0
        then (case session_search 0 f (g_registered_sessions s) of
            Some i \<Rightarrow> Some (kEncapsulationProtocolInvalidCommand, of_nat i + 1, s)
          | None \<Rightarrow> (case GetFreeSessionIndex s of
              None \<Rightarrow> Some (kEncapsulationProtocolInsufficientMemory, 0, s)
            | Some i \<Rightarrow> do {
                j \<leftarrow> SocketTimerArrayGetEmptySocketTimer (g_timestamps s);
                let t = SocketTimerSetLastUpdate (g_actual_time s)
                          (SocketTimerSetSocket f (g_timestamps s ! j));
                let s = s\<lparr>g_timestamps := (g_timestamps s)[j := t]\<rparr>;
                Some (kEncapsulationProtocolSuccess, of_nat i + 1, set_session i f s) }))
        else Some (kEncapsulationProtocolUnsupportedProtocol, 0, s));
     Some (EncapsulateRegisterSessionCommandResponseMessage d h protocol_status m, s) }"
proof -
  have v: "0 < version \<and> version \<le> kSupportedProtocolVersion \<and> 0 = flags \<longleftrightarrow> version = 1 \<and> flags = 0"
    by (auto simp: kSupportedProtocolVersion_def word_le_nat_alt word_less_nat_alt word_unat_eq_iff)
  show ?thesis
    unfolding HandleReceivedRegisterSessionCommand_def assms v [symmetric] by simp
qed

text \<open>The case in which a session is opened.\<close>

lemma register_session_opened:
  assumes "sessions_wf s" and "f \<noteq> kEipInvalidSocket" and "f \<notin> set (g_registered_sessions s)"
    and "GetFreeSessionIndex s = Some i" and "current_communication_buffer_position d = le16 1 @ le16 0 @ rest"
  shows "kEipInvalidSocket \<in> set (g_registered_sessions s) \<and> (\<exists>s'. HandleReceivedRegisterSessionCommand f d m s =
      Some (EncapsulateRegisterSessionCommandResponseMessage d (of_nat i + 1) kEncapsulationProtocolSuccess m, s')
    \<and> sessions_wf s' \<and> CheckRegisteredSessions (of_nat i + 1) s' \<and> \<not> CheckRegisteredSessions (of_nat i + 1) s
    \<and> g_registered_sessions s' = (g_registered_sessions s)[unat (of_nat i + 1 - 1 :: u32) := f])"
proof -
  let ?gs = "g_registered_sessions s"
  have len: "length ?gs = 20" "length (g_timestamps s) = 20"
    using assms(1) by (simp_all add: sessions_wf_def OPENER_NUMBER_OF_SUPPORTED_SESSIONS_def)
  have i: "i < 20" "?gs ! i = kEipInvalidSocket"
    using assms(4) len by (auto simp: GetFreeSessionIndex_def session_search_Some_iff)
  then have inv: "kEipInvalidSocket \<in> set ?gs"
    using len nth_mem by metis
  obtain j where j: "SocketTimerArrayGetEmptySocketTimer (g_timestamps s) = Some j"
    using free_timer_for_free_session [OF assms(1)] assms(4) by auto
  then have j': "j < 20" "socket (g_timestamps s ! j) = kEipInvalidSocket"
    using len by (simp_all add: SocketTimerArrayGetEmptySocketTimer_def GetSocketTimer_Some_iff)
  define t where "t = SocketTimerSetLastUpdate (g_actual_time s) (SocketTimerSetSocket f (g_timestamps s ! j))"
  define s' where "s' = set_session i f (s\<lparr>g_timestamps := (g_timestamps s)[j := t]\<rparr>)"
  have s': "g_registered_sessions s' = ?gs[i := f]" "g_timestamps s' = (g_timestamps s)[j := t]"
    by (simp_all add: s'_def)
  have "session_search 0 f ?gs = None"
    using assms(3) by (simp add: session_search_None_iff)
  then have run: "HandleReceivedRegisterSessionCommand f d m s =
      Some (EncapsulateRegisterSessionCommandResponseMessage d (of_nat i + 1) kEncapsulationProtocolSuccess m, s')"
    using assms(4) j by (simp add: register_session_run [OF assms(5)] t_def s'_def Let_def)
  have "sessions_wf s'"
    by (rule sessions_wf_opened [OF assms(1,2,3) i j'(2,1) s'])
      (simp add: t_def SocketTimerSetLastUpdate_def SocketTimerSetSocket_def)
  moreover have "CheckRegisteredSessions (of_nat i + 1) s'" "\<not> CheckRegisteredSessions (of_nat i + 1) s"
    unfolding CheckRegisteredSessions_def slot_handle(1) [OF i(1)] s' using slot_handle(2,3) [OF i(1)] i len assms(2) by simp_all
  ultimately show ?thesis
    using inv run s'(1) slot_handle(1) [OF i(1)] by auto
qed

text \<open>C23: a register session request is always answered.  With the supported version on a socket that
  has no session and with a free slot the reply carries the handle of a slot that is then registered to
  the socket, and no other slot changes; in every other case the table stays as it is.  The table and
  the time stamps stay consistent, so that the search for a free time stamp never fails.\<close>

theorem register_session_effect:
  assumes "sessions_wf s" and "f \<noteq> kEipInvalidSocket"
    and "current_communication_buffer_position d = le16 version @ le16 flags @ rest"
  shows "\<exists>h status s'. HandleReceivedRegisterSessionCommand f d m s =
      Some (EncapsulateRegisterSessionCommandResponseMessage d h status m, s')
    \<and> sessions_wf s'
    \<and> (if version = 1 \<and> flags = 0 \<and> f \<notin> set (g_registered_sessions s)
           \<and> kEipInvalidSocket \<in> set (g_registered_sessions s)
       then status = kEncapsulationProtocolSuccess \<and> CheckRegisteredSessions h s'
         \<and> \<not> CheckRegisteredSessions h s
         \<and> g_registered_sessions s' = (g_registered_sessions s)[unat (h - 1) := f]
       else status \<noteq> kEncapsulationProtocolSuccess \<and> s' = s)"
proof (cases "version = 1 \<and> flags = 0 \<and> f \<notin> set (g_registered_sessions s)")
  case True
  show ?thesis
  proof (cases "GetFreeSessionIndex s")
    case (Some i)
    have "current_communication_buffer_position d = le16 1 @ le16 0 @ rest"
      using assms(3) True by simp
    from register_session_opened [OF assms(1,2) _ Some this] True show ?thesis
      by (intro exI [of _ "of_nat i + 1"] exI [of _ kEncapsulationProtocolSuccess]) auto
  next
    case None
    then have "kEipInvalidSocket \<notin> set (g_registered_sessions s)"
      by (simp add: GetFreeSessionIndex_def session_search_None_iff)
    moreover have "session_search 0 f (g_registered_sessions s) = None"
      using True by (simp add: session_search_None_iff)
    ultimately show ?thesis
      using True None assms(1) by (auto simp: register_session_run [OF assms(3)] protocol_errors intro!: exI)
  qed
next
  case False
  show ?thesis
  proof (cases "version = 1 \<and> flags = 0")
    case True
    then obtain i where "session_search 0 f (g_registered_sessions s) = Some i"
      using False session_search_None_iff [of 0 f "g_registered_sessions s"] by auto
    then show ?thesis
      using True False assms(1) by (auto simp: register_session_run [OF assms(3)] protocol_errors intro!: exI)
  qed (use assms(1) in \<open>auto simp: register_session_run [OF assms(3)] protocol_errors intro!: exI\<close>)
qed

lemma CheckRegisteredSessions_iff:
  assumes "length (g_registered_sessions s) = OPENER_NUMBER_OF_SUPPORTED_SESSIONS"
  shows "CheckRegisteredSessions h s \<longleftrightarrow> (\<exists>i < 20. h = of_nat i + 1 \<and> unat (h - 1) = i
     \<and> g_registered_sessions s ! i \<noteq> kEipInvalidSocket)"
proof
  assume c: "CheckRegisteredSessions h s"
  then have h: "0 < unat h" "unat h \<le> 20"
    by (auto simp: CheckRegisteredSessions_def OPENER_NUMBER_OF_SUPPORTED_SESSIONS_def word_le_nat_alt
        word_less_nat_alt)
  then have u: "unat (h - 1) = unat h - 1"
    by (metis unat_minus_one unat_0 less_irrefl)
  show "\<exists>i < 20. h = of_nat i + 1 \<and> unat (h - 1) = i \<and> g_registered_sessions s ! i \<noteq> kEipInvalidSocket"
    using c h u by (intro exI [of _ "unat (h - 1)"]) (auto simp: CheckRegisteredSessions_def)
next
  assume "\<exists>i < 20. h = of_nat i + 1 \<and> unat (h - 1) = i \<and> g_registered_sessions s ! i \<noteq> kEipInvalidSocket"
  then obtain i where i: "i < 20" "h = of_nat i + 1" "unat (h - 1) = i"
    "g_registered_sessions s ! i \<noteq> kEipInvalidSocket"
    by blast
  have "unat (of_nat (i + 1) :: u32) = i + 1"
    using i(1) by (simp only: unat_of_nat) simp
  then have "unat h = i + 1"
    using i(2) by (simp add: add.commute)
  then show "CheckRegisteredSessions h s"
    using i by (simp add: CheckRegisteredSessions_def OPENER_NUMBER_OF_SUPPORTED_SESSIONS_def word_le_nat_alt
        word_less_nat_alt)
qed

lemma CheckRegisteredSessions_closed:
  assumes "length (g_registered_sessions s) = OPENER_NUMBER_OF_SUPPORTED_SESSIONS" and "i < 20"
    and "g_registered_sessions s' = (g_registered_sessions s)[i := kEipInvalidSocket]"
  shows "CheckRegisteredSessions h s' \<longleftrightarrow> CheckRegisteredSessions h s \<and> h \<noteq> of_nat i + 1"
proof -
  have len': "length (g_registered_sessions s') = OPENER_NUMBER_OF_SUPPORTED_SESSIONS"
    using assms(1,3) by simp
  have "unat (of_nat i :: u32) = i"
    using assms(2) by (simp add: unat_of_nat)
  then show ?thesis
    unfolding CheckRegisteredSessions_iff [OF assms(1)] CheckRegisteredSessions_iff [OF len'] assms(3)
    using assms(1,2) by (auto simp: nth_list_update OPENER_NUMBER_OF_SUPPORTED_SESSIONS_def)
qed

text \<open>The socket of a session and then its class 3 connection are closed.\<close>

lemma session_closed:
  assumes "connections_wf s" and "f \<noteq> kEipInvalidSocket"
  obtains t s' es where "CloseTcpSocket f s = Some t"
    and "CloseClass3ConnectionBasedOnSession (of_nat i + 1) (set_session i kEipInvalidSocket t) = Some s'"
    and "g_registered_sessions s' = (g_registered_sessions s)[i := kEipInvalidSocket]"
    and "trace s' = trace s @ [ShutdownSocketPlatform f, CloseSocketPlatform f] @ es"
    and "f \<notin> set (master_socket s')" and "g_timestamps s' = cleared f (g_timestamps s)" and "connections_wf s'"
    and "case find_connection (belongs_to_session (of_nat i + 1)) (conn s) (connection_list s) of
      None \<Rightarrow> connection_list s' = connection_list s | Some c \<Rightarrow> c \<notin> set (connection_list s')"
proof -
  obtain t where t: "CloseTcpSocket f s = Some t"
    using assms(2) by (simp add: CloseTcpSocket_valid)
  note same = CloseTcpSocket_Some [OF t]
  let ?t = "set_session i kEipInvalidSocket t"
  have closed: "trace ?t = trace s @ [ShutdownSocketPlatform f, CloseSocketPlatform f]" "f \<notin> set (master_socket ?t)"
    using t assms(2) by (auto simp: CloseTcpSocket_valid CloseSocket_def set_session_def emit_def)
  have t_wf: "connections_wf ?t"
    using assms(1) same by (simp add: connections_wf_def)
  then obtain s' where s': "CloseClass3ConnectionBasedOnSession (of_nat i + 1) ?t = Some s'" "shrinks ?t s'" "same_sessions ?t s'"
    using CloseClass3_shrinks by blast
  obtain es where es: "trace s' = trace ?t @ es" "f \<notin> set (master_socket s')"
    using CloseClass3_only_closes [OF t_wf s'(1)] closed(2) by (auto simp: only_closes_def)
  have "connections_wf s'"
    using shrinks_wf [OF s'(2)] assms(1) same by (simp add: connections_wf_def)
  moreover have "case find_connection (belongs_to_session (of_nat i + 1)) (conn s) (connection_list s) of
      None \<Rightarrow> connection_list s' = connection_list s | Some c \<Rightarrow> c \<notin> set (connection_list s')"
    using s'(1) close_function_shrinks [OF t_wf] same find_connection_Some
    unfolding CloseClass3_eq [OF t_wf] by (fastforce split: option.splits)
  ultimately show ?thesis
    using that [OF t s'(1)] s'(3) same es closed(1) CloseTcpSocket_session [OF t assms(2)] by (simp add: same_sessions_def)
qed

text \<open>C24: an unregister request for a registered handle needs no answer: the socket of the session is shut
  down and closed, before anything else, and no longer watched, its slot and its time stamps are freed, the first
  class 3 connection of the session in the list is closed, and no other handle is affected; for any other handle
  the request is answered with an error and nothing changes.\<close>

theorem unregister_session_effect:
  assumes "sessions_wf s" and "connections_wf s" and "f = g_registered_sessions s ! unat (session_handle d - 1)"
  shows "if CheckRegisteredSessions (session_handle d) s
    then \<exists>s' es. HandleReceivedUnregisterSessionCommand d m s = Some (kEipStatusOk, m, s')
      \<and> sessions_wf s' \<and> connections_wf s'
      \<and> g_registered_sessions s' = (g_registered_sessions s)[unat (session_handle d - 1) := kEipInvalidSocket]
      \<and> (\<forall>h. CheckRegisteredSessions h s' \<longleftrightarrow> CheckRegisteredSessions h s \<and> h \<noteq> session_handle d)
      \<and> trace s' = trace s @ [ShutdownSocketPlatform f, CloseSocketPlatform f] @ es
      \<and> f \<notin> set (master_socket s') \<and> g_timestamps s' = cleared f (g_timestamps s)
      \<and> (case find_connection (belongs_to_session (session_handle d)) (conn s) (connection_list s) of
          None \<Rightarrow> connection_list s' = connection_list s | Some c \<Rightarrow> c \<notin> set (connection_list s'))
    else HandleReceivedUnregisterSessionCommand d m s = Some (kEipStatusOkSend,
      GenerateEncapsulationHeader d 0 (session_handle d) kEncapsulationProtocolInvalidSessionHandle m, s)"
proof (cases "CheckRegisteredSessions (session_handle d) s")
  case True
  have len: "length (g_registered_sessions s) = OPENER_NUMBER_OF_SUPPORTED_SESSIONS"
    using assms(1) by (simp add: sessions_wf_def)
  obtain i where i: "i < 20" "session_handle d = of_nat i + 1" "unat (session_handle d - 1) = i" "f \<noteq> kEipInvalidSocket"
      "g_registered_sessions s ! i = f"
    using True CheckRegisteredSessions_iff [OF len] assms(3) by fastforce
  obtain t s' es where c: "CloseTcpSocket f s = Some t"
    "CloseClass3ConnectionBasedOnSession (of_nat i + 1) (set_session i kEipInvalidSocket t) = Some s'"
    and gs: "g_registered_sessions s' = (g_registered_sessions s)[i := kEipInvalidSocket]"
    and effect: "trace s' = trace s @ [ShutdownSocketPlatform f, CloseSocketPlatform f] @ es" "f \<notin> set (master_socket s')"
    "g_timestamps s' = cleared f (g_timestamps s)" "connections_wf s'"
    "case find_connection (belongs_to_session (of_nat i + 1)) (conn s) (connection_list s) of
      None \<Rightarrow> connection_list s' = connection_list s | Some c \<Rightarrow> c \<notin> set (connection_list s')"
    using session_closed [OF assms(2) i(4), of i] by metis
  have "sessions_wf s'"
    using sessions_wf_closed [OF assms(1) i(1) refl _ gs] i(4,5) effect(3) by simp
  moreover have "HandleReceivedUnregisterSessionCommand d m s = Some (kEipStatusOk, m, s')"
    using True c i(3,5) by (simp add: HandleReceivedUnregisterSessionCommand_def CheckRegisteredSessions_def Let_def)
  ultimately show ?thesis
    using True gs i(2,3) effect CheckRegisteredSessions_closed [OF len i(1) gs] by auto
next
  case False
  then show ?thesis
    by (auto simp: HandleReceivedUnregisterSessionCommand_def CheckRegisteredSessions_def Let_def)
qed

text \<open>C25: a request that names a session that is not registered is answered with an error header and
  reaches neither the message router nor any other part of the state.\<close>

theorem data_commands_need_a_session:
  assumes "\<not> CheckRegisteredSessions (session_handle d) s" and "6 \<le> encap_data_length d"
    and "6 \<le> length (current_communication_buffer_position d)"
  shows "\<exists>r. HandleReceivedSendRequestResponseDataCommand e classes d originator m s
        = Some (kEipStatusOkSend, r, s)
     \<and> HandleReceivedSendUnitDataCommand e classes d originator m s = Some (kEipStatusOkSend, r, s)
     \<and> r = append_octets (header_octets d 0 (session_handle d) kEncapsulationProtocolInvalidSessionHandle)
             InitializeENIPMessage"
proof -
  obtain a b c x y z rest where p: "current_communication_buffer_position d = a # b # c # x # y # z # rest"
    using assms(3) by (auto simp: numeral_eq_Suc Suc_le_length_iff)
  show ?thesis
    using assms(1,2) by (simp add: HandleReceivedSendRequestResponseDataCommand_def
        HandleReceivedSendUnitDataCommand_def handle_data_command_def p GetUdintFromMessage_def
        GetUintFromMessage_def skip_def enc header_octets_def)
qed


lemma initial_sessions_wf: "sessions_wf initial_stack" "connections_wf initial_stack"
  by (simp_all add: sessions_wf_def connections_wf_def initial_stack_def timers_wf_def
      OPENER_NUMBER_OF_SUPPORTED_SESSIONS_def)

definition example_packet :: EncapsulationData where
  "example_packet = \<lparr>command_code = kEncapsulationCommandRegisterSession, encap_data_length = 6,
     session_handle = 1, encap_status = 0, sender_context = replicate 8 0, options = 0,
     communication_buffer_start = [], current_communication_buffer_position = [1, 0, 0, 0, 0, 0]\<rparr>"

theorem register_session_effect_witness:
  "\<exists>h status s'. HandleReceivedRegisterSessionCommand 7 example_packet InitializeENIPMessage initial_stack
     = Some (EncapsulateRegisterSessionCommandResponseMessage example_packet h status
         InitializeENIPMessage, s') \<and> CheckRegisteredSessions h s'"
proof -
  have p: "current_communication_buffer_position example_packet = le16 1 @ le16 0 @ [0, 0]"
    by (simp add: example_packet_def le16_def)
  show ?thesis
    using register_session_effect [OF initial_sessions_wf(1) _ p, of 7 InitializeENIPMessage]
    by (auto simp: initial_stack_def kEipInvalidSocket_def OPENER_NUMBER_OF_SUPPORTED_SESSIONS_def)
qed

theorem unregister_session_effect_witness:
  "\<exists>s' es. HandleReceivedUnregisterSessionCommand example_packet InitializeENIPMessage class3_stack
      = Some (kEipStatusOk, InitializeENIPMessage, s')
    \<and> g_registered_sessions s' = [kEipInvalidSocket, 6] @ replicate 18 kEipInvalidSocket
    \<and> trace s' = [ShutdownSocketPlatform 5, CloseSocketPlatform 5] @ es
    \<and> explicit_connection_object_pool_ref 1 \<notin> set (connection_list s')"
proof -
  have g: "g_registered_sessions class3_stack = 5 # 6 # replicate 18 kEipInvalidSocket" "trace class3_stack = []"
    by (simp_all add: class3_stack_def initial_stack_def)
  have h: "session_handle example_packet = 1"
    by (simp add: example_packet_def)
  have wf: "sessions_wf class3_stack"
    by (auto simp: sessions_wf_def class3_stack_def timers_wf_def OPENER_NUMBER_OF_SUPPORTED_SESSIONS_def kEipInvalidSocket_def
        nth_Cons split: nat.splits)
  have f: "5 = g_registered_sessions class3_stack ! unat (session_handle example_packet - 1)"
    by (simp add: g h)
  have "CheckRegisteredSessions (session_handle example_packet) class3_stack"
    by (simp add: CheckRegisteredSessions_def h g OPENER_NUMBER_OF_SUPPORTED_SESSIONS_def kEipInvalidSocket_def)
  then show ?thesis
    using unregister_session_effect [OF wf class3_stack_simps(3) f, of InitializeENIPMessage]
    by (auto simp: g h)
qed

theorem data_commands_need_a_session_witness:
  "\<exists>r. HandleReceivedSendUnitDataCommand kOpENerEndianessLittle [] example_packet zero_sockaddr
     InitializeENIPMessage initial_stack = Some (kEipStatusOkSend, r, initial_stack)"
proof -
  have "\<not> CheckRegisteredSessions (session_handle example_packet) initial_stack"
    by (simp add: CheckRegisteredSessions_def initial_stack_def example_packet_def
        OPENER_NUMBER_OF_SUPPORTED_SESSIONS_def)
  then show ?thesis
    using data_commands_need_a_session [of example_packet initial_stack] by (auto simp: example_packet_def)
qed

section \<open>Discovery\<close>

text \<open>A reply whose header states exactly the octets that follow it.\<close>

definition complete_reply :: "ENIPMessage \<Rightarrow> bool" where
  "complete_reply m \<longleftrightarrow> msg_wf m
     \<and> (\<exists>d. CreateEncapsulationStructure (payload m) (length (payload m)) = Some (0, d)
          \<and> encap_status d = kEncapsulationProtocolSuccess)"

lemma complete_replyI:
  assumes "length (sender_context d) = 8" and "length bs = unat n" and "length bs \<le> 400"
  shows "complete_reply (append_octets (header_octets d n h kEncapsulationProtocolSuccess @ bs)
    InitializeENIPMessage)"
proof -
  let ?h = "header_octets d n h kEncapsulationProtocolSuccess"
  have l: "length ?h = 24"
    by (rule length_header_octets [OF assms(1)])
  have "length (?h @ bs) \<le> room InitializeENIPMessage"
    using l assms(3) by (simp add: PC_OPENER_ETHERNET_BUFFER_SIZE_def)
  from append_octets_wf [OF msg_wf_Initialize this]
  have "msg_wf (append_octets (?h @ bs) InitializeENIPMessage)"
    "payload (append_octets (?h @ bs) InitializeENIPMessage) = ?h @ bs"
    by simp_all
  moreover have "uint n = int (length bs)"
    unfolding uint_nat assms(2) ..
  ultimately show ?thesis
    using Create_header_octets [OF assms(1), of "24 + length bs" n h kEncapsulationProtocolSuccess bs]
      assms(3) l by (simp add: complete_reply_def)
qed

text \<open>The identity item states its own length, and the reply the length of everything behind the header.\<close>

lemma identity_item_lengths:
  assumes "length (identity_product_name i) \<le> 255"
  shows "unat (ListIdentityGetCipIdentityItemLength i) = 34 + length (identity_product_name i)"
    and "unat (ListIdentityGetCipIdentityItemLength i + 2 + 2 + 2) = 40 + length (identity_product_name i)"
proof -
  have "ListIdentityGetCipIdentityItemLength i = (of_nat (34 + length (identity_product_name i)) :: u16)"
    "ListIdentityGetCipIdentityItemLength i + 2 + 2 + 2 = (of_nat (40 + length (identity_product_name i)) :: u16)"
    by (simp_all add: ListIdentityGetCipIdentityItemLength_def)
  then show "unat (ListIdentityGetCipIdentityItemLength i) = 34 + length (identity_product_name i)"
    and "unat (ListIdentityGetCipIdentityItemLength i + 2 + 2 + 2) = 40 + length (identity_product_name i)"
    using assms by (simp_all only: unat_of_nat) simp_all
qed

lemma identity_item_encoded:
  assumes "e \<noteq> kOpenerEndianessUnknown"
  shows "\<exists>bs. (\<forall>m. EncodeListIdentityCipIdentityItem e s m
      = Some (append_octets (le16 0x0C @ le16 (ListIdentityGetCipIdentityItemLength (g_identity s)) @ bs) m))
    \<and> length bs = 34 + length (identity_product_name (g_identity s))"
proof -
  let ?i = "g_identity s"
  let ?bs = "le16 kSupportedProtocolVersion
      @ sockaddr_octets e (htons e kOpenerEthernetPort) (interface_ip_address (interface_configuration (g_tcpip s))) @ replicate 8 0
      @ le16 (identity_vendor_id ?i) @ le16 (identity_device_type ?i) @ le16 (identity_product_code ?i)
      @ [identity_major_revision ?i, identity_minor_revision ?i] @ le16 (identity_status ?i)
      @ le32 (identity_serial_number ?i) @ [of_nat (length (identity_product_name ?i))] @ identity_product_name ?i @ [identity_state ?i]"
  show ?thesis
    by (rule exI [of _ ?bs])
      (use assms in \<open>simp add: EncodeListIdentityCipIdentityItem_def enc sockaddr_octets_def Let_def\<close>)
qed

lemma identity_reply:
  assumes "length (sender_context d) = 8" and "e \<noteq> kOpenerEndianessUnknown"
    and "length (identity_product_name (g_identity s)) \<le> 255"
  shows "\<exists>m bs. EncapsulateListIdentityResponseMessage e d s InitializeENIPMessage = Some m \<and> complete_reply m
    \<and> payload m = header_octets d (ListIdentityGetCipIdentityItemLength (g_identity s) + 2 + 2 + 2) 0 kEncapsulationProtocolSuccess
        @ le16 1 @ le16 0x0C @ le16 (ListIdentityGetCipIdentityItemLength (g_identity s)) @ bs
    \<and> length bs = unat (ListIdentityGetCipIdentityItemLength (g_identity s))"
proof -
  let ?l = "ListIdentityGetCipIdentityItemLength (g_identity s)"
  note l = identity_item_lengths [OF assms(3)]
  obtain bs where item: "\<And>m. EncodeListIdentityCipIdentityItem e s m = Some (append_octets (le16 0x0C @ le16 ?l @ bs) m)"
    and bs: "length bs = 34 + length (identity_product_name (g_identity s))"
    using identity_item_encoded [OF assms(2)] by blast
  let ?body = "le16 1 @ le16 0x0C @ le16 ?l @ bs"
  let ?out = "append_octets (header_octets d (?l + 2 + 2 + 2) 0 kEncapsulationProtocolSuccess @ ?body)
    InitializeENIPMessage"
  have len: "length ?body = 40 + length (identity_product_name (g_identity s))"
    using bs by simp
  have u: "ucast (ucast (?l + 2 + 2 + 2) :: size_t) = ?l + 2 + 2 + 2"
    using l(2) assms(3) by (intro ucast_ucast_id) simp
  have "EncapsulateListIdentityResponseMessage e d s InitializeENIPMessage = Some ?out"
    unfolding EncapsulateListIdentityResponseMessage_def Let_def GenerateEncapsulationHeader_enc u item
    by (simp only: enc append_octets_append append_assoc)
  moreover have "complete_reply ?out"
    using complete_replyI [OF assms(1), of ?body "?l + 2 + 2 + 2" 0] len l(2) assms(3) by simp
  moreover have "length (header_octets d (?l + 2 + 2 + 2) 0 kEncapsulationProtocolSuccess @ ?body)
      \<le> room InitializeENIPMessage"
    using len assms(3) by (simp add: length_header_octets [OF assms(1)] PC_OPENER_ETHERNET_BUFFER_SIZE_def)
  then have "payload ?out = header_octets d (?l + 2 + 2 + 2) 0 kEncapsulationProtocolSuccess @ ?body"
    using append_octets_wf [OF msg_wf_Initialize] by simp
  ultimately show ?thesis
    using l(1) bs by auto
qed

text \<open>C26: the answers to list services, list interfaces and list identity are complete packets: the
  header states exactly the octets that follow, for every product name that leaves them room; the identity
  item states its own length, which is also right.\<close>

theorem discovery_replies_complete:
  assumes "length (sender_context d) = 8" and "e \<noteq> kOpenerEndianessUnknown"
    and "length (identity_product_name (g_identity s)) \<le> 255"
  shows "complete_reply (HandleReceivedListServicesCommand d InitializeENIPMessage)
    \<and> complete_reply (HandleReceivedListInterfacesCommand d InitializeENIPMessage)
    \<and> (\<exists>m. EncapsulateListIdentityResponseMessage e d s InitializeENIPMessage = Some m
         \<and> complete_reply m
         \<and> length (payload m) = 30 + unat (ListIdentityGetCipIdentityItemLength (g_identity s))
         \<and> drop 26 (payload m) = le16 0x0C @ le16 (ListIdentityGetCipIdentityItemLength (g_identity s))
             @ drop 30 (payload m))"
proof -
  have services: "complete_reply (HandleReceivedListServicesCommand d InitializeENIPMessage)"
    unfolding HandleReceivedListServicesCommand_def Let_def
    using complete_replyI [OF assms(1), of _ 26 0]
    by (simp add: enc g_service_information_def)
  have interfaces: "complete_reply (HandleReceivedListInterfacesCommand d InitializeENIPMessage)"
    unfolding HandleReceivedListInterfacesCommand_def
    using complete_replyI [OF assms(1), of "le16 0" 2 0] by (simp add: enc)
  obtain m bs where "EncapsulateListIdentityResponseMessage e d s InitializeENIPMessage = Some m" "complete_reply m"
    "payload m = header_octets d (ListIdentityGetCipIdentityItemLength (g_identity s) + 2 + 2 + 2) 0 kEncapsulationProtocolSuccess
        @ le16 1 @ le16 0x0C @ le16 (ListIdentityGetCipIdentityItemLength (g_identity s)) @ bs"
    "length bs = unat (ListIdentityGetCipIdentityItemLength (g_identity s))"
    using identity_reply [OF assms] by blast
  then show ?thesis
    using services interfaces by (auto simp: length_header_octets [OF assms(1)])
qed

lemma initial_name: "length (identity_product_name (g_identity initial_stack)) = 12"
  by (simp add: initial_stack_def)

lemma example_context: "length (sender_context example_packet) = 8"
  by (simp add: example_packet_def)

theorem discovery_replies_complete_witness:
  "complete_reply (HandleReceivedListServicesCommand example_packet InitializeENIPMessage)"
proof -
  have "kOpENerEndianessLittle \<noteq> kOpenerEndianessUnknown"
    "length (identity_product_name (g_identity initial_stack)) \<le> 255"
    by (simp_all add: initial_name)
  from discovery_replies_complete [OF example_context this] show ?thesis
    by blast
qed

section \<open>Delayed answers\<close>

text \<open>The turns of the main loop, as one delayed message sees them.\<close>

fun delayed_run :: "MilliSeconds list \<Rightarrow> DelayedEncapsulationMessage
    \<Rightarrow> DelayedEncapsulationMessage \<times> event list" where
  "delayed_run [] d = (d, [])"
| "delayed_run (e # es) d = (let (d, sent) = manage_delayed_message e d; (d, later) = delayed_run es d
     in (d, sent @ later))"

lemma delayed_run_sent: "delayed_socket d = kEipInvalidSocket \<Longrightarrow> delayed_run es d = (d, [])"
  by (induction es) (simp_all add: manage_delayed_message_def)

lemma time_left:
  fixes t :: u32 and e :: MilliSeconds
  assumes "unat t < 65536" and "unat e < 2 ^ 30"
  shows "sint (t - ucast e) \<le> 0 \<longleftrightarrow> unat t \<le> unat e"
proof -
  have small: "sint x = uint x" if "uint x < 2 ^ 31" for x :: u32
    unfolding sint_uint using that by (intro signed_take_bit_int_eq_self)
      (simp_all add: order_trans [OF _ uint_ge_0])
  have t: "uint t < 65536" and e: "uint e < 2 ^ 30"
    by (metis assms(1) uint_nat of_nat_less_iff of_nat_numeral)
      (metis assms(2) uint_nat of_nat_less_iff of_nat_numeral of_nat_power)
  then have u: "uint (ucast e :: u32) = uint e"
    by (simp add: unsigned_ucast_eq take_bit_int_eq_self)
  have "uint e < 1073741824"
    using e by simp
  then have "- 2147483648 \<le> uint t - uint e" "uint t - uint e < 2147483648"
    using t uint_ge_0 [of t] uint_ge_0 [of e] by linarith+
  then have "sint (t - ucast e) = uint t - uint e"
    using t e by (simp add: sint_word_ariths small u signed_take_bit_int_eq_self)
  then show ?thesis
    unfolding unat_eq_nat_uint by (simp only: nat_le_eq_zle [OF disjI2 [OF uint_ge_0]] diff_le_0_iff_le)
qed

lemma delayed_run_events:
  assumes "delayed_socket d \<noteq> kEipInvalidSocket" and "unat (time_out d) < 65536"
    and "\<forall>e \<in> set es. unat e < 2 ^ 30"
  shows "snd (delayed_run es d) = (if es \<noteq> [] \<and> unat (time_out d) \<le> sum_list (map unat es)
     then [sendto_event (delayed_socket d) (payload (delayed_outgoing_message d)) (receiver d)] else [])"
  using assms
proof (induction es arbitrary: d)
  case Nil
  then show ?case
    by simp
next
  case (Cons e es)
  let ?d = "d\<lparr>time_out := time_out d - ucast e\<rparr>"
  have s: "sint (time_out d - ucast e) \<le> 0 \<longleftrightarrow> unat (time_out d) \<le> unat e"
    using Cons.prems by (intro time_left) auto
  show ?case
  proof (cases "unat (time_out d) \<le> unat e")
    case True
    then have "sint (time_out d - ucast e) \<le> 0"
      using s by blast
    with True show ?thesis
      using Cons.prems(1) by (simp add: manage_delayed_message_def delayed_run_sent Let_def trans_le_add1)
  next
    case False
    then have "\<not> sint (time_out d - ucast e) \<le> 0"
      using s by blast
    then have "manage_delayed_message e d = (?d, [])"
      using Cons.prems(1) by (simp add: manage_delayed_message_def Let_def)
    moreover have u: "unat (time_out ?d) = unat (time_out d) - unat e"
    proof -
      have "unat (ucast e :: u32) = unat e"
        using Cons.prems(3) by (simp add: unat_ucast_mod)
      then show ?thesis
        using False by (simp add: unat_sub word_le_nat_alt)
    qed
    ultimately show ?thesis
      using Cons.IH [of ?d] Cons.prems False by (cases "es = []") (auto split: prod.split)
  qed
qed

lemma free_delayed_message_Some:
  "free_delayed_message k ds = Some i \<Longrightarrow> k \<le> i \<and> i < k + length ds"
  by (induction ds arbitrary: k) (fastforce split: if_splits)+

lemma maximum_delay_time_pos: "0 < unat (maximum_delay_time t)"
  by (simp add: maximum_delay_time_def kListIdentityDefaultDelayTime_def kListIdentityMinimumDelayTime_def
      unat_gt_0)

text \<open>A broadcast list identity request is answered after a random delay below the limit of the
  request, if a slot for the delayed message is free: exactly one datagram, the complete identity
  reply to the sender, goes out in the turn of the main loop in which the delay is over.\<close>

theorem broadcast_identity_answered_once:
  assumes "length (communication_buffer_start d) \<ge> 14" and "e \<noteq> kOpenerEndianessUnknown"
    and "free_delayed_message 0 (g_delayed_encapsulation_messages s) = Some i" and "f \<noteq> kEipInvalidSocket"
    and "\<forall>e \<in> set es. unat e < 2 ^ 30"
  shows "\<exists>s' t m. HandleReceivedListIdentityCommandUdp rand e f a d s = Some s'
    \<and> EncapsulateListIdentityResponseMessage e d s InitializeENIPMessage = Some m
    \<and> t < unat (maximum_delay_time (join16 (communication_buffer_start d ! 12) (communication_buffer_start d ! 13)))
    \<and> snd (delayed_run es (g_delayed_encapsulation_messages s' ! i)) =
        (if es \<noteq> [] \<and> t \<le> sum_list (map unat es) then [sendto_event f (payload m) a] else [])"
proof -
  let ?b = "communication_buffer_start d"
  let ?M = "maximum_delay_time (join16 (?b ! 12) (?b ! 13))"
  let ?t = "rand (rand_index s) mod ucast ?M :: u32"
  have b: "drop 12 ?b = ?b ! 12 # ?b ! 13 # drop 14 ?b"
    using assms(1) by (simp add: Cons_nth_drop_Suc numeral_eq_Suc)
  have t: "DetermineDelayTime (rand (rand_index s)) ?b = Some ?t"
    using assms(1) by (simp add: DetermineDelayTime_def skip_def b GetUintFromMessage_def join16_def)
  have M: "unat (ucast ?M :: u32) = unat ?M"
    using unsigned_less [where 'a = nat and w = ?M] by (simp add: unat_ucast_mod)
  have lt: "unat ?t < unat ?M"
    using maximum_delay_time_pos by (simp add: unat_mod M)
  then have small: "unat ?t < 65536"
    using unsigned_less [where 'a = nat and w = ?M] by simp
  obtain m where m: "EncapsulateListIdentityResponseMessage e d s InitializeENIPMessage = Some m"
    using assms(2) by (simp add: EncapsulateListIdentityResponseMessage_def EncodeListIdentityCipIdentityItem_def
        enc Let_def)
  let ?d = "\<lparr>time_out = ?t, delayed_socket = f, receiver = a, delayed_outgoing_message = m\<rparr>"
  let ?s = "s\<lparr>rand_index := Suc (rand_index s),
    g_delayed_encapsulation_messages := (g_delayed_encapsulation_messages s)[i := ?d]\<rparr>"
  have "HandleReceivedListIdentityCommandUdp rand e f a d s = Some ?s"
    using assms(3) t m by (simp add: HandleReceivedListIdentityCommandUdp_def)
  moreover have "g_delayed_encapsulation_messages ?s ! i = ?d"
    using free_delayed_message_Some [OF assms(3)] by simp
  ultimately show ?thesis
    using m lt delayed_run_events [of ?d es] assms(4,5) small
    by (intro exI [of _ ?s] exI [of _ "unat ?t"] exI [of _ m]) simp
qed

theorem broadcast_identity_answered_once_witness:
  "\<exists>s' t m. HandleReceivedListIdentityCommandUdp (\<lambda>_. 0) kOpENerEndianessLittle 5 zero_sockaddr
      (example_packet\<lparr>communication_buffer_start := replicate 24 0\<rparr>) initial_stack = Some s'
    \<and> t < (2000 :: nat) \<and> snd (delayed_run [3000] (g_delayed_encapsulation_messages s' ! 0))
        = [sendto_event 5 (payload m) zero_sockaddr]"
proof -
  have "free_delayed_message 0 (g_delayed_encapsulation_messages initial_stack) = Some 0"
    by (simp add: initial_stack_def ENCAP_NUMBER_OF_SUPPORTED_DELAYED_ENCAP_MESSAGES_def numeral_eq_Suc)
  moreover have "unat (maximum_delay_time (join16 0 0)) = 2000"
    by (simp add: maximum_delay_time_def kListIdentityDefaultDelayTime_def join16_def)
  ultimately show ?thesis
    using broadcast_identity_answered_once [of "example_packet\<lparr>communication_buffer_start := replicate 24 0\<rparr>"
      kOpENerEndianessLittle initial_stack 0 5 "[3000]" "\<lambda>_. 0" zero_sockaddr]
    by (fastforce simp: kEipInvalidSocket_def)
qed

end
