(* ===== verification/App_Connections.thy ===== *)
theory App_Connections
  imports Conn_Close Cip_Status
begin

text \<open>
  The application connection types (\<^verbatim>\<open>cip/appcontype.c\<close>): which assemblies form a connection point,
  and the choice of a connection object for a request, in the order exclusive owner, input only, listen
  only.  A choice is the pointer or null and the extended status.
\<close>

section \<open>Connection points\<close>

definition configure_point :: "u32 \<Rightarrow> u32 \<Rightarrow> u32 \<Rightarrow> u32 \<Rightarrow> ConnectionPoint list \<Rightarrow> ConnectionPoint list" where
  "configure_point point output input config ps =
     ps[unat point :=
       \<lparr>output_assembly = output, input_assembly = input, config_assembly = config\<rparr>]"

definition ConfigureExclusiveOwnerConnectionPoint :: "u32 \<Rightarrow> u32 \<Rightarrow> u32 \<Rightarrow> u32 \<Rightarrow> stack \<Rightarrow> stack" where
  "ConfigureExclusiveOwnerConnectionPoint point output input config s =
     (if unat point < OPENER_CIP_NUM_EXLUSIVE_OWNER_CONNS
      then s\<lparr>g_exlusive_owner_connections :=
        configure_point point output input config (g_exlusive_owner_connections s)\<rparr>
      else s)"

definition ConfigureInputOnlyConnectionPoint :: "u32 \<Rightarrow> u32 \<Rightarrow> u32 \<Rightarrow> u32 \<Rightarrow> stack \<Rightarrow> stack" where
  "ConfigureInputOnlyConnectionPoint point output input config s =
     (if unat point < OPENER_CIP_NUM_INPUT_ONLY_CONNS
      then s\<lparr>g_input_only_connections :=
        configure_point point output input config (g_input_only_connections s)\<rparr>
      else s)"

definition ConfigureListenOnlyConnectionPoint :: "u32 \<Rightarrow> u32 \<Rightarrow> u32 \<Rightarrow> u32 \<Rightarrow> stack \<Rightarrow> stack" where
  "ConfigureListenOnlyConnectionPoint point output input config s =
     (if unat point < OPENER_CIP_NUM_LISTEN_ONLY_CONNS
      then s\<lparr>g_listen_only_connections :=
        configure_point point output input config (g_listen_only_connections s)\<rparr>
      else s)"

text \<open>The three calls of \<^verbatim>\<open>ApplicationInitialization\<close>.\<close>

definition configure_application_points :: "u32 \<Rightarrow> u32 \<Rightarrow> u32 \<Rightarrow> stack \<Rightarrow> stack" where
  "configure_application_points input output config s =
     ConfigureListenOnlyConnectionPoint 0 153 input config
       (ConfigureInputOnlyConnectionPoint 0 152 input config
         (ConfigureExclusiveOwnerConnectionPoint 0 output input config s))"

definition is_application_slot :: "conn_ref \<Rightarrow> bool" where
  "is_application_slot c = (case c of exlusive_owner_ref i \<Rightarrow> True | input_only_ref i j \<Rightarrow> True
     | listen_only_ref i j \<Rightarrow> True | _ \<Rightarrow> False)"

definition InitializeIoConnectionData :: "stack \<Rightarrow> stack" where
  "InitializeIoConnectionData s = s\<lparr>
     g_exlusive_owner_connections := replicate OPENER_CIP_NUM_EXLUSIVE_OWNER_CONNS zero_connection_point,
     g_input_only_connections := replicate OPENER_CIP_NUM_INPUT_ONLY_CONNS zero_connection_point,
     g_listen_only_connections := replicate OPENER_CIP_NUM_LISTEN_ONLY_CONNS zero_connection_point,
     conn := \<lambda>c. if is_application_slot c then zero_connection_object else conn s c\<rparr>"

section \<open>The choice of a connection object\<close>

definition same_output :: "CipConnectionObject \<Rightarrow> ConnectionPoint \<Rightarrow> bool" where
  "same_output x p \<longleftrightarrow> output_assembly p = ucast (epath_instance_id (consumed_path x))"
definition same_input :: "CipConnectionObject \<Rightarrow> ConnectionPoint \<Rightarrow> bool" where
  "same_input x p \<longleftrightarrow> input_assembly p = ucast (epath_instance_id (produced_path x))"
definition same_config :: "CipConnectionObject \<Rightarrow> ConnectionPoint \<Rightarrow> bool" where
  "same_config x p \<longleftrightarrow> config_assembly p = ucast (epath_instance_id (configuration_path x))"

fun exclusive_owner_search :: "conn_ref \<Rightarrow> (nat \<times> ConnectionPoint) list \<Rightarrow> stack
    \<Rightarrow> (conn_ref option \<times> u16 \<times> stack) option" where
  "exclusive_owner_search c [] s = Some (None, 0, s)"
| "exclusive_owner_search c ((i, p) # ps) s =
     (if same_output (conn s c) p \<and> same_input (conn s c) p \<and> same_config (conn s c) p
      then (case GetConnectedOutputAssembly (ucast (epath_instance_id (produced_path (conn s c)))) s of
          None \<Rightarrow> Some (Some (exlusive_owner_ref i), 0, s)
        | Some exclusive_owner \<Rightarrow>
            (if kConnectionObjectStateTimedOut = ConnectionObjectGetState (conn s exclusive_owner)
                \<and> ConnectionObjectEqualOriginator (conn s c) (conn s exclusive_owner)
             then do {
               s \<leftarrow> close_function (exlusive_owner_ref i) s;
               Some (Some (exlusive_owner_ref i), 0, s) }
             else Some (None, kConnectionManagerExtendedStatusCodeErrorOwnershipConflict, s)))
      else exclusive_owner_search c ps s)"

definition GetExclusiveOwnerConnection :: "conn_ref \<Rightarrow> stack \<Rightarrow> (conn_ref option \<times> u16 \<times> stack) option" where
  "GetExclusiveOwnerConnection c s =
     exclusive_owner_search c (enumerate 0 (g_exlusive_owner_connections s)) s"

text \<open>The two inner loops over the connection objects of a point: a timed out one of the same
  originator is closed and taken, otherwise the first that does not exist.\<close>

definition take_slot :: "(nat \<Rightarrow> conn_ref) \<Rightarrow> nat \<Rightarrow> conn_ref \<Rightarrow> stack \<Rightarrow> (conn_ref option \<times> stack) option" where
  "take_slot slot n c s =
     (case find (\<lambda>j. kConnectionObjectStateTimedOut = ConnectionObjectGetState (conn s (slot j))
          \<and> ConnectionObjectEqualOriginator (conn s c) (conn s (slot j))) [0..<n] of
        Some j \<Rightarrow> do { s \<leftarrow> close_function (slot j) s; Some (Some (slot j), s) }
      | None \<Rightarrow> Some (map_option slot (find (\<lambda>j. kConnectionObjectStateNonExistent
            = ConnectionObjectGetState (conn s (slot j))) [0..<n]), s))"

definition slot_result :: "conn_ref option \<times> stack \<Rightarrow> conn_ref option \<times> u16 \<times> stack" where
  "slot_result = (\<lambda>(r, s). case r of Some k \<Rightarrow> (Some k, 0, s)
     | None \<Rightarrow> (None, kConnectionManagerExtendedStatusCodeTargetObjectOutOfConnections, s))"

fun input_only_search :: "conn_ref \<Rightarrow> (nat \<times> ConnectionPoint) list \<Rightarrow> u16 \<Rightarrow> stack
    \<Rightarrow> (conn_ref option \<times> u16 \<times> stack) option" where
  "input_only_search c [] err s = Some (None, err, s)"
| "input_only_search c ((i, p) # ps) err s =
     (if same_output (conn s c) p
      then if \<not> same_input (conn s c) p
        then input_only_search c ps kConnectionManagerExtendedStatusCodeInvalidProducingApplicationPath s
        else if \<not> same_config (conn s c) p
        then input_only_search c ps kConnectionManagerExtendedStatusCodeInconsistentApplicationPathCombo s
        else map_option slot_result (take_slot (input_only_ref i)
               OPENER_CIP_NUM_INPUT_ONLY_CONNS_PER_CON_PATH c s)
      else input_only_search c ps err s)"

definition GetInputOnlyConnection :: "conn_ref \<Rightarrow> stack \<Rightarrow> (conn_ref option \<times> u16 \<times> stack) option" where
  "GetInputOnlyConnection c s = input_only_search c (enumerate 0 (g_input_only_connections s)) 0 s"

fun listen_only_search :: "conn_ref \<Rightarrow> (nat \<times> ConnectionPoint) list \<Rightarrow> u16 \<Rightarrow> stack
    \<Rightarrow> (conn_ref option \<times> u16 \<times> stack) option" where
  "listen_only_search c [] err s = Some (None, err, s)"
| "listen_only_search c ((i, p) # ps) err s =
     (if same_output (conn s c) p
      then if \<not> same_input (conn s c) p
        then listen_only_search c ps kConnectionManagerExtendedStatusCodeInvalidProducingApplicationPath s
        else if \<not> same_config (conn s c) p
        then listen_only_search c ps kConnectionManagerExtendedStatusCodeInconsistentApplicationPathCombo s
        else if GetExistingProducerIoConnection False (ucast (epath_instance_id (produced_path (conn s c)))) s = None
        then Some (None, kConnectionManagerExtendedStatusCodeNonListenOnlyConnectionNotOpened, s)
        else map_option slot_result (take_slot (listen_only_ref i)
               OPENER_CIP_NUM_LISTEN_ONLY_CONNS_PER_CON_PATH c s)
      else listen_only_search c ps err s)"

definition GetListenOnlyConnection :: "conn_ref \<Rightarrow> stack \<Rightarrow> (conn_ref option \<times> u16 \<times> stack) option" where
  "GetListenOnlyConnection c s = listen_only_search c (enumerate 0 (g_listen_only_connections s)) 0 s"

definition set_instance_type :: "conn_ref \<Rightarrow> ConnectionObjectInstanceType \<Rightarrow> stack \<Rightarrow> stack" where
  "set_instance_type c t s = set_conn c (ConnectionObjectSetInstanceType t (conn s c)) s"

definition GetIoConnectionForConnectionData :: "conn_ref \<Rightarrow> stack \<Rightarrow> (conn_ref option \<times> u16 \<times> stack) option" where
  "GetIoConnectionForConnectionData c s = do {
     (io_connection, err, s) \<leftarrow> GetExclusiveOwnerConnection c s;
     (io_connection, err, s) \<leftarrow>
       (if io_connection \<noteq> None
        then Some (io_connection, err, set_instance_type c kConnectionObjectInstanceTypeIOExclusiveOwner s)
        else if err \<noteq> kConnectionManagerExtendedStatusCodeSuccess then Some (None, err, s)
        else do {
          (io_connection, err, s) \<leftarrow> GetInputOnlyConnection c s;
          if io_connection \<noteq> None
          then Some (io_connection, err, set_instance_type c kConnectionObjectInstanceTypeIOInputOnly s)
          else if err \<noteq> kConnectionManagerExtendedStatusCodeSuccess then Some (None, err, s)
          else do {
            (io_connection, err, s) \<leftarrow> GetListenOnlyConnection c s;
            if io_connection = None \<and> err = kConnectionManagerExtendedStatusCodeSuccess
            then Some (None, kConnectionManagerExtendedStatusCodeInconsistentApplicationPathCombo, s)
            else Some (io_connection, err,
                   set_instance_type c kConnectionObjectInstanceTypeIOListenOnly s) } });
     Some (io_connection, err, (case io_connection of None \<Rightarrow> s
       | Some k \<Rightarrow> set_conn k (ConnectionObjectDeepCopy (conn s c)) s)) }"

end
