(* ===== verification/Cip_Class.thy ===== *)
theory Cip_Class
  imports Stack_State Msg_Router
begin

text \<open>
  The classes that are registered and their instances: adding instances (\<^verbatim>\<open>AddCipInstances\<close> and
  \<^verbatim>\<open>AddCipInstance\<close> of \<^verbatim>\<open>cip/cipcommon.c\<close>), what creating a class leaves in the state, and the services that
  create and delete instances and reset an object.

  \<open>g_classes\<close> holds the registered classes in order of registration, each with its code and the data that
  its class attributes show.  The attributes, masks and services of a class do not change once the stack
  is set up; they are in \<open>Object_Table\<close>.
\<close>

section \<open>Memory\<close>

text \<open>\<open>allocates\<close> says whether \<^verbatim>\<open>calloc\<close> of a number of octets succeeds.  A failed assertion on the result is an
  abnormal end.  Where the code uses the pointer without a check, a null pointer is an abnormal end as well,
  which the model reports at the allocation; an array without elements is never used.  The sizes of the
  structures are those of a 64-bit target.\<close>

definition CipCalloc :: "(size_t \<Rightarrow> bool) \<Rightarrow> nat \<Rightarrow> nat \<Rightarrow> bool" where
  "CipCalloc allocates number_of_elements size_of_element = allocates (of_nat (number_of_elements * size_of_element))"

definition array_allocated :: "(size_t \<Rightarrow> bool) \<Rightarrow> nat \<Rightarrow> nat \<Rightarrow> bool" where
  "array_allocated allocates n size_of_element \<longleftrightarrow> n = 0 \<or> CipCalloc allocates n size_of_element"

definition sizeof_CipInstance :: nat where "sizeof_CipInstance = 40"
definition sizeof_CipAttributeStruct :: nat where "sizeof_CipAttributeStruct = 40"
definition sizeof_CipServiceStruct :: nat where "sizeof_CipServiceStruct = 24"
definition sizeof_CipClass :: nat where "sizeof_CipClass = 192"
definition sizeof_CipMessageRouterObject :: nat where "sizeof_CipMessageRouterObject = 16"
definition sizeof_CipByteArray :: nat where "sizeof_CipByteArray = 16"

lemmas sizes = sizeof_CipInstance_def sizeof_CipAttributeStruct_def sizeof_CipServiceStruct_def sizeof_CipClass_def
  sizeof_CipMessageRouterObject_def sizeof_CipByteArray_def

section \<open>Instances of a class\<close>

definition GetMaxInstanceNumber :: "u16 list \<Rightarrow> u16" where
  "GetMaxInstanceNumber ns = foldl (\<lambda>max n. if n > max then n else max) 0 ns"

text \<open>The search for a number that no instance has; a bound on the tries makes it a function, and one
  more try than there are instances is enough.\<close>

fun find_free_number :: "nat \<Rightarrow> u16 \<Rightarrow> u16 list \<Rightarrow> u16 option" where
  "find_free_number 0 n ns = None"
| "find_free_number (Suc k) n ns = (if n \<in> set ns then find_free_number k (n + 1) ns else Some n)"

text \<open>The numbers of the instances that were added, and the extended chain.  Each instance is allocated, with
  an array for its attributes if the class has any; the error path behind the two assertions is not reached.\<close>

fun add_instances :: "(size_t \<Rightarrow> bool) \<Rightarrow> nat \<Rightarrow> nat \<Rightarrow> u16 \<Rightarrow> u16 list \<Rightarrow> (u16 list \<times> u16 list) option" where
  "add_instances allocates attributes 0 n ns = Some ([], ns)"
| "add_instances allocates attributes (Suc k) n ns = do {
     n \<leftarrow> find_free_number (Suc (length ns)) n ns;
     c_assert (CipCalloc allocates 1 sizeof_CipInstance);
     c_assert (array_allocated allocates attributes sizeof_CipAttributeStruct);
     (new, ns) \<leftarrow> add_instances allocates attributes k (n + 1) (ns @ [n]);
     Some (n # new, ns) }"

definition AddCipInstances :: "(size_t \<Rightarrow> bool) \<Rightarrow> nat \<Rightarrow> u16 \<Rightarrow> CipClassData \<Rightarrow> (u16 list \<times> CipClassData) option" where
  "AddCipInstances allocates attributes n d = do {
     (new, ns) \<leftarrow> add_instances allocates attributes (unat n) 1 (instance_chain d);
     Some (new, d\<lparr>instance_chain := ns, number_of_instances := number_of_instances d + n,
       max_instance := GetMaxInstanceNumber ns\<rparr>) }"

text \<open>The class object answers to number 0.\<close>

definition has_instance :: "u16 list \<Rightarrow> u16 \<Rightarrow> bool" where
  "has_instance ns n \<longleftrightarrow> n = 0 \<or> n \<in> set ns"

definition AddCipInstance :: "(size_t \<Rightarrow> bool) \<Rightarrow> nat \<Rightarrow> u16 \<Rightarrow> CipClassData \<Rightarrow> CipClassData option" where
  "AddCipInstance allocates attributes instance_id d = do {
     d \<leftarrow> (if has_instance (instance_chain d) instance_id then Some d
       else do {
         (new, d) \<leftarrow> AddCipInstances allocates attributes 1 d;
         Some (d\<lparr>instance_chain := (instance_chain d)[length (instance_chain d) - 1 := instance_id]\<rparr>) });
     Some (d\<lparr>max_instance := GetMaxInstanceNumber (instance_chain d)\<rparr>) }"

section \<open>Registered classes\<close>

definition class_data :: "u32 \<Rightarrow> stack \<Rightarrow> CipClassData option" where
  "class_data code s = map_of (g_classes s) code"

definition class_instances :: "u32 \<Rightarrow> stack \<Rightarrow> u16 list option" where
  "class_instances code s = map_option instance_chain (class_data code s)"

definition set_class_data :: "u32 \<Rightarrow> CipClassData \<Rightarrow> stack \<Rightarrow> stack" where
  "set_class_data code d s =
     s\<lparr>g_classes := map (\<lambda>(c, e). if c = code then (c, d) else (c, e)) (g_classes s)\<rparr>"

text \<open>The numbers of attributes, the highest attribute numbers and the numbers of services of the class object
  and of the instances.\<close>

record class_size =
  size_class_attributes :: nat
  size_highest_class_attribute :: u16
  size_class_services :: nat
  size_instance_attributes :: nat
  size_highest_instance_attribute :: u16
  size_instance_services :: nat

definition RegisterCipClass :: "(size_t \<Rightarrow> bool) \<Rightarrow> u32 \<Rightarrow> CipClassData \<Rightarrow> stack \<Rightarrow> EipStatus \<times> stack" where
  "RegisterCipClass allocates code d s =
     (if CipCalloc allocates 1 sizeof_CipMessageRouterObject
      then (kEipStatusOk, s\<lparr>g_classes := g_classes s @ [(code, d)]\<rparr>) else (kEipStatusError, s))"

text \<open>The three masks of the class object or of the instances.\<close>

definition masks_allocated :: "(size_t \<Rightarrow> bool) \<Rightarrow> u16 \<Rightarrow> bool" where
  "masks_allocated allocates highest \<longleftrightarrow> CipCalloc allocates (1 + unat highest div 8) 1"

text \<open>What \<^verbatim>\<open>CreateCipClass\<close> does to the state: a class that was not registered before gets its structures, the
  metaclass included, its first instances and an entry in the message router; with \<open>kEipStatusError\<close> for
  the missing memory of the entry the caller gets the null pointer.\<close>

definition register_class :: "(size_t \<Rightarrow> bool) \<Rightarrow> u32 \<Rightarrow> class_size \<Rightarrow> u16 \<Rightarrow> string \<Rightarrow> u16 \<Rightarrow> stack
    \<Rightarrow> (EipStatus \<times> stack) option" where
  "register_class allocates code z n name revision s = do {
     c_assert (class_data code s = None);
     c_assert (CipCalloc allocates 1 sizeof_CipClass);
     let d = \<lparr>class_revision = revision, max_instance = 0, number_of_instances = 0, instance_chain = []\<rparr>;
     c_assert (0 < length name);
     c_assert (CipCalloc allocates (length name + 1) 1);
     c_assert (CipCalloc allocates 1 (length name + 6));
     c_assert (CipCalloc allocates (size_class_attributes z + 7) sizeof_CipAttributeStruct);
     c_assert (array_allocated allocates (size_class_services z) sizeof_CipServiceStruct);
     c_assert (array_allocated allocates (size_instance_services z) sizeof_CipServiceStruct);
     d \<leftarrow> (if n > 0
       then do { (_, d) \<leftarrow> AddCipInstances allocates (size_instance_attributes z) n d; Some d } else Some d);
     let (status, s) = RegisterCipClass allocates code d s;
     if status = kEipStatusError then Some (kEipStatusError, s)
     else do {
       c_assert (masks_allocated allocates (size_highest_class_attribute z));
       c_assert (masks_allocated allocates (size_highest_instance_attribute z));
       Some (kEipStatusOk, s) } }"

section \<open>Creating, deleting and resetting\<close>

text \<open>A callback gets the instance, the request and the response; \<open>None\<close> is the null pointer.\<close>

type_synonym cip_callback =
  "u16 \<Rightarrow> CipMessageRouterRequest \<Rightarrow> CipMessageRouterResponse \<Rightarrow> stack
   \<Rightarrow> (EipStatus \<times> CipMessageRouterResponse \<times> stack) option"

record class_callbacks =
  PreCreateCallback :: "cip_callback option"
  PostCreateCallback :: "cip_callback option"
  PreDeleteCallback :: "cip_callback option"
  PostDeleteCallback :: "cip_callback option"
  PreResetCallback :: "cip_callback option"
  PostResetCallback :: "cip_callback option"

definition no_callbacks :: class_callbacks where
  "no_callbacks = \<lparr>PreCreateCallback = None, PostCreateCallback = None, PreDeleteCallback = None,
     PostDeleteCallback = None, PreResetCallback = None, PostResetCallback = None\<rparr>"

definition run_callback :: "cip_callback option \<Rightarrow> cip_callback" where
  "run_callback f i request r s = (case f of None \<Rightarrow> Some (kEipStatusOk, r, s) | Some f \<Rightarrow> f i request r s)"

definition service_header :: "u8 \<Rightarrow> CipMessageRouterRequest \<Rightarrow> CipMessageRouterResponse
    \<Rightarrow> CipMessageRouterResponse" where
  "service_header status request r = r\<lparr>message := InitializeENIPMessage,
     reply_service := 0x80 OR service request, general_status := status, size_of_additional_status := 0\<rparr>"

definition CipCreateService :: "(size_t \<Rightarrow> bool) \<Rightarrow> nat \<Rightarrow> class_callbacks \<Rightarrow> ('addr, stack) service_fn" where
  "CipCreateService allocates attributes callbacks i request r originator session s = do {
     let r = service_header kCipErrorSuccess request r;
     let code = ucast (class_id (request_path request));
     _ \<leftarrow> class_data code s;
     (internal_state, r, s) \<leftarrow> run_callback (PreCreateCallback callbacks) i request r s;
     if kEipStatusOk = internal_state
     then do {
       d \<leftarrow> class_data code s;
       (new, d) \<leftarrow> AddCipInstances allocates attributes 1 d;
       let s = set_class_data code d s;
       (_, r, s) \<leftarrow> run_callback (PostCreateCallback callbacks) (hd new) request r s;
       Some (kEipStatusOkSend, r, s) }
     else Some (kEipStatusOkSend, r, s) }"

text \<open>The chain loses its first instance of the number.  Deleting instance 0 would free the class object
  that stays registered: the model stops there.\<close>

definition CipDeleteService :: "class_callbacks \<Rightarrow> u32 \<Rightarrow> ('addr, stack) service_fn" where
  "CipDeleteService callbacks code i request r originator session s = do {
     let r = service_header kCipErrorInstanceNotDeletable request r;
     (internal_state, r, s) \<leftarrow> run_callback (PreDeleteCallback callbacks) i request r s;
     if kEipStatusOk = internal_state
     then do {
       d \<leftarrow> class_data code s;
       c_assert (i \<noteq> 0 \<and> instance_chain d \<noteq> []);
       let s = set_class_data code (d\<lparr>instance_chain := remove1 i (instance_chain d)\<rparr>) s;
       (_, r, s) \<leftarrow> run_callback (PostDeleteCallback callbacks) i request r s;
       d \<leftarrow> class_data code s;
       Some (kEipStatusOk, r\<lparr>general_status := kCipErrorSuccess\<rparr>,
         set_class_data code (d\<lparr>number_of_instances := number_of_instances d - 1,
           max_instance := GetMaxInstanceNumber (instance_chain d)\<rparr>) s) }
     else Some (kEipStatusOk, r, s) }"

definition CipResetService :: "class_callbacks \<Rightarrow> ('addr, stack) service_fn" where
  "CipResetService callbacks i request r originator session s = do {
     let r = service_header kCipErrorSuccess request r;
     (internal_state, r, s) \<leftarrow> run_callback (PreResetCallback callbacks) i request r s;
     if kEipStatusError \<noteq> internal_state
     then do {
       (_, r, s) \<leftarrow> run_callback (PostResetCallback callbacks) i request r s;
       Some (internal_state, r, s) }
     else Some (internal_state, r, s) }"

section \<open>Properties\<close>

lemma find_free_number_fresh: "find_free_number k n ns = Some m \<Longrightarrow> m \<notin> set ns"
  by (induction k n ns rule: find_free_number.induct) (auto split: if_splits)

lemma find_free_number_None:
  "find_free_number k n ns = None \<Longrightarrow> (\<forall>i < k. n + of_nat i \<in> set ns)"
proof (induction k n ns rule: find_free_number.induct)
  case (2 k n ns)
  then have n: "n \<in> set ns" and IH: "\<forall>i < k. n + 1 + of_nat i \<in> set ns"
    by (auto split: if_splits)
  show ?case
  proof (intro allI impI)
    fix i
    assume "i < Suc k"
    then show "n + of_nat i \<in> set ns"
      using n IH by (cases i) (auto simp: add.assoc)
  qed
qed simp

lemma find_free_number_found:
  assumes "length ns < 2 ^ 16"
  shows "find_free_number (Suc (length ns)) n ns \<noteq> None"
proof
  assume "find_free_number (Suc (length ns)) n ns = None"
  then have "\<forall>i < Suc (length ns). n + of_nat i \<in> set ns"
    by (rule find_free_number_None)
  then have "(\<lambda>i. n + of_nat i) ` {..< Suc (length ns)} \<subseteq> set ns"
    by auto
  moreover have "inj_on (\<lambda>i. n + of_nat i) {..< Suc (length ns)}"
  proof (rule inj_onI)
    fix i j
    assume a: "i \<in> {..< Suc (length ns)}" "j \<in> {..< Suc (length ns)}"
      and "n + of_nat i = n + of_nat j"
    then have "(of_nat i :: u16) = of_nat j"
      by simp
    then have "unat (of_nat i :: u16) = unat (of_nat j :: u16)"
      by simp
    then have "i mod 2 ^ 16 = j mod 2 ^ 16"
      by (simp only: unat_of_nat) simp
    then show "i = j"
      using a assms by simp
  qed
  ultimately have "Suc (length ns) \<le> card (set ns)"
    by (metis card_image card_lessThan card_mono finite_set)
  then show False
    using card_length [of ns] by simp
qed

text \<open>The search never reaches 0 while a class has fewer than 65535 instances: every number below the
  place of the search is in use.\<close>

lemma find_free_number_first:
  "find_free_number k (of_nat a) ns = Some m \<Longrightarrow> \<forall>j. 0 < j \<and> j < a \<longrightarrow> of_nat j \<in> set ns
   \<Longrightarrow> \<exists>b. m = of_nat b \<and> a \<le> b \<and> (\<forall>j. 0 < j \<and> j < b \<longrightarrow> of_nat j \<in> set ns)"
proof (induction k arbitrary: a)
  case (Suc k)
  show ?case
  proof (cases "of_nat a \<in> set ns")
    case True
    then have "find_free_number k (of_nat (Suc a)) ns = Some m"
      using Suc.prems(1) by (simp add: add.commute)
    moreover have "\<forall>j. 0 < j \<and> j < Suc a \<longrightarrow> of_nat j \<in> set ns"
      using Suc.prems(2) True by (auto simp: less_Suc_eq)
    ultimately show ?thesis
      using Suc.IH Suc_leD by blast
  next
    case False
    then show ?thesis
      using Suc.prems by auto
  qed
qed simp

lemma low_numbers_used:
  assumes "\<forall>j. 0 < j \<and> j < b \<longrightarrow> (of_nat j :: u16) \<in> set ns" and "length ns < 2 ^ 16 - 1"
  shows "b \<le> Suc (length ns)"
proof (rule ccontr)
  assume "\<not> b \<le> Suc (length ns)"
  then have "of_nat ` {1..Suc (length ns)} \<subseteq> set ns"
    using assms(1) by auto
  moreover have "inj_on (of_nat :: nat \<Rightarrow> u16) {1..Suc (length ns)}"
    using assms(2) by (intro inj_onI) (auto simp: of_nat_inverse word_of_nat_eq_iff take_bit_nat_eq_self)
  ultimately have "Suc (length ns) \<le> card (set ns)"
    by (metis card_image card_atLeastAtMost card_mono diff_Suc_1 finite_set)
  then show False
    using card_length [of ns] by simp
qed

text \<open>There is memory for instances with that many attributes.\<close>

definition instance_memory :: "(size_t \<Rightarrow> bool) \<Rightarrow> nat \<Rightarrow> bool" where
  "instance_memory allocates attributes \<longleftrightarrow> CipCalloc allocates 1 sizeof_CipInstance
     \<and> array_allocated allocates attributes sizeof_CipAttributeStruct"

lemma add_instances_spec:
  "instance_memory al as \<Longrightarrow> distinct ns \<Longrightarrow> 0 \<notin> set ns \<Longrightarrow> \<forall>j. 0 < j \<and> j < a \<longrightarrow> of_nat j \<in> set ns \<Longrightarrow> 0 < a \<Longrightarrow> length ns + k < 2 ^ 16
   \<Longrightarrow> \<exists>new. add_instances al as k (of_nat a) ns = Some (new, ns @ new) \<and> length new = k
     \<and> distinct (ns @ new) \<and> 0 \<notin> set new"
proof (induction k arbitrary: a ns)
  case (Suc k)
  obtain m where m: "find_free_number (Suc (length ns)) (of_nat a) ns = Some m"
    using find_free_number_found [of ns "of_nat a"] Suc.prems(6) by auto
  obtain b where b: "m = of_nat b" "a \<le> b" "\<forall>j. 0 < j \<and> j < b \<longrightarrow> of_nat j \<in> set ns"
    using find_free_number_first [OF m Suc.prems(4)] by blast
  have "b < 2 ^ 16"
    using low_numbers_used [OF b(3)] Suc.prems(6) by simp
  then have pos: "m \<noteq> 0"
    using b(1,2) Suc.prems(5) by (auto simp: word_of_nat_eq_0_iff dest: dvd_imp_le)
  have fresh: "m \<notin> set ns"
    using find_free_number_fresh [OF m] .
  have "\<forall>j. 0 < j \<and> j < Suc b \<longrightarrow> of_nat j \<in> set (ns @ [m])"
    using b(1,3) by (auto simp: less_Suc_eq)
  then obtain new where "add_instances al as k (of_nat (Suc b)) (ns @ [m]) = Some (new, (ns @ [m]) @ new)" "length new = k"
    "distinct ((ns @ [m]) @ new)" "0 \<notin> set new"
    using Suc.IH [of "ns @ [m]" "Suc b"] Suc.prems fresh pos by auto
  then show ?case
    using m pos b(1) Suc.prems(1) by (simp add: add.commute instance_memory_def del: find_free_number.simps)
qed simp

text \<open>The counts of a class agree with its chain, whose numbers are distinct and not 0.\<close>

definition class_wf :: "CipClassData \<Rightarrow> bool" where
  "class_wf d \<longleftrightarrow> distinct (instance_chain d) \<and> 0 \<notin> set (instance_chain d)
     \<and> number_of_instances d = of_nat (length (instance_chain d))
     \<and> max_instance d = GetMaxInstanceNumber (instance_chain d)"

lemma AddCipInstances_wf:
  assumes "class_wf d" and "length (instance_chain d) + unat n < 2 ^ 16" and "instance_memory al as"
  shows "\<exists>new. AddCipInstances al as n d = Some (new, d\<lparr>instance_chain := instance_chain d @ new,
      number_of_instances := number_of_instances d + n, max_instance := GetMaxInstanceNumber (instance_chain d @ new)\<rparr>)
    \<and> length new = unat n \<and> class_wf (d\<lparr>instance_chain := instance_chain d @ new,
      number_of_instances := number_of_instances d + n, max_instance := GetMaxInstanceNumber (instance_chain d @ new)\<rparr>)"
proof -
  have "\<forall>j. 0 < j \<and> j < (1 :: nat) \<longrightarrow> of_nat j \<in> set (instance_chain d)"
    by simp
  from add_instances_spec [OF assms(3) _ _ this, of "unat n"] assms show ?thesis
    by (auto simp: AddCipInstances_def class_wf_def)
qed

text \<open>Adding instances to a class succeeds while there are numbers and memory left: the new numbers are
  distinct, unused and not 0, they follow the existing instances in the chain, and the counts of the class
  stay in step with the chain.\<close>

theorem added_instances_are_new:
  assumes "class_wf d" and "length (instance_chain d) + unat n < 2 ^ 16" and "instance_memory al as"
  shows "\<exists>new d'. AddCipInstances al as n d = Some (new, d') \<and> instance_chain d' = instance_chain d @ new
    \<and> length new = unat n \<and> class_wf d'"
  using AddCipInstances_wf [OF assms] by fastforce

definition example_class_data :: CipClassData where
  "example_class_data = \<lparr>class_revision = 1, max_instance = 3, number_of_instances = 2, instance_chain = [1, 3]\<rparr>"

lemma example_class_data_wf: "class_wf example_class_data"
  by (simp add: class_wf_def example_class_data_def GetMaxInstanceNumber_def)

theorem added_instances_are_new_witness:
  "\<exists>d. AddCipInstances (\<lambda>n. n \<le> 512) 7 3 example_class_data = Some ([2, 4, 5], d) \<and> class_wf d"
proof -
  have "map_option fst (AddCipInstances (\<lambda>n. n \<le> 512) 7 3 example_class_data) = Some [2, 4, 5]"
    by code_simp
  then show ?thesis
    using added_instances_are_new [OF example_class_data_wf, of 3 "\<lambda>n. n \<le> 512" 7]
    by (auto simp: example_class_data_def instance_memory_def array_allocated_def CipCalloc_def sizes)
qed

lemma map_of_set: "map_of cs code = Some d \<Longrightarrow>
  map_of (map (\<lambda>(c, e). if c = code then (c, d') else (c, e)) cs) code = Some d'"
  by (induction cs) (auto split: prod.splits if_splits)

lemma set_same: "map_of cs code = Some d \<Longrightarrow> distinct (map fst cs) \<Longrightarrow>
  map (\<lambda>(c, e). if c = code then (c, d) else (c, e)) cs = cs"
  by (rule map_idI) (auto simp: map_of_eq_Some_iff dest: eq_key_imp_eq_value)

lemma class_data_set [simp]: "class_data code s = Some d \<Longrightarrow> class_data code (set_class_data code d' s) = Some d'"
  by (simp add: class_data_def set_class_data_def map_of_set)

lemma set_class_data_twice [simp]: "set_class_data code d (set_class_data code d' s) = set_class_data code d s"
  by (simp add: set_class_data_def comp_def case_prod_unfold if_distrib cong: if_cong)

lemma set_class_data_same: "class_data code s = Some d \<Longrightarrow> distinct (map fst (g_classes s)) \<Longrightarrow> set_class_data code d s = s"
  by (simp add: class_data_def set_class_data_def set_same)

text \<open>C32: creating and deleting an object of a class without callbacks that has numbers and memory left for
  one more instance: Create answers success and adds one new instance at the end of the chain; Delete on this
  instance writes a success reply and leaves the state as it was before, the counts included.  Delete returns
  \<open>kEipStatusOk\<close>, whose value is 0, not the positive status that \<^verbatim>\<open>cip/cipcommon.h\<close> documents for success.\<close>

theorem delete_undoes_create:
  assumes "class_data code s = Some d" and "class_wf d" and "length (instance_chain d) + 1 < 2 ^ 16"
    and "distinct (map fst (g_classes s))" and "code = ucast (class_id (request_path request))"
    and "instance_memory al as"
  shows "\<exists>i r1 s1 d1 r2. CipCreateService al as no_callbacks j request r peer1 h1 s = Some (kEipStatusOkSend, r1, s1)
    \<and> general_status r1 = kCipErrorSuccess
    \<and> class_data code s1 = Some d1 \<and> instance_chain d1 = instance_chain d @ [i] \<and> i \<notin> set (instance_chain d) \<and> class_wf d1
    \<and> CipDeleteService no_callbacks code i request' r' peer2 h2 s1 = Some (kEipStatusOk, r2, s)
    \<and> general_status r2 = kCipErrorSuccess"
proof -
  obtain new where new: "AddCipInstances al as 1 d = Some (new, d\<lparr>instance_chain := instance_chain d @ new,
      number_of_instances := number_of_instances d + 1, max_instance := GetMaxInstanceNumber (instance_chain d @ new)\<rparr>)"
    "length new = 1" "class_wf (d\<lparr>instance_chain := instance_chain d @ new,
      number_of_instances := number_of_instances d + 1, max_instance := GetMaxInstanceNumber (instance_chain d @ new)\<rparr>)"
    using AddCipInstances_wf [OF assms(2) _ assms(6), of 1] assms(3) by auto
  obtain i where i: "new = [i]"
    using new(2) by (auto simp: length_Suc_conv)
  have fresh: "i \<notin> set (instance_chain d)" "i \<noteq> 0"
    using new(3) by (auto simp: class_wf_def i)
  have same: "d\<lparr>instance_chain := instance_chain d, number_of_instances := number_of_instances d,
      max_instance := GetMaxInstanceNumber (instance_chain d)\<rparr> = d"
    using assms(2) by (simp add: class_wf_def)
  show ?thesis
    using new(1,3) fresh assms(1,4) same
    by (simp add: CipCreateService_def CipDeleteService_def no_callbacks_def run_callback_def service_header_def
        flip: assms(5)) (simp add: i remove1_append set_class_data_same)
qed

theorem delete_undoes_create_witness:
  "\<exists>r1 s1. CipCreateService (\<lambda>n. n \<le> 512) 7 no_callbacks 0 (zero_request\<lparr>request_path := \<lparr>path_size = 2, class_id = 4,
        instance_number = 0, attribute_number = 0\<rparr>\<rparr>) InitializeMessageRouterResponse () 0
      (initial_stack\<lparr>g_classes := [(4, example_class_data)]\<rparr>) = Some (kEipStatusOkSend, r1, s1)
    \<and> general_status r1 = kCipErrorSuccess"
proof -
  let ?q = "zero_request\<lparr>request_path := \<lparr>path_size = 2, class_id = 4, instance_number = 0, attribute_number = 0\<rparr>\<rparr>"
  let ?s = "initial_stack\<lparr>g_classes := [(4, example_class_data)]\<rparr>"
  have "class_data 4 ?s = Some example_class_data"
    by (simp add: class_data_def)
  moreover have "length (instance_chain example_class_data) + 1 < 2 ^ 16"
    by (simp add: example_class_data_def)
  moreover have "distinct (map fst (g_classes ?s))"
    by simp
  moreover have "4 = (ucast (class_id (request_path ?q)) :: u32)"
    by simp
  moreover have "instance_memory (\<lambda>n. n \<le> 512) 7"
    by (simp add: instance_memory_def array_allocated_def CipCalloc_def sizes)
  ultimately show ?thesis
    using delete_undoes_create [of 4 ?s example_class_data ?q "\<lambda>n. n \<le> 512" 7 0 InitializeMessageRouterResponse "()" 0
        zero_request InitializeMessageRouterResponse "()" 0] example_class_data_wf by blast
qed

end
