(* ===== verification/Assembly.thy ===== *)
theory Assembly
  imports Cip_Class
begin

text \<open>
  The assembly objects (\<^verbatim>\<open>cip/cipassembly.c\<close>), with the callbacks and the assemblies of the application
  (\<^verbatim>\<open>ports/POSIX/sample_application/sampleapplication.c\<close>).

  The byte array behind attribute 3 of assembly \<open>n\<close> is
  \<open>g_assembly_data s n\<close>; \<open>None\<close> is the null pointer of length 0 that the heartbeat assemblies have.
\<close>

section \<open>Assemblies\<close>

definition assembly_length :: "u16 \<Rightarrow> stack \<Rightarrow> u16" where
  "assembly_length n s = (case g_assembly_data s n of None \<Rightarrow> 0 | Some bs \<Rightarrow> of_nat (length bs))"

text \<open>The class has no instances at first; its services and callbacks are in the table.  The status is an
  error for the null pointer.\<close>

definition assembly_class_size :: class_size where
  "assembly_class_size = \<lparr>size_class_attributes = 0, size_highest_class_attribute = 7, size_class_services = 1,
     size_instance_attributes = 2, size_highest_instance_attribute = 4, size_instance_services = 2\<rparr>"

definition CreateAssemblyClass :: "(size_t \<Rightarrow> bool) \<Rightarrow> stack \<Rightarrow> (EipStatus \<times> stack) option" where
  "CreateAssemblyClass allocates s = register_class allocates kCipAssemblyClassCode assembly_class_size 0 ''assembly'' 2 s"

definition CipAssemblyInitialize :: "(size_t \<Rightarrow> bool) \<Rightarrow> stack \<Rightarrow> (EipStatus \<times> stack) option" where
  "CipAssemblyInitialize allocates s = CreateAssemblyClass allocates s"

text \<open>An instance of the class has room for two attributes, which the first call fills: a second call
  with the same number stops in the assertion of \<^verbatim>\<open>InsertAttribute\<close>.  The octets are those the byte
  array gives access to; without memory for the byte array the instance stays without attributes.\<close>

definition CreateAssemblyObject :: "(size_t \<Rightarrow> bool) \<Rightarrow> u16 \<Rightarrow> buf option \<Rightarrow> u16 \<Rightarrow> stack \<Rightarrow> stack option" where
  "CreateAssemblyObject allocates instance_id p len s = do {
     (created, s) \<leftarrow> (if class_data kCipAssemblyClassCode s = None then CreateAssemblyClass allocates s
       else Some (kEipStatusOk, s));
     if created = kEipStatusError then Some s
     else do {
       d \<leftarrow> class_data kCipAssemblyClassCode s;
       c_assert (\<not> has_instance (instance_chain d) instance_id);
       d \<leftarrow> AddCipInstance allocates (size_instance_attributes assembly_class_size) instance_id d;
       let s = set_class_data kCipAssemblyClassCode d s;
       if \<not> CipCalloc allocates 1 sizeof_CipByteArray then Some s
       else Some (s\<lparr>g_assembly_data := (g_assembly_data s)
         (instance_id := (case p of None \<Rightarrow> None | Some p \<Rightarrow> Some (take (unat len) p)))\<rparr>) } }"

definition AfterAssemblyDataReceived :: "u16 \<Rightarrow> EipStatus" where
  "AfterAssemblyDataReceived n = kEipStatusOk"

definition BeforeAssemblyDataSend :: "u16 \<Rightarrow> stack \<Rightarrow> bool \<times> stack" where
  "BeforeAssemblyDataSend n s =
     (True, case g_assembly_data s n of None \<Rightarrow> s | Some bs \<Rightarrow> emit (sendDataToJava bs) s)"

text \<open>\<^verbatim>\<open>memcpy\<close> of the announced octets into the byte array.\<close>

definition set_assembly_octets :: "u16 \<Rightarrow> buf \<Rightarrow> stack \<Rightarrow> stack option" where
  "set_assembly_octets n p s =
     (case g_assembly_data s n of
        None \<Rightarrow> Some s
      | Some bs \<Rightarrow> (if length bs \<le> length p
          then Some (s\<lparr>g_assembly_data := (g_assembly_data s)(n := Some (take (length bs) p))\<rparr>)
          else None))"

definition NotifyAssemblyConnectedDataReceived :: "u16 \<Rightarrow> buf \<Rightarrow> size_t \<Rightarrow> stack \<Rightarrow> (EipStatus \<times> stack) option" where
  "NotifyAssemblyConnectedDataReceived n p len s =
     (if ucast (assembly_length n s) \<noteq> len then Some (kEipStatusError, s)
      else do {
        s \<leftarrow> set_assembly_octets n p s;
        Some (AfterAssemblyDataReceived n, s) })"

definition DecodeCipAssemblyAttribute3 :: "u16 \<Rightarrow> CipMessageRouterRequest \<Rightarrow> CipMessageRouterResponse \<Rightarrow> stack
    \<Rightarrow> (int \<times> CipMessageRouterResponse \<times> stack) option" where
  "DecodeCipAssemblyAttribute3 n request r s =
     (if request_data_size request < ucast (assembly_length n s)
      then Some (-1, r\<lparr>general_status := kCipErrorNotEnoughData\<rparr>, s)
      else if request_data_size request > ucast (assembly_length n s)
      then Some (-1, r\<lparr>general_status := kCipErrorTooMuchData\<rparr>, s)
      else do {
        s \<leftarrow> set_assembly_octets n (request_data request) s;
        Some (uint (assembly_length n s),
          (if AfterAssemblyDataReceived n \<noteq> kEipStatusOk
           then r\<lparr>general_status := kCipErrorInvalidAttributeValue\<rparr>
           else r\<lparr>general_status := kCipErrorSuccess\<rparr>), s) })"

section \<open>The assemblies of the application\<close>

text \<open>\<open>allocates\<close> says whether \<^verbatim>\<open>malloc\<close> of a size succeeds.\<close>

definition CreateDynamicAssembly :: "(size_t \<Rightarrow> bool) \<Rightarrow> u16 \<Rightarrow> size_t \<Rightarrow> stack \<Rightarrow> stack option" where
  "CreateDynamicAssembly allocates inst size_bytes s =
     (if allocates size_bytes
      then CreateAssemblyObject allocates inst (Some (replicate (unat size_bytes) 0)) (ucast size_bytes) s
      else Some s)"

definition DEMO_APP_HEARTBEAT_INPUT_ONLY_ASSEMBLY_NUM :: nat where
  "DEMO_APP_HEARTBEAT_INPUT_ONLY_ASSEMBLY_NUM = 152"
definition DEMO_APP_HEARTBEAT_LISTEN_ONLY_ASSEMBLY_NUM :: nat where
  "DEMO_APP_HEARTBEAT_LISTEN_ONLY_ASSEMBLY_NUM = 153"
definition DEMO_APP_EXPLICT_ASSEMBLY_NUM :: nat where
  "DEMO_APP_EXPLICT_ASSEMBLY_NUM = 154"

definition create_application_assemblies ::
    "(size_t \<Rightarrow> bool) \<Rightarrow> int \<times> int \<Rightarrow> int \<times> int \<Rightarrow> int \<times> int \<Rightarrow> stack \<Rightarrow> stack option" where
  "create_application_assemblies allocates input output config s = do {
     s \<leftarrow> CreateDynamicAssembly allocates (of_int (fst input)) (of_int (snd input)) s;
     s \<leftarrow> CreateDynamicAssembly allocates (of_int (fst output)) (of_int (snd output)) s;
     s \<leftarrow> CreateDynamicAssembly allocates (of_int (fst config)) (of_int (snd config)) s;
     s \<leftarrow> CreateAssemblyObject allocates (of_nat DEMO_APP_HEARTBEAT_INPUT_ONLY_ASSEMBLY_NUM) None 0 s;
     s \<leftarrow> CreateAssemblyObject allocates (of_nat DEMO_APP_HEARTBEAT_LISTEN_ONLY_ASSEMBLY_NUM) None 0 s;
     CreateAssemblyObject allocates (of_nat DEMO_APP_EXPLICT_ASSEMBLY_NUM) (Some (replicate 32 0)) 32 s }"

section \<open>Properties\<close>

text \<open>Octets survive the way into an assembly and, by the connected or the explicit path, are the same.\<close>

lemma set_assembly_octets_Some:
  assumes "set_assembly_octets n p s = Some s'" and "g_assembly_data s n = Some bs"
  shows "g_assembly_data s' n = Some (take (length bs) p)"
    and "length bs \<le> length p" and "m \<noteq> n \<Longrightarrow> g_assembly_data s' m = g_assembly_data s m"
  using assms by (auto simp: set_assembly_octets_def split: if_splits)

lemma set_assembly_octets_length:
  "set_assembly_octets n p s = Some s' \<Longrightarrow> assembly_length m s' = assembly_length m s"
  by (auto simp: set_assembly_octets_def assembly_length_def split: option.splits if_splits)

text \<open>The connected path and the explicit path into an assembly are the same: a message writes the
  byte array through one exactly when it does through the other, with the same result, and any
  other size leaves every assembly alone.\<close>

theorem assembly_writes_agree:
  shows "(NotifyAssemblyConnectedDataReceived n p len s = Some (kEipStatusOk, s')
      \<longleftrightarrow> DecodeCipAssemblyAttribute3 n (request\<lparr>request_data_size := len, request_data := p\<rparr>) r s
            = Some (uint (assembly_length n s), r\<lparr>general_status := kCipErrorSuccess\<rparr>, s'))
    \<and> (len \<noteq> ucast (assembly_length n s)
      \<longrightarrow> NotifyAssemblyConnectedDataReceived n p len s = Some (kEipStatusError, s)
       \<and> (\<exists>status. status \<in> {kCipErrorNotEnoughData, kCipErrorTooMuchData}
         \<and> DecodeCipAssemblyAttribute3 n (request\<lparr>request_data_size := len, request_data := p\<rparr>) r s
            = Some (-1, r\<lparr>general_status := status\<rparr>, s)))"
proof -
  have n: "uint (assembly_length n s) \<noteq> -1" "-1 \<noteq> uint (assembly_length n s)"
    by (metis uint_nonnegative not_one_le_zero neg_0_le_iff_le)+
  have "len < ucast (assembly_length n s) \<or> ucast (assembly_length n s) < len"
    if "len \<noteq> ucast (assembly_length n s)"
    using that by auto
  then show ?thesis
    using n by (auto simp: NotifyAssemblyConnectedDataReceived_def DecodeCipAssemblyAttribute3_def
        AfterAssemblyDataReceived_def bind_Some_iff)
      (simp only: set_assembly_octets_length)
qed

theorem assembly_writes_agree_witness:
  "\<exists>status. DecodeCipAssemblyAttribute3 101 (zero_request\<lparr>request_data_size := 2, request_data := [7, 8]\<rparr>)
      InitializeMessageRouterResponse (initial_stack\<lparr>g_assembly_data := \<lambda>n. Some [0, 0, 0]\<rparr>)
    = Some (-1, InitializeMessageRouterResponse\<lparr>general_status := status\<rparr>,
        initial_stack\<lparr>g_assembly_data := \<lambda>n. Some [0, 0, 0]\<rparr>)"
proof -
  have "(2 :: size_t) \<noteq> ucast (assembly_length 101 (initial_stack\<lparr>g_assembly_data := \<lambda>n. Some [0, 0, 0]\<rparr>))"
    by (simp add: assembly_length_def)
  then show ?thesis
    using assembly_writes_agree [of 101 "[7, 8]" 2 "initial_stack\<lparr>g_assembly_data := \<lambda>n. Some [0, 0, 0]\<rparr>"
        initial_stack zero_request InitializeMessageRouterResponse] by blast
qed

end
