(* ===== verification/Qos.thy ===== *)
theory Qos
  imports Stack_State Cip_Status
begin

text \<open>
  The quality of service object (\<^verbatim>\<open>cip/cipqos.c\<close>): the values a client writes, the values in use,
  and the priority of a connection that selects one of them.
\<close>

text \<open>The attribute is the octet \<open>attribute\<close>; the request's pointer is behind the octet that was read.\<close>

definition DecodeCipQoSAttribute :: "u8 \<Rightarrow> CipMessageRouterRequest \<Rightarrow> CipMessageRouterResponse
    \<Rightarrow> (int \<times> u8 \<times> CipMessageRouterRequest \<times> CipMessageRouterResponse) option" where
  "DecodeCipQoSAttribute attribute request r = do {
     (attribute_value_received, p) \<leftarrow> GetUsintFromMessage (request_data request);
     let request = request\<lparr>request_data := p\<rparr>;
     if attribute_value_received < 64
     then Some (1, attribute_value_received, request, r\<lparr>general_status := kCipErrorSuccess\<rparr>)
     else Some (-1, attribute, request, r\<lparr>general_status := kCipErrorInvalidAttributeValue\<rparr>) }"

definition CipQosGetDscpPriority :: "ConnectionObjectPriority \<Rightarrow> stack \<Rightarrow> u8" where
  "CipQosGetDscpPriority priority s =
     (case priority of
        kConnectionObjectPriorityLow \<Rightarrow> dscp_low (s_active_dscp s)
      | kConnectionObjectPriorityHigh \<Rightarrow> dscp_high (s_active_dscp s)
      | kConnectionObjectPriorityScheduled \<Rightarrow> dscp_scheduled (s_active_dscp s)
      | kConnectionObjectPriorityUrgent \<Rightarrow> dscp_urgent (s_active_dscp s)
      | kConnectionObjectPriorityExplicit \<Rightarrow> dscp_explicit_msg (s_active_dscp s))"

definition CipQosUpdateUsedSetQosValues :: "stack \<Rightarrow> stack" where
  "CipQosUpdateUsedSetQosValues s = s\<lparr>s_active_dscp := dscp (g_qos s)\<rparr>"

definition CipQosResetAttributesToDefaultValues :: "stack \<Rightarrow> stack" where
  "CipQosResetAttributesToDefaultValues s = s\<lparr>g_qos := \<lparr>q_frames_enable = 0, dscp = default_dscp\<rparr>\<rparr>"

lemma CipQosUpdateUsedSetQosValues_other [simp]:
  "conn (CipQosUpdateUsedSetQosValues s) = conn s"
  "connection_list (CipQosUpdateUsedSetQosValues s) = connection_list s"
  "g_registered_sessions (CipQosUpdateUsedSetQosValues s) = g_registered_sessions s"
  "g_qos (CipQosUpdateUsedSetQosValues s) = g_qos s"
  "s_active_dscp (CipQosUpdateUsedSetQosValues s) = dscp (g_qos s)"
  by (simp_all add: CipQosUpdateUsedSetQosValues_def)

text \<open>The values fit the six bits of a DSCP field.\<close>

definition dscp_wf :: "CipQosDscpValues \<Rightarrow> bool" where
  "dscp_wf v \<longleftrightarrow> list_all (\<lambda>x. x < 64) [dscp_event v, dscp_general v, dscp_urgent v, dscp_scheduled v,
     dscp_high v, dscp_low v, dscp_explicit_msg v]"

lemma default_dscp_wf: "dscp_wf default_dscp"
  by (simp add: dscp_wf_def default_dscp_def)

lemma DecodeCipQoSAttribute_bound:
  "attribute < 64 \<Longrightarrow> DecodeCipQoSAttribute attribute request r = Some (n, attribute', request', r')
   \<Longrightarrow> attribute' < 64"
  by (auto simp: DecodeCipQoSAttribute_def bind_Some_iff Let_def split: if_splits)

end
