(* ===== verification/Identity.thy ===== *)
theory Identity
  imports Qos Conn_Close Msg_Router
begin

text \<open>
  The identity object (\<^verbatim>\<open>cip/cipidentity.c\<close>): its setters, the status word with its extended status
  field, and the reset service with the two reset functions of the application
  (\<^verbatim>\<open>ports/POSIX/sample_application/sampleapplication.c\<close>).
\<close>

section \<open>Setters\<close>

definition set_identity :: "(CipIdentityObject \<Rightarrow> CipIdentityObject) \<Rightarrow> stack \<Rightarrow> stack" where
  "set_identity f s = s\<lparr>g_identity := f (g_identity s)\<rparr>"

definition kExtStatusMask :: u16 where "kExtStatusMask = 0x00F0"
definition kMajorFault :: u16 where "kMajorFault = 0x0050"
definition kAtLeastOneIoConnectionInRunMode :: u16 where "kAtLeastOneIoConnectionInRunMode = 0x0060"
definition kAtLeastOneIoConnectionEstablishedAllInIdleMode :: u16 where
  "kAtLeastOneIoConnectionEstablishedAllInIdleMode = 0x0070"
definition kMajorRecoverableFault :: u16 where "kMajorRecoverableFault = 0x0400"
definition kMajorUnrecoverableFault :: u16 where "kMajorUnrecoverableFault = 0x0800"

definition SetDeviceRevision :: "u8 \<Rightarrow> u8 \<Rightarrow> stack \<Rightarrow> stack" where
  "SetDeviceRevision major minor =
     set_identity (\<lambda>i. i\<lparr>identity_major_revision := major, identity_minor_revision := minor\<rparr>)"

definition SetDeviceSerialNumber :: "u32 \<Rightarrow> stack \<Rightarrow> stack" where
  "SetDeviceSerialNumber serial_number = set_identity (\<lambda>i. i\<lparr>identity_serial_number := serial_number\<rparr>)"

definition SetDeviceType :: "u16 \<Rightarrow> stack \<Rightarrow> stack" where
  "SetDeviceType type = set_identity (\<lambda>i. i\<lparr>identity_device_type := type\<rparr>)"

definition SetDeviceProductCode :: "u16 \<Rightarrow> stack \<Rightarrow> stack" where
  "SetDeviceProductCode code = set_identity (\<lambda>i. i\<lparr>identity_product_code := code\<rparr>)"

definition SetDeviceStatus :: "u16 \<Rightarrow> stack \<Rightarrow> stack" where
  "SetDeviceStatus status =
     set_identity (\<lambda>i. i\<lparr>identity_status := status, identity_ext_status := status AND kExtStatusMask\<rparr>)"

definition SetDeviceVendorId :: "u16 \<Rightarrow> stack \<Rightarrow> stack" where
  "SetDeviceVendorId v = set_identity (\<lambda>i. i\<lparr>identity_vendor_id := v\<rparr>)"

definition GetDeviceVendorId :: "stack \<Rightarrow> u16" where
  "GetDeviceVendorId s = identity_vendor_id (g_identity s)"

definition GetDeviceProductName :: "stack \<Rightarrow> u8 list" where
  "GetDeviceProductName s = identity_product_name (g_identity s)"

section \<open>The status word\<close>

definition MergeStatusAndExtStatus :: "CipIdentityObject \<Rightarrow> CipIdentityObject" where
  "MergeStatusAndExtStatus i =
     (let status_flags = identity_status i AND NOT kExtStatusMask;
          ext_status = identity_ext_status i AND kExtStatusMask;
          ext_status = (if 0 \<noteq> status_flags AND (kMajorRecoverableFault OR kMajorUnrecoverableFault)
                        then kMajorFault else ext_status)
      in i\<lparr>identity_status := status_flags OR ext_status\<rparr>)"

definition CipIdentitySetStatusFlags :: "u16 \<Rightarrow> stack \<Rightarrow> stack" where
  "CipIdentitySetStatusFlags status_flags = set_identity (\<lambda>i. MergeStatusAndExtStatus
     (i\<lparr>identity_status := identity_status i OR (status_flags AND NOT kExtStatusMask)\<rparr>))"

definition CipIdentityClearStatusFlags :: "u16 \<Rightarrow> stack \<Rightarrow> stack" where
  "CipIdentityClearStatusFlags status_flags = set_identity (\<lambda>i. MergeStatusAndExtStatus
     (i\<lparr>identity_status := identity_status i AND NOT (status_flags AND NOT kExtStatusMask)\<rparr>))"

definition CipIdentitySetExtendedDeviceStatus :: "u16 \<Rightarrow> stack \<Rightarrow> stack" where
  "CipIdentitySetExtendedDeviceStatus extended_status = set_identity (\<lambda>i. MergeStatusAndExtStatus
     (i\<lparr>identity_ext_status := extended_status AND kExtStatusMask\<rparr>))"

definition RunIdleChanged :: "u32 \<Rightarrow> stack \<Rightarrow> stack" where
  "RunIdleChanged run_idle_value s =
     (if 0x0001 AND run_idle_value = 1
      then CipIdentitySetExtendedDeviceStatus kAtLeastOneIoConnectionInRunMode s
      else CipIdentitySetExtendedDeviceStatus kAtLeastOneIoConnectionEstablishedAllInIdleMode s)"

definition EncodeRevision :: "CipIdentityObject \<Rightarrow> ENIPMessage \<Rightarrow> ENIPMessage" where
  "EncodeRevision i m =
     AddSintToMessage (identity_minor_revision i) (AddSintToMessage (identity_major_revision i) m)"

section \<open>Reset\<close>

definition ResetDevice :: "stack \<Rightarrow> (EipStatus \<times> stack) option" where
  "ResetDevice s = do {
     s \<leftarrow> CloseAllConnections s;
     Some (kEipStatusOk, CipQosUpdateUsedSetQosValues s) }"

definition ResetDeviceToInitialConfiguration :: "stack \<Rightarrow> (EipStatus \<times> stack) option" where
  "ResetDeviceToInitialConfiguration s = do {
     let s = s\<lparr>g_tcpip := (g_tcpip s)\<lparr>encapsulation_inactivity_timeout := 120\<rparr>\<rparr>;
     let s = CipQosResetAttributesToDefaultValues s;
     (_, s) \<leftarrow> ResetDevice s;
     Some (kEipStatusOk, s) }"

definition IdentityObjectPreResetCallback :: "CipMessageRouterRequest \<Rightarrow> CipMessageRouterResponse \<Rightarrow> stack
    \<Rightarrow> (EipStatus \<times> CipMessageRouterResponse \<times> stack) option" where
  "IdentityObjectPreResetCallback request r s =
     (if request_data_size request > 1
      then Some (kEipStatusOkSend, r\<lparr>general_status := kCipErrorTooMuchData\<rparr>, s)
      else do {
        reset_type \<leftarrow> (if request_data_size request = 1 then peek (request_data request) 0 else Some 0);
        if reset_type = 0
        then do {
          (status, s) \<leftarrow> ResetDevice s;
          Some (kEipStatusOkSend, (if kEipStatusError = status
            then r\<lparr>general_status := kCipErrorInvalidParameter\<rparr> else r), s) }
        else if reset_type = 1
        then do {
          (status, s) \<leftarrow> ResetDeviceToInitialConfiguration s;
          Some (kEipStatusOkSend, (if kEipStatusError = status
            then r\<lparr>general_status := kCipErrorInvalidParameter\<rparr> else r), s) }
        else Some (kEipStatusOkSend, r\<lparr>general_status := kCipErrorInvalidParameter\<rparr>, s) })"

section \<open>Properties\<close>

text \<open>What the status word stands for: the flags, and the extended status the application set.\<close>

type_synonym device_status = "u16 \<times> u16"

definition status_of :: "CipIdentityObject \<Rightarrow> device_status" where
  "status_of i = (identity_status i AND NOT kExtStatusMask, identity_ext_status i AND kExtStatusMask)"

fun shown :: "device_status \<Rightarrow> u16" where
  "shown (flags, ext) = flags OR (if bit flags 10 \<or> bit flags 11 then kMajorFault else ext)"

datatype status_op = Set_flags u16 | Clear_flags u16 | Set_extended u16

primrec run_status_op :: "status_op \<Rightarrow> stack \<Rightarrow> stack" where
  "run_status_op (Set_flags f) s = CipIdentitySetStatusFlags f s"
| "run_status_op (Clear_flags f) s = CipIdentityClearStatusFlags f s"
| "run_status_op (Set_extended x) s = CipIdentitySetExtendedDeviceStatus x s"

fun abstract_op :: "status_op \<Rightarrow> device_status \<Rightarrow> device_status" where
  "abstract_op (Set_flags f) (flags, ext) = (flags OR (f AND NOT kExtStatusMask), ext)"
| "abstract_op (Clear_flags f) (flags, ext) = (flags AND NOT f, ext)"
| "abstract_op (Set_extended x) (flags, ext) = (flags, x AND kExtStatusMask)"

lemma fault_bits: "flags AND (kMajorRecoverableFault OR kMajorUnrecoverableFault) \<noteq> 0
    \<longleftrightarrow> bit flags 10 \<or> bit flags 11" for flags :: u16
proof -
  have e: "kMajorRecoverableFault = push_bit 10 1" "kMajorUnrecoverableFault = push_bit 11 1"
    by (simp_all add: kMajorRecoverableFault_def kMajorUnrecoverableFault_def)
  show ?thesis
    unfolding e bit.conj_disj_distrib and_single_bit by (auto simp: or_eq_0_iff)
qed

lemma MergeStatus_shown: "identity_status (MergeStatusAndExtStatus i) = shown (status_of i)"
  unfolding MergeStatusAndExtStatus_def Let_def status_of_def shown.simps fault_bits [symmetric]
  by (simp add: eq_commute [of 0])

lemma mask_parts:
  "kMajorFault AND NOT kExtStatusMask = 0"
  "(x AND NOT kExtStatusMask) AND NOT kExtStatusMask = x AND NOT kExtStatusMask"
  "(x AND kExtStatusMask) AND NOT kExtStatusMask = 0"
  "(x AND kExtStatusMask) AND kExtStatusMask = x AND kExtStatusMask"
  by (simp_all add: kMajorFault_def kExtStatusMask_def and.assoc)

lemma status_of_Merge: "status_of (MergeStatusAndExtStatus i) = status_of i"
  unfolding MergeStatusAndExtStatus_def Let_def status_of_def
  by (simp add: bit.conj_disj_distrib2 mask_parts)

lemma run_status_op:
  "status_of (g_identity (run_status_op a s)) = abstract_op a (status_of (g_identity s))"
  "identity_status (g_identity (run_status_op a s))
     = shown (abstract_op a (status_of (g_identity s)))"
proof -
  have clear: "(x AND (NOT f OR kExtStatusMask)) AND NOT kExtStatusMask
      = (x AND NOT kExtStatusMask) AND NOT f" for x f
    by (rule bit_word_eqI) (auto simp: bit_simps)
  have 1: "status_of (g_identity (run_status_op a s)) = abstract_op a (status_of (g_identity s))"
    by (cases a; simp add: CipIdentitySetStatusFlags_def CipIdentityClearStatusFlags_def
        CipIdentitySetExtendedDeviceStatus_def set_identity_def status_of_Merge;
        simp add: status_of_def bit.conj_disj_distrib2 mask_parts clear)
  have "identity_status (g_identity (run_status_op a s)) = shown (status_of (g_identity (run_status_op a s)))"
    by (cases a) (simp_all add: CipIdentitySetStatusFlags_def CipIdentityClearStatusFlags_def
        CipIdentitySetExtendedDeviceStatus_def set_identity_def MergeStatus_shown status_of_Merge)
  with 1 show "identity_status (g_identity (run_status_op a s))
      = shown (abstract_op a (status_of (g_identity s)))"
    by simp
  show "status_of (g_identity (run_status_op a s)) = abstract_op a (status_of (g_identity s))"
    by (rule 1)
qed

lemma run_status_ops:
  "status_of (g_identity (fold run_status_op as s)) = fold abstract_op as (status_of (g_identity s))"
  by (induction as arbitrary: s) (simp_all add: run_status_op)

text \<open>C31: the status word implements its abstract state, the status flags and the extended status
  the application set last: after any sequence of the three operations the two are what the operations
  say, the word shows the flags with the extended status, and with the major fault code in its place
  exactly while one of the two major fault flags is set.  The extended status survives the fault: it is
  back once the flags are cleared.\<close>

theorem identity_status_refinement:
  assumes "as \<noteq> []"
  shows "status_of (g_identity (fold run_status_op as s)) = fold abstract_op as (status_of (g_identity s))
    \<and> identity_status (g_identity (fold run_status_op as s))
      = shown (fold abstract_op as (status_of (g_identity s)))"
proof -
  obtain bs a where "as = bs @ [a]"
    using assms rev_exhaust by blast
  then show ?thesis
    by (simp add: run_status_op run_status_ops)
qed

theorem identity_status_refinement_witness:
  "identity_status (g_identity (fold run_status_op
      [Set_extended 0x60, Set_flags 0x0404, Set_extended 0x70] initial_stack)) = 0x0454
   \<and> identity_status (g_identity (fold run_status_op
      [Set_extended 0x60, Set_flags 0x0404, Set_extended 0x70, Clear_flags 0x0400] initial_stack)) = 0x0074"
proof -
  have i: "status_of (g_identity initial_stack) = (0, 0)"
    by (simp add: initial_stack_def status_of_def)
  have "shown (fold abstract_op [Set_extended 0x60, Set_flags 0x0404, Set_extended 0x70] (0, 0)) = 0x0454"
    "shown (fold abstract_op
       [Set_extended 0x60, Set_flags 0x0404, Set_extended 0x70, Clear_flags 0x0400] (0, 0)) = 0x0074"
    by code_simp+
  moreover have e: "identity_status (g_identity (fold run_status_op (x # xs) initial_stack))
      = shown (fold abstract_op (x # xs) (0, 0))" for x xs
    using identity_status_refinement [of "x # xs" initial_stack] unfolding i by (simp only: list.distinct simp_thms)
  ultimately show ?thesis
    by (simp only: e)
qed

text \<open>The reset service answers a request with more than one octet, and a reset type other than 0
  and 1, with an error and leaves the device as it is; a reset that closes the connections activates the
  quality of service values the client wrote, and a reset to the initial configuration the defaults,
  together with the default inactivity time-out.\<close>

theorem reset_service_effect:
  assumes "IdentityObjectPreResetCallback request r s = Some (status, r', s')"
  shows "status = kEipStatusOkSend \<and>
    (if request_data_size request > 1 then r' = r\<lparr>general_status := kCipErrorTooMuchData\<rparr> \<and> s' = s
     else if request_data_size request = 0 \<or> hd (request_data request) = 0
     then r' = r \<and> (\<exists>s1. CloseAllConnections s = Some s1 \<and> s' = s1\<lparr>s_active_dscp := dscp (g_qos s1)\<rparr>)
     else if hd (request_data request) = 1
     then r' = r \<and> (\<exists>s1. CloseAllConnections (s\<lparr>g_tcpip := (g_tcpip s)\<lparr>encapsulation_inactivity_timeout := 120\<rparr>,
          g_qos := \<lparr>q_frames_enable = 0, dscp = default_dscp\<rparr>\<rparr>) = Some s1
        \<and> s' = s1\<lparr>s_active_dscp := dscp (g_qos s1)\<rparr>)
     else r' = r\<lparr>general_status := kCipErrorInvalidParameter\<rparr> \<and> s' = s)"
proof -
  have p: "peek (request_data request) 0 = Some b \<Longrightarrow> hd (request_data request) = b" for b
    by (cases "request_data request") auto
  have size: "\<not> 1 < n \<Longrightarrow> n \<noteq> 1 \<Longrightarrow> n = 0" for n :: size_t
    by (simp add: word_less_nat_alt word_unat_eq_iff)
  show ?thesis
    using assms
    by (auto simp: IdentityObjectPreResetCallback_def ResetDevice_def ResetDeviceToInitialConfiguration_def
        CipQosResetAttributesToDefaultValues_def CipQosUpdateUsedSetQosValues_def
        bind_Some_iff dest!: p size split: if_splits)
qed

theorem reset_service_effect_witness:
  "IdentityObjectPreResetCallback (zero_request\<lparr>request_data_size := 1, request_data := [5]\<rparr>)
      InitializeMessageRouterResponse initial_stack
    = Some (kEipStatusOkSend, InitializeMessageRouterResponse\<lparr>general_status := kCipErrorInvalidParameter\<rparr>,
        initial_stack)"
proof -
  obtain status r' s' where e: "IdentityObjectPreResetCallback
      (zero_request\<lparr>request_data_size := 1, request_data := [5]\<rparr>)
      InitializeMessageRouterResponse initial_stack = Some (status, r', s')"
    by (simp add: IdentityObjectPreResetCallback_def)
  show ?thesis
    using reset_service_effect [OF e] unfolding e by simp
qed

end
