(* ===== verification/Net_Sockets.thy ===== *)
theory Net_Sockets
  imports Qos
begin

text \<open>
  What the stack asks of the operating system, and the socket functions of
  \<^verbatim>\<open>ports/generic_networkhandler.c\<close> that the connections use.  A \<open>platform\<close> says what the system
  calls return: the call with index \<open>k\<close> returns \<open>os_result k\<close>, delivers \<open>os_octets k\<close> and names
  \<open>os_address k\<close>, and \<^verbatim>\<open>select\<close> finds the sockets ready that \<open>os_ready k\<close> names.  \<open>os_peer\<close> is
  \<^verbatim>\<open>getpeername\<close>, with 0 for a failure, \<open>os_rand\<close> the sequence of \<^verbatim>\<open>rand()\<close>; \<open>os_would_block\<close> and
  \<open>os_interrupted\<close> are the error numbers \<^verbatim>\<open>EWOULDBLOCK\<close> and \<^verbatim>\<open>EINTR\<close>.  Calls that only act on a
  socket are also recorded as events.
\<close>

record platform =
  platform_endianess :: OpenerEndianess
  os_result :: "nat \<Rightarrow> int"
  os_octets :: "nat \<Rightarrow> u8 list"
  os_address :: "nat \<Rightarrow> sockaddr_in"
  os_peer :: "socket_fd \<Rightarrow> u32"
  os_rand :: "nat \<Rightarrow> u32"
  os_ready :: "nat \<Rightarrow> socket_fd \<Rightarrow> bool"
  os_would_block :: int
  os_interrupted :: int

definition syscall :: "platform \<Rightarrow> stack \<Rightarrow> int \<times> stack" where
  "syscall pf s = (os_result pf (os_index s), s\<lparr>os_index := Suc (os_index s)\<rparr>)"

definition kOpenerEipIoUdpPort :: u16 where "kOpenerEipIoUdpPort = 0x08AE"

definition FD_SET :: "socket_fd \<Rightarrow> socket_fd list \<Rightarrow> socket_fd list" where
  "FD_SET f fs = List.insert f fs"

definition set_io_messaging :: "socket_fd \<Rightarrow> stack \<Rightarrow> stack" where
  "set_io_messaging f s = s\<lparr>g_network_status := (g_network_status s)\<lparr>udp_io_messaging := f\<rparr>\<rparr>"

text \<open>The socket of all I/O connections; every call opens a new one and forgets the old descriptor.\<close>

definition CreateUdpSocket :: "platform \<Rightarrow> stack \<Rightarrow> (socket_fd \<times> stack) option" where
  "CreateUdpSocket pf s = do {
     let (f, s) = syscall pf s;
     let s = set_io_messaging f s;
     if f = kEipInvalidSocket then Some (kEipInvalidSocket, s)
     else do {
       let (r, s) = syscall pf s;
       c_assert (0 \<le> r);
       let (r, s) = syscall pf s;
       if r < 0 then Some (kEipInvalidSocket, CloseUdpSocket f s)
       else do {
         let (r, s) = syscall pf s;
         if r < 0 then Some (kEipInvalidSocket, CloseUdpSocket f s)
         else Some (f, s\<lparr>master_socket := FD_SET f (master_socket s),
                highest_socket_handle := max f (highest_socket_handle s)\<rparr>) } } }"

text \<open>The value set is the result of \<^verbatim>\<open>setsockopt\<close>; on a failure the value returned is the error number.\<close>

definition SetQos :: "platform \<Rightarrow> ConnectionObjectPriority \<Rightarrow> stack \<Rightarrow> int \<times> stack" where
  "SetQos pf qos_for_socket s =
     (let f = udp_io_messaging (g_network_status s);
          s = emit (SetQosOnSocket f (CipQosGetDscpPriority qos_for_socket s)) s;
          (r, s) = syscall pf s
      in if r \<noteq> 0 then syscall pf s else (0, s))"

definition SetSocketOptionsMulticastProduce :: "platform \<Rightarrow> stack \<Rightarrow> int \<times> stack" where
  "SetSocketOptionsMulticastProduce pf s =
     (let f = udp_io_messaging (g_network_status s);
          (r, s) = (if mcast_ttl_value (g_tcpip s) \<noteq> 1
            then syscall pf (emit (setsockopt_multicast_ttl f (mcast_ttl_value (g_tcpip s))) s)
            else (0, s))
      in if r < 0 then syscall pf s
         else let (r, s) = syscall pf
                (emit (setsockopt_multicast_if f (network_ip_address (g_network_status s))) s)
              in if r < 0 then syscall pf s else (0, s))"

definition GetPeerAddress :: "platform \<Rightarrow> stack \<Rightarrow> u32" where
  "GetPeerAddress pf s = os_peer pf (g_current_active_tcp_socket s)"

definition SendUdpData :: "platform \<Rightarrow> sockaddr_in \<Rightarrow> ENIPMessage \<Rightarrow> stack \<Rightarrow> EipStatus \<times> stack" where
  "SendUdpData pf address m s =
     (let s = emit (sendto_event (udp_io_messaging (g_network_status s)) (payload m) address) s;
          (sent_length, s) = syscall pf s
      in if sent_length < 0 then (kEipStatusError, s)
         else if (of_int sent_length :: size_t) \<noteq> used_message_length m then (kEipStatusError, s)
         else (kEipStatusOk, s))"

text \<open>No socket function touches the connections.\<close>

definition same_connections :: "stack \<Rightarrow> stack \<Rightarrow> bool" where
  "same_connections s s' \<longleftrightarrow> conn s' = conn s \<and> connection_list s' = connection_list s
     \<and> g_registered_sessions s' = g_registered_sessions s \<and> g_timestamps s' = g_timestamps s
     \<and> g_classes s' = g_classes s \<and> g_assembly_data s' = g_assembly_data s
     \<and> g_exlusive_owner_connections s' = g_exlusive_owner_connections s"

lemma same_connections_refl [simp]: "same_connections s s"
  by (simp add: same_connections_def)

lemma same_connections_trans: "same_connections s t \<Longrightarrow> same_connections t u \<Longrightarrow> same_connections s u"
  by (simp add: same_connections_def)

lemma syscall_same: "syscall pf s = (r, s') \<Longrightarrow> same_connections s s'"
  by (auto simp: syscall_def same_connections_def)

lemma CreateUdpSocket_same: "CreateUdpSocket pf s = Some (f, s') \<Longrightarrow> same_connections s s'"
  by (auto simp: CreateUdpSocket_def syscall_def set_io_messaging_def same_connections_def CloseUdpSocket_def
      CloseSocket_def emit_def Let_def bind_Some_iff split: if_splits)

lemma SetQos_same: "SetQos pf q s = (r, s') \<Longrightarrow> same_connections s s'"
  by (auto simp: SetQos_def syscall_def same_connections_def emit_def Let_def split: if_splits)

lemma SetSocketOptionsMulticastProduce_same:
  "SetSocketOptionsMulticastProduce pf s = (r, s') \<Longrightarrow> same_connections s s'"
  by (auto simp: SetSocketOptionsMulticastProduce_def syscall_def same_connections_def emit_def Let_def
      split: if_splits)

lemma SendUdpData_same: "SendUdpData pf a m s = (r, s') \<Longrightarrow> same_connections s s'"
  by (auto simp: SendUdpData_def syscall_def same_connections_def emit_def Let_def split: if_splits)

text \<open>A platform for concrete runs: every call succeeds with a number, every peer has one address.\<close>

definition example_platform :: "int \<Rightarrow> platform" where
  "example_platform r = \<lparr>platform_endianess = kOpENerEndianessLittle, os_result = \<lambda>k. r,
     os_octets = \<lambda>k. [], os_address = \<lambda>k. zero_sockaddr, os_peer = \<lambda>f. 0x0100A8C0, os_rand = \<lambda>k. of_nat k,
     os_ready = \<lambda>k f. True, os_would_block = 11, os_interrupted = 4\<rparr>"

end
