(* ===== verification/Io_Connection.thy ===== *)
theory Io_Connection
  imports App_Connections Assembly Identity Net_Sockets Sessions
begin

text \<open>
  I/O connections (\<^verbatim>\<open>cip/cipioconnection.c\<close>) and class 3 connections
  (\<^verbatim>\<open>cip/cipclass3connection.c\<close>): establishing them from the buffer object of the forward open
  service, opening their communication channels, and the data they send and receive.

  \<open>pf\<close> is the platform.  A status of type \<open>u8\<close> is a \<^verbatim>\<open>CipError\<close>, one of type \<open>u16\<close> an extended
  status.
\<close>

section \<open>Settings\<close>

definition CipRunIdleHeaderSetO2T :: "bool \<Rightarrow> stack \<Rightarrow> stack" where
  "CipRunIdleHeaderSetO2T onoff s = s\<lparr>s_consume_run_idle := onoff\<rparr>"
definition CipRunIdleHeaderGetO2T :: "stack \<Rightarrow> bool" where
  "CipRunIdleHeaderGetO2T s = s_consume_run_idle s"
definition CipRunIdleHeaderSetT2O :: "bool \<Rightarrow> stack \<Rightarrow> stack" where
  "CipRunIdleHeaderSetT2O onoff s = s\<lparr>s_produce_run_idle := onoff\<rparr>"
definition CipRunIdleHeaderGetT2O :: "stack \<Rightarrow> bool" where
  "CipRunIdleHeaderGetT2O s = s_produce_run_idle s"

definition upd_conn :: "conn_ref \<Rightarrow> (CipConnectionObject \<Rightarrow> CipConnectionObject) \<Rightarrow> stack \<Rightarrow> stack" where
  "upd_conn c f s = set_conn c (f (conn s c)) s"

lemma conn_upd_conn [simp]: "conn (upd_conn c f s) d = (if d = c then f (conn s c) else conn s d)"
  by (simp add: upd_conn_def)

lemma upd_conn_other [simp]:
  "connection_list (upd_conn c f s) = connection_list s"
  "g_registered_sessions (upd_conn c f s) = g_registered_sessions s"
  "g_classes (upd_conn c f s) = g_classes s"
  "g_assembly_data (upd_conn c f s) = g_assembly_data s"
  "g_exlusive_owner_connections (upd_conn c f s) = g_exlusive_owner_connections s"
  by (simp_all add: upd_conn_def set_conn_def)

section \<open>Checks of a request\<close>

text \<open>The interval is in microseconds, the inhibit time in milliseconds; 256 stands for no segment.\<close>

definition ProcessProductionInhibitTime :: "CipConnectionObject \<Rightarrow> u16 \<times> CipConnectionObject" where
  "ProcessProductionInhibitTime x =
     (if kConnectionObjectTransportClassTriggerProductionTriggerCyclic
         = ConnectionObjectGetTransportClassTriggerProductionTrigger x
      then if 256 = ConnectionObjectGetProductionInhibitTime x
        then (kConnectionManagerExtendedStatusCodeSuccess, ConnectionObjectSetProductionInhibitTime
               (ucast (ConnectionObjectGetTToORequestedPacketInterval x div 4000)) x)
        else if ucast (ConnectionObjectGetProductionInhibitTime x)
                 > ConnectionObjectGetTToORequestedPacketInterval x div 1000
        then (kConnectionManagerExtendedStatusCodeProductionInhibitTimerGreaterThanRpi, x)
        else (kConnectionManagerExtendedStatusCodeSuccess, x)
      else (kConnectionManagerExtendedStatusCodeSuccess, x))"

definition SetIoConnectionCallbacks :: "CipConnectionObject \<Rightarrow> CipConnectionObject" where
  "SetIoConnectionCallbacks x = x\<lparr>connection_close_function := Some CloseIoConnection_fn,
     connection_timeout_function := Some HandleIoConnectionTimeOut_fn,
     connection_send_data_function := Some SendConnectedData_fn,
     connection_receive_data_function := Some HandleReceivedIoConnectionData_fn\<rparr>"

definition kAssemblyObjectInstanceAttributeIdData :: u32 where
  "kAssemblyObjectInstanceAttributeIdData = 3"

text \<open>\<^verbatim>\<open>GetCipInstance\<close> of the assembly class.  Instance 0 is the class object, whose attribute 3 is a
  counter and not a byte array: reading it as one is undefined.\<close>

definition assembly_instance :: "u16 \<Rightarrow> stack \<Rightarrow> instance_ref option option" where
  "assembly_instance n s = do {
     ns \<leftarrow> class_instances kCipAssemblyClassCode s;
     if n = 0 then None
     else Some (if n \<in> set ns then Some (kCipAssemblyClassCode, n) else None) }"

text \<open>What is left of the requested size for the data, and what the headers take of it.\<close>

definition data_and_header_size :: "CipConnectionObject \<Rightarrow> size_t \<Rightarrow> bool \<Rightarrow> u16 \<Rightarrow> int \<times> int" where
  "data_and_header_size x n run_idle len =
     (let is_heartbeat = (len = 0);
          data_size = sint (ucast n :: u32);
          diff_size = 0;
          (data_size, diff_size) =
            (if kConnectionObjectTransportClassTriggerTransportClass1
                = ConnectionObjectGetTransportClassTriggerTransportClass x
             then (data_size - 2, diff_size + 2) else (data_size, diff_size))
      in if run_idle \<and> data_size > 0 \<and> \<not> is_heartbeat then (data_size - 4, diff_size + 4)
         else (data_size, diff_size))"

definition SetupIoConnectionOriginatorToTargetConnectionPoint ::
    "conn_ref \<Rightarrow> conn_ref \<Rightarrow> stack \<Rightarrow> (u16 \<times> stack) option" where
  "SetupIoConnectionOriginatorToTargetConnectionPoint io c s = do {
     i \<leftarrow> assembly_instance (epath_instance_id (consumed_path (conn s io))) s;
     (case i of
        None \<Rightarrow> Some (kConnectionManagerExtendedStatusCodeInvalidConsumingApplicationPath, s)
      | Some instance \<Rightarrow>
          let s = upd_conn io (\<lambda>x. x\<lparr>consuming_instance := Some instance, consumed_connection_path_length := 6,
                    consumed_path := (consumed_path x)\<lparr>epath_attribute_id_or_connection_point :=
                      kAssemblyObjectInstanceAttributeIdData\<rparr>\<rparr>) s;
              len = assembly_length (snd instance) s;
              (data_size, diff_size) = data_and_header_size (conn s io)
                (ConnectionObjectGetOToTConnectionSize (conn s io)) (s_consume_run_idle s) len
          in if uint len \<noteq> data_size
             then Some (kConnectionManagerExtendedStatusCodeErrorInvalidOToTConnectionSize,
               upd_conn c (\<lambda>x. x\<lparr>correct_originator_to_target_size := len + of_int diff_size\<rparr>) s)
             else Some (kConnectionManagerExtendedStatusCodeSuccess, s)) }"

text \<open>The comparison with one connection that produces the same input; 0 is no conflict.\<close>

definition multicast_mismatch :: "CipConnectionObject \<Rightarrow> CipConnectionObject \<Rightarrow> u16" where
  "multicast_mismatch x y =
     (if epath_instance_id (produced_path x) \<noteq> epath_instance_id (produced_path y) then 0
      else if ConnectionObjectGetTToORequestedPacketInterval x
              \<noteq> ConnectionObjectGetTToORequestedPacketInterval y
      then kConnectionManagerExtendedStatusCodeErrorRpiValuesNotAcceptable
      else if ConnectionObjectGetTToOConnectionSizeType x \<noteq> ConnectionObjectGetTToOConnectionSizeType y
      then kConnectionManagerExtendedStatusCodeMismatchedTToONetworkConnectionFixVar
      else if ConnectionObjectGetTToOPriority x \<noteq> ConnectionObjectGetTToOPriority y
      then kConnectionManagerExtendedStatusCodeMismatchedTToONetworkConnectionPriority
      else if ConnectionObjectGetTransportClassTriggerTransportClass x
              \<noteq> ConnectionObjectGetTransportClassTriggerTransportClass y
      then kConnectionManagerExtendedStatusCodeMismatchedTransportClass
      else if ConnectionObjectGetTransportClassTriggerProductionTrigger x
              \<noteq> ConnectionObjectGetTransportClassTriggerProductionTrigger y
      then kConnectionManagerExtendedStatusCodeMismatchedTToOProductionTrigger
      else if ConnectionObjectGetProductionInhibitTime x \<noteq> ConnectionObjectGetProductionInhibitTime y
      then kConnectionManagerExtendedStatusCodeMismatchedTToOProductionInhibitTimeSegment
      else 0)"

fun first_mismatch :: "CipConnectionObject \<Rightarrow> CipConnectionObject list \<Rightarrow> u16" where
  "first_mismatch x [] = 0"
| "first_mismatch x (y # ys) =
     (if multicast_mismatch x y \<noteq> 0 then multicast_mismatch x y else first_mismatch x ys)"

definition SetupIoConnectionTargetToOriginatorConnectionPoint ::
    "conn_ref \<Rightarrow> conn_ref \<Rightarrow> stack \<Rightarrow> (u16 \<times> stack) option" where
  "SetupIoConnectionTargetToOriginatorConnectionPoint io c s = do {
     let conflict = (if kConnectionObjectConnectionTypeMulticast
           = ConnectionObjectGetTToOConnectionType (conn s io)
       then first_mismatch (conn s io) (map (conn s) (connection_list s)) else 0);
     if conflict \<noteq> 0 then Some (conflict, s)
     else do {
       i \<leftarrow> assembly_instance (epath_instance_id (produced_path (conn s io))) s;
       (case i of
          None \<Rightarrow> Some (kConnectionManagerExtendedStatusCodeInvalidProducingApplicationPath, s)
        | Some instance \<Rightarrow>
            let s = upd_conn io (\<lambda>x. x\<lparr>producing_instance := Some instance,
                      produced_path := (produced_path x)\<lparr>epath_attribute_id_or_connection_point :=
                        kAssemblyObjectInstanceAttributeIdData\<rparr>\<rparr>) s;
                len = assembly_length (snd instance) s;
                (data_size, diff_size) = data_and_header_size (conn s io)
                  (ConnectionObjectGetTToOConnectionSize (conn s io)) (s_produce_run_idle s) len
            in if uint len \<noteq> data_size
               then Some (kConnectionManagerExtendedStatusCodeErrorInvalidTToOConnectionSize,
                 upd_conn c (\<lambda>x. x\<lparr>correct_target_to_originator_size := len + of_int diff_size\<rparr>) s)
               else Some (kConnectionManagerExtendedStatusCodeSuccess, s)) } }"

section \<open>Communication channels\<close>

definition set_sockaddr_item :: "nat \<Rightarrow> (SocketAddressInfoItem \<Rightarrow> SocketAddressInfoItem) \<Rightarrow> stack \<Rightarrow> stack" where
  "set_sockaddr_item i f s = s\<lparr>g_common_packet_format_data_item :=
     (g_common_packet_format_data_item s)\<lparr>address_info_item :=
       (address_info_item (g_common_packet_format_data_item s))
         [i := f (address_info_item (g_common_packet_format_data_item s) ! i)]\<rparr>\<rparr>"

definition sockaddr_items :: "stack \<Rightarrow> SocketAddressInfoItem list" where
  "sockaddr_items s = address_info_item (g_common_packet_format_data_item s)"

definition AllocateSocketAddressInfoItem :: "u16 \<Rightarrow> stack \<Rightarrow> nat option" where
  "AllocateSocketAddressInfoItem type s =
     find (\<lambda>i. sockaddr_type_id (sockaddr_items s ! i) = 0
        \<or> sockaddr_type_id (sockaddr_items s ! i) = type) [0..<length (sockaddr_items s)]"

text \<open>The address of the any interface is 0.\<close>

definition OpenConsumingPointToPointConnection :: "platform \<Rightarrow> conn_ref \<Rightarrow> stack \<Rightarrow> (EipStatus \<times> stack) option" where
  "OpenConsumingPointToPointConnection pf c s =
     (case AllocateSocketAddressInfoItem kCipItemIdSocketAddressInfoOriginatorToTarget s of
        None \<Rightarrow> Some (kEipStatusError, s)
      | Some i \<Rightarrow> do {
          let port = htons (platform_endianess pf) kOpenerEipIoUdpPort;
          qos_for_socket \<leftarrow> ConnectionObjectGetTToOPriority (conn s c);
          let (error, s) = SetQos pf qos_for_socket s;
          if error \<noteq> 0 then Some (kEipStatusError, s)
          else do {
            let s = upd_conn c (\<lambda>x. x\<lparr>originator_address := \<lparr>sin_port = port, s_addr = GetPeerAddress pf s\<rparr>,
                      socket_consuming := udp_io_messaging (g_network_status s)\<rparr>) s;
            Some (kEipStatusOk, set_sockaddr_item i (\<lambda>item. item
              \<lparr>sockaddr_length := 16, sockaddr_type_id := kCipItemIdSocketAddressInfoOriginatorToTarget,
               item_sin_port := port, item_sin_addr := 0, nasin_zero := replicate 8 0,
               item_sin_family := htons (platform_endianess pf) AF_INET\<rparr>) s) } })"

text \<open>On a failure the value returned is \<^verbatim>\<open>kEipStatusError\<close>, which its caller only compares with success.\<close>

definition OpenProducingPointToPointConnection :: "platform \<Rightarrow> conn_ref \<Rightarrow> stack \<Rightarrow> (u8 \<times> stack) option" where
  "OpenProducingPointToPointConnection pf c s = do {
     let port = (case sockaddr_items s of
        i0 # is \<Rightarrow>
          if kCipItemIdSocketAddressInfoTargetToOriginator = sockaddr_type_id i0 then item_sin_port i0
          else (case is of
             i1 # _ \<Rightarrow> if kCipItemIdSocketAddressInfoTargetToOriginator = sockaddr_type_id i1
                then item_sin_port i1 else htons (platform_endianess pf) kOpenerEipIoUdpPort
           | [] \<Rightarrow> htons (platform_endianess pf) kOpenerEipIoUdpPort)
      | [] \<Rightarrow> htons (platform_endianess pf) kOpenerEipIoUdpPort);
     let s = upd_conn c (\<lambda>x. x\<lparr>remote_address := \<lparr>sin_port = port, s_addr = GetPeerAddress pf s\<rparr>\<rparr>) s;
     qos_for_socket \<leftarrow> ConnectionObjectGetTToOPriority (conn s c);
     let (error, s) = SetQos pf qos_for_socket s;
     if error \<noteq> 0 then Some (0xFF, s)
     else Some (kCipErrorSuccess,
            upd_conn c (\<lambda>x. x\<lparr>socket_producing := udp_io_messaging (g_network_status s)\<rparr>) s) }"

datatype UdpCommuncationDirection = kUdpCommuncationDirectionConsuming | kUdpCommuncationDirectionProducing

definition direction_type_id :: "UdpCommuncationDirection \<Rightarrow> u16" where
  "direction_type_id d = (case d of
     kUdpCommuncationDirectionConsuming \<Rightarrow> kCipItemIdSocketAddressInfoOriginatorToTarget
   | kUdpCommuncationDirectionProducing \<Rightarrow> kCipItemIdSocketAddressInfoTargetToOriginator)"

definition OpenMulticastConnection ::
    "platform \<Rightarrow> UdpCommuncationDirection \<Rightarrow> conn_ref \<Rightarrow> stack \<Rightarrow> (EipStatus \<times> stack) option" where
  "OpenMulticastConnection pf direction c s =
     (case find (\<lambda>j. sockaddr_type_id (sockaddr_items s ! j) = direction_type_id direction)
          [0..<length (sockaddr_items s)] of
        None \<Rightarrow> Some (kEipStatusError, s)
      | Some j \<Rightarrow> do {
          let e = platform_endianess pf;
          let s = (if kCipItemIdSocketAddressInfoTargetToOriginator = sockaddr_type_id (sockaddr_items s ! j)
             then set_sockaddr_item j (\<lambda>item. item\<lparr>item_sin_family := htons e AF_INET,
                item_sin_port := htons e kOpenerEipIoUdpPort,
                item_sin_addr := starting_multicast_address (mcast_config (g_tcpip s)),
                nasin_zero := replicate 8 0, sockaddr_length := 16\<rparr>) s
             else s);
          let item = sockaddr_items s ! j;
          if htons e AF_INET \<noteq> item_sin_family item then Some (kEipStatusError, s)
          else do {
            qos_for_socket \<leftarrow> ConnectionObjectGetTToOPriority (conn s c);
            let (error, s) = SetQos pf qos_for_socket s;
            if error \<noteq> 0 then Some (kEipStatusError, s)
            else Some (kEipStatusOk,
              (case direction of
                 kUdpCommuncationDirectionProducing \<Rightarrow>
                   let (_, s) = SetSocketOptionsMulticastProduce pf s;
                       s = upd_conn c (\<lambda>x. x\<lparr>socket_producing := udp_io_messaging (g_network_status s)\<rparr>) s;
                       s = set_sockaddr_item j (\<lambda>item. item
                         \<lparr>sockaddr_type_id := kCipItemIdSocketAddressInfoTargetToOriginator\<rparr>) s
                   in upd_conn c (\<lambda>x. x\<lparr>remote_address :=
                        \<lparr>sin_port = item_sin_port item, s_addr = item_sin_addr item\<rparr>\<rparr>) s
               | kUdpCommuncationDirectionConsuming \<Rightarrow>
                   let s = upd_conn c (\<lambda>x. x\<lparr>socket_consuming := udp_io_messaging (g_network_status s)\<rparr>) s;
                       s = set_sockaddr_item j (\<lambda>item. item
                         \<lparr>sockaddr_type_id := kCipItemIdSocketAddressInfoOriginatorToTarget\<rparr>) s
                   in upd_conn c (\<lambda>x. x\<lparr>originator_address :=
                        \<lparr>sin_port = item_sin_port item, s_addr = GetPeerAddress pf s\<rparr>\<rparr>) s)) } })"

definition OpenProducingMulticastConnection :: "platform \<Rightarrow> conn_ref \<Rightarrow> stack \<Rightarrow> (EipStatus \<times> stack) option" where
  "OpenProducingMulticastConnection pf c s =
     (let existing = GetExistingProducerIoConnection True
            (ucast (epath_instance_id (produced_path (conn s c)))) s;
          e = platform_endianess pf
      in case AllocateSocketAddressInfoItem kCipItemIdSocketAddressInfoTargetToOriginator s of
           None \<Rightarrow> Some (kEipStatusError, s)
         | Some i \<Rightarrow>
             let port = (if kCipItemIdSocketAddressInfoTargetToOriginator
                            \<noteq> sockaddr_type_id (sockaddr_items s ! i)
                  then item_sin_port (sockaddr_items s ! i) else htons e kOpenerEipIoUdpPort);
                 s = set_sockaddr_item i (\<lambda>item. item
                   \<lparr>sockaddr_type_id := kCipItemIdSocketAddressInfoTargetToOriginator\<rparr>) s
             in case existing of
                  None \<Rightarrow> OpenMulticastConnection pf kUdpCommuncationDirectionProducing c s
                | Some d \<Rightarrow>
                    let s = upd_conn c (\<lambda>x. x\<lparr>cip_produced_connection_id :=
                              cip_produced_connection_id (conn s d)\<rparr>) s;
                        s = (if kConnectionObjectInstanceTypeIOExclusiveOwner = instance_type (conn s c)
                          then upd_conn d (\<lambda>x. x\<lparr>socket_producing := kEipInvalidSocket\<rparr>)
                                (upd_conn c (\<lambda>x. x\<lparr>socket_producing := socket_producing (conn s d)\<rparr>) s)
                          else upd_conn c (\<lambda>x. x\<lparr>socket_producing := kEipInvalidSocket\<rparr>) s);
                        addr = starting_multicast_address (mcast_config (g_tcpip s));
                        s = set_sockaddr_item i (\<lambda>item. item\<lparr>sockaddr_length := 16,
                              item_sin_port := port, item_sin_addr := addr,
                              nasin_zero := replicate 8 0, item_sin_family := htons e AF_INET\<rparr>) s
                    in Some (kEipStatusOk, upd_conn c (\<lambda>x. x\<lparr>remote_address :=
                         \<lparr>sin_port = port, s_addr = addr\<rparr>\<rparr>) s))"

definition OpenCommunicationChannels :: "platform \<Rightarrow> conn_ref \<Rightarrow> stack \<Rightarrow> (u8 \<times> stack) option" where
  "OpenCommunicationChannels pf c s = do {
     (_, s) \<leftarrow> CreateUdpSocket pf s;
     let o_to_t = ConnectionObjectGetOToTConnectionType (conn s c);
     let t_to_o = ConnectionObjectGetTToOConnectionType (conn s c);
     (failed, s) \<leftarrow>
       (if o_to_t = kConnectionObjectConnectionTypeMulticast
        then do {
          (status, s) \<leftarrow> OpenMulticastConnection pf kUdpCommuncationDirectionConsuming c s;
          Some (status \<noteq> kEipStatusError, s) }
        else if o_to_t = kConnectionObjectConnectionTypePointToPoint
        then do {
          (status, s) \<leftarrow> OpenConsumingPointToPointConnection pf c s;
          Some (status = kEipStatusError, s) }
        else Some (False, s));
     if failed then Some (kCipErrorConnectionFailure, s)
     else do {
       (failed, s) \<leftarrow>
         (if t_to_o = kConnectionObjectConnectionTypeMulticast
          then do {
            (status, s) \<leftarrow> OpenProducingMulticastConnection pf c s;
            Some (status = kEipStatusError, s) }
          else if t_to_o = kConnectionObjectConnectionTypePointToPoint
          then do {
            (status, s) \<leftarrow> OpenProducingPointToPointConnection pf c s;
            Some (status \<noteq> kCipErrorSuccess, s) }
          else Some (False, s));
       Some (if failed then kCipErrorConnectionFailure else kCipErrorSuccess, s) } }"

section \<open>Establishing\<close>

definition HandleConfigData :: "conn_ref \<Rightarrow> stack \<Rightarrow> (u16 \<times> stack) option" where
  "HandleConfigData c s =
     (if g_config_data_length s = 0 then Some (0, s)
      else do {
        i \<leftarrow> assembly_instance (epath_instance_id (configuration_path (conn s c))) s;
        (_, n) \<leftarrow> i;
        p \<leftarrow> g_config_data_buffer s;
        if ConnectionWithSameConfigPointExists (ucast (epath_instance_id (configuration_path (conn s c)))) s
        then if ucast (assembly_length n s) \<noteq> g_config_data_length s
          then Some (kConnectionManagerExtendedStatusCodeErrorOwnershipConflict, s)
          else do {
            octets \<leftarrow> g_assembly_data s n;
            c_assert (unat (g_config_data_length s) \<le> length p);
            Some (if octets \<noteq> take (unat (g_config_data_length s)) p
              then kConnectionManagerExtendedStatusCodeErrorOwnershipConflict else 0, s) }
        else do {
          (status, s) \<leftarrow> NotifyAssemblyConnectedDataReceived n p (ucast (g_config_data_length s)) s;
          Some (if kEipStatusOk \<noteq> status
            then kConnectionManagerExtendedStatusCodeInvalidConfigurationApplicationPath else 0, s) } })"

definition general_configuration :: "conn_ref \<Rightarrow> stack \<Rightarrow> stack" where
  "general_configuration c s =
     (let (x, n) = ConnectionObjectGeneralConfiguration (g_incarnation_id s) (last_connection_id s) (conn s c)
      in set_conn c x (s\<lparr>last_connection_id := n\<rparr>))"

text \<open>The general status, the extended status and the state; \<open>c\<close> is the buffer object with the request.\<close>

definition EstablishIoConnection :: "platform \<Rightarrow> conn_ref \<Rightarrow> stack \<Rightarrow> (u8 \<times> u16 \<times> stack) option" where
  "EstablishIoConnection pf c s = do {
     (found, err, s) \<leftarrow> GetIoConnectionForConnectionData c s;
     (case found of
        None \<Rightarrow> Some (kCipErrorConnectionFailure, err, s)
      | Some io \<Rightarrow> do {
          let (err, x) = ProcessProductionInhibitTime (conn s io);
          let s = set_conn io x s;
          if err \<noteq> 0 then Some (kCipErrorConnectionFailure, err, s)
          else do {
            let s = upd_conn io SetIoConnectionCallbacks s;
            let s = general_configuration io s;
            let o_to_t = ConnectionObjectGetOToTConnectionType (conn s io);
            let t_to_o = ConnectionObjectGetTToOConnectionType (conn s io);
            c_assert (\<not> (o_to_t = kConnectionObjectConnectionTypeNull
                        \<and> t_to_o = kConnectionObjectConnectionTypeNull));
            let s = upd_conn io (\<lambda>x. x\<lparr>consuming_instance := None, consumed_connection_path_length := 0,
                      producing_instance := None, produced_connection_path_length := 0\<rparr>) s;
            (err, s) \<leftarrow> (if o_to_t \<noteq> kConnectionObjectConnectionTypeNull
               then SetupIoConnectionOriginatorToTargetConnectionPoint io c s else Some (0, s));
            if err \<noteq> 0 then Some (kCipErrorConnectionFailure, err, s)
            else do {
              (err, s) \<leftarrow> (if t_to_o \<noteq> kConnectionObjectConnectionTypeNull
                 then SetupIoConnectionTargetToOriginatorConnectionPoint io c s else Some (0, s));
              if err \<noteq> 0 then Some (kCipErrorConnectionFailure, err, s)
              else do {
                (err, s) \<leftarrow> (if g_config_data_buffer s \<noteq> None then HandleConfigData io s else Some (0, s));
                if err \<noteq> 0 then Some (kCipErrorConnectionFailure, err, s)
                else do {
                  (cip_error, s) \<leftarrow> OpenCommunicationChannels pf io s;
                  if kCipErrorSuccess \<noteq> cip_error then Some (cip_error, 0, s)
                  else do {
                    s \<leftarrow> AddNewActiveConnection_to_list io s;
                    Some (cip_error, err, emit (CheckIoConnectionEvent
                      (epath_instance_id (consumed_path (conn s io)))
                      (epath_instance_id (produced_path (conn s io))) kIoConnectionEventOpened) s)
                  } } } } } }) }"

definition GetFreeExplicitConnection :: "stack \<Rightarrow> conn_ref option" where
  "GetFreeExplicitConnection s =
     find (\<lambda>c. ConnectionObjectGetState (conn s c) = kConnectionObjectStateNonExistent)
       (map explicit_connection_object_pool_ref [0..<OPENER_CIP_NUM_EXPLICIT_CONNS])"

text \<open>The extended status is only written on a failure; \<open>err\<close> is what it was.\<close>

definition EstablishClass3Connection :: "conn_ref \<Rightarrow> u16 \<Rightarrow> stack \<Rightarrow> (u8 \<times> u16 \<times> stack) option" where
  "EstablishClass3Connection c err s =
     (case GetFreeExplicitConnection s of
        None \<Rightarrow> Some (kCipErrorConnectionFailure,
                  kConnectionManagerExtendedStatusCodeErrorNoMoreConnectionsAvailable, s)
      | Some k \<Rightarrow> do {
          let s = set_conn k (ConnectionObjectDeepCopy (conn s c)) s;
          let s = general_configuration k s;
          let s = set_instance_type k kConnectionObjectInstanceTypeExplicitMessaging s;
          let s = upd_conn k (\<lambda>x. x\<lparr>connection_close_function := Some CloseConnection_fn,
                    connection_timeout_function := Some Class3ConnectionTimeoutHandler_fn\<rparr>) s;
          s \<leftarrow> AddNewActiveConnection_to_list k s;
          Some (kCipErrorSuccess, err, s) })"

definition InitializeClass3ConnectionData :: "stack \<Rightarrow> stack" where
  "InitializeClass3ConnectionData s = s\<lparr>conn := \<lambda>c. (case c of
     explicit_connection_object_pool_ref i \<Rightarrow> zero_connection_object | _ \<Rightarrow> conn s c)\<rparr>"

definition CipClass3ConnectionObjectStateEstablishedHandler ::
    "CipConnectionObject \<Rightarrow> ConnectionObjectState \<Rightarrow> (EipStatus \<times> CipConnectionObject) option" where
  "CipClass3ConnectionObjectStateEstablishedHandler x new_state =
     (if new_state = kConnectionObjectStateNonExistent
      then do {
        x \<leftarrow> ConnectionObjectInitializeEmpty;
        x \<leftarrow> ConnectionObjectSetState new_state x;
        Some (kEipStatusOk, x) }
      else Some (kEipStatusError, x))"

definition CipClass3ConnectionObjectStateNonExistentHandler ::
    "CipConnectionObject \<Rightarrow> ConnectionObjectState \<Rightarrow> (EipStatus \<times> CipConnectionObject) option" where
  "CipClass3ConnectionObjectStateNonExistentHandler x new_state =
     (if new_state = kConnectionObjectStateEstablished
      then do {
        x \<leftarrow> ConnectionObjectSetState new_state x;
        Some (kEipStatusOk, x) }
      else Some (kEipStatusError, x))"

end
