(* ===== verification/Io_Data.thy ===== *)
theory Io_Data
  imports Io_Connection
begin

text \<open>
  The data of I/O connections (\<^verbatim>\<open>SendConnectedData\<close> and \<^verbatim>\<open>HandleReceivedIoConnectionData\<close> of
  \<^verbatim>\<open>cip/cipioconnection.c\<close>).  A write outside the message buffer is undefined behaviour: it is \<open>None\<close>.
\<close>

section \<open>Sending\<close>

text \<open>The packet structure before the data are put in: a connected data item of length 0, so that the
  length field can be overwritten.\<close>

definition io_packet :: "CipConnectionObject \<Rightarrow> CipCommonPacketFormatData \<Rightarrow> CipCommonPacketFormatData" where
  "io_packet x c =
     (let a = address_item c;
          a = (if kConnectionObjectTransportClassTriggerTransportClass0
                  \<noteq> ConnectionObjectGetTransportClassTriggerTransportClass x
               then a\<lparr>address_type_id := kCipItemIdSequencedAddressItem,
                      address_length := 8,
                      address_data := (address_data a)
                        \<lparr>sequence_number := eip_level_sequence_count_producing x\<rparr>\<rparr>
               else a\<lparr>address_type_id := kCipItemIdConnectionAddress, address_length := 4\<rparr>);
          a = a\<lparr>address_data := (address_data a)\<lparr>connection_identifier := cip_produced_connection_id x\<rparr>\<rparr>
      in c\<lparr>item_count := 2, address_item := a,
           data_item := (data_item c)\<lparr>data_type_id := kCipItemIdConnectedDataItem, data_length := 0\<rparr>,
           address_info_item := map (\<lambda>i. i\<lparr>sockaddr_type_id := 0\<rparr>) (address_info_item c)\<rparr>)"

text \<open>The counters, the packet structure and the call of the application.\<close>

definition prepare_io_packet :: "conn_ref \<Rightarrow> u16 \<Rightarrow> stack \<Rightarrow> stack" where
  "prepare_io_packet c n s =
     (let s = upd_conn c (\<lambda>x. x\<lparr>eip_level_sequence_count_producing :=
                eip_level_sequence_count_producing x + 1\<rparr>) s;
          s = s\<lparr>g_common_packet_format_data_item :=
                io_packet (conn s c) (g_common_packet_format_data_item s)\<rparr>;
          (new, s) = BeforeAssemblyDataSend n s
      in if new then upd_conn c (\<lambda>x. x\<lparr>sequence_count_producing := sequence_count_producing x + 1\<rparr>) s
         else s)"

text \<open>The message: the packet, with the length of the data item written over the 0, and the data.\<close>

definition io_data_length :: "conn_ref \<Rightarrow> u16 \<Rightarrow> stack \<Rightarrow> u16" where
  "io_data_length c n s =
     (let len = assembly_length n s;
          len = (if s_produce_run_idle s \<and> len \<noteq> 0 then len + 4 else len)
      in if kConnectionObjectTransportClassTriggerTransportClass1
            = ConnectionObjectGetTransportClassTriggerTransportClass (conn s c) then len + 2 else len)"

definition assemble_io_data :: "platform \<Rightarrow> conn_ref \<Rightarrow> u16 \<Rightarrow> stack \<Rightarrow> ENIPMessage option" where
  "assemble_io_data pf c n s = do {
     let cpf = g_common_packet_format_data_item s;
     m \<leftarrow> AssembleIOMessage (platform_endianess pf) cpf cpf InitializeENIPMessage;
     let m = AddIntToMessage (io_data_length c n s) (MoveMessageNOctets (-2) m);
     let m = (if kConnectionObjectTransportClassTriggerTransportClass1
                 = ConnectionObjectGetTransportClassTriggerTransportClass (conn s c)
              then AddIntToMessage (sequence_count_producing (conn s c)) m else m);
     let m = (if s_produce_run_idle s \<and> assembly_length n s \<noteq> 0
              then AddDintToMessage (g_run_idle_state s) m else m);
     m \<leftarrow> copy_block (unat (assembly_length n s)) (case g_assembly_data s n of None \<Rightarrow> [] | Some bs \<Rightarrow> bs) m;
     c_assert (\<not> overrun m);
     Some m }"

definition set_io_data_length :: "conn_ref \<Rightarrow> u16 \<Rightarrow> stack \<Rightarrow> stack" where
  "set_io_data_length c n s = s\<lparr>g_common_packet_format_data_item := (g_common_packet_format_data_item s)
     \<lparr>data_item := (data_item (g_common_packet_format_data_item s))\<lparr>data_length := io_data_length c n s\<rparr>\<rparr>\<rparr>"

definition SendConnectedData :: "platform \<Rightarrow> conn_ref \<Rightarrow> stack \<Rightarrow> (EipStatus \<times> stack) option" where
  "SendConnectedData pf c s = do {
     (_, n) \<leftarrow> producing_instance (conn s c);
     let s = prepare_io_packet c n s;
     m \<leftarrow> assemble_io_data pf c n s;
     Some (SendUdpData pf (remote_address (conn s c)) m (set_io_data_length c n s)) }"

section \<open>Receiving\<close>

text \<open>The sequence count is compared as a difference of signed 16-bit numbers.\<close>

definition SEQ_LEQ16 :: "u16 \<Rightarrow> u16 \<Rightarrow> bool" where
  "SEQ_LEQ16 a b \<longleftrightarrow> sint (a - b) \<le> 0"

definition SEQ_GT32 :: "u32 \<Rightarrow> u32 \<Rightarrow> bool" where
  "SEQ_GT32 a b \<longleftrightarrow> sint (a - b) > 0"

definition HandleReceivedIoConnectionData :: "conn_ref \<Rightarrow> buf \<Rightarrow> u16 \<Rightarrow> stack \<Rightarrow> (EipStatus \<times> stack) option" where
  "HandleReceivedIoConnectionData c p len s = do {
     (no_new_data, p, len, s) \<leftarrow>
       (if kConnectionObjectTransportClassTriggerTransportClass1
           = ConnectionObjectGetTransportClassTriggerTransportClass (conn s c)
        then do {
          (sequence_buffer, p) \<leftarrow> GetUintFromMessage p;
          Some (SEQ_LEQ16 sequence_buffer (sequence_count_consuming (conn s c)), p, len - 2,
            upd_conn c (\<lambda>x. x\<lparr>sequence_count_consuming := sequence_buffer\<rparr>) s) }
        else Some (False, p, len, s));
     if len > 0
     then do {
       (p, len, s) \<leftarrow>
         (if s_consume_run_idle s
          then do {
            (run_idle, p) \<leftarrow> GetUdintFromMessage p;
            let s = (if 0x0001 AND run_idle = 1
               then CipIdentitySetExtendedDeviceStatus kAtLeastOneIoConnectionInRunMode s
               else CipIdentitySetExtendedDeviceStatus kAtLeastOneIoConnectionEstablishedAllInIdleMode s);
            let s = (if g_run_idle_state s \<noteq> run_idle then RunIdleChanged run_idle s else s);
            Some (p, len - 4, s\<lparr>g_run_idle_state := run_idle\<rparr>) }
          else Some (p, len, s));
       if no_new_data then Some (kEipStatusOk, s)
       else do {
         (_, n) \<leftarrow> consuming_instance (conn s c);
         (status, s) \<leftarrow> NotifyAssemblyConnectedDataReceived n p (ucast len) s;
         Some (if status \<noteq> kEipStatusOk then kEipStatusError else kEipStatusOk, s) } }
     else Some (kEipStatusOk, s) }"

section \<open>What is sent\<close>

lemma step_back_two:
  assumes "msg_wf m" "length xs + 2 \<le> room m"
  shows "append_octets [c, d] (MoveMessageNOctets (-2) (append_octets (xs @ [a, b]) m))
    = append_octets (xs @ [c, d]) m"
proof -
  have l: "current_message_position m + length xs + 2 \<le> length (message_buffer m)"
    using assms by (auto simp: msg_wf_def room_def)
  have ov: "overwrite (length xs + p) [c, d] (overwrite p (xs @ [a, b]) buf) = overwrite p (xs @ [c, d]) buf"
    if "p + length xs + 2 \<le> length buf" for p buf
    using that by (simp add: overwrite_def add.commute)
  have n: "\<not> uint u + int (length xs) < 0" for u :: size_t
    by (simp add: not_less)
  show ?thesis
    using l assms(1)
    by (cases m) (simp add: append_octets_fits MoveMessageNOctets_def Let_def ov n msg_wf_def nat_add_distrib
        ac_simps)
qed

lemma step_back_append:
  assumes "msg_wf m" "length xs + 2 \<le> room m" "2 \<le> length ys"
  shows "append_octets ys (MoveMessageNOctets (-2) (append_octets (xs @ [a, b]) m)) = append_octets (xs @ ys) m"
proof -
  obtain c d zs where ys: "ys = [c, d] @ zs"
    using list_at_least2 [OF assms(3)] by auto
  show ?thesis
    unfolding ys append_octets_append [of zs "[c, d]", symmetric] step_back_two [OF assms(1,2)]
    by (simp only: append_octets_append append_assoc)
qed

lemma overrun_copy_octets:
  "overrun (copy_octets i bs m) \<longleftrightarrow> overrun m
     \<or> (bs \<noteq> [] \<and> length (message_buffer m) < current_message_position m + i + length bs)"
  by (induction bs arbitrary: i m) (auto simp: poke_def Let_def split: if_splits)

lemma overrun_append_octets:
  "overrun (append_octets bs m) \<longleftrightarrow> overrun m
     \<or> (bs \<noteq> [] \<and> length (message_buffer m) < current_message_position m + length bs)"
  by (simp add: append_octets_def MoveMessageNOctets_def Let_def overrun_copy_octets)

text \<open>The octets of the message of a connection, with the counters \<open>x\<close> already counted up.\<close>

definition io_body :: "CipConnectionObject \<Rightarrow> bool \<Rightarrow> u32 \<Rightarrow> u8 list \<Rightarrow> u8 list" where
  "io_body x run_idle r bs =
     (if ConnectionObjectGetTransportClassTriggerTransportClass x
         = kConnectionObjectTransportClassTriggerTransportClass1
      then le16 (sequence_count_producing x) else [])
     @ (if run_idle \<and> bs \<noteq> [] then le32 r else []) @ bs"

definition io_address :: "CipConnectionObject \<Rightarrow> u8 list" where
  "io_address x =
     (if ConnectionObjectGetTransportClassTriggerTransportClass x
         = kConnectionObjectTransportClassTriggerTransportClass0
      then le16 kCipItemIdConnectionAddress @ le16 4 @ le32 (cip_produced_connection_id x)
      else le16 kCipItemIdSequencedAddressItem @ le16 8 @ le32 (cip_produced_connection_id x)
        @ le32 (eip_level_sequence_count_producing x))"

definition io_message :: "CipConnectionObject \<Rightarrow> bool \<Rightarrow> u32 \<Rightarrow> u8 list \<Rightarrow> u8 list" where
  "io_message x run_idle r bs = le16 2 @ io_address x @ le16 kCipItemIdConnectedDataItem
     @ le16 (of_nat (length (io_body x run_idle r bs))) @ io_body x run_idle r bs"

lemma io_packet_simps:
  "item_count (io_packet x c) = 2"
  "data_type_id (data_item (io_packet x c)) = kCipItemIdConnectedDataItem"
  "data_length (data_item (io_packet x c)) = 0"
  "address_type_id (address_item (io_packet x c)) \<in> {kCipItemIdConnectionAddress, kCipItemIdSequencedAddressItem}"
  "address_octets (address_item (io_packet x c)) = io_address x"
  by (auto simp: io_packet_def Let_def address_octets_def io_address_def item_ids)

lemma io_packet_items:
  "length (address_info_item c) = 2 \<Longrightarrow> sent_sockaddr_items (io_packet x c) = []"
  by (simp add: io_packet_def Let_def sent_sockaddr_items_def first_sockaddr_item_def item_ids)

lemma assemble_io_packet:
  assumes "length (address_info_item c) = 2"
  shows "AssembleIOMessage kOpENerEndianessLittle g (io_packet x c) m = Some (append_octets
    ((le16 2 @ io_address x @ le16 kCipItemIdConnectedDataItem) @ [0, 0]) m)"
  using AssembleIOMessage_octets [of "io_packet x c" g m] io_packet_simps [of x c] io_packet_items [OF assms, of x]
  by (auto simp: packet_octets_def le16_def)

lemma length_io_message:
  "length (io_message x run_idle r bs) = (if ConnectionObjectGetTransportClassTriggerTransportClass x
      = kConnectionObjectTransportClassTriggerTransportClass0 then 14 else 18)
     + length (io_body x run_idle r bs)"
  by (simp add: io_message_def io_address_def)

text \<open>What \<^verbatim>\<open>SendConnectedData\<close> does before it hands the message to the socket.\<close>

definition counted :: "CipConnectionObject \<Rightarrow> CipConnectionObject" where
  "counted x = x\<lparr>eip_level_sequence_count_producing := eip_level_sequence_count_producing x + 1,
     sequence_count_producing := sequence_count_producing x + 1\<rparr>"

lemma counted_simps [simp]:
  "ConnectionObjectGetTransportClassTriggerTransportClass (counted x)
     = ConnectionObjectGetTransportClassTriggerTransportClass x"
  "remote_address (counted x) = remote_address x"
  by (simp_all add: counted_def ConnectionObjectGetTransportClassTriggerTransportClass_def)

definition produced_data :: "u16 \<Rightarrow> stack \<Rightarrow> u8 list" where
  "produced_data n s = (case g_assembly_data s n of None \<Rightarrow> [] | Some bs \<Rightarrow> bs)"

lemma prepare_io_packet_simps:
  "conn (prepare_io_packet c n s) = (conn s)(c := counted (conn s c))"
  "connection_list (prepare_io_packet c n s) = connection_list s"
  "g_network_status (prepare_io_packet c n s) = g_network_status s"
  "os_index (prepare_io_packet c n s) = os_index s"
  "g_assembly_data (prepare_io_packet c n s) = g_assembly_data s"
  "s_produce_run_idle (prepare_io_packet c n s) = s_produce_run_idle s"
  "g_run_idle_state (prepare_io_packet c n s) = g_run_idle_state s"
  "trace (prepare_io_packet c n s) = trace s
     @ (case g_assembly_data s n of None \<Rightarrow> [] | Some bs \<Rightarrow> [sendDataToJava bs])"
  "g_common_packet_format_data_item (prepare_io_packet c n s)
     = io_packet ((conn s c)\<lparr>eip_level_sequence_count_producing := eip_level_sequence_count_producing (conn s c) + 1\<rparr>)
         (g_common_packet_format_data_item s)"
  by (auto simp: prepare_io_packet_def upd_conn_def set_conn_def BeforeAssemblyDataSend_def emit_def counted_def
      Let_def
      split: option.split)

lemma set_io_data_length_simps:
  "conn (set_io_data_length c n s) = conn s" "trace (set_io_data_length c n s) = trace s"
  "connection_list (set_io_data_length c n s) = connection_list s"
  "g_network_status (set_io_data_length c n s) = g_network_status s"
  "os_index (set_io_data_length c n s) = os_index s"
  by (simp_all add: set_io_data_length_def)

lemma io_body_length:
  assumes "assembly_length n s = of_nat (length bs)" "length bs < 2 ^ 16"
  shows "io_data_length c n s = of_nat (length (io_body (conn s c) (s_produce_run_idle s) r bs))"
proof -
  have "(of_nat (length bs) :: u16) = 0 \<longleftrightarrow> bs = []"
    using assms(2) by (auto simp: word_unat_eq_iff unat_of_nat)
  then show ?thesis
    using assms(1) by (auto simp: io_data_length_def io_body_def)
qed

lemma assemble_io_data_eq:
  assumes "g_common_packet_format_data_item s = io_packet x cpf" "length (address_info_item cpf) = 2"
    and "io_address x = io_address (conn s c)"
    and "platform_endianess pf = kOpENerEndianessLittle" and "length (produced_data n s) < 2 ^ 16"
  shows "assemble_io_data pf c n s =
    (let msg = io_message (conn s c) (s_produce_run_idle s) (g_run_idle_state s) (produced_data n s)
     in if length msg \<le> PC_OPENER_ETHERNET_BUFFER_SIZE
        then Some (append_octets msg InitializeENIPMessage) else None)"
proof -
  let ?bs = "produced_data n s"
  let ?head = "le16 2 @ io_address (conn s c) @ le16 kCipItemIdConnectedDataItem"
  let ?body = "io_body (conn s c) (s_produce_run_idle s) (g_run_idle_state s) ?bs"
  have asm: "AssembleIOMessage (platform_endianess pf) (io_packet x cpf) (io_packet x cpf) InitializeENIPMessage
      = Some (append_octets (?head @ [0, 0]) InitializeENIPMessage)"
    using assemble_io_packet [of cpf "io_packet x cpf" x] assms by simp
  have step_back: "append_octets ys (MoveMessageNOctets (-2) (append_octets (?head @ [0, 0]) InitializeENIPMessage))
      = append_octets (?head @ ys) InitializeENIPMessage" if "2 \<le> length ys" for ys
    by (rule step_back_append) (use that in \<open>simp_all add: io_address_def PC_OPENER_ETHERNET_BUFFER_SIZE_def\<close>)
  have len: "assembly_length n s = of_nat (length ?bs)" "unat (assembly_length n s) = length ?bs"
    using assms(5) by (auto simp: assembly_length_def produced_data_def unat_of_nat split: option.split)
  have nil: "assembly_length n s \<noteq> 0 \<longleftrightarrow> ?bs \<noteq> []"
    using len by (metis length_0_conv unat_eq_0)
  have msg: "io_message (conn s c) (s_produce_run_idle s) (g_run_idle_state s) ?bs
      = ?head @ le16 (io_data_length c n s) @ ?body"
    using io_body_length [OF len(1) assms(5), of c "g_run_idle_state s"] by (simp add: io_message_def)
  let ?class1 = "kConnectionObjectTransportClassTriggerTransportClass1
    = ConnectionObjectGetTransportClassTriggerTransportClass (conn s c)"
  have pipe: "append_octets ?bs
      (if s_produce_run_idle s \<and> ?bs \<noteq> []
       then append_octets (le32 (g_run_idle_state s))
         (if ?class1 then append_octets (le16 (sequence_count_producing (conn s c))) (append_octets (le16 w) M)
          else append_octets (le16 w) M)
       else if ?class1 then append_octets (le16 (sequence_count_producing (conn s c))) (append_octets (le16 w) M)
       else append_octets (le16 w) M)
     = append_octets (le16 w @ ?body) M" for w M
    by (auto simp: io_body_def)
  have o: "overrun (append_octets bs InitializeENIPMessage) \<longleftrightarrow> PC_OPENER_ETHERNET_BUFFER_SIZE < length bs" for bs
    by (auto simp: overrun_append_octets InitializeENIPMessage_def)
  have d: "(case g_assembly_data s n of None \<Rightarrow> [] | Some bs \<Rightarrow> bs) = ?bs"
    by (simp add: produced_data_def)
  have all: "append_octets (le16 w @ ?body)
      (MoveMessageNOctets (-2) (append_octets (?head @ [0, 0]) InitializeENIPMessage))
     = append_octets (?head @ le16 w @ ?body) InitializeENIPMessage" for w
    by (rule step_back) simp
  show ?thesis
    unfolding assemble_io_data_def Let_def assms(1) asm bind.bind_lunit d nil AddInt_enc AddDint_enc
      copy_block_def len(2) msg
    by (simp only: le_refl if_True take_all pipe all o bind.bind_lunit c_assert_def) (simp add: not_less)
qed

text \<open>C29: a connection sends exactly one datagram per call, to the address of its connection: two items,
  the address item with the connection identifier (and the counted up packet sequence unless the class is
  0), and the data item with the counted up sequence of class 1, the run/idle word if it is enabled and
  there are data, and the octets of the assembly after the application was asked for them; all that if it
  fits the 512 octets of the buffer, and otherwise the code writes outside of it.\<close>

theorem connected_data_sent:
  assumes "producing_instance (conn s c) = Some (k, n)"
    and "platform_endianess pf = kOpENerEndianessLittle"
    and "length (sockaddr_items s) = 2" and "length (produced_data n s) < 2 ^ 16"
  shows "let msg = io_message (counted (conn s c)) (s_produce_run_idle s) (g_run_idle_state s) (produced_data n s)
    in if length msg \<le> PC_OPENER_ETHERNET_BUFFER_SIZE
       then (\<exists>status s'. SendConnectedData pf c s = Some (status, s') \<and> conn s' = (conn s)(c := counted (conn s c))
         \<and> trace s' = trace s @ (case g_assembly_data s n of None \<Rightarrow> [] | Some bs \<Rightarrow> [sendDataToJava bs])
             @ [sendto_event (udp_io_messaging (g_network_status s)) msg (remote_address (conn s c))]
         \<and> (os_result pf (os_index s) = int (length msg) \<longrightarrow> status = kEipStatusOk)
         \<and> (os_result pf (os_index s) < 0 \<longrightarrow> status = kEipStatusError))
       else SendConnectedData pf c s = None"
proof -
  let ?s = "prepare_io_packet c n s"
  let ?y = "(conn s c)\<lparr>eip_level_sequence_count_producing := eip_level_sequence_count_producing (conn s c) + 1\<rparr>"
  let ?msg = "io_message (counted (conn s c)) (s_produce_run_idle s) (g_run_idle_state s) (produced_data n s)"
  note p = prepare_io_packet_simps [of c n s]
  have data: "produced_data n ?s = produced_data n s"
    by (simp add: produced_data_def p)
  have addr: "io_address ?y = io_address (conn ?s c)"
    by (simp add: p io_address_def counted_def ConnectionObjectGetTransportClassTriggerTransportClass_def)
  have m: "assemble_io_data pf c n ?s = (if length ?msg \<le> PC_OPENER_ETHERNET_BUFFER_SIZE
      then Some (append_octets ?msg InitializeENIPMessage) else None)"
    using assemble_io_data_eq [OF p(9) _ addr assms(2)] assms(3,4)
    by (simp add: data p sockaddr_items_def Let_def)
  show ?thesis
  proof (cases "length ?msg \<le> PC_OPENER_ETHERNET_BUFFER_SIZE")
    case True
    let ?m = "append_octets ?msg InitializeENIPMessage"
    have pay: "payload ?m = ?msg"
      by (rule append_octets_Initialize [OF True])
    have used: "used_message_length InitializeENIPMessage = 0"
      by (simp add: InitializeENIPMessage_def)
    show ?thesis
      using True
      by (auto simp: SendConnectedData_def assms(1) m SendUdpData_def syscall_def Let_def pay used emit_def p
          set_io_data_length_simps)
  qed (simp add: SendConnectedData_def assms(1) m Let_def)
qed

definition io_connection :: CipConnectionObject where
  "io_connection = (example_connection kConnectionObjectInstanceTypeIOExclusiveOwner 0x4000 7)
     \<lparr>transport_class_trigger := 0x01, producing_instance := Some (kCipAssemblyClassCode, 102),
      consuming_instance := Some (kCipAssemblyClassCode, 101), sequence_count_consuming := 10\<rparr>"

definition io_stack :: stack where
  "io_stack = initial_stack\<lparr>conn := (\<lambda>c. io_connection), connection_list := [exlusive_owner_ref 0],
     g_assembly_data := (\<lambda>n. if n = 102 then Some [1, 2] else if n = 101 then Some [0, 0, 0] else None)\<rparr>"

lemma io_stack_simps [simp]:
  "producing_instance io_connection = Some (kCipAssemblyClassCode, 102)"
  "consuming_instance io_connection = Some (kCipAssemblyClassCode, 101)"
  "sequence_count_consuming io_connection = 10"
  "produced_data 102 io_stack = [1, 2]" "g_assembly_data io_stack 101 = Some [0, 0, 0]"
  "length (sockaddr_items io_stack) = 2" "s_produce_run_idle io_stack = False"
  "s_consume_run_idle io_stack = False" "conn io_stack c = io_connection"
  "ConnectionObjectGetTransportClassTriggerTransportClass io_connection
     = kConnectionObjectTransportClassTriggerTransportClass1"
  by (simp_all add: io_stack_def io_connection_def produced_data_def sockaddr_items_def initial_stack_def
      zero_cpf_def ConnectionObjectGetTransportClassTriggerTransportClass_def)

theorem connected_data_sent_witness:
  "\<exists>s'. SendConnectedData (example_platform 22) (exlusive_owner_ref 0) io_stack = Some (kEipStatusOk, s')
    \<and> sequence_count_producing (conn s' (exlusive_owner_ref 0)) = 1"
proof -
  have l: "length (io_message (counted (conn io_stack (exlusive_owner_ref 0))) False r [1, 2]) = 22" for r
    by (simp add: length_io_message io_body_def)
  have p: "platform_endianess (example_platform 22) = kOpENerEndianessLittle" "os_result (example_platform 22) k = 22" for k
    by (simp_all add: example_platform_def)
  have s: "sequence_count_producing (counted io_connection) = 1"
    by (simp add: counted_def io_connection_def example_connection_def zero_connection_object_def)
  show ?thesis
    using connected_data_sent [OF _ p(1), of io_stack "exlusive_owner_ref 0" kCipAssemblyClassCode 102] l
    by (auto simp: Let_def p s PC_OPENER_ETHERNET_BUFFER_SIZE_def)
qed

lemma set_identity_other [simp]:
  "conn (set_identity f s) = conn s" "g_assembly_data (set_identity f s) = g_assembly_data s"
  "g_run_idle_state (set_identity f s) = g_run_idle_state s"
  "s_consume_run_idle (set_identity f s) = s_consume_run_idle s"
  "connection_list (set_identity f s) = connection_list s"
  by (simp_all add: set_identity_def)

lemma extended_status_other [simp]:
  "conn (CipIdentitySetExtendedDeviceStatus x s) = conn s"
  "g_assembly_data (CipIdentitySetExtendedDeviceStatus x s) = g_assembly_data s"
  "g_run_idle_state (CipIdentitySetExtendedDeviceStatus x s) = g_run_idle_state s"
  "conn (RunIdleChanged v s) = conn s" "g_assembly_data (RunIdleChanged v s) = g_assembly_data s"
  by (simp_all add: CipIdentitySetExtendedDeviceStatus_def RunIdleChanged_def)

text \<open>C30: of the data a class 1 connection receives, only those with a newer sequence count (as a
  signed 16-bit difference) reach the assembly; but the count of the connection becomes the count of every
  packet, also of an older one, so that an old packet that is repeated moves it back.\<close>

theorem io_data_received:
  assumes "ConnectionObjectGetTransportClassTriggerTransportClass (conn s c)
      = kConnectionObjectTransportClassTriggerTransportClass1"
    and "consuming_instance (conn s c) = Some (k, n)" and "g_assembly_data s n = Some old"
    and "length bs = length old" and "bs \<noteq> []" and "length bs + 6 < 2 ^ 16"
    and "idle = (if s_consume_run_idle s then le32 r else [])"
  shows "\<exists>s'. HandleReceivedIoConnectionData c (le16 q @ idle @ bs) (of_nat (2 + length idle + length bs)) s
      = Some (kEipStatusOk, s')
    \<and> sequence_count_consuming (conn s' c) = q
    \<and> g_run_idle_state s' = (if s_consume_run_idle s then r else g_run_idle_state s)
    \<and> g_assembly_data s' = (g_assembly_data s)
        (n := Some (if SEQ_LEQ16 q (sequence_count_consuming (conn s c)) then old else bs))"
proof -
  have len: "unat (of_nat (length bs) :: u16) = length bs"
    using assms(6) by (simp add: unat_of_nat)
  have pos: "0 < (of_nat (length bs) :: u16)" "0 < (4 + of_nat (length bs) :: u16)"
  proof -
    show "0 < (of_nat (length bs) :: u16)"
      using len assms(5) by (simp add: word_less_nat_alt)
    have "(4 + of_nat (length bs) :: u16) = of_nat (4 + length bs)"
      by simp
    also have "unat \<dots> = 4 + length bs"
      using assms(6) by (simp only: unat_of_nat) simp
    finally show "0 < (4 + of_nat (length bs) :: u16)"
      by (simp add: word_less_nat_alt)
  qed
  have al: "assembly_length n s' = of_nat (length bs)" if "g_assembly_data s' = g_assembly_data s" for s'
    using that assms(3,4) by (simp add: assembly_length_def)
  have old: "(g_assembly_data s)(n \<mapsto> old) = g_assembly_data s"
    using assms(3) by auto
  have notify: "NotifyAssemblyConnectedDataReceived n bs (ucast (of_nat (length bs) :: u16)) s'
      = Some (kEipStatusOk, s'\<lparr>g_assembly_data := (g_assembly_data s)(n \<mapsto> bs)\<rparr>)"
    if "g_assembly_data s' = g_assembly_data s" for s'
    using that al [OF that] assms(3,4)
    by (simp add: NotifyAssemblyConnectedDataReceived_def set_assembly_octets_def AfterAssemblyDataReceived_def)
  show ?thesis
    using assms(1,2,7) pos old
    by (auto simp: HandleReceivedIoConnectionData_def notify Let_def upd_conn_def set_conn_def fun_upd_def)
qed

theorem io_data_received_witness:
  "(\<exists>s'. HandleReceivedIoConnectionData (exlusive_owner_ref 0) (le16 11 @ [7, 8, 9]) 5 io_stack
      = Some (kEipStatusOk, s') \<and> g_assembly_data s' 101 = Some [7, 8, 9])
   \<and> (\<exists>s'. HandleReceivedIoConnectionData (exlusive_owner_ref 0) (le16 3 @ [7, 8, 9]) 5 io_stack
      = Some (kEipStatusOk, s') \<and> g_assembly_data s' 101 = Some [0, 0, 0]
        \<and> sequence_count_consuming (conn s' (exlusive_owner_ref 0)) = 3)"
proof -
  have q: "\<not> SEQ_LEQ16 11 10" "SEQ_LEQ16 3 10"
    by (simp_all add: SEQ_LEQ16_def)
  show ?thesis
    using io_data_received [of io_stack "exlusive_owner_ref 0" kCipAssemblyClassCode 101 "[0, 0, 0]" "[7, 8, 9]" "[]" 0 11]
      io_data_received [of io_stack "exlusive_owner_ref 0" kCipAssemblyClassCode 101 "[0, 0, 0]" "[7, 8, 9]" "[]" 0 3] q
    by auto
qed

end
