(* ===== verification/Conn_Path.thy ===== *)
theory Conn_Path
  imports Io_Connection
begin

text \<open>
  The connection path of a forward open request (\<^verbatim>\<open>CheckElectronicKeyData\<close>, \<^verbatim>\<open>ParseConnectionPath\<close>
  and the table of connectable classes of \<^verbatim>\<open>cip/cipconnectionmanager.c\<close>).

  A step of the parser returns an error, the general and the extended status, or what the next step
  needs; the state is returned in both cases, because an error leaves behind what was written before it.
  The number of words left of the path is the \<^verbatim>\<open>size_t\<close> of the code, which wraps.
\<close>

section \<open>The electronic key\<close>

definition CheckElectronicKeyData :: "u8 \<Rightarrow> ElectronicKeyFormat4 \<Rightarrow> stack \<Rightarrow> EipStatus \<times> u16" where
  "CheckElectronicKeyData format key s =
     (if format \<noteq> 4
      then (kEipStatusError, kConnectionManagerExtendedStatusCodeErrorInvalidSegmentTypeInPath)
      else let compatiblity_mode = ElectronicKeyFormat4GetMajorRevisionCompatibility key
        in if (ElectronicKeyFormat4GetVendorId key \<noteq> identity_vendor_id (g_identity s)
               \<and> ElectronicKeyFormat4GetVendorId key \<noteq> 0)
              \<or> (ElectronicKeyFormat4GetProductCode key \<noteq> identity_product_code (g_identity s)
                 \<and> ElectronicKeyFormat4GetProductCode key \<noteq> 0)
        then (kEipStatusError, kConnectionManagerExtendedStatusCodeErrorVendorIdOrProductcodeError)
        else if ElectronicKeyFormat4GetDeviceType key \<noteq> identity_device_type (g_identity s)
                \<and> ElectronicKeyFormat4GetDeviceType key \<noteq> 0
        then (kEipStatusError, kConnectionManagerExtendedStatusCodeErrorDeviceTypeError)
        else if \<not> compatiblity_mode
        then if ElectronicKeyFormat4GetMajorRevision key = 0
          then (kEipStatusOk, kConnectionManagerExtendedStatusCodeSuccess)
          else if ElectronicKeyFormat4GetMajorRevision key \<noteq> identity_major_revision (g_identity s)
                \<or> (ElectronicKeyFormat4GetMinorRevision key \<noteq> identity_minor_revision (g_identity s)
                   \<and> ElectronicKeyFormat4GetMinorRevision key \<noteq> 0)
          then (kEipStatusError, kConnectionManagerExtendedStatusCodeErrorRevisionMismatch)
          else (kEipStatusOk, kConnectionManagerExtendedStatusCodeSuccess)
        else if ElectronicKeyFormat4GetMajorRevision key = identity_major_revision (g_identity s)
              \<and> ElectronicKeyFormat4GetMinorRevision key > 0
              \<and> ElectronicKeyFormat4GetMinorRevision key \<le> identity_minor_revision (g_identity s)
        then (kEipStatusOk, kConnectionManagerExtendedStatusCodeSuccess)
        else (kEipStatusError, kConnectionManagerExtendedStatusCodeErrorRevisionMismatch))"

section \<open>Connectable classes\<close>

definition g_kNumberOfConnectableObjects :: nat where "g_kNumberOfConnectableObjects = 3"

fun add_connectable :: "u32 \<Rightarrow> OpenConnectionFunction option \<Rightarrow> (u32 \<times> OpenConnectionFunction option) list
    \<Rightarrow> EipStatus \<times> (u32 \<times> OpenConnectionFunction option) list" where
  "add_connectable code f [] = (kEipStatusError, [])"
| "add_connectable code f ((c, g) # es) =
     (if 0 = c \<or> code = c then (kEipStatusOk, (code, f) # es)
      else let (status, es) = add_connectable code f es in (status, (c, g) # es))"

definition AddConnectableObject :: "u32 \<Rightarrow> OpenConnectionFunction option \<Rightarrow> stack \<Rightarrow> EipStatus \<times> stack" where
  "AddConnectableObject code f s =
     (let (status, es) = add_connectable code f (g_connection_management_list s)
      in (status, s\<lparr>g_connection_management_list := es\<rparr>))"

definition GetConnectionManagementEntry :: "u32 \<Rightarrow> stack \<Rightarrow> OpenConnectionFunction option option" where
  "GetConnectionManagementEntry code s = map_of (g_connection_management_list s) code"

definition InitializeConnectionManagerData :: "stack \<Rightarrow> stack" where
  "InitializeConnectionManagerData s = InitializeIoConnectionData (InitializeClass3ConnectionData
     (s\<lparr>g_connection_management_list := replicate g_kNumberOfConnectableObjects (0, None)\<rparr>))"

section \<open>The parser\<close>

type_synonym 'a parsed = "((u8 \<times> u16) + 'a) \<times> stack"

definition logical_segment :: "LogicalSegmentLogicalType set \<Rightarrow> buf \<Rightarrow> bool option" where
  "logical_segment types p = do {
     t \<leftarrow> GetPathSegmentType p;
     if kSegmentTypeLogicalSegment = t
     then do { l \<leftarrow> GetPathLogicalSegmentLogicalType p; Some (l \<in> types) }
     else Some False }"

text \<open>\<^verbatim>\<open>ElectronicKeyFormat4Delete\<close> frees the key once it was checked: nothing can be read through the
  pointer that stays behind in the object.\<close>

definition parse_electronic_key :: "conn_ref \<Rightarrow> buf \<Rightarrow> size_t \<Rightarrow> stack \<Rightarrow> (buf \<times> size_t) parsed option" where
  "parse_electronic_key c p remaining_path s = do {
     special \<leftarrow> logical_segment {kLogicalSegmentLogicalTypeSpecial} p;
     key_segment \<leftarrow> (if special
        then do {
          l \<leftarrow> GetPathLogicalSegmentSpecialTypeLogicalType p;
          if kLogicalSegmentSpecialTypeLogicalFormatElectronicKey = l
          then do {
            f \<leftarrow> GetPathLogicalSegmentElectronicKeyFormat p;
            Some (kElectronicKeySegmentFormatKeyFormat4 = f) }
          else Some False }
        else Some False);
     if \<not> key_segment then Some (Inr (p, remaining_path), s)
     else if remaining_path < 5 then Some (Inl (kCipErrorNotEnoughData, 0), s)
     else do {
       (key, p) \<leftarrow> GetElectronicKeyFormat4FromMessage p ElectronicKeyFormat4New;
       let s = upd_conn c (\<lambda>x. x\<lparr>electronic_key := \<lparr>key_format = 4, key_data = None\<rparr>\<rparr>) s;
       let (status, err) = CheckElectronicKeyData 4 key s;
       Some (if status \<noteq> kEipStatusOk then Inl (kCipErrorConnectionFailure, err)
             else Inr (p, remaining_path - 5), s) } }"

definition is_cyclic :: "CipConnectionObject \<Rightarrow> bool" where
  "is_cyclic x \<longleftrightarrow> kConnectionObjectTransportClassTriggerProductionTriggerCyclic
     = ConnectionObjectGetTransportClassTriggerProductionTrigger x"

definition set_inhibit_time :: "conn_ref \<Rightarrow> u16 \<Rightarrow> stack \<Rightarrow> stack" where
  "set_inhibit_time c t s = upd_conn c (ConnectionObjectSetProductionInhibitTime t) s"

definition inhibit_segment :: "buf \<Rightarrow> bool option" where
  "inhibit_segment p = do {
     t \<leftarrow> GetPathSegmentType p;
     if kSegmentTypeNetworkSegment = t
     then do {
       sub \<leftarrow> GetPathNetworkSegmentSubtype p;
       Some (kNetworkSegmentSubtypeProductionInhibitTimeInMilliseconds = sub) }
     else Some False }"

definition parse_inhibit_time :: "conn_ref \<Rightarrow> buf \<Rightarrow> size_t \<Rightarrow> stack \<Rightarrow> (buf \<times> size_t \<times> stack) option" where
  "parse_inhibit_time c p remaining_path s = do {
     inhibit \<leftarrow> (if is_cyclic (conn s c) then Some False else inhibit_segment p);
     if inhibit
     then do {
       t \<leftarrow> peek p 1;
       p \<leftarrow> skip 2 p;
       Some (p, remaining_path - 1, set_inhibit_time c (ucast t) s) }
     else Some (p, remaining_path, s) }"

definition parse_class :: "buf \<Rightarrow> stack \<Rightarrow> ((u8 \<times> u16) + (u32 \<times> u16 list \<times> buf)) option" where
  "parse_class p s = do {
     is_class \<leftarrow> logical_segment {kLogicalSegmentLogicalTypeClassId} p;
     if is_class
     then do {
       (code, p) \<leftarrow> CipEpathGetLogicalValue p;
       Some (case class_instances code s of
           None \<Rightarrow> Inl (kCipErrorConnectionFailure,
             if code \<ge> 0xC8 then kConnectionManagerExtendedStatusCodeErrorInvalidSegmentTypeInPath
             else kConnectionManagerExtendedStatusCodeInconsistentApplicationPathCombo)
         | Some ns \<Rightarrow> Inr (code, ns, p)) }
     else Some (Inl (kCipErrorConnectionFailure,
       kConnectionManagerExtendedStatusCodeErrorInvalidSegmentTypeInPath)) }"

definition kCipInstanceNumMax :: u32 where "kCipInstanceNumMax = 0xFFFF"

definition words_of_instance :: "u16 \<Rightarrow> size_t" where
  "words_of_instance n = (if n > 0xFF then 2 else 1)"

definition parse_instance :: "u16 list \<Rightarrow> buf \<Rightarrow> size_t \<Rightarrow> ((u8 \<times> u16) + (u16 \<times> buf \<times> size_t)) option" where
  "parse_instance ns p remaining_path = do {
     is_instance \<leftarrow> logical_segment {kLogicalSegmentLogicalTypeInstanceId} p;
     if is_instance
     then do {
       (temp_id, p) \<leftarrow> CipEpathGetLogicalValue p;
       Some (if temp_id > kCipInstanceNumMax \<or> \<not> has_instance ns (ucast temp_id)
         then Inl (kCipErrorConnectionFailure,
           kConnectionManagerExtendedStatusCodeErrorInvalidSegmentTypeInPath)
         else Inr (ucast temp_id, p, remaining_path - words_of_instance (ucast temp_id))) }
     else Some (Inr (0, p, remaining_path)) }"

text \<open>Which of the two paths of the object a connection point of the request is for.\<close>

datatype path_field = Consumed_path | Produced_path

definition set_path :: "path_field \<Rightarrow> CipConnectionPathEpath \<Rightarrow> CipConnectionObject \<Rightarrow> CipConnectionObject" where
  "set_path f e x = (case f of Consumed_path \<Rightarrow> x\<lparr>consumed_path := e\<rparr> | Produced_path \<Rightarrow> x\<lparr>produced_path := e\<rparr>)"

definition paths_to_encode :: "CipConnectionObject \<Rightarrow> path_field list" where
  "paths_to_encode x =
     (if kConnectionObjectConnectionTypeNull = ConnectionObjectGetOToTConnectionType x
      then if kConnectionObjectConnectionTypeNull = ConnectionObjectGetTToOConnectionType x then []
        else [Produced_path]
      else if kConnectionObjectConnectionTypeNull = ConnectionObjectGetTToOConnectionType x
      then [Consumed_path] else [Consumed_path, Produced_path])"

fun parse_connection_points :: "conn_ref \<Rightarrow> u32 \<Rightarrow> u16 list \<Rightarrow> path_field list \<Rightarrow> buf \<Rightarrow> size_t \<Rightarrow> stack
    \<Rightarrow> (buf \<times> size_t) parsed option" where
  "parse_connection_points c code ns [] p remaining_path s = Some (Inr (p, remaining_path), s)"
| "parse_connection_points c code ns (f # fs) p remaining_path s = do {
     is_point \<leftarrow> logical_segment
        {kLogicalSegmentLogicalTypeInstanceId, kLogicalSegmentLogicalTypeConnectionPoint} p;
     if is_point
     then do {
       (temp_id, p) \<leftarrow> CipEpathGetLogicalValue p;
       if temp_id > kCipInstanceNumMax
       then Some (Inl (kCipErrorConnectionFailure,
              kConnectionManagerExtendedStatusCodeErrorInvalidSegmentTypeInPath), s)
       else do {
         let s = upd_conn c (set_path f \<lparr>epath_class_id = code, epath_instance_id = ucast temp_id,
                   epath_attribute_id_or_connection_point = 0\<rparr>) s;
         if \<not> has_instance ns (ucast temp_id)
         then Some (Inl (kCipErrorConnectionFailure,
                kConnectionManagerExtendedStatusCodeInconsistentApplicationPathCombo), s)
         else parse_connection_points c code ns fs p
                (remaining_path - words_of_instance (ucast temp_id)) s } }
     else Some (Inl (kCipErrorConnectionFailure,
            kConnectionManagerExtendedStatusCodeErrorInvalidSegmentTypeInPath), s) }"

text \<open>One segment of the rest of the path: configuration data or an inhibit time.\<close>

definition parse_config_segment :: "conn_ref \<Rightarrow> size_t \<Rightarrow> buf \<Rightarrow> size_t \<Rightarrow> stack \<Rightarrow> (buf \<times> size_t) parsed option" where
  "parse_config_segment c connection_path_size p remaining_path s = do {
     t \<leftarrow> GetPathSegmentType p;
     let error_offset = ucast (connection_path_size - remaining_path);
     if t = kSegmentTypeDataSegment
     then do {
       sub \<leftarrow> GetPathDataSegmentSubtype p;
       if sub = kDataSegmentSubtypeSimpleData
       then do {
         words \<leftarrow> peek p 1;
         data \<leftarrow> skip 2 p;
         let len = ucast words * 2;
         p \<leftarrow> skip (unat len + 2) p;
         Some (Inr (p, remaining_path - ucast ((len + 2) div 2)),
           s\<lparr>g_config_data_length := len, g_config_data_buffer := Some data\<rparr>) }
       else Some (Inl (kCipErrorPathSegmentError, 0), s) }
     else if t = kSegmentTypeNetworkSegment
     then do {
       sub \<leftarrow> GetPathNetworkSegmentSubtype p;
       if sub = kNetworkSegmentSubtypeProductionInhibitTimeInMilliseconds
       then if \<not> is_cyclic (conn s c)
         then do {
           v \<leftarrow> peek p 1;
           p \<leftarrow> skip 2 p;
           Some (Inr (p, remaining_path - 2), set_inhibit_time c (ucast v) s) }
         else Some (Inl (kCipErrorPathSegmentError, error_offset), s)
       else Some (Inl (kCipErrorPathSegmentError, 0), s) }
     else Some (Inl (kCipErrorPathSegmentError, error_offset), s) }"

lemma parse_config_segment_shorter:
  "parse_config_segment c k p r s = Some (Inr (p', r'), s') \<Longrightarrow> length p' < length p"
  by (auto simp: parse_config_segment_def bind_Some_iff skip_Some_iff peek_Some_iff Let_def split: if_splits)

text \<open>Every segment moves the pointer on: the loop ends with the octets of the message at the latest.\<close>

function parse_config_segments :: "conn_ref \<Rightarrow> size_t \<Rightarrow> buf \<Rightarrow> size_t \<Rightarrow> stack \<Rightarrow> buf parsed option" where
  "parse_config_segments c connection_path_size p remaining_path s =
     (if remaining_path > 0
      then (case parse_config_segment c connection_path_size p remaining_path s of
          None \<Rightarrow> None
        | Some (Inl e, s) \<Rightarrow> Some (Inl e, s)
        | Some (Inr (p, remaining_path), s) \<Rightarrow>
            parse_config_segments c connection_path_size p remaining_path s)
      else Some (Inr p, s))"
  by pat_completeness auto
termination
  by (relation "measure (\<lambda>(c, k, p, r, s). length p)") (auto dest: parse_config_segment_shorter)

declare parse_config_segments.simps [simp del]

definition class_epath :: "u32 \<Rightarrow> u16 \<Rightarrow> CipConnectionPathEpath" where
  "class_epath code n = \<lparr>epath_class_id = code, epath_instance_id = n,
     epath_attribute_id_or_connection_point = 0\<rparr>"

definition parse_class3_path :: "conn_ref \<Rightarrow> u32 \<Rightarrow> u16 \<Rightarrow> buf \<Rightarrow> size_t \<Rightarrow> stack \<Rightarrow> buf parsed" where
  "parse_class3_path c code n p remaining_path s =
     (if remaining_path > 0
      then (Inl (kCipErrorConnectionFailure,
             kConnectionManagerExtendedStatusCodeErrorInvalidSegmentTypeInPath), s)
      else if code \<noteq> kCipMessageRouterClassCode \<or> n \<noteq> 1
      then (Inl (kCipErrorConnectionFailure,
             kConnectionManagerExtendedStatusCodeInconsistentApplicationPathCombo), s)
      else (Inr p, upd_conn c (\<lambda>x. x\<lparr>configuration_path := class_epath code n,
                     produced_path := class_epath code n\<rparr>) s))"

definition parse_io_path :: "conn_ref \<Rightarrow> size_t \<Rightarrow> u32 \<Rightarrow> u16 list \<Rightarrow> u16 \<Rightarrow> buf \<Rightarrow> size_t \<Rightarrow> stack
    \<Rightarrow> buf parsed option" where
  "parse_io_path c connection_path_size code ns n p remaining_path s = do {
     let s = upd_conn c (\<lambda>x. x\<lparr>configuration_path := class_epath code n,
               consumed_connection_path_length := 0\<rparr>) s;
     (r, s) \<leftarrow> parse_connection_points c code ns (paths_to_encode (conn s c)) p remaining_path s;
     (case r of
        Inl e \<Rightarrow> Some (Inl e, s)
      | Inr (p, remaining_path) \<Rightarrow>
          parse_config_segments c connection_path_size p remaining_path
            (s\<lparr>g_config_data_length := 0, g_config_data_buffer := None\<rparr>)) }"

definition g_kForwardOpenHeaderLength :: size_t where "g_kForwardOpenHeaderLength = 36"
definition g_kLargeForwardOpenHeaderLength :: size_t where "g_kLargeForwardOpenHeaderLength = 40"

text \<open>The class, the instance and the rest, from behind the key and the inhibit time.\<close>

definition parse_application_path :: "conn_ref \<Rightarrow> size_t \<Rightarrow> buf \<Rightarrow> size_t \<Rightarrow> stack \<Rightarrow> buf parsed option" where
  "parse_application_path c connection_path_size p remaining_path s = do {
     r \<leftarrow> parse_class p s;
     (case r of
        Inl e \<Rightarrow> Some (Inl e, s)
      | Inr (code, ns, p) \<Rightarrow> do {
          r \<leftarrow> parse_instance ns p (remaining_path - 1);
          (case r of
             Inl e \<Rightarrow> Some (Inl e, s)
           | Inr (n, p, remaining_path) \<Rightarrow>
               if kConnectionObjectTransportClassTriggerTransportClass3
                  = ConnectionObjectGetTransportClassTriggerTransportClass (conn s c)
               then Some (parse_class3_path c code n p remaining_path s)
               else parse_io_path c connection_path_size code ns n p remaining_path s) }) }"

text \<open>The general status, the extended status, the request with its advanced pointer, and the state.
  An empty path is answered with \<^verbatim>\<open>kEipStatusError\<close>, which is 255 as an octet.\<close>

definition ParseConnectionPath :: "conn_ref \<Rightarrow> CipMessageRouterRequest \<Rightarrow> stack
    \<Rightarrow> (u8 \<times> u16 \<times> CipMessageRouterRequest \<times> stack) option" where
  "ParseConnectionPath c request s = do {
     (words, p) \<leftarrow> GetUsintFromMessage (request_data request);
     let connection_path_size = (ucast words :: size_t);
     if words = 0 then Some (0xFF, 0, request, s)
     else do {
       let s = set_inhibit_time c 256 s;
       let header_length = (if is_large_forward_open (conn s c) then g_kLargeForwardOpenHeaderLength
                            else g_kForwardOpenHeaderLength);
       if header_length + connection_path_size * 2 < request_data_size request
       then Some (kCipErrorTooMuchData, 0, request, s)
       else if header_length + connection_path_size * 2 > request_data_size request
       then Some (kCipErrorNotEnoughData, 0, request, s)
       else do {
         (r, s) \<leftarrow> parse_electronic_key c p connection_path_size s;
         (case r of
            Inl (status, err) \<Rightarrow> Some (status, err, request, s)
          | Inr (p, remaining_path) \<Rightarrow> do {
              (p, remaining_path, s) \<leftarrow> parse_inhibit_time c p remaining_path s;
              (r, s) \<leftarrow> parse_application_path c connection_path_size p remaining_path s;
              Some (case r of
                  Inl (status, err) \<Rightarrow> (status, err, request, s)
                | Inr p \<Rightarrow> (kCipErrorSuccess, 0, request\<lparr>request_data := p\<rparr>, s)) }) } } }"

section \<open>The decision on a key\<close>

definition matches :: "'a::zero \<Rightarrow> 'a \<Rightarrow> bool" where
  "matches wanted actual \<longleftrightarrow> wanted = 0 \<or> wanted = actual"

definition revision_fits :: "CipIdentityObject \<Rightarrow> ElectronicKeyFormat4 \<Rightarrow> bool" where
  "revision_fits i key \<longleftrightarrow>
     (let major = major_revision_compatibility key AND 0x7F; minor = minor_revision key
      in if bit (major_revision_compatibility key) 7
         then major = identity_major_revision i \<and> 0 < minor \<and> minor \<le> identity_minor_revision i
         else major = 0 \<or> major = identity_major_revision i \<and> matches minor (identity_minor_revision i))"

definition first_key_error :: "CipIdentityObject \<Rightarrow> ElectronicKeyFormat4 \<Rightarrow> u16 option" where
  "first_key_error i key =
     (if \<not> (matches (vendor_id key) (identity_vendor_id i) \<and> matches (product_code key) (identity_product_code i))
      then Some 0x0114
      else if \<not> matches (device_type key) (identity_device_type i) then Some 0x0115
      else if \<not> revision_fits i key then Some 0x0116 else None)"

lemma compatibility_bit:
  "ElectronicKeyFormat4GetMajorRevisionCompatibility key = bit (major_revision_compatibility key) 7"
proof -
  have "(0x80 :: u8) = push_bit 7 1" by simp
  then show ?thesis
    unfolding ElectronicKeyFormat4GetMajorRevisionCompatibility_def
    by (simp only: and_single_bit) simp
qed

lemmas key_codes = kConnectionManagerExtendedStatusCodeErrorInvalidSegmentTypeInPath_def
  kConnectionManagerExtendedStatusCodeErrorVendorIdOrProductcodeError_def
  kConnectionManagerExtendedStatusCodeErrorDeviceTypeError_def
  kConnectionManagerExtendedStatusCodeErrorRevisionMismatch_def
  kConnectionManagerExtendedStatusCodeSuccess_def

text \<open>C38: the check of an electronic key of format 4 decides this: vendor, product code and device type
  must be the device's or 0; with the compatibility bit the major revision must be the device's and the
  minor revision between 1 and the device's, without it the major revision must be 0 (then the minor one
  does not matter) or the device's, with a minor revision of 0 or the device's.  The error names the first
  part that does not fit; every other format is refused.\<close>

theorem electronic_key_decision:
  "CheckElectronicKeyData format key s =
     (if format \<noteq> 4 then (kEipStatusError, 0x0315)
      else case first_key_error (g_identity s) key of
        None \<Rightarrow> (kEipStatusOk, 0)
      | Some err \<Rightarrow> (kEipStatusError, err))"
proof -
  note [simp] = key_defs ElectronicKeyFormat4GetMajorRevision_def
  define v where "v = matches (vendor_id key) (identity_vendor_id (g_identity s))"
  define p where "p = matches (product_code key) (identity_product_code (g_identity s))"
  define d where "d = matches (device_type key) (identity_device_type (g_identity s))"
  define r where "r = revision_fits (g_identity s) key"
  have "CheckElectronicKeyData format key s =
     (if format \<noteq> 4 then (kEipStatusError, 0x0315)
      else if \<not> v \<or> \<not> p then (kEipStatusError, 0x0114)
      else if \<not> d then (kEipStatusError, 0x0115)
      else if r then (kEipStatusOk, 0) else (kEipStatusError, 0x0116))"
    unfolding CheckElectronicKeyData_def compatibility_bit Let_def key_codes v_def p_def d_def r_def
      matches_def revision_fits_def
    by (cases "bit (major_revision_compatibility key) 7") auto
  then show ?thesis
    by (simp add: first_key_error_def v_def p_def d_def r_def)
qed

section \<open>The path of an I/O connection\<close>

lemma class_segment [simp]:
  "logical_segment types (0x20 # p) = Some (kLogicalSegmentLogicalTypeClassId \<in> types)"
  by (simp add: logical_segment_def GetPathSegmentType_def GetPathLogicalSegmentLogicalType_def assert_segment_def)

lemma instance_segment [simp]:
  "logical_segment types (0x24 # p) = Some (kLogicalSegmentLogicalTypeInstanceId \<in> types)"
  by (simp add: logical_segment_def GetPathSegmentType_def GetPathLogicalSegmentLogicalType_def assert_segment_def)

lemma point_segment [simp]:
  "logical_segment types (0x2C # p) = Some (kLogicalSegmentLogicalTypeConnectionPoint \<in> types)"
  by (simp add: logical_segment_def GetPathSegmentType_def GetPathLogicalSegmentLogicalType_def assert_segment_def)

lemma eight_bit_value [simp]:
  "h \<in> {0x20, 0x24, 0x2C} \<Longrightarrow> CipEpathGetLogicalValue (h # v # p) = Some (ucast v, p)"
  by (auto simp: GetLogicalValue_Cons GetPathLogicalSegmentLogicalFormat_def GetPathSegmentType_def assert_segment_def)

lemma inhibit_segment_logical [simp]: "inhibit_segment (0x20 # p) = Some False"
  by (simp add: inhibit_segment_def GetPathSegmentType_def)

text \<open>The octets of the path: class 4, the configuration instance, the two connection points and a simple
  data segment, whose length is in words.\<close>

definition config_octets :: "u8 list \<Rightarrow> u8 list" where
  "config_octets bs = (if bs = [] then [] else [0x80, of_nat (length bs div 2)] @ bs)"

definition io_path_octets :: "u8 \<Rightarrow> u8 \<Rightarrow> u8 \<Rightarrow> u8 list \<Rightarrow> u8 list" where
  "io_path_octets config output input bs =
     [0x20, 4, 0x24, config, 0x2C, output, 0x2C, input] @ config_octets bs"

lemma data_segment_parsed:
  assumes "bs \<noteq> []" and "even (length bs)" and "length bs \<le> 500" and "0 < r"
    and "unat r = length (config_octets bs) div 2"
  shows "parse_config_segment c k (config_octets bs @ rest) r s
    = Some (Inr (rest, 0), s\<lparr>g_config_data_length := of_nat (length bs), g_config_data_buffer := Some (bs @ rest)\<rparr>)"
proof -
  obtain n where n: "length bs = 2 * n" "n \<le> 250"
    using assms(2,3) by (auto elim!: evenE)
  have len: "ucast (of_nat n :: u8) * 2 = (of_nat (2 * n) :: u32)"
    using n(2) by (simp add: word_unat_eq_iff unat_of_nat unat_ucast_mod unat_word_ariths)
  have u: "unat (of_nat (2 * n) :: u32) + 2 = Suc (Suc (length bs))"
    using n by (simp add: unat_of_nat del: of_nat_mult)
  have u': "unat (of_nat (2 * n) :: u32) = 2 * n"
    using n by (simp add: unat_of_nat del: of_nat_mult)
  have r: "r = of_nat (Suc n)"
    using assms(5) assms(1) n by (simp add: config_octets_def word_unat_eq_iff unat_of_nat del: of_nat_Suc)
  have w: "r - ucast ((of_nat (2 * n) + 2 :: u32) div 2) = 0"
  proof -
    have "(of_nat (2 * n) + 2 :: u32) div 2 = of_nat (2 * n + 2) div 2"
      by (simp only: of_nat_add of_nat_numeral)
    also have "\<dots> = of_nat (Suc n)"
      using n(2) by (simp add: word_unat_eq_iff unat_div_distrib unat_of_nat del: of_nat_mult of_nat_add of_nat_Suc)
    finally have q: "(of_nat (2 * n) + 2 :: u32) div 2 = of_nat (Suc n)" .
    have "ucast (of_nat (Suc n) :: u32) = (of_nat (Suc n) :: size_t)"
      using n(2) by (simp add: word_unat_eq_iff unat_of_nat unat_ucast_mod del: of_nat_Suc)
    then show ?thesis
      unfolding q r by (simp del: of_nat_Suc)
  qed
  show ?thesis
    using assms(1) n w
    by (simp add: parse_config_segment_def config_octets_def GetPathSegmentType_def GetPathDataSegmentSubtype_def
        peek_def skip_def len u u' Let_def del: of_nat_mult)
qed

lemma config_segments_parsed:
  assumes "even (length bs)" and "length bs \<le> 500" and "unat r = length (config_octets bs) div 2"
    and "g_config_data_length s = 0" and "g_config_data_buffer s = None"
  shows "parse_config_segments c k (config_octets bs @ rest) r s
    = Some (Inr rest, s\<lparr>g_config_data_length := of_nat (length bs),
        g_config_data_buffer := if bs = [] then None else Some (bs @ rest)\<rparr>)"
proof (cases "bs = []")
  case True
  then have "r = 0"
    using assms(3) by (simp add: config_octets_def word_unat_eq_iff)
  then show ?thesis
    using True assms(4,5) by (simp add: parse_config_segments.simps config_octets_def)
next
  case False
  then have "0 < r"
    using assms(3) by (simp add: config_octets_def word_less_nat_alt)
  then show ?thesis
    using False data_segment_parsed [OF False assms(1,2) _ assms(3), of c k rest s]
    by (simp add: parse_config_segments.simps)
qed

lemma no_key [simp]: "parse_electronic_key c (0x20 # p) r s = Some (Inr (0x20 # p, r), s)"
  by (simp add: parse_electronic_key_def)

lemma no_inhibit_time [simp]: "parse_inhibit_time c (0x20 # p) r s = Some (0x20 # p, r, s)"
  by (simp add: parse_inhibit_time_def)

lemma class_parsed:
  "class_instances (ucast v) s = Some ns \<Longrightarrow> parse_class (0x20 # v # p) s = Some (Inr (ucast v, ns, p))"
  by (simp add: parse_class_def)

lemma eight_bit_instance:
  "words_of_instance (ucast (v :: u8)) = 1" "\<not> kCipInstanceNumMax < ucast (v :: u8)"
  "ucast (ucast (v :: u8) :: u32) = (ucast v :: u16)"
proof -
  have "unat v < 256"
    by (rule order_less_le_trans [OF unsigned_less]) simp
  then show "words_of_instance (ucast (v :: u8)) = 1" "\<not> kCipInstanceNumMax < ucast (v :: u8)"
    by (simp_all add: words_of_instance_def kCipInstanceNumMax_def word_less_nat_alt unat_ucast_mod)
  show "ucast (ucast (v :: u8) :: u32) = (ucast v :: u16)"
    by (rule bit_word_eqI) (auto simp: bit_simps)
qed

lemma instance_parsed:
  "ucast v \<in> set ns \<Longrightarrow> parse_instance ns (0x24 # v # p) r = Some (Inr (ucast v, p, r - 1))"
  by (simp add: parse_instance_def has_instance_def eight_bit_instance)

lemma point_parsed:
  "ucast v \<in> set ns \<Longrightarrow> parse_connection_points c code ns (f # fs) (0x2C # v # p) r s
     = parse_connection_points c code ns fs p (r - 1) (upd_conn c (set_path f (class_epath code (ucast v))) s)"
  by (simp add: has_instance_def eight_bit_instance class_epath_def)

lemma io_paths:
  "ConnectionObjectGetOToTConnectionType x \<noteq> kConnectionObjectConnectionTypeNull \<Longrightarrow>
   ConnectionObjectGetTToOConnectionType x \<noteq> kConnectionObjectConnectionTypeNull \<Longrightarrow>
   paths_to_encode x = [Consumed_path, Produced_path]"
  by (auto simp: paths_to_encode_def)

definition after_io_path :: "u8 \<Rightarrow> u8 \<Rightarrow> u8 \<Rightarrow> CipConnectionObject \<Rightarrow> CipConnectionObject" where
  "after_io_path config output input x = x\<lparr>production_inhibit_time := 256,
     configuration_path := class_epath kCipAssemblyClassCode (ucast config),
     consumed_connection_path_length := 0,
     consumed_path := class_epath kCipAssemblyClassCode (ucast output),
     produced_path := class_epath kCipAssemblyClassCode (ucast input)\<rparr>"

lemma io_path_length:
  assumes "even (length bs)" and "length bs \<le> 500"
  shows "\<exists>w. length (io_path_octets config output input bs) = 2 * w \<and> w = 4 + length (config_octets bs) div 2 \<and> w < 256"
  using assms by (auto simp: io_path_octets_def config_octets_def elim!: evenE)

text \<open>The segments behind the configuration instance.\<close>

lemma io_points_parsed:
  assumes "even (length bs)" and "length bs \<le> 500" and "{ucast config, ucast output, ucast input} \<subseteq> set ns"
    and "ConnectionObjectGetOToTConnectionType (conn s c) \<noteq> kConnectionObjectConnectionTypeNull"
    and "ConnectionObjectGetTToOConnectionType (conn s c) \<noteq> kConnectionObjectConnectionTypeNull"
    and "w = 4 + length (config_octets bs) div 2" and "w < 256"
  shows "parse_io_path c (of_nat w) 4 ns (ucast config)
      (0x2C # output # 0x2C # input # config_octets bs @ rest) (of_nat w - 1 - 1) s
    = Some (Inr rest, (upd_conn c (set_path Produced_path (class_epath 4 (ucast input)))
        (upd_conn c (set_path Consumed_path (class_epath 4 (ucast output)))
          (upd_conn c (\<lambda>x. x\<lparr>configuration_path := class_epath 4 (ucast config), consumed_connection_path_length := 0\<rparr>) s)))
        \<lparr>g_config_data_length := of_nat (length bs),
         g_config_data_buffer := if bs = [] then None else Some (bs @ rest)\<rparr>)"
proof -
  have rest_words: "of_nat w - 1 - 1 - 1 - 1 = (of_nat (length (config_octets bs) div 2) :: size_t)"
    by (simp add: assms(6))
  have rest_size: "unat (of_nat (length (config_octets bs) div 2) :: size_t) = length (config_octets bs) div 2"
    using assms(6,7) by (simp add: unat_of_nat)
  define s2 where "s2 = upd_conn c (\<lambda>x. x\<lparr>configuration_path := class_epath 4 (ucast config),
    consumed_connection_path_length := 0\<rparr>) s"
  have paths: "paths_to_encode (conn s2 c) = [Consumed_path, Produced_path]"
    using assms(4,5) by (intro io_paths)
      (simp_all add: s2_def ConnectionObjectGetOToTConnectionType_def ConnectionObjectGetTToOConnectionType_def)
  define s3 where "s3 = upd_conn c (set_path Produced_path (class_epath 4 (ucast input)))
    (upd_conn c (set_path Consumed_path (class_epath 4 (ucast output))) s2)"
  have points: "parse_connection_points c 4 ns [Consumed_path, Produced_path]
      (0x2C # output # 0x2C # input # config_octets bs @ rest) (of_nat w - 1 - 1) s2
    = Some (Inr (config_octets bs @ rest, of_nat (length (config_octets bs) div 2)), s3)"
    using assms(3) by (simp only: insert_subset point_parsed rest_words s3_def parse_connection_points.simps(1))
  show ?thesis
    unfolding parse_io_path_def s2_def [symmetric] paths Let_def bind.bind_lunit points prod.case sum.case s3_def [symmetric]
    by (subst config_segments_parsed [OF assms(1,2) rest_size]) simp_all
qed

text \<open>C39: the connection path of an I/O connection, with the configuration instance, the two connection
  points and configuration data of up to 500 octets, is parsed into exactly those: the three paths of the
  connection object, the configuration buffer, and the pointer behind the last octet.  The inhibit time is
  marked as missing, and nothing else changes.\<close>

theorem io_connection_path_parsed:
  assumes "even (length bs)" and "length bs \<le> 500"
    and "class_instances kCipAssemblyClassCode s = Some ns"
    and "{ucast config, ucast output, ucast input} \<subseteq> set ns"
    and "ConnectionObjectGetOToTConnectionType (conn s c) \<noteq> kConnectionObjectConnectionTypeNull"
    and "ConnectionObjectGetTToOConnectionType (conn s c) \<noteq> kConnectionObjectConnectionTypeNull"
    and "ConnectionObjectGetTransportClassTriggerTransportClass (conn s c)
      \<noteq> kConnectionObjectTransportClassTriggerTransportClass3"
    and "path = io_path_octets config output input bs"
    and "request_data request = of_nat (length path div 2) # path @ rest"
    and "request_data_size request = of_nat (length path) + (if is_large_forward_open (conn s c) then 40 else 36)"
  shows "ParseConnectionPath c request s = Some (kCipErrorSuccess, 0, request\<lparr>request_data := rest\<rparr>,
     (upd_conn c (after_io_path config output input) s)
       \<lparr>g_config_data_length := of_nat (length bs),
        g_config_data_buffer := if bs = [] then None else Some (bs @ rest)\<rparr>)"
proof -
  obtain w where w: "length path = 2 * w" "w = 4 + length (config_octets bs) div 2" "w < 256"
    using io_path_length [OF assms(1,2)] assms(8) by blast
  have path: "path = 0x20 # 4 # 0x24 # config # 0x2C # output # 0x2C # input # config_octets bs"
    using assms(8) by (simp add: io_path_octets_def)
  have "0 < w" using w(2) by simp
  then have size: "ucast (of_nat w :: u8) = (of_nat w :: size_t)" "(of_nat w :: u8) \<noteq> 0"
    using w(3) \<open>0 < w\<close> by (simp_all add: word_unat_eq_iff unat_of_nat unat_ucast_mod)
  define s1 where "s1 = set_inhibit_time c 256 s"
  note s1_defs = s1_def set_inhibit_time_def ConnectionObjectSetProductionInhibitTime_def
  have s1: "class_instances (ucast (4 :: u8)) s1 = Some ns"
    using assms(3) by (simp add: s1_defs class_instances_def class_data_def kCipAssemblyClassCode_def)
  have t1: "ConnectionObjectGetTransportClassTriggerTransportClass (conn s1 c)
      \<noteq> kConnectionObjectTransportClassTriggerTransportClass3"
    using assms(7) by (simp add: s1_defs ConnectionObjectGetTransportClassTriggerTransportClass_def)
  have app: "parse_application_path c (of_nat w) (path @ rest) (of_nat w) s1 = parse_io_path c (of_nat w) 4 ns
      (ucast config) (0x2C # output # 0x2C # input # config_octets bs @ rest) (of_nat w - 1 - 1) s1"
    using s1 t1 assms(4) by (simp add: parse_application_path_def path class_parsed instance_parsed)
  have io: "parse_io_path c (of_nat w) 4 ns (ucast config)
      (0x2C # output # 0x2C # input # config_octets bs @ rest) (of_nat w - 1 - 1) s1
    = Some (Inr rest, (upd_conn c (after_io_path config output input) s)
        \<lparr>g_config_data_length := of_nat (length bs),
         g_config_data_buffer := if bs = [] then None else Some (bs @ rest)\<rparr>)"
    using io_points_parsed [OF assms(1,2,4) _ _ w(2,3), of s1 c rest] assms(5,6)
    by (simp add: s1_defs ConnectionObjectGetOToTConnectionType_def ConnectionObjectGetTToOConnectionType_def
        upd_conn_def set_conn_def after_io_path_def set_path_def kCipAssemblyClassCode_def)
  have key: "parse_electronic_key c (path @ rest) (of_nat w) s1 = Some (Inr (path @ rest, of_nat w), s1)"
    and inhibit: "parse_inhibit_time c (path @ rest) (of_nat w) s1 = Some (path @ rest, of_nat w, s1)"
    by (simp_all add: path)
  have header: "(if is_large_forward_open (conn s1 c) then g_kLargeForwardOpenHeaderLength
      else g_kForwardOpenHeaderLength) + of_nat w * 2 = request_data_size request"
    using assms(10) by (simp add: s1_defs g_kLargeForwardOpenHeaderLength_def g_kForwardOpenHeaderLength_def w(1))
  have data: "GetUsintFromMessage (request_data request) = Some (of_nat w, path @ rest)"
    using assms(9) w(1) by simp
  show ?thesis
    unfolding ParseConnectionPath_def data bind.bind_lunit prod.case Let_def s1_def [symmetric] size(1) header
      key sum.case inhibit app io
    using size(2) by simp
qed

definition assembly_class :: CipClassData where
  "assembly_class = \<lparr>class_revision = 2, max_instance = 103, number_of_instances = 3,
     instance_chain = [101, 102, 103]\<rparr>"

theorem io_connection_path_parsed_witness:
  "\<exists>s. ParseConnectionPath dummy_connection_object_ref
      (zero_request\<lparr>request_data_size := 50, request_data := 7 # io_path_octets 103 101 102 [1, 2, 3, 4]\<rparr>)
      (initial_stack\<lparr>g_classes := [(kCipAssemblyClassCode, assembly_class)],
         conn := \<lambda>c. zero_connection_object\<lparr>o_to_t_network_connection_parameters := 0x4000,
           t_to_o_network_connection_parameters := 0x4000\<rparr>\<rparr>)
      = Some (kCipErrorSuccess, 0, zero_request\<lparr>request_data_size := 50, request_data := []\<rparr>, s)
    \<and> g_config_data_buffer s = Some [1, 2, 3, 4]"
proof -
  let ?s = "initial_stack\<lparr>g_classes := [(kCipAssemblyClassCode, assembly_class)],
         conn := \<lambda>c. zero_connection_object\<lparr>o_to_t_network_connection_parameters := 0x4000,
           t_to_o_network_connection_parameters := 0x4000\<rparr>\<rparr>"
  have i: "class_instances kCipAssemblyClassCode ?s = Some [101, 102, 103]"
    by (simp add: class_instances_def class_data_def assembly_class_def)
  have t: "ConnectionObjectGetOToTConnectionType (zero_connection_object\<lparr>o_to_t_network_connection_parameters := 0x4000,
        t_to_o_network_connection_parameters := 0x4000\<rparr>) = kConnectionObjectConnectionTypePointToPoint"
    "ConnectionObjectGetTToOConnectionType (zero_connection_object\<lparr>o_to_t_network_connection_parameters := 0x4000,
        t_to_o_network_connection_parameters := 0x4000\<rparr>) = kConnectionObjectConnectionTypePointToPoint"
    "ConnectionObjectGetTransportClassTriggerTransportClass (zero_connection_object
        \<lparr>o_to_t_network_connection_parameters := 0x4000, t_to_o_network_connection_parameters := 0x4000\<rparr>)
      = kConnectionObjectTransportClassTriggerTransportClass0"
    "\<not> is_large_forward_open zero_connection_object"
    by code_simp+
  have "ParseConnectionPath dummy_connection_object_ref
      (zero_request\<lparr>request_data_size := 50, request_data := 7 # io_path_octets 103 101 102 [1, 2, 3, 4]\<rparr>) ?s
    = Some (kCipErrorSuccess, 0, zero_request\<lparr>request_data_size := 50,
        request_data := 7 # io_path_octets 103 101 102 [1, 2, 3, 4]\<rparr>\<lparr>request_data := []\<rparr>,
      (upd_conn dummy_connection_object_ref (after_io_path 103 101 102) ?s)
        \<lparr>g_config_data_length := of_nat (length [1, 2, 3, 4 :: u8]),
         g_config_data_buffer := if [1, 2, 3, 4 :: u8] = [] then None else Some ([1, 2, 3, 4] @ [])\<rparr>)"
    by (rule io_connection_path_parsed [OF _ _ i, where path = "io_path_octets 103 101 102 [1, 2, 3, 4]"])
      (simp_all add: t, simp_all add: io_path_octets_def config_octets_def)
  then show ?thesis
    by simp
qed

end
