(* ===== verification/Conn_Manager.thy ===== *)
theory Conn_Manager
  imports Io_Data Conn_Path Encap
begin

text \<open>
  The connection manager (\<^verbatim>\<open>cip/cipconnectionmanager.c\<close>): the services that open, close and report
  connections with their replies, the data that arrives for a connection, and the cyclic run over the
  connections.  The path of a request is parsed in \<open>Conn_Path\<close>, connections are established in
  \<open>Io_Connection\<close> and closed in \<open>Conn_Close\<close>.

  The buffer object of the forward open service is the connection object \<open>dummy_connection_object_ref\<close>;
  it keeps what earlier requests left in it.
\<close>

section \<open>Replies\<close>

definition AddNullAddressItem :: "CipCommonPacketFormatData \<Rightarrow> CipCommonPacketFormatData option" where
  "AddNullAddressItem c = do {
     c_assert (data_type_id (data_item c) = kCipItemIdUnconnectedDataItem);
     Some (c\<lparr>address_item := (address_item c)
       \<lparr>address_type_id := kCipItemIdNullAddress, address_length := 0\<rparr>\<rparr>) }"

text \<open>The packet structure for a reply without connection.\<close>

definition set_unconnected_reply :: "stack \<Rightarrow> stack option" where
  "set_unconnected_reply s = do {
     let c = g_common_packet_format_data_item s;
     c \<leftarrow> AddNullAddressItem (c\<lparr>item_count := 2,
            data_item := (data_item c)\<lparr>data_type_id := kCipItemIdUnconnectedDataItem\<rparr>\<rparr>);
     Some (s\<lparr>g_common_packet_format_data_item := c\<rparr>) }"

text \<open>One item more for the first socket address, and then one for the second.\<close>

definition count_sockaddr_items :: "stack \<Rightarrow> stack" where
  "count_sockaddr_items s =
     (let c = g_common_packet_format_data_item s
      in if sockaddr_type_id (sockaddr_items s ! 0) \<noteq> 0
         then s\<lparr>g_common_packet_format_data_item :=
           c\<lparr>item_count := if sockaddr_type_id (sockaddr_items s ! 1) \<noteq> 0 then 4 else 3\<rparr>\<rparr>
         else s)"

definition open_error_status :: "u8 \<Rightarrow> u16 \<Rightarrow> CipConnectionObject \<Rightarrow> CipMessageRouterResponse
    \<Rightarrow> CipMessageRouterResponse" where
  "open_error_status status err x r =
     (if status = kCipErrorNotEnoughData \<or> status = kCipErrorTooMuchData
      then r\<lparr>size_of_additional_status := 0\<rparr>
      else if err = kConnectionManagerExtendedStatusCodeErrorInvalidOToTConnectionSize
      then r\<lparr>size_of_additional_status := 2,
             additional_status := [err, correct_originator_to_target_size x]\<rparr>
      else if err = kConnectionManagerExtendedStatusCodeErrorInvalidTToOConnectionSize
      then r\<lparr>size_of_additional_status := 2,
             additional_status := [err, correct_target_to_originator_size x]\<rparr>
      else r\<lparr>size_of_additional_status := 1,
             additional_status := (additional_status r)[0 := err]\<rparr>)"

definition AssembleForwardOpenResponse :: "conn_ref \<Rightarrow> CipMessageRouterResponse \<Rightarrow> u8 \<Rightarrow> u16 \<Rightarrow> stack
    \<Rightarrow> (EipStatus \<times> CipMessageRouterResponse \<times> stack) option" where
  "AssembleForwardOpenResponse c r status err s = do {
     s \<leftarrow> set_unconnected_reply s;
     let r = r\<lparr>reply_service := 0x80 OR (if is_large_forward_open (conn s c) then kLargeForwardOpen
                                          else kForwardOpen),
               general_status := status\<rparr>;
     (r, s) \<leftarrow>
       (if status = kCipErrorSuccess
        then Some (r\<lparr>size_of_additional_status := 0,
               message := AddDintToMessage (cip_produced_connection_id (conn s c))
                 (AddDintToMessage (cip_consumed_connection_id (conn s c)) (message r))\<rparr>,
               count_sockaddr_items s)
        else do {
          x \<leftarrow> ConnectionObjectSetState kConnectionObjectStateNonExistent (conn s c);
          Some (open_error_status status err x r, set_conn c x s) });
     let x = conn s c;
     let m = AddIntToMessage (connection_serial_number x) (message r);
     let m = AddIntToMessage (originator_vendor_id x) m;
     let m = AddDintToMessage (originator_serial_number x) m;
     let m = (if status = kCipErrorSuccess
              then AddDintToMessage (t_to_o_requested_packet_interval x)
                     (AddDintToMessage (o_to_t_requested_packet_interval x) m)
              else m);
     let m = AddSintToMessage 0 (AddSintToMessage 0 m);
     Some (kEipStatusOkSend, r\<lparr>message := m\<rparr>, s) }"

text \<open>The octet in front of which the request pointer stands after the triad is the remaining path size.\<close>

definition AssembleForwardCloseResponse :: "u16 \<Rightarrow> u16 \<Rightarrow> u32 \<Rightarrow> CipMessageRouterRequest
    \<Rightarrow> CipMessageRouterResponse \<Rightarrow> u16 \<Rightarrow> stack
    \<Rightarrow> (EipStatus \<times> CipMessageRouterResponse \<times> stack) option" where
  "AssembleForwardCloseResponse serial vendor originator request r err s = do {
     s \<leftarrow> set_unconnected_reply s;
     let m = AddDintToMessage originator (AddIntToMessage vendor (AddIntToMessage serial (message r)));
     let r = r\<lparr>reply_service := 0x80 OR service request\<rparr>;
     if err = kConnectionManagerExtendedStatusCodeSuccess
     then Some (kEipStatusOkSend, r\<lparr>message := AddSintToMessage 0 (AddSintToMessage 0 m),
            general_status := kCipErrorSuccess, size_of_additional_status := 0\<rparr>, s)
     else do {
       remaining_path_size \<leftarrow> peek (request_data request) 0;
       let r = r\<lparr>message := AddSintToMessage 0 (AddSintToMessage remaining_path_size m)\<rparr>;
       Some (kEipStatusOkSend,
         (if err = kConnectionManagerExtendedStatusWrongCloser
          then r\<lparr>general_status := kCipErrorPrivilegeViolation\<rparr>
          else r\<lparr>general_status := kCipErrorConnectionFailure,
                 additional_status := (additional_status r)[0 := err],
                 size_of_additional_status := 1\<rparr>), s) } }"

definition AssembleConnectionDataResponseMessage :: "CipConnectionObject \<Rightarrow> ENIPMessage \<Rightarrow> ENIPMessage" where
  "AssembleConnectionDataResponseMessage x m =
     (let m = AddIntToMessage (connection_number x) m;
          m = AddIntToMessage (ucast (state x)) m;
          m = AddIntToMessage (sin_port (originator_address x)) m;
          m = AddIntToMessage (sin_port (remote_address x)) m;
          m = AddIntToMessage (connection_serial_number x) m;
          m = AddIntToMessage (originator_vendor_id x) m;
          m = AddDintToMessage (originator_serial_number x) m;
          m = AddDintToMessage (cip_consumed_connection_id x) m;
          m = AddDintToMessage (cip_consumed_connection_id x) m;
          m = AddSintToMessage (connection_timeout_multiplier x) m;
          m = AddSintToMessage 0 (AddSintToMessage 0 (AddSintToMessage 0 m));
          m = AddDintToMessage (o_to_t_requested_packet_interval x) m;
          m = AddDintToMessage (ucast (transmission_trigger_timer x)) m;
          m = AddDintToMessage (cip_produced_connection_id x) m;
          m = AddDintToMessage (cip_produced_connection_id x) m;
          m = AddSintToMessage (connection_timeout_multiplier x) m;
          m = AddSintToMessage 0 (AddSintToMessage 0 (AddSintToMessage 0 m));
          m = AddDintToMessage (t_to_o_requested_packet_interval x) m
      in AddDintToMessage (ucast (transmission_trigger_timer x)) m)"

section \<open>Opening\<close>

definition HandleNullNonMatchingForwardOpenRequest :: "conn_ref \<Rightarrow> CipMessageRouterResponse \<Rightarrow> stack
    \<Rightarrow> (EipStatus \<times> CipMessageRouterResponse \<times> stack) option" where
  "HandleNullNonMatchingForwardOpenRequest c r s = AssembleForwardOpenResponse c r
     kCipErrorConnectionFailure kConnectionManagerExtendedStatusCodeNullForwardOpenNotSupported s"

definition HandleNullMatchingForwardOpenRequest :: "conn_ref \<Rightarrow> CipMessageRouterResponse \<Rightarrow> stack
    \<Rightarrow> (EipStatus \<times> CipMessageRouterResponse \<times> stack) option" where
  "HandleNullMatchingForwardOpenRequest c r s = AssembleForwardOpenResponse c r
     kCipErrorConnectionFailure kConnectionManagerExtendedStatusCodeNullForwardOpenNotSupported s"

definition HandleNonNullMatchingForwardOpenRequest :: "conn_ref \<Rightarrow> CipMessageRouterResponse \<Rightarrow> stack
    \<Rightarrow> (EipStatus \<times> CipMessageRouterResponse \<times> stack) option" where
  "HandleNonNullMatchingForwardOpenRequest c r s = AssembleForwardOpenResponse c r
     kCipErrorConnectionFailure
     kConnectionManagerExtendedStatusCodeErrorConnectionInUseOrDuplicateForwardOpen s"

text \<open>The functions \<^verbatim>\<open>ConnectionManagerInit\<close> enters into the table, and the call through it; \<open>err\<close> is the
  extended status of the caller, which \<^verbatim>\<open>EstablishClass3Connection\<close> only writes on an error.\<close>

definition open_connection :: "platform \<Rightarrow> OpenConnectionFunction option option \<Rightarrow> conn_ref \<Rightarrow> u16 \<Rightarrow> stack
    \<Rightarrow> (u8 \<times> u16 \<times> stack) option" where
  "open_connection pf entry c err s =
     (case entry of
        None \<Rightarrow> Some (0xFF, kConnectionManagerExtendedStatusCodeInconsistentApplicationPathCombo, s)
      | Some None \<Rightarrow> Some (kCipErrorSuccess, kConnectionManagerExtendedStatusCodeMiscellaneous, s)
      | Some (Some EstablishClass3Connection_fn) \<Rightarrow> EstablishClass3Connection c err s
      | Some (Some EstablishIoConnection_fn) \<Rightarrow> EstablishIoConnection pf c s)"

definition HandleNonNullNonMatchingForwardOpenRequest :: "platform \<Rightarrow> CipMessageRouterRequest
    \<Rightarrow> CipMessageRouterResponse \<Rightarrow> stack \<Rightarrow> (EipStatus \<times> CipMessageRouterResponse \<times> stack) option" where
  "HandleNonNullNonMatchingForwardOpenRequest pf request r s =
     (if kConnectionObjectTransportClassTriggerProductionTriggerInvalid
         = ConnectionObjectGetTransportClassTriggerProductionTrigger (conn s dummy_connection_object_ref)
      then AssembleForwardOpenResponse dummy_connection_object_ref r kCipErrorConnectionFailure
        kConnectionManagerExtendedStatusCodeErrorTransportClassAndTriggerCombinationNotSupported s
      else do {
        (status, err, request, s) \<leftarrow> ParseConnectionPath dummy_connection_object_ref request s;
        if status \<noteq> 0 then AssembleForwardOpenResponse dummy_connection_object_ref r status err s
        else do {
          let entry = GetConnectionManagementEntry
                (epath_class_id (configuration_path (conn s dummy_connection_object_ref))) s;
          (status, err, s) \<leftarrow> open_connection pf entry dummy_connection_object_ref err s;
          if status \<noteq> 0 then AssembleForwardOpenResponse dummy_connection_object_ref r status err s
          else do {
            c \<leftarrow> head_node s;
            AssembleForwardOpenResponse c r kCipErrorSuccess 0 s } } })"

definition handle_forward_open_request_functions :: "bool \<Rightarrow> bool \<Rightarrow> platform \<Rightarrow> CipMessageRouterRequest
    \<Rightarrow> CipMessageRouterResponse \<Rightarrow> stack \<Rightarrow> (EipStatus \<times> CipMessageRouterResponse \<times> stack) option" where
  "handle_forward_open_request_functions is_null_request is_matching_request pf request r s =
     (if is_null_request
      then if is_matching_request then HandleNullMatchingForwardOpenRequest dummy_connection_object_ref r s
        else HandleNullNonMatchingForwardOpenRequest dummy_connection_object_ref r s
      else if is_matching_request then HandleNonNullMatchingForwardOpenRequest dummy_connection_object_ref r s
        else HandleNonNullNonMatchingForwardOpenRequest pf request r s)"

text \<open>The request is read into the buffer object; random numbers come from the platform.\<close>

definition read_forward_open :: "platform \<Rightarrow> CipMessageRouterRequest \<Rightarrow> sockaddr_in \<Rightarrow> u32 \<Rightarrow> stack
    \<Rightarrow> (CipMessageRouterRequest \<times> stack) option" where
  "read_forward_open pf request originator encapsulation_session s = do {
     (x, p, k) \<leftarrow> ConnectionObjectInitializeFromMessage (\<lambda>k. ucast (os_rand pf k))
        (map (\<lambda>c. connection_number (conn s c)) (connection_list s)) (rand_index s)
        (request_data request) (conn s dummy_connection_object_ref);
     Some (request\<lparr>request_data := p\<rparr>,
       set_conn dummy_connection_object_ref (x\<lparr>associated_encapsulation_session := encapsulation_session,
         originator_address := originator\<rparr>) (s\<lparr>rand_index := k\<rparr>)) }"

definition off_subnet :: "sockaddr_in \<Rightarrow> stack \<Rightarrow> bool" where
  "off_subnet originator s \<longleftrightarrow>
     s_addr originator AND network_mask (g_network_status s)
       \<noteq> network_ip_address (g_network_status s) AND network_mask (g_network_status s)"

definition ForwardOpenRoutine :: "platform \<Rightarrow> CipMessageRouterRequest \<Rightarrow> CipMessageRouterResponse
    \<Rightarrow> sockaddr_in \<Rightarrow> u32 \<Rightarrow> stack \<Rightarrow> (EipStatus \<times> CipMessageRouterResponse \<times> stack) option" where
  "ForwardOpenRoutine pf request r originator encapsulation_session s = do {
     (request, s) \<leftarrow> read_forward_open pf request originator encapsulation_session s;
     let c = dummy_connection_object_ref;
     let o_to_t = ConnectionObjectGetOToTConnectionType (conn s c);
     let t_to_o = ConnectionObjectGetTToOConnectionType (conn s c);
     if kConnectionObjectConnectionTypeInvalid = o_to_t
     then AssembleForwardOpenResponse c r kCipErrorConnectionFailure
            kConnectionManagerExtendedStatusCodeErrorInvalidOToTConnectionType s
     else if kConnectionObjectConnectionTypeInvalid = t_to_o
     then AssembleForwardOpenResponse c r kCipErrorConnectionFailure
            kConnectionManagerExtendedStatusCodeErrorInvalidTToOConnectionType s
     else if kConnectionObjectConnectionTypeMulticast = t_to_o \<and> off_subnet originator s
     then AssembleForwardOpenResponse c r kCipErrorConnectionFailure
            kConnectionManagerExtendedStatusCodeNotConfiguredForOffSubnetMulticast s
     else handle_forward_open_request_functions
            (kConnectionObjectConnectionTypeNull = o_to_t \<and> kConnectionObjectConnectionTypeNull = t_to_o)
            (CheckForExistingConnection (conn s c) s \<noteq> None) pf request r s }"

text \<open>The first argument of a service is the instance, which none of them reads.\<close>

definition LargeForwardOpen :: "platform \<Rightarrow> (sockaddr_in, stack) service_fn" where
  "LargeForwardOpen pf i request r originator encapsulation_session s =
     ForwardOpenRoutine pf request r originator encapsulation_session
       (upd_conn dummy_connection_object_ref (\<lambda>x. x\<lparr>is_large_forward_open := True\<rparr>) s)"

definition ForwardOpen :: "platform \<Rightarrow> (sockaddr_in, stack) service_fn" where
  "ForwardOpen pf i request r originator encapsulation_session s =
     ForwardOpenRoutine pf request r originator encapsulation_session
       (upd_conn dummy_connection_object_ref (\<lambda>x. x\<lparr>is_large_forward_open := False\<rparr>) s)"

section \<open>Closing and reporting\<close>

definition has_triad :: "u16 \<Rightarrow> u16 \<Rightarrow> u32 \<Rightarrow> CipConnectionObject \<Rightarrow> bool" where
  "has_triad serial vendor originator x \<longleftrightarrow> connection_serial_number x = serial
     \<and> originator_vendor_id x = vendor \<and> originator_serial_number x = originator"

definition can_be_closed :: "CipConnectionObject \<Rightarrow> bool" where
  "can_be_closed x \<longleftrightarrow> kConnectionObjectStateEstablished = ConnectionObjectGetState x
     \<or> kConnectionObjectStateTimedOut = ConnectionObjectGetState x"

text \<open>The triad, from behind the priority and the time-out ticks.\<close>

definition read_triad :: "buf \<Rightarrow> ((u16 \<times> u16 \<times> u32) \<times> buf) option" where
  "read_triad p = do {
     (serial, p) \<leftarrow> GetUintFromMessage p;
     (vendor, p) \<leftarrow> GetUintFromMessage p;
     (originator, p) \<leftarrow> GetUdintFromMessage p;
     Some ((serial, vendor, originator), p) }"

definition close_found_connection :: "conn_ref option \<Rightarrow> sockaddr_in \<Rightarrow> stack \<Rightarrow> (u16 \<times> stack) option" where
  "close_found_connection found closer s =
     (case found of
        None \<Rightarrow> Some (kConnectionManagerExtendedStatusCodeErrorConnectionTargetConnectionNotFound, s)
      | Some c \<Rightarrow> do {
          c_assert (connection_close_function (conn s c) \<noteq> None);
          if s_addr closer = s_addr (originator_address (conn s c))
          then do { s \<leftarrow> close_function c s; Some (kConnectionManagerExtendedStatusCodeSuccess, s) }
          else Some (kConnectionManagerExtendedStatusWrongCloser, s) })"

definition ForwardClose :: "(sockaddr_in, stack) service_fn" where
  "ForwardClose i request r closer encapsulation_session s = do {
     let s = set_sockaddr_item 0 (\<lambda>item. item\<lparr>sockaddr_type_id := 0\<rparr>) s;
     let s = set_sockaddr_item 1 (\<lambda>item. item\<lparr>sockaddr_type_id := 0\<rparr>) s;
     p \<leftarrow> skip 2 (request_data request);
     ((serial, vendor, originator), p) \<leftarrow> read_triad p;
     (err, s) \<leftarrow> close_found_connection
        (find_connection (\<lambda>x. can_be_closed x \<and> has_triad serial vendor originator x) (conn s)
           (connection_list s)) closer s;
     AssembleForwardCloseResponse serial vendor originator (request\<lparr>request_data := p\<rparr>) r err s }"

definition GetConnectionOwner :: "(sockaddr_in, stack) service_fn" where
  "GetConnectionOwner i request r originator encapsulation_session s = Some (kEipStatusOk, r, s)"

definition connection_data_reply :: "conn_ref option \<Rightarrow> CipMessageRouterResponse \<Rightarrow> stack
    \<Rightarrow> CipMessageRouterResponse" where
  "connection_data_reply found r s =
     (case found of
        None \<Rightarrow> r\<lparr>general_status := kCipErrorPathDestinationUnknown\<rparr>
      | Some c \<Rightarrow> r\<lparr>message := AssembleConnectionDataResponseMessage (conn s c) (message r),
                    general_status := kCipErrorSuccess\<rparr>)"

definition GetConnectionData :: "(sockaddr_in, stack) service_fn" where
  "GetConnectionData i request r originator encapsulation_session s = do {
     (n, p) \<leftarrow> GetUintFromMessage (request_data request);
     let found = find_connection (\<lambda>x. connection_number x = n) (conn s) (connection_list s);
     Some (kEipStatusOk,
       connection_data_reply found (r\<lparr>reply_service := 0x80 OR kGetConnectionData\<rparr>) s, s) }"

definition SearchConnectionData :: "(sockaddr_in, stack) service_fn" where
  "SearchConnectionData i request r requester encapsulation_session s = do {
     ((serial, vendor, originator), p) \<leftarrow> read_triad (request_data request);
     let found = find_connection (has_triad serial vendor originator) (conn s) (connection_list s);
     Some (kEipStatusOk,
       connection_data_reply found (r\<lparr>reply_service := 0x80 OR kSearchConnectionData\<rparr>) s, s) }"

text \<open>A helper that nothing calls.\<close>

definition GetPaddedLogicalPath :: "buf \<Rightarrow> (u32 \<times> buf) option" where
  "GetPaddedLogicalPath p = do {
     (b, p) \<leftarrow> GetUsintFromMessage p;
     if b AND 3 = 0
     then do { (b, p) \<leftarrow> GetUsintFromMessage p; Some (ucast b, p) }
     else if b AND 3 = 1
     then do {
       p \<leftarrow> skip 1 p;
       (low, p) \<leftarrow> GetUsintFromMessage p;
       (high, p) \<leftarrow> GetUsintFromMessage p;
       Some (ucast low OR push_bit 8 (ucast high), p) }
     else Some (ucast b, p) }"

section \<open>Data of a connection\<close>

definition receive_function :: "conn_ref \<Rightarrow> buf \<Rightarrow> u16 \<Rightarrow> stack \<Rightarrow> (EipStatus \<times> stack) option" where
  "receive_function c p len s =
     (case connection_receive_data_function (conn s c) of
        None \<Rightarrow> Some (kEipStatusOk, s)
      | Some HandleReceivedIoConnectionData_fn \<Rightarrow> HandleReceivedIoConnectionData c p len s)"

text \<open>A packet for a connection that was found, from its originator.\<close>

definition accept_connected_data :: "conn_ref \<Rightarrow> stack \<Rightarrow> (EipStatus \<times> stack) option" where
  "accept_connected_data c s = do {
     let n = sequence_number (address_data (address_item (g_common_packet_format_data_item s)));
     x \<leftarrow> ConnectionObjectResetLastPackageInactivityTimerValue (conn s c);
     let s = set_conn c x s;
     if SEQ_GT32 n (eip_level_sequence_count_consuming (conn s c))
        \<or> \<not> eip_first_level_sequence_count_received (conn s c)
     then do {
       x \<leftarrow> ConnectionObjectResetInactivityWatchdogTimerValue (conn s c);
       let s = set_conn c (x\<lparr>eip_level_sequence_count_consuming := n,
                 eip_first_level_sequence_count_received := True\<rparr>) s;
       receive_function c (item_octets (data_item (g_common_packet_format_data_item s)))
         (data_length (data_item (g_common_packet_format_data_item s))) s }
     else Some (kEipStatusOk, s) }"

definition HandleReceivedConnectedData :: "buf \<Rightarrow> int \<Rightarrow> sockaddr_in \<Rightarrow> stack \<Rightarrow> (EipStatus \<times> stack) option" where
  "HandleReceivedConnectedData p len from_address s = do {
     (status, c) \<leftarrow> CreateCommonPacketFormatStructure p (unat (of_int len :: size_t))
        (g_common_packet_format_data_item s);
     let s = s\<lparr>g_common_packet_format_data_item := c\<rparr>;
     if status = kEipStatusError then Some (kEipStatusError, s)
     else if (address_type_id (address_item c) = kCipItemIdConnectionAddress
              \<or> address_type_id (address_item c) = kCipItemIdSequencedAddressItem)
             \<and> data_type_id (data_item c) = kCipItemIdConnectedDataItem
     then (case GetConnectedObject (connection_identifier (address_data (address_item c))) s of
             None \<Rightarrow> Some (kEipStatusError, s)
           | Some k \<Rightarrow>
               if s_addr (originator_address (conn s k)) = s_addr from_address
               then accept_connected_data k s
               else Some (kEipStatusOk, s))
     else Some (kEipStatusOk, s) }"

section \<open>The cyclic run\<close>

definition check_watchdog :: "platform \<Rightarrow> MilliSeconds \<Rightarrow> conn_ref \<Rightarrow> stack \<Rightarrow> stack option" where
  "check_watchdog pf t c s =
     (if consuming_instance (conn s c) \<noteq> None
         \<or> kConnectionObjectTransportClassTriggerDirectionServer
            = ConnectionObjectGetTransportClassTriggerDirection (conn s c)
      then if inactivity_watchdog_timer (conn s c) \<le> t
        then call_timeout_function (os_peer pf) c s
        else Some (upd_conn c (\<lambda>x. x\<lparr>inactivity_watchdog_timer := inactivity_watchdog_timer x - t,
               last_package_watchdog_timer := last_package_watchdog_timer x - t\<rparr>) s)
      else Some s)"

definition send_function :: "platform \<Rightarrow> conn_ref \<Rightarrow> stack \<Rightarrow> (EipStatus \<times> stack) option" where
  "send_function pf c s =
     (case connection_send_data_function (conn s c) of
        None \<Rightarrow> None
      | Some SendConnectedData_fn \<Rightarrow> SendConnectedData pf c s)"

text \<open>The timer of the next transmission after one, and the inhibit timer, which only counts down while
  it is shorter than the time that passed.\<close>

definition next_transmission :: "MilliSeconds \<Rightarrow> CipConnectionObject \<Rightarrow> CipConnectionObject" where
  "next_transmission t x =
     (let timer = transmission_trigger_timer x + ucast (ConnectionObjectGetRequestedPacketInterval x);
          x = x\<lparr>transmission_trigger_timer := if timer > t then timer - t else 0\<rparr>
      in if is_cyclic x then x else ConnectionObjectResetProductionInhibitTimer x)"

definition count_inhibit_timer :: "MilliSeconds \<Rightarrow> CipConnectionObject \<Rightarrow> CipConnectionObject" where
  "count_inhibit_timer t x =
     (if is_cyclic x \<or> t \<le> production_inhibit_timer x then x
      else x\<lparr>production_inhibit_timer := production_inhibit_timer x - t\<rparr>)"

definition produce_data :: "platform \<Rightarrow> MilliSeconds \<Rightarrow> conn_ref \<Rightarrow> stack \<Rightarrow> stack option" where
  "produce_data pf t c s =
     (if ConnectionObjectGetExpectedPacketRate (conn s c) \<noteq> 0
         \<and> socket_producing (conn s c) \<noteq> kEipInvalidSocket
      then do {
        let s = upd_conn c (count_inhibit_timer t) s;
        if transmission_trigger_timer (conn s c) \<le> t
        then do {
          (_, s) \<leftarrow> send_function pf c s;
          Some (upd_conn c (next_transmission t) s) }
        else Some (upd_conn c (\<lambda>x. x\<lparr>transmission_trigger_timer := transmission_trigger_timer x - t\<rparr>) s) }
      else Some s)"

definition manage_connection :: "platform \<Rightarrow> MilliSeconds \<Rightarrow> conn_ref \<Rightarrow> stack \<Rightarrow> stack option" where
  "manage_connection pf t c s =
     (if kConnectionObjectStateEstablished = ConnectionObjectGetState (conn s c)
      then do {
        s \<leftarrow> check_watchdog pf t c s;
        if kConnectionObjectStateEstablished = ConnectionObjectGetState (conn s c)
        then produce_data pf t c s else Some s }
      else Some s)"

text \<open>The loop reads the link of a node after the work on its connection.\<close>

partial_function (option) manage_from ::
    "platform \<Rightarrow> MilliSeconds \<Rightarrow> conn_ref option \<Rightarrow> stack \<Rightarrow> stack option" where
  "manage_from pf t n s =
     (case n of
        None \<Rightarrow> Some s
      | Some c \<Rightarrow> do {
          s \<leftarrow> manage_connection pf t c s;
          manage_from pf t (next_node c s) s })"

declare manage_from.simps [code]

text \<open>\<^verbatim>\<open>HandleApplication\<close> of the application is empty.\<close>

definition ManageConnections :: "platform \<Rightarrow> MilliSeconds \<Rightarrow> stack \<Rightarrow> (EipStatus \<times> stack) option" where
  "ManageConnections pf elapsed_time s = do {
     let s = ManageEncapsulationMessages elapsed_time s;
     s \<leftarrow> manage_from pf elapsed_time (head_node s) s;
     Some (kEipStatusOk, s) }"

definition TriggerConnections :: "u32 \<Rightarrow> u32 \<Rightarrow> stack \<Rightarrow> EipStatus \<times> stack" where
  "TriggerConnections output input s =
     (case find_connection (\<lambda>x. output = ucast (epath_instance_id (consumed_path x))
          \<and> input = ucast (epath_instance_id (produced_path x))) (conn s) (connection_list s) of
        None \<Rightarrow> (kEipStatusError, s)
      | Some c \<Rightarrow>
          if kConnectionObjectTransportClassTriggerProductionTriggerApplicationObject
             = ConnectionObjectGetTransportClassTriggerProductionTrigger (conn s c)
          then (kEipStatusOk, upd_conn c (\<lambda>x. x\<lparr>transmission_trigger_timer :=
                  ucast (production_inhibit_time x)\<rparr>) s)
          else (kEipStatusError, s))"

text \<open>The attributes and services of the class are in its table.\<close>

definition connection_manager_size :: class_size where
  "connection_manager_size = \<lparr>size_class_attributes = 0, size_highest_class_attribute = 7, size_class_services = 2,
     size_instance_attributes = 0, size_highest_instance_attribute = 14, size_instance_services = 8\<rparr>"

definition ConnectionManagerInit :: "(size_t \<Rightarrow> bool) \<Rightarrow> u16 \<Rightarrow> stack \<Rightarrow> (EipStatus \<times> stack) option" where
  "ConnectionManagerInit allocates unique_connection_id s = do {
     let s = InitializeConnectionManagerData s;
     (created, s) \<leftarrow> register_class allocates kCipConnectionManagerClassCode connection_manager_size 1 ''connection manager'' 1 s;
     if created = kEipStatusError then Some (kEipStatusError, s) else do {
     let s = s\<lparr>g_incarnation_id := push_bit 16 (ucast unique_connection_id)\<rparr>;
     let (_, s) = AddConnectableObject kCipMessageRouterClassCode (Some EstablishClass3Connection_fn) s;
     let (_, s) = AddConnectableObject kCipAssemblyClassCode (Some EstablishIoConnection_fn) s;
     Some (kEipStatusOk, s) } }"

section \<open>Closing\<close>

lemma set_unconnected_reply_eq:
  "set_unconnected_reply s = Some (s\<lparr>g_common_packet_format_data_item :=
     (g_common_packet_format_data_item s)\<lparr>item_count := 2,
       data_item := (data_item (g_common_packet_format_data_item s))\<lparr>data_type_id := kCipItemIdUnconnectedDataItem\<rparr>,
       address_item := (address_item (g_common_packet_format_data_item s))
         \<lparr>address_type_id := kCipItemIdNullAddress, address_length := 0\<rparr>\<rparr>\<rparr>)"
  by (simp add: set_unconnected_reply_def AddNullAddressItem_def Let_def)

lemma set_unconnected_reply_same: "\<exists>s'. set_unconnected_reply s = Some s' \<and> same_connections s s'"
  by (simp add: set_unconnected_reply_eq same_connections_def)

lemma read_triad_octets [simp]:
  "read_triad (le16 serial @ le16 vendor @ le32 originator @ rest) = Some ((serial, vendor, originator), rest)"
  by (simp add: read_triad_def)

lemma set_sockaddr_item_same [simp]: "same_connections s (set_sockaddr_item i f t) = same_connections s t"
  by (simp add: set_sockaddr_item_def same_connections_def)

lemma set_sockaddr_item_other [simp]:
  "conn (set_sockaddr_item i f s) = conn s" "connection_list (set_sockaddr_item i f s) = connection_list s"
  by (simp_all add: set_sockaddr_item_def)

definition close_request :: "u8 \<Rightarrow> u8 \<Rightarrow> u16 \<Rightarrow> u16 \<Rightarrow> u32 \<Rightarrow> u8 list \<Rightarrow> buf" where
  "close_request tick ticks serial vendor originator path =
     [tick, ticks] @ le16 serial @ le16 vendor @ le32 originator @ path"

definition closed_by :: "u16 \<Rightarrow> u16 \<Rightarrow> u32 \<Rightarrow> stack \<Rightarrow> conn_ref option" where
  "closed_by serial vendor originator s =
     find (\<lambda>c. state (conn s c) \<in> {3, 4} \<and> has_triad serial vendor originator (conn s c)) (connection_list s)"

lemma can_be_closed_iff: "can_be_closed x \<longleftrightarrow> state x \<in> {3, 4}"
  by (auto simp: can_be_closed_def ConnectionObjectGetState_def)

lemma find_connection_find: "find_connection P m cs = find (\<lambda>c. P (m c)) cs"
  by (induction cs) auto

lemma connections_wf_same: "same_connections s s' \<Longrightarrow> connections_wf s' = connections_wf s"
  by (simp add: same_connections_def connections_wf_def)

lemma close_codes:
  "kConnectionManagerExtendedStatusCodeErrorConnectionTargetConnectionNotFound
     \<noteq> kConnectionManagerExtendedStatusCodeSuccess"
  "kConnectionManagerExtendedStatusCodeErrorConnectionTargetConnectionNotFound
     \<noteq> kConnectionManagerExtendedStatusWrongCloser"
  "kConnectionManagerExtendedStatusWrongCloser \<noteq> kConnectionManagerExtendedStatusCodeSuccess"
  "kCipErrorConnectionFailure \<noteq> kCipErrorSuccess" "kCipErrorPrivilegeViolation \<noteq> kCipErrorSuccess"
  by (simp_all add: kConnectionManagerExtendedStatusCodeErrorConnectionTargetConnectionNotFound_def
      kConnectionManagerExtendedStatusCodeSuccess_def kConnectionManagerExtendedStatusWrongCloser_def
      kCipErrorConnectionFailure_def kCipErrorSuccess_def kCipErrorPrivilegeViolation_def)

text \<open>The service after the request was read: the reply packet is prepared and the connection looked up.\<close>

lemma forward_close_run:
  assumes "request_data request = close_request tick ticks serial vendor originator path"
  shows "\<exists>t. same_connections s t \<and> conn t = conn s \<and> connection_list t = connection_list s
    \<and> ForwardClose i request r closer h s = do {
      (err, u) \<leftarrow> close_found_connection (closed_by serial vendor originator s) closer t;
      AssembleForwardCloseResponse serial vendor originator (request\<lparr>request_data := path\<rparr>) r err u }"
proof -
  let ?t = "set_sockaddr_item 1 (\<lambda>item. item\<lparr>sockaddr_type_id := 0\<rparr>)
    (set_sockaddr_item 0 (\<lambda>item. item\<lparr>sockaddr_type_id := 0\<rparr>) s)"
  have "skip 2 (request_data request) = Some (le16 serial @ le16 vendor @ le32 originator @ path)"
    by (simp add: assms close_request_def skip_def)
  moreover have "find_connection (\<lambda>x. can_be_closed x \<and> has_triad serial vendor originator x) (conn s) (connection_list s)
    = closed_by serial vendor originator s"
    by (simp add: closed_by_def find_connection_find can_be_closed_iff)
  ultimately show ?thesis
    by (intro exI [of _ ?t]) (simp add: ForwardClose_def)
qed

text \<open>C37: a forward close request always returns, and its reply repeats the triad.  The first established or
  timed out connection with the triad is closed if the request comes from the address of its originator,
  and is off the list of active connections; from another address it is refused with a privilege
  violation, and an unknown triad with the status "connection not found", and then no connection, no
  session and no assembly changes.\<close>

theorem forward_close_effect:
  assumes "connections_wf s" and "path \<noteq> []"
    and "request_data request = close_request tick ticks serial vendor originator path"
  shows "\<exists>status r' s'. ForwardClose i request r closer h s = Some (kEipStatusOkSend, r', s')
    \<and> reply_service r' = 0x80 OR service request
    \<and> message r' = append_octets (le16 serial @ le16 vendor @ le32 originator
         @ [if status = kCipErrorSuccess then 0 else hd path, 0]) (message r)
    \<and> general_status r' = status
    \<and> (case closed_by serial vendor originator s of
         None \<Rightarrow> status = kCipErrorConnectionFailure \<and> same_connections s s'
           \<and> size_of_additional_status r' = 1
           \<and> additional_status r' = (additional_status r)
               [0 := kConnectionManagerExtendedStatusCodeErrorConnectionTargetConnectionNotFound]
       | Some c \<Rightarrow>
           if s_addr closer = s_addr (originator_address (conn s c))
           then status = kCipErrorSuccess \<and> size_of_additional_status r' = 0
             \<and> c \<notin> set (connection_list s') \<and> shrinks s s'
           else status = kCipErrorPrivilegeViolation \<and> same_connections s s')"
proof -
  obtain t where t: "same_connections s t" "conn t = conn s" "connection_list t = connection_list s"
    and run: "ForwardClose i request r closer h s = do {
      (err, u) \<leftarrow> close_found_connection (closed_by serial vendor originator s) closer t;
      AssembleForwardCloseResponse serial vendor originator (request\<lparr>request_data := path\<rparr>) r err u }"
    using forward_close_run [OF assms(3)] by blast
  have wf: "connections_wf t"
    using assms(1) t by (simp add: connections_wf_def)
  obtain b path' where path: "path = b # path'"
    using assms(2) by (cases path) auto
  note reply = run close_found_connection_def AssembleForwardCloseResponse_def path close_codes enc Let_def
  have same: "\<exists>u'. set_unconnected_reply u = Some u' \<and> same_connections u u'" for u
    by (rule set_unconnected_reply_same)
  show ?thesis
  proof (cases "closed_by serial vendor originator s")
    case None
    obtain u where "set_unconnected_reply t = Some u" "same_connections t u"
      using same by blast
    then show ?thesis
      using None same_connections_trans [OF t(1)] by (simp add: reply)
  next
    case (Some c)
    have c: "c \<in> set (connection_list t)"
      using Some by (auto simp: closed_by_def find_Some_iff t)
    show ?thesis
    proof (cases "s_addr closer = s_addr (originator_address (conn s c))")
      case True
      obtain u where u: "close_function c t = Some u" "shrinks t u" "c \<notin> set (connection_list u)"
        using close_function_shrinks [OF wf c] by blast
      obtain v where v: "set_unconnected_reply u = Some v" "same_connections u v"
        using same by blast
      have "shrinks s v" "c \<notin> set (connection_list v)"
        using u v t by (simp_all add: shrinks_def same_connections_def)
      then show ?thesis
        using True Some u(1) v(1) c wf by (simp add: reply connections_wf_def t)
    next
      case False
      obtain u where "set_unconnected_reply t = Some u" "same_connections t u"
        using same by blast
      then show ?thesis
        using Some False c wf same_connections_trans [OF t(1)] by (simp add: reply connections_wf_def t)
    qed
  qed
qed

theorem forward_close_effect_witness:
  "\<exists>r' s'. ForwardClose 1 (zero_request\<lparr>request_data := close_request 10 20 0 0 0 [2, 0]\<rparr>)
      InitializeMessageRouterResponse zero_sockaddr 0 example_stack = Some (kEipStatusOkSend, r', s')
    \<and> general_status r' = kCipErrorSuccess \<and> listen_only_ref 0 0 \<notin> set (connection_list s')"
proof -
  have wf: "connections_wf example_stack"
    by (simp add: connections_wf_def example_stack_def example_connection_def)
  have f: "closed_by 0 0 0 example_stack = Some (listen_only_ref 0 0)"
    by (simp add: closed_by_def example_stack_def example_connection_def has_triad_def zero_connection_object_def)
  have o: "s_addr zero_sockaddr = s_addr (originator_address (conn example_stack (listen_only_ref 0 0)))"
    by (simp add: example_stack_def example_connection_def zero_connection_object_def)
  show ?thesis
    using forward_close_effect [OF wf, of "[2, 0]" "zero_request\<lparr>request_data := close_request 10 20 0 0 0 [2, 0]\<rparr>"
        10 20 0 0 0 1 InitializeMessageRouterResponse zero_sockaddr 0]
    unfolding f option.case if_P [OF o] by (auto simp del: close_codes)
qed

end
