(* ===== verification/Conn_Invariant.thy ===== *)
theory Conn_Invariant
  imports Conn_Manager
begin

text \<open>
  The invariant of the list of active connections, and the parts of opening a connection as far as
  the invariant sees them: a step is either \<open>quiet\<close> (the list and what the invariant reads of the
  connections in it stay), or it is a closing, which \<open>shrinks\<close> the list, or it chooses an object that is
  not in use (\<open>chosen\<close>, \<open>ready\<close>), which can then be entered.

  \<open>ensures P m\<close> says that a computation that returns does so with a result that satisfies \<open>P\<close>; it
  distributes over \<open>bind\<close>, so that the simplifier walks through a function in the order of the code.
\<close>

section \<open>What a computation ensures\<close>

definition ensures :: "('a \<Rightarrow> bool) \<Rightarrow> 'a option \<Rightarrow> bool" where
  "ensures P m \<longleftrightarrow> (\<forall>x. m = Some x \<longrightarrow> P x)"

lemma ensures_simps [simp]:
  "ensures P None" "ensures P (Some x) = P x"
  by (simp_all add: ensures_def)

lemma ensures_bind [simp]: "ensures P (m \<bind> f) = ensures (\<lambda>x. ensures P (f x)) m"
  by (cases m) (simp_all add: ensures_def)

lemma ensures_c_assert [simp]: "ensures P (c_assert b) = (b \<longrightarrow> P ())"
  by (simp add: ensures_def)

lemma ensures_mono: "ensures P m \<Longrightarrow> (\<And>x. P x \<Longrightarrow> Q x) \<Longrightarrow> ensures Q m"
  by (simp add: ensures_def)

lemma ensuresD: "ensures P m \<Longrightarrow> m = Some x \<Longrightarrow> P x"
  by (simp add: ensures_def)

lemma ensuresI: "(\<And>x. m = Some x \<Longrightarrow> P x) \<Longrightarrow> ensures P m"
  by (simp add: ensures_def)

lemma ensures2D: "ensures (\<lambda>(a, b). P a b) m \<Longrightarrow> m = Some (a, b) \<Longrightarrow> P a b"
  and ensures3D: "ensures (\<lambda>(a, b, c). Q a b c) n \<Longrightarrow> n = Some (a, b, c) \<Longrightarrow> Q a b c"
  and ensures4D: "ensures (\<lambda>(a, b, c, d). R a b c d) k \<Longrightarrow> k = Some (a, b, c, d) \<Longrightarrow> R a b c d"
  by (simp_all add: ensures_def)

section \<open>The invariant\<close>

definition conn_ok :: "stack \<Rightarrow> conn_ref \<Rightarrow> bool" where
  "conn_ok s c \<longleftrightarrow> c \<noteq> dummy_connection_object_ref
     \<and> connection_close_function (conn s c) \<noteq> None \<and> connection_timeout_function (conn s c) \<noteq> None
     \<and> state (conn s c) \<in> {3, 4}
     \<and> (\<forall>i. c = exlusive_owner_ref i \<longrightarrow> i < length (g_exlusive_owner_connections s)
          \<and> instance_type (conn s c) = kConnectionObjectInstanceTypeIOExclusiveOwner
          \<and> same_input (conn s c) (g_exlusive_owner_connections s ! i))"

definition connections_inv :: "stack \<Rightarrow> bool" where
  "connections_inv s \<longleftrightarrow> distinct (connection_list s) \<and> length (connection_list s) \<le> kNodesAmount
     \<and> (\<forall>c \<in> set (connection_list s). conn_ok s c)"

text \<open>What the invariant reads of a connection, and the steps that leave it alone for the connections in
  \<open>A\<close>.\<close>

definition core :: "CipConnectionObject \<Rightarrow> ConnectionCloseFunction option \<times> ConnectionTimeoutFunction option
    \<times> u8 \<times> ConnectionObjectInstanceType \<times> u16" where
  "core x = (connection_close_function x, connection_timeout_function x, state x, instance_type x,
     epath_instance_id (produced_path x))"

definition quiet :: "conn_ref set \<Rightarrow> stack \<Rightarrow> stack \<Rightarrow> bool" where
  "quiet A s s' \<longleftrightarrow> connection_list s' = connection_list s
     \<and> g_exlusive_owner_connections s' = g_exlusive_owner_connections s
     \<and> (\<forall>c \<in> A. core (conn s' c) = core (conn s c))"

lemma quiet_refl [simp]: "quiet A s s"
  by (simp add: quiet_def)

lemma quiet_trans [trans]: "quiet A s t \<Longrightarrow> quiet A t u \<Longrightarrow> quiet A s u"
  by (simp add: quiet_def)

lemma quiet_set_conn:
  assumes "c \<notin> A \<or> core x = core (conn t c)"
  shows "quiet A s (set_conn c x t) = quiet A s t"
proof -
  have "core (conn (set_conn c x t) d) = core (conn t d)" if "d \<in> A" for d
    using assms that by (cases "d = c") auto
  then show ?thesis
    unfolding quiet_def connection_list_set_conn set_conn_other by simp
qed

lemma quiet_upd_conn: "c \<notin> A \<or> core (f (conn t c)) = core (conn t c) \<Longrightarrow> quiet A s (upd_conn c f t) = quiet A s t"
  unfolding upd_conn_def by (rule quiet_set_conn)

lemma quiet_same: "same_connections s s' \<Longrightarrow> quiet A s s'"
  by (simp add: quiet_def same_connections_def)

lemma quiet_cong: "connection_list t = connection_list u \<Longrightarrow> conn t = conn u
  \<Longrightarrow> g_exlusive_owner_connections t = g_exlusive_owner_connections u \<Longrightarrow> quiet A s t = quiet A s u"
  by (simp add: quiet_def)

lemma conn_ok_core:
  assumes "core (conn s' c) = core (conn s c)"
    and "g_exlusive_owner_connections s' = g_exlusive_owner_connections s"
  shows "conn_ok s' c = conn_ok s c"
  using assms by (auto simp: conn_ok_def core_def same_input_def)

lemma inv_quiet:
  assumes "connections_inv s" and "quiet A s s'" and "set (connection_list s) \<subseteq> A"
  shows "connections_inv s'"
  using assms conn_ok_core [of s' _ s] by (auto simp: connections_inv_def quiet_def)

lemma inv_wf: "connections_inv s \<Longrightarrow> connections_wf s"
  by (auto simp: connections_inv_def connections_wf_def conn_ok_def)

lemma inv_shrinks:
  assumes "connections_inv s" and "shrinks s s'"
  shows "connections_inv s'"
proof -
  obtain P where l: "connection_list s' = filter P (connection_list s)"
    using assms(2) by (auto simp: shrinks_def)
  have "conn_ok s' c" if "c \<in> set (connection_list s')" for c
  proof -
    have "conn_ok s c"
      using assms(1) that l by (auto simp: connections_inv_def)
    moreover have "core (conn s' c) = core (conn s c)"
      using assms(2) that by (auto simp: shrinks_def core_def inherit_def)
    ultimately show ?thesis
      using assms(2) conn_ok_core [of s' c s] by (simp add: shrinks_def)
  qed
  then show ?thesis
    using assms(1) l by (auto simp: connections_inv_def intro: order_trans [OF length_filter_le])
qed

text \<open>A connection object that can be entered into the list.\<close>

definition ready :: "stack \<Rightarrow> conn_ref \<Rightarrow> bool" where
  "ready s k \<longleftrightarrow> k \<notin> set (connection_list s) \<and> k \<noteq> dummy_connection_object_ref
     \<and> (\<forall>i. k = exlusive_owner_ref i \<longrightarrow> i < length (g_exlusive_owner_connections s)
          \<and> instance_type (conn s k) = kConnectionObjectInstanceTypeIOExclusiveOwner
          \<and> same_input (conn s k) (g_exlusive_owner_connections s ! i))"

lemma ready_quiet: "ready s k \<Longrightarrow> quiet A s s' \<Longrightarrow> k \<in> A \<Longrightarrow> ready s' k"
  by (auto simp: ready_def quiet_def core_def same_input_def)

lemma inv_added:
  assumes "connections_inv s" and "ready s k"
    and "connection_close_function (conn s k) \<noteq> None" and "connection_timeout_function (conn s k) \<noteq> None"
    and "AddNewActiveConnection_to_list k s = Some s'"
  shows "connections_inv s' \<and> connection_list s' = k # connection_list s \<and> state (conn s' k) = 3"
proof -
  have l: "length (connection_list s) < kNodesAmount"
    and s': "s' = set_conn k ((conn s k)\<lparr>state := 3\<rparr>) (s\<lparr>connection_list := k # connection_list s\<rparr>)"
    using assms(5) by (auto simp: AddNewActiveConnection_to_list_def bind_Some_iff)
  have "conn_ok s' c" if c: "c \<in> set (connection_list s)" for c
  proof -
    have "c \<noteq> k"
      using c assms(2) by (auto simp: ready_def)
    then have "core (conn s' c) = core (conn s c)" "g_exlusive_owner_connections s' = g_exlusive_owner_connections s"
      by (simp_all add: s')
    from conn_ok_core [OF this] show ?thesis
      using c assms(1) by (simp add: connections_inv_def)
  qed
  moreover have "conn_ok s' k"
    using assms(2-4) by (auto simp: s' conn_ok_def ready_def same_input_def)
  ultimately show ?thesis
    using assms(1,2) l by (auto simp: connections_inv_def s' ready_def)
qed


section \<open>Reading a request\<close>

lemma quiet_config [simp]:
  "quiet A s (t\<lparr>g_config_data_length := n, g_config_data_buffer := b\<rparr>) = quiet A s t"
  "quiet A s (t\<lparr>rand_index := k\<rparr>) = quiet A s t"
  "quiet A s (t\<lparr>g_common_packet_format_data_item := d\<rparr>) = quiet A s t"
  by (simp_all add: quiet_def)

lemma read_forward_open_quiet:
  assumes "quiet A s0 s" and "dummy_connection_object_ref \<notin> A"
  shows "ensures (\<lambda>(q, s'). quiet A s0 s') (read_forward_open pf request closer h s)"
  unfolding read_forward_open_def using assms by (auto simp: quiet_set_conn intro!: ensuresI split: prod.splits)

lemmas read_forward_open_step = read_forward_open_quiet [THEN ensures2D, rotated -1]

lemma set_inhibit_time_quiet: "c \<notin> A \<Longrightarrow> quiet A s (set_inhibit_time c v t) = quiet A s t"
  unfolding set_inhibit_time_def by (rule quiet_upd_conn) simp

lemma parse_electronic_key_quiet:
  assumes "quiet A s0 s" and "c \<notin> A"
  shows "ensures (\<lambda>(r, s'). quiet A s0 s') (parse_electronic_key c p n s)"
  unfolding parse_electronic_key_def using assms
  by (auto simp: quiet_upd_conn Let_def intro!: ensuresI split: prod.splits)

lemmas parse_electronic_key_step = parse_electronic_key_quiet [THEN ensures2D, rotated -1]

lemma parse_inhibit_time_quiet:
  assumes "quiet A s0 s" and "c \<notin> A"
  shows "ensures (\<lambda>(q, m, s'). quiet A s0 s') (parse_inhibit_time c p n s)"
  unfolding parse_inhibit_time_def using assms
  by (auto simp: set_inhibit_time_quiet intro!: ensuresI split: prod.splits)

lemmas parse_inhibit_time_step = parse_inhibit_time_quiet [THEN ensures3D, rotated -1]

lemma parse_connection_points_step:
  "parse_connection_points c code ns fs p n s = Some (r, s') \<Longrightarrow> quiet A s0 s \<Longrightarrow> c \<notin> A \<Longrightarrow> quiet A s0 s'"
proof (induction c code ns fs p n s arbitrary: r s' rule: parse_connection_points.induct)
  case (2 c code ns f fs p n s)
  have "ensures (\<lambda>(r, s'). quiet A s0 s') (parse_connection_points c code ns (f # fs) p n s)"
    using 2(1,3,4) by (auto simp: quiet_upd_conn Let_def split: prod.splits intro!: ensuresI)
  from ensures2D [OF this 2(2)] show ?case .
qed simp

lemma parse_config_segment_quiet:
  assumes "quiet A s0 s" and "c \<notin> A"
  shows "ensures (\<lambda>(r, s'). quiet A s0 s') (parse_config_segment c k p n s)"
  unfolding parse_config_segment_def using assms
  by (auto simp: set_inhibit_time_quiet Let_def intro!: ensuresI split: prod.splits)

lemmas parse_config_segment_step = parse_config_segment_quiet [THEN ensures2D, rotated -1]

lemma parse_config_segments_quiet:
  "quiet A s0 s \<Longrightarrow> c \<notin> A \<Longrightarrow> ensures (\<lambda>(r, s'). quiet A s0 s') (parse_config_segments c k p n s)"
proof (induction c k p n s rule: parse_config_segments.induct)
  case (1 c k p n s)
  show ?case
    using parse_config_segment_quiet [OF 1(2,3), of k p n] 1
    by (auto simp: parse_config_segments.simps [of c k p n s] ensures_def split: option.split sum.split)
qed

lemmas parse_config_segments_step = parse_config_segments_quiet [THEN ensures2D, rotated -1]

lemma parse_application_path_quiet:
  assumes "quiet A s0 s" and "c \<notin> A"
  shows "ensures (\<lambda>(r, s'). quiet A s0 s') (parse_application_path c k p n s)"
proof -
  have io: "ensures (\<lambda>(r, s'). quiet A s0 s') (parse_io_path c k code ns i p n s)" for code ns i p n
    unfolding parse_io_path_def Let_def ensures_bind using assms
    by (auto simp: quiet_upd_conn split: sum.split prod.splits intro!: ensuresI
        elim!: parse_connection_points_step dest!: parse_config_segments_step [where A = A and ?s0.0 = s0])
  have class3: "parse_class3_path c code i p n s = (r, s') \<Longrightarrow> quiet A s0 s'" for code i p n r s'
    using assms by (auto simp: parse_class3_path_def quiet_upd_conn split: if_splits)
  show ?thesis
    unfolding parse_application_path_def using assms
    by (auto simp: io class3 split: sum.split intro!: ensuresI split: prod.splits)
qed

lemmas parse_application_path_step = parse_application_path_quiet [THEN ensures2D, rotated -1]

lemma ParseConnectionPath_quiet:
  assumes "quiet A s0 s" and "c \<notin> A"
  shows "ensures (\<lambda>(status, err, q, s'). quiet A s0 s') (ParseConnectionPath c request s)"
  unfolding ParseConnectionPath_def Let_def using assms
  by (auto simp: set_inhibit_time_quiet split: sum.splits prod.splits intro!: ensuresI)
    (blast intro: parse_electronic_key_step parse_inhibit_time_step parse_application_path_step
      set_inhibit_time_quiet [THEN iffD2])+

lemmas ParseConnectionPath_step = ParseConnectionPath_quiet [THEN ensures4D, rotated -1]


section \<open>Choosing a connection object\<close>

lemma GetState_iff:
  "kConnectionObjectStateNonExistent = ConnectionObjectGetState x \<longleftrightarrow> state x = 0"
  "kConnectionObjectStateEstablished = ConnectionObjectGetState x \<longleftrightarrow> state x = 3"
  "kConnectionObjectStateTimedOut = ConnectionObjectGetState x \<longleftrightarrow> state x = 4"
  by (auto simp: ConnectionObjectGetState_def)

text \<open>The outcome of a choice: an object that is not in use, and for an exclusive owner one whose connection
  point produces what the request asks for.\<close>

definition chosen :: "stack \<Rightarrow> stack \<Rightarrow> conn_ref option \<Rightarrow> bool" where
  "chosen s s' r \<longleftrightarrow> connections_inv s' \<and> conn s' dummy_connection_object_ref = conn s dummy_connection_object_ref
     \<and> g_exlusive_owner_connections s' = g_exlusive_owner_connections s
     \<and> (\<forall>k. r = Some k \<longrightarrow> k \<notin> set (connection_list s') \<and> k \<noteq> dummy_connection_object_ref
          \<and> (\<forall>i. k = exlusive_owner_ref i \<longrightarrow> i < length (g_exlusive_owner_connections s)
               \<and> same_input (conn s dummy_connection_object_ref) (g_exlusive_owner_connections s ! i)))"

lemma chosen_None [simp]: "connections_inv s \<Longrightarrow> chosen s s None"
  by (simp add: chosen_def)

lemma closed_slot:
  assumes "connections_inv s" and "close_function k s = Some s'" and "k \<noteq> dummy_connection_object_ref"
    and "\<And>i. k = exlusive_owner_ref i \<Longrightarrow> i < length (g_exlusive_owner_connections s)
      \<and> same_input (conn s dummy_connection_object_ref) (g_exlusive_owner_connections s ! i)"
  shows "chosen s s' (Some k)"
proof -
  note wf = inv_wf [OF assms(1)]
  have "connection_close_function (conn s k) \<noteq> None"
    using assms(2) by (auto simp: close_function_def call_close_function_def split: option.splits)
  then have s: "shrinks s s'" "k \<notin> set (connection_list s')"
    using close_function_returns [OF wf, of k] assms(2) by auto
  have "dummy_connection_object_ref \<notin> set (connection_list s)"
    using assms(1) by (auto simp: connections_inv_def conn_ok_def)
  then have "conn s' dummy_connection_object_ref = conn s dummy_connection_object_ref"
    using close_function_outside [OF wf assms(2)] assms(3) by simp
  then show ?thesis
    using assms s inv_shrinks [OF assms(1) s(1)] by (auto simp: chosen_def shrinks_def)
qed

lemma exclusive_owner_search_chosen:
  assumes "connections_inv s"
    and "\<forall>(i, p) \<in> set ps. i < length (g_exlusive_owner_connections s) \<and> g_exlusive_owner_connections s ! i = p"
  shows "ensures (\<lambda>(r, e, s'). chosen s s' r) (exclusive_owner_search dummy_connection_object_ref ps s)"
  using assms(2)
proof (induction ps)
  case (Cons ip ps)
  obtain i p where ip: "ip = (i, p)"
    by (cases ip) auto
  let ?c = "dummy_connection_object_ref"
  have point: "i < length (g_exlusive_owner_connections s)" "g_exlusive_owner_connections s ! i = p"
    using Cons.prems by (auto simp: ip)
  show ?case
  proof (cases "same_output (conn s ?c) p \<and> same_input (conn s ?c) p \<and> same_config (conn s ?c) p")
    case True
    show ?thesis
    proof (cases "GetConnectedOutputAssembly (ucast (epath_instance_id (produced_path (conn s ?c)))) s")
      case None
      have "exlusive_owner_ref i \<notin> set (connection_list s)"
      proof
        assume m: "exlusive_owner_ref i \<in> set (connection_list s)"
        then have "conn_ok s (exlusive_owner_ref i)"
          using assms(1) by (simp add: connections_inv_def)
        then show False
          using None m True point
          by (auto simp: GetConnectedOutputAssembly_def find_connection_None_iff conn_ok_def same_input_def
              GetState_iff ConnectionObjectGetInstanceType_def)
      qed
      then show ?thesis
        using None True point assms(1) by (auto simp: ip chosen_def)
    next
      case (Some d)
      then show ?thesis
        using True point assms(1) by (auto simp: ip intro!: ensuresI closed_slot)
    qed
  next
    case False
    then show ?thesis
      using Cons by (simp add: ip del: de_Morgan_conj)
  qed
qed (use assms in simp)

definition no_owner :: "conn_ref option \<Rightarrow> bool" where
  "no_owner r \<longleftrightarrow> (\<forall>i. r \<noteq> Some (exlusive_owner_ref i))"

lemma no_owner_None [simp]: "no_owner None"
  by (simp add: no_owner_def)

lemma take_slot_chosen:
  assumes "connections_inv s" and "\<And>j i. slot j \<noteq> exlusive_owner_ref i" and "\<And>j. slot j \<noteq> dummy_connection_object_ref"
  shows "ensures (\<lambda>(r, s'). chosen s s' r \<and> no_owner r) (take_slot slot n dummy_connection_object_ref s)"
proof -
  have free: "slot j \<notin> set (connection_list s)" if "state (conn s (slot j)) = 0" for j
    using assms(1) that by (auto simp: connections_inv_def conn_ok_def)
  show ?thesis
    using assms free
    by (auto simp: take_slot_def chosen_def no_owner_def GetState_iff find_Some_iff split: option.split
        intro!: ensuresI dest!: closed_slot)
qed

lemma slot_result_chosen:
  "ensures (\<lambda>(r, s'). chosen s s' r \<and> no_owner r) m \<Longrightarrow> ensures (\<lambda>(r, e, s'). chosen s s' r \<and> no_owner r) (map_option slot_result m)"
  by (auto simp: ensures_def slot_result_def split: option.splits)

lemma input_only_search_chosen:
  "connections_inv s \<Longrightarrow>
   ensures (\<lambda>(r, e, s'). chosen s s' r \<and> no_owner r) (input_only_search dummy_connection_object_ref ps err s)"
  by (induction dummy_connection_object_ref ps err s rule: input_only_search.induct)
    (auto intro!: slot_result_chosen take_slot_chosen)

lemma listen_only_search_chosen:
  "connections_inv s \<Longrightarrow>
   ensures (\<lambda>(r, e, s'). chosen s s' r \<and> no_owner r) (listen_only_search dummy_connection_object_ref ps err s)"
  by (induction dummy_connection_object_ref ps err s rule: listen_only_search.induct)
    (auto intro!: slot_result_chosen take_slot_chosen)

lemma GetExclusiveOwnerConnection_chosen:
  assumes "connections_inv s"
  shows "ensures (\<lambda>(r, e, s'). chosen s s' r) (GetExclusiveOwnerConnection dummy_connection_object_ref s)"
  unfolding GetExclusiveOwnerConnection_def
  by (rule exclusive_owner_search_chosen [OF assms]) (auto simp: in_set_enumerate_eq)

lemma copied_ready:
  assumes "chosen s t (Some k)" and "no_owner (Some k) \<or> type = kConnectionObjectInstanceTypeIOExclusiveOwner"
  defines "v \<equiv> set_instance_type dummy_connection_object_ref type t"
  shows "connections_inv (set_conn k (ConnectionObjectDeepCopy (conn v dummy_connection_object_ref)) v)
    \<and> ready (set_conn k (ConnectionObjectDeepCopy (conn v dummy_connection_object_ref)) v) k"
proof -
  let ?d = "dummy_connection_object_ref"
  have inv: "connections_inv t" and k: "k \<notin> set (connection_list t)" "k \<noteq> ?d"
    using assms(1) by (auto simp: chosen_def)
  have d: "?d \<notin> set (connection_list t)"
    using inv by (auto simp: connections_inv_def conn_ok_def)
  have "quiet (set (connection_list t)) t (set_conn k (ConnectionObjectDeepCopy (conn v ?d)) v)"
    using k d by (simp add: v_def set_instance_type_def quiet_set_conn)
  then have "connections_inv (set_conn k (ConnectionObjectDeepCopy (conn v ?d)) v)"
    by (rule inv_quiet [OF inv]) simp
  moreover have "ready (set_conn k (ConnectionObjectDeepCopy (conn v ?d)) v) k"
    using assms(1,2) k by (auto simp: ready_def chosen_def no_owner_def v_def set_instance_type_def same_input_def
        ConnectionObjectDeepCopy_def ConnectionObjectSetInstanceType_def)
  ultimately show ?thesis ..
qed

lemma set_instance_type_inv:
  "connections_inv s \<Longrightarrow> connections_inv (set_instance_type dummy_connection_object_ref type s)"
  by (rule inv_quiet [of s "set (connection_list s)"])
    (auto simp: set_instance_type_def quiet_set_conn connections_inv_def conn_ok_def)

lemma chosen_inv: "chosen s t r \<Longrightarrow> connections_inv t"
  by (simp add: chosen_def)

lemma GetIoConnectionForConnectionData_ready:
  assumes "connections_inv s"
  shows "ensures (\<lambda>(r, e, s'). connections_inv s' \<and> (\<forall>k. r = Some k \<longrightarrow> ready s' k))
    (GetIoConnectionForConnectionData dummy_connection_object_ref s)"
proof -
  let ?d = "dummy_connection_object_ref"
  let ?finish = "\<lambda>r s. case r of None \<Rightarrow> s | Some k \<Rightarrow> set_conn k (ConnectionObjectDeepCopy (conn s ?d)) s"
  define ok where "ok r s \<longleftrightarrow> connections_inv (?finish r s) \<and> (\<forall>k. r = Some k \<longrightarrow> ready (?finish r s) k)" for r s
  have listen: "ok r (set_instance_type ?d kConnectionObjectInstanceTypeIOListenOnly t)"
    "r = None \<Longrightarrow> ok r t"
    if "connections_inv u" "GetListenOnlyConnection ?d u = Some (r, e, t)" for u r e t
  proof -
    have c: "chosen u t r" "no_owner r"
      using ensures3D [OF listen_only_search_chosen [OF that(1)] that(2) [unfolded GetListenOnlyConnection_def]]
      by auto
    show "ok r (set_instance_type ?d kConnectionObjectInstanceTypeIOListenOnly t)"
      using c copied_ready [of u t] set_instance_type_inv [OF chosen_inv [OF c(1)]] by (cases r) (auto simp: ok_def)
    show "r = None \<Longrightarrow> ok r t"
      using chosen_inv [OF c(1)] by (simp add: ok_def)
  qed
  have input: "r \<noteq> None \<Longrightarrow> ok r (set_instance_type ?d kConnectionObjectInstanceTypeIOInputOnly t)"
    "connections_inv t" if "connections_inv u" "GetInputOnlyConnection ?d u = Some (r, e, t)" for u r e t
  proof -
    have c: "chosen u t r" "no_owner r"
      using ensures3D [OF input_only_search_chosen [OF that(1)] that(2) [unfolded GetInputOnlyConnection_def]]
      by auto
    show "r \<noteq> None \<Longrightarrow> ok r (set_instance_type ?d kConnectionObjectInstanceTypeIOInputOnly t)"
      using c copied_ready [of u t] by (auto simp: ok_def)
    show "connections_inv t"
      using chosen_inv [OF c(1)] .
  qed
  have owner: "r \<noteq> None \<Longrightarrow> ok r (set_instance_type ?d kConnectionObjectInstanceTypeIOExclusiveOwner t)"
    "connections_inv t" if "GetExclusiveOwnerConnection ?d s = Some (r, e, t)" for r e t
  proof -
    have c: "chosen s t r"
      using ensures3D [OF GetExclusiveOwnerConnection_chosen [OF assms] that] .
    show "r \<noteq> None \<Longrightarrow> ok r (set_instance_type ?d kConnectionObjectInstanceTypeIOExclusiveOwner t)"
      using c copied_ready [of s t] by (auto simp: ok_def)
    show "connections_inv t"
      using chosen_inv [OF c] .
  qed
  have none: "connections_inv t \<Longrightarrow> ok None t" for t
    by (simp add: ok_def)
  let ?listen = "\<lambda>u. do { (io_connection, err, s) \<leftarrow> GetListenOnlyConnection ?d u;
    if io_connection = None \<and> err = kConnectionManagerExtendedStatusCodeSuccess
    then Some (None, kConnectionManagerExtendedStatusCodeInconsistentApplicationPathCombo, s)
    else Some (io_connection, err, set_instance_type ?d kConnectionObjectInstanceTypeIOListenOnly s) }"
  have l: "ensures (\<lambda>(r, e, s). ok r s) (?listen u)" if "connections_inv u" for u
    using listen [OF that] by (auto intro!: ensuresI split: if_splits)
  let ?input = "\<lambda>u. do { (io_connection, err, s) \<leftarrow> GetInputOnlyConnection ?d u;
    if io_connection \<noteq> None
    then Some (io_connection, err, set_instance_type ?d kConnectionObjectInstanceTypeIOInputOnly s)
    else if err \<noteq> kConnectionManagerExtendedStatusCodeSuccess then Some (None, err, s)
    else ?listen s }"
  have i: "ensures (\<lambda>(r, e, s). ok r s) (?input u)" if "connections_inv u" for u
    unfolding ensures_bind
  proof (rule ensuresI, clarify)
    fix r e t assume "GetInputOnlyConnection ?d u = Some (r, e, t)"
    then show "ensures (\<lambda>(r, e, s). ok r s) (if r \<noteq> None
      then Some (r, e, set_instance_type ?d kConnectionObjectInstanceTypeIOInputOnly t)
      else if e \<noteq> kConnectionManagerExtendedStatusCodeSuccess then Some (None, e, t) else ?listen t)"
      using input [OF that] none l [of t] by (simp del: ensures_bind)
  qed
  let ?owner = "do { (io_connection, err, s) \<leftarrow> GetExclusiveOwnerConnection ?d s;
    if io_connection \<noteq> None
    then Some (io_connection, err, set_instance_type ?d kConnectionObjectInstanceTypeIOExclusiveOwner s)
    else if err \<noteq> kConnectionManagerExtendedStatusCodeSuccess then Some (None, err, s)
    else ?input s }"
  have o: "ensures (\<lambda>(r, e, s). ok r s) ?owner"
    unfolding ensures_bind
  proof (rule ensuresI, clarify)
    fix r e t assume "GetExclusiveOwnerConnection ?d s = Some (r, e, t)"
    then show "ensures (\<lambda>(r, e, s). ok r s) (if r \<noteq> None
      then Some (r, e, set_instance_type ?d kConnectionObjectInstanceTypeIOExclusiveOwner t)
      else if e \<noteq> kConnectionManagerExtendedStatusCodeSuccess then Some (None, e, t) else ?input t)"
      using owner none i [of t] by (simp del: ensures_bind)
  qed
  have "GetIoConnectionForConnectionData ?d s = do { (r, e, s) \<leftarrow> ?owner; Some (r, e, ?finish r s) }"
    by (simp add: GetIoConnectionForConnectionData_def split_def)
  then show ?thesis
    using o unfolding ok_def by (auto simp: ensures_def bind_Some_iff)
qed

section \<open>Establishing\<close>

text \<open>An update that \<open>core\<close> does not see.\<close>

lemma quiet_upd_core: "core (f (conn t c)) = core (conn t c) \<Longrightarrow> quiet A s (upd_conn c f t) = quiet A s t"
  by (rule quiet_upd_conn) simp

lemma quiet_set_sockaddr_item [simp]: "quiet A s (set_sockaddr_item i f t) = quiet A s t"
  by (simp add: quiet_def set_sockaddr_item_def)

lemma core_configured [simp]: "core (fst (ConnectionObjectGeneralConfiguration i n x)) = core x"
  by (simp add: ConnectionObjectGeneralConfiguration_def core_def Let_def GetConnectionId_def
      ConnectionObjectSetCipConsumedConnectionID_def ConnectionObjectSetCipProducedConnectionID_def
      ConnectionObjectResetSequenceCounts_def ConnectionObjectSetWatchdogTimeoutAction_def
      ConnectionObjectResetProductionInhibitTimer_def split: prod.split)

lemma general_configuration_quiet [simp]: "quiet A s (general_configuration c t) = quiet A s t"
proof -
  obtain x n where xn: "ConnectionObjectGeneralConfiguration (g_incarnation_id t) (last_connection_id t) (conn t c) = (x, n)"
    by (rule prod.exhaust)
  then have "core x = core (conn t c)"
    using core_configured [of "g_incarnation_id t" "last_connection_id t" "conn t c"] by simp
  then show ?thesis
    by (simp add: general_configuration_def xn quiet_set_conn) (simp add: quiet_def)
qed

lemma SetQos_quiet: "SetQos pf q s = (r, s') \<Longrightarrow> quiet A s0 s \<Longrightarrow> quiet A s0 s'"
  using quiet_trans quiet_same SetQos_same by metis

lemma SetSocketOptions_quiet: "SetSocketOptionsMulticastProduce pf s = (r, s') \<Longrightarrow> quiet A s0 s \<Longrightarrow> quiet A s0 s'"
  using quiet_trans quiet_same SetSocketOptionsMulticastProduce_same by metis

lemma CreateUdpSocket_quiet: "CreateUdpSocket pf s = Some (r, s') \<Longrightarrow> quiet A s0 s \<Longrightarrow> quiet A s0 s'"
  using quiet_trans quiet_same CreateUdpSocket_same by metis

lemma OpenConsuming_quiet:
  assumes "quiet A s0 s"
  shows "ensures (\<lambda>(r, s'). quiet A s0 s') (OpenConsumingPointToPointConnection pf c s)"
  unfolding OpenConsumingPointToPointConnection_def Let_def using assms
  by (auto simp: quiet_upd_core core_def split: option.split prod.splits intro!: ensuresI dest: SetQos_quiet)

lemma OpenProducing_quiet:
  assumes "quiet A s0 s"
  shows "ensures (\<lambda>(r, s'). quiet A s0 s') (OpenProducingPointToPointConnection pf c s)"
  unfolding OpenProducingPointToPointConnection_def Let_def using assms
  by (auto simp: quiet_upd_core core_def split: prod.splits intro!: ensuresI dest!: SetQos_quiet [where A = A and ?s0.0 = s0])

lemma OpenMulticast_quiet:
  assumes "quiet A s0 s"
  shows "ensures (\<lambda>(r, s'). quiet A s0 s') (OpenMulticastConnection pf direction c s)"
  unfolding OpenMulticastConnection_def Let_def using assms
  by (auto simp: quiet_upd_core core_def split: option.split prod.splits UdpCommuncationDirection.splits
      intro!: ensuresI dest!: SetQos_quiet [where A = A and ?s0.0 = s0] SetSocketOptions_quiet [where A = A and ?s0.0 = s0])

lemma OpenProducingMulticast_quiet:
  assumes "quiet A s0 s"
  shows "ensures (\<lambda>(r, s'). quiet A s0 s') (OpenProducingMulticastConnection pf c s)"
  unfolding OpenProducingMulticastConnection_def Let_def using assms
  by (auto simp: quiet_upd_core core_def split: option.split intro!: OpenMulticast_quiet)

lemmas open_steps = OpenConsuming_quiet [THEN ensures2D, rotated -1] OpenProducing_quiet [THEN ensures2D, rotated -1]
  OpenMulticast_quiet [THEN ensures2D, rotated -1] OpenProducingMulticast_quiet [THEN ensures2D, rotated -1]

lemma OpenCommunicationChannels_quiet:
  assumes "quiet A s0 s"
  shows "ensures (\<lambda>(r, s'). quiet A s0 s') (OpenCommunicationChannels pf c s)"
  unfolding OpenCommunicationChannels_def Let_def ensures_bind using assms
  by (auto split: prod.splits intro!: ensuresI dest!: CreateUdpSocket_quiet [where A = A and ?s0.0 = s0]
      open_steps [where A = A and ?s0.0 = s0])

lemma SetupOriginatorToTarget_quiet:
  assumes "quiet A s0 s"
  shows "ensures (\<lambda>(r, s'). quiet A s0 s') (SetupIoConnectionOriginatorToTargetConnectionPoint io c s)"
  unfolding SetupIoConnectionOriginatorToTargetConnectionPoint_def Let_def ensures_bind using assms
  by (auto simp: quiet_upd_core core_def split: option.split prod.splits intro!: ensuresI)

lemma SetupTargetToOriginator_quiet:
  assumes "quiet A s0 s"
  shows "ensures (\<lambda>(r, s'). quiet A s0 s') (SetupIoConnectionTargetToOriginatorConnectionPoint io c s)"
  unfolding SetupIoConnectionTargetToOriginatorConnectionPoint_def Let_def ensures_bind using assms
  by (auto simp: quiet_upd_core core_def split: option.split prod.splits intro!: ensuresI)

lemma set_assembly_octets_quiet: "set_assembly_octets n p s = Some s' \<Longrightarrow> quiet A s0 s' = quiet A s0 s"
  by (auto simp: set_assembly_octets_def quiet_def split: option.splits if_splits)

lemma NotifyAssembly_quiet:
  assumes "quiet A s0 s"
  shows "ensures (\<lambda>(r, s'). quiet A s0 s') (NotifyAssemblyConnectedDataReceived n p len s)"
  unfolding NotifyAssemblyConnectedDataReceived_def using assms
  by (auto intro!: ensuresI simp: set_assembly_octets_quiet)

lemmas NotifyAssembly_step = NotifyAssembly_quiet [THEN ensures2D, rotated -1]

lemma HandleConfigData_quiet:
  assumes "quiet A s0 s"
  shows "ensures (\<lambda>(r, s'). quiet A s0 s') (HandleConfigData c s)"
  unfolding HandleConfigData_def ensures_bind using assms
  by (auto split: prod.splits intro!: ensuresI dest!: NotifyAssembly_step [where A = A and ?s0.0 = s0])

lemmas setup_steps = SetupOriginatorToTarget_quiet [THEN ensures2D, rotated -1]
  SetupTargetToOriginator_quiet [THEN ensures2D, rotated -1] HandleConfigData_quiet [THEN ensures2D, rotated -1]
  OpenCommunicationChannels_quiet [THEN ensures2D, rotated -1]

lemma inv_cong: "quiet (set (connection_list s)) s s' \<Longrightarrow> connections_inv s \<Longrightarrow> connections_inv s'"
  by (rule inv_quiet) auto

lemma inv_emit [simp]: "connections_inv (emit e s) = connections_inv s"
  by (simp add: connections_inv_def conn_ok_def)

text \<open>The three checks that may refuse a connection, and the connection that passed them.\<close>

lemma ProcessProductionInhibitTime_core: "ProcessProductionInhibitTime x = (err, y) \<Longrightarrow> core y = core x"
  by (auto simp: ProcessProductionInhibitTime_def core_def ConnectionObjectSetProductionInhibitTime_def split: if_splits)

end
