(* ===== verification/Conn_Reach.thy ===== *)
theory Conn_Reach
  imports Conn_Invariant
begin

text \<open>
  The invariant of the connections over everything that happens to them: the services of the
  connection manager, data from the network, the cyclic run and the closing of sessions, as one
  sequence of calls.
\<close>

lemma ensures_if: "(b \<Longrightarrow> ensures P m) \<Longrightarrow> (\<not> b \<Longrightarrow> ensures P n) \<Longrightarrow> ensures P (if b then m else n)"
  by simp

lemma ensures_assert: "(b \<Longrightarrow> ensures P (f ())) \<Longrightarrow> ensures P (c_assert b \<bind> f)"
  by simp

section \<open>Establishing a connection\<close>

text \<open>A connection object that only has to be entered into the list.\<close>

definition prepared :: "conn_ref \<Rightarrow> stack \<Rightarrow> bool" where
  "prepared io s \<longleftrightarrow> connections_inv s \<and> ready s io
     \<and> connection_close_function (conn s io) \<noteq> None \<and> connection_timeout_function (conn s io) \<noteq> None"

lemma prepared_quiet:
  assumes "prepared io s" and "quiet (insert io (set (connection_list s))) s s'"
  shows "prepared io s'"
proof -
  have "connections_inv s'"
    using assms by (auto simp: prepared_def intro: inv_quiet)
  moreover have "ready s' io"
    using assms by (auto simp: prepared_def intro: ready_quiet)
  ultimately show ?thesis
    using assms by (auto simp: prepared_def quiet_def core_def)
qed

lemma prepared_quiet2:
  assumes "prepared io s" and "\<And>A. ensures (\<lambda>(r, s'). quiet A s s') m"
  shows "ensures (\<lambda>(r, s'). prepared io s') m"
  using assms(2) [of "insert io (set (connection_list s))"] prepared_quiet [OF assms(1)] by (auto simp: ensures_def)

lemma prepared_add:
  assumes "prepared io s" and "AddNewActiveConnection_to_list io s = Some s'"
  shows "connections_inv s' \<and> connection_list s' \<noteq> []"
  using inv_added [of s io s'] assms by (auto simp: prepared_def)

lemma prepared_inv: "prepared io s \<Longrightarrow> connections_inv s"
  by (simp add: prepared_def)

lemma prepared_setup:
  assumes "connections_inv s" and "ready s io" and "ProcessProductionInhibitTime (conn s io) = (err, x)"
  shows "connections_inv (set_conn io x s)"
    and "prepared io (upd_conn io (\<lambda>x. x\<lparr>consuming_instance := None, consumed_connection_path_length := 0,
                      producing_instance := None, produced_connection_path_length := 0\<rparr>)
         (general_configuration io (upd_conn io SetIoConnectionCallbacks (set_conn io x s))))"
proof -
  let ?A = "set (connection_list s)"
  have core: "core x = core (conn s io)"
    using ProcessProductionInhibitTime_core assms(3) by blast
  have io: "io \<notin> ?A"
    using assms(2) by (simp add: ready_def)
  have q: "quiet A s (set_conn io x s)" for A
    using core by (simp add: quiet_set_conn)
  then show "connections_inv (set_conn io x s)"
    using inv_cong assms(1) by blast
  let ?t = "upd_conn io SetIoConnectionCallbacks (set_conn io x s)"
  have "quiet ?A s ?t"
    using q io by (simp add: quiet_upd_conn)
  then have "connections_inv ?t"
    using inv_cong assms(1) by blast
  moreover have "ready ?t io"
    using assms(2) core by (auto simp: ready_def upd_conn_def SetIoConnectionCallbacks_def same_input_def core_def)
  moreover have "connection_close_function (conn ?t io) \<noteq> None" "connection_timeout_function (conn ?t io) \<noteq> None"
    by (simp_all add: upd_conn_def SetIoConnectionCallbacks_def)
  ultimately have "prepared io ?t"
    by (simp add: prepared_def)
  then show "prepared io (upd_conn io (\<lambda>x. x\<lparr>consuming_instance := None, consumed_connection_path_length := 0,
                      producing_instance := None, produced_connection_path_length := 0\<rparr>)
         (general_configuration io ?t))"
    by (rule prepared_quiet) (simp add: quiet_upd_core core_def)
qed

lemma EstablishIoConnection_inv:
  assumes "connections_inv s"
  shows "ensures (\<lambda>(r, err, s'). connections_inv s' \<and> (r = kCipErrorSuccess \<longrightarrow> connection_list s' \<noteq> []))
    (EstablishIoConnection pf dummy_connection_object_ref s)"
proof -
  let ?d = dummy_connection_object_ref
  define goal where "goal = (\<lambda>(r, err :: u16, s'). connections_inv s' \<and> (r = kCipErrorSuccess \<longrightarrow> connection_list s' \<noteq> []))"
  have fail: "goal (kCipErrorConnectionFailure, err, s)" if "connections_inv s" for err s
    using that by (simp add: goal_def kCipErrorConnectionFailure_def kCipErrorSuccess_def)
  have chan: "goal (r, err, s)" if "prepared io s" "kCipErrorSuccess \<noteq> r" for r err s io
    using that by (simp add: goal_def prepared_inv)
  have add: "goal (r, err, emit e s')" if "prepared io s" "AddNewActiveConnection_to_list io s = Some s'" for r err s s' e io
    using prepared_add [OF that] by (simp add: goal_def)
  have o_to_t: "ensures (\<lambda>(e, s). prepared io s)
      (if b then SetupIoConnectionOriginatorToTargetConnectionPoint io ?d s else Some (0, s))" if "prepared io s" for b io s
    using that by (auto intro!: prepared_quiet2 SetupOriginatorToTarget_quiet)
  have t_to_o: "ensures (\<lambda>(e, s). prepared io s)
      (if b then SetupIoConnectionTargetToOriginatorConnectionPoint io ?d s else Some (0, s))" if "prepared io s" for b io s
    using that by (auto intro!: prepared_quiet2 SetupTargetToOriginator_quiet)
  have config: "ensures (\<lambda>(e, s). prepared io s) (if b then HandleConfigData io s else Some (0, s))"
    if "prepared io s" for b io s
    using that by (auto intro!: prepared_quiet2 HandleConfigData_quiet)
  have channels: "ensures (\<lambda>(e, s). prepared io s) (OpenCommunicationChannels pf io s)" if "prepared io s" for io s
    using that by (auto intro!: prepared_quiet2 OpenCommunicationChannels_quiet)
  let ?open = "\<lambda>io err s. do {
    (cip_error, s) \<leftarrow> OpenCommunicationChannels pf io s;
    if kCipErrorSuccess \<noteq> cip_error then Some (cip_error, 0, s)
    else do {
      s \<leftarrow> AddNewActiveConnection_to_list io s;
      Some (cip_error, err, emit (CheckIoConnectionEvent
        (epath_instance_id (consumed_path (conn s io)))
        (epath_instance_id (produced_path (conn s io))) kIoConnectionEventOpened) s) } }"
  have opened: "ensures goal (?open io err s)" if "prepared io s" for io err s
    unfolding ensures_bind by (rule ensures_mono [OF channels [OF that]]) (auto simp: ensures_def bind_Some_iff intro: chan add split: if_splits)
  let ?config = "\<lambda>io s. do {
    (err, s) \<leftarrow> (if g_config_data_buffer s \<noteq> None then HandleConfigData io s else Some (0, s));
    if err \<noteq> 0 then Some (kCipErrorConnectionFailure, err, s) else ?open io err s }"
  have configure: "ensures goal (?config io s)" if "prepared io s" for io s
    unfolding ensures_bind [of goal "if g_config_data_buffer s \<noteq> None then HandleConfigData io s else Some (0, s)"]
    by (rule ensures_mono [OF config [OF that]], clarify, rule ensures_if)
      (simp only: ensures_simps fail prepared_inv, erule opened)
  let ?point = "\<lambda>b io s. do {
    (err, s) \<leftarrow> (if b then SetupIoConnectionTargetToOriginatorConnectionPoint io ?d s else Some (0, s));
    if err \<noteq> 0 then Some (kCipErrorConnectionFailure, err, s) else ?config io s }"
  have produce: "ensures goal (?point b io s)" if "prepared io s" for b io s
    unfolding ensures_bind [of goal "if b then SetupIoConnectionTargetToOriginatorConnectionPoint io ?d s else Some (0, s)" for b]
    by (rule ensures_mono [OF t_to_o [OF that]], clarify, rule ensures_if)
      (simp only: ensures_simps fail prepared_inv, erule configure)
  have consume: "ensures goal (do {
      (err, s) \<leftarrow> (if b then SetupIoConnectionOriginatorToTargetConnectionPoint io ?d s else Some (0, s));
      if err \<noteq> 0 then Some (kCipErrorConnectionFailure, err, s) else ?point b' io s })"
    if "prepared io s" for b b' io s
    unfolding ensures_bind [of goal "if b then SetupIoConnectionOriginatorToTargetConnectionPoint io ?d s else Some (0, s)" for b]
    by (rule ensures_mono [OF o_to_t [OF that]], clarify, rule ensures_if)
      (simp only: ensures_simps fail prepared_inv, erule produce)
  have "ensures goal (EstablishIoConnection pf ?d s)"
    unfolding EstablishIoConnection_def ensures_bind
  proof (rule ensures_mono [OF GetIoConnectionForConnectionData_ready [OF assms]], clarify)
    fix found err s
    assume inv: "connections_inv s" and ready: "\<forall>k. found = Some k \<longrightarrow> ready s k"
    show "ensures goal
    (case found of
        None \<Rightarrow> Some (kCipErrorConnectionFailure, err, s)
      | Some io \<Rightarrow> do {
          let (err, x) = ProcessProductionInhibitTime (conn s io);
          let s = set_conn io x s;
          if err \<noteq> 0 then Some (kCipErrorConnectionFailure, err, s)
          else do {
            let s = upd_conn io SetIoConnectionCallbacks s;
            let s = general_configuration io s;
            let o_to_t = ConnectionObjectGetOToTConnectionType (conn s io);
            let t_to_o = ConnectionObjectGetTToOConnectionType (conn s io);
            c_assert (\<not> (o_to_t = kConnectionObjectConnectionTypeNull
                        \<and> t_to_o = kConnectionObjectConnectionTypeNull));
            let s = upd_conn io (\<lambda>x. x\<lparr>consuming_instance := None, consumed_connection_path_length := 0,
                      producing_instance := None, produced_connection_path_length := 0\<rparr>) s;
            (err, s) \<leftarrow> (if o_to_t \<noteq> kConnectionObjectConnectionTypeNull
               then SetupIoConnectionOriginatorToTargetConnectionPoint io ?d s else Some (0, s));
            if err \<noteq> 0 then Some (kCipErrorConnectionFailure, err, s)
            else do {
              (err, s) \<leftarrow> (if t_to_o \<noteq> kConnectionObjectConnectionTypeNull
                 then SetupIoConnectionTargetToOriginatorConnectionPoint io ?d s else Some (0, s));
              if err \<noteq> 0 then Some (kCipErrorConnectionFailure, err, s)
              else do {
                (err, s) \<leftarrow> (if g_config_data_buffer s \<noteq> None then HandleConfigData io s else Some (0, s));
                if err \<noteq> 0 then Some (kCipErrorConnectionFailure, err, s)
                else do {
                  (cip_error, s) \<leftarrow> OpenCommunicationChannels pf io s;
                  if kCipErrorSuccess \<noteq> cip_error then Some (cip_error, 0, s)
                  else do {
                    s \<leftarrow> AddNewActiveConnection_to_list io s;
                    Some (cip_error, err, emit (CheckIoConnectionEvent
                      (epath_instance_id (consumed_path (conn s io)))
                      (epath_instance_id (produced_path (conn s io))) kIoConnectionEventOpened) s)
                  } } } } } })"
    proof (cases found)
      case None
      then show ?thesis
        using fail [OF inv] by simp
    next
      case (Some io)
      obtain err x where x: "ProcessProductionInhibitTime (conn s io) = (err, x)"
        by (rule prod.exhaust)
      have r: "ready s io"
        using ready Some by simp
      note start = prepared_setup [OF inv r x]
      show ?thesis
        unfolding Some option.case x Let_def prod.case
        by (rule ensures_if) (simp only: ensures_simps fail start(1), rule ensures_assert, rule consume [OF start(2)])
    qed
  qed
  then show ?thesis
    by (simp add: goal_def)
qed

lemma EstablishClass3Connection_inv:
  assumes "connections_inv s"
  shows "ensures (\<lambda>(r, e, s'). connections_inv s' \<and> (r = kCipErrorSuccess \<longrightarrow> connection_list s' \<noteq> []))
    (EstablishClass3Connection dummy_connection_object_ref err s)"
proof (cases "GetFreeExplicitConnection s")
  case None
  then show ?thesis
    using assms by (simp add: EstablishClass3Connection_def kCipErrorConnectionFailure_def kCipErrorSuccess_def)
next
  case (Some k)
  then obtain i where k: "k = explicit_connection_object_pool_ref i" and free: "state (conn s k) = 0"
    by (auto simp: GetFreeExplicitConnection_def find_Some_iff GetState_iff [symmetric])
  have out: "k \<notin> set (connection_list s)"
    using assms free by (auto simp: connections_inv_def conn_ok_def)
  define t where "t = upd_conn k (\<lambda>x. x\<lparr>connection_close_function := Some CloseConnection_fn,
                    connection_timeout_function := Some Class3ConnectionTimeoutHandler_fn\<rparr>)
     (set_instance_type k kConnectionObjectInstanceTypeExplicitMessaging
       (general_configuration k (set_conn k (ConnectionObjectDeepCopy (conn s dummy_connection_object_ref)) s)))"
  have "quiet (set (connection_list s)) s t"
    using out by (simp add: t_def quiet_upd_conn quiet_set_conn set_instance_type_def)
  then have "connections_inv t" and l: "connection_list t = connection_list s"
    using inv_cong assms by (auto simp: quiet_def)
  moreover have "ready t k"
    using out k l by (simp add: ready_def)
  moreover have "connection_close_function (conn t k) \<noteq> None" "connection_timeout_function (conn t k) \<noteq> None"
    by (simp_all add: t_def upd_conn_def)
  ultimately have "prepared k t"
    by (simp add: prepared_def)
  note added = prepared_add [OF this]
  have run: "EstablishClass3Connection dummy_connection_object_ref err s = do {
      s \<leftarrow> AddNewActiveConnection_to_list k t; Some (kCipErrorSuccess, err, s) }"
    by (simp add: EstablishClass3Connection_def Some Let_def t_def)
  show ?thesis
    unfolding run ensures_bind using added by (simp add: ensures_def)
qed

lemma set_unconnected_reply_quiet: "set_unconnected_reply s = Some s' \<Longrightarrow> quiet A s0 s' = quiet A s0 s"
  by (auto simp: set_unconnected_reply_eq quiet_def)

lemma count_sockaddr_items_quiet [simp]: "quiet A s (count_sockaddr_items t) = quiet A s t"
  by (simp add: count_sockaddr_items_def quiet_def Let_def)

lemma AssembleForwardOpenResponse_quiet:
  assumes "quiet A s0 s" and "c \<notin> A \<or> status = kCipErrorSuccess"
  shows "ensures (\<lambda>(e, r', s'). quiet A s0 s') (AssembleForwardOpenResponse c r status err s)"
  unfolding AssembleForwardOpenResponse_def Let_def using assms
  by (auto simp: set_unconnected_reply_quiet quiet_set_conn intro!: ensuresI)

lemma dummy_outside: "connections_inv s \<Longrightarrow> dummy_connection_object_ref \<notin> set (connection_list s)"
  by (auto simp: connections_inv_def conn_ok_def)

lemma AssembleForwardOpenResponse_inv:
  assumes "connections_inv s" and "c = dummy_connection_object_ref \<or> status = kCipErrorSuccess"
  shows "ensures (\<lambda>(e, r', s'). connections_inv s') (AssembleForwardOpenResponse c r status err s)"
  using AssembleForwardOpenResponse_quiet [of "set (connection_list s)" s s c status r err]
    inv_cong [OF _ assms(1)] dummy_outside [OF assms(1)] assms(2)
  by (auto simp: ensures_def)

lemma reply_inv_step:
  "AssembleForwardOpenResponse dummy_connection_object_ref r status err s = Some (e, r', s')
   \<Longrightarrow> connections_inv s \<Longrightarrow> connections_inv s'"
  "AssembleForwardOpenResponse c r kCipErrorSuccess err s = Some (e, r', s')
   \<Longrightarrow> connections_inv s \<Longrightarrow> connections_inv s'"
  using AssembleForwardOpenResponse_inv [of s dummy_connection_object_ref status r err]
    AssembleForwardOpenResponse_inv [of s c kCipErrorSuccess r err] by (auto simp: ensures_def)

lemma open_connection_inv:
  "connections_inv s \<Longrightarrow> ensures (\<lambda>(r, e, s'). connections_inv s') (open_connection pf entry dummy_connection_object_ref err s)"
  using EstablishClass3Connection_inv [of s err] EstablishIoConnection_inv [of s pf]
  by (auto simp: open_connection_def ensures_def split: option.split OpenConnectionFunction.split)

lemmas open_connection_step = open_connection_inv [THEN ensures3D, rotated -1]

lemma ParseConnectionPath_inv:
  assumes "connections_inv s"
  shows "ensures (\<lambda>(status, err, q, s'). connections_inv s') (ParseConnectionPath dummy_connection_object_ref request s)"
  using ParseConnectionPath_quiet [of "set (connection_list s)" s s] inv_cong [OF _ assms] dummy_outside [OF assms]
  by (auto simp: ensures_def)

lemmas ParseConnectionPath_inv_step = ParseConnectionPath_inv [THEN ensures4D, rotated -1]

lemma read_forward_open_inv:
  assumes "connections_inv s"
  shows "ensures (\<lambda>(q, s'). connections_inv s') (read_forward_open pf request closer h s)"
  using read_forward_open_quiet [of "set (connection_list s)" s s] inv_cong [OF _ assms] dummy_outside [OF assms]
  by (auto simp: ensures_def)

lemmas read_forward_open_inv_step = read_forward_open_inv [THEN ensures2D, rotated -1]

lemma HandleNonNullNonMatching_inv:
  assumes "connections_inv s"
  shows "ensures (\<lambda>(e, r', s'). connections_inv s') (HandleNonNullNonMatchingForwardOpenRequest pf request r s)"
  unfolding HandleNonNullNonMatchingForwardOpenRequest_def Let_def using assms
  by (auto intro!: ensuresI split: prod.splits
      dest!: ParseConnectionPath_inv_step open_connection_step reply_inv_step)

lemmas HandleNonNullNonMatching_step = HandleNonNullNonMatching_inv [THEN ensures3D, rotated -1]

lemma ForwardOpenRoutine_inv:
  assumes "connections_inv s"
  shows "ensures (\<lambda>(e, r', s'). connections_inv s') (ForwardOpenRoutine pf request r requester h s)"
  unfolding ForwardOpenRoutine_def Let_def handle_forward_open_request_functions_def
    HandleNullMatchingForwardOpenRequest_def HandleNullNonMatchingForwardOpenRequest_def
    HandleNonNullMatchingForwardOpenRequest_def using assms
  by (auto intro!: ensuresI split: prod.splits if_splits
      dest!: read_forward_open_inv_step reply_inv_step HandleNonNullNonMatching_step)

lemma upd_dummy_inv: "connections_inv s \<Longrightarrow> connections_inv (upd_conn dummy_connection_object_ref f s)"
  using dummy_outside inv_cong [of s] by (simp add: quiet_upd_conn)

lemma ForwardOpen_inv:
  assumes "connections_inv s"
  shows "ensures (\<lambda>(e, r', s'). connections_inv s') (ForwardOpen pf i request r requester h s)"
    and "ensures (\<lambda>(e, r', s'). connections_inv s') (LargeForwardOpen pf i request r requester h s)"
  unfolding ForwardOpen_def LargeForwardOpen_def
  by (rule ForwardOpenRoutine_inv, rule upd_dummy_inv [OF assms])+

section \<open>Closing\<close>

lemma same_inv: "same_connections s s' \<Longrightarrow> connections_inv s \<Longrightarrow> connections_inv s'"
  by (rule inv_cong) (rule quiet_same)

lemma close_function_inv:
  assumes "connections_inv s" and "close_function c s = Some s'"
  shows "connections_inv s'"
proof -
  have "connection_close_function (conn s c) \<noteq> None"
    using assms(2) by (auto simp: close_function_def call_close_function_def split: option.splits)
  then show ?thesis
    using close_function_returns [OF inv_wf [OF assms(1)]] inv_shrinks [OF assms(1)] assms(2) by fastforce
qed

lemma set_unconnected_reply_inv: "set_unconnected_reply s = Some s' \<Longrightarrow> connections_inv s \<Longrightarrow> connections_inv s'"
  by (rule inv_cong) (simp_all add: set_unconnected_reply_quiet)

lemma set_sockaddr_item_inv [simp]: "connections_inv s \<Longrightarrow> connections_inv (set_sockaddr_item i f s)"
  by (rule inv_cong) simp_all

lemma close_found_connection_inv:
  "connections_inv s \<Longrightarrow> ensures (\<lambda>(e, s'). connections_inv s') (close_found_connection found closer s)"
  by (auto simp: close_found_connection_def split: option.split intro!: ensuresI dest: close_function_inv)

lemmas close_found_step = close_found_connection_inv [THEN ensures2D, rotated -1]

lemma ForwardClose_inv:
  assumes "connections_inv s"
  shows "ensures (\<lambda>(e, r', s'). connections_inv s') (ForwardClose i request r closer h s)"
  unfolding ForwardClose_def AssembleForwardCloseResponse_def Let_def using assms
  by (auto intro!: ensuresI split: prod.splits dest!: close_found_step set_unconnected_reply_inv)

lemma close_same_type_inv:
  "close_same_type n f p t c s = Some s' \<Longrightarrow> f = CloseIoConnection \<Longrightarrow> connections_inv s \<Longrightarrow> connections_inv s'"
proof (induction n f p t c s arbitrary: s' rule: close_same_type.induct)
  case (3 n f p t c s)
  have step: "connections_inv s''"
    if "(if b then call_close_function f d (emit e s) else Some s) = Some s''" for b d e s''
    using that 3(3,4) close_function_inv [of "emit e s" d s''] by (auto simp: close_function_def split: if_splits)
  show ?case
    using 3(2) by (auto simp: bind_Some_iff Let_def intro: 3(1) [OF _ _ _ _ 3(3) step])
qed simp_all

lemma CloseAllConnectionsForInput_inv:
  "CloseAllConnectionsForInputWithSameType p t s = Some s' \<Longrightarrow> connections_inv s \<Longrightarrow> connections_inv s'"
  unfolding CloseAllConnectionsForInputWithSameType_def by (rule close_same_type_inv [OF _ refl])

lemma close_all_inv: "close_all n c s = Some s' \<Longrightarrow> connections_inv s \<Longrightarrow> connections_inv s'"
  by (induction n c s arbitrary: s' rule: close_all.induct) (auto simp: bind_Some_iff dest: close_function_inv)

lemma close_class3_inv: "close_class3 n h c s = Some s' \<Longrightarrow> connections_inv s \<Longrightarrow> connections_inv s'"
proof (induction n h c s arbitrary: s' rule: close_class3.induct)
  case (3 n h c s)
  have step: "connections_inv s''" if "(if b then close_function d s else Some s) = Some s''" for b d s''
    using that 3(3) close_function_inv by (auto split: if_splits)
  show ?case
    using 3(2) by (auto simp: bind_Some_iff intro: 3(1) [OF _ _ _ step])
qed simp_all

lemma CloseTcpSocket_inv: "CloseTcpSocket f s = Some s' \<Longrightarrow> connections_inv s \<Longrightarrow> connections_inv s'"
  using CloseTcpSocket_Some [of f s s'] inv_cong [of s s'] by (simp add: quiet_def)

lemma set_session_inv [simp]: "connections_inv (set_session i f s) = connections_inv s"
  by (simp add: connections_inv_def conn_ok_def)

lemma CloseSession_inv: "CloseSession f s = Some s' \<Longrightarrow> connections_inv s \<Longrightarrow> connections_inv s'"
  by (auto simp: CloseSession_def CloseClass3ConnectionBasedOnSession_def bind_Some_iff split: option.splits
      dest!: close_class3_inv CloseTcpSocket_inv)

lemma RemoveSession_inv: "RemoveSession f s = Some s' \<Longrightarrow> connections_inv s \<Longrightarrow> connections_inv s'"
  by (auto simp: RemoveSession_def CloseClass3ConnectionBasedOnSession_def split: option.splits dest!: close_class3_inv)

lemma close_sessions_of_peer_inv:
  "close_sessions_of_peer peer c js s = Some s' \<Longrightarrow> connections_inv s \<Longrightarrow> connections_inv s'"
  by (induction js arbitrary: s) (auto simp: bind_Some_iff Let_def split: if_splits dest: CloseSession_inv)

lemma CheckEncapsulationInactivity_inv:
  "CheckEncapsulationInactivity f s = Some s' \<Longrightarrow> connections_inv s \<Longrightarrow> connections_inv s'"
  by (auto simp: CheckEncapsulationInactivity_def CloseClass3ConnectionBasedOnSession_def bind_Some_iff Let_def
      split: if_splits option.splits dest!: close_class3_inv CloseTcpSocket_inv RemoveSession_inv)

lemma close_sessions_inv: "close_sessions js s = Some s' \<Longrightarrow> connections_inv s \<Longrightarrow> connections_inv s'"
  by (induction js arbitrary: s) (auto simp: bind_Some_iff split: if_splits dest: CloseTcpSocket_inv)

section \<open>The cyclic run\<close>

lemma transfer_quiet: "transfer_master_connection c s = (b, s') \<Longrightarrow> quiet A s0 s \<Longrightarrow> quiet A s0 s'"
  by (auto simp: transfer_master_connection_def Let_def quiet_upd_core quiet_set_conn core_def
      split: option.splits)

lemma upd_quiet_inv: "(\<And>A. quiet A s s') \<Longrightarrow> connections_inv s \<Longrightarrow> connections_inv s'"
  using inv_cong by blast

lemma transfer_inv: "transfer_master_connection c s = (b, s') \<Longrightarrow> connections_inv s \<Longrightarrow> connections_inv s'"
  by (erule upd_quiet_inv [rotated]) (erule transfer_quiet, simp)

lemma set_timed_out_inv: "connections_inv s \<Longrightarrow> connections_inv (set_conn c ((conn s c)\<lparr>state := 4\<rparr>) s)"
  by (auto simp: connections_inv_def conn_ok_def same_input_def)

lemma SetState_TimedOut: "ConnectionObjectSetState kConnectionObjectStateTimedOut x = Some (x\<lparr>state := 4\<rparr>)"
  by simp

lemma CheckForTimedOut_inv:
  assumes "CheckForTimedOutConnectionsAndCloseTCPConnections c f s = Some s'" and "connections_inv s"
    and "\<And>s'. f c s = Some s' \<Longrightarrow> connections_inv s'"
  shows "connections_inv s'"
  using assms by (auto simp: CheckForTimedOutConnectionsAndCloseTCPConnections_def split: if_splits)

lemma CloseSessionBySessionHandle_inv:
  "CloseSessionBySessionHandle c s = Some s' \<Longrightarrow> connections_inv s \<Longrightarrow> connections_inv s'"
  by (auto simp: CloseSessionBySessionHandle_def bind_Some_iff Let_def dest: CloseTcpSocket_inv)

lemma CloseConnection_inv:
  assumes "connections_inv s" and "CloseConnection c s = Some s'"
  shows "connections_inv s'"
  using CloseConnection_removed [of s c] removed_shrinks inv_shrinks [OF assms(1)] assms
  by (auto simp: connections_inv_def)

lemma Class3ConnectionTimeoutHandler_inv:
  "Class3ConnectionTimeoutHandler c s = Some s' \<Longrightarrow> connections_inv s \<Longrightarrow> connections_inv s'"
  by (auto simp: Class3ConnectionTimeoutHandler_def bind_Some_iff
      dest!: CloseConnection_inv [rotated] CheckForTimedOut_inv intro: CloseSessionBySessionHandle_inv)

lemma HandleIoConnectionTimeOut_inv:
  assumes "HandleIoConnectionTimeOut p c s = Some s'" and "connections_inv s"
  shows "connections_inv s'"
proof -
  have sessions: "CheckForTimedOutConnectionsAndCloseTCPConnections c (CloseEncapsulationSessionBySockAddr p) t = Some u
    \<Longrightarrow> connections_inv t \<Longrightarrow> connections_inv u" for t u
    by (erule CheckForTimedOut_inv) (auto simp: CloseEncapsulationSessionBySockAddr_def dest: close_sessions_of_peer_inv)
  have timers: "connections_inv t \<Longrightarrow> ensures connections_inv
      (if b then CheckForTimedOutConnectionsAndCloseTCPConnections c (CloseEncapsulationSessionBySockAddr p) t else Some t)" for b t
    using sessions by (auto intro: ensuresI)
  have producer: "connections_inv t \<Longrightarrow> ensures (\<lambda>(h, t). connections_inv t)
      (if b then case transfer_master_connection c t of (tr, t) \<Rightarrow>
         if tr then Some (True, t)
         else CloseAllConnectionsForInputWithSameType (k t) y t \<bind> (\<lambda>t. Some (False, t))
       else Some (False, t))" for b k y t
    by (auto split: prod.split intro!: ensuresI dest!: transfer_inv CloseAllConnectionsForInput_inv)
  have consumers: "connections_inv t \<Longrightarrow> ensures connections_inv
      (if b then CloseAllConnectionsForInputWithSameType (k t) y t \<bind>
         (\<lambda>t. CloseAllConnectionsForInputWithSameType (l t) z t) else Some t)" for b k l y z t
    by (auto intro!: ensuresI dest!: CloseAllConnectionsForInput_inv)
  have start: "connections_inv (set_conn c ((conn s c)\<lparr>state := 4\<rparr>) (emit e s))" for e
    using set_timed_out_inv [of "emit e s" c] assms(2) by simp
  have "ensures connections_inv (HandleIoConnectionTimeOut p c s)"
    unfolding HandleIoConnectionTimeOut_def Let_def SetState_TimedOut bind.bind_lunit ensures_bind emit_other(1)
    apply (rule ensures_mono [OF timers [OF start]])
    apply (rule ensures_mono [OF producer], assumption)
    apply (clarify, subst ensures_bind)
    apply (rule ensures_mono [OF consumers], assumption)
    by (simp only: ensures_simps set_timed_out_inv)
  then show ?thesis
    using assms(1) by (rule ensuresD)
qed

lemma call_timeout_function_inv:
  "call_timeout_function p c s = Some s' \<Longrightarrow> connections_inv s \<Longrightarrow> connections_inv s'"
  by (auto simp: call_timeout_function_def split: option.splits ConnectionTimeoutFunction.splits
      dest: Class3ConnectionTimeoutHandler_inv HandleIoConnectionTimeOut_inv)

lemma prepare_io_packet_quiet [simp]: "quiet A s (prepare_io_packet c n s)"
  by (auto simp: prepare_io_packet_def Let_def quiet_upd_core core_def BeforeAssemblyDataSend_def quiet_def upd_conn_def
      split: option.split)

lemma set_io_data_length_quiet [simp]: "quiet A s (set_io_data_length c n t) = quiet A s t"
  by (simp add: set_io_data_length_def quiet_def Let_def)

lemma SendConnectedData_quiet: "ensures (\<lambda>(r, s'). quiet A s s') (SendConnectedData pf c s)"
proof -
  have "SendUdpData pf a m (set_io_data_length c n (prepare_io_packet c n s)) = (r, s') \<Longrightarrow> quiet A s s'" for a m n r s'
    using quiet_same [OF SendUdpData_same, of pf a m "set_io_data_length c n (prepare_io_packet c n s)" r s' A]
      quiet_trans [of A s "set_io_data_length c n (prepare_io_packet c n s)" s'] by simp
  then show ?thesis
    by (auto simp: SendConnectedData_def Let_def intro!: ensuresI split: prod.splits)
qed

lemma CipIdentitySetExtendedDeviceStatus_quiet [simp]:
  "quiet A s (CipIdentitySetExtendedDeviceStatus f t) = quiet A s t"
  by (simp add: CipIdentitySetExtendedDeviceStatus_def MergeStatusAndExtStatus_def set_identity_def quiet_def Let_def)

lemma quiet_run_idle [simp]:
  "quiet A s (t\<lparr>g_run_idle_state := v\<rparr>) = quiet A s t" "quiet A s (RunIdleChanged v t) = quiet A s t"
  by (simp add: quiet_def) (simp add: RunIdleChanged_def)

lemma HandleReceivedIoConnectionData_quiet:
  "ensures (\<lambda>(r, s'). quiet A s s') (HandleReceivedIoConnectionData c p len s)"
  unfolding HandleReceivedIoConnectionData_def Let_def ensures_bind
  by (auto simp: quiet_upd_core core_def RunIdleChanged_def intro!: ensuresI split: prod.splits
      dest!: NotifyAssembly_step [where A = A and ?s0.0 = s])

lemma receive_function_quiet: "ensures (\<lambda>(r, s'). quiet A s s') (receive_function c p len s)"
  by (auto simp: receive_function_def HandleReceivedIoConnectionData_quiet split: option.split ConnectionReceiveDataFunction.split)

lemma send_function_quiet: "ensures (\<lambda>(r, s'). quiet A s s') (send_function pf c s)"
  by (auto simp: send_function_def SendConnectedData_quiet split: option.split ConnectionSendDataFunction.split)

lemma quiet_ensures_inv:
  assumes "\<And>A. ensures (\<lambda>(r, s'). quiet A s s') m" and "connections_inv s"
  shows "ensures (\<lambda>(r, s'). connections_inv s') m"
  using assms(1) inv_cong [OF _ assms(2)] by (auto simp: ensures_def)

lemma upd_core_inv:
  "core (f (conn s c)) = core (conn s c) \<Longrightarrow> connections_inv s \<Longrightarrow> connections_inv (upd_conn c f s)"
  by (erule upd_quiet_inv [rotated]) (simp add: quiet_upd_core)

lemma core_watchdogs:
  "ConnectionObjectResetLastPackageInactivityTimerValue x = Some y \<Longrightarrow> core y = core x"
  "ConnectionObjectResetInactivityWatchdogTimerValue x = Some z \<Longrightarrow> core z = core x"
  by (auto simp: ConnectionObjectResetLastPackageInactivityTimerValue_def core_def bind_Some_iff
      ConnectionObjectResetInactivityWatchdogTimerValue_def)

lemma set_core_inv: "core x = core (conn s c) \<Longrightarrow> connections_inv s \<Longrightarrow> connections_inv (set_conn c x s)"
  by (erule upd_quiet_inv [rotated]) (simp add: quiet_set_conn)

lemma core_sequence [simp]:
  "core (x\<lparr>eip_level_sequence_count_consuming := n, eip_first_level_sequence_count_received := b\<rparr>) = core x"
  by (simp add: core_def)

lemma receive_inv_step:
  "receive_function c p len s = Some (r, s') \<Longrightarrow> connections_inv s \<Longrightarrow> connections_inv s'"
  using quiet_ensures_inv [OF receive_function_quiet, of s c p len] by (auto simp: ensures_def)

lemma accept_connected_data_inv:
  "accept_connected_data c s = Some (r, s') \<Longrightarrow> connections_inv s \<Longrightarrow> connections_inv s'"
  by (auto simp: accept_connected_data_def Let_def bind_Some_iff core_watchdogs
      split: if_splits intro!: set_core_inv dest!: receive_inv_step)

lemma HandleReceivedConnectedData_inv:
  assumes "HandleReceivedConnectedData p len from_address s = Some (r, s')" and "connections_inv s"
  shows "connections_inv s'"
proof -
  have "connections_inv (s\<lparr>g_common_packet_format_data_item := d\<rparr>)" for d
    by (rule upd_quiet_inv [OF _ assms(2)]) simp
  then show ?thesis
    using assms(1) unfolding HandleReceivedConnectedData_def Let_def
    by (auto simp: bind_Some_iff split: if_splits option.splits prod.splits dest!: accept_connected_data_inv)
qed

lemma core_timers [simp]:
  "core (x\<lparr>inactivity_watchdog_timer := v, last_package_watchdog_timer := w\<rparr>) = core x"
  "core (x\<lparr>transmission_trigger_timer := v\<rparr>) = core x"
  "core (count_inhibit_timer t x) = core x" "core (next_transmission t x) = core x"
  by (simp_all add: core_def count_inhibit_timer_def next_transmission_def Let_def ConnectionObjectResetProductionInhibitTimer_def)

lemma check_watchdog_inv: "check_watchdog pf t c s = Some s' \<Longrightarrow> connections_inv s \<Longrightarrow> connections_inv s'"
  by (auto simp: check_watchdog_def split: if_splits intro!: upd_core_inv dest: call_timeout_function_inv)

lemma send_inv_step: "send_function pf c s = Some (r, s') \<Longrightarrow> connections_inv s \<Longrightarrow> connections_inv s'"
  using quiet_ensures_inv [OF send_function_quiet, of s pf c] by (auto simp: ensures_def)

lemma produce_data_inv: "produce_data pf t c s = Some s' \<Longrightarrow> connections_inv s \<Longrightarrow> connections_inv s'"
  by (auto simp: produce_data_def Let_def bind_Some_iff split: if_splits
      intro!: upd_core_inv dest!: send_inv_step)

lemma manage_connection_inv: "manage_connection pf t c s = Some s' \<Longrightarrow> connections_inv s \<Longrightarrow> connections_inv s'"
  by (auto simp: manage_connection_def bind_Some_iff split: if_splits dest!: check_watchdog_inv dest: produce_data_inv)

lemma manage_from_inv:
  assumes "manage_from pf t n s = Some s'" and "connections_inv s"
  shows "connections_inv s'"
proof -
  have "connections_inv s \<longrightarrow> connections_inv s'"
    by (rule manage_from.raw_induct [OF _ assms(1), where P = "\<lambda>_ _ _ s s'. connections_inv s \<longrightarrow> connections_inv s'"])
      (auto simp: bind_Some_iff split: option.splits dest: manage_connection_inv)
  then show ?thesis
    using assms(2) ..
qed

lemma ManageConnections_inv:
  "ManageConnections pf t s = Some (r, s') \<Longrightarrow> connections_inv s \<Longrightarrow> connections_inv s'"
proof -
  have "quiet A s (ManageEncapsulationMessages t s)" for A
    by (simp add: quiet_def ManageEncapsulationMessages_def Let_def)
  then have "connections_inv s \<Longrightarrow> connections_inv (ManageEncapsulationMessages t s)"
    by (rule upd_quiet_inv)
  then show "ManageConnections pf t s = Some (r, s') \<Longrightarrow> connections_inv s \<Longrightarrow> connections_inv s'"
    by (auto simp: ManageConnections_def Let_def bind_Some_iff dest: manage_from_inv)
qed

section \<open>Everything that happens to connections\<close>

text \<open>The calls into the part of the stack that holds the connections.\<close>

datatype stack_call =
  open_call bool u16 CipMessageRouterRequest CipMessageRouterResponse sockaddr_in u32
| close_call u16 CipMessageRouterRequest CipMessageRouterResponse sockaddr_in u32
| data_call buf int sockaddr_in
| cycle_call MilliSeconds
| trigger_call u32 u32
| assembly_call u16 CipMessageRouterRequest CipMessageRouterResponse
| session_close_call socket_fd
| inactivity_call socket_fd
| close_all_call
| shutdown_call

fun perform :: "platform \<Rightarrow> stack_call \<Rightarrow> stack \<Rightarrow> stack option" where
  "perform pf (open_call large i request r requester h) s = do {
     (_, _, s) \<leftarrow> (if large then LargeForwardOpen else ForwardOpen) pf i request r requester h s;
     Some s }"
| "perform pf (close_call i request r closer h) s = do {
     (_, _, s) \<leftarrow> ForwardClose i request r closer h s; Some s }"
| "perform pf (data_call p len from_address) s = do {
     (_, s) \<leftarrow> HandleReceivedConnectedData p len from_address s; Some s }"
| "perform pf (cycle_call t) s = do { (_, s) \<leftarrow> ManageConnections pf t s; Some s }"
| "perform pf (trigger_call output input) s = Some (snd (TriggerConnections output input s))"
| "perform pf (assembly_call n request r) s = do {
     (_, _, s) \<leftarrow> DecodeCipAssemblyAttribute3 n request r s; Some s }"
| "perform pf (session_close_call f) s = CloseSession f s"
| "perform pf (inactivity_call f) s = CheckEncapsulationInactivity f s"
| "perform pf close_all_call s = CloseAllConnections s"
| "perform pf shutdown_call s = EncapsulationShutDown s"

lemma TriggerConnections_inv: "connections_inv s \<Longrightarrow> connections_inv (snd (TriggerConnections output input s))"
  by (auto simp: TriggerConnections_def intro!: upd_core_inv split: option.split)

lemma DecodeCipAssemblyAttribute3_inv:
  "DecodeCipAssemblyAttribute3 n request r s = Some (k, r', s') \<Longrightarrow> connections_inv s \<Longrightarrow> connections_inv s'"
  by (auto simp: DecodeCipAssemblyAttribute3_def bind_Some_iff split: if_splits
      elim!: upd_quiet_inv [rotated] simp: set_assembly_octets_quiet)

lemma perform_inv: "perform pf call s = Some s' \<Longrightarrow> connections_inv s \<Longrightarrow> connections_inv s'"
proof (cases call)
  case (open_call large i request r requester h)
  then show "perform pf call s = Some s' \<Longrightarrow> connections_inv s \<Longrightarrow> connections_inv s'"
    using ForwardOpen_inv [of s pf i request r requester h] by (auto simp: bind_Some_iff ensures_def split: if_splits)
next
  case (close_call i request r closer h)
  then show "perform pf call s = Some s' \<Longrightarrow> connections_inv s \<Longrightarrow> connections_inv s'"
    using ForwardClose_inv [of s i request r closer h] by (auto simp: bind_Some_iff ensures_def)
qed (auto simp: bind_Some_iff CloseAllConnections_def EncapsulationShutDown_def
    dest: HandleReceivedConnectedData_inv ManageConnections_inv TriggerConnections_inv DecodeCipAssemblyAttribute3_inv
      CloseSession_inv CheckEncapsulationInactivity_inv close_all_inv close_sessions_inv)

text \<open>States of the running stack: from one without connections, by any sequence of calls.\<close>

inductive reachable :: "platform \<Rightarrow> stack \<Rightarrow> bool" for pf where
  start: "connection_list s = [] \<Longrightarrow> reachable pf s"
| step: "reachable pf s \<Longrightarrow> perform pf call s = Some s' \<Longrightarrow> reachable pf s'"

lemma reachable_inv: "reachable pf s \<Longrightarrow> connections_inv s"
  by (induction rule: reachable.induct) (auto simp: connections_inv_def dest: perform_inv)

section \<open>Properties\<close>

text \<open>A class 3 connection opened from the state that \<open>ConnectionManagerInit\<close> leaves.\<close>

definition started_stack :: stack where
  "started_stack = (case ConnectionManagerInit (\<lambda>n. n \<le> 1024) 5
       (initial_stack\<lparr>g_classes := [(kCipMessageRouterClassCode, \<lparr>class_revision = 1, max_instance = 1,
          number_of_instances = 1, instance_chain = [1]\<rparr>)]\<rparr>) of
     None \<Rightarrow> initial_stack | Some (_, s) \<Rightarrow> s)"

definition class3_octets :: "u8 list" where
  "class3_octets = [10, 20] @ le32 0 @ le32 7 @ le16 3 @ le16 1 @ le32 42 @ [1, 0, 0, 0]
     @ le32 100000 @ le16 0x41F4 @ le32 100000 @ le16 0x41F4 @ [0xA3, 2, 0x20, 2, 0x24, 1]"

definition class3_open :: stack_call where
  "class3_open = open_call False 1 (zero_request\<lparr>service := kForwardOpen,
     request_data_size := of_nat (length class3_octets), request_data := class3_octets\<rparr>)
     InitializeMessageRouterResponse zero_sockaddr 1"

definition class3_opened :: stack where
  "class3_opened = (case perform (example_platform 1) class3_open started_stack of
     None \<Rightarrow> started_stack | Some s \<Rightarrow> s)"

lemma class3_opened_list: "connection_list class3_opened = [explicit_connection_object_pool_ref 0]"
  by code_simp

lemma class3_opened_reachable: "reachable (example_platform 1) class3_opened"
proof -
  have "connection_list started_stack = []"
    by code_simp
  then have "reachable (example_platform 1) started_stack"
    by (rule reachable.start)
  then show ?thesis
    using reachable.step by (auto simp: class3_opened_def split: option.split)
qed

text \<open>C1: whatever requests, data, time-outs, closed sessions and cycles the stack has seen, the list of
  active connections is as the code needs it: no connection is in it twice, there are no more of them than
  nodes in the pool, the buffer object of the forward open service is not in it, every connection in it is
  established or timed out and has its close and time-out functions, so that the calls through these
  pointers are not through null, and an exclusive owner connection is of its type and produces the input of
  its connection point.\<close>

theorem reachable_connections:
  assumes "reachable pf s"
  shows "distinct (connection_list s) \<and> length (connection_list s) \<le> kNodesAmount
    \<and> (\<forall>c \<in> set (connection_list s). c \<noteq> dummy_connection_object_ref
        \<and> connection_close_function (conn s c) \<noteq> None \<and> connection_timeout_function (conn s c) \<noteq> None
        \<and> state (conn s c) \<in> {3, 4}
        \<and> (\<forall>i. c = exlusive_owner_ref i \<longrightarrow> i < length (g_exlusive_owner_connections s)
             \<and> instance_type (conn s c) = kConnectionObjectInstanceTypeIOExclusiveOwner
             \<and> same_input (conn s c) (g_exlusive_owner_connections s ! i)))"
  using reachable_inv [OF assms] by (simp add: connections_inv_def conn_ok_def)

theorem reachable_connections_witness:
  "connection_timeout_function (conn class3_opened (explicit_connection_object_pool_ref 0)) \<noteq> None
    \<and> state (conn class3_opened (explicit_connection_object_pool_ref 0)) \<in> {3, 4}"
  using reachable_connections [OF class3_opened_reachable] by (simp add: class3_opened_list)

lemma close_all_returns:
  "connections_inv s \<Longrightarrow> length (connection_list s) \<le> n \<Longrightarrow>
   \<exists>s'. close_all n (head_node s) s = Some s' \<and> connection_list s' = [] \<and> same_sessions s s'"
proof (induction n arbitrary: s)
  case 0
  then show ?case
    by (simp add: head_node_def)
next
  case (Suc n)
  show ?case
  proof (cases "connection_list s")
    case (Cons c cs)
    obtain t where t: "close_function c s = Some t" "shrinks s t" "c \<notin> set (connection_list t)" "same_sessions s t"
      using close_function_shrinks [OF inv_wf [OF Suc.prems(1)], of c] Cons by auto
    obtain P where P: "connection_list t = filter P (connection_list s)"
      using t(2) by (auto simp: shrinks_def)
    then have "\<not> P c"
      using t(3) Cons by auto
    then have "length (connection_list t) \<le> n"
      using P Cons Suc.prems(2) by (auto intro: order_trans [OF length_filter_le])
    from Suc.IH [OF inv_shrinks [OF Suc.prems(1) t(2)] this] show ?thesis
      using t Cons same_sessions_trans by (auto simp: head_node_def)
  qed (simp add: head_node_def)
qed

text \<open>C5: in every state the stack can reach, closing all connections ends, with no call through a null
  pointer, and leaves no connection; the sessions stay.\<close>

theorem close_all_connections_returns:
  assumes "reachable pf s"
  shows "\<exists>s'. CloseAllConnections s = Some s' \<and> connection_list s' = [] \<and> same_sessions s s'"
  using close_all_returns [OF reachable_inv [OF assms] order_refl] by (simp add: CloseAllConnections_def)

theorem close_all_connections_returns_witness:
  "\<exists>s'. CloseAllConnections class3_opened = Some s' \<and> connection_list s' = []"
  using close_all_connections_returns [OF class3_opened_reachable] by blast

end
