(* ===== verification/Cip_Data.thy ===== *)
theory Cip_Data
  imports Cpf Cip_Status
begin

text \<open>
  The data types of CIP attributes: their codes and lengths (\<^verbatim>\<open>cip/ciptypes.h\<close>, \<^verbatim>\<open>cip/ciptypes.c\<close>),
  the strings (\<^verbatim>\<open>cip/cipstring.c\<close>) and the functions that encode a value into a message and decode it
  from a request (\<^verbatim>\<open>cip/cipcommon.c\<close>).

  A decode function overwrites the variable behind a pointer: here it takes the old value and returns
  its result, the new value, the request with its pointer advanced, and the response with its status.
  The block allocator is the parameter \<open>allocates\<close>, which says for which sizes it succeeds.
\<close>

section \<open>Codes\<close>

definition kCipBool :: u8 where "kCipBool = 0xC1"
definition kCipSint :: u8 where "kCipSint = 0xC2"
definition kCipInt :: u8 where "kCipInt = 0xC3"
definition kCipDint :: u8 where "kCipDint = 0xC4"
definition kCipLint :: u8 where "kCipLint = 0xC5"
definition kCipUsint :: u8 where "kCipUsint = 0xC6"
definition kCipUint :: u8 where "kCipUint = 0xC7"
definition kCipUdint :: u8 where "kCipUdint = 0xC8"
definition kCipUlint :: u8 where "kCipUlint = 0xC9"
definition kCipReal :: u8 where "kCipReal = 0xCA"
definition kCipLreal :: u8 where "kCipLreal = 0xCB"
definition kCipStime :: u8 where "kCipStime = 0xCC"
definition kCipDate :: u8 where "kCipDate = 0xCD"
definition kCipTimeOfDay :: u8 where "kCipTimeOfDay = 0xCE"
definition kCipString :: u8 where "kCipString = 0xD0"
definition kCipByte :: u8 where "kCipByte = 0xD1"
definition kCipWord :: u8 where "kCipWord = 0xD2"
definition kCipDword :: u8 where "kCipDword = 0xD3"
definition kCipLword :: u8 where "kCipLword = 0xD4"
definition kCipString2 :: u8 where "kCipString2 = 0xD5"
definition kCipFtime :: u8 where "kCipFtime = 0xD6"
definition kCipLtime :: u8 where "kCipLtime = 0xD7"
definition kCipItime :: u8 where "kCipItime = 0xD8"
definition kCipStringN :: u8 where "kCipStringN = 0xD9"
definition kCipShortString :: u8 where "kCipShortString = 0xDA"
definition kCipTime :: u8 where "kCipTime = 0xDB"
definition kCipEpath :: u8 where "kCipEpath = 0xDC"
definition kCipEngUnit :: u8 where "kCipEngUnit = 0xDD"
definition kCipUsintUsint :: u8 where "kCipUsintUsint = 0xA0"
definition kCipUdintUdintUdintUdintUdintString :: u8 where "kCipUdintUdintUdintUdintUdintString = 0xA1"
definition kCip6Usint :: u8 where "kCip6Usint = 0xA2"
definition kCipByteArray :: u8 where "kCipByteArray = 0xA4"

lemmas cip_data_types = kCipBool_def kCipSint_def kCipInt_def kCipDint_def kCipLint_def kCipUsint_def
  kCipUint_def kCipUdint_def kCipUlint_def kCipReal_def kCipLreal_def kCipStime_def kCipDate_def
  kCipTimeOfDay_def kCipString_def kCipByte_def kCipWord_def kCipDword_def kCipLword_def kCipString2_def
  kCipFtime_def kCipLtime_def kCipItime_def kCipStringN_def kCipShortString_def kCipTime_def kCipEpath_def
  kCipEngUnit_def kCipUsintUsint_def kCipUdintUdintUdintUdintUdintString_def kCip6Usint_def kCipByteArray_def

text \<open>The octets at the data pointer are \<open>d\<close>, \<open>None\<close> for the null pointer.  The length of a byte array is
  the first member of its structure, which a little-endian host stores as the readers expect it.\<close>

definition GetCipDataTypeLength :: "u8 \<Rightarrow> buf option \<Rightarrow> size_t option" where
  "GetCipDataTypeLength type d =
     (if type \<in> {kCipBool, kCipSint, kCipUsint, kCipByte} then Some 1
      else if type \<in> {kCipInt, kCipUint, kCipWord, kCipUsintUsint, kCipItime, kCipDate, kCipEngUnit}
      then Some 2
      else if type \<in> {kCipDint, kCipUdint, kCipDword, kCipStime, kCipFtime, kCipTime, kCipReal, kCipTimeOfDay}
      then Some 4
      else if type \<in> {kCipLint, kCipUlint, kCipLreal, kCipLword, kCipLtime} then Some 8
      else if type = kCip6Usint then Some 6
      else if type \<in> {kCipString, kCipString2, kCipStringN, kCipEpath}
      then (case d of None \<Rightarrow> Some 0 | Some p \<Rightarrow> do {
              (n, p) \<leftarrow> GetIntFromMessage p;
              Some (of_int (sint n) + 2) })
      else if type = kCipShortString
      then (case d of None \<Rightarrow> Some 0 | Some p \<Rightarrow> do {
              (n, p) \<leftarrow> GetSintFromMessage p;
              Some (of_int (sint n) + 1) })
      else if type = kCipByteArray
      then (case d of None \<Rightarrow> Some 0 | Some p \<Rightarrow> do {
              (n, p) \<leftarrow> GetUintFromMessage p;
              Some (ucast n) })
      else Some 0)"

section \<open>Strings\<close>

text \<open>A string structure owns a block of octets; \<open>None\<close> is the null pointer.  Freeing a block has no effect
  on the model.\<close>

record CipString2 =
  string2_length :: u16
  string2_octets :: "buf option"

record CipStringN =
  string_n_size :: u16
  string_n_length :: u16
  string_n_octets :: "buf option"

definition ClearCipStringN :: "CipStringN \<Rightarrow> CipStringN" where
  "ClearCipStringN x = x\<lparr>string_n_octets := None, string_n_length := 0, string_n_size := 0\<rparr>"

definition ClearCipString2 :: "CipString2 \<Rightarrow> CipString2" where
  "ClearCipString2 x = (if string2_octets x \<noteq> None then x\<lparr>string2_octets := None, string2_length := 0\<rparr> else x)"

definition ClearCipString :: "CipString \<Rightarrow> CipString" where
  "ClearCipString x = (if string_octets x \<noteq> None then x\<lparr>string_octets := None, string_length := 0\<rparr> else x)"

definition ClearCipShortString :: "CipShortString \<Rightarrow> CipShortString" where
  "ClearCipShortString x =
     (if short_string_octets x \<noteq> None then x\<lparr>short_string_octets := None, short_string_length := 0\<rparr> else x)"

text \<open>\<^verbatim>\<open>memcpy\<close> of \<open>n\<close> octets from \<open>p\<close>.\<close>

definition copied :: "nat \<Rightarrow> buf \<Rightarrow> buf option" where
  "copied n p = (if n \<le> length p then Some (take n p) else None)"

text \<open>Whether the returned pointer is the string or null, and the string.\<close>

definition SetCipStringByData :: "(size_t \<Rightarrow> bool) \<Rightarrow> CipString \<Rightarrow> u16 \<Rightarrow> buf \<Rightarrow> (bool \<times> CipString) option" where
  "SetCipStringByData allocates x str_len p =
     (let x = ClearCipString x
      in if str_len \<noteq> 0
         then if allocates (ucast str_len)
           then do {
             bs \<leftarrow> copied (unat str_len) p;
             Some (True, x\<lparr>string_octets := Some bs, string_length := str_len\<rparr>) }
           else Some (False, x\<lparr>string_octets := None\<rparr>)
         else Some (True, x))"

definition SetCipShortStringByData ::
    "(size_t \<Rightarrow> bool) \<Rightarrow> CipShortString \<Rightarrow> u8 \<Rightarrow> buf \<Rightarrow> (bool \<times> CipShortString) option" where
  "SetCipShortStringByData allocates x str_len p =
     (let x = ClearCipShortString x
      in if str_len \<noteq> 0
         then if allocates (ucast str_len)
           then do {
             bs \<leftarrow> copied (unat str_len) p;
             Some (True, x\<lparr>short_string_octets := Some bs, short_string_length := str_len\<rparr>) }
           else Some (False, x\<lparr>short_string_octets := None\<rparr>)
         else Some (True, x))"

definition SetCipString2ByData :: "(size_t \<Rightarrow> bool) \<Rightarrow> CipString2 \<Rightarrow> u16 \<Rightarrow> buf \<Rightarrow> (bool \<times> CipString2) option" where
  "SetCipString2ByData allocates x str_len p =
     (let x = ClearCipString2 x
      in if str_len \<noteq> 0
         then if allocates (2 * ucast str_len)
           then do {
             bs \<leftarrow> copied (2 * unat str_len) p;
             Some (True, x\<lparr>string2_octets := Some bs, string2_length := str_len\<rparr>) }
           else Some (False, x\<lparr>string2_octets := None\<rparr>)
         else Some (True, x))"

definition SetCipStringNByData ::
    "(size_t \<Rightarrow> bool) \<Rightarrow> CipStringN \<Rightarrow> u16 \<Rightarrow> u16 \<Rightarrow> buf \<Rightarrow> (bool \<times> CipStringN) option" where
  "SetCipStringNByData allocates x str_len width p =
     (let x = ClearCipStringN x
      in if str_len \<noteq> 0
         then if allocates (ucast str_len * ucast width)
           then do {
             bs \<leftarrow> copied (unat str_len * unat width) p;
             Some (True, x\<lparr>string_n_octets := Some bs, string_n_length := str_len, string_n_size := width\<rparr>) }
           else Some (False, x\<lparr>string_n_octets := None, string_n_length := 0, string_n_size := 0\<rparr>)
         else Some (True, x))"

text \<open>From C strings, given as their octets without the terminating zero.\<close>

definition SetCipStringByCstr :: "(size_t \<Rightarrow> bool) \<Rightarrow> CipString \<Rightarrow> buf \<Rightarrow> (bool \<times> CipString) option" where
  "SetCipStringByCstr allocates x s = SetCipStringByData allocates x (of_nat (length s)) s"

definition SetCipShortStringByCstr ::
    "(size_t \<Rightarrow> bool) \<Rightarrow> CipShortString \<Rightarrow> buf \<Rightarrow> (bool \<times> CipShortString) option" where
  "SetCipShortStringByCstr allocates x s = SetCipShortStringByData allocates x (of_nat (length s)) s"

definition SetCipString2ByCstr :: "(size_t \<Rightarrow> bool) \<Rightarrow> CipString2 \<Rightarrow> buf \<Rightarrow> (bool \<times> CipString2) option" where
  "SetCipString2ByCstr allocates x s = SetCipString2ByData allocates x (of_nat (length s div 2)) s"

definition SetCipStringNByCstr ::
    "(size_t \<Rightarrow> bool) \<Rightarrow> CipStringN \<Rightarrow> buf \<Rightarrow> u16 \<Rightarrow> (bool \<times> CipStringN) option" where
  "SetCipStringNByCstr allocates x s symbol_size = do {
     c_assert (symbol_size \<noteq> 0);
     if length s mod unat symbol_size \<noteq> 0 then Some (True, x)
     else SetCipStringNByData allocates x (of_nat (length s) div symbol_size) symbol_size s }"

text \<open>The result is the number of octets that did not fit, counted from the terminating zero.\<close>

definition GetCstrFromCipShortString :: "CipShortString \<Rightarrow> buf \<Rightarrow> size_t \<Rightarrow> (int \<times> buf) option" where
  "GetCstrFromCipShortString x buffer len =
     (if len < 1 then Some (-1, buffer)
      else do {
        let num = (ucast (short_string_length x) :: size_t);
        let (rc, num) = (if len \<le> num then (sint (ucast (num - len - 1) :: 32 word), len - 1) else (0, num));
        bs \<leftarrow> copied (unat num) (case short_string_octets x of None \<Rightarrow> [] | Some s \<Rightarrow> s);
        c_assert (unat num < length buffer);
        Some (rc, bs @ [0] @ drop (unat num + 1) buffer) })"

section \<open>Encoding\<close>

definition EncodeCipBool :: "u8 \<Rightarrow> ENIPMessage \<Rightarrow> ENIPMessage" where "EncodeCipBool v = AddSintToMessage v"
definition EncodeCipByte :: "u8 \<Rightarrow> ENIPMessage \<Rightarrow> ENIPMessage" where "EncodeCipByte v = AddSintToMessage v"
definition EncodeCipWord :: "u16 \<Rightarrow> ENIPMessage \<Rightarrow> ENIPMessage" where "EncodeCipWord v = AddIntToMessage v"
definition EncodeCipDword :: "u32 \<Rightarrow> ENIPMessage \<Rightarrow> ENIPMessage" where "EncodeCipDword v = AddDintToMessage v"
definition EncodeCipLword :: "u64 \<Rightarrow> ENIPMessage \<Rightarrow> ENIPMessage" where "EncodeCipLword v = AddLintToMessage v"
definition EncodeCipUsint :: "u8 \<Rightarrow> ENIPMessage \<Rightarrow> ENIPMessage" where "EncodeCipUsint v = AddSintToMessage v"
definition EncodeCipUint :: "u16 \<Rightarrow> ENIPMessage \<Rightarrow> ENIPMessage" where "EncodeCipUint v = AddIntToMessage v"
definition EncodeCipUdint :: "u32 \<Rightarrow> ENIPMessage \<Rightarrow> ENIPMessage" where "EncodeCipUdint v = AddDintToMessage v"
definition EncodeCipUlint :: "u64 \<Rightarrow> ENIPMessage \<Rightarrow> ENIPMessage" where "EncodeCipUlint v = AddLintToMessage v"
definition EncodeCipSint :: "u8 \<Rightarrow> ENIPMessage \<Rightarrow> ENIPMessage" where "EncodeCipSint v = AddSintToMessage v"
definition EncodeCipInt :: "u16 \<Rightarrow> ENIPMessage \<Rightarrow> ENIPMessage" where "EncodeCipInt v = AddIntToMessage v"
definition EncodeCipDint :: "u32 \<Rightarrow> ENIPMessage \<Rightarrow> ENIPMessage" where "EncodeCipDint v = AddDintToMessage v"
definition EncodeCipLint :: "u64 \<Rightarrow> ENIPMessage \<Rightarrow> ENIPMessage" where "EncodeCipLint v = AddLintToMessage v"
definition EncodeCipReal :: "u32 \<Rightarrow> ENIPMessage \<Rightarrow> ENIPMessage" where "EncodeCipReal v = AddDintToMessage v"
definition EncodeCipLreal :: "u64 \<Rightarrow> ENIPMessage \<Rightarrow> ENIPMessage" where "EncodeCipLreal v = AddLintToMessage v"

text \<open>The octets of a string; nothing is read through the pointer if the length is 0.\<close>

definition EncodeCipShortString :: "CipShortString \<Rightarrow> ENIPMessage \<Rightarrow> ENIPMessage option" where
  "EncodeCipShortString x m =
     copy_block (unat (short_string_length x)) (case short_string_octets x of None \<Rightarrow> [] | Some s \<Rightarrow> s)
       (AddSintToMessage (short_string_length x) m)"

definition EncodeCipString :: "CipString \<Rightarrow> ENIPMessage \<Rightarrow> ENIPMessage option" where
  "EncodeCipString x m =
     (let m = AddIntToMessage (string_length x) m
      in if string_length x = 0 then Some m
         else do {
           s \<leftarrow> string_octets x;
           m \<leftarrow> copy_block (unat (string_length x)) s m;
           Some (if used_message_length m AND 1 \<noteq> 0 then AddSintToMessage 0 m else m) })"

definition EncodeCipString2 :: "CipString2 \<Rightarrow> ENIPMessage \<Rightarrow> ENIPMessage option" where
  "EncodeCipString2 x m = None"

definition EncodeCipStringN :: "CipStringN \<Rightarrow> ENIPMessage \<Rightarrow> ENIPMessage option" where
  "EncodeCipStringN x m = None"

text \<open>International strings: the pointer of an entry points to a string of the kind its code says.\<close>

datatype any_string =
  Any_ShortString CipShortString | Any_String CipString | Any_String2 CipString2 | Any_StringN CipStringN

record CipStringIStruct =
  language_char_1 :: u8
  language_char_2 :: u8
  language_char_3 :: u8
  char_string_struct :: u16
  character_set :: u16
  string_i_string :: any_string

record CipStringI =
  number_of_strings :: u8
  array_of_string_i_structs :: "CipStringIStruct list"

definition CipStringIHeaderEncoding :: "CipStringIStruct \<Rightarrow> ENIPMessage \<Rightarrow> ENIPMessage" where
  "CipStringIHeaderEncoding x m =
     EncodeCipUint (character_set x)
       (EncodeCipUsint (ucast (char_string_struct x))
         (EncodeCipUsint (language_char_3 x)
           (EncodeCipUsint (language_char_2 x) (EncodeCipUsint (language_char_1 x) m))))"

fun encode_any_string :: "u16 \<Rightarrow> any_string \<Rightarrow> ENIPMessage \<Rightarrow> ENIPMessage option" where
  "encode_any_string code (Any_String x) m = (if code = ucast kCipString then EncodeCipString x m else None)"
| "encode_any_string code (Any_String2 x) m = (if code = ucast kCipString2 then EncodeCipString2 x m else None)"
| "encode_any_string code (Any_StringN x) m = (if code = ucast kCipStringN then EncodeCipStringN x m else None)"
| "encode_any_string code (Any_ShortString x) m =
     (if code = ucast kCipShortString then EncodeCipShortString x m else None)"

primrec encode_strings :: "CipStringIStruct list \<Rightarrow> ENIPMessage \<Rightarrow> ENIPMessage option" where
  "encode_strings [] m = Some m"
| "encode_strings (x # xs) m = do {
     m \<leftarrow> encode_any_string (char_string_struct x) (string_i_string x) (CipStringIHeaderEncoding x m);
     encode_strings xs m }"

definition EncodeCipStringI :: "CipStringI \<Rightarrow> ENIPMessage \<Rightarrow> ENIPMessage option" where
  "EncodeCipStringI x m = do {
     c_assert (unat (number_of_strings x) \<le> length (array_of_string_i_structs x));
     encode_strings (take (unat (number_of_strings x)) (array_of_string_i_structs x))
       (EncodeCipUsint (number_of_strings x) m) }"

record CipByteArray =
  byte_array_length :: u16
  byte_array_data :: "buf option"

definition EncodeCipByteArray :: "CipByteArray \<Rightarrow> ENIPMessage \<Rightarrow> ENIPMessage option" where
  "EncodeCipByteArray x m =
     copy_block (unat (byte_array_length x)) (case byte_array_data x of None \<Rightarrow> [] | Some s \<Rightarrow> s) m"

text \<open>The words left are an unsigned number, which wraps around; a path that does not have the announced
  length fails the assertion.\<close>

definition encode_path_segment :: "u8 \<Rightarrow> u16 \<Rightarrow> ENIPMessage \<Rightarrow> u32 \<Rightarrow> ENIPMessage \<times> u32" where
  "encode_path_segment code v m words =
     (if v < 256 then (AddSintToMessage (ucast v) (AddSintToMessage code m), words - 1)
      else (AddIntToMessage v (AddSintToMessage 0 (AddSintToMessage (code + 1) m)), words - 2))"

definition EncodeEPath :: "CipEpath \<Rightarrow> ENIPMessage \<Rightarrow> ENIPMessage option" where
  "EncodeEPath epath m0 = do {
     let (m, words) = encode_path_segment 0x20 (class_id epath) m0 (ucast (path_size epath));
     let (m, words) = (if 0 < words then encode_path_segment 0x24 (instance_number epath) m words else (m, words));
     let (m, words) = (if 0 < words then encode_path_segment 0x30 (attribute_number epath) m words else (m, words));
     c_assert (2 * ucast (path_size epath) = used_message_length m - used_message_length m0);
     Some m }"

definition EncodeCipEPath :: "CipEpath \<Rightarrow> ENIPMessage \<Rightarrow> ENIPMessage option" where
  "EncodeCipEPath epath m = EncodeEPath epath (AddIntToMessage (ucast (path_size epath)) m)"

definition EncodeCipEthernetLinkPhyisicalAddress :: "buf \<Rightarrow> ENIPMessage \<Rightarrow> ENIPMessage option" where
  "EncodeCipEthernetLinkPhyisicalAddress p m = copy_block 6 p m"

section \<open>Decoding\<close>

definition advance :: "buf \<Rightarrow> CipMessageRouterRequest \<Rightarrow> CipMessageRouterRequest" where
  "advance p request = request\<lparr>request_data := p\<rparr>"

definition decoded :: "CipMessageRouterResponse \<Rightarrow> CipMessageRouterResponse" where
  "decoded r = r\<lparr>general_status := kCipErrorSuccess\<rparr>"

type_synonym 'v decoder = "'v \<Rightarrow> CipMessageRouterRequest \<Rightarrow> CipMessageRouterResponse
  \<Rightarrow> (int \<times> 'v \<times> CipMessageRouterRequest \<times> CipMessageRouterResponse) option"

definition DecodeCipBool :: "u8 decoder" where
  "DecodeCipBool x request r = do {
     (v, p) \<leftarrow> GetBoolFromMessage (request_data request); Some (1, v, advance p request, decoded r) }"

definition DecodeCipByte :: "u8 decoder" where
  "DecodeCipByte x request r = do {
     (v, p) \<leftarrow> GetByteFromMessage (request_data request); Some (1, v, advance p request, decoded r) }"

definition DecodeCipWord :: "u16 decoder" where
  "DecodeCipWord x request r = do {
     (v, p) \<leftarrow> GetWordFromMessage (request_data request); Some (2, v, advance p request, decoded r) }"

definition DecodeCipDword :: "u32 decoder" where
  "DecodeCipDword x request r = do {
     (v, p) \<leftarrow> GetDintFromMessage (request_data request); Some (4, v, advance p request, decoded r) }"

definition DecodeCipLword :: "u64 decoder" where
  "DecodeCipLword x request r = do {
     (v, p) \<leftarrow> GetLintFromMessage (request_data request); Some (4, v, advance p request, decoded r) }"

definition DecodeCipUsint :: "u8 decoder" where
  "DecodeCipUsint x request r = do {
     (v, p) \<leftarrow> GetUsintFromMessage (request_data request); Some (1, v, advance p request, decoded r) }"

definition DecodeCipUint :: "u16 decoder" where
  "DecodeCipUint x request r = do {
     (v, p) \<leftarrow> GetUintFromMessage (request_data request); Some (2, v, advance p request, decoded r) }"

definition DecodeCipUdint :: "u32 decoder" where
  "DecodeCipUdint x request r = do {
     (v, p) \<leftarrow> GetUdintFromMessage (request_data request); Some (4, v, advance p request, decoded r) }"

definition DecodeCipUlint :: "u64 decoder" where
  "DecodeCipUlint x request r = do {
     (v, p) \<leftarrow> GetLintFromMessage (request_data request); Some (8, v, advance p request, decoded r) }"

definition DecodeCipSint :: "u8 decoder" where
  "DecodeCipSint x request r = do {
     (v, p) \<leftarrow> GetSintFromMessage (request_data request); Some (1, v, advance p request, decoded r) }"

definition DecodeCipInt :: "u16 decoder" where
  "DecodeCipInt x request r = do {
     (v, p) \<leftarrow> GetIntFromMessage (request_data request); Some (2, v, advance p request, decoded r) }"

definition DecodeCipDint :: "u32 decoder" where
  "DecodeCipDint x request r = do {
     (v, p) \<leftarrow> GetDintFromMessage (request_data request); Some (4, v, advance p request, decoded r) }"

definition DecodeCipLint :: "u64 decoder" where
  "DecodeCipLint x request r = do {
     (v, p) \<leftarrow> GetLintFromMessage (request_data request); Some (8, v, advance p request, decoded r) }"

text \<open>The numeral goes through the conversion from a signed integer to a floating point number; the bits
  stored are \<open>to_float\<close> and \<open>to_double\<close> of it.\<close>

definition DecodeCipReal :: "(u32 \<Rightarrow> u32) \<Rightarrow> u32 decoder" where
  "DecodeCipReal to_float x request r = do {
     (v, p) \<leftarrow> GetDintFromMessage (request_data request); Some (4, to_float v, advance p request, decoded r) }"

definition DecodeCipLreal :: "(u64 \<Rightarrow> u64) \<Rightarrow> u64 decoder" where
  "DecodeCipLreal to_double x request r = do {
     (v, p) \<leftarrow> GetLintFromMessage (request_data request); Some (8, to_double v, advance p request, decoded r) }"

definition DecodeCipByteArray :: "CipByteArray decoder" where
  "DecodeCipByteArray x request r =
     (if request_data_size request < ucast (byte_array_length x)
      then Some (-1, x, request, r\<lparr>general_status := kCipErrorNotEnoughData\<rparr>)
      else if request_data_size request > ucast (byte_array_length x)
      then Some (-1, x, request, r\<lparr>general_status := kCipErrorTooMuchData\<rparr>)
      else do {
        bs \<leftarrow> copied (unat (byte_array_length x)) (request_data request);
        Some (uint (byte_array_length x),
          (case byte_array_data x of None \<Rightarrow> x | Some s \<Rightarrow> x\<lparr>byte_array_data := Some bs\<rparr>),
          request, decoded r) })"

text \<open>The length in the request is not compared with the size of the request.  When the allocation fails
  the null pointer is read through.\<close>

definition DecodeCipString :: "(size_t \<Rightarrow> bool) \<Rightarrow> CipString decoder" where
  "DecodeCipString allocates x request r = do {
     (len, p) \<leftarrow> GetUintFromMessage (request_data request);
     (ok, x) \<leftarrow> SetCipStringByData allocates x len p;
     c_assert ok;
     p \<leftarrow> skip (unat (string_length x)) p;
     let n = uint (string_length x) + 2;
     if n mod 2 = 1
     then do { p \<leftarrow> skip 1 p; Some (n + 1, x, advance p request, decoded r) }
     else Some (n, x, advance p request, decoded r) }"

definition DecodeCipShortString :: "(size_t \<Rightarrow> bool) \<Rightarrow> CipShortString decoder" where
  "DecodeCipShortString allocates x request r = do {
     (len, p) \<leftarrow> GetUsintFromMessage (request_data request);
     (ok, x) \<leftarrow> SetCipShortStringByData allocates x len p;
     c_assert ok;
     p \<leftarrow> skip (unat (short_string_length x)) p;
     Some (uint (short_string_length x) + 1, x, advance p request, decoded r) }"

section \<open>Attribute types as an interface\<close>

text \<open>
  What a service relies on for an attribute type of fixed width: it encodes as its octets, and decoding
  takes exactly these octets off the request, whatever the old value was.
\<close>

locale attribute_type = field_codec put get octets width
  for put :: "'v \<Rightarrow> ENIPMessage \<Rightarrow> ENIPMessage" and get octets width +
  fixes decode :: "'v decoder"
  assumes decode_get: "decode x request r = do {
     (v, p) \<leftarrow> get (request_data request); Some (int width, v, advance p request, decoded r) }"
begin

lemma decode_octets:
  "request_data request = octets v @ rest \<Longrightarrow> decode x request r = Some (int width, v, advance rest request, decoded r)"
  by (simp add: decode_get get_put_octets)

lemma decode_returns_iff: "decode x request r \<noteq> None \<longleftrightarrow> (\<exists>v q. request_data request = octets v @ q)"
proof
  assume "decode x request r \<noteq> None"
  then obtain v q where "get (request_data request) = Some (v, q)"
    by (auto simp: decode_get bind_Some_iff)
  then show "\<exists>v q. request_data request = octets v @ q"
    by (auto simp: get_iff)
next
  assume "\<exists>v q. request_data request = octets v @ q"
  then show "decode x request r \<noteq> None"
    using decode_octets by auto
qed

end

lemma signed_readers: "GetSintFromMessage = GetUsintFromMessage" "GetIntFromMessage = GetUintFromMessage"
  "GetDintFromMessage = GetUdintFromMessage" "GetByteFromMessage = GetUsintFromMessage"
  "GetBoolFromMessage = GetUsintFromMessage" "GetWordFromMessage = GetUintFromMessage"
  by (rule ext, simp)+

interpretation cip_bool: attribute_type EncodeCipBool GetBoolFromMessage "\<lambda>v. [v]" 1 DecodeCipBool
  by unfold_locales (simp_all add: EncodeCipBool_def DecodeCipBool_def enc signed_readers GetUsint_Some_iff)

interpretation cip_byte: attribute_type EncodeCipByte GetByteFromMessage "\<lambda>v. [v]" 1 DecodeCipByte
  by unfold_locales (simp_all add: EncodeCipByte_def DecodeCipByte_def enc signed_readers GetUsint_Some_iff)

interpretation cip_usint: attribute_type EncodeCipUsint GetUsintFromMessage "\<lambda>v. [v]" 1 DecodeCipUsint
  by unfold_locales (simp_all add: EncodeCipUsint_def DecodeCipUsint_def enc GetUsint_Some_iff)

interpretation cip_sint: attribute_type EncodeCipSint GetSintFromMessage "\<lambda>v. [v]" 1 DecodeCipSint
  by unfold_locales (simp_all add: EncodeCipSint_def DecodeCipSint_def enc signed_readers GetUsint_Some_iff)

interpretation cip_uint: attribute_type EncodeCipUint GetUintFromMessage le16 2 DecodeCipUint
  by unfold_locales (simp_all add: EncodeCipUint_def DecodeCipUint_def enc GetUint_Some_iff)

interpretation cip_int: attribute_type EncodeCipInt GetIntFromMessage le16 2 DecodeCipInt
  by unfold_locales (simp_all add: EncodeCipInt_def DecodeCipInt_def enc signed_readers GetUint_Some_iff)

interpretation cip_word: attribute_type EncodeCipWord GetWordFromMessage le16 2 DecodeCipWord
  by unfold_locales (simp_all add: EncodeCipWord_def DecodeCipWord_def enc signed_readers GetUint_Some_iff)

interpretation cip_udint: attribute_type EncodeCipUdint GetUdintFromMessage le32 4 DecodeCipUdint
  by unfold_locales (simp_all add: EncodeCipUdint_def DecodeCipUdint_def enc GetUdint_Some_iff)

interpretation cip_dint: attribute_type EncodeCipDint GetDintFromMessage le32 4 DecodeCipDint
  by unfold_locales (simp_all add: EncodeCipDint_def DecodeCipDint_def enc signed_readers GetUdint_Some_iff)

interpretation cip_dword: attribute_type EncodeCipDword GetDintFromMessage le32 4 DecodeCipDword
  by unfold_locales (simp_all add: EncodeCipDword_def DecodeCipDword_def enc signed_readers GetUdint_Some_iff)

end
