(* ===== verification/Cip_Object.thy ===== *)
theory Cip_Object
  imports Cip_Data Msg_Router
begin

text \<open>
  Attributes of CIP objects and the services that every class shares (\<^verbatim>\<open>cip/cipcommon.c\<close>): inserting
  attributes, services and callbacks, the masks of a class, and the services that get, set, create,
  delete and reset.

  An attribute is modelled with its pointers already applied: \<open>attr_encode\<close> is the encode function on
  the data pointer and reads the variable in the state, \<open>attr_decode\<close> is the decode function on it and
  writes the variable, \<open>attr_data\<close> is the octets the data pointer gives access to; \<open>None\<close> is the null
  pointer.  The attribute array of an instance has the length that the class declares; a slot that is
  not in use is zero.
\<close>

section \<open>Attributes and classes\<close>

record 'st CipAttributeStruct =
  attr_number :: u16
  attr_type :: u8
  attr_encode :: "('st \<Rightarrow> ENIPMessage \<Rightarrow> ENIPMessage option) option"
  attr_decode :: "(CipMessageRouterRequest \<Rightarrow> CipMessageRouterResponse \<Rightarrow> 'st
     \<Rightarrow> (int \<times> CipMessageRouterRequest \<times> CipMessageRouterResponse \<times> 'st) option) option"
  attr_flags :: u8
  attr_data :: "('st \<Rightarrow> buf) option"

definition unused_attribute :: "'st CipAttributeStruct" where
  "unused_attribute = \<lparr>attr_number = 0, attr_type = 0, attr_encode = None, attr_decode = None,
     attr_flags = 0, attr_data = None\<rparr>"

text \<open>An attribute whose data pointer is a variable of the state.\<close>

definition variable_attribute :: "('v \<Rightarrow> ENIPMessage \<Rightarrow> ENIPMessage) \<Rightarrow> 'v decoder \<Rightarrow> ('v \<Rightarrow> buf)
    \<Rightarrow> ('st \<Rightarrow> 'v) \<Rightarrow> ('v \<Rightarrow> 'st \<Rightarrow> 'st) \<Rightarrow> u16 \<Rightarrow> u8 \<Rightarrow> u8 \<Rightarrow> 'st CipAttributeStruct" where
  "variable_attribute encode decode octets load assign n type flags =
     \<lparr>attr_number = n, attr_type = type, attr_encode = Some (\<lambda>st m. Some (encode (load st) m)),
      attr_decode = Some (\<lambda>request r st. do {
        (k, v, request, r) \<leftarrow> decode (load st) request r;
        Some (k, request, r, assign v st) }),
      attr_flags = flags, attr_data = Some (\<lambda>st. octets (load st))\<rparr>"

definition kNotSetOrGetable :: u8 where "kNotSetOrGetable = 0x00"
definition kGetableAll :: u8 where "kGetableAll = 0x01"
definition kGetableSingle :: u8 where "kGetableSingle = 0x02"
definition kSetable :: u8 where "kSetable = 0x04"
definition kSetAndGetAble :: u8 where "kSetAndGetAble = 0x07"
definition kGetableSingleAndAll :: u8 where "kGetableSingleAndAll = 0x03"
definition kGetableAllDummy :: u8 where "kGetableAllDummy = 0x08"
definition kPreGetFunc :: u8 where "kPreGetFunc = 0x10"
definition kPostGetFunc :: u8 where "kPostGetFunc = 0x20"
definition kPreSetFunc :: u8 where "kPreSetFunc = 0x40"
definition kPostSetFunc :: u8 where "kPostSetFunc = 0x80"
definition kNvDataFunc :: u8 where "kNvDataFunc = 0x80"

lemmas attribute_flags = kNotSetOrGetable_def kGetableAll_def kGetableSingle_def kSetable_def
  kSetAndGetAble_def kGetableSingleAndAll_def kGetableAllDummy_def kPreGetFunc_def kPostGetFunc_def
  kPreSetFunc_def kPostSetFunc_def kNvDataFunc_def

text \<open>The arguments of a callback are the instance, the attribute and the service.\<close>

type_synonym 'st get_set_callback = "u16 \<Rightarrow> 'st CipAttributeStruct \<Rightarrow> u8 \<Rightarrow> 'st \<Rightarrow> 'st"

record 'st object_class =
  highest_attribute_number :: u16
  get_single_bit_mask :: "u8 list"
  set_bit_mask :: "u8 list"
  get_all_bit_mask :: "u8 list"
  PreGetCallback :: "'st get_set_callback option"
  PostGetCallback :: "'st get_set_callback option"
  PreSetCallback :: "'st get_set_callback option"
  PostSetCallback :: "'st get_set_callback option"

definition CalculateIndex :: "u16 \<Rightarrow> nat" where
  "CalculateIndex n = unat n div 8"

definition AllocateAttributeMasks :: "'st object_class \<Rightarrow> 'st object_class" where
  "AllocateAttributeMasks c =
     (let n = 1 + CalculateIndex (highest_attribute_number c)
      in c\<lparr>get_single_bit_mask := replicate n 0, set_bit_mask := replicate n 0,
           get_all_bit_mask := replicate n 0\<rparr>)"

text \<open>Writing and reading the bit of an attribute; outside the mask is outside an array.\<close>

definition mark :: "bool \<Rightarrow> u16 \<Rightarrow> u8 list \<Rightarrow> u8 list option" where
  "mark b n bits = (if CalculateIndex n < length bits
     then Some (bits[CalculateIndex n := bits ! CalculateIndex n OR (if b then push_bit (unat n mod 8) 1 else 0)])
     else None)"

definition marked :: "u16 \<Rightarrow> u8 list \<Rightarrow> bool option" where
  "marked n bits = (if CalculateIndex n < length bits
     then Some (bits ! CalculateIndex n AND push_bit (unat n mod 8) 1 \<noteq> 0) else None)"

section \<open>Building a class\<close>

text \<open>The first unused slot takes the attribute; if there is none, the assertion fails.\<close>

fun fill_slot :: "'st CipAttributeStruct \<Rightarrow> 'st CipAttributeStruct list \<Rightarrow> 'st CipAttributeStruct list option" where
  "fill_slot a [] = None"
| "fill_slot a (b # bs) = (if attr_data b = None then Some (a # bs)
     else do { bs \<leftarrow> fill_slot a bs; Some (b # bs) })"

definition InsertAttribute :: "'st CipAttributeStruct \<Rightarrow> 'st object_class \<times> 'st CipAttributeStruct list
    \<Rightarrow> ('st object_class \<times> 'st CipAttributeStruct list) option" where
  "InsertAttribute a ci = (case ci of (c, attrs) \<Rightarrow> do {
     c_assert (attr_data a \<noteq> None);
     attrs \<leftarrow> fill_slot a attrs;
     c_assert (attr_number a \<le> highest_attribute_number c);
     single \<leftarrow> mark (attr_flags a AND kGetableSingle \<noteq> 0) (attr_number a) (get_single_bit_mask c);
     all \<leftarrow> mark (attr_flags a AND (kGetableAll OR kGetableAllDummy) \<noteq> 0) (attr_number a) (get_all_bit_mask c);
     settable \<leftarrow> mark (attr_flags a AND kSetable \<noteq> 0) (attr_number a) (set_bit_mask c);
     Some (c\<lparr>get_single_bit_mask := single, get_all_bit_mask := all, set_bit_mask := settable\<rparr>, attrs) })"

text \<open>A service takes the slot of its number, or the first without a function.\<close>

fun InsertService :: "u8 \<Rightarrow> 'f \<Rightarrow> 'f CipServiceStruct list \<Rightarrow> 'f CipServiceStruct list option" where
  "InsertService n f [] = None"
| "InsertService n f (s # ss) =
     (if service_number s = n \<or> service_function s = None
      then Some (\<lparr>service_number = n, service_function = Some f\<rparr> # ss)
      else do { ss \<leftarrow> InsertService n f ss; Some (s # ss) })"

definition InsertGetSetCallback :: "'st get_set_callback \<Rightarrow> u8 \<Rightarrow> 'st object_class \<Rightarrow> 'st object_class" where
  "InsertGetSetCallback f callbacks_to_install c =
     (let c = (if kPreGetFunc AND callbacks_to_install \<noteq> 0 then c\<lparr>PreGetCallback := Some f\<rparr> else c);
          c = (if kPostGetFunc AND callbacks_to_install \<noteq> 0 then c\<lparr>PostGetCallback := Some f\<rparr> else c);
          c = (if kPreSetFunc AND callbacks_to_install \<noteq> 0 then c\<lparr>PreSetCallback := Some f\<rparr> else c)
      in if (kPostSetFunc OR kNvDataFunc) AND callbacks_to_install \<noteq> 0
         then c\<lparr>PostSetCallback := Some f\<rparr> else c)"

section \<open>The services on attributes\<close>

fun GetCipAttribute :: "'st CipAttributeStruct list \<Rightarrow> u16 \<Rightarrow> 'st CipAttributeStruct option" where
  "GetCipAttribute [] n = None"
| "GetCipAttribute (a # as) n = (if n = attr_number a then Some a else GetCipAttribute as n)"

definition GenerateGetAttributeSingleHeader ::
    "CipMessageRouterRequest \<Rightarrow> CipMessageRouterResponse \<Rightarrow> CipMessageRouterResponse" where
  "GenerateGetAttributeSingleHeader request r = r\<lparr>message := InitializeENIPMessage,
     reply_service := 0x80 OR service request, general_status := kCipErrorAttributeNotSupported,
     size_of_additional_status := 0\<rparr>"

definition GenerateSetAttributeSingleHeader ::
    "CipMessageRouterRequest \<Rightarrow> CipMessageRouterResponse \<Rightarrow> CipMessageRouterResponse" where
  "GenerateSetAttributeSingleHeader request r = r\<lparr>message := InitializeENIPMessage,
     reply_service := 0x80 OR service request, general_status := kCipErrorAttributeNotSupported,
     size_of_additional_status := 0\<rparr>"

definition call_back :: "bool \<Rightarrow> 'st get_set_callback option \<Rightarrow> u16 \<Rightarrow> 'st CipAttributeStruct \<Rightarrow> u8 \<Rightarrow> 'st \<Rightarrow> 'st" where
  "call_back enabled f i a n st = (if enabled then case f of None \<Rightarrow> st | Some f \<Rightarrow> f i a n st else st)"

text \<open>The class and the attributes of its instances come first, then the arguments of a service.\<close>

definition GetAttributeSingle :: "'st object_class \<Rightarrow> (u16 \<Rightarrow> 'st CipAttributeStruct list)
    \<Rightarrow> ('addr, 'st) service_fn" where
  "GetAttributeSingle c attrs i request r originator_address encapsulation_session st =
     (let n = attribute_number (request_path request);
          r = GenerateGetAttributeSingleHeader request r
      in case GetCipAttribute (attrs i) n of
           None \<Rightarrow> Some (kEipStatusOkSend, r, st)
         | Some a \<Rightarrow>
             if attr_data a = None then Some (kEipStatusOkSend, r, st)
             else do {
               getable \<leftarrow> marked n (get_single_bit_mask c);
               if getable
               then do {
                 let st = call_back (attr_flags a AND kPreGetFunc \<noteq> 0) (PreGetCallback c) i a (service request) st;
                 encode \<leftarrow> attr_encode a;
                 m \<leftarrow> encode st (message r);
                 let r = r\<lparr>message := m, general_status := kCipErrorSuccess\<rparr>;
                 Some (kEipStatusOkSend, r,
                   call_back (attr_flags a AND kPostGetFunc \<noteq> 0) (PostGetCallback c) i a (service request) st) }
               else Some (kEipStatusOkSend, r, st) })"

definition SetAttributeSingle :: "'st object_class \<Rightarrow> (u16 \<Rightarrow> 'st CipAttributeStruct list)
    \<Rightarrow> ('addr, 'st) service_fn" where
  "SetAttributeSingle c attrs i request r originator_address encapsulation_session st =
     (let n = attribute_number (request_path request);
          r = GenerateSetAttributeSingleHeader request r
      in case GetCipAttribute (attrs i) n of
           None \<Rightarrow> Some (kEipStatusOkSend, r, st)
         | Some a \<Rightarrow>
             if attr_data a = None then Some (kEipStatusOkSend, r, st)
             else if attr_flags a = kGetableAllDummy \<or> attr_flags a = kNotSetOrGetable \<or> attr_flags a = kGetableAll
             then Some (kEipStatusOkSend, r, st)
             else do {
               setable \<leftarrow> marked n (set_bit_mask c);
               if setable
               then do {
                 let st = call_back (attr_flags a AND kPreSetFunc \<noteq> 0) (PreSetCallback c) i a (service request) st;
                 decode \<leftarrow> attr_decode a;
                 (_, _, r, st) \<leftarrow> decode request r st;
                 Some (kEipStatusOkSend, r,
                   call_back (attr_flags a AND (kPostSetFunc OR kNvDataFunc) \<noteq> 0) (PostSetCallback c)
                     i a (service request) st) }
               else Some (kEipStatusOkSend, r\<lparr>general_status := kCipErrorAttributeNotSetable\<rparr>, st) })"

fun encode_all :: "'st object_class \<Rightarrow> 'st CipAttributeStruct list \<Rightarrow> 'st \<Rightarrow> ENIPMessage \<Rightarrow> ENIPMessage option" where
  "encode_all c [] st m = Some m"
| "encode_all c (a # as) st m = do {
     getable \<leftarrow> marked (attr_number a) (get_all_bit_mask c);
     m \<leftarrow> (if getable then do { encode \<leftarrow> attr_encode a; encode st m } else Some m);
     encode_all c as st m }"

definition GetAttributeAll :: "'st object_class \<Rightarrow> (u16 \<Rightarrow> 'st CipAttributeStruct list)
    \<Rightarrow> ('addr, 'st) service_fn" where
  "GetAttributeAll c attrs i request r originator_address encapsulation_session st =
     (if attrs i = []
      then Some (kEipStatusOkSend, r\<lparr>message := InitializeENIPMessage,
        reply_service := 0x80 OR service request, general_status := kCipErrorServiceNotSupported,
        size_of_additional_status := 0\<rparr>, st)
      else do {
        let r = (GenerateGetAttributeSingleHeader request (r\<lparr>message := InitializeENIPMessage\<rparr>))
                  \<lparr>general_status := kCipErrorSuccess\<rparr>;
        m \<leftarrow> encode_all c (attrs i) st (message r);
        Some (kEipStatusOkSend, r\<lparr>message := m\<rparr>, st) })"

section \<open>The services on lists of attributes\<close>

text \<open>The number of attributes is written in front of the entries when they are done.\<close>

definition put_count :: "nat \<Rightarrow> u16 \<Rightarrow> ENIPMessage \<Rightarrow> ENIPMessage" where
  "put_count start count m =
     (let m = m\<lparr>used_message_length := used_message_length m - 2\<rparr>;
          save = current_message_position m;
          m = AddIntToMessage count (m\<lparr>current_message_position := start\<rparr>)
      in m\<lparr>current_message_position := save\<rparr>)"

definition needed_message_space :: "'st CipAttributeStruct option \<Rightarrow> 'st \<Rightarrow> int option" where
  "needed_message_space a st =
     (case a of
        None \<Rightarrow> Some 2
      | Some a \<Rightarrow> do {
          n \<leftarrow> GetCipDataTypeLength (attr_type a) (map_option (\<lambda>d. d st) (attr_data a));
          Some (sint n) })"

definition remaining_message_space :: "ENIPMessage \<Rightarrow> int" where
  "remaining_message_space m = int PC_OPENER_ETHERNET_BUFFER_SIZE - sint (used_message_length m) - 33"

definition partial_transfer :: "CipMessageRouterResponse \<Rightarrow> CipMessageRouterResponse" where
  "partial_transfer r =
     (if general_status r \<noteq> kCipErrorAttributeListError then r\<lparr>general_status := kCipErrorPartialTransfer\<rparr> else r)"

text \<open>The number and the status of an entry.\<close>

definition entry_head :: "u16 \<Rightarrow> u8 \<Rightarrow> CipMessageRouterResponse \<Rightarrow> CipMessageRouterResponse" where
  "entry_head n status r =
     r\<lparr>message := AddSintToMessage 0 (AddSintToMessage status (AddIntToMessage n (message r)))\<rparr>"

definition get_list_entry :: "'st object_class \<Rightarrow> u16 \<Rightarrow> 'st CipAttributeStruct option \<Rightarrow> 'st
    \<Rightarrow> CipMessageRouterResponse \<Rightarrow> CipMessageRouterResponse option" where
  "get_list_entry c n a st r =
     (case a of
        None \<Rightarrow> Some ((entry_head n kCipErrorAttributeNotSupported r)
                  \<lparr>general_status := kCipErrorAttributeListError\<rparr>)
      | Some a \<Rightarrow> do {
          getable \<leftarrow> marked n (get_single_bit_mask c);
          if getable
          then do {
            let r = entry_head n kCipErrorSuccess r;
            encode \<leftarrow> attr_encode a;
            m \<leftarrow> encode st (message r);
            Some (r\<lparr>message := m\<rparr>) }
          else Some ((entry_head n kCipErrorAttributeNotGettable r)
                 \<lparr>general_status := kCipErrorAttributeListError\<rparr>) })"

primrec get_list_entries :: "nat \<Rightarrow> 'st object_class \<Rightarrow> 'st CipAttributeStruct list \<Rightarrow> buf \<Rightarrow> 'st
    \<Rightarrow> CipMessageRouterResponse \<Rightarrow> CipMessageRouterResponse option" where
  "get_list_entries 0 c as p st r = Some r"
| "get_list_entries (Suc k) c as p st r = do {
     (n, p) \<leftarrow> GetUintFromMessage p;
     needed \<leftarrow> needed_message_space (GetCipAttribute as n) st;
     if needed > remaining_message_space (message r) then Some (partial_transfer r)
     else do {
       r \<leftarrow> get_list_entry c n (GetCipAttribute as n) st r;
       get_list_entries k c as p st r } }"

definition list_header :: "CipMessageRouterRequest \<Rightarrow> CipMessageRouterResponse \<Rightarrow> CipMessageRouterResponse" where
  "list_header request r = r\<lparr>message := InitializeENIPMessage, reply_service := 0x80 OR service request,
     general_status := kCipErrorSuccess, size_of_additional_status := 0\<rparr>"

definition GetAttributeList :: "'st object_class \<Rightarrow> (u16 \<Rightarrow> 'st CipAttributeStruct list)
    \<Rightarrow> ('addr, 'st) service_fn" where
  "GetAttributeList c attrs i request r originator_address encapsulation_session st = do {
     let r = list_header request r;
     (count, p) \<leftarrow> GetUintFromMessage (request_data request);
     if count \<noteq> 0
     then do {
       let start = current_message_position (message r);
       r \<leftarrow> get_list_entries (unat count) c (attrs i) p st (r\<lparr>message := MoveMessageNOctets 2 (message r)\<rparr>);
       Some (kEipStatusOkSend, r\<lparr>message := put_count start count (message r)\<rparr>, st) }
     else Some (kEipStatusOkSend, r\<lparr>general_status := kCipErrorAttributeListError\<rparr>, st) }"

text \<open>An entry of a set request: the request with its pointer behind the value, and whether to go on.  An
  attribute that cannot be set is skipped by the length of its type.\<close>

definition set_list_entry :: "'st object_class \<Rightarrow> u16 \<Rightarrow> 'st CipAttributeStruct option
    \<Rightarrow> CipMessageRouterRequest \<Rightarrow> CipMessageRouterResponse \<Rightarrow> 'st
    \<Rightarrow> (bool \<times> CipMessageRouterRequest \<times> CipMessageRouterResponse \<times> 'st) option" where
  "set_list_entry c n a request r st =
     (case a of
        None \<Rightarrow> Some (True, request, (entry_head n kCipErrorAttributeNotSupported r)
                  \<lparr>general_status := kCipErrorAttributeListError\<rparr>, st)
      | Some a \<Rightarrow> do {
          setable \<leftarrow> marked n (set_bit_mask c);
          if setable
          then do {
            decode \<leftarrow> attr_decode a;
            (_, request, r, st) \<leftarrow> decode request (entry_head n kCipErrorSuccess r) st;
            Some (True, request, r, st) }
          else do {
            let r = entry_head n kCipErrorAttributeNotSetable r;
            len \<leftarrow> GetCipDataTypeLength (attr_type a) (Some (request_data request));
            if len \<noteq> 0
            then do {
              p \<leftarrow> skip (unat len) (request_data request);
              Some (True, request\<lparr>request_data := p\<rparr>, r\<lparr>general_status := kCipErrorAttributeListError\<rparr>, st) }
            else Some (False, request, r\<lparr>general_status := kCipErrorPartialTransfer\<rparr>, st) } })"

primrec set_list_entries :: "nat \<Rightarrow> 'st object_class \<Rightarrow> 'st CipAttributeStruct list
    \<Rightarrow> CipMessageRouterRequest \<Rightarrow> CipMessageRouterResponse \<Rightarrow> 'st
    \<Rightarrow> (bool \<times> CipMessageRouterResponse \<times> 'st) option" where
  "set_list_entries 0 c as request r st = Some (True, r, st)"
| "set_list_entries (Suc k) c as request r st = do {
     (n, p) \<leftarrow> GetUintFromMessage (request_data request);
     let request = request\<lparr>request_data := p\<rparr>;
     needed \<leftarrow> needed_message_space (GetCipAttribute as n) st;
     if needed > remaining_message_space (message r) then Some (True, partial_transfer r, st)
     else do {
       (more, request, r, st) \<leftarrow> set_list_entry c n (GetCipAttribute as n) request r st;
       if more then set_list_entries k c as request r st else Some (False, r, st) } }"

definition SetAttributeList :: "'st object_class \<Rightarrow> (u16 \<Rightarrow> 'st CipAttributeStruct list)
    \<Rightarrow> ('addr, 'st) service_fn" where
  "SetAttributeList c attrs i request r originator_address encapsulation_session st = do {
     let r = list_header request r;
     (count, p) \<leftarrow> GetUintFromMessage (request_data request);
     if count \<noteq> 0
     then do {
       let start = current_message_position (message r);
       (complete, r, st) \<leftarrow> set_list_entries (unat count) c (attrs i) (request\<lparr>request_data := p\<rparr>)
          (r\<lparr>message := MoveMessageNOctets 2 (message r)\<rparr>) st;
       Some (kEipStatusOkSend,
         (if complete then r\<lparr>message := put_count start count (message r)\<rparr> else r), st) }
     else Some (kEipStatusOkSend, r\<lparr>general_status := kCipErrorAttributeListError\<rparr>, st) }"

section \<open>The masks agree with the attributes\<close>

text \<open>The attributes that are in use.\<close>

definition in_use :: "'st CipAttributeStruct list \<Rightarrow> 'st CipAttributeStruct set" where
  "in_use as = {a \<in> set as. attr_data a \<noteq> None}"

definition mask_agrees :: "u8 \<Rightarrow> u8 list \<Rightarrow> u16 \<Rightarrow> 'st CipAttributeStruct list \<Rightarrow> bool" where
  "mask_agrees flag bits highest as \<longleftrightarrow> (\<forall>n \<le> highest.
     marked n bits = Some (\<exists>a \<in> in_use as. attr_number a = n \<and> attr_flags a AND flag \<noteq> 0))"

text \<open>A class and the attributes of an instance as \<^verbatim>\<open>CreateCipClass\<close> and the insertions leave them.\<close>

definition attributes_wf :: "'st object_class \<Rightarrow> 'st CipAttributeStruct list \<Rightarrow> bool" where
  "attributes_wf c as \<longleftrightarrow>
     mask_agrees kGetableSingle (get_single_bit_mask c) (highest_attribute_number c) as
     \<and> mask_agrees (kGetableAll OR kGetableAllDummy) (get_all_bit_mask c) (highest_attribute_number c) as
     \<and> mask_agrees kSetable (set_bit_mask c) (highest_attribute_number c) as
     \<and> (\<forall>a \<in> in_use as. attr_number a \<le> highest_attribute_number c)
     \<and> (\<forall>a \<in> set as. attr_data a = None \<longrightarrow> attr_number a = 0)"

lemma in_use_simps [simp]:
  "in_use [] = {}" "in_use (a # as) = (if attr_data a = None then in_use as else insert a (in_use as))"
  by (auto simp: in_use_def)

lemma in_use_fill: "fill_slot a as = Some bs \<Longrightarrow> attr_data a \<noteq> None \<Longrightarrow> in_use bs = insert a (in_use as)"
  by (induction as arbitrary: bs) (auto simp: bind_Some_iff split: if_splits)

lemma unused_fill: "fill_slot a as = Some bs \<Longrightarrow> set bs \<subseteq> insert a (set as)"
  by (induction as arbitrary: bs) (fastforce simp: bind_Some_iff split: if_splits)+

lemma and_bit_octet: "x AND push_bit k 1 \<noteq> 0 \<longleftrightarrow> bit x k" if "k < 8" for x :: u8
  unfolding and_single_bit using that by (simp add: push_bit_eq_mult)

lemma marked_bit:
  "marked n bits = (if CalculateIndex n < length bits then Some (bit (bits ! CalculateIndex n) (unat n mod 8)) else None)"
  by (simp add: marked_def and_bit_octet del: push_bit_of_1)

lemma marked_mark:
  assumes "mark b n bits = Some bits'"
  shows "marked k bits' = (if k = n then Some (b \<or> marked n bits = Some True) else marked k bits)"
proof -
  have i: "CalculateIndex n < length bits"
    and b': "bits' = bits[CalculateIndex n := bits ! CalculateIndex n OR (if b then push_bit (unat n mod 8) 1 else 0)]"
    using assms by (auto simp: mark_def split: if_splits)
  let ?j = "unat n mod 8"
  have same: "k = n" if "CalculateIndex k = CalculateIndex n" "unat k mod 8 = ?j"
    using that unfolding CalculateIndex_def by (metis div_mult_mod_eq word_unat_eq_iff)
  have "bit (if b then push_bit ?j 1 else 0 :: u8) l \<longleftrightarrow> b \<and> l = ?j" if "l < 8" for l
    using that by (auto simp: bit_push_bit_iff bit_1_iff simp del: push_bit_of_1)
  then have bits: "bit (bits' ! CalculateIndex k) (unat k mod 8)
      \<longleftrightarrow> (b \<and> k = n) \<or> bit (bits ! CalculateIndex k) (unat k mod 8)"
    using i same by (cases "CalculateIndex k = CalculateIndex n") (auto simp: b' bit_or_iff)
  have "length bits' = length bits"
    by (simp add: b')
  then show ?thesis
    using i bits by (auto simp: marked_bit)
qed

lemma mask_agrees_mark:
  assumes "mask_agrees flag bits h as" and "mark (attr_flags a AND flag \<noteq> 0) (attr_number a) bits = Some bits'"
    and "in_use bs = insert a (in_use as)"
  shows "mask_agrees flag bits' h bs"
  using assms marked_mark [OF assms(2)] by (auto simp: mask_agrees_def)

lemma mask_agrees_0: "CalculateIndex h < n \<Longrightarrow> in_use as = {} \<Longrightarrow> mask_agrees flag (replicate n 0) h as"
  by (auto simp: mask_agrees_def marked_bit CalculateIndex_def word_le_nat_alt intro: order_le_less_trans [OF div_le_mono])

lemma insert_wf:
  fixes c d :: "'st object_class"
  shows "attributes_wf (AllocateAttributeMasks c) (replicate k unused_attribute)"
    and "attributes_wf d as \<Longrightarrow>
       (case InsertAttribute a (d, as) of
          None \<Rightarrow> attr_data a = None \<or> (\<forall>b \<in> set as. attr_data b \<noteq> None) \<or> highest_attribute_number d < attr_number a
        | Some (d', bs) \<Rightarrow> attributes_wf d' bs \<and> in_use bs = insert a (in_use as)
            \<and> length bs = length as \<and> highest_attribute_number d' = highest_attribute_number d)"
proof -
  have empty: "in_use (replicate k unused_attribute :: 'st CipAttributeStruct list) = {}"
    by (induction k) (simp_all add: unused_attribute_def)
  have start: "attributes_wf (AllocateAttributeMasks c) (replicate k unused_attribute)"
    using mask_agrees_0 [OF _ empty, of "highest_attribute_number c" "1 + CalculateIndex (highest_attribute_number c)"]
    by (simp add: attributes_wf_def AllocateAttributeMasks_def Let_def empty) (simp add: unused_attribute_def)
  have full: "fill_slot a as = None \<longleftrightarrow> (\<forall>b \<in> set as. attr_data b \<noteq> None)"
    by (induction as) (auto simp: bind_None_iff)
  have len: "fill_slot a as = Some bs \<Longrightarrow> length bs = length as" for bs
    by (induction as arbitrary: bs) (auto simp: bind_Some_iff split: if_splits)
  show "attributes_wf (AllocateAttributeMasks c) (replicate k unused_attribute)"
    by (rule start)
  {
    assume wf: "attributes_wf d as"
    have room: "\<exists>y. mark b (attr_number a) bits = Some y"
      if "mask_agrees f bits (highest_attribute_number d) as" "attr_number a \<le> highest_attribute_number d" for f bits b
      using that by (auto simp: mask_agrees_def marked_def mark_def split: if_splits)
    show "case InsertAttribute a (d, as) of
        None \<Rightarrow> attr_data a = None \<or> (\<forall>b \<in> set as. attr_data b \<noteq> None) \<or> highest_attribute_number d < attr_number a
      | Some (d', bs) \<Rightarrow> attributes_wf d' bs \<and> in_use bs = insert a (in_use as)
          \<and> length bs = length as \<and> highest_attribute_number d' = highest_attribute_number d"
    proof (cases "InsertAttribute a (d, as)")
      case None
      have False if a: "attr_data a \<noteq> None" "fill_slot a as \<noteq> None" "attr_number a \<le> highest_attribute_number d"
      proof -
        obtain x y z where "mark (attr_flags a AND kGetableSingle \<noteq> 0) (attr_number a) (get_single_bit_mask d) = Some x"
          "mark (attr_flags a AND (kGetableAll OR kGetableAllDummy) \<noteq> 0) (attr_number a) (get_all_bit_mask d) = Some y"
          "mark (attr_flags a AND kSetable \<noteq> 0) (attr_number a) (set_bit_mask d) = Some z"
          using room [OF _ a(3)] wf unfolding attributes_wf_def by meson
        then show False
          using None a by (auto simp: InsertAttribute_def)
      qed
      then have "attr_data a = None \<or> fill_slot a as = None \<or> highest_attribute_number d < attr_number a"
        by (meson not_le)
      then show ?thesis
        using None unfolding full by simp
    next
      case (Some r)
      obtain d' bs where r: "r = (d', bs)"
        by (cases r)
      have f: "fill_slot a as = Some bs" "attr_data a \<noteq> None" "attr_number a \<le> highest_attribute_number d"
        and d': "highest_attribute_number d' = highest_attribute_number d"
        and m: "mark (attr_flags a AND kGetableSingle \<noteq> 0) (attr_number a) (get_single_bit_mask d) = Some (get_single_bit_mask d')"
          "mark (attr_flags a AND (kGetableAll OR kGetableAllDummy) \<noteq> 0) (attr_number a) (get_all_bit_mask d) = Some (get_all_bit_mask d')"
          "mark (attr_flags a AND kSetable \<noteq> 0) (attr_number a) (set_bit_mask d) = Some (set_bit_mask d')"
        using Some by (auto simp: InsertAttribute_def bind_Some_iff r)
      note use = in_use_fill [OF f(1,2)]
      have "attributes_wf d' bs"
        using wf unused_fill [OF f(1)] f(2,3)
        by (auto simp: attributes_wf_def d' use intro: mask_agrees_mark [OF _ m(1) use]
            mask_agrees_mark [OF _ m(2) use] mask_agrees_mark [OF _ m(3) use])
      then show ?thesis
        using Some use len [OF f(1)] d' by (simp add: r)
    qed
  }
qed

text \<open>C15: inserting attributes into a class keeps the class in order: the masks for getting and setting say
  of each attribute number exactly what the flags of the attributes in use say, all attributes in use have a
  number the masks have room for, and unused slots have the number 0; the class starts like that with fresh
  masks and an unused attribute array.  Inserting fails exactly for a null pointer, a full array or
  a number beyond the highest one.\<close>

theorem insert_attribute_wf:
  fixes c d :: "'st object_class"
  shows "attributes_wf (AllocateAttributeMasks c) (replicate k unused_attribute)
   \<and> (attributes_wf d as \<longrightarrow>
       (case InsertAttribute a (d, as) of
          None \<Rightarrow> attr_data a = None \<or> (\<forall>b \<in> set as. attr_data b \<noteq> None) \<or> highest_attribute_number d < attr_number a
        | Some (d', bs) \<Rightarrow> attributes_wf d' bs \<and> in_use bs = insert a (in_use as)
            \<and> length bs = length as \<and> highest_attribute_number d' = highest_attribute_number d))"
  by (intro conjI impI insert_wf)

definition example_attribute :: "u16 \<Rightarrow> u8 \<Rightarrow> u16 CipAttributeStruct" where
  "example_attribute n flags =
     variable_attribute EncodeCipUint DecodeCipUint le16 (\<lambda>st. st) (\<lambda>v st. v) n kCipUint flags"

definition example_class :: "u16 object_class" where
  "example_class = AllocateAttributeMasks \<lparr>highest_attribute_number = 9, get_single_bit_mask = [],
     set_bit_mask = [], get_all_bit_mask = [], PreGetCallback = None, PostGetCallback = None,
     PreSetCallback = None, PostSetCallback = None\<rparr>"

theorem insert_attribute_wf_witness:
  "case InsertAttribute (example_attribute 9 kGetableSingle) (example_class, [unused_attribute]) of
     None \<Rightarrow> False
   | Some (d, bs) \<Rightarrow> attributes_wf d bs \<and> in_use bs = {example_attribute 9 kGetableSingle}"
proof -
  have wf: "attributes_wf example_class [unused_attribute]"
    using insert_wf(1) [of _ 1] by (simp add: example_class_def)
  have "InsertAttribute (example_attribute 9 kGetableSingle) (example_class, [unused_attribute]) \<noteq> None"
    by (simp add: InsertAttribute_def example_attribute_def variable_attribute_def example_class_def AllocateAttributeMasks_def
        unused_attribute_def mark_def CalculateIndex_def)
  then show ?thesis
    using insert_attribute_wf [THEN conjunct2, THEN mp, OF wf, of "example_attribute 9 kGetableSingle"]
    by (auto simp: unused_attribute_def split: option.splits)
qed

section \<open>Reading and writing attributes\<close>

lemma GetCipAttribute_in: "GetCipAttribute as n = Some a \<Longrightarrow> a \<in> set as \<and> attr_number a = n"
  by (induction as) (auto split: if_splits)

lemma marked_in_use:
  assumes "mask_agrees flag bits h as" and "a \<in> in_use as" and "attr_number a \<le> h" and "attr_flags a AND flag \<noteq> 0"
  shows "marked (attr_number a) bits = Some True"
  using assms by (auto simp: mask_agrees_def)

lemma call_back_disabled [simp]: "call_back False f i a n st = st"
  by (simp add: call_back_def)

definition example_object :: "u16 object_class \<times> u16 CipAttributeStruct list" where
  "example_object = (case InsertAttribute (example_attribute 9 (kGetableSingle OR kSetable))
       (example_class, [unused_attribute]) of
     None \<Rightarrow> (example_class, []) | Some ci \<Rightarrow> ci)"

lemma example_object:
  "snd example_object = [example_attribute 9 6]" "attributes_wf (fst example_object) [example_attribute 9 6]"
proof -
  have wf: "attributes_wf example_class [unused_attribute]"
    using insert_wf(1) [of _ 1] by (simp add: example_class_def)
  have ins: "\<exists>d. InsertAttribute (example_attribute 9 6) (example_class, [unused_attribute]) = Some (d, [example_attribute 9 6])"
    by (simp add: InsertAttribute_def example_attribute_def variable_attribute_def example_class_def AllocateAttributeMasks_def
        unused_attribute_def mark_def CalculateIndex_def)
  then show "snd example_object = [example_attribute 9 6]"
    by (auto simp: example_object_def attribute_flags)
  show "attributes_wf (fst example_object) [example_attribute 9 6]"
    using ins insert_wf(2) [OF wf, of "example_attribute 9 6"] by (auto simp: example_object_def attribute_flags)
qed

lemma distinct_in_use:
  assumes "distinct (map attr_number (filter (\<lambda>a. attr_data a \<noteq> None) as))"
    and "a \<in> in_use as" and "b \<in> in_use as" and "attr_number a = attr_number b"
  shows "a = b"
  using assms by (auto simp: in_use_def distinct_map inj_on_def)

lemma marked_not:
  assumes "mask_agrees flag bits h as" and "distinct (map attr_number (filter (\<lambda>a. attr_data a \<noteq> None) as))"
    and "a \<in> in_use as" and "attr_number a \<le> h" and "attr_flags a AND flag = 0"
  shows "marked (attr_number a) bits = Some False"
proof -
  have "\<not> (\<exists>b \<in> in_use as. attr_number b = attr_number a \<and> attr_flags b AND flag \<noteq> 0)"
    using assms(5) distinct_in_use [OF assms(2,3)] by metis
  then show ?thesis
    using assms(1,4) by (simp add: mask_agrees_def)
qed

text \<open>C14: on an object for whose attributes the masks of its class speak, requests that may not touch an
  attribute do not: an attribute number that the instance does not have, or whose slot is not in use, is answered
  with "attribute not supported" by both services; reading one that is not flagged for single reading likewise;
  writing one without the flag for setting is answered with "attribute not supported" if it is not accessible,
  all only or a dummy, and with "attribute not settable" otherwise.  Nothing of the state changes and no data are
  sent.  The masks agree with the flags of a single instance by C15, but they are shared by the instances of a
  class: for instances whose flags differ the hypothesis fails, as it does for the Ethernet links of C34.\<close>

theorem attribute_access_refused:
  assumes "attributes_wf c (attrs i)" and "distinct (map attr_number (filter (\<lambda>a. attr_data a \<noteq> None) (attrs i)))"
    and "n = attribute_number (request_path request)"
  shows "((case GetCipAttribute (attrs i) n of
      None \<Rightarrow> True | Some a \<Rightarrow> attr_data a = None \<or> attr_flags a AND kGetableSingle = 0) \<longrightarrow>
    (\<exists>r'. GetAttributeSingle c attrs i request r peer1 h st = Some (kEipStatusOkSend, r', st)
      \<and> general_status r' = kCipErrorAttributeNotSupported \<and> message r' = InitializeENIPMessage))
  \<and> ((case GetCipAttribute (attrs i) n of
      None \<Rightarrow> True | Some a \<Rightarrow> attr_data a = None \<or> attr_flags a AND kSetable = 0) \<longrightarrow>
    (\<exists>r'. SetAttributeSingle c attrs i request r peer2 h st = Some (kEipStatusOkSend, r', st)
      \<and> general_status r' = (case GetCipAttribute (attrs i) n of
          None \<Rightarrow> kCipErrorAttributeNotSupported
        | Some a \<Rightarrow> if attr_data a = None \<or> attr_flags a \<in> {kNotSetOrGetable, kGetableAll, kGetableAllDummy}
            then kCipErrorAttributeNotSupported else kCipErrorAttributeNotSetable)
      \<and> message r' = InitializeENIPMessage))"
proof (cases "\<exists>a. GetCipAttribute (attrs i) n = Some a \<and> attr_data a \<noteq> None")
  case True
  then obtain a where a: "GetCipAttribute (attrs i) n = Some a" "attr_data a \<noteq> None"
    by blast
  have use: "a \<in> in_use (attrs i)" "attr_number a = n" "n \<le> highest_attribute_number c"
    using GetCipAttribute_in [OF a(1)] a(2) assms(1) by (auto simp: in_use_def attributes_wf_def)
  have bits: "attr_flags a AND kGetableSingle = 0 \<Longrightarrow> marked n (get_single_bit_mask c) = Some False"
    "attr_flags a AND kSetable = 0 \<Longrightarrow> marked n (set_bit_mask c) = Some False"
    using assms(1) use marked_not [OF _ assms(2) use(1)] by (auto simp: attributes_wf_def)
  show ?thesis
    using a bits by (auto simp: GetAttributeSingle_def SetAttributeSingle_def assms(3) [symmetric] Let_def
        GenerateGetAttributeSingleHeader_def GenerateSetAttributeSingleHeader_def)
next
  case False
  then show ?thesis
    by (cases "GetCipAttribute (attrs i) n")
      (auto simp: GetAttributeSingle_def SetAttributeSingle_def assms(3) [symmetric] Let_def
        GenerateGetAttributeSingleHeader_def GenerateSetAttributeSingleHeader_def)
qed

section \<open>Reading all attributes\<close>

definition exposed :: "'st CipAttributeStruct \<Rightarrow> bool" where
  "exposed a \<longleftrightarrow> attr_data a \<noteq> None \<and> attr_flags a AND (kGetableAll OR kGetableAllDummy) \<noteq> 0"

lemma encode_all_concat:
  assumes "\<forall>a \<in> set as. marked (attr_number a) (get_all_bit_mask c) = Some (exposed a)"
    and "\<forall>a \<in> set as. exposed a \<longrightarrow> attr_encode a = Some (\<lambda>st m. Some (append_octets (octets a st) m))"
  shows "encode_all c as st m = Some (append_octets (concat (map (\<lambda>a. octets a st) (filter exposed as))) m)"
  using assms by (induction as arbitrary: m) auto

lemma marked_exposed:
  assumes wf: "attributes_wf c as" and dist: "distinct (map attr_number (filter (\<lambda>a. attr_data a \<noteq> None) as))"
    and pos: "\<forall>a \<in> in_use as. attr_number a \<noteq> 0" and a: "a \<in> set as"
  shows "marked (attr_number a) (get_all_bit_mask c) = Some (exposed a)"
proof (cases "attr_data a = None")
  case True
  then have "attr_number a = 0" and "\<not> exposed a"
    using wf a by (auto simp: attributes_wf_def exposed_def)
  then show ?thesis
    using wf pos by (auto simp: attributes_wf_def mask_agrees_def)
next
  case False
  have agree: "mask_agrees (kGetableAll OR kGetableAllDummy) (get_all_bit_mask c) (highest_attribute_number c) as"
    using wf by (simp add: attributes_wf_def)
  have use: "a \<in> in_use as" "attr_number a \<le> highest_attribute_number c"
    using False a wf by (auto simp: attributes_wf_def in_use_def)
  show ?thesis
    using marked_in_use [OF agree use] marked_not [OF agree dist use] False
    by (cases "attr_flags a AND (kGetableAll OR kGetableAllDummy) = 0") (simp_all add: exposed_def)
qed

text \<open>C16: the reply to \<^verbatim>\<open>GetAttributeAll\<close> is the concatenation of the encodings of exactly those attributes
  that are flagged for it, in the order in which they were inserted, whatever other attributes lie between
  them; the state does not change.  An object without attributes does not support the service.\<close>

theorem get_attribute_all_concatenates:
  assumes "attributes_wf c (attrs i)" and "distinct (map attr_number (filter (\<lambda>a. attr_data a \<noteq> None) (attrs i)))"
    and "\<forall>a \<in> in_use (attrs i). attr_number a \<noteq> 0"
    and "\<forall>a \<in> set (attrs i). exposed a \<longrightarrow> attr_encode a = Some (\<lambda>st m. Some (append_octets (octets a st) m))"
  shows "\<exists>r'. GetAttributeAll c attrs i request r peer h st = Some (kEipStatusOkSend, r', st)
    \<and> reply_service r' = 0x80 OR service request
    \<and> general_status r' = (if attrs i = [] then kCipErrorServiceNotSupported else kCipErrorSuccess)
    \<and> message r' = append_octets (concat (map (\<lambda>a. octets a st) (filter exposed (attrs i)))) InitializeENIPMessage"
proof -
  have "encode_all c (attrs i) st m = Some (append_octets (concat (map (\<lambda>a. octets a st) (filter exposed (attrs i)))) m)" for m
    using marked_exposed [OF assms(1-3)] assms(4) by (intro encode_all_concat) blast+
  then show ?thesis
    by (auto simp: GetAttributeAll_def GenerateGetAttributeSingleHeader_def)
qed

definition example_attributes :: "u16 object_class \<times> u16 CipAttributeStruct list" where
  "example_attributes = (case do {
       ci \<leftarrow> InsertAttribute (example_attribute 1 kGetableSingleAndAll) (example_class, replicate 3 unused_attribute);
       ci \<leftarrow> InsertAttribute (example_attribute 9 kGetableSingle) ci;
       InsertAttribute (example_attribute 4 kGetableAllDummy) ci } of
     None \<Rightarrow> (example_class, []) | Some ci \<Rightarrow> ci)"

lemma example_attributes:
  "snd example_attributes = [example_attribute 1 3, example_attribute 9 2, example_attribute 4 8]"
  "attributes_wf (fst example_attributes) (snd example_attributes)"
proof -
  have wf: "attributes_wf example_class (replicate 3 unused_attribute)"
    using insert_wf(1) [of _ 3] by (simp add: example_class_def)
  have data: "attr_data (example_attribute n f) \<noteq> None" for n f
    by (simp add: example_attribute_def variable_attribute_def)
  have num: "attr_number (example_attribute n f) = n" for n f
    by (simp add: example_attribute_def variable_attribute_def)
  have high: "highest_attribute_number example_class = 9"
    by (simp add: example_class_def AllocateAttributeMasks_def Let_def)
  have step: "\<exists>d bs. InsertAttribute (example_attribute n f) (c, as) = Some (d, bs) \<and> attributes_wf d bs
      \<and> fill_slot (example_attribute n f) as = Some bs \<and> highest_attribute_number d = 9"
    if "attributes_wf c as" "highest_attribute_number c = 9" "n \<le> 9" "\<exists>b \<in> set as. attr_data b = None" for n f c as
    using insert_wf(2) [OF that(1), of "example_attribute n f"] that data [of n f] num
    by (auto split: option.splits simp: InsertAttribute_def bind_Some_iff)
  obtain c1 as1 where 1: "InsertAttribute (example_attribute 1 3) (example_class, replicate 3 unused_attribute) = Some (c1, as1)"
    "attributes_wf c1 as1" "fill_slot (example_attribute 1 3) (replicate 3 unused_attribute) = Some as1"
    "highest_attribute_number c1 = 9"
    using step [OF wf high, of 1 3] by (auto simp: unused_attribute_def)
  have as1: "as1 = [example_attribute 1 3, unused_attribute, unused_attribute]"
    using 1(3) by (simp add: eval_nat_numeral unused_attribute_def)
  obtain c2 as2 where 2: "InsertAttribute (example_attribute 9 2) (c1, as1) = Some (c2, as2)"
    "attributes_wf c2 as2" "fill_slot (example_attribute 9 2) as1 = Some as2" "highest_attribute_number c2 = 9"
    using step [OF 1(2,4), of 9 2] by (auto simp: as1 unused_attribute_def)
  have as2: "as2 = [example_attribute 1 3, example_attribute 9 2, unused_attribute]"
    using 2(3) data by (simp add: as1) (simp add: unused_attribute_def)
  obtain c3 as3 where 3: "InsertAttribute (example_attribute 4 8) (c2, as2) = Some (c3, as3)"
    "attributes_wf c3 as3" "fill_slot (example_attribute 4 8) as2 = Some as3"
    using step [OF 2(2,4), of 4 8] by (auto simp: as2 unused_attribute_def)
  have as3: "as3 = [example_attribute 1 3, example_attribute 9 2, example_attribute 4 8]"
    using 3(3) data by (simp add: as2) (simp add: unused_attribute_def)
  have e: "example_attributes = (c3, as3)"
    using 1(1) 2(1) 3(1) by (simp add: example_attributes_def attribute_flags)
  show "snd example_attributes = [example_attribute 1 3, example_attribute 9 2, example_attribute 4 8]"
    "attributes_wf (fst example_attributes) (snd example_attributes)"
    using 3(2) by (simp_all add: e as3)
qed

theorem attribute_access_refused_witness:
  "\<exists>r'. SetAttributeSingle (fst example_attributes) (\<lambda>i. snd example_attributes) 1
      (zero_request\<lparr>request_path := \<lparr>path_size = 3, class_id = 0x100, instance_number = 1, attribute_number = 9\<rparr>\<rparr>)
      InitializeMessageRouterResponse () 0 5 = Some (kEipStatusOkSend, r', 5)
    \<and> general_status r' = kCipErrorAttributeNotSetable"
proof -
  let ?q = "zero_request\<lparr>request_path := \<lparr>path_size = 3, class_id = 0x100, instance_number = 1, attribute_number = 9\<rparr>\<rparr>"
  have n: "(9 :: u16) = attribute_number (request_path ?q)"
    by simp
  have a: "GetCipAttribute (snd example_attributes) 9 = Some (example_attribute 9 2)"
    "distinct (map attr_number (filter (\<lambda>a. attr_data a \<noteq> None) (snd example_attributes)))"
    "attr_data (example_attribute 9 2) \<noteq> None" "attr_flags (example_attribute 9 2) = 2"
    by (simp_all add: example_attributes(1)) (simp_all add: example_attribute_def variable_attribute_def)
  from attribute_access_refused [where c = "fst example_attributes" and attrs = "\<lambda>i. snd example_attributes" and i = 1
      and r = InitializeMessageRouterResponse and ?peer1.0 = "()" and ?peer2.0 = "()" and h = 0 and st = 5,
      OF example_attributes(2) a(2) n]
  show ?thesis
    using a(3) by (auto simp: a(1,4) attribute_flags)
qed

theorem get_attribute_all_concatenates_witness:
  "\<exists>r'. GetAttributeAll (fst example_attributes) (\<lambda>i. snd example_attributes) 1 zero_request
      InitializeMessageRouterResponse () 0 0x1234 = Some (kEipStatusOkSend, r', 0x1234)
    \<and> message r' = append_octets [0x34, 0x12, 0x34, 0x12] InitializeENIPMessage"
proof -
  have num: "attr_number (example_attribute n f) = n" "attr_data (example_attribute n f) \<noteq> None"
    "exposed (example_attribute n f) \<longleftrightarrow> f AND 9 \<noteq> 0"
    "attr_encode (example_attribute n f) = Some (\<lambda>st m. Some (append_octets (le16 st) m))" for n f
    by (simp_all add: example_attribute_def variable_attribute_def exposed_def attribute_flags EncodeCipUint_def enc)
  have d: "distinct (map attr_number (filter (\<lambda>a. attr_data a \<noteq> None) (snd example_attributes)))"
    "\<forall>a \<in> in_use (snd example_attributes). attr_number a \<noteq> 0"
    "\<forall>a \<in> set (snd example_attributes). exposed a \<longrightarrow> attr_encode a = Some (\<lambda>st m. Some (append_octets (le16 st) m))"
    by (auto simp: example_attributes(1) num)
  have le: "le16 0x1234 = [0x34, 0x12]"
    by (simp add: le16_def)
  from get_attribute_all_concatenates [where c = "fst example_attributes" and attrs = "\<lambda>i. snd example_attributes"
      and i = 1 and request = zero_request and r = InitializeMessageRouterResponse and peer = "()" and h = 0
      and st = "0x1234" and octets = "\<lambda>a. le16", OF example_attributes(2) d]
  show ?thesis
    by (auto simp: example_attributes(1) num le)
qed

section \<open>Lists of attributes\<close>

lemma poke_commute: "i \<noteq> j \<Longrightarrow> poke i b (poke j c m) = poke j c (poke i b m)"
  by (cases m) (simp add: poke_def Let_def list_update_swap)

lemma copy_poke: "j < i \<Longrightarrow> copy_octets i bs (poke j c m) = poke j c (copy_octets i bs m)"
proof (induction bs arbitrary: i m)
  case (Cons b bs)
  then show ?case
    using poke_commute [of i j b c m] by simp
qed simp

text \<open>The count that is written last into the two octets that were left free comes to stand in front of
  the entries, as if it had been written first.\<close>

lemma put_count_move:
  "put_count (current_message_position k) n (MoveMessageNOctets (int (2 + l)) k)
     = MoveMessageNOctets (int (2 + l)) (poke 1 (ucast (drop_bit 8 n)) (poke 0 (ucast n) k))"
  by (cases k) (simp add: put_count_def AddIntToMessage_def MoveMessageNOctets_def poke_def Let_def)

lemma put_count_append:
  "put_count (current_message_position m) n (append_octets bs (MoveMessageNOctets 2 m)) = append_octets (le16 n @ bs) m"
proof -
  let ?k = "copy_octets 2 bs m"
  have mv: "append_octets bs (MoveMessageNOctets 2 m) = MoveMessageNOctets (int (2 + length bs)) ?k"
    using copy_octets_move [of 0 bs 2 m] move_move [of "length bs" 2 ?k] by (simp add: append_octets_def)
  have "append_octets (le16 n @ bs) m
      = MoveMessageNOctets (int (2 + length bs)) (poke 1 (ucast (drop_bit 8 n)) (poke 0 (ucast n) ?k))"
    by (simp add: append_octets_def le16_def copy_poke numeral_2_eq_2)
  then show ?thesis
    using put_count_move [of ?k n "length bs"] unfolding mv by simp
qed

end
