(* ===== verification/Attribute_Lists.thy ===== *)
theory Attribute_Lists
  imports Cip_Object
begin

text \<open>
  What the services on lists of attributes (\<^verbatim>\<open>GetAttributeList\<close> and \<^verbatim>\<open>SetAttributeList\<close> of
  \<^verbatim>\<open>cip/cipcommon.c\<close>, modelled in \<open>Cip_Object\<close>) answer.
\<close>

section \<open>Reading\<close>

text \<open>An entry of the reply to \<^verbatim>\<open>GetAttributeList\<close>: the number, the status and, on success, the value.\<close>

definition list_entry :: "'st object_class \<Rightarrow> 'st CipAttributeStruct list
    \<Rightarrow> ('st CipAttributeStruct \<Rightarrow> buf) \<Rightarrow> u16 \<Rightarrow> buf" where
  "list_entry c as value n = le16 n @
     (case GetCipAttribute as n of
        None \<Rightarrow> [kCipErrorAttributeNotSupported, 0]
      | Some a \<Rightarrow> if marked n (get_single_bit_mask c) = Some True then [kCipErrorSuccess, 0] @ value a
          else [kCipErrorAttributeNotGettable, 0])"

definition gettable :: "'st object_class \<Rightarrow> 'st CipAttributeStruct list \<Rightarrow> u16 \<Rightarrow> bool" where
  "gettable c as n \<longleftrightarrow> GetCipAttribute as n \<noteq> None \<and> marked n (get_single_bit_mask c) = Some True"

lemma reserved_used:
  "used_message_length (append_octets bs (MoveMessageNOctets 2 InitializeENIPMessage)) = of_nat (2 + length bs)"
  by (simp add: MoveMessageNOctets_def InitializeENIPMessage_def Let_def)

text \<open>The numbers that are answered before the message is too full for the next one; \<open>used\<close> octets of entries are
  written already.\<close>

fun answered :: "'st object_class \<Rightarrow> 'st CipAttributeStruct list \<Rightarrow> ('st CipAttributeStruct \<Rightarrow> buf) \<Rightarrow> 'st
    \<Rightarrow> nat \<Rightarrow> u16 list \<Rightarrow> u16 list" where
  "answered c as value st used [] = []"
| "answered c as value st used (n # ns) =
     (case needed_message_space (GetCipAttribute as n) st of
        None \<Rightarrow> []
      | Some k \<Rightarrow> if k + int used + 2 + 33 > int PC_OPENER_ETHERNET_BUFFER_SIZE then []
          else n # answered c as value st (used + length (list_entry c as value n)) ns)"

definition entries :: "'st object_class \<Rightarrow> 'st CipAttributeStruct list \<Rightarrow> ('st CipAttributeStruct \<Rightarrow> buf) \<Rightarrow> u16 list \<Rightarrow> buf" where
  "entries c as value ns = concat (map (list_entry c as value) ns)"

lemma remaining_reserved:
  assumes "length bs \<le> 510"
  shows "remaining_message_space (append_octets bs (MoveMessageNOctets 2 InitializeENIPMessage)) = 477 - int (length bs)"
proof -
  have "sint (of_nat (2 + length bs) :: size_t) = int (2 + length bs)"
    using assms by (simp only: signed_of_nat) (simp add: signed_take_bit_int_eq_self)
  then show ?thesis
    using assms unfolding remaining_message_space_def reserved_used by (simp add: PC_OPENER_ETHERNET_BUFFER_SIZE_def)
qed

lemma get_list_entries_reply:
  assumes "\<forall>n \<in> set ns. marked n (get_single_bit_mask c) \<noteq> None \<or> GetCipAttribute as n = None"
    and "\<forall>n \<in> set ns. needed_message_space (GetCipAttribute as n) st \<noteq> None"
    and "\<forall>n \<in> set ns. \<forall>a. GetCipAttribute as n = Some a \<longrightarrow> attr_encode a = Some (\<lambda>st m. Some (append_octets (octets a st) m))"
    and "message r = append_octets bs (MoveMessageNOctets 2 InitializeENIPMessage)"
    and "ms = answered c as (\<lambda>a. octets a st) st (length bs) ns"
    and "length bs + length (entries c as (\<lambda>a. octets a st) ms) \<le> 510"
  shows "get_list_entries (length ns) c as (concat (map le16 ns) @ rest) st r = Some (r\<lparr>
    message := append_octets (bs @ entries c as (\<lambda>a. octets a st) ms) (MoveMessageNOctets 2 InitializeENIPMessage),
    general_status := if \<exists>n \<in> set ms. \<not> gettable c as n then kCipErrorAttributeListError
      else if ms = ns \<or> general_status r = kCipErrorAttributeListError then general_status r else kCipErrorPartialTransfer\<rparr>)"
  using assms
proof (induction ns arbitrary: bs r ms)
  case Nil
  then show ?case
    by (simp add: entries_def)
next
  case (Cons n ns)
  let ?e = "list_entry c as (\<lambda>a. octets a st)"
  obtain k where k: "needed_message_space (GetCipAttribute as n) st = Some k"
    using Cons.prems(2) by auto
  have space: "k > remaining_message_space (message r) \<longleftrightarrow> k + int (length bs) + 2 + 33 > int PC_OPENER_ETHERNET_BUFFER_SIZE"
    using Cons.prems(6) by (auto simp: Cons.prems(4) remaining_reserved PC_OPENER_ETHERNET_BUFFER_SIZE_def)
  show ?case
  proof (cases "k > remaining_message_space (message r)")
    case True
    then have "ms = []"
      using Cons.prems(5) k space by simp
    then show ?thesis
      using True by (simp add: k partial_transfer_def entries_def flip: Cons.prems(4))
  next
    case False
    let ?ms = "answered c as (\<lambda>a. octets a st) st (length (bs @ ?e n)) ns"
    have ms: "ms = n # ?ms"
      using Cons.prems(5) k space False by simp
    have entry: "get_list_entry c n (GetCipAttribute as n) st r = Some (r\<lparr>
        message := append_octets (bs @ ?e n) (MoveMessageNOctets 2 InitializeENIPMessage),
        general_status := if gettable c as n then general_status r else kCipErrorAttributeListError\<rparr>)"
      using Cons.prems(1,3)
      by (auto simp: get_list_entry_def list_entry_def gettable_def entry_head_def enc Cons.prems(4) split: option.splits)
    have "length (bs @ ?e n) + length (entries c as (\<lambda>a. octets a st) ?ms) \<le> 510"
      using Cons.prems(6) by (simp add: ms entries_def)
    then show ?thesis
      using Cons.prems(1-3) False
      by (subst ms) (simp add: k entry Cons.IH [where bs = "bs @ ?e n" and ms = ?ms] ms entries_def)
  qed
qed

text \<open>C13: \<^verbatim>\<open>GetAttributeList\<close> answers the numbers of the request in turn, each with its number, a status and, if
  the attribute may be read, its value, until the space for the next one, with 33 octets for the remaining headers,
  is used up; the count that is written in front stays that of the request.  The general status is "attribute list
  error" if an answered attribute may not be read, else success if every number is answered, else
  "partial transfer"; the state does not change.  The masks of the class cover the numbers of the attributes, the
  types of the attributes have a known length and their encoders append octets; only for a type whose value is longer than that length can the answers outgrow the 510 octets
  behind the count, which is excluded.\<close>

theorem get_attribute_list_reply:
  assumes "ns \<noteq> []" and "length ns < 2 ^ 16"
    and "request_data request = le16 (of_nat (length ns)) @ concat (map le16 ns) @ rest"
    and "\<forall>n \<in> set ns. marked n (get_single_bit_mask c) \<noteq> None \<or> GetCipAttribute (attrs i) n = None"
    and "\<forall>n \<in> set ns. needed_message_space (GetCipAttribute (attrs i) n) st \<noteq> None"
    and "\<forall>n \<in> set ns. \<forall>a. GetCipAttribute (attrs i) n = Some a
      \<longrightarrow> attr_encode a = Some (\<lambda>st m. Some (append_octets (octets a st) m))"
    and "ms = answered c (attrs i) (\<lambda>a. octets a st) st 0 ns"
    and "length (entries c (attrs i) (\<lambda>a. octets a st) ms) \<le> 510"
  shows "\<exists>r'. GetAttributeList c attrs i request r peer h st = Some (kEipStatusOkSend, r', st)
    \<and> reply_service r' = 0x80 OR service request
    \<and> general_status r' = (if \<exists>n \<in> set ms. \<not> gettable c (attrs i) n then kCipErrorAttributeListError
        else if ms = ns then kCipErrorSuccess else kCipErrorPartialTransfer)
    \<and> message r' = append_octets (le16 (of_nat (length ns)) @ entries c (attrs i) (\<lambda>a. octets a st) ms) InitializeENIPMessage"
proof -
  have count: "unat (of_nat (length ns) :: u16) = length ns" "(of_nat (length ns) :: u16) \<noteq> 0"
    using assms(1,2) by (auto simp: unat_of_nat take_bit_nat_eq_self word_of_nat_eq_0_iff dest: dvd_imp_le)
  have run: "get_list_entries (length ns) c (attrs i) (concat (map le16 ns) @ rest) st
      (list_header request r\<lparr>message := MoveMessageNOctets 2 InitializeENIPMessage\<rparr>) = Some ((list_header request r)\<lparr>
    message := append_octets (entries c (attrs i) (\<lambda>a. octets a st) ms) (MoveMessageNOctets 2 InitializeENIPMessage),
    general_status := if \<exists>n \<in> set ms. \<not> gettable c (attrs i) n then kCipErrorAttributeListError
      else if ms = ns then kCipErrorSuccess else kCipErrorPartialTransfer\<rparr>)"
    using get_list_entries_reply [OF assms(4-6), of "list_header request r\<lparr>message := MoveMessageNOctets 2 InitializeENIPMessage\<rparr>" "[]" ms rest]
      assms(7,8) by (auto simp: list_header_def cip_errors)
  show ?thesis
    using put_count_append [of InitializeENIPMessage "of_nat (length ns)"] run
    by (simp add: GetAttributeList_def list_header_def assms(3) count)
qed


theorem get_attribute_list_reply_witness:
  "\<exists>r'. GetAttributeList (fst example_attributes) (\<lambda>i. snd example_attributes) 1
      (zero_request\<lparr>request_data := [3, 0, 9, 0, 4, 0, 7, 0]\<rparr>)
      InitializeMessageRouterResponse () 0 0x1234 = Some (kEipStatusOkSend, r', 0x1234)
    \<and> general_status r' = kCipErrorAttributeListError
    \<and> message r' = append_octets [3, 0, 9, 0, 0, 0, 0x34, 0x12, 4, 0, 0x2C, 0, 7, 0, 0x14, 0] InitializeENIPMessage"
proof -
  let ?c = "fst example_attributes" and ?as = "snd example_attributes"
  let ?q = "zero_request\<lparr>request_data := [3, 0, 9, 0, 4, 0, 7, 0]\<rparr>"
  have agree: "mask_agrees kGetableSingle (get_single_bit_mask ?c) (highest_attribute_number ?c) ?as"
    "9 \<le> highest_attribute_number ?c"
    using example_attributes by (auto simp: attributes_wf_def example_attribute_def variable_attribute_def)
  have marks: "marked n (get_single_bit_mask ?c) = Some (n = 1 \<or> n = 9)" if "n \<le> 9" for n
    using agree that
    by (auto simp: mask_agrees_def example_attributes(1) example_attribute_def variable_attribute_def attribute_flags)
  have get: "GetCipAttribute ?as n = (if n = 1 then Some (example_attribute 1 3) else
      if n = 9 then Some (example_attribute 9 2) else if n = 4 then Some (example_attribute 4 8) else None)" for n
    by (simp add: example_attributes(1)) (simp add: example_attribute_def variable_attribute_def)
  have le: "le16 0x1234 = [0x34, 0x12]" "le16 9 = [9, 0]" "le16 4 = [4, 0]" "le16 7 = [7, 0]" "le16 3 = [3, 0]"
    by (simp_all add: le16_def)
  have e: "list_entry ?c ?as (\<lambda>a. le16 0x1234) 9 = [9, 0, 0, 0, 0x34, 0x12]"
    "list_entry ?c ?as (\<lambda>a. le16 0x1234) 4 = [4, 0, 0x2C, 0]"
    "list_entry ?c ?as (\<lambda>a. le16 0x1234) 7 = [7, 0, 0x14, 0]"
    by (simp_all add: list_entry_def get marks le cip_errors kCipErrorAttributeNotGettable_def kCipErrorAttributeNotSupported_def)
  have len: "needed_message_space (GetCipAttribute ?as n) 0x1234 = Some 2" for n
    by (simp add: get needed_message_space_def example_attribute_def variable_attribute_def GetCipDataTypeLength_def cip_data_types)
  have enc: "GetCipAttribute ?as n = Some a \<Longrightarrow> attr_encode a = Some (\<lambda>st m. Some (append_octets (le16 st) m))" for n a
    by (auto simp: get example_attribute_def variable_attribute_def EncodeCipUint_def enc split: if_splits)
  have all: "[9, 4, 7] = answered ?c ?as (\<lambda>a. le16 0x1234) 0x1234 0 [9, 4, 7]"
    by (simp add: len e PC_OPENER_ETHERNET_BUFFER_SIZE_def)
  from get_attribute_list_reply [where ns = "[9, 4, 7]" and ms = "[9, 4, 7]" and request = ?q and rest = "[]" and c = ?c
      and attrs = "\<lambda>i. ?as" and i = 1 and st = "0x1234" and octets = "\<lambda>a. le16" and r = InitializeMessageRouterResponse
      and peer = "()" and h = 0, OF _ _ _ _ _ _ all]
  show ?thesis
    by (auto simp: le e [unfolded le(1)] len marks enc gettable_def entries_def)
qed

section \<open>Writing\<close>

text \<open>One entry of a set request that assigns, and one whose attribute does not exist.\<close>

lemma set_entry_assigns:
  assumes type: "attribute_type encode get octets width decode"
    and found: "GetCipAttribute as n = Some (variable_attribute encode decode octets load assign n t flags)"
    and "marked n (set_bit_mask c) = Some True"
    and "GetCipDataTypeLength t (Some (octets (load st))) = Some len" and "sint len + int (length bs) \<le> 477"
    and "length bs \<le> 477"
    and r: "message r = append_octets bs (MoveMessageNOctets 2 InitializeENIPMessage)"
    and q: "request_data q = le16 n @ octets v @ rest"
  shows "\<exists>q' r'. set_list_entries (Suc k) c as q r st = set_list_entries k c as q' r' (assign v st)
    \<and> request_data q' = rest \<and> reply_service r' = reply_service r \<and> general_status r' = kCipErrorSuccess
    \<and> message r' = append_octets (bs @ le16 n @ [kCipErrorSuccess, 0]) (MoveMessageNOctets 2 InitializeENIPMessage)"
proof -
  have dec: "request_data q0 = octets v @ rest \<Longrightarrow>
      decode x q0 r0 = Some (int width, v, advance rest q0, decoded r0)" for x q0 r0
    by (rule attribute_type.decode_octets [OF type])
  have fits: "\<not> sint len > remaining_message_space (message r)"
    using assms(5,6) by (simp add: r remaining_reserved)
  show ?thesis
    using fits
    by (fastforce simp: q found needed_message_space_def variable_attribute_def assms(3,4) set_list_entry_def
        entry_head_def dec enc r decoded_def advance_def)
qed

lemma set_entry_missing:
  assumes "GetCipAttribute as n = None" and "2 + int (length bs) \<le> 477"
    and r: "message r = append_octets bs (MoveMessageNOctets 2 InitializeENIPMessage)"
    and q: "request_data q = le16 n @ rest"
  shows "\<exists>q' r'. set_list_entries (Suc k) c as q r st = set_list_entries k c as q' r' st
    \<and> request_data q' = rest \<and> reply_service r' = reply_service r \<and> general_status r' = kCipErrorAttributeListError
    \<and> message r' = append_octets (bs @ le16 n @ [kCipErrorAttributeNotSupported, 0]) (MoveMessageNOctets 2 InitializeENIPMessage)"
  using assms(2) by (fastforce simp: q assms(1) needed_message_space_def set_list_entry_def entry_head_def enc r remaining_reserved)

text \<open>C17: an attribute list error is forgotten when a later entry succeeds: of two requests that set an
  existing attribute and name a missing one, both assign the value and report the missing attribute in its entry;
  but the general status is "attribute list error" only if the missing attribute comes last, because
  decoding a value sets the general status to success.\<close>

theorem set_attribute_list_hides_error:
  assumes type: "attribute_type encode get octets width decode"
    and found: "GetCipAttribute (attrs i) n = Some (variable_attribute encode decode octets load assign n t flags)"
    and settable: "marked n (set_bit_mask c) = Some True"
    and missing: "GetCipAttribute (attrs i) k = None"
    and len: "GetCipDataTypeLength t (Some (octets (load st))) = Some len" "sint len \<le> 470"
    and missing_first: "request_data request1 = le16 2 @ le16 k @ le16 n @ octets v @ rest"
    and missing_last: "request_data request2 = le16 2 @ le16 n @ octets v @ le16 k @ rest"
  shows "\<exists>r1 r2. SetAttributeList c attrs i request1 r peer1 h st = Some (kEipStatusOkSend, r1, assign v st)
    \<and> general_status r1 = kCipErrorSuccess
    \<and> message r1 = append_octets (le16 2 @ le16 k @ [kCipErrorAttributeNotSupported, 0]
        @ le16 n @ [kCipErrorSuccess, 0]) InitializeENIPMessage
    \<and> SetAttributeList c attrs i request2 r peer2 h st = Some (kEipStatusOkSend, r2, assign v st)
    \<and> general_status r2 = kCipErrorAttributeListError
    \<and> message r2 = append_octets (le16 2 @ le16 n @ [kCipErrorSuccess, 0]
        @ le16 k @ [kCipErrorAttributeNotSupported, 0]) InitializeENIPMessage"
proof -
  have pos: "current_message_position InitializeENIPMessage = 0"
    by (simp add: InitializeENIPMessage_def)
  let ?r = "\<lambda>q. (list_header q r)\<lparr>message := MoveMessageNOctets 2 InitializeENIPMessage\<rparr>"
  have start: "SetAttributeList c attrs i q r peer h st = do {
      (complete, r, st) \<leftarrow> set_list_entries 2 c (attrs i) (q\<lparr>request_data := p\<rparr>) (?r q) st;
      Some (kEipStatusOkSend, (if complete then r\<lparr>message := put_count 0 2 (message r)\<rparr> else r), st) }"
    if "request_data q = le16 2 @ p" for q p peer
    using that by (simp add: SetAttributeList_def list_header_def pos cong: if_cong)
  have close: "put_count 0 2 (append_octets bs (MoveMessageNOctets 2 InitializeENIPMessage)) = append_octets (le16 2 @ bs) InitializeENIPMessage" for bs
    using put_count_append [of InitializeENIPMessage 2 bs] by (simp add: InitializeENIPMessage_def)
  let ?v = "le16 n @ [kCipErrorSuccess, 0]" and ?e = "le16 k @ [kCipErrorAttributeNotSupported, 0]"
  obtain q1 r1 where 1: "set_list_entries 2 c (attrs i) (request1\<lparr>request_data := le16 k @ le16 n @ octets v @ rest\<rparr>) (?r request1) st
      = set_list_entries 1 c (attrs i) q1 r1 st" "request_data q1 = le16 n @ octets v @ rest"
    "message r1 = append_octets ?e (MoveMessageNOctets 2 InitializeENIPMessage)"
    using set_entry_missing [OF missing, where bs = "[]" and r = "?r request1" and c = c and st = st and k = 1
        and q = "request1\<lparr>request_data := le16 k @ le16 n @ octets v @ rest\<rparr>" and rest = "le16 n @ octets v @ rest"]
    by (auto simp: numeral_2_eq_2)
  obtain q2 r2 where 2: "set_list_entries 1 c (attrs i) q1 r1 st = set_list_entries 0 c (attrs i) q2 r2 (assign v st)"
    "general_status r2 = kCipErrorSuccess" "message r2 = append_octets (?e @ ?v) (MoveMessageNOctets 2 InitializeENIPMessage)"
    using set_entry_assigns [OF type found settable len(1) _ _ 1(3,2), where k = 0] len(2) by (auto simp: le16_def)
  obtain q3 r3 where 3: "set_list_entries 2 c (attrs i) (request2\<lparr>request_data := le16 n @ octets v @ le16 k @ rest\<rparr>) (?r request2) st
      = set_list_entries 1 c (attrs i) q3 r3 (assign v st)" "request_data q3 = le16 k @ rest"
    "message r3 = append_octets ?v (MoveMessageNOctets 2 InitializeENIPMessage)"
    using set_entry_assigns [OF type found settable len(1), where bs = "[]" and r = "?r request2" and k = 1 and v = v
        and q = "request2\<lparr>request_data := le16 n @ octets v @ le16 k @ rest\<rparr>" and rest = "le16 k @ rest"] len(2)
    by (auto simp: numeral_2_eq_2)
  obtain q4 r4 where 4: "set_list_entries 1 c (attrs i) q3 r3 (assign v st) = set_list_entries 0 c (attrs i) q4 r4 (assign v st)"
    "general_status r4 = kCipErrorAttributeListError" "message r4 = append_octets (?v @ ?e) (MoveMessageNOctets 2 InitializeENIPMessage)"
    using set_entry_missing [OF missing _ 3(3,2), where k = 0 and c = c and st = "assign v st"] by (auto simp: le16_def)
  show ?thesis
    using 1(1) [unfolded 2(1)] 3(1) [unfolded 4(1)]
    by (simp add: start [OF missing_first] start [OF missing_last] 2(2,3) 4(2,3) close)
qed

theorem set_attribute_list_hides_error_witness:
  "\<exists>r1. SetAttributeList (fst example_object) (\<lambda>i. snd example_object) 1
      (zero_request\<lparr>request_data := [2, 0, 5, 0, 9, 0, 0x34, 0x12]\<rparr>)
      InitializeMessageRouterResponse () 0 0 = Some (kEipStatusOkSend, r1, 0x1234)
    \<and> general_status r1 = kCipErrorSuccess"
proof -
  let ?c = "fst example_object" and ?as = "snd example_object"
  have found: "GetCipAttribute ?as 9 = Some (variable_attribute EncodeCipUint DecodeCipUint le16
      (\<lambda>st. st) (\<lambda>v st. v) 9 kCipUint 6)" and missing: "GetCipAttribute ?as 5 = None"
    by (simp_all add: example_object(1) example_attribute_def) (simp_all add: variable_attribute_def)
  have settable: "marked 9 (set_bit_mask ?c) = Some True"
    using marked_in_use [of kSetable "set_bit_mask ?c" "highest_attribute_number ?c" ?as "example_attribute 9 6"]
      example_object by (auto simp: attributes_wf_def example_attribute_def variable_attribute_def attribute_flags)
  have len: "GetCipDataTypeLength kCipUint (Some (le16 0)) = Some 2" "sint (2 :: size_t) \<le> 470"
    by (simp_all add: GetCipDataTypeLength_def cip_data_types)
  have q: "request_data (zero_request\<lparr>request_data := [2, 0, 5, 0, 9, 0, 0x34, 0x12]\<rparr>)
      = le16 2 @ le16 5 @ le16 9 @ le16 0x1234 @ []"
    by (simp add: le16_def)
  from set_attribute_list_hides_error [OF cip_uint.attribute_type_axioms, where c = ?c and attrs = "\<lambda>i. ?as"
      and i = 1 and st = 0 and r = InitializeMessageRouterResponse and ?peer1.0 = "()" and ?peer2.0 = "()" and h = 0
      and ?request2.0 = "zero_request\<lparr>request_data := le16 2 @ le16 9 @ le16 0x1234 @ le16 5 @ []\<rparr>",
      OF found settable missing len q]
  show ?thesis
    by auto
qed

end
