(* ===== verification/Object_Table.thy ===== *)
theory Object_Table
  imports Cip_Object Cip_Class "HOL-Library.AList"
begin

text \<open>
  A class as \<^verbatim>\<open>CreateCipClass\<close> (\<^verbatim>\<open>cip/cipcommon.c\<close>) builds it: its attribute arrays, masks, callbacks and
  service arrays, for the class object and for the instances, and what the message router sees of it.

  A table stays as it is once the stack is set up; what changes while it runs (counts, chains of instances and
  the variables behind the attributes) is in the state.  A service array names the common services, which
  read the table of the object they are called for.
\<close>

section \<open>Tables\<close>

datatype 'addr service_ref =
  Service_GetAttributeSingle | Service_GetAttributeAll | Service_SetAttributeSingle
| Service_GetAttributeList | Service_SetAttributeList | Service_Reset
| Service_function "('addr, stack) service_fn"

record 'addr object_table =
  table_code :: u32
  class_side :: "stack object_class"
  instance_side :: "stack object_class"
  class_attributes :: "stack CipAttributeStruct list"
  number_of_attributes :: nat
  instance_attributes :: "(u16 \<times> stack CipAttributeStruct list) list"
  class_service_slots :: "'addr service_ref CipServiceStruct list"
  instance_service_slots :: "'addr service_ref CipServiceStruct list"
  callbacks :: class_callbacks

definition new_object_class :: "u16 \<Rightarrow> stack object_class" where
  "new_object_class highest = AllocateAttributeMasks \<lparr>highest_attribute_number = highest,
     get_single_bit_mask = [], set_bit_mask = [], get_all_bit_mask = [], PreGetCallback = None,
     PostGetCallback = None, PreSetCallback = None, PostSetCallback = None\<rparr>"

definition unused_service :: "'f CipServiceStruct" where
  "unused_service = \<lparr>service_number = 0, service_function = None\<rparr>"

text \<open>The attributes of an object: number 0 is the class object.\<close>

definition attributes_of :: "'addr object_table \<Rightarrow> u16 \<Rightarrow> stack CipAttributeStruct list" where
  "attributes_of t i = (if i = 0 then class_attributes t
     else case map_of (instance_attributes t) i of
         None \<Rightarrow> replicate (number_of_attributes t) unused_attribute
       | Some as \<Rightarrow> as)"

definition side_of :: "'addr object_table \<Rightarrow> u16 \<Rightarrow> stack object_class" where
  "side_of t i = (if i = 0 then class_side t else instance_side t)"

definition insert_attribute :: "u16 \<Rightarrow> stack CipAttributeStruct \<Rightarrow> 'addr object_table \<Rightarrow> 'addr object_table option" where
  "insert_attribute i a t =
     (if i = 0
      then do {
        (c, as) \<leftarrow> InsertAttribute a (class_side t, class_attributes t);
        Some (t\<lparr>class_side := c, class_attributes := as\<rparr>) }
      else do {
        as \<leftarrow> map_of (instance_attributes t) i;
        (c, as) \<leftarrow> InsertAttribute a (instance_side t, as);
        Some (t\<lparr>instance_side := c, instance_attributes := AList.update i as (instance_attributes t)\<rparr>) })"

fun insert_attributes :: "u16 \<Rightarrow> stack CipAttributeStruct list \<Rightarrow> 'addr object_table \<Rightarrow> 'addr object_table option" where
  "insert_attributes i [] t = Some t"
| "insert_attributes i (a # as) t = do { t \<leftarrow> insert_attribute i a t; insert_attributes i as t }"

definition insert_service :: "u8 \<Rightarrow> 'addr service_ref \<Rightarrow> 'addr object_table \<Rightarrow> 'addr object_table option" where
  "insert_service n f t = do {
     ss \<leftarrow> InsertService n f (instance_service_slots t);
     Some (t\<lparr>instance_service_slots := ss\<rparr>) }"

definition insert_class_service :: "u8 \<Rightarrow> 'addr service_ref \<Rightarrow> 'addr object_table \<Rightarrow> 'addr object_table option" where
  "insert_class_service n f t = do {
     ss \<leftarrow> InsertService n f (class_service_slots t);
     Some (t\<lparr>class_service_slots := ss\<rparr>) }"

fun insert_services :: "(u8 \<times> 'addr service_ref) list \<Rightarrow> 'addr object_table \<Rightarrow> 'addr object_table option" where
  "insert_services [] t = Some t"
| "insert_services ((n, f) # fs) t = do { t \<leftarrow> insert_service n f t; insert_services fs t }"

section \<open>Attributes of the class object\<close>

definition kGetAttributeAll :: u8 where "kGetAttributeAll = 0x01"
definition kGetAttributeList :: u8 where "kGetAttributeList = 0x03"
definition kSetAttributeList :: u8 where "kSetAttributeList = 0x04"
definition kReset :: u8 where "kReset = 0x05"
definition kGetAttributeSingle :: u8 where "kGetAttributeSingle = 0x0E"
definition kSetAttributeSingle :: u8 where "kSetAttributeSingle = 0x10"

text \<open>An attribute whose data pointer is a 16-bit field of the class structure, and one whose pointer is a
  number that does not change.\<close>

definition class_attribute :: "u32 \<Rightarrow> (CipClassData \<Rightarrow> u16) \<Rightarrow> u16 \<Rightarrow> u8 \<Rightarrow> stack CipAttributeStruct" where
  "class_attribute code field n flags = \<lparr>attr_number = n, attr_type = kCipUint,
     attr_encode = Some (\<lambda>s m. do { d \<leftarrow> class_data code s; Some (EncodeCipUint (field d) m) }),
     attr_decode = None, attr_flags = flags,
     attr_data = Some (\<lambda>s. case class_data code s of None \<Rightarrow> [] | Some d \<Rightarrow> le16 (field d))\<rparr>"

definition fixed_attribute :: "u16 \<Rightarrow> u16 \<Rightarrow> u8 \<Rightarrow> stack CipAttributeStruct" where
  "fixed_attribute v n flags = \<lparr>attr_number = n, attr_type = kCipUint,
     attr_encode = Some (\<lambda>s m. Some (EncodeCipUint v m)), attr_decode = None, attr_flags = flags,
     attr_data = Some (\<lambda>s. le16 v)\<rparr>"

definition default_class_attributes :: "u32 \<Rightarrow> u16 \<Rightarrow> u16 \<Rightarrow> stack CipAttributeStruct list" where
  "default_class_attributes code highest_class highest_instance =
     [class_attribute code class_revision 1 kGetableSingleAndAll,
      class_attribute code max_instance 2 kGetableSingleAndAll,
      class_attribute code CipClassData.number_of_instances 3 kGetableSingleAndAll,
      fixed_attribute 0 4 kGetableAllDummy,
      fixed_attribute 0 5 kNotSetOrGetable,
      fixed_attribute highest_class 6 kGetableSingle,
      fixed_attribute highest_instance 7 kGetableSingle]"

definition default_class :: "nat \<Rightarrow> 'addr object_table \<Rightarrow> 'addr object_table option" where
  "default_class number_of_class_services t = do {
     t \<leftarrow> insert_attributes 0 (default_class_attributes (table_code t)
            (highest_attribute_number (class_side t)) (highest_attribute_number (instance_side t))) t;
     if number_of_class_services > 0
     then do {
       t \<leftarrow> (if number_of_class_services > 1
             then insert_class_service kGetAttributeAll Service_GetAttributeAll t else Some t);
       insert_class_service kGetAttributeSingle Service_GetAttributeSingle t }
     else Some t }"

section \<open>Creating a class\<close>

definition empty_table :: "u32 \<Rightarrow> class_size \<Rightarrow> u16 list \<Rightarrow> 'addr object_table" where
  "empty_table code z ns = \<lparr>table_code = code,
     class_side = new_object_class (size_highest_class_attribute z),
     instance_side = new_object_class (size_highest_instance_attribute z),
     class_attributes = replicate (size_class_attributes z + 7) unused_attribute,
     number_of_attributes = size_instance_attributes z,
     instance_attributes = map (\<lambda>n. (n, replicate (size_instance_attributes z) unused_attribute)) ns,
     class_service_slots = replicate (size_class_services z) unused_service,
     instance_service_slots = replicate (size_instance_services z) unused_service,
     callbacks = no_callbacks\<rparr>"

text \<open>The result without a table is the null pointer; the metaclass is the class side of the table.  \<open>None\<close> for
  the initializer is the null pointer, which stands for the default attributes and services.\<close>

definition CreateCipClass :: "(size_t \<Rightarrow> bool) \<Rightarrow> u32 \<Rightarrow> class_size \<Rightarrow> u16 \<Rightarrow> string \<Rightarrow> u16
    \<Rightarrow> ('addr object_table \<Rightarrow> 'addr object_table option) option \<Rightarrow> stack
    \<Rightarrow> ('addr object_table option \<times> stack) option" where
  "CreateCipClass allocates code z n name revision initializer s = do {
     (status, s) \<leftarrow> register_class allocates code z n name revision s;
     if status = kEipStatusError then Some (None, s)
     else do {
       ns \<leftarrow> class_instances code s;
       t \<leftarrow> (case initializer of
              None \<Rightarrow> default_class (size_class_services z) (empty_table code z ns)
            | Some f \<Rightarrow> f (empty_table code z ns));
       Some (Some t, s) } }"

text \<open>The functions that create the objects of the stack answer the null pointer with \<^verbatim>\<open>kEipStatusError\<close> or use it,
  and \<^verbatim>\<open>CipStackInit\<close> stops in its assertion on their status.\<close>

definition created :: "('addr object_table option \<times> stack) option \<Rightarrow> ('addr object_table \<times> stack) option" where
  "created x = do { (t, s) \<leftarrow> x; t \<leftarrow> t; Some (t, s) }"

text \<open>A further instance of the class gets an attribute array of its own.\<close>

definition add_table_instance :: "u16 \<Rightarrow> 'addr object_table \<Rightarrow> 'addr object_table" where
  "add_table_instance i t =
     (if i = 0 \<or> map_of (instance_attributes t) i \<noteq> None then t
      else t\<lparr>instance_attributes := instance_attributes t
             @ [(i, replicate (number_of_attributes t) unused_attribute)]\<rparr>)"

section \<open>The class for the message router\<close>

definition run_service :: "'addr object_table \<Rightarrow> 'addr service_ref \<Rightarrow> ('addr, stack) service_fn" where
  "run_service t f i =
     (case f of
        Service_GetAttributeSingle \<Rightarrow> GetAttributeSingle (side_of t i) (attributes_of t) i
      | Service_GetAttributeAll \<Rightarrow> GetAttributeAll (side_of t i) (attributes_of t) i
      | Service_SetAttributeSingle \<Rightarrow> SetAttributeSingle (side_of t i) (attributes_of t) i
      | Service_GetAttributeList \<Rightarrow> GetAttributeList (side_of t i) (attributes_of t) i
      | Service_SetAttributeList \<Rightarrow> SetAttributeList (side_of t i) (attributes_of t) i
      | Service_Reset \<Rightarrow> CipResetService (callbacks t) i
      | Service_function g \<Rightarrow> g i)"

definition bind_services :: "'addr object_table \<Rightarrow> 'addr service_ref CipServiceStruct list
    \<Rightarrow> ('addr, stack) service_fn CipServiceStruct list" where
  "bind_services t = map (\<lambda>x. \<lparr>service_number = service_number x,
     service_function = map_option (run_service t) (service_function x)\<rparr>)"

definition router_class :: "stack \<Rightarrow> 'addr object_table \<Rightarrow> ('addr, stack) CipClass" where
  "router_class s t = \<lparr>class_code = table_code t,
     instances = (case class_instances (table_code t) s of None \<Rightarrow> [] | Some ns \<Rightarrow> ns),
     services = bind_services t (instance_service_slots t),
     meta_class_services = bind_services t (class_service_slots t)\<rparr>"

section \<open>Well-formed tables\<close>

definition table_wf :: "'addr object_table \<Rightarrow> bool" where
  "table_wf t \<longleftrightarrow> attributes_wf (class_side t) (class_attributes t)
     \<and> (\<forall>x \<in> set (instance_attributes t). attributes_wf (instance_side t) (snd x))"

text \<open>The masks belong to the class, so an insertion into one of several instances changes them for the
  others; with at most one instance the masks stay in step.\<close>

definition single_wf :: "'addr object_table \<Rightarrow> bool" where
  "single_wf t \<longleftrightarrow> table_wf t \<and> length (instance_attributes t) \<le> 1"

lemma empty_table_wf: "length ns \<le> 1 \<Longrightarrow> single_wf (empty_table code z ns)"
  using insert_wf(1) by (auto simp: single_wf_def table_wf_def empty_table_def new_object_class_def)

lemma InsertAttribute_wf:
  "InsertAttribute a (c, as) = Some (d, bs) \<Longrightarrow> attributes_wf c as \<Longrightarrow> attributes_wf d bs"
  using insert_wf(2) [of c as a] by simp

lemma insert_attribute_wf_table:
  assumes "insert_attribute i a t = Some t'" and "single_wf t"
  shows "single_wf t'"
proof (cases "i = 0")
  case True
  obtain c as where ins: "InsertAttribute a (class_side t, class_attributes t) = Some (c, as)"
    and t': "t' = t\<lparr>class_side := c, class_attributes := as\<rparr>"
    using assms(1) True by (auto simp: insert_attribute_def bind_Some_iff)
  show ?thesis
    using InsertAttribute_wf [OF ins] assms(2) by (simp add: t' single_wf_def table_wf_def)
next
  case False
  then obtain as where as: "instance_attributes t = [(i, as)]"
    using assms by (cases "instance_attributes t") (auto simp: single_wf_def insert_attribute_def bind_Some_iff split: if_splits)
  obtain c bs where ins: "InsertAttribute a (instance_side t, as) = Some (c, bs)"
    and t': "t' = t\<lparr>instance_side := c, instance_attributes := [(i, bs)]\<rparr>"
    using assms(1) False by (auto simp: insert_attribute_def as bind_Some_iff)
  show ?thesis
    using InsertAttribute_wf [OF ins] assms(2) by (simp add: t' as single_wf_def table_wf_def)
qed

lemma insert_attributes_wf: "insert_attributes i as t = Some t' \<Longrightarrow> single_wf t \<Longrightarrow> single_wf t'"
proof (induction as arbitrary: t)
  case (Cons a as)
  then obtain u where u: "insert_attribute i a t = Some u" "insert_attributes i as u = Some t'"
    by (auto simp: bind_Some_iff)
  show ?case
    using Cons.IH [OF u(2)] insert_attribute_wf_table [OF u(1)] Cons.prems(2) by blast
qed simp

lemma insert_service_wf:
  "insert_service n f t = Some t' \<Longrightarrow> single_wf t \<Longrightarrow> single_wf t'"
  "insert_class_service n f t = Some t' \<Longrightarrow> single_wf t \<Longrightarrow> single_wf t'"
  by (clarsimp simp: insert_service_def insert_class_service_def bind_Some_iff single_wf_def, simp add: table_wf_def)+

lemma insert_services_wf: "insert_services fs t = Some t' \<Longrightarrow> single_wf t \<Longrightarrow> single_wf t'"
proof (induction fs arbitrary: t)
  case (Cons f fs)
  then obtain n g u where u: "insert_service n g t = Some u" "insert_services fs u = Some t'"
    by (cases f) (auto simp: bind_Some_iff)
  show ?case
    using Cons.IH [OF u(2)] insert_service_wf(1) [OF u(1)] Cons.prems(2) by blast
qed simp

lemma default_class_wf:
  assumes "default_class n t = Some t'" and "single_wf t"
  shows "single_wf t'"
proof -
  obtain u where u: "insert_attributes 0 (default_class_attributes (table_code t)
      (highest_attribute_number (class_side t)) (highest_attribute_number (instance_side t))) t = Some u"
    using assms(1) by (auto simp: default_class_def bind_Some_iff)
  have wf: "single_wf u"
    using insert_attributes_wf [OF u assms(2)] .
  have rest: "(if n > 0 then do {
       t \<leftarrow> (if n > 1 then insert_class_service kGetAttributeAll Service_GetAttributeAll u else Some u);
       insert_class_service kGetAttributeSingle Service_GetAttributeSingle t } else Some u) = Some t'"
    using assms(1) by (simp add: default_class_def u)
  show ?thesis
  proof (cases "n > 0")
    case True
    then obtain v where v: "(if n > 1 then insert_class_service kGetAttributeAll Service_GetAttributeAll u else Some u) = Some v"
      "insert_class_service kGetAttributeSingle Service_GetAttributeSingle v = Some t'"
      using rest by (auto simp: bind_Some_iff)
    have "single_wf v"
      using v(1) wf insert_service_wf(2) by (metis option.inject)
    then show ?thesis
      using insert_service_wf(2) [OF v(2)] by blast
  qed (use rest wf in simp)
qed

end
