(* ===== verification/Tcpip.thy ===== *)
theory Tcpip
  imports Object_Table
begin

text \<open>
  The TCP/IP interface object (\<^verbatim>\<open>cip/ciptcpipinterface.c\<close>): the checks of host names and of
  network configurations, the functions that encode and decode its attributes, the multicast address and
  the attribute table.

  Addresses are in network byte order; \<open>e\<close> is the byte order of the platform.  A C string is the octets that
  its pointer gives access to: a check that runs off their end is \<open>None\<close>.  The functions that the build
  leaves out unless \<^verbatim>\<open>OPENER_TCPIP_IFACE_CFG_SETTABLE\<close> is set are modelled too; the table has the
  parameter \<open>settable\<close>.
\<close>

section \<open>Names\<close>

definition isalnum_c :: "u8 \<Rightarrow> bool" where
  "isalnum_c b \<longleftrightarrow> (0x61 \<le> b \<and> b \<le> 0x7A) \<or> (0x41 \<le> b \<and> b \<le> 0x5A) \<or> (0x30 \<le> b \<and> b \<le> 0x39)"

text \<open>The loop over the octets of a label; \<open>before\<close> is the octet in front of the pointer.\<close>

fun label_tail :: "u8 \<Rightarrow> buf \<Rightarrow> bool option" where
  "label_tail before [] = None"
| "label_tail before (b # bs) =
     (if b \<noteq> 0 \<and> (isalnum_c b \<or> b = 0x2D) then label_tail b bs else Some (b = 0 \<and> before \<noteq> 0x2D))"

definition IsValidNameLabel :: "buf \<Rightarrow> bool option" where
  "IsValidNameLabel p =
     (case p of [] \<Rightarrow> None | b # bs \<Rightarrow> if \<not> isalnum_c b then Some False else label_tail b bs)"

text \<open>\<^verbatim>\<open>strchr\<close>: the place of the first occurrence of \<open>c\<close> in a C string.\<close>

fun strchr :: "u8 \<Rightarrow> buf \<Rightarrow> nat option option" where
  "strchr c [] = None"
| "strchr c (b # bs) = (if b = c then Some (Some 0) else if b = 0 then Some None
     else do { k \<leftarrow> strchr c bs; Some (map_option Suc k) })"

lemma drop_shorter: "drop k xs = y # ys \<Longrightarrow> length ys < length xs"
  by (metis length_drop length_Cons diff_le_self Suc_le_lessD)

text \<open>While a label is checked, the dot behind it is overwritten with a zero.\<close>

function IsValidDomain :: "buf \<Rightarrow> bool option" where
  "IsValidDomain p =
     (case p of
        [] \<Rightarrow> None
      | b # _ \<Rightarrow>
          if b = 0x2E then Some False
          else (case strchr 0x2E p of
              None \<Rightarrow> None
            | Some None \<Rightarrow> IsValidNameLabel p
            | Some (Some k) \<Rightarrow> (case IsValidNameLabel (take k p @ [0] @ drop (Suc k) p) of
                  None \<Rightarrow> None
                | Some rc \<Rightarrow> (case drop (Suc k) p of
                      [] \<Rightarrow> None
                    | c # _ \<Rightarrow> if c \<noteq> 0 then map_option (\<lambda>r. rc \<and> r) (IsValidDomain (drop (Suc k) p))
                        else Some False))))"
  by pat_completeness auto
termination
  by (relation "measure length") (auto dest: drop_shorter)

declare IsValidDomain.simps [simp del]

section \<open>Network configurations\<close>

definition swap32 :: "u32 \<Rightarrow> u32" where
  "swap32 w = push_bit 24 (w AND 0xFF) OR push_bit 8 (w AND 0xFF00) OR
     (drop_bit 8 w AND 0xFF00) OR (drop_bit 24 w AND 0xFF)"

definition ntohl :: "OpenerEndianess \<Rightarrow> u32 \<Rightarrow> u32" where
  "ntohl e w = (if e = kOpENerEndianessLittle then swap32 w else w)"

abbreviation htonl :: "OpenerEndianess \<Rightarrow> u32 \<Rightarrow> u32" where
  "htonl \<equiv> ntohl"

definition IsValidNetmask :: "OpenerEndianess \<Rightarrow> u32 \<Rightarrow> bool" where
  "IsValidNetmask e netmask =
     (let v = NOT (ntohl e netmask) + 1
      in v \<noteq> 0 \<and> v AND (v - 1) = 0 \<and> 0xFFFFFFFF \<noteq> netmask)"

definition IsInClassAbc :: "OpenerEndianess \<Rightarrow> u32 \<Rightarrow> bool" where
  "IsInClassAbc e ip_addr =
     (let ip = ntohl e ip_addr
      in ip AND 0x80000000 = 0 \<or> ip AND 0xC0000000 = 0x80000000 \<or> ip AND 0xE0000000 = 0xC0000000)"

definition IsOnLoopbackNetwork :: "OpenerEndianess \<Rightarrow> u32 \<Rightarrow> bool" where
  "IsOnLoopbackNetwork e ip_addr \<longleftrightarrow> ntohl e ip_addr AND 0xFF000000 = 0x7F000001 AND 0xFF000000"

definition IsNetworkOrBroadcastIp :: "u32 \<Rightarrow> u32 \<Rightarrow> bool" where
  "IsNetworkOrBroadcastIp ip_addr net_mask \<longleftrightarrow>
     ip_addr AND net_mask = ip_addr \<or> ip_addr OR NOT net_mask = ip_addr"

definition IsValidNetworkConfig :: "OpenerEndianess \<Rightarrow> CipTcpIpInterfaceConfiguration \<Rightarrow> bool" where
  "IsValidNetworkConfig e if_cfg =
     (if 0 = ntohl e (interface_ip_address if_cfg) then False
      else if 0 \<noteq> ntohl e (interface_network_mask if_cfg) \<and> \<not> IsValidNetmask e (interface_network_mask if_cfg)
      then False
      else if \<not> IsInClassAbc e (interface_ip_address if_cfg) \<or> \<not> IsInClassAbc e (interface_gateway if_cfg)
        \<or> \<not> IsInClassAbc e (name_server if_cfg) \<or> \<not> IsInClassAbc e (name_server_2 if_cfg)
      then False
      else if IsOnLoopbackNetwork e (interface_ip_address if_cfg) \<or> IsOnLoopbackNetwork e (interface_gateway if_cfg)
      then False
      else if IsNetworkOrBroadcastIp (interface_ip_address if_cfg) (interface_network_mask if_cfg)
        \<or> 0 \<noteq> ntohl e (interface_gateway if_cfg)
          \<and> IsNetworkOrBroadcastIp (interface_gateway if_cfg) (interface_network_mask if_cfg)
      then False
      else if 0 \<noteq> ntohl e (interface_gateway if_cfg) \<and> 0 \<noteq> ntohl e (interface_network_mask if_cfg)
        \<and> interface_network_mask if_cfg AND interface_ip_address if_cfg
          \<noteq> interface_network_mask if_cfg AND interface_gateway if_cfg
      then False
      else True)"

definition IsIOConnectionActive :: "stack \<Rightarrow> bool" where
  "IsIOConnectionActive s = (find_connection (\<lambda>x. ConnectionObjectIsTypeIOConnection x
     \<and> kConnectionObjectStateTimedOut \<noteq> ConnectionObjectGetState x) (conn s) (connection_list s) \<noteq> None)"

section \<open>Encoding\<close>

definition EncodeCipTcpIpInterfaceConfiguration ::
    "OpenerEndianess \<Rightarrow> CipTcpIpInterfaceConfiguration \<Rightarrow> ENIPMessage \<Rightarrow> ENIPMessage option" where
  "EncodeCipTcpIpInterfaceConfiguration e x m =
     EncodeCipString (domain_name x)
       (AddDintToMessage (ntohl e (name_server_2 x))
         (AddDintToMessage (ntohl e (name_server x))
           (AddDintToMessage (ntohl e (interface_gateway x))
             (AddDintToMessage (ntohl e (interface_network_mask x))
               (AddDintToMessage (ntohl e (interface_ip_address x)) m)))))"

definition EncodeCipTcpIpMulticastConfiguration ::
    "OpenerEndianess \<Rightarrow> MulticastAddressConfiguration \<Rightarrow> ENIPMessage \<Rightarrow> ENIPMessage" where
  "EncodeCipTcpIpMulticastConfiguration e x m =
     EncodeCipUdint (ntohl e (starting_multicast_address x))
       (EncodeCipUint (number_of_allocated_multicast_addresses x)
         (EncodeCipUsint (reserved_shall_be_zero x) (EncodeCipUsint (alloc_control x) m)))"

definition EncodeSafetyNetworkNumber :: "ENIPMessage \<Rightarrow> ENIPMessage" where
  "EncodeSafetyNetworkNumber m = FillNextNMessageOctetsWithValueAndMoveToNextPosition 0 6 m"

definition EncodeCipLastConflictDetected :: "ENIPMessage \<Rightarrow> ENIPMessage" where
  "EncodeCipLastConflictDetected m = FillNextNMessageOctetsWithValueAndMoveToNextPosition 0 35 m"

section \<open>Decoding\<close>

definition kTcpipStatusIfaceCfgPend :: u32 where "kTcpipStatusIfaceCfgPend = 0x20"
definition kTcpipCfgCtrlStaticIp :: u32 where "kTcpipCfgCtrlStaticIp = 0x00"
definition kTcpipCfgCtrlMethodMask :: u32 where "kTcpipCfgCtrlMethodMask = 0x0F"
definition kTcpipCfgCtrlDnsEnable :: u32 where "kTcpipCfgCtrlDnsEnable = 0x10"

definition set_tcpip :: "(CipTcpIpObject \<Rightarrow> CipTcpIpObject) \<Rightarrow> stack \<Rightarrow> stack" where
  "set_tcpip f s = s\<lparr>g_tcpip := f (g_tcpip s)\<rparr>"

type_synonym attribute_decoder =
  "CipMessageRouterRequest \<Rightarrow> CipMessageRouterResponse \<Rightarrow> stack
   \<Rightarrow> (int \<times> CipMessageRouterRequest \<times> CipMessageRouterResponse \<times> stack) option"

text \<open>The decode functions end with a status and the number of octets, or -1.\<close>

definition refused :: "u8 \<Rightarrow> CipMessageRouterRequest \<Rightarrow> CipMessageRouterResponse \<Rightarrow> stack
    \<Rightarrow> (int \<times> CipMessageRouterRequest \<times> CipMessageRouterResponse \<times> stack) option" where
  "refused status request r s = Some (-1, request, r\<lparr>general_status := status\<rparr>, s)"

definition DecodeTcpIpInterfaceConfigurationControl :: attribute_decoder where
  "DecodeTcpIpInterfaceConfigurationControl request r s = do {
     (control, p) \<leftarrow> GetDintFromMessage (request_data request);
     let request = request\<lparr>request_data := p\<rparr>;
     if control AND kTcpipCfgCtrlMethodMask \<ge> 3 \<or> control AND NOT kTcpipCfgCtrlMethodMask \<noteq> 0
     then refused kCipErrorInvalidAttributeValue request r s
     else Some (4, request, r\<lparr>general_status := kCipErrorSuccess\<rparr>,
       set_tcpip (\<lambda>t. t\<lparr>config_control :=
         control AND (kTcpipCfgCtrlMethodMask OR kTcpipCfgCtrlDnsEnable)\<rparr>) s) }"

text \<open>The five addresses and the length of the domain name.\<close>

definition read_interface_configuration ::
    "OpenerEndianess \<Rightarrow> buf \<Rightarrow> (CipTcpIpInterfaceConfiguration \<times> u16 \<times> buf) option" where
  "read_interface_configuration e p = do {
     (ip, p) \<leftarrow> GetUdintFromMessage p;
     (net_mask, p) \<leftarrow> GetUdintFromMessage p;
     (gateway, p) \<leftarrow> GetUdintFromMessage p;
     (server, p) \<leftarrow> GetUdintFromMessage p;
     (server2, p) \<leftarrow> GetUdintFromMessage p;
     (len, p) \<leftarrow> GetUintFromMessage p;
     Some (\<lparr>interface_ip_address = htonl e ip, interface_network_mask = htonl e net_mask,
       interface_gateway = htonl e gateway, name_server = htonl e server, name_server_2 = htonl e server2,
       domain_name = \<lparr>string_length = 0, string_octets = None\<rparr>\<rparr>, len, p) }"

text \<open>The octets behind the pointer of a string.\<close>

definition string_block :: "CipString \<Rightarrow> buf" where
  "string_block x = (case string_octets x of None \<Rightarrow> [] | Some bs \<Rightarrow> bs)"

definition kCipErrorObjectStateConflict :: u8 where "kCipErrorObjectStateConflict = 0x0C"
definition kCipErrorDeviceStateConflict :: u8 where "kCipErrorDeviceStateConflict = 0x10"

definition DecodeCipTcpIpInterfaceConfiguration :: "(size_t \<Rightarrow> bool) \<Rightarrow> OpenerEndianess \<Rightarrow> attribute_decoder" where
  "DecodeCipTcpIpInterfaceConfiguration allocates e request r s =
     (if IsIOConnectionActive s then refused kCipErrorDeviceStateConflict request r s
      else if kTcpipCfgCtrlStaticIp \<noteq> config_control (g_tcpip s) AND kTcpipCfgCtrlMethodMask
      then refused kCipErrorObjectStateConflict request r s
      else do {
        (if_cfg, len, p) \<leftarrow> read_interface_configuration e (request_data request);
        let request = request\<lparr>request_data := p\<rparr>;
        if len > 48 then refused kCipErrorTooMuchData request r s
        else do {
          (_, name) \<leftarrow> SetCipStringByData allocates (domain_name if_cfg) len p;
          let if_cfg = if_cfg\<lparr>domain_name := name\<rparr>;
          let len = (len + 1) AND NOT 1;
          valid \<leftarrow> (if \<not> IsValidNetworkConfig e if_cfg then Some False
            else if len > 0 then IsValidDomain (string_block name) else Some True);
          if \<not> valid then refused kCipErrorInvalidAttributeValue request r s
          else Some (20 + uint len, request, r\<lparr>general_status := kCipErrorSuccess\<rparr>,
            set_tcpip (\<lambda>t. t\<lparr>interface_configuration := if_cfg,
              tcpip_status := tcpip_status t OR kTcpipStatusIfaceCfgPend\<rparr>) s) } })"

text \<open>A host name that is accepted does not set the number of octets.\<close>

definition DecodeCipTcpIpInterfaceHostName :: "(size_t \<Rightarrow> bool) \<Rightarrow> attribute_decoder" where
  "DecodeCipTcpIpInterfaceHostName allocates request r s = do {
     (len, p) \<leftarrow> GetUintFromMessage (request_data request);
     let request = request\<lparr>request_data := p\<rparr>;
     if len > 64 then refused kCipErrorTooMuchData request r s
     else do {
       (_, name) \<leftarrow> SetCipStringByData allocates \<lparr>string_length = 0, string_octets = None\<rparr> len p;
       valid \<leftarrow> IsValidNameLabel (string_block name);
       if \<not> valid then refused kCipErrorInvalidAttributeValue request r s
       else Some (-1, request, r\<lparr>general_status := kCipErrorSuccess\<rparr>,
         set_tcpip (\<lambda>t. t\<lparr>hostname := name,
           tcpip_status := tcpip_status t OR kTcpipStatusIfaceCfgPend\<rparr>) s) } }"

definition DecodeCipTcpIpInterfaceEncapsulationInactivityTimeout :: attribute_decoder where
  "DecodeCipTcpIpInterfaceEncapsulationInactivityTimeout request r s = do {
     (timeout, p) \<leftarrow> GetUintFromMessage (request_data request);
     let request = request\<lparr>request_data := p\<rparr>;
     if timeout > 3600 then refused kCipErrorInvalidAttributeValue request r s
     else Some (2, request, r\<lparr>general_status := kCipErrorSuccess\<rparr>,
       set_tcpip (\<lambda>t. t\<lparr>encapsulation_inactivity_timeout := timeout\<rparr>) s) }"

section \<open>The rest of the interface\<close>

definition CipTcpIpCalculateMulticastIp :: "OpenerEndianess \<Rightarrow> CipTcpIpObject \<Rightarrow> CipTcpIpObject" where
  "CipTcpIpCalculateMulticastIp e tcpip =
     (let host_id = ntohl e (interface_ip_address (interface_configuration tcpip))
            AND NOT (ntohl e (interface_network_mask (interface_configuration tcpip)));
          host_id = (host_id - 1) AND 0x3FF
      in tcpip\<lparr>mcast_config := (mcast_config tcpip)
           \<lparr>starting_multicast_address := htonl e (0xEFC00100 + push_bit 5 host_id)\<rparr>\<rparr>)"

definition ShutdownTcpIpInterface :: "stack \<Rightarrow> stack" where
  "ShutdownTcpIpInterface = set_tcpip (\<lambda>t.
     let c = interface_configuration t
     in t\<lparr>hostname := (hostname t)\<lparr>string_octets := None\<rparr>,
          interface_configuration := c\<lparr>domain_name := (domain_name c)\<lparr>string_octets := None\<rparr>\<rparr>\<rparr>)"

text \<open>The first two octets behind the data pointer of attribute 13.\<close>

definition GetEncapsulationInactivityTimeout :: "'addr object_table \<Rightarrow> u16 \<Rightarrow> stack \<Rightarrow> u16 option" where
  "GetEncapsulationInactivityTimeout t i s = do {
     a \<leftarrow> GetCipAttribute (attributes_of t i) 13;
     d \<leftarrow> attr_data a;
     (v, _) \<leftarrow> GetUintFromMessage (d s);
     Some v }"

section \<open>The attribute table\<close>

text \<open>An attribute of the state: its encode function on the state and the octets behind its pointer, as far
  as \<^verbatim>\<open>GetCipDataTypeLength\<close> reads them.\<close>

definition state_attribute :: "u16 \<Rightarrow> u8 \<Rightarrow> (stack \<Rightarrow> ENIPMessage \<Rightarrow> ENIPMessage option)
    \<Rightarrow> attribute_decoder option \<Rightarrow> (stack \<Rightarrow> buf) \<Rightarrow> u8 \<Rightarrow> stack CipAttributeStruct" where
  "state_attribute n t encode decode octets flags = \<lparr>attr_number = n, attr_type = t,
     attr_encode = Some encode, attr_decode = decode, attr_flags = flags, attr_data = Some octets\<rparr>"

definition kCipAny :: u8 where "kCipAny = 0x00"

definition IFACE_CFG_SET_MODE :: "bool \<Rightarrow> u8" where
  "IFACE_CFG_SET_MODE settable = (if settable then kSetable else kNotSetOrGetable)"

definition tcpip_attributes :: "bool \<Rightarrow> (size_t \<Rightarrow> bool) \<Rightarrow> OpenerEndianess \<Rightarrow> stack CipAttributeStruct list" where
  "tcpip_attributes settable allocates e =
     [state_attribute 1 kCipDword (\<lambda>s m. Some (EncodeCipDword (tcpip_status (g_tcpip s)) m)) None
        (\<lambda>s. le32 (tcpip_status (g_tcpip s))) kGetableSingleAndAll,
      state_attribute 2 kCipDword (\<lambda>s m. Some (EncodeCipDword (config_capability (g_tcpip s)) m)) None
        (\<lambda>s. le32 (config_capability (g_tcpip s))) kGetableSingleAndAll,
      state_attribute 3 kCipDword (\<lambda>s m. Some (EncodeCipDword (config_control (g_tcpip s)) m))
        (Some DecodeTcpIpInterfaceConfigurationControl)
        (\<lambda>s. le32 (config_control (g_tcpip s))) (kSetAndGetAble OR kNvDataFunc OR IFACE_CFG_SET_MODE settable),
      state_attribute 4 kCipEpath (\<lambda>s m. EncodeCipEPath (physical_link_object (g_tcpip s)) m) None
        (\<lambda>s. let p = physical_link_object (g_tcpip s)
             in [path_size p, 0] @ le16 (class_id p) @ le16 (instance_number p) @ le16 (attribute_number p))
        kGetableSingleAndAll,
      state_attribute 5 kCipUdintUdintUdintUdintUdintString
        (\<lambda>s m. EncodeCipTcpIpInterfaceConfiguration e (interface_configuration (g_tcpip s)) m)
        (if settable then Some (DecodeCipTcpIpInterfaceConfiguration allocates e) else None)
        (\<lambda>s. []) (kGetableSingleAndAll OR kNvDataFunc OR IFACE_CFG_SET_MODE settable),
      state_attribute 6 kCipString (\<lambda>s m. EncodeCipString (hostname (g_tcpip s)) m)
        (if settable then Some (DecodeCipTcpIpInterfaceHostName allocates) else None)
        (\<lambda>s. le16 (string_length (hostname (g_tcpip s))))
        (kGetableSingleAndAll OR kNvDataFunc OR IFACE_CFG_SET_MODE settable),
      state_attribute 7 kCipAny (\<lambda>s m. Some (EncodeSafetyNetworkNumber m)) None (\<lambda>s. [0]) kGetableAllDummy,
      state_attribute 8 kCipUsint (\<lambda>s m. Some (EncodeCipUsint (mcast_ttl_value (g_tcpip s)) m)) None
        (\<lambda>s. [mcast_ttl_value (g_tcpip s)]) kGetableSingleAndAll,
      state_attribute 9 kCipAny
        (\<lambda>s m. Some (EncodeCipTcpIpMulticastConfiguration e (mcast_config (g_tcpip s)) m)) None
        (\<lambda>s. []) kGetableSingleAndAll,
      state_attribute 10 kCipBool (\<lambda>s m. Some (EncodeCipBool (select_acd (g_tcpip s)) m)) None
        (\<lambda>s. [select_acd (g_tcpip s)]) kGetableAllDummy,
      state_attribute 11 kCipBool (\<lambda>s m. Some (EncodeCipLastConflictDetected m)) None (\<lambda>s. [0]) kGetableAllDummy,
      state_attribute 12 kCipBool (\<lambda>s m. Some (EncodeCipBool 0 m)) None (\<lambda>s. [0]) kGetableAllDummy,
      state_attribute 13 kCipUint
        (\<lambda>s m. Some (EncodeCipUint (encapsulation_inactivity_timeout (g_tcpip s)) m))
        (Some DecodeCipTcpIpInterfaceEncapsulationInactivityTimeout)
        (\<lambda>s. le16 (encapsulation_inactivity_timeout (g_tcpip s))) (kSetAndGetAble OR kNvDataFunc)]"

definition CipTcpIpInterfaceInit :: "bool \<Rightarrow> (size_t \<Rightarrow> bool) \<Rightarrow> OpenerEndianess \<Rightarrow> stack
    \<Rightarrow> ('addr object_table \<times> stack) option" where
  "CipTcpIpInterfaceInit settable allocates e s = do {
     (t, s) \<leftarrow> created (CreateCipClass allocates kCipTcpIpInterfaceClassCode
       \<lparr>size_class_attributes = 0, size_highest_class_attribute = 7, size_class_services = 2,
        size_instance_attributes = 13, size_highest_instance_attribute = 13, size_instance_services = 3\<rparr>
       1 ''TCP/IP interface'' 4 None s);
     t \<leftarrow> insert_attributes 1 (tcpip_attributes settable allocates e) t;
     t \<leftarrow> insert_services [(kGetAttributeSingle, Service_GetAttributeSingle),
       (kGetAttributeAll, Service_GetAttributeAll), (kSetAttributeSingle, Service_SetAttributeSingle)] t;
     Some (t, s) }"

section \<open>Properties of names\<close>

text \<open>The labels of a name, and what a label may be.\<close>

fun labels_of :: "buf \<Rightarrow> buf list" where
  "labels_of [] = [[]]"
| "labels_of (b # bs) = (if b = 0x2E then [] # labels_of bs else (b # hd (labels_of bs)) # tl (labels_of bs))"

definition valid_label :: "buf \<Rightarrow> bool" where
  "valid_label l \<longleftrightarrow> l \<noteq> [] \<and> isalnum_c (hd l) \<and> isalnum_c (List.last l) \<and> list_all (\<lambda>b. isalnum_c b \<or> b = 0x2D) l"

lemma isalnum_special [simp]: "\<not> isalnum_c 0" "\<not> isalnum_c 0x2D" "\<not> isalnum_c 0x2E"
  by (simp_all add: isalnum_c_def)

lemma label_tail_name:
  "0 \<notin> set l \<Longrightarrow> label_tail before (l @ 0 # rest)
     = Some (List.last (before # l) \<noteq> 0x2D \<and> list_all (\<lambda>b. isalnum_c b \<or> b = 0x2D) l)"
  by (induction l arbitrary: before) auto

lemma IsValidNameLabel_name: "0 \<notin> set l \<Longrightarrow> IsValidNameLabel (l @ 0 # rest) = Some (valid_label l)"
proof (cases l)
  case (Cons b bs)
  assume nul: "0 \<notin> set l"
  have "list_all (\<lambda>b. isalnum_c b \<or> b = 0x2D) l \<Longrightarrow> List.last l \<noteq> 0x2D \<longleftrightarrow> isalnum_c (List.last l)"
    using last_in_set [of l] Cons by (auto simp: list_all_iff simp del: List.last.simps)
  then show ?thesis
    using label_tail_name [of bs b rest] nul by (auto simp: IsValidNameLabel_def valid_label_def Cons)
qed (simp add: IsValidNameLabel_def valid_label_def)

lemma label_tail_open: "0 \<notin> set l \<Longrightarrow> label_tail before l \<noteq> Some True"
  by (induction l arbitrary: before) auto

lemma strchr_dot: "0 \<notin> set a \<Longrightarrow> 0x2E \<notin> set a \<Longrightarrow> strchr 0x2E (a @ 0x2E # b) = Some (Some (length a))"
  by (induction a) auto

lemma strchr_none: "0 \<notin> set a \<Longrightarrow> 0x2E \<notin> set a \<Longrightarrow> strchr 0x2E (a @ 0 # b) = Some None"
  by (induction a) auto

lemma strchr_open: "0 \<notin> set a \<Longrightarrow> 0x2E \<notin> set a \<Longrightarrow> strchr 0x2E a = None"
  by (induction a) auto

lemma labels_of_ne [simp]: "labels_of l \<noteq> []"
  by (cases l) auto

lemma labels_of_dot: "0x2E \<notin> set a \<Longrightarrow> labels_of (a @ 0x2E # b) = a # labels_of b"
  by (induction a) auto

lemma labels_of_single: "0x2E \<notin> set a \<Longrightarrow> labels_of a = [a]"
  by (induction a) auto

lemma IsValidDomain_name:
  assumes "0 \<notin> set name"
  shows "IsValidDomain (name @ 0 # rest) = Some (list_all valid_label (labels_of name))"
  using assms
proof (induction "length name" arbitrary: name rule: less_induct)
  case less
  show ?case
  proof (cases "0x2E \<in> set name")
    case False
    then have "strchr 0x2E (name @ 0 # rest) = Some None"
      using less.prems strchr_none by blast
    then show ?thesis
      using False IsValidNameLabel_name [OF less.prems]
      by (subst IsValidDomain.simps) (auto simp: labels_of_single split: list.split)
  next
    case True
    then obtain a b where name: "name = a @ 0x2E # b" and a: "0x2E \<notin> set a"
      by (metis split_list_first)
    have nul: "0 \<notin> set a" "0 \<notin> set b"
      using less.prems by (auto simp: name)
    note dot = strchr_dot [OF nul(1) a, of "b @ 0 # rest"]
    note label = IsValidNameLabel_name [OF nul(1), of "b @ 0 # rest"]
    have rec: "IsValidDomain (b @ 0 # rest) = Some (list_all valid_label (labels_of b))"
      using less.hyps [of b] nul(2) by (simp add: name)
    have "IsValidDomain (a @ 0x2E # b @ 0 # rest) = Some (valid_label a \<and> list_all valid_label (labels_of b))"
    proof (cases a)
      case Nil
      then show ?thesis
        by (subst IsValidDomain.simps) (simp add: valid_label_def)
    next
      case c: (Cons c cs)
      have no_dot: "c \<noteq> 0x2E"
        using a c by auto
      show ?thesis
      proof (cases b)
        case Nil
        then show ?thesis
          using dot label no_dot by (subst IsValidDomain.simps) (simp add: c valid_label_def)
      next
        case (Cons d ds)
        then have "d \<noteq> 0"
          using nul(2) by auto
        then show ?thesis
          using dot label no_dot rec Cons by (subst IsValidDomain.simps) (simp add: c)
      qed
    qed
    then show ?thesis
      by (simp add: name labels_of_dot [OF a])
  qed
qed

lemma IsValidDomain_open:
  assumes "0 \<notin> set block"
  shows "IsValidDomain block \<noteq> Some True"
  using assms
proof (induction "length block" arbitrary: block rule: less_induct)
  case less
  show ?case
  proof (cases "0x2E \<in> set block")
    case False
    then show ?thesis
      using strchr_open [OF less.prems] by (subst IsValidDomain.simps) (auto split: list.split)
  next
    case True
    then obtain a b where block: "block = a @ 0x2E # b" and a: "0x2E \<notin> set a"
      by (metis split_list_first)
    have "IsValidDomain b \<noteq> Some True"
      using less.hyps [of b] less.prems by (simp add: block)
    moreover have "strchr 0x2E block = Some (Some (length a))"
      using strchr_dot [of a b] a less.prems by (simp add: block)
    ultimately show ?thesis
      by (subst IsValidDomain.simps) (auto simp: block split: list.split option.split)
  qed
qed

text \<open>C35: the recursive check of a domain name decides what its comment describes: a name whose octets end
  with a zero is accepted exactly if each of the labels between its dots consists of letters, digits and
  hyphens and begins and ends with a letter or a digit; so there are no empty labels.  A block of octets
  without a zero in it is never accepted: the check refuses it or runs off its end.\<close>

theorem domain_check_correct:
  shows "(0 \<notin> set name \<longrightarrow> IsValidDomain (name @ 0 # rest) = Some (list_all valid_label (labels_of name)))
    \<and> (0 \<notin> set block \<longrightarrow> IsValidDomain block \<noteq> Some True)"
  using IsValidDomain_name IsValidDomain_open by simp

theorem domain_check_correct_witness:
  "IsValidDomain ([0x61, 0x2D, 0x62, 0x2E, 0x63] @ 0 # []) = Some True \<and> IsValidDomain [0x61, 0x2E, 0x62] \<noteq> Some True"
  using domain_check_correct [of "[0x61, 0x2D, 0x62, 0x2E, 0x63]" "[]" "[0x61, 0x2E, 0x62]"]
  by (simp add: valid_label_def isalnum_c_def)

section \<open>Properties of addresses\<close>

lemma bit_swap32:
  "n < 8 \<Longrightarrow> bit (swap32 w) n = bit w (n + 24)"
  "8 \<le> n \<Longrightarrow> n < 16 \<Longrightarrow> bit (swap32 w) n = bit w (n + 8)"
  "16 \<le> n \<Longrightarrow> n < 24 \<Longrightarrow> bit (swap32 w) n = bit w (n - 8)"
  "24 \<le> n \<Longrightarrow> n < 32 \<Longrightarrow> bit (swap32 w) n = bit w (n - 24)"
proof -
  have masks: "(0xFF :: u32) = mask 8" "(0xFF00 :: u32) = push_bit 8 (mask 8)"
    by (simp_all add: mask_eq_exp_minus_1)
  have low: "bit (0xFF :: u32) k \<longleftrightarrow> k < 8" for k
    unfolding masks(1) bit_mask_iff by auto
  have high: "bit (0xFF00 :: u32) k \<longleftrightarrow> 8 \<le> k \<and> k < 16" for k
    unfolding masks(2) bit_push_bit_iff bit_mask_iff by auto
  have b: "bit (swap32 w) n \<longleftrightarrow>
      (24 \<le> n \<and> n < 32 \<and> bit w (n - 24) \<and> n - 24 < 8) \<or>
      (8 \<le> n \<and> n < 32 \<and> bit w (n - 8) \<and> 8 \<le> n - 8 \<and> n - 8 < 16) \<or>
      (bit w (8 + n) \<and> 8 \<le> n \<and> n < 16) \<or> (bit w (24 + n) \<and> n < 8)" for n
    unfolding swap32_def bit_or_iff bit_and_iff bit_push_bit_iff bit_drop_bit_eq low high comp_def by auto
  show "n < 8 \<Longrightarrow> bit (swap32 w) n = bit w (n + 24)"
    using b [of n] by (simp add: add.commute)
  show "8 \<le> n \<Longrightarrow> n < 16 \<Longrightarrow> bit (swap32 w) n = bit w (n + 8)"
    using b [of n] by (auto simp: add.commute)
  show "16 \<le> n \<Longrightarrow> n < 24 \<Longrightarrow> bit (swap32 w) n = bit w (n - 8)"
    using b [of n] by auto
  show "24 \<le> n \<Longrightarrow> n < 32 \<Longrightarrow> bit (swap32 w) n = bit w (n - 24)"
    using b [of n] by auto
qed

lemma swap32_swap32 [simp]: "swap32 (swap32 w) = w"
proof (rule bit_word_eqI)
  fix n
  assume "n < LENGTH(32)"
  then consider "n < 8" | "8 \<le> n" "n < 16" | "16 \<le> n" "n < 24" | "24 \<le> n" "n < 32"
    by (simp, linarith)
  then show "bit (swap32 (swap32 w)) n = bit w n"
    by cases (simp_all add: bit_swap32)
qed

lemma ntohl_ntohl [simp]: "ntohl e (ntohl e w) = w"
  by (simp add: ntohl_def)

lemma nat_and_pred: "0 < v \<Longrightarrow> v AND (v - 1) = 0 \<longleftrightarrow> (\<exists>k. v = 2 ^ k)" for v :: nat
proof (induction v rule: less_induct)
  case (less v)
  show ?case
  proof (cases "even v")
    case True
    then obtain w where w: "v = 2 * w" "0 < w"
      using less.prems by (auto elim!: evenE)
    have "v - 1 = Suc (2 * (w - 1))"
      using w by simp
    then have "v AND (v - 1) = 2 * (w AND (w - 1))"
      unfolding w(1) by (subst and_nat_rec) simp
    moreover have "(\<exists>k. w = 2 ^ k) \<longleftrightarrow> (\<exists>k. v = 2 ^ k)"
    proof
      assume "\<exists>k. v = 2 ^ k"
      then obtain k where "v = 2 ^ k"
        by blast
      then show "\<exists>k. w = 2 ^ k"
        using w by (cases k) auto
    next
      assume "\<exists>k. w = 2 ^ k"
      then show "\<exists>k. v = 2 ^ k"
        using w by (metis power_Suc)
    qed
    ultimately show ?thesis
      using less.IH [of w] w by simp
  next
    case False
    then obtain w where w: "v = Suc (2 * w)"
      by (auto elim: oddE)
    have "v AND (v - 1) = 2 * w"
      unfolding w by (subst and_nat_rec) simp
    moreover have "(\<exists>k. v = 2 ^ k) \<longleftrightarrow> v = 1"
      using False by (metis even_power even_numeral neq0_conv power_0)
    ultimately show ?thesis
      by (simp add: w)
  qed
qed

lemma word_and_pred: "v \<noteq> 0 \<and> v AND (v - 1) = 0 \<longleftrightarrow> (\<exists>k < 32. v = 2 ^ k)" for v :: u32
proof (cases "v = 0")
  case False
  then have pos: "0 < unat v" and pred: "unat (v - 1) = unat v - 1"
    by (simp_all add: unat_gt_0 unat_minus_one)
  have "unat (v AND (v - 1)) = unat v AND (unat v - 1)"
    unfolding pred [symmetric] by (rule unsigned_and_eq)
  then have "v AND (v - 1) = 0 \<longleftrightarrow> unat v AND (unat v - 1) = 0"
    by (metis unat_eq_0)
  also have "\<dots> \<longleftrightarrow> (\<exists>k. unat v = 2 ^ k)"
    by (rule nat_and_pred [OF pos])
  also have "\<dots> \<longleftrightarrow> (\<exists>k < 32. v = 2 ^ k)"
  proof
    assume "\<exists>k. unat v = 2 ^ k"
    then obtain k where k: "unat v = 2 ^ k"
      by blast
    have "(2 :: nat) ^ k < 2 ^ 32"
      using unsigned_less [of v, where 'a = nat] by (simp add: k)
    then have "k < 32"
      by (simp only: power_strict_increasing_iff)
    then show "\<exists>k < 32. v = 2 ^ k"
      using k by (metis of_nat_numeral of_nat_power of_nat_unat ucast_id)
  next
    assume "\<exists>k < 32. v = 2 ^ k"
    then obtain k where k: "k < 32" "v = of_nat (2 ^ k)"
      by auto
    have "(2 :: nat) ^ k < 2 ^ LENGTH(32)"
      using k(1) by (intro power_strict_increasing) simp_all
    then have "unat v = 2 ^ k"
      unfolding k(2) unat_of_nat by (rule mod_less)
    then show "\<exists>k. unat v = 2 ^ k"
      by blast
  qed
  finally show ?thesis
    using False by simp
qed simp

lemma not_minus_one: "1 \<le> k \<Longrightarrow> k \<le> 31 \<Longrightarrow> - (2 ^ k) \<noteq> (- 1 :: u32)"
proof -
  assume "1 \<le> k" "k \<le> 31"
  then have "even ((2 :: u32) ^ k)" "odd (1 :: u32)"
    by simp_all
  then have "(2 :: u32) ^ k \<noteq> 1"
    by metis
  then show ?thesis
    by (simp only: neg_equal_iff_equal) simp
qed

lemma high_ones: "(v :: u32) = - (2 ^ k) \<longleftrightarrow> (\<forall>i < 32. bit v i \<longleftrightarrow> k \<le> i)"
  by (auto simp: bit_eq_iff bit_minus_exp_iff possible_bit_word)

text \<open>C36: the check of a network mask accepts exactly the masks whose bits are, in host byte order, ones from
  the top down to some place and zeros below it, with at least one of each.\<close>

theorem netmask_check_correct:
  "IsValidNetmask e netmask \<longleftrightarrow> (\<exists>k \<in> {1..31}. \<forall>i < 32. bit (ntohl e netmask) i \<longleftrightarrow> k \<le> i)"
proof -
  let ?m = "ntohl e netmask"
  have "ntohl e 0xFFFFFFFF = 0xFFFFFFFF"
    by (simp add: ntohl_def swap32_def)
  then have "0xFFFFFFFF = netmask \<longleftrightarrow> ?m = 0xFFFFFFFF"
    by (metis ntohl_ntohl)
  moreover have "(0xFFFFFFFF :: u32) = - 1"
    by simp
  ultimately have ones: "0xFFFFFFFF = netmask \<longleftrightarrow> ?m = - 1"
    by metis
  have neg: "NOT ?m + 1 = - ?m"
    by (simp add: minus_eq_not_plus_1)
  have "IsValidNetmask e netmask \<longleftrightarrow> (\<exists>k < 32. - ?m = 2 ^ k) \<and> ?m \<noteq> - 1"
    unfolding IsValidNetmask_def Let_def neg word_and_pred [symmetric] using ones by blast
  also have "\<dots> \<longleftrightarrow> (\<exists>k < 32. ?m = - (2 ^ k)) \<and> ?m \<noteq> - 1"
    by (simp only: minus_equation_iff [of ?m] eq_commute [of _ ?m])
  also have "\<dots> \<longleftrightarrow> (\<exists>k \<in> {1..31}. ?m = - (2 ^ k))"
  proof
    assume "(\<exists>k < 32. ?m = - (2 ^ k)) \<and> ?m \<noteq> - 1"
    then obtain k where k: "k < 32" "?m = - (2 ^ k)" "k \<noteq> 0"
      by (metis power_0)
    then show "\<exists>k \<in> {1..31}. ?m = - (2 ^ k)"
      by (intro bexI [of _ k]) auto
  next
    assume "\<exists>k \<in> {1..31}. ?m = - (2 ^ k)"
    then show "(\<exists>k < 32. ?m = - (2 ^ k)) \<and> ?m \<noteq> - 1"
      using not_minus_one by force
  qed
  finally show ?thesis
    unfolding high_ones .
qed

theorem netmask_check_correct_witness: "IsValidNetmask kOpENerEndianessLittle 0x00FFFFFF"
proof -
  have m: "ntohl kOpENerEndianessLittle 0x00FFFFFF = push_bit 8 (mask 24)"
    by (simp add: ntohl_def swap32_def mask_eq_exp_minus_1)
  show ?thesis
    unfolding netmask_check_correct m bit_push_bit_iff bit_mask_iff by (intro bexI [of _ 8]) auto
qed

section \<open>Properties of decoding\<close>

lemma even_length_pos: "\<not> len > 48 \<Longrightarrow> len \<noteq> 0 \<longrightarrow> (len + 1) AND NOT 1 > 0" for len :: u16
proof
  assume "\<not> len > 48" and "len \<noteq> 0"
  then have "unat len \<in> set [1..<49]"
    by (simp add: word_less_nat_alt Suc_le_eq unat_gt_0)
  moreover have "\<forall>k \<in> set [1..<49]. (of_nat k + 1 :: u16) AND NOT 1 > 0"
    by code_simp
  ultimately show "(len + 1) AND NOT 1 > 0"
    by (metis of_nat_unat ucast_id)
qed

lemma starting_address_plain:
  "starting_multicast_address (mcast_config (CipTcpIpCalculateMulticastIp e t))
    = htonl e (0xEFC00100 + push_bit 5 (((ntohl e (interface_ip_address (interface_configuration t))
            AND NOT (ntohl e (interface_network_mask (interface_configuration t)))) - 1) AND 0x3FF))"
  by (simp add: CipTcpIpCalculateMulticastIp_def Let_def)

text \<open>The multicast address of the interface is one of 1024 blocks of 32 addresses above 239.192.1.0, in
  network byte order, chosen by the ten lowest bits of the host part of the interface's own
  address less one; the sum does not wrap and nothing else of the object changes.\<close>

theorem multicast_address_range:
  "\<exists>h < 1024. starting_multicast_address (mcast_config (CipTcpIpCalculateMulticastIp e t)) = htonl e (0xEFC00100 + 32 * of_nat h)
    \<and> h = unat ((ntohl e (interface_ip_address (interface_configuration t))
        AND NOT (ntohl e (interface_network_mask (interface_configuration t)))) - 1) mod 1024
    \<and> unat (ntohl e (starting_multicast_address (mcast_config (CipTcpIpCalculateMulticastIp e t)))) = 0xEFC00100 + 32 * h
    \<and> (CipTcpIpCalculateMulticastIp e t)\<lparr>mcast_config := mcast_config t\<rparr> = t"
proof -
  define w where "w = (ntohl e (interface_ip_address (interface_configuration t))
        AND NOT (ntohl e (interface_network_mask (interface_configuration t)))) - 1"
  define h where "h = unat w mod 1024"
  have mask10: "(0x3FF :: u32) = mask 10"
    by (simp add: mask_eq_exp_minus_1)
  have "h = unat (take_bit 10 w)"
    by (simp add: h_def unsigned_take_bit_eq take_bit_nat_def)
  then have "w AND 0x3FF = of_nat h"
    unfolding mask10 take_bit_eq_mask [symmetric] by simp
  then have addr: "starting_multicast_address (mcast_config (CipTcpIpCalculateMulticastIp e t))
      = htonl e (0xEFC00100 + 32 * of_nat h)"
    by (simp add: starting_address_plain w_def push_bit_eq_mult mult.commute)
  have bound: "h < 1024"
    by (simp add: h_def)
  have "(0xEFC00100 + 32 * of_nat h :: u32) = of_nat (0xEFC00100 + 32 * h)"
    by simp
  then have "unat (0xEFC00100 + 32 * of_nat h :: u32) = (0xEFC00100 + 32 * h) mod 2 ^ 32"
    by (simp only: unat_of_nat) simp
  then have num: "unat (0xEFC00100 + 32 * of_nat h :: u32) = 0xEFC00100 + 32 * h"
    using bound by simp
  have rest: "(CipTcpIpCalculateMulticastIp e t)\<lparr>mcast_config := mcast_config t\<rparr> = t"
    by (simp add: CipTcpIpCalculateMulticastIp_def Let_def)
  show ?thesis
    using addr bound num rest h_def w_def by (intro exI [of _ h]) simp
qed

text \<open>A name in a block of octets is accepted only up to a zero in the block.\<close>

lemma accepted_name_ends: "IsValidDomain block = Some True \<Longrightarrow> 0 \<in> set block"
  using IsValidDomain_open by blast

lemma network_config_name: "IsValidNetworkConfig e (cfg\<lparr>domain_name := n\<rparr>) = IsValidNetworkConfig e cfg"
  by (simp add: IsValidNetworkConfig_def)

lemma read_interface_configuration_octets:
  "read_interface_configuration e (le32 ip @ le32 net_mask @ le32 gateway @ le32 dns @ le32 dns2 @ le16 len @ name)
    = Some (\<lparr>interface_ip_address = htonl e ip, interface_network_mask = htonl e net_mask,
       interface_gateway = htonl e gateway, name_server = htonl e dns, name_server_2 = htonl e dns2,
       domain_name = \<lparr>string_length = 0, string_octets = None\<rparr>\<rparr>, len, name)"
  by (simp add: read_interface_configuration_def)

text \<open>The decoder when neither a connection nor the configuration method nor the length refuses the request.\<close>

lemma DecodeCipTcpIpInterfaceConfiguration_checked:
  assumes "DecodeCipTcpIpInterfaceConfiguration allocates e request r s = Some (n, request', r', s')"
    and "read_interface_configuration e (request_data request)
      = Some (cfg\<lparr>domain_name := \<lparr>string_length = 0, string_octets = None\<rparr>\<rparr>, len, name)"
    and "domain_name cfg = (if len = 0 then \<lparr>string_length = 0, string_octets = None\<rparr>
        else \<lparr>string_length = len, string_octets = Some (take (unat len) name)\<rparr>)"
    and "\<not> IsIOConnectionActive s" and "config_control (g_tcpip s) AND kTcpipCfgCtrlMethodMask = kTcpipCfgCtrlStaticIp"
    and "\<not> len > 48"
  shows "if IsValidNetworkConfig e cfg \<and> (len = 0 \<or> IsValidDomain (take (unat len) name) = Some True)
      then n = 20 + uint ((len + 1) AND NOT 1) \<and> general_status r' = kCipErrorSuccess
        \<and> s' = set_tcpip (\<lambda>t. t\<lparr>interface_configuration := cfg,
              tcpip_status := tcpip_status t OR kTcpipStatusIfaceCfgPend\<rparr>) s
    else n = -1 \<and> general_status r' = kCipErrorInvalidAttributeValue \<and> s' = s"
proof -
  let ?empty = "\<lparr>string_length = 0, string_octets = None\<rparr>" and ?bs = "take (unat len) name"
  obtain ok x where x: "SetCipStringByData allocates ?empty len name = Some (ok, x)"
    using assms by (auto simp: DecodeCipTcpIpInterfaceConfiguration_def bind_Some_iff Let_def)
  have valid: "IsValidNetworkConfig e (cfg\<lparr>domain_name := y\<rparr>) = IsValidNetworkConfig e cfg" for y
    by (rule network_config_name)
  have same: "y = domain_name cfg \<Longrightarrow> cfg\<lparr>domain_name := y\<rparr> = cfg" for y
    by simp
  have stored: "x = domain_name cfg" if "len = 0 \<or> string_octets x \<noteq> None"
    using x that by (auto simp: assms(3) SetCipStringByData_def ClearCipString_def copied_def bind_Some_iff Let_def split: if_splits)
  have block: "len \<noteq> 0 \<Longrightarrow> string_block (domain_name cfg) = ?bs"
    by (simp add: assms(3) string_block_def)
  consider "len = 0" "cfg\<lparr>domain_name := x\<rparr> = cfg" | "len \<noteq> 0" "string_octets x = None"
    | "len \<noteq> 0" "cfg\<lparr>domain_name := x\<rparr> = cfg" "string_block x = ?bs"
    using stored same [of x] block by metis
  then show ?thesis
  proof cases
    case 1
    then show ?thesis
      using assms(1,2,4-) x
      by (auto simp: DecodeCipTcpIpInterfaceConfiguration_def refused_def Let_def split: if_splits)
  next
    case 2
    then have "IsValidDomain (string_block x) = None" "(len + 1) AND NOT 1 > 0"
      using even_length_pos [of len] assms(6) by (auto simp: string_block_def IsValidDomain.simps)
    then show ?thesis
      using assms(1,2,4-) x 2 valid [of x]
      by (auto simp: DecodeCipTcpIpInterfaceConfiguration_def refused_def Let_def bind_Some_iff split: if_splits)
  next
    case 3
    then have "(len + 1) AND NOT 1 > 0"
      using even_length_pos [of len] assms(6) by auto
    moreover have "21 + uint w \<noteq> 0" for w :: u16
      by (metis add_nonneg_nonneg uint_nonnegative add_eq_0_iff numeral_neq_zero add_nonneg_eq_0_iff zero_le_numeral)
    ultimately show ?thesis
      using assms(1,2,4-) x 3
      by (auto simp: DecodeCipTcpIpInterfaceConfiguration_def refused_def Let_def bind_Some_iff split: if_splits)
  qed
qed

text \<open>C33: writing the interface configuration (attribute 5) with five addresses, the length of a domain name and
  the name.  With an I/O connection open, or unless the configuration method is static, it is refused with the
  state conflict that belongs to the case, then for a name of more than 48 octets, then as invalid unless
  the addresses in network byte order form a valid network configuration and the name, when it is not empty, is a
  valid domain name; a refusal changes nothing in the stack.  Otherwise exactly these addresses, each in its field, and
  this name are stored and marked as pending until a reset; an accepted name has a zero octet among its octets.
  The decoder is taken to return: it does not for a request that ends early, and reads behind a name without
  a zero octet and through the null pointer of a name that there was no memory for.\<close>

theorem interface_configuration_decoded:
  assumes "DecodeCipTcpIpInterfaceConfiguration allocates e request r s = Some (n, request', r', s')"
    and "request_data request = le32 ip @ le32 net_mask @ le32 gateway @ le32 dns @ le32 dns2 @ le16 len @ name"
    and "cfg = \<lparr>interface_ip_address = htonl e ip, interface_network_mask = htonl e net_mask,
      interface_gateway = htonl e gateway, name_server = htonl e dns, name_server_2 = htonl e dns2,
      domain_name = (if len = 0 then \<lparr>string_length = 0, string_octets = None\<rparr>
        else \<lparr>string_length = len, string_octets = Some (take (unat len) name)\<rparr>)\<rparr>"
  shows "if IsIOConnectionActive s then n = -1 \<and> general_status r' = kCipErrorDeviceStateConflict \<and> s' = s
    else if config_control (g_tcpip s) AND kTcpipCfgCtrlMethodMask \<noteq> kTcpipCfgCtrlStaticIp
      then n = -1 \<and> general_status r' = kCipErrorObjectStateConflict \<and> s' = s
    else if len > 48 then n = -1 \<and> general_status r' = kCipErrorTooMuchData \<and> s' = s
    else if IsValidNetworkConfig e cfg \<and> (len = 0 \<or> IsValidDomain (take (unat len) name) = Some True)
      then n = 20 + uint ((len + 1) AND NOT 1) \<and> general_status r' = kCipErrorSuccess \<and> (len = 0 \<or> 0 \<in> set (take (unat len) name))
        \<and> s' = set_tcpip (\<lambda>t. t\<lparr>interface_configuration := cfg,
              tcpip_status := tcpip_status t OR kTcpipStatusIfaceCfgPend\<rparr>) s
    else n = -1 \<and> general_status r' = kCipErrorInvalidAttributeValue \<and> s' = s"
proof (cases "IsIOConnectionActive s \<or> config_control (g_tcpip s) AND kTcpipCfgCtrlMethodMask \<noteq> kTcpipCfgCtrlStaticIp \<or> len > 48")
  case True
  then show ?thesis
    using assms(1) by (auto simp: DecodeCipTcpIpInterfaceConfiguration_def refused_def assms(2) read_interface_configuration_octets
        split: if_splits)
next
  case False
  have "read_interface_configuration e (request_data request)
      = Some (cfg\<lparr>domain_name := \<lparr>string_length = 0, string_octets = None\<rparr>\<rparr>, len, name)"
    by (simp add: assms(2,3) read_interface_configuration_octets)
  from DecodeCipTcpIpInterfaceConfiguration_checked [OF assms(1) this] False show ?thesis
    using accepted_name_ends by (auto simp: assms(3) split: if_splits)
qed

theorem interface_configuration_decoded_witness:
  "\<exists>request' r' s'. DecodeCipTcpIpInterfaceConfiguration (\<lambda>_. True) kOpENerEndianessLittle
      (zero_request\<lparr>request_data := [5, 0, 0, 10, 0, 255, 255, 255, 1, 0, 0, 10, 2, 0, 0, 10, 3, 0, 0, 10, 2, 0, 0x61, 0]\<rparr>)
      InitializeMessageRouterResponse (set_tcpip (\<lambda>t. t\<lparr>config_control := 0\<rparr>) initial_stack) = Some (22, request', r', s')
    \<and> interface_configuration (g_tcpip s') = \<lparr>interface_ip_address = 0x0500000A, interface_network_mask = 0x00FFFFFF,
        interface_gateway = 0x0100000A, name_server = 0x0200000A, name_server_2 = 0x0300000A,
        domain_name = \<lparr>string_length = 2, string_octets = Some [0x61, 0]\<rparr>\<rparr>"
proof -
  let ?q = "zero_request\<lparr>request_data := [5, 0, 0, 10, 0, 255, 255, 255, 1, 0, 0, 10, 2, 0, 0, 10, 3, 0, 0, 10, 2, 0, 0x61, 0]\<rparr>"
  let ?s = "set_tcpip (\<lambda>t. t\<lparr>config_control := 0\<rparr>) initial_stack"
  let ?cfg = "\<lparr>interface_ip_address = 0x0500000A, interface_network_mask = 0x00FFFFFF,
    interface_gateway = 0x0100000A, name_server = 0x0200000A, name_server_2 = 0x0300000A,
    domain_name = \<lparr>string_length = 2, string_octets = Some [0x61, 0]\<rparr>\<rparr>"
  have inactive: "\<not> IsIOConnectionActive ?s" "config_control (g_tcpip ?s) = 0"
    by (simp_all add: IsIOConnectionActive_def set_tcpip_def initial_stack_def)
  have q: "request_data ?q = le32 0x0A000005 @ le32 0xFFFFFF00 @ le32 0x0A000001 @ le32 0x0A000002 @ le32 0x0A000003 @ le16 2 @ [0x61, 0]"
    by (simp add: le32_def le16_def)
  have cfg: "?cfg = \<lparr>interface_ip_address = htonl kOpENerEndianessLittle 0x0A000005,
      interface_network_mask = htonl kOpENerEndianessLittle 0xFFFFFF00,
      interface_gateway = htonl kOpENerEndianessLittle 0x0A000001, name_server = htonl kOpENerEndianessLittle 0x0A000002,
      name_server_2 = htonl kOpENerEndianessLittle 0x0A000003,
      domain_name = (if (2 :: u16) = 0 then \<lparr>string_length = 0, string_octets = None\<rparr>
        else \<lparr>string_length = 2, string_octets = Some (take (unat (2 :: u16)) [0x61, 0])\<rparr>)\<rparr>"
    by code_simp
  have valid: "IsValidNetworkConfig kOpENerEndianessLittle ?cfg" "IsValidDomain [0x61, 0] = Some True"
    by code_simp+
  have name: "SetCipStringByData (\<lambda>_. True) \<lparr>string_length = 0, string_octets = None\<rparr> 2 [0x61, 0]
      = Some (True, \<lparr>string_length = 2, string_octets = Some [0x61, 0]\<rparr>)"
    by code_simp
  have "DecodeCipTcpIpInterfaceConfiguration (\<lambda>_. True) kOpENerEndianessLittle ?q InitializeMessageRouterResponse ?s \<noteq> None"
    unfolding DecodeCipTcpIpInterfaceConfiguration_def q read_interface_configuration_octets Option.bind.bind_lunit
    using valid(2) by (auto simp: name string_block_def refused_def Let_def)
  then obtain n request' r' s' where
    d: "DecodeCipTcpIpInterfaceConfiguration (\<lambda>_. True) kOpENerEndianessLittle ?q InitializeMessageRouterResponse ?s = Some (n, request', r', s')"
    by auto
  show ?thesis
    using interface_configuration_decoded [OF d q cfg] d inactive valid
    by (auto simp: kTcpipCfgCtrlMethodMask_def kTcpipCfgCtrlStaticIp_def set_tcpip_def)
qed

end
