(* ===== verification/Ethernet_Link.thy ===== *)
theory Ethernet_Link
  imports Tcpip
begin

text \<open>
  The Ethernet link object (\<^verbatim>\<open>cip/cipethernetlink.c\<close>): its encode functions, the interface control
  attribute that forces a speed, and the attribute table.  The build switches are parameters:
  \<open>ctrl\<close> is \<^verbatim>\<open>OPENER_ETHLINK_IFACE_CTRL_ENABLE\<close>, \<open>label\<close> is
  \<^verbatim>\<open>OPENER_ETHLINK_LABEL_ENABLE\<close>, and the length of \<open>g_ethernet_link\<close> is
  \<^verbatim>\<open>OPENER_ETHLINK_INSTANCE_CNT\<close>.  With \<^verbatim>\<open>OPENER_ETHLINK_CNTRS_ENABLE\<close> the file refers to names that
  are not declared and does not compile; the model is the other branch.
\<close>

section \<open>Constants\<close>

definition kEthLinkIfCntrlAutonegotiate :: u16 where "kEthLinkIfCntrlAutonegotiate = 0x01"
definition kEthLinkIfCntrlForceDuplexFD :: u16 where "kEthLinkIfCntrlForceDuplexFD = 0x02"
definition kEthLinkIfCntrlMaxValid :: u16 where
  "kEthLinkIfCntrlMaxValid = kEthLinkIfCntrlAutonegotiate + kEthLinkIfCntrlForceDuplexFD"
definition kEthLinkIfTypeInternal :: u8 where "kEthLinkIfTypeInternal = 0x01"
definition kEthLinkIfTypeTwistedPair :: u8 where "kEthLinkIfTypeTwistedPair = 0x02"
definition kEthLinkCapAutoNeg :: u32 where "kEthLinkCapAutoNeg = 0x02"
definition kEthLinkSpeedDpx_100_FD :: u16 where "kEthLinkSpeedDpx_100_FD = 0x08"
definition CIP_ETHERNETLINK_CLASS_CODE :: u32 where "CIP_ETHERNETLINK_CLASS_CODE = 0xF6"

record CipEthernetLinkSpeedDuplexArrayEntry =
  entry_interface_speed :: u16
  entry_interface_duplex_mode :: u8

definition speed_duplex_table :: "CipEthernetLinkSpeedDuplexArrayEntry list" where
  "speed_duplex_table = map (\<lambda>(v, d). \<lparr>entry_interface_speed = v, entry_interface_duplex_mode = d\<rparr>)
     [(10, 0), (10, 1), (100, 0), (100, 1), (1000, 0), (1000, 1)]"

definition iface_label_table :: "CipShortString list" where
  "iface_label_table = map (\<lambda>l. \<lparr>short_string_length = of_nat (length l), short_string_octets = Some l\<rparr>)
     [[0x50, 0x4F, 0x52, 0x54, 0x20, 0x31], [0x50, 0x4F, 0x52, 0x54, 0x20, 0x32],
      [0x50, 0x4F, 0x52, 0x54, 0x20, 0x69, 0x6E, 0x74, 0x65, 0x72, 0x6E, 0x61, 0x6C]]"

definition s_interface_control :: CipEthernetLinkInterfaceControl where
  "s_interface_control = \<lparr>control_bits = 0, forced_interface_speed = 0\<rparr>"

section \<open>Encoding\<close>

definition EncodeCipEthernetLinkInterfaceCounters :: "ENIPMessage \<Rightarrow> ENIPMessage" where
  "EncodeCipEthernetLinkInterfaceCounters m = FillNextNMessageOctetsWithValueAndMoveToNextPosition 0 44 m"

definition EncodeCipEthernetLinkMediaCounters :: "ENIPMessage \<Rightarrow> ENIPMessage" where
  "EncodeCipEthernetLinkMediaCounters m = FillNextNMessageOctetsWithValueAndMoveToNextPosition 0 48 m"

definition EncodeCipEthernetLinkInterfaceControl ::
    "bool \<Rightarrow> CipEthernetLinkInterfaceControl \<Rightarrow> ENIPMessage \<Rightarrow> ENIPMessage" where
  "EncodeCipEthernetLinkInterfaceControl ctrl x m =
     (let interface_control = (if ctrl then x else s_interface_control)
      in EncodeCipUint (forced_interface_speed interface_control)
           (EncodeCipWord (control_bits interface_control) m))"

text \<open>The loop that clears the lowest bit of the selector until none is left; the count is an octet.\<close>

lemma clear_lowest_less: "v \<noteq> 0 \<Longrightarrow> v AND (v - 1) < v" for v :: "'a :: len word"
proof -
  assume "v \<noteq> 0"
  have "uint (v AND (v - 1)) = uint v AND uint (v - 1)"
    by (rule unsigned_and_eq)
  also have "\<dots> \<le> uint (v - 1)"
    by (rule AND_upper2) simp
  also have "\<dots> < uint v"
    using measure_unat [OF \<open>v \<noteq> 0\<close>] by (simp flip: word_less_nat_alt add: word_less_def)
  finally show ?thesis
    by (simp add: word_less_def)
qed

function count_selected :: "u16 \<Rightarrow> u8 \<Rightarrow> u8" where
  "count_selected selected count =
     (if selected \<noteq> 0 then count_selected (selected AND (selected - 1)) (count + 1) else count)"
  by pat_completeness auto
termination
  by (relation "measure (unat \<circ> fst)") (use clear_lowest_less in \<open>auto simp: word_less_nat_alt\<close>)

declare count_selected.simps [simp del]

fun encode_speed_entries :: "nat \<Rightarrow> CipEthernetLinkSpeedDuplexArrayEntry list \<Rightarrow> u16 \<Rightarrow> ENIPMessage
    \<Rightarrow> ENIPMessage" where
  "encode_speed_entries i [] selector m = m"
| "encode_speed_entries i (x # xs) selector m =
     encode_speed_entries (Suc i) xs selector
       (if selector AND push_bit i 1 \<noteq> 0
        then EncodeCipUsint (entry_interface_duplex_mode x) (EncodeCipUint (entry_interface_speed x) m)
        else m)"

definition EncodeCipEthernetLinkInterfaceCaps ::
    "CipEthernetLinkMetaInterfaceCapability \<Rightarrow> ENIPMessage \<Rightarrow> ENIPMessage" where
  "EncodeCipEthernetLinkInterfaceCaps x m =
     encode_speed_entries 0 speed_duplex_table (speed_duplex_selector x)
       (EncodeCipUsint (count_selected (speed_duplex_selector x) 0)
         (EncodeCipDword (capability_bits x) m))"

section \<open>The interface control attribute\<close>

text \<open>The link of an instance, numbered from 1.\<close>

definition link_of :: "u16 \<Rightarrow> stack \<Rightarrow> CipEthernetLinkObject option" where
  "link_of instance_id s =
     (if 1 \<le> instance_id \<and> unat instance_id \<le> length (g_ethernet_link s)
      then Some (g_ethernet_link s ! (unat instance_id - 1)) else None)"

definition IsIfaceControlAllowed :: "u16 \<Rightarrow> CipEthernetLinkInterfaceControl \<Rightarrow> stack \<Rightarrow> bool option" where
  "IsIfaceControlAllowed instance_id iface_cntrl s = do {
     link \<leftarrow> link_of instance_id s;
     let duplex_mode = (if control_bits iface_cntrl AND kEthLinkIfCntrlForceDuplexFD \<noteq> 0 then 1 else 0);
     Some (\<exists>i \<in> set [0..<length speed_duplex_table].
       speed_duplex_selector (interface_caps link) AND push_bit i 1 \<noteq> 0
       \<and> duplex_mode = entry_interface_duplex_mode (speed_duplex_table ! i)
       \<and> forced_interface_speed iface_cntrl = entry_interface_speed (speed_duplex_table ! i)) }"

text \<open>The value is stored behind the data pointer of the attribute, in the link with index \<open>idx\<close>; the
  allowed speeds are those of the instance that the path of the request names.\<close>

definition DecodeCipEthernetLinkInterfaceControl :: "nat \<Rightarrow> attribute_decoder" where
  "DecodeCipEthernetLinkInterfaceControl idx request r s = do {
     (_, bits, request, r) \<leftarrow> DecodeCipWord 0 request r;
     (_, speed, request, r) \<leftarrow> DecodeCipUint 0 request r;
     let if_cntrl = \<lparr>control_bits = bits, forced_interface_speed = speed\<rparr>;
     if control_bits if_cntrl > kEthLinkIfCntrlMaxValid
     then refused kCipErrorInvalidAttributeValue request r s
     else if control_bits if_cntrl AND kEthLinkIfCntrlAutonegotiate \<noteq> 0
       \<and> (control_bits if_cntrl AND kEthLinkIfCntrlForceDuplexFD \<noteq> 0 \<or> forced_interface_speed if_cntrl \<noteq> 0)
     then refused kCipErrorObjectStateConflict request r s
     else do {
       allowed \<leftarrow> (if control_bits if_cntrl AND kEthLinkIfCntrlAutonegotiate = 0
         then IsIfaceControlAllowed (instance_number (request_path request)) if_cntrl s else Some True);
       if \<not> allowed then refused kCipErrorInvalidAttributeValue request r s
       else Some (4, request, r\<lparr>general_status := kCipErrorSuccess\<rparr>,
         s\<lparr>g_ethernet_link := (g_ethernet_link s)
           [idx := (g_ethernet_link s ! idx)\<lparr>interface_control := if_cntrl\<rparr>]\<rparr>) } }"

section \<open>The attribute table\<close>

definition IFACE_LABEL_ACCESS_MODE :: "bool \<Rightarrow> u8" where
  "IFACE_LABEL_ACCESS_MODE label = (if label then kGetableSingleAndAll else kGetableAll)"

definition IFACE_CTRL_ACCESS_MODE :: "bool \<Rightarrow> u8" where
  "IFACE_CTRL_ACCESS_MODE ctrl = (if ctrl then kSetAndGetAble OR kNvDataFunc else kGetableAll)"

definition link_attributes :: "bool \<Rightarrow> bool \<Rightarrow> nat \<Rightarrow> stack CipAttributeStruct list" where
  "link_attributes ctrl label idx =
     (let link = (\<lambda>s. g_ethernet_link s ! idx)
      in [state_attribute 1 kCipUdint (\<lambda>s m. Some (EncodeCipUdint (interface_speed (link s)) m)) None
            (\<lambda>s. le32 (interface_speed (link s))) kGetableSingleAndAll,
          state_attribute 2 kCipDword (\<lambda>s m. Some (EncodeCipDword (interface_flags (link s)) m)) None
            (\<lambda>s. le32 (interface_flags (link s))) kGetableSingleAndAll,
          state_attribute 3 kCip6Usint (\<lambda>s m. EncodeCipEthernetLinkPhyisicalAddress (physical_address (link s)) m)
            None (\<lambda>s. physical_address (link s)) kGetableSingleAndAll,
          state_attribute 4 kCipAny (\<lambda>s m. Some (EncodeCipEthernetLinkInterfaceCounters m)) None
            (\<lambda>s. le32 0) kGetableAllDummy,
          state_attribute 5 kCipAny (\<lambda>s m. Some (EncodeCipEthernetLinkMediaCounters m)) None
            (\<lambda>s. le32 0) kGetableAllDummy,
          state_attribute 6 kCipAny
            (\<lambda>s m. Some (EncodeCipEthernetLinkInterfaceControl ctrl (interface_control (link s)) m))
            (if ctrl then Some (DecodeCipEthernetLinkInterfaceControl idx) else None)
            (\<lambda>s. []) (if ctrl \<and> idx = 2 then IFACE_CTRL_ACCESS_MODE ctrl AND NOT kSetable
                     else IFACE_CTRL_ACCESS_MODE ctrl),
          state_attribute 7 kCipUsint (\<lambda>s m. Some (EncodeCipUsint (interface_type (link s)) m)) None
            (\<lambda>s. [interface_type (link s)]) kGetableSingleAndAll,
          state_attribute 8 kCipUsint (\<lambda>s m. Some (EncodeCipUsint 0 m)) None (\<lambda>s. [0]) kGetableAllDummy,
          state_attribute 9 kCipUsint (\<lambda>s m. Some (EncodeCipUsint 0 m)) None (\<lambda>s. [0]) kGetableAllDummy,
          state_attribute 10 kCipShortString (\<lambda>s m. EncodeCipShortString (interface_label (link s)) m) None
            (\<lambda>s. [short_string_length (interface_label (link s))]) (IFACE_LABEL_ACCESS_MODE label),
          state_attribute 11 kCipAny (\<lambda>s m. Some (EncodeCipEthernetLinkInterfaceCaps (interface_caps (link s)) m))
            None (\<lambda>s. []) kGetableSingleAndAll])"

text \<open>The initial values; what is not set keeps the zero of the static storage.\<close>

definition initial_link :: "bool \<Rightarrow> bool \<Rightarrow> nat \<Rightarrow> CipEthernetLinkObject \<Rightarrow> CipEthernetLinkObject" where
  "initial_link ctrl label idx x = x\<lparr>interface_speed := 100, interface_flags := 0xF,
     interface_type := (if idx = 2 then kEthLinkIfTypeInternal else kEthLinkIfTypeTwistedPair),
     interface_label := (if label then iface_label_table ! idx else interface_label x),
     interface_caps := \<lparr>capability_bits = kEthLinkCapAutoNeg, speed_duplex_selector = kEthLinkSpeedDpx_100_FD\<rparr>,
     interface_control := (if ctrl
       then \<lparr>control_bits = kEthLinkIfCntrlAutonegotiate, forced_interface_speed = 0\<rparr>
       else interface_control x)\<rparr>"

primrec insert_links :: "bool \<Rightarrow> bool \<Rightarrow> nat list \<Rightarrow> 'addr object_table \<Rightarrow> 'addr object_table option" where
  "insert_links ctrl label [] t = Some t"
| "insert_links ctrl label (idx # ids) t = do {
     t \<leftarrow> insert_attributes (of_nat (idx + 1)) (link_attributes ctrl label idx) t;
     insert_links ctrl label ids t }"

definition CipEthernetLinkInit :: "(size_t \<Rightarrow> bool) \<Rightarrow> bool \<Rightarrow> bool \<Rightarrow> stack \<Rightarrow> ('addr object_table \<times> stack) option" where
  "CipEthernetLinkInit allocates ctrl label s = do {
     let n = length (g_ethernet_link s);
     (t, s) \<leftarrow> created (CreateCipClass allocates CIP_ETHERNETLINK_CLASS_CODE
       \<lparr>size_class_attributes = 0, size_highest_class_attribute = 7, size_class_services = 2,
        size_instance_attributes = 11, size_highest_instance_attribute = 11,
        size_instance_services = 2 + of_bool ctrl\<rparr> (of_nat n) ''Ethernet Link'' 4 None s);
     let s = s\<lparr>g_ethernet_link := map (\<lambda>(idx, x). initial_link ctrl label idx x)
       (enumerate 0 (g_ethernet_link s))\<rparr>;
     t \<leftarrow> insert_services ([(kGetAttributeSingle, Service_GetAttributeSingle),
       (kGetAttributeAll, Service_GetAttributeAll)] @
       (if ctrl then [(kSetAttributeSingle, Service_SetAttributeSingle)] else [])) t;
     t \<leftarrow> insert_links ctrl label [0..<n] t;
     Some (t, s) }"

definition CipEthernetLinkSetMac :: "buf \<Rightarrow> stack \<Rightarrow> stack option" where
  "CipEthernetLinkSetMac p s = do {
     mac \<leftarrow> copied 6 p;
     Some (s\<lparr>g_ethernet_link := map (\<lambda>x. x\<lparr>physical_address := mac\<rparr>) (g_ethernet_link s)\<rparr>) }"

section \<open>Properties of the encoding\<close>

text \<open>The number of bits that are set.\<close>

fun ones :: "nat \<Rightarrow> nat" where
  "ones v = (if v = 0 then 0 else v mod 2 + ones (v div 2))"

declare ones.simps [simp del]

lemma ones_0 [simp]: "ones 0 = 0"
  by (simp add: ones.simps)

lemma ones_double: "ones (2 * w) = ones w" "ones (Suc (2 * w)) = Suc (ones w)"
  by (subst ones.simps, simp)+

lemma ones_clear_lowest: "0 < v \<Longrightarrow> Suc (ones (v AND (v - 1))) = ones v" for v :: nat
proof (induction v rule: less_induct)
  case (less v)
  show ?case
  proof (cases "even v")
    case True
    then obtain w where w: "v = 2 * w" "0 < w"
      using less.prems by (auto elim!: evenE)
    have "v - 1 = Suc (2 * (w - 1))"
      using w by simp
    then have "v AND (v - 1) = 2 * (w AND (w - 1))"
      unfolding w(1) by (subst and_nat_rec) simp
    then show ?thesis
      using less.IH [of w] w by (simp add: ones_double)
  next
    case False
    then obtain w where w: "v = Suc (2 * w)"
      by (auto elim: oddE)
    have "v AND (v - 1) = 2 * w"
      unfolding w by (subst and_nat_rec) simp
    then show ?thesis
      by (simp add: w ones_double)
  qed
qed

lemma count_selected: "count_selected v c = c + of_nat (ones (unat v))"
proof (induction v c rule: count_selected.induct)
  case (1 v c)
  show ?case
  proof (cases "v = 0")
    case True
    then show ?thesis
      by (simp add: count_selected.simps)
  next
    case False
    have "unat (v AND (v - 1)) = unat v AND (unat v - 1)"
      using False by (metis unat_minus_one unsigned_and_eq)
    then have "Suc (ones (unat (v AND (v - 1)))) = ones (unat v)"
      using ones_clear_lowest [of "unat v"] False by (simp add: unat_gt_0)
    then have "(of_nat (ones (unat v)) :: u8) = 1 + of_nat (ones (unat (v AND (v - 1))))"
      by (metis of_nat_Suc)
    then show ?thesis
      using 1 False by (subst count_selected.simps) simp
  qed
qed

lemma ones_enumerate: "v < 2 ^ length xs \<Longrightarrow> ones v = length (filter (\<lambda>(i, x). bit v i) (enumerate 0 xs))"
proof (induction xs arbitrary: v)
  case (Cons x xs)
  have "filter (\<lambda>(i, x). bit v i) (enumerate 1 xs) = map (apfst Suc) (filter (\<lambda>(i, x). bit (v div 2) i) (enumerate 0 xs))"
    by (simp add: enumerate_Suc_eq filter_map comp_def case_prod_unfold bit_Suc)
  moreover have "ones (v div 2) = length (filter (\<lambda>(i, x). bit (v div 2) i) (enumerate 0 xs))"
    using Cons.IH [of "v div 2"] Cons.prems by simp
  moreover have "ones v = v mod 2 + ones (v div 2)"
    by (cases "v = 0") (simp_all add: ones.simps [of v])
  ultimately show ?case
    by (simp add: bit_0 odd_iff_mod_2_eq_one)
qed simp

text \<open>The octets of the speeds that a selector chooses.\<close>

definition speed_octets :: "CipEthernetLinkSpeedDuplexArrayEntry \<Rightarrow> u8 list" where
  "speed_octets x = le16 (entry_interface_speed x) @ [entry_interface_duplex_mode x]"

definition selected_speeds :: "u16 \<Rightarrow> CipEthernetLinkSpeedDuplexArrayEntry list" where
  "selected_speeds selector = map snd (filter (\<lambda>(i, x). bit selector i) (enumerate 0 speed_duplex_table))"

lemma selector_bit: "selector AND push_bit i 1 = 0 \<longleftrightarrow> \<not> bit selector i" for selector :: u16
proof -
  have "bit selector i \<Longrightarrow> i < 16"
    using bit_imp_le_length [of selector i] by simp
  then show ?thesis
    unfolding and_single_bit by auto
qed

lemma encode_speed_entries_octets:
  "encode_speed_entries i xs selector m = append_octets (concat (map speed_octets
     (map snd (filter (\<lambda>(i, x). bit selector i) (enumerate i xs))))) m"
proof (induction i xs selector m rule: encode_speed_entries.induct)
  case (2 i x xs selector m)
  then show ?case
    by (simp add: selector_bit enc EncodeCipUsint_def EncodeCipUint_def speed_octets_def del: push_bit_of_1)
qed simp

text \<open>The interface capability of an Ethernet link whose selector names only speeds of the table is sent
  as its capability bits, the number of speeds and then exactly that many entries, each a speed and a
  duplex mode, in the order of the table.\<close>

theorem interface_caps_encoded:
  assumes "speed_duplex_selector x < 64"
  shows "EncodeCipEthernetLinkInterfaceCaps x m = append_octets (le32 (capability_bits x)
    @ [of_nat (length (selected_speeds (speed_duplex_selector x)))]
    @ concat (map speed_octets (selected_speeds (speed_duplex_selector x)))) m"
proof -
  have "unat (speed_duplex_selector x) < 2 ^ length speed_duplex_table"
    using assms by (simp add: word_less_nat_alt speed_duplex_table_def)
  from ones_enumerate [OF this]
  have "ones (unat (speed_duplex_selector x)) = length (selected_speeds (speed_duplex_selector x))"
    by (simp add: selected_speeds_def bit_unsigned_iff possible_bit_word)
  then show ?thesis
    using encode_speed_entries_octets [of 0 speed_duplex_table]
    by (simp add: EncodeCipEthernetLinkInterfaceCaps_def count_selected enc EncodeCipUsint_def EncodeCipDword_def
        selected_speeds_def)
qed

theorem interface_caps_encoded_witness:
  "EncodeCipEthernetLinkInterfaceCaps \<lparr>capability_bits = 2, speed_duplex_selector = 0xC\<rparr> InitializeENIPMessage
    = append_octets [2, 0, 0, 0, 2, 100, 0, 0, 100, 0, 1] InitializeENIPMessage"
proof -
  have "map speed_octets (selected_speeds 0xC) = [[100, 0, 0], [100, 0, 1]]"
    by code_simp
  then show ?thesis
    using interface_caps_encoded [of "\<lparr>capability_bits = 2, speed_duplex_selector = 0xC\<rparr>" InitializeENIPMessage]
    by (simp add: le32_def length_map [of speed_octets, symmetric] del: length_map)
qed

section \<open>Properties of the interface control\<close>

text \<open>The settings that a link supports: automatic, or a speed of the table with its duplex mode.\<close>

definition supported_control :: "u16 \<Rightarrow> u16 \<times> u16 \<Rightarrow> bool" where
  "supported_control selector bs = (bs = (1, 0) \<or>
     (\<exists>i < 6. bit selector i \<and> bs = (2 * ucast (entry_interface_duplex_mode (speed_duplex_table ! i)),
        entry_interface_speed (speed_duplex_table ! i))))"

lemma small_control: "\<not> bits > 3 \<longleftrightarrow> bits = 0 \<or> bits = 1 \<or> bits = 2 \<or> bits = 3" for bits :: u16
proof -
  have "\<not> bits > 3 \<longleftrightarrow> unat bits \<le> 3"
    by (simp add: word_less_nat_alt not_less)
  also have "\<dots> \<longleftrightarrow> unat bits = 0 \<or> unat bits = 1 \<or> unat bits = 2 \<or> unat bits = 3"
    by auto
  finally show ?thesis
    by (simp add: word_unat_eq_iff)
qed

lemma six_entries: "(\<exists>i < 6. P i) \<longleftrightarrow> P 0 \<or> P 1 \<or> P 2 \<or> P 3 \<or> P 4 \<or> P (5 :: nat)"
  by (auto simp: numeral_eq_Suc less_Suc_eq)

lemma table_entries:
  "speed_duplex_table ! 0 = \<lparr>entry_interface_speed = 10, entry_interface_duplex_mode = 0\<rparr>"
  "speed_duplex_table ! 1 = \<lparr>entry_interface_speed = 10, entry_interface_duplex_mode = 1\<rparr>"
  "speed_duplex_table ! 2 = \<lparr>entry_interface_speed = 100, entry_interface_duplex_mode = 0\<rparr>"
  "speed_duplex_table ! 3 = \<lparr>entry_interface_speed = 100, entry_interface_duplex_mode = 1\<rparr>"
  "speed_duplex_table ! 4 = \<lparr>entry_interface_speed = 1000, entry_interface_duplex_mode = 0\<rparr>"
  "speed_duplex_table ! 5 = \<lparr>entry_interface_speed = 1000, entry_interface_duplex_mode = 1\<rparr>"
  by (simp_all add: speed_duplex_table_def)

lemma allowed_entries:
  "link_of n s = Some link \<Longrightarrow> IsIfaceControlAllowed n c s = Some (\<exists>i < 6.
     bit (speed_duplex_selector (interface_caps link)) i
     \<and> (if control_bits c AND 2 \<noteq> 0 then 1 else 0) = entry_interface_duplex_mode (speed_duplex_table ! i)
     \<and> forced_interface_speed c = entry_interface_speed (speed_duplex_table ! i))"
proof -
  assume "link_of n s = Some link"
  moreover have "length speed_duplex_table = 6"
    by (simp add: speed_duplex_table_def)
  then have "set [0..<length speed_duplex_table] = {..< 6}"
    by (simp only: atLeast_upt)
  ultimately show ?thesis
    unfolding IsIfaceControlAllowed_def Let_def kEthLinkIfCntrlForceDuplexFD_def selector_bit
    by (simp add: Bex_def)
qed

text \<open>What the decoder decides: the interface control of a link is accepted exactly for the settings that the link supports:
  automatic negotiation with nothing forced, or a forced speed and duplex mode that the link's selector
  names.  What is accepted is stored in the link and nothing else changes; what is refused changes nothing.\<close>

lemma interface_control_decided:
  assumes "request_data request = le16 bits @ le16 speed @ rest"
    and "link_of (instance_number (request_path request)) s = Some link"
  shows "if supported_control (speed_duplex_selector (interface_caps link)) (bits, speed)
    then \<exists>request'. DecodeCipEthernetLinkInterfaceControl idx request r s = Some (4, request',
        r\<lparr>general_status := kCipErrorSuccess\<rparr>, s\<lparr>g_ethernet_link := (g_ethernet_link s)
          [idx := (g_ethernet_link s ! idx)\<lparr>interface_control :=
            \<lparr>control_bits = bits, forced_interface_speed = speed\<rparr>\<rparr>]\<rparr>)
    else \<exists>request' r'. DecodeCipEthernetLinkInterfaceControl idx request r s = Some (-1, request', r', s)
      \<and> general_status r' \<in> {kCipErrorInvalidAttributeValue, kCipErrorObjectStateConflict}"
proof -
  let ?c = "\<lparr>control_bits = bits, forced_interface_speed = speed\<rparr>"
  let ?sel = "speed_duplex_selector (interface_caps link)"
  have bits: "bits > kEthLinkIfCntrlMaxValid \<longleftrightarrow> bits \<notin> {0, 1, 2, 3}"
    using small_control [of bits] by (auto simp: kEthLinkIfCntrlMaxValid_def kEthLinkIfCntrlAutonegotiate_def
        kEthLinkIfCntrlForceDuplexFD_def)
  have allowed: "IsIfaceControlAllowed (instance_number (request_path request)) ?c s
      = Some (supported_control ?sel (bits, speed))" if "bits = 0 \<or> bits = 2"
    using that unfolding allowed_entries [OF assms(2)] supported_control_def six_entries table_entries by auto
  have never: "\<not> supported_control ?sel (bits, speed)" if "bits \<noteq> 0" "bits \<noteq> 1" "bits \<noteq> 2"
    using that unfolding supported_control_def six_entries table_entries by auto
  have auto1: "supported_control ?sel (1, speed) \<longleftrightarrow> speed = 0"
    unfolding supported_control_def six_entries table_entries by auto
  show ?thesis
    using assms(1) allowed never auto1 bits
    by (auto simp: DecodeCipEthernetLinkInterfaceControl_def DecodeCipWord_def DecodeCipUint_def GetWordFromMessage_def
        advance_def decoded_def refused_def kEthLinkIfCntrlAutonegotiate_def kEthLinkIfCntrlForceDuplexFD_def Let_def)
qed

end
