(* ===== verification/Network_Handler.thy ===== *)
theory Network_Handler
  imports Conn_Reach Tcpip
begin

text \<open>
  The network handler (\<^verbatim>\<open>ports/generic_networkhandler.c\<close>): setting up the listening sockets, receiving
  packets over TCP and UDP, and one cycle of the main loop, which hands every packet to the encapsulation
  layer or to the connection manager and runs the timers.

  The system calls answer as the \<open>platform\<close> says.  A socket set is the list of its descriptors.  The classes
  of the message router are a parameter, because their instances are part of the state; so are the functions
  in \<^verbatim>\<open>timeout_checker_array\<close>, of which the stack itself registers none.
\<close>

section \<open>Receiving\<close>

text \<open>\<^verbatim>\<open>recv\<close> delivers at most the octets that were asked for; the received octets lie in front of a
  zeroed buffer.\<close>

definition recv :: "platform \<Rightarrow> socket_fd \<Rightarrow> nat \<Rightarrow> stack \<Rightarrow> int \<times> buf \<times> stack" where
  "recv pf f n s =
     (let k = os_index s; (r, s) = syscall pf s; r = min r (int n)
      in (r, take (nat r) (os_octets pf k @ replicate n 0), emit (recv_event f (nat r)) s))"

definition recvfrom :: "platform \<Rightarrow> socket_fd \<Rightarrow> nat \<Rightarrow> stack \<Rightarrow> int \<times> buf \<times> sockaddr_in \<times> stack" where
  "recvfrom pf f n s =
     (let k = os_index s; (r, p, s) = recv pf f n s in (r, p, os_address pf k, s))"

definition incoming_message :: "nat \<Rightarrow> buf \<Rightarrow> buf \<Rightarrow> buf" where
  "incoming_message k p b = overwrite k p b"

definition empty_buffer :: buf where
  "empty_buffer = replicate PC_OPENER_ETHERNET_BUFFER_SIZE 0"

definition CheckSocketSet :: "socket_fd \<Rightarrow> stack \<Rightarrow> bool \<times> stack" where
  "CheckSocketSet f s =
     (if f \<in> set (read_socket s)
      then (f \<in> set (master_socket s), s\<lparr>read_socket := removeAll f (read_socket s)\<rparr>)
      else (False, s))"

definition remove_timer :: "socket_fd \<Rightarrow> stack \<Rightarrow> stack option" where
  "remove_timer f s = do {
     ts \<leftarrow> RemoveSocketTimerFromList f (g_timestamps s);
     Some (s\<lparr>g_timestamps := ts\<rparr>) }"

text \<open>\<^verbatim>\<open>SocketTimerSetLastUpdate\<close> through a pointer that may be null.\<close>

definition touch_timer :: "nat option \<Rightarrow> stack \<Rightarrow> stack" where
  "touch_timer t s = (case t of
       None \<Rightarrow> s
     | Some i \<Rightarrow> s\<lparr>g_timestamps := (g_timestamps s)
         [i := SocketTimerSetLastUpdate (g_actual_time s) (g_timestamps s ! i)]\<rparr>)"

section \<open>The listening sockets\<close>

text \<open>A new connection needs a free entry in the table of time stamps, but does not take it.\<close>

definition CheckAndHandleTcpListenerSocket :: "platform \<Rightarrow> stack \<Rightarrow> stack option" where
  "CheckAndHandleTcpListenerSocket pf s = do {
     let (ready, s) = CheckSocketSet (tcp_listener (g_network_status s)) s;
     if ready
     then do {
       let (new_socket, s) = syscall pf s;
       if new_socket = kEipInvalidSocket then Some s
       else do {
         c_assert (SocketTimerArrayGetEmptySocketTimer (g_timestamps s) \<noteq> None);
         Some (s\<lparr>master_socket := FD_SET new_socket (master_socket s),
           highest_socket_handle := max new_socket (highest_socket_handle s)\<rparr>) } }
     else Some s }"

text \<open>Both handlers of UDP messages send the answer from the unicast socket.\<close>

definition handle_udp_message :: "platform \<Rightarrow> socket_fd \<Rightarrow> bool \<Rightarrow> stack \<Rightarrow> stack option" where
  "handle_udp_message pf f unicast s = do {
     let (received_size, p, from_address, s) = recvfrom pf f PC_OPENER_ETHERNET_BUFFER_SIZE s;
     if received_size \<le> 0 then Some s
     else do {
       let sender = udp_unicast_listener (g_network_status s);
       (need_to_send, remaining_bytes, m, s) \<leftarrow> HandleReceivedExplictUdpData (os_rand pf) (platform_endianess pf)
          sender from_address (incoming_message 0 p empty_buffer) (nat received_size) unicast InitializeENIPMessage s;
       Some (if need_to_send > kEipStatusOk
             then snd (syscall pf (emit (sendto_event sender (payload m) from_address) s)) else s) } }"

definition CheckAndHandleUdpUnicastSocket :: "platform \<Rightarrow> stack \<Rightarrow> stack option" where
  "CheckAndHandleUdpUnicastSocket pf s = do {
     let (ready, s) = CheckSocketSet (udp_unicast_listener (g_network_status s)) s;
     if ready then handle_udp_message pf (udp_unicast_listener (g_network_status s)) True s else Some s }"

definition CheckAndHandleUdpGlobalBroadcastSocket :: "platform \<Rightarrow> stack \<Rightarrow> stack option" where
  "CheckAndHandleUdpGlobalBroadcastSocket pf s = do {
     let (ready, s) = CheckSocketSet (udp_global_broadcast_listener (g_network_status s)) s;
     if ready then handle_udp_message pf (udp_global_broadcast_listener (g_network_status s)) False s
     else Some s }"

section \<open>Data on a TCP socket\<close>

text \<open>Dropping a packet that does not fit the buffer: \<open>data_size\<close> counts the octets that are left and
  \<open>data_sent\<close> those the next \<^verbatim>\<open>recv\<close> asks for.\<close>

partial_function (option) drop_packet ::
    "platform \<Rightarrow> socket_fd \<Rightarrow> nat option \<Rightarrow> size_t \<Rightarrow> size_t \<Rightarrow> stack \<Rightarrow> (EipStatus \<times> stack) option" where
  "drop_packet pf f timer data_size data_sent s = do {
     let (number_of_read_bytes, p, s) = recv pf f (unat data_sent) s;
     if number_of_read_bytes = 0
     then do { s \<leftarrow> remove_timer f s; Some (kEipStatusError, s) }
     else if number_of_read_bytes < 0
     then do {
       let (error_code, s) = syscall pf s;
       Some (if os_would_block pf = error_code then kEipStatusOk else kEipStatusError, s) }
     else do {
       let data_size = data_size - of_int number_of_read_bytes;
       let data_sent = (if data_size < of_nat PC_OPENER_ETHERNET_BUFFER_SIZE \<and> data_size \<noteq> 0
                        then data_size else data_sent);
       if 0 < data_size then drop_packet pf f timer data_size data_sent s
       else Some (kEipStatusOk, touch_timer timer s) } }"

declare drop_packet.simps [code]

definition handle_tcp_packet :: "platform \<Rightarrow> stack_class list \<Rightarrow> socket_fd \<Rightarrow> nat option \<Rightarrow> buf \<Rightarrow> nat \<Rightarrow> stack
    \<Rightarrow> (EipStatus \<times> stack) option" where
  "handle_tcp_packet pf classes f timer p n s = do {
     let s = s\<lparr>g_current_active_tcp_socket := f\<rparr>;
     let k = os_index s;
     let (r, s) = syscall pf s;
     let sender_address = (if r < 0 then zero_sockaddr else os_address pf k);
     (need_to_send, remaining_bytes, m, s) \<leftarrow> HandleReceivedExplictTcpData (platform_endianess pf) classes f
        p n sender_address InitializeENIPMessage s;
     let s = touch_timer timer s;
     let s = s\<lparr>g_current_active_tcp_socket := kEipInvalidSocket\<rparr>;
     Some (kEipStatusOk,
       if need_to_send > kEipStatusOk
       then touch_timer timer (snd (syscall pf (emit (send_event f (payload m)) s))) else s) }"

text \<open>The first four octets hold the length; a packet that comes in more than two pieces is an error.\<close>

definition HandleDataOnTcpSocket :: "platform \<Rightarrow> (stack \<Rightarrow> stack_class list) \<Rightarrow> socket_fd \<Rightarrow> stack
    \<Rightarrow> (EipStatus \<times> stack) option" where
  "HandleDataOnTcpSocket pf classes f s = do {
     let (number_of_read_bytes, p, s) = recv pf f 4 s;
     let buffer = incoming_message 0 p empty_buffer;
     let timer = SocketTimerArrayGetSocketTimer (g_timestamps s) f;
     if number_of_read_bytes = 0
     then do { s \<leftarrow> remove_timer f s; s \<leftarrow> RemoveSession f s; Some (kEipStatusError, s) }
     else if number_of_read_bytes < 0
     then do {
       let (error_code, s) = syscall pf s;
       Some (if os_would_block pf = error_code then kEipStatusOk else kEipStatusError, s) }
     else do {
       (len, _) \<leftarrow> GetUintFromMessage (drop 2 buffer);
       let data_size = (ucast len :: size_t) + of_nat ENCAPSULATION_HEADER_LENGTH - 4;
       if of_nat (PC_OPENER_ETHERNET_BUFFER_SIZE - 4) < data_size
       then drop_packet pf f timer data_size (of_nat PC_OPENER_ETHERNET_BUFFER_SIZE) s
       else do {
         let (number_of_read_bytes, p, s) = recv pf f (unat data_size) s;
         let buffer = incoming_message 4 p buffer;
         if number_of_read_bytes = 0
         then do { s \<leftarrow> remove_timer f s; s \<leftarrow> RemoveSession f s; Some (kEipStatusError, s) }
         else if number_of_read_bytes < 0
         then do {
           let (error_code, s) = syscall pf s;
           Some (if os_would_block pf = error_code then kEipStatusOk else kEipStatusError, s) }
         else if nat number_of_read_bytes = unat data_size
         then handle_tcp_packet pf (classes s) f timer buffer (unat data_size + 4) s
         else Some (kEipStatusError, s) } } }"

section \<open>Data of I/O connections\<close>

text \<open>A message for the consuming socket of connection \<open>c\<close>; the result says whether the loop over the
  connections ends.\<close>

definition consume_message :: "platform \<Rightarrow> conn_ref \<Rightarrow> stack \<Rightarrow> (bool \<times> stack) option" where
  "consume_message pf c s = do {
     let (received_size, p, from_address, s) =
       recvfrom pf (udp_io_messaging (g_network_status s)) PC_OPENER_ETHERNET_BUFFER_SIZE s;
     if received_size = 0
     then do { s \<leftarrow> close_function c s; Some (False, s) }
     else if received_size < 0
     then do {
       let (error_code, s) = syscall pf s;
       if os_would_block pf = error_code then Some (True, s)
       else do { s \<leftarrow> close_function c s; Some (False, s) } }
     else do {
       (_, s) \<leftarrow> HandleReceivedConnectedData (incoming_message 0 p empty_buffer) received_size from_address s;
       Some (False, s) } }"

text \<open>The loop takes the link of a node before the connection can be closed.\<close>

partial_function (option) consume_from :: "platform \<Rightarrow> conn_ref option \<Rightarrow> stack \<Rightarrow> stack option" where
  "consume_from pf iterator s =
     (case iterator of
        None \<Rightarrow> Some s
      | Some n \<Rightarrow> do {
          c \<leftarrow> node_data n s;
          let next = next_node n s;
          let f = socket_consuming (conn s c);
          let (ready, s) = (if kEipInvalidSocket \<noteq> f then CheckSocketSet f s else (False, s));
          (stop, s) \<leftarrow> (if ready then consume_message pf c s else Some (False, s));
          if stop then Some s else consume_from pf next s })"

declare consume_from.simps [code]

definition CheckAndHandleConsumingUdpSocket :: "platform \<Rightarrow> stack \<Rightarrow> stack option" where
  "CheckAndHandleConsumingUdpSocket pf s = consume_from pf (head_node s) s"

section \<open>One cycle\<close>

text \<open>The loops over all descriptors up to the highest, which a step may raise.\<close>

partial_function (option) for_sockets ::
    "(socket_fd \<Rightarrow> stack \<Rightarrow> stack option) \<Rightarrow> socket_fd \<Rightarrow> stack \<Rightarrow> stack option" where
  "for_sockets body f s =
     (if f \<le> highest_socket_handle s then do { s \<leftarrow> body f s; for_sockets body (f + 1) s } else Some s)"

declare for_sockets.simps [code]

definition handle_tcp_socket :: "platform \<Rightarrow> (stack \<Rightarrow> stack_class list) \<Rightarrow> socket_fd \<Rightarrow> stack \<Rightarrow> stack option" where
  "handle_tcp_socket pf classes f s = do {
     let (ready, s) = CheckSocketSet f s;
     if ready
     then do {
       (status, s) \<leftarrow> HandleDataOnTcpSocket pf classes f s;
       if kEipStatusError = status
       then do { s \<leftarrow> CloseTcpSocket f s; RemoveSession f s }
       else Some s }
     else Some s }"

definition set_elapsed_time :: "MilliSeconds \<Rightarrow> stack \<Rightarrow> stack" where
  "set_elapsed_time t s = s\<lparr>g_network_status := (g_network_status s)\<lparr>network_elapsed_time := t\<rparr>\<rparr>"

definition handle_ready_sockets :: "platform \<Rightarrow> (stack \<Rightarrow> stack_class list) \<Rightarrow> stack \<Rightarrow> stack option" where
  "handle_ready_sockets pf classes s = do {
     s \<leftarrow> CheckAndHandleTcpListenerSocket pf s;
     s \<leftarrow> CheckAndHandleUdpUnicastSocket pf s;
     s \<leftarrow> CheckAndHandleUdpGlobalBroadcastSocket pf s;
     s \<leftarrow> CheckAndHandleConsumingUdpSocket pf s;
     for_sockets (handle_tcp_socket pf classes) 0 s }"

type_synonym TimeoutCheckerFunction = "MilliSeconds \<Rightarrow> stack \<Rightarrow> stack option"

primrec call_checkers :: "TimeoutCheckerFunction option list \<Rightarrow> stack \<Rightarrow> stack option" where
  "call_checkers [] s = Some s"
| "call_checkers (f # fs) s = do {
     s \<leftarrow> (case f of None \<Rightarrow> Some s | Some g \<Rightarrow> g (network_elapsed_time (g_network_status s)) s);
     call_checkers fs s }"

fun RegisterTimeoutChecker :: "TimeoutCheckerFunction \<Rightarrow> TimeoutCheckerFunction option list
    \<Rightarrow> TimeoutCheckerFunction option list" where
  "RegisterTimeoutChecker g [] = []"
| "RegisterTimeoutChecker g (f # fs) = (case f of None \<Rightarrow> Some g # fs
     | Some h \<Rightarrow> Some h # RegisterTimeoutChecker g fs)"

definition run_timers :: "platform \<Rightarrow> TimeoutCheckerFunction option list \<Rightarrow> stack \<Rightarrow> stack option" where
  "run_timers pf checkers s = do {
     let (now, s) = syscall pf s;
     let s = s\<lparr>g_actual_time := of_int now\<rparr>;
     let s = set_elapsed_time (network_elapsed_time (g_network_status s) + (g_actual_time s - g_last_time s)) s;
     let s = s\<lparr>g_last_time := g_actual_time s\<rparr>;
     if network_elapsed_time (g_network_status s) \<ge> kOpenerTimerTickInMilliSeconds
     then do {
       (_, s) \<leftarrow> ManageConnections pf (network_elapsed_time (g_network_status s)) s;
       s \<leftarrow> call_checkers checkers s;
       Some (set_elapsed_time 0 s) }
     else Some s }"

definition NetworkHandlerProcessCyclic :: "platform \<Rightarrow> (stack \<Rightarrow> stack_class list)
    \<Rightarrow> TimeoutCheckerFunction option list \<Rightarrow> stack \<Rightarrow> (EipStatus \<times> stack) option" where
  "NetworkHandlerProcessCyclic pf classes checkers s = do {
     let k = os_index s;
     let (ready_socket, s) = syscall pf s;
     if ready_socket = kEipInvalidSocket
     then do {
       let (error_code, s) = syscall pf s;
       Some (if os_interrupted pf = error_code then kEipStatusOk else kEipStatusError,
         s\<lparr>read_socket := master_socket s\<rparr>) }
     else do {
       let s = s\<lparr>read_socket :=
         filter (\<lambda>f. f \<le> highest_socket_handle s \<and> os_ready pf k f) (master_socket s)\<rparr>;
       s \<leftarrow> (if ready_socket > 0 then handle_ready_sockets pf classes s else Some s);
       s \<leftarrow> for_sockets CheckEncapsulationInactivity 0 s;
       s \<leftarrow> run_timers pf checkers s;
       Some (kEipStatusOk, s) } }"

section \<open>Setting up and shutting down\<close>

text \<open>The service information that \<^verbatim>\<open>EncapsulationInit\<close> fills never changes: it is the constant
  \<open>g_service_information\<close>; the seeded random numbers are those of the platform.\<close>

definition EncapsulationInit :: "stack \<Rightarrow> stack" where
  "EncapsulationInit s = s\<lparr>g_registered_sessions := replicate OPENER_NUMBER_OF_SUPPORTED_SESSIONS kEipInvalidSocket,
     g_delayed_encapsulation_messages :=
       map (\<lambda>d. d\<lparr>delayed_socket := kEipInvalidSocket\<rparr>) (g_delayed_encapsulation_messages s)\<rparr>"

definition GetMaxSocket :: "socket_fd \<Rightarrow> socket_fd \<Rightarrow> socket_fd \<Rightarrow> socket_fd \<Rightarrow> socket_fd" where
  "GetMaxSocket socket1 socket2 socket3 socket4 =
     (if socket1 > socket2 \<and> socket1 > socket3 \<and> socket1 > socket4 then socket1
      else if socket2 > socket1 \<and> socket2 > socket3 \<and> socket2 > socket4 then socket2
      else if socket3 > socket1 \<and> socket3 > socket2 \<and> socket3 > socket4 then socket3
      else socket4)"

text \<open>A system call whose result ends the initialisation when it is \<open>bad\<close>.\<close>

definition os_call :: "platform \<Rightarrow> (int \<Rightarrow> bool) \<Rightarrow> (int \<Rightarrow> stack \<Rightarrow> EipStatus \<times> stack) \<Rightarrow> stack
    \<Rightarrow> EipStatus \<times> stack" where
  "os_call pf bad continue s = (let (r, s) = syscall pf s in if bad r then (kEipStatusError, s) else continue r s)"

definition set_network_status :: "(NetworkStatus \<Rightarrow> NetworkStatus) \<Rightarrow> stack \<Rightarrow> stack" where
  "set_network_status f s = s\<lparr>g_network_status := f (g_network_status s)\<rparr>"

text \<open>Sets the DSCP value on a socket; a failure is only reported.\<close>

definition set_explicit_qos :: "platform \<Rightarrow> socket_fd \<Rightarrow> stack \<Rightarrow> stack" where
  "set_explicit_qos pf f s = snd (syscall pf
     (emit (SetQosOnSocket f (CipQosGetDscpPriority kConnectionObjectPriorityExplicit s)) s))"

definition prepare_network :: "OpenerEndianess \<Rightarrow> stack \<Rightarrow> stack" where
  "prepare_network e s =
     (let s = s\<lparr>g_timestamps := SocketTimerArrayInitialize (g_timestamps s)\<rparr>;
          s = CipQosUpdateUsedSetQosValues s;
          s = s\<lparr>g_tcpip := CipTcpIpCalculateMulticastIp e (g_tcpip s)\<rparr>;
          s = set_network_status (\<lambda>n. n\<lparr>
            network_ip_address := interface_ip_address (interface_configuration (g_tcpip s)),
            network_mask := interface_network_mask (interface_configuration (g_tcpip s))\<rparr>) s;
          s = EncapsulationInit s
      in s\<lparr>master_socket := [], read_socket := []\<rparr>)"

definition finish_network :: "platform \<Rightarrow> stack \<Rightarrow> EipStatus \<times> stack" where
  "finish_network pf s =
     (let t = tcp_listener (g_network_status s);
          u = udp_unicast_listener (g_network_status s);
          b = udp_global_broadcast_listener (g_network_status s);
          s = s\<lparr>master_socket := FD_SET b (FD_SET u (FD_SET t (master_socket s))),
            highest_socket_handle := GetMaxSocket t b 0 u\<rparr>;
          (now, s) = syscall pf s
      in (kEipStatusOk, set_elapsed_time 0 (s\<lparr>g_last_time := of_int now\<rparr>)))"

text \<open>The stages of the initialisation, each with what follows it.  No socket that was opened before an error
  is closed.\<close>

definition open_tcp_listener :: "platform \<Rightarrow> (stack \<Rightarrow> EipStatus \<times> stack) \<Rightarrow> stack \<Rightarrow> EipStatus \<times> stack" where
  "open_tcp_listener pf continue =
     os_call pf (\<lambda>r. r = -1) (\<lambda>f s.
       os_call pf (\<lambda>r. r = -1) (\<lambda>_.
       os_call pf (\<lambda>r. r < 0) (\<lambda>_. continue))
         (set_network_status (\<lambda>n. n\<lparr>tcp_listener := f\<rparr>) s))"

definition reuse_and_unblock :: "platform \<Rightarrow> (stack \<Rightarrow> EipStatus \<times> stack) \<Rightarrow> stack \<Rightarrow> EipStatus \<times> stack" where
  "reuse_and_unblock pf continue = os_call pf (\<lambda>r. r = -1) (\<lambda>_. os_call pf (\<lambda>r. r < 0) (\<lambda>_. continue))"

definition open_udp_listeners :: "platform \<Rightarrow> (stack \<Rightarrow> EipStatus \<times> stack) \<Rightarrow> stack \<Rightarrow> EipStatus \<times> stack" where
  "open_udp_listeners pf continue =
     os_call pf (\<lambda>r. r = kEipInvalidSocket) (\<lambda>f s.
       os_call pf (\<lambda>r. r = kEipInvalidSocket) (\<lambda>f s.
         reuse_and_unblock pf (reuse_and_unblock pf continue)
           (set_network_status (\<lambda>n. n\<lparr>udp_unicast_listener := f\<rparr>) s))
         (set_network_status (\<lambda>n. n\<lparr>udp_global_broadcast_listener := f\<rparr>) s))"

definition bind_listeners :: "platform \<Rightarrow> (stack \<Rightarrow> EipStatus \<times> stack) \<Rightarrow> stack \<Rightarrow> EipStatus \<times> stack" where
  "bind_listeners pf continue =
     os_call pf (\<lambda>r. r = -1) (\<lambda>_.
     os_call pf (\<lambda>r. r = -1) (\<lambda>_ s.
       os_call pf (\<lambda>r. 0 > r) (\<lambda>_.
       os_call pf (\<lambda>r. r = -1) (\<lambda>_ s.
         os_call pf (\<lambda>r. r = -1) (\<lambda>_. continue)
           (set_explicit_qos pf (tcp_listener (g_network_status s))
             (set_explicit_qos pf (udp_global_broadcast_listener (g_network_status s)) s))))
         (set_explicit_qos pf (udp_unicast_listener (g_network_status s)) s)))"

definition NetworkHandlerInitialize :: "platform \<Rightarrow> stack \<Rightarrow> EipStatus \<times> stack" where
  "NetworkHandlerInitialize pf s =
     open_tcp_listener pf (open_udp_listeners pf (bind_listeners pf (finish_network pf)))
       (prepare_network (platform_endianess pf) s)"

definition NetworkHandlerFinish :: "stack \<Rightarrow> (EipStatus \<times> stack) option" where
  "NetworkHandlerFinish s = do {
     s \<leftarrow> CloseTcpSocket (tcp_listener (g_network_status s)) s;
     let s = CloseUdpSocket (udp_unicast_listener (g_network_status s)) s;
     Some (kEipStatusOk, CloseUdpSocket (udp_global_broadcast_listener (g_network_status s)) s) }"

section \<open>The connections over a cycle\<close>

lemma quiet_inv: "connections_inv s \<Longrightarrow> quiet UNIV s s' \<Longrightarrow> connections_inv s'"
  by (rule inv_quiet [where A = UNIV]) simp_all

lemma ensures_bindI: "ensures Q m \<Longrightarrow> (\<And>x. Q x \<Longrightarrow> ensures P (f x)) \<Longrightarrow> ensures P (m \<bind> f)"
  by (auto simp: ensures_def bind_Some_iff)

lemma find_service_in: "find_service n ss = Some x \<Longrightarrow> x \<in> set ss"
  by (induction ss) (auto split: if_splits)

lemma GetCipClass_in: "GetCipClass cs n = Some c \<Longrightarrow> c \<in> set cs"
  by (induction cs) (auto split: if_splits)

lemma set_cpf_inv [simp]: "connections_inv (set_cpf c s) = connections_inv s"
  by (simp add: connections_inv_def conn_ok_def set_cpf_def)

lemma core_kept [simp]:
  "core (x\<lparr>sequence_count_consuming := n\<rparr>) = core x" "core (x\<lparr>last_reply_sent := m\<rparr>) = core x"
  by (simp_all add: core_def)

lemma set_conn_set_cpf [simp]: "set_conn k x (set_cpf c s) = set_cpf c (set_conn k x s)"
  by (simp add: set_conn_def set_cpf_def)

lemma set_conn_set_conn [simp]: "set_conn k x (set_conn k y s) = set_conn k x s"
  by (simp add: set_conn_def)

lemma reset_watchdog_inv:
  assumes "connections_inv (set_conn k y s)" and "core x = core y"
  shows "ensures (\<lambda>x. connections_inv (set_conn k x s)) (ConnectionObjectResetInactivityWatchdogTimerValue x)"
proof (rule ensuresI)
  fix z
  assume "ConnectionObjectResetInactivityWatchdogTimerValue x = Some z"
  then have "core z = core (conn (set_conn k y s) k)"
    using core_watchdogs(2) assms(2) by simp
  then show "connections_inv (set_conn k z s)"
    using set_core_inv [of z "set_conn k y s" k] assms(1) by simp
qed

text \<open>The invariant does not read these parts of the state.\<close>

lemma inv_fields [simp]:
  "connections_inv (s\<lparr>g_timestamps := a\<rparr>) = connections_inv s"
  "connections_inv (s\<lparr>read_socket := b\<rparr>) = connections_inv s"
  "connections_inv (s\<lparr>master_socket := c\<rparr>) = connections_inv s"
  "connections_inv (s\<lparr>highest_socket_handle := d\<rparr>) = connections_inv s"
  "connections_inv (s\<lparr>g_current_active_tcp_socket := d\<rparr>) = connections_inv s"
  "connections_inv (s\<lparr>g_actual_time := e\<rparr>) = connections_inv s"
  "connections_inv (s\<lparr>g_last_time := e\<rparr>) = connections_inv s"
  "connections_inv (s\<lparr>g_network_status := g\<rparr>) = connections_inv s"
  "connections_inv (s\<lparr>os_index := n\<rparr>) = connections_inv s"
  "connections_inv (s\<lparr>rand_index := n\<rparr>) = connections_inv s"
  "connections_inv (s\<lparr>g_delayed_encapsulation_messages := h\<rparr>) = connections_inv s"
  "connections_inv (emit i s) = connections_inv s"
  by (simp_all add: connections_inv_def conn_ok_def emit_def)

lemma touch_timer_inv [simp]: "connections_inv (touch_timer t s) = connections_inv s"
  by (simp add: touch_timer_def split: option.split)

lemma register_session_inv:
  "HandleReceivedRegisterSessionCommand f d m s = Some (m', s') \<Longrightarrow> connections_inv s \<Longrightarrow> connections_inv s'"
  by (auto simp: HandleReceivedRegisterSessionCommand_def bind_Some_iff Let_def split: if_splits option.splits)

lemma unregister_session_inv:
  "HandleReceivedUnregisterSessionCommand d m s = Some (status, m', s') \<Longrightarrow> connections_inv s \<Longrightarrow> connections_inv s'"
  by (auto simp: HandleReceivedUnregisterSessionCommand_def CloseClass3ConnectionBasedOnSession_def bind_Some_iff
      Let_def split: if_splits dest!: close_class3_inv CloseTcpSocket_inv)

text \<open>What the network handler needs of the classes of the message router: no service breaks the invariant of
  the connections.\<close>

locale connection_services =
  fixes classes :: "stack_class list"
  assumes services_keep: "connections_inv s \<Longrightarrow> c \<in> set classes
    \<Longrightarrow> x \<in> set (services c) \<union> set (meta_class_services c) \<Longrightarrow> service_function x = Some f
    \<Longrightarrow> f i request r originator h s = Some (status, r', s') \<Longrightarrow> connections_inv s'"
begin

lemma NotifyClass_keeps:
  assumes "NotifyClass c request r originator h s = Some (status, r', s')" and "c \<in> set classes"
    and "connections_inv s"
  shows "connections_inv s'"
proof (cases "GetCipInstance c (instance_number (request_path request))")
  case (Some i)
  show ?thesis
  proof (cases "find_service (service request) (if i = 0 then meta_class_services c else services c)")
    case (Some x)
    then have "x \<in> set (services c) \<union> set (meta_class_services c)"
      using find_service_in by (fastforce split: if_splits)
    moreover obtain f where "service_function x = Some f" "f i request r originator h s = Some (status, r', s')"
      using assms(1) Some \<open>GetCipInstance c _ = Some i\<close> by (auto simp: NotifyClass_def bind_Some_iff)
    ultimately show ?thesis
      using services_keep assms(2,3) by blast
  next
    case None
    then show ?thesis
      using assms \<open>GetCipInstance c _ = Some i\<close> by (simp add: NotifyClass_def)
  qed
next
  case None
  then show ?thesis
    using assms by (simp add: NotifyClass_def)
qed

lemma NotifyMessageRouter_keeps:
  assumes "NotifyMessageRouter classes p n r originator h s = Some (status, r', s')" and "connections_inv s"
  shows "connections_inv s'"
  using assms by (auto simp: NotifyMessageRouter_def bind_Some_iff split: if_splits option.splits
      dest: GetCipClass_in intro: NotifyClass_keeps)

lemma NotifyCommonPacketFormat_keeps:
  "NotifyCommonPacketFormat e classes d originator m s = Some (status, m', s') \<Longrightarrow> connections_inv s \<Longrightarrow> connections_inv s'"
  by (auto simp: NotifyCommonPacketFormat_def bind_Some_iff Let_def split: if_splits dest!: NotifyMessageRouter_keeps)

lemma NotifyConnectedCommonPacketFormat_keeps:
  assumes inv: "connections_inv s"
  shows "ensures (\<lambda>(status, m', s'). connections_inv s') (NotifyConnectedCommonPacketFormat e classes d originator m s)"
proof -
  have same: "connections_inv (set_conn k (conn s k) s)" for k
    using inv by (simp add: set_core_inv)
  have router: "ensures (\<lambda>(status, r, t'). connections_inv t') (NotifyMessageRouter classes p n r originator h t)"
    if "connections_inv t" for p n r h t
    using NotifyMessageRouter_keeps that by (auto intro!: ensuresI)
  have any: "ensures (\<lambda>_. True) n" for n :: "'b option"
    by (simp add: ensures_def)
  show ?thesis
    unfolding NotifyConnectedCommonPacketFormat_def Let_def
    apply (rule ensures_bindI [OF any])
    apply (clarsimp simp del: ensures_bind simp add: inv split: option.split)
    apply (rule ensures_bindI [OF reset_watchdog_inv [OF same refl]])
    apply (clarsimp simp del: ensures_bind)
    apply (rule ensures_bindI [OF any])
    apply (clarsimp simp del: ensures_bind)
    apply (rule ensures_bindI)
     apply (erule reset_watchdog_inv)
     apply simp
    apply (rule ensures_bindI [OF router])
     apply simp
    apply (clarsimp simp del: ensures_bind)
    apply (rule ensures_bindI [OF any])
    apply (simp add: set_core_inv)
    done
qed

lemma data_commands_keep:
  "HandleReceivedSendUnitDataCommand e classes d originator m s = Some (status, m', s') \<Longrightarrow> connections_inv s \<Longrightarrow> connections_inv s'"
  "HandleReceivedSendRequestResponseDataCommand e classes d originator m s = Some (status, m', s') \<Longrightarrow> connections_inv s
   \<Longrightarrow> connections_inv s'"
  by (auto simp: HandleReceivedSendUnitDataCommand_def HandleReceivedSendRequestResponseDataCommand_def
      handle_data_command_def bind_Some_iff Let_def split: if_splits
      dest: NotifyConnectedCommonPacketFormat_keeps [THEN ensures3D] NotifyCommonPacketFormat_keeps)

lemma HandleReceivedExplictTcpData_keeps:
  "HandleReceivedExplictTcpData e classes f p n originator m s = Some (status, k, m', s') \<Longrightarrow> connections_inv s
   \<Longrightarrow> connections_inv s'"
  by (auto simp: HandleReceivedExplictTcpData_def bind_Some_iff Let_def split: if_splits prod.splits
      dest: data_commands_keep register_session_inv unregister_session_inv)

lemma handle_tcp_packet_keeps:
  "handle_tcp_packet pf classes f timer p n s = Some (status, s') \<Longrightarrow> connections_inv s \<Longrightarrow> connections_inv s'"
  by (auto simp: handle_tcp_packet_def syscall_def bind_Some_iff Let_def split: if_splits
      dest!: HandleReceivedExplictTcpData_keeps)

end

lemma recv_inv: "recv pf f n s = (r, p, s') \<Longrightarrow> connections_inv s' = connections_inv s"
  by (auto simp: recv_def syscall_def Let_def)

lemma recvfrom_inv: "recvfrom pf f n s = (r, p, a, s') \<Longrightarrow> connections_inv s' = connections_inv s"
  by (auto simp: recvfrom_def Let_def split: prod.splits dest: recv_inv)

lemma CheckSocketSet_inv: "CheckSocketSet f s = (b, s') \<Longrightarrow> connections_inv s' = connections_inv s"
  by (auto simp: CheckSocketSet_def split: if_splits)

lemma CheckSocketSet_snd [simp]: "connections_inv (snd (CheckSocketSet f s)) = connections_inv s"
  by (simp add: CheckSocketSet_def)

lemma recvfrom_snd [simp]: "connections_inv (snd (snd (snd (recvfrom pf f n s)))) = connections_inv s"
  by (simp add: recvfrom_def recv_def syscall_def Let_def case_prod_unfold)

lemma remove_timer_inv: "remove_timer f s = Some s' \<Longrightarrow> connections_inv s' = connections_inv s"
  by (auto simp: remove_timer_def bind_Some_iff)

lemma drop_packet_inv:
  assumes "drop_packet pf f timer data_size data_sent s = Some (status, s')" and "connections_inv s"
  shows "connections_inv s'"
proof -
  have "connections_inv s \<longrightarrow> connections_inv (snd (status, s'))"
    by (rule drop_packet.raw_induct [OF _ assms(1),
          where P = "\<lambda>_ _ _ _ _ s r. connections_inv s \<longrightarrow> connections_inv (snd r)"])
      (auto simp: bind_Some_iff syscall_def Let_def split: prod.splits if_splits
        dest!: recv_inv remove_timer_inv)
  then show ?thesis
    using assms(2) by simp
qed

lemma HandleDataOnTcpSocket_inv:
  assumes "\<And>s. connection_services (classes s)"
    and "HandleDataOnTcpSocket pf classes f s = Some (status, s')" and "connections_inv s"
  shows "connections_inv s'"
  using assms(2,3)
  by (auto simp: HandleDataOnTcpSocket_def syscall_def bind_Some_iff Let_def split: prod.splits if_splits
      dest!: recv_inv remove_timer_inv RemoveSession_inv drop_packet_inv
      connection_services.handle_tcp_packet_keeps [OF assms(1)])

lemma for_sockets_inv:
  assumes "\<And>f s s'. body f s = Some s' \<Longrightarrow> connections_inv s \<Longrightarrow> connections_inv s'"
    and "for_sockets body f s = Some s'" and "connections_inv s"
  shows "connections_inv s'"
proof -
  have "body = body \<longrightarrow> connections_inv s \<longrightarrow> connections_inv s'"
    by (rule for_sockets.raw_induct [OF _ assms(2), where P = "\<lambda>b _ s s'. b = body
          \<longrightarrow> connections_inv s \<longrightarrow> connections_inv s'"])
      (auto simp: bind_Some_iff split: if_splits dest: assms(1))
  then show ?thesis
    using assms(3) by simp
qed

lemma handle_tcp_socket_inv:
  assumes "\<And>s. connection_services (classes s)"
    and "handle_tcp_socket pf classes f s = Some s'" and "connections_inv s"
  shows "connections_inv s'"
  using assms(2,3) by (auto simp: handle_tcp_socket_def bind_Some_iff Let_def split: prod.splits if_splits
      dest!: CheckSocketSet_inv CloseTcpSocket_inv RemoveSession_inv HandleDataOnTcpSocket_inv [OF assms(1)])

lemma close_function_keeps: "close_function c s = Some s' \<Longrightarrow> connections_inv s \<Longrightarrow> connections_inv s'"
  using close_function_inv by blast

lemma consume_message_inv:
  "consume_message pf c s = Some (stop, s') \<Longrightarrow> connections_inv s \<Longrightarrow> connections_inv s'"
  by (auto simp: consume_message_def syscall_def bind_Some_iff Let_def case_prod_unfold split: if_splits
      dest: close_function_keeps HandleReceivedConnectedData_inv)

lemma consume_from_inv:
  assumes "consume_from pf n s = Some s'" and "connections_inv s"
  shows "connections_inv s'"
proof -
  have "connections_inv s \<longrightarrow> connections_inv s'"
    by (rule consume_from.raw_induct [OF _ assms(1), where P = "\<lambda>_ _ s s'. connections_inv s \<longrightarrow> connections_inv s'"])
      (auto simp: bind_Some_iff Let_def case_prod_unfold split: option.splits if_splits
        dest: consume_message_inv)
  then show ?thesis
    using assms(2) ..
qed

lemma list_identity_udp_inv:
  "HandleReceivedListIdentityCommandUdp rand e f a d s = Some s' \<Longrightarrow> connections_inv s' = connections_inv s"
  by (auto simp: HandleReceivedListIdentityCommandUdp_def bind_Some_iff split: option.splits)

lemma HandleReceivedExplictUdpData_inv:
  "HandleReceivedExplictUdpData rand e f a p n unicast m s = Some (status, k, m', s') \<Longrightarrow> connections_inv s' = connections_inv s"
  by (auto simp: HandleReceivedExplictUdpData_def bind_Some_iff Let_def split: if_splits dest!: list_identity_udp_inv)

lemma handle_udp_message_inv:
  "handle_udp_message pf f unicast s = Some s' \<Longrightarrow> connections_inv s' = connections_inv s"
  by (auto simp: handle_udp_message_def syscall_def bind_Some_iff Let_def split: prod.splits if_splits
      dest!: recvfrom_inv HandleReceivedExplictUdpData_inv)

lemma listeners_inv:
  "CheckAndHandleTcpListenerSocket pf s = Some s' \<Longrightarrow> connections_inv s' = connections_inv s"
  "CheckAndHandleUdpUnicastSocket pf s = Some s' \<Longrightarrow> connections_inv s' = connections_inv s"
  "CheckAndHandleUdpGlobalBroadcastSocket pf s = Some s' \<Longrightarrow> connections_inv s' = connections_inv s"
  by (auto simp: CheckAndHandleTcpListenerSocket_def CheckAndHandleUdpUnicastSocket_def syscall_def
      CheckAndHandleUdpGlobalBroadcastSocket_def bind_Some_iff Let_def split: prod.splits if_splits
      dest!: CheckSocketSet_inv handle_udp_message_inv)

lemma handle_ready_sockets_inv:
  assumes "\<And>s. connection_services (classes s)"
    and "handle_ready_sockets pf classes s = Some s'" and "connections_inv s"
  shows "connections_inv s'"
proof -
  obtain t u where t: "CheckAndHandleConsumingUdpSocket pf t = Some u" "connections_inv t"
    and u: "for_sockets (handle_tcp_socket pf classes) 0 u = Some s'"
    using assms(2,3) by (auto simp: handle_ready_sockets_def bind_Some_iff dest!: listeners_inv)
  show ?thesis
    using t consume_from_inv handle_tcp_socket_inv [OF assms(1)]
    by (intro for_sockets_inv [OF _ u]) (auto simp: CheckAndHandleConsumingUdpSocket_def)
qed

lemma call_checkers_inv:
  "(\<And>g t s s'. Some g \<in> set fs \<Longrightarrow> g t s = Some s' \<Longrightarrow> connections_inv s \<Longrightarrow> connections_inv s')
   \<Longrightarrow> call_checkers fs s = Some s' \<Longrightarrow> connections_inv s \<Longrightarrow> connections_inv s'"
proof (induction fs arbitrary: s)
  case (Cons f fs)
  obtain t where t: "(case f of None \<Rightarrow> Some s | Some g \<Rightarrow> g (network_elapsed_time (g_network_status s)) s) = Some t"
    "call_checkers fs t = Some s'"
    using Cons.prems(2) by (auto simp: bind_Some_iff)
  have "connections_inv t"
    using t(1) Cons.prems(1,3) by (cases f) auto
  then show ?case
    using Cons.IH [OF _ t(2)] Cons.prems(1) by auto
qed simp

lemma run_timers_inv:
  assumes "\<And>g t s s'. Some g \<in> set checkers \<Longrightarrow> g t s = Some s' \<Longrightarrow> connections_inv s \<Longrightarrow> connections_inv s'"
    and "run_timers pf checkers s = Some s'" and "connections_inv s"
  shows "connections_inv s'"
proof -
  have check: "connections_inv v" if "call_checkers checkers u = Some v" "connections_inv u" for u v
    using call_checkers_inv [of checkers u v] assms(1) that by blast
  show ?thesis
    using assms(2,3)
    by (auto simp: run_timers_def set_elapsed_time_def syscall_def bind_Some_iff Let_def split: if_splits
        dest!: ManageConnections_inv dest: check)
qed

lemma cycle_inv:
  assumes "\<And>s. connection_services (classes s)"
    and "\<And>g t s s'. Some g \<in> set checkers \<Longrightarrow> g t s = Some s' \<Longrightarrow> connections_inv s \<Longrightarrow> connections_inv s'"
    and "NetworkHandlerProcessCyclic pf classes checkers s = Some (status, s')" and "connections_inv s"
  shows "connections_inv s'"
proof (cases "fst (syscall pf s) = kEipInvalidSocket")
  case True
  then show ?thesis
    using assms(3,4) by (auto simp: NetworkHandlerProcessCyclic_def syscall_def Let_def)
next
  case False
  let ?s = "(snd (syscall pf s))\<lparr>read_socket := filter (\<lambda>f. f \<le> highest_socket_handle (snd (syscall pf s))
    \<and> os_ready pf (os_index s) f) (master_socket (snd (syscall pf s)))\<rparr>"
  obtain t u where t: "(if fst (syscall pf s) > 0 then handle_ready_sockets pf classes ?s else Some ?s) = Some t"
    and u: "for_sockets CheckEncapsulationInactivity 0 t = Some u" and s': "run_timers pf checkers u = Some s'"
    using assms(3) False by (auto simp: NetworkHandlerProcessCyclic_def bind_Some_iff case_prod_unfold Let_def)
  have "connections_inv ?s"
    using assms(4) by (simp add: syscall_def)
  then have "connections_inv t"
    using t handle_ready_sockets_inv [OF assms(1)] by (auto split: if_splits)
  then have "connections_inv u"
    using CheckEncapsulationInactivity_inv by (intro for_sockets_inv [OF _ u]) auto
  then show ?thesis
    using run_timers_inv [of checkers pf u s'] assms(2) s' by blast
qed

section \<open>Dropping packets\<close>

text \<open>The octets that were received from the network between two states.\<close>

fun received :: "event \<Rightarrow> nat" where
  "received (recv_event f n) = n"
| "received _ = 0"

definition octets_received :: "stack \<Rightarrow> stack \<Rightarrow> nat" where
  "octets_received s s' = sum_list (map received (drop (length (trace s)) (trace s')))"

lemma recv_positive:
  assumes "0 < os_result pf (os_index s)" and "0 < n"
  shows "\<exists>r p. 0 < r \<and> r \<le> n \<and> int r = min (os_result pf (os_index s)) (int n) \<and> recv pf f n s = (int r, p,
    emit (recv_event f r) (s\<lparr>os_index := Suc (os_index s)\<rparr>))"
proof -
  define r where "r = nat (min (os_result pf (os_index s)) (int n))"
  have r: "0 < r" "r \<le> n" "min (os_result pf (os_index s)) (int n) = int r"
    using assms by (auto simp: r_def)
  then show ?thesis
    by (intro exI [of _ r]) (simp add: recv_def syscall_def Let_def r(3))
qed

lemma drop_packet_step:
  assumes "recv pf f (unat data_sent) s = (int r, p, t)" and "0 < r"
  shows "drop_packet pf f timer data_size data_sent s =
     (if data_size - of_nat r = 0 then Some (kEipStatusOk, touch_timer timer t)
      else drop_packet pf f timer (data_size - of_nat r)
        (if data_size - of_nat r < 512 then data_size - of_nat r else data_sent) t)"
  using assms by (subst drop_packet.simps) (simp add: PC_OPENER_ETHERNET_BUFFER_SIZE_def Let_def word_greater_zero_iff)

lemma touch_timer_trace [simp]: "trace (touch_timer t s) = trace s"
  by (simp add: touch_timer_def split: option.split)

text \<open>While the next read never asks for more than is left, the loop ends and takes exactly the octets of the
  packet from the socket.\<close>

lemma drop_packet_exact:
  assumes "\<forall>k. 0 < os_result pf k"
  shows "0 < data_sent \<Longrightarrow> data_sent \<le> 512 \<Longrightarrow> data_sent \<le> data_size \<Longrightarrow>
    \<exists>s' es. drop_packet pf f timer data_size data_sent s = Some (kEipStatusOk, s')
      \<and> trace s' = trace s @ es \<and> sum_list (map received es) = unat data_size"
proof (induction "unat data_size" arbitrary: data_size data_sent s rule: less_induct)
  case less
  obtain r p where r: "0 < r" "r \<le> unat data_sent" "recv pf f (unat data_sent) s
      = (int r, p, emit (recv_event f r) (s\<lparr>os_index := Suc (os_index s)\<rparr>))"
    using recv_positive [of pf s "unat data_sent" f] assms less.prems(1) by (auto simp: unat_gt_0)
  let ?s = "emit (recv_event f r) (s\<lparr>os_index := Suc (os_index s)\<rparr>)"
  let ?size = "data_size - of_nat r"
  have "r \<le> unat data_size"
    using r(2) less.prems(3) by (simp add: word_le_nat_alt)
  then have size: "unat ?size = unat data_size - r"
    by (metis le_unat_uoi unat_sub word_le_nat_alt)
  show ?case
  proof (cases "?size = 0")
    case True
    then have "unat data_size = r"
      using size \<open>r \<le> unat data_size\<close> by simp
    then show ?thesis
      using True drop_packet_step [OF r(3,1)] by (auto simp: emit_def)
  next
    case False
    let ?sent = "if ?size < 512 then ?size else data_sent"
    have pos: "0 < ?size"
      using False by (rule word_neq_0_conv [THEN iffD1])
    have "unat ?size < unat data_size"
      using size r(1) \<open>r \<le> unat data_size\<close> by simp
    moreover have "0 < ?sent" "?sent \<le> 512" "?sent \<le> ?size"
      using less.prems pos by (auto simp: not_less)
    ultimately obtain s' es where s': "drop_packet pf f timer ?size ?sent ?s = Some (kEipStatusOk, s')"
      "trace s' = trace ?s @ es" "sum_list (map received es) = unat ?size"
      using less.hyps [of ?size ?sent ?s] by blast
    have "drop_packet pf f timer data_size data_sent s = drop_packet pf f timer ?size ?sent ?s"
      using drop_packet_step [OF r(3,1)] False by simp
    then show ?thesis
      using s' size \<open>r \<le> unat data_size\<close> by (auto simp: emit_def intro!: exI [of _ s'])
  qed
qed

lemma count_of_difference:
  assumes "r \<le> 512"
  shows "r + unat (n - of_nat r :: size_t) = unat n + (if int r \<le> uint n then 0 else 2 ^ 64)"
proof -
  have "unat (of_nat r :: size_t) = r"
    using assms by (simp add: unat_of_nat)
  then have r: "uint (of_nat r :: size_t) = int r"
    by (metis of_nat_unat)
  have "int (unat (n - of_nat r)) = int (unat n) - int r + (if int r \<le> uint n then 0 else 2 ^ 64)"
    unfolding of_nat_unat uint_sub_if' r by (simp split: if_split)
  then show ?thesis
    by (simp del: of_nat_unat split: if_splits)
qed

text \<open>C9: a TCP packet that is too large for the buffer is dropped: as long as the socket delivers, the loop
  ends with success whatever pieces the octets come in, and it takes exactly the octets of the packet from the
  socket, unless the first read, which always asks for a whole buffer, delivers more than the packet has
  left: then the count wraps around and \<open>2 ^ 64\<close> octets more are dropped.\<close>

theorem oversized_packet_dropped:
  assumes "\<forall>k. 0 < os_result pf k" and "0 < data_size"
  shows "\<exists>s'. drop_packet pf f timer data_size (of_nat PC_OPENER_ETHERNET_BUFFER_SIZE) s = Some (kEipStatusOk, s')
    \<and> octets_received s s' = unat data_size
        + (if min (os_result pf (os_index s)) 512 \<le> uint data_size then 0 else 2 ^ 64)"
proof -
  obtain r p where r: "0 < r" "r \<le> 512" "int r = min (os_result pf (os_index s)) 512" "recv pf f 512 s
      = (int r, p, emit (recv_event f r) (s\<lparr>os_index := Suc (os_index s)\<rparr>))"
    using recv_positive [of pf s 512 f] assms(1) by auto
  let ?s = "emit (recv_event f r) (s\<lparr>os_index := Suc (os_index s)\<rparr>)"
  let ?size = "data_size - of_nat r"
  let ?sent = "if ?size < 512 then ?size else 512"
  note count = count_of_difference [OF r(2), of data_size, unfolded r(3)]
  have step: "drop_packet pf f timer data_size (of_nat PC_OPENER_ETHERNET_BUFFER_SIZE) s =
     (if ?size = 0 then Some (kEipStatusOk, touch_timer timer ?s) else drop_packet pf f timer ?size ?sent ?s)"
    using drop_packet_step [where p = p and r = r and s = s and pf = pf and f = f and timer = timer
        and data_size = data_size and data_sent = "of_nat PC_OPENER_ETHERNET_BUFFER_SIZE"] r
    by (simp add: PC_OPENER_ETHERNET_BUFFER_SIZE_def)
  show ?thesis
  proof (cases "?size = 0")
    case True
    then show ?thesis
      using step count by (simp add: emit_def octets_received_def)
  next
    case False
    then have "0 < ?sent" "?sent \<le> 512" "?sent \<le> ?size"
      using word_neq_0_conv [of ?size] by (auto simp: not_less)
    then obtain s' es where s': "drop_packet pf f timer ?size ?sent ?s = Some (kEipStatusOk, s')"
      "trace s' = trace ?s @ es" "sum_list (map received es) = unat ?size"
      using drop_packet_exact [OF assms(1)] by blast
    then have "octets_received s s' = r + unat ?size"
      by (simp add: octets_received_def emit_def)
    then show ?thesis
      using step False s'(1) count by simp
  qed
qed

theorem oversized_packet_dropped_witness:
  "(\<exists>s'. drop_packet ((example_platform 1)\<lparr>os_result := \<lambda>k. 500\<rparr>) 7 None 600 (of_nat PC_OPENER_ETHERNET_BUFFER_SIZE) initial_stack
      = Some (kEipStatusOk, s') \<and> octets_received initial_stack s' = 600)
   \<and> (\<exists>s'. drop_packet ((example_platform 1)\<lparr>os_result := \<lambda>k. 600\<rparr>) 7 None 510 (of_nat PC_OPENER_ETHERNET_BUFFER_SIZE) initial_stack
      = Some (kEipStatusOk, s') \<and> octets_received initial_stack s' = 510 + 2 ^ 64)"
  using oversized_packet_dropped [of "(example_platform 1)\<lparr>os_result := \<lambda>k. 500\<rparr>" 600 7 None initial_stack]
    oversized_packet_dropped [of "(example_platform 1)\<lparr>os_result := \<lambda>k. 600\<rparr>" 510 7 None initial_stack]
  by simp

end
