(* ===== verification/Nv_Data.thy ===== *)
theory Nv_Data
  imports Cip_Object Net_Sockets
begin

text \<open>
  The non-volatile data (\<^verbatim>\<open>ports/nvdata\<close>): the files, storing and loading the values of the quality of
  service object as text, the skeleton of the same for the TCP/IP object, and the callbacks that store after
  an attribute was written.

  The results of the file system are those of the platform: \<^verbatim>\<open>fopen\<close> delivers a pointer, and the octets of a
  file that is read are the octets of that call.  What is written is an event of the trace.
\<close>

section \<open>Files\<close>

text \<open>Opening to write first makes the directory, whatever comes of it.\<close>

definition ConfFileOpen :: "platform \<Rightarrow> bool \<Rightarrow> stack \<Rightarrow> bool \<times> buf \<times> stack" where
  "ConfFileOpen pf write s =
     (let s = (if write then snd (syscall pf s) else s);
          k = os_index s;
          (p, s) = syscall pf s
      in (p \<noteq> 0, os_octets pf k, s))"

definition ConfFileClose :: "platform \<Rightarrow> stack \<Rightarrow> EipStatus \<times> stack" where
  "ConfFileClose pf s = (let (r, s) = syscall pf s in (if 0 \<noteq> r then kEipStatusError else kEipStatusOk, s))"

section \<open>Numbers as text\<close>

text \<open>The conversion \<^verbatim>\<open>%u\<close> of \<^verbatim>\<open>fprintf\<close>, digits as ASCII octets.\<close>

fun decimal :: "nat \<Rightarrow> buf" where
  "decimal n = (if n < 10 then [of_nat (0x30 + n)] else decimal (n div 10) @ [of_nat (0x30 + n mod 10)])"

declare decimal.simps [simp del]

definition is_digit :: "u8 \<Rightarrow> bool" where
  "is_digit b \<longleftrightarrow> 0x30 \<le> b \<and> b \<le> 0x39"

definition is_space :: "u8 \<Rightarrow> bool" where
  "is_space b \<longleftrightarrow> b = 0x20 \<or> (0x09 \<le> b \<and> b \<le> 0x0D)"

definition skip_space :: "buf \<Rightarrow> buf" where
  "skip_space p = dropWhile is_space p"

definition digits_value :: "buf \<Rightarrow> nat" where
  "digits_value ds = foldl (\<lambda>v d. 10 * v + (unat d - 0x30)) 0 ds"

text \<open>The conversion \<^verbatim>\<open>%u\<close> of \<^verbatim>\<open>fscanf\<close>: \<open>Some None\<close> is a matching failure.  A number that \<^verbatim>\<open>unsigned int\<close>
  does not hold is undefined.\<close>

definition scan_unsigned :: "buf \<Rightarrow> (u32 \<times> buf) option option" where
  "scan_unsigned p =
     (let p = skip_space p;
          negative = (case p of [] \<Rightarrow> False | b # _ \<Rightarrow> b = 0x2D);
          p = (case p of [] \<Rightarrow> [] | b # q \<Rightarrow> if b = 0x2B \<or> b = 0x2D then q else p);
          ds = takeWhile is_digit p;
          v = digits_value ds
      in if ds = [] then Some None
         else if v < 2 ^ 32
         then Some (Some (if negative then - of_nat v else of_nat v, dropWhile is_digit p))
         else None)"

text \<open>The values that the format \<^verbatim>\<open>" %u, %u, ...\n"\<close> with \<open>n\<close> conversions reads before the first failure.\<close>

fun scan_list :: "nat \<Rightarrow> buf \<Rightarrow> u32 list option" where
  "scan_list 0 p = Some []"
| "scan_list (Suc n) p = do {
     r \<leftarrow> scan_unsigned p;
     case r of
       None \<Rightarrow> Some []
     | Some (v, p) \<Rightarrow> (case p of
           [] \<Rightarrow> Some [v]
         | b # p \<Rightarrow> if b = 0x2C then do { vs \<leftarrow> scan_list n p; Some (v # vs) } else Some [v]) }"

section \<open>The quality of service object\<close>

definition qos_text :: "CipQosObject \<Rightarrow> buf" where
  "qos_text q = [0x20] @ decimal (unat (dscp_urgent (dscp q))) @ [0x2C, 0x20]
     @ decimal (unat (dscp_scheduled (dscp q))) @ [0x2C, 0x20] @ decimal (unat (dscp_high (dscp q))) @ [0x2C, 0x20]
     @ decimal (unat (dscp_low (dscp q))) @ [0x2C, 0x20] @ decimal (unat (dscp_explicit_msg (dscp q))) @ [0x0A]"

text \<open>\<^verbatim>\<open>"qos.cfg"\<close>\<close>

definition QOS_CFG_NAME :: buf where
  "QOS_CFG_NAME = [0x71, 0x6F, 0x73, 0x2E, 0x63, 0x66, 0x67]"

text \<open>A variable that is not read keeps its 0, and all five values count only together.\<close>

definition UCHAR_MAX :: u32 where "UCHAR_MAX = 255"

definition NvQosLoad :: "platform \<Rightarrow> CipQosObject \<Rightarrow> stack \<Rightarrow> (EipStatus \<times> CipQosObject \<times> stack) option" where
  "NvQosLoad pf q s = do {
     let (p_file, text, s) = ConfFileOpen pf False s;
     (vs, eip_status, s) \<leftarrow> (if p_file
       then do {
         vs \<leftarrow> scan_list 5 text;
         let (eip_status, s) = ConfFileClose pf s;
         Some (vs, eip_status, s) }
       else Some ([], kEipStatusError, s));
     if kEipStatusOk = eip_status
     then case (if \<exists>v \<in> set vs. v > UCHAR_MAX then [] else vs) of
         [urgent, scheduled, high, low, explicit] \<Rightarrow>
           Some (eip_status, q\<lparr>dscp := (dscp q)\<lparr>dscp_urgent := ucast urgent, dscp_scheduled := ucast scheduled,
             dscp_high := ucast high, dscp_low := ucast low, dscp_explicit_msg := ucast explicit\<rparr>\<rparr>, s)
       | _ \<Rightarrow> Some (kEipStatusError, q, s)
     else Some (eip_status, q, s) }"

text \<open>If the file cannot be opened, nothing is stored and the result is still success.\<close>

definition NvQosStore :: "platform \<Rightarrow> CipQosObject \<Rightarrow> stack \<Rightarrow> EipStatus \<times> stack" where
  "NvQosStore pf q s =
     (let (p_file, text, s) = ConfFileOpen pf True s
      in if p_file
         then let (n, s) = syscall pf (emit (fwrite_event QOS_CFG_NAME (qos_text q)) s);
                  eip_status = (if 0 \<ge> n then kEipStatusError else kEipStatusOk);
                  (closed, s) = ConfFileClose pf s
              in (if kEipStatusError = closed then kEipStatusError else eip_status, s)
         else (kEipStatusOk, s))"

section \<open>The TCP/IP object\<close>

definition NvTcpipLoad :: "platform \<Rightarrow> stack \<Rightarrow> EipStatus \<times> stack" where
  "NvTcpipLoad pf s =
     (let (p_file, text, s) = ConfFileOpen pf False s
      in if p_file then (kEipStatusError, snd (ConfFileClose pf s)) else (kEipStatusOk, s))"

definition NvTcpipStore :: "platform \<Rightarrow> stack \<Rightarrow> EipStatus \<times> stack" where
  "NvTcpipStore pf s =
     (let (p_file, text, s) = ConfFileOpen pf True s
      in (kEipStatusError, if p_file then snd (ConfFileClose pf s) else s))"

section \<open>Loading and the callbacks\<close>

definition NvdataLoad :: "platform \<Rightarrow> stack \<Rightarrow> (EipStatus \<times> stack) option" where
  "NvdataLoad pf s = do {
     (eip_status, q, s) \<leftarrow> NvQosLoad pf (g_qos s) s;
     let s = s\<lparr>g_qos := q\<rparr>;
     if kEipStatusError \<noteq> eip_status
     then let (stored, s) = NvQosStore pf (g_qos s) s
          in Some (if kEipStatusError = stored then kEipStatusError else eip_status, s)
     else Some (eip_status, s) }"

text \<open>The services do not look at the result of a callback.\<close>

definition NvQosSetCallback :: "platform \<Rightarrow> stack get_set_callback" where
  "NvQosSetCallback pf i attribute code s =
     (if 0 \<noteq> kNvDataFunc AND attr_flags attribute then snd (NvQosStore pf (g_qos s) s) else s)"

definition NvTcpipSetCallback :: "platform \<Rightarrow> stack get_set_callback" where
  "NvTcpipSetCallback pf i attribute code s =
     (if 0 \<noteq> kNvDataFunc AND attr_flags attribute
      then if 0 = 0x80 AND code then snd (NvTcpipStore pf s) else s
      else s)"

section \<open>Properties\<close>

lemma decimal_small: "n < 10 \<Longrightarrow> decimal n = [of_nat (0x30 + n)]"
  by (subst decimal.simps) simp

lemma digit_octet: "n < 10 \<Longrightarrow> unat (of_nat (0x30 + n) :: u8) = 0x30 + n"
  by (simp only: unat_of_nat) simp

lemma is_digit_octet: "n < 10 \<Longrightarrow> is_digit (of_nat (0x30 + n))"
  unfolding is_digit_def word_le_nat_alt by (simp add: digit_octet del: of_nat_add)

lemma decimal_digits: "list_all is_digit (decimal n)"
proof (induction n rule: decimal.induct)
  case (1 n)
  then show ?case
    by (subst decimal.simps) (use is_digit_octet [of n] is_digit_octet [of "n mod 10"] in auto)
qed

lemma decimal_value: "digits_value (decimal n) = n"
proof (induction n rule: decimal.induct)
  case (1 n)
  then show ?case
    using digit_octet [of n] digit_octet [of "n mod 10"]
    by (subst decimal.simps) (auto simp: digits_value_def simp del: of_nat_add)
qed

lemma decimal_not_Nil [simp]: "decimal n \<noteq> []"
  by (subst decimal.simps) simp

lemma digit_first: "is_digit b \<Longrightarrow> \<not> is_space b \<and> b \<noteq> 0x2B \<and> b \<noteq> 0x2D"
  by (auto simp: is_digit_def is_space_def word_le_nat_alt)

lemma scan_decimal:
  assumes "n < 2 ^ 32" and "\<not> is_digit c"
  shows "scan_unsigned (0x20 # decimal n @ c # rest) = Some (Some (of_nat n, c # rest))"
proof -
  obtain b bs where d: "decimal n = b # bs" and b: "is_digit b"
    using decimal_digits [of n] by (cases "decimal n") auto
  have digits: "\<forall>x \<in> set (decimal n). is_digit x"
    using decimal_digits [of n] by (simp add: list_all_iff)
  have skip: "skip_space (0x20 # decimal n @ c # rest) = decimal n @ c # rest"
    using digit_first [OF b] by (simp add: skip_space_def d) (simp add: is_space_def)
  have "takeWhile is_digit (decimal n @ c # rest) = decimal n" "dropWhile is_digit (decimal n @ c # rest) = c # rest"
    using digits assms(2) by simp_all
  then show ?thesis
    using digit_first [OF b] assms(1) decimal_value [of n] unfolding scan_unsigned_def skip
    by (simp add: Let_def d)
qed

lemma separators: "\<not> is_digit 0x2C" "\<not> is_digit 0x0A"
  by (simp_all add: is_digit_def)

lemma scan_list_step:
  assumes "n < 2 ^ 32"
  shows "scan_list (Suc k) (0x20 # decimal n @ 0x2C # rest) = do { vs \<leftarrow> scan_list k rest; Some (of_nat n # vs) }"
    and "scan_list (Suc k) (0x20 # decimal n @ 0x0A # rest) = Some [of_nat n]"
  using scan_decimal [OF assms separators(1)] scan_decimal [OF assms separators(2)] by simp_all

lemma octet_small: "unat b < 2 ^ 32" for b :: u8
  using unsigned_less [of b, where 'a = nat] by simp

lemma five: "5 = Suc (Suc (Suc (Suc (Suc 0))))"
  by simp

lemma scan_qos_text:
  "scan_list 5 (qos_text q) = Some [ucast (dscp_urgent (dscp q)), ucast (dscp_scheduled (dscp q)),
     ucast (dscp_high (dscp q)), ucast (dscp_low (dscp q)), ucast (dscp_explicit_msg (dscp q))]"
  unfolding five qos_text_def append_assoc append_Cons append_Nil scan_list_step [OF octet_small] of_nat_unat
  by simp

lemma NvQosStore_trace:
  "trace (snd (NvQosStore pf q s)) = trace s
     @ (if fst (ConfFileOpen pf True s) then [fwrite_event QOS_CFG_NAME (qos_text q)] else [])"
  by (simp add: NvQosStore_def ConfFileOpen_def ConfFileClose_def syscall_def Let_def emit_def)

text \<open>C10: the values of the quality of service object survive a restart: when the text that storing them
  wrote is what the file holds at a later start, loading it succeeds and gives the five stored values back,
  and leaves the other members of the object as they are.\<close>

theorem stored_settings_are_loaded:
  assumes "trace s = []" and "fwrite_event QOS_CFG_NAME text \<in> set (trace (snd (NvQosStore pf q s)))"
    and "os_result pf' (os_index t) \<noteq> 0" and "os_octets pf' (os_index t) = text"
    and "os_result pf' (Suc (os_index t)) = 0"
  shows "\<exists>t'. NvQosLoad pf' q' t = Some (kEipStatusOk, q'\<lparr>dscp := (dscp q')\<lparr>dscp_urgent := dscp_urgent (dscp q),
      dscp_scheduled := dscp_scheduled (dscp q), dscp_high := dscp_high (dscp q), dscp_low := dscp_low (dscp q),
      dscp_explicit_msg := dscp_explicit_msg (dscp q)\<rparr>\<rparr>, t')"
proof -
  have stored: "text = qos_text q"
    using assms(1,2) by (simp add: NvQosStore_trace split: if_splits)
  have small: "\<not> UCHAR_MAX < ucast b" for b :: u8
    using unsigned_less [of b, where 'a = nat]
    by (simp add: UCHAR_MAX_def word_less_nat_alt unsigned_ucast_eq take_bit_nat_eq_self)
  have same: "ucast (ucast b :: u32) = b" for b :: u8
    by (rule bit_word_eqI) (simp add: bit_simps)
  show ?thesis
    using assms(3-) small by (simp add: same NvQosLoad_def ConfFileOpen_def ConfFileClose_def syscall_def stored scan_qos_text Let_def)
qed

theorem stored_settings_are_loaded_witness:
  "\<exists>t'. NvQosLoad ((example_platform 1)\<lparr>os_result := \<lambda>k. of_bool (k = 0), os_octets := \<lambda>k. qos_text (g_qos initial_stack)\<rparr>)
      \<lparr>q_frames_enable = 0, dscp = \<lparr>dscp_event = 1, dscp_general = 1, dscp_urgent = 1, dscp_scheduled = 1,
        dscp_high = 1, dscp_low = 1, dscp_explicit_msg = 1\<rparr>\<rparr> initial_stack
    = Some (kEipStatusOk, \<lparr>q_frames_enable = 0, dscp = \<lparr>dscp_event = 1, dscp_general = 1, dscp_urgent = 55,
        dscp_scheduled = 47, dscp_high = 43, dscp_low = 31, dscp_explicit_msg = 27\<rparr>\<rparr>, t')"
proof -
  have i: "trace initial_stack = []" "os_index initial_stack = 0" "dscp (g_qos initial_stack) = default_dscp"
    by (simp_all add: initial_stack_def)
  show ?thesis
    using stored_settings_are_loaded [of initial_stack "qos_text (g_qos initial_stack)" "example_platform 1"
        "g_qos initial_stack" "(example_platform 1)\<lparr>os_result := \<lambda>k. of_bool (k = 0),
          os_octets := \<lambda>k. qos_text (g_qos initial_stack)\<rparr>" initial_stack
        "\<lparr>q_frames_enable = 0, dscp = \<lparr>dscp_event = 1, dscp_general = 1, dscp_urgent = 1, dscp_scheduled = 1,
          dscp_high = 1, dscp_low = 1, dscp_explicit_msg = 1\<rparr>\<rparr>"]
    by (simp add: i NvQosStore_trace ConfFileOpen_def syscall_def example_platform_def default_dscp_def)
qed

end
