(* ===== verification/Objects.thy ===== *)
theory Objects
  imports Nv_Data Ethernet_Link Assembly Identity Conn_Manager
begin

text \<open>
  The objects of the stack as classes of the message router: the attribute tables and services that
  \<^verbatim>\<open>CipMessageRouterInit\<close>, \<^verbatim>\<open>CipIdentityInit\<close>, \<^verbatim>\<open>ConnectionManagerInit\<close>, \<^verbatim>\<open>CipAssemblyInitialize\<close>,
  \<^verbatim>\<open>CipQoSInit\<close> and \<^verbatim>\<open>CipDlrInit\<close> register, the initialisation of the application
  (\<^verbatim>\<open>ports/POSIX/sample_application/sampleapplication.c\<close>), and the start and shutdown of the stack
  (\<^verbatim>\<open>CipStackInit\<close> and \<^verbatim>\<open>ShutdownCipStack\<close> of \<^verbatim>\<open>cip/cipcommon.c\<close>).

  A table is built once; the instances of a class are in the state.
\<close>

section \<open>Message router\<close>

definition InitializeCipMessageRouterClass :: "'addr object_table \<Rightarrow> 'addr object_table option" where
  "InitializeCipMessageRouterClass t = do {
     let code = table_code t;
     t \<leftarrow> insert_attributes 0
       [class_attribute code class_revision 1 kGetableSingleAndAll,
        class_attribute code CipClassData.number_of_instances 2 kGetableSingle,
        class_attribute code CipClassData.number_of_instances 3 kGetableSingle,
        fixed_attribute 0 4 kGetableAll,
        fixed_attribute 0 5 kGetableAll,
        fixed_attribute (highest_attribute_number (class_side t)) 6 kGetableSingleAndAll,
        fixed_attribute (highest_attribute_number (instance_side t)) 7 kGetableSingleAndAll] t;
     t \<leftarrow> insert_class_service kGetAttributeAll Service_GetAttributeAll t;
     insert_class_service kGetAttributeSingle Service_GetAttributeSingle t }"

definition CipMessageRouterInit :: "(size_t \<Rightarrow> bool) \<Rightarrow> stack \<Rightarrow> ('addr object_table \<times> stack) option" where
  "CipMessageRouterInit allocates s = do {
     (t, s) \<leftarrow> created (CreateCipClass allocates kCipMessageRouterClassCode
       \<lparr>size_class_attributes = 7, size_highest_class_attribute = 7, size_class_services = 2,
        size_instance_attributes = 0, size_highest_instance_attribute = 0, size_instance_services = 1\<rparr>
       1 ''message router'' 1 (Some InitializeCipMessageRouterClass) s);
     t \<leftarrow> insert_services [(kGetAttributeSingle, Service_GetAttributeSingle)] t;
     Some (t, s) }"

section \<open>Identity\<close>

text \<open>The class attributes and services of the connection manager, which are also those of the identity
  object.\<close>

definition InitializeConnectionManager :: "'addr object_table \<Rightarrow> 'addr object_table option" where
  "InitializeConnectionManager t = do {
     let code = table_code t;
     t \<leftarrow> insert_attributes 0
       [class_attribute code class_revision 1 kGetableSingleAndAll,
        class_attribute code CipClassData.number_of_instances 2 kGetableSingleAndAll,
        class_attribute code CipClassData.number_of_instances 3 kGetableSingle,
        fixed_attribute 0 4 kNotSetOrGetable,
        fixed_attribute 0 5 kNotSetOrGetable,
        fixed_attribute (highest_attribute_number (class_side t)) 6 kGetableSingleAndAll,
        fixed_attribute (highest_attribute_number (instance_side t)) 7 kGetableSingleAndAll] t;
     t \<leftarrow> insert_class_service kGetAttributeAll Service_GetAttributeAll t;
     insert_class_service kGetAttributeSingle Service_GetAttributeSingle t }"

definition InitializeCipIdentity :: "'addr object_table \<Rightarrow> 'addr object_table option" where
  "InitializeCipIdentity t = do {
     t \<leftarrow> InitializeConnectionManager t;
     Some (t\<lparr>callbacks := (callbacks t)\<lparr>PreResetCallback := Some (\<lambda>i. IdentityObjectPreResetCallback)\<rparr>\<rparr>) }"

text \<open>The product name as a short string; the null pointer is the name that was never set.\<close>

definition product_name_string :: "CipIdentityObject \<Rightarrow> CipShortString" where
  "product_name_string i = \<lparr>short_string_length = of_nat (length (identity_product_name i)),
     short_string_octets = (if identity_product_name i = [] then None else Some (identity_product_name i))\<rparr>"

definition SetDeviceProductName :: "(size_t \<Rightarrow> bool) \<Rightarrow> buf option \<Rightarrow> stack \<Rightarrow> stack option" where
  "SetDeviceProductName allocates product_name s =
     (case product_name of
        None \<Rightarrow> Some s
      | Some p \<Rightarrow> do {
          (_, x) \<leftarrow> SetCipShortStringByCstr allocates (product_name_string (g_identity s)) p;
          Some (set_identity (\<lambda>i. i\<lparr>identity_product_name :=
            (case short_string_octets x of None \<Rightarrow> [] | Some bs \<Rightarrow> bs)\<rparr>) s) })"

text \<open>\<^verbatim>\<open>"Weight Scale"\<close>\<close>

definition OPENER_DEVICE_NAME :: buf where
  "OPENER_DEVICE_NAME = [0x57, 0x65, 0x69, 0x67, 0x68, 0x74, 0x20, 0x53, 0x63, 0x61, 0x6C, 0x65]"

definition identity_attributes :: "stack CipAttributeStruct list" where
  "identity_attributes =
     [state_attribute 1 kCipUint (\<lambda>s m. Some (EncodeCipUint (identity_vendor_id (g_identity s)) m)) None
        (\<lambda>s. le16 (identity_vendor_id (g_identity s))) kGetableSingleAndAll,
      state_attribute 2 kCipUint (\<lambda>s m. Some (EncodeCipUint (identity_device_type (g_identity s)) m)) None
        (\<lambda>s. le16 (identity_device_type (g_identity s))) kGetableSingleAndAll,
      state_attribute 3 kCipUint (\<lambda>s m. Some (EncodeCipUint (identity_product_code (g_identity s)) m)) None
        (\<lambda>s. le16 (identity_product_code (g_identity s))) kGetableSingleAndAll,
      state_attribute 4 kCipUsintUsint (\<lambda>s m. Some (EncodeRevision (g_identity s) m)) None
        (\<lambda>s. [identity_major_revision (g_identity s), identity_minor_revision (g_identity s)]) kGetableSingleAndAll,
      state_attribute 5 kCipWord (\<lambda>s m. Some (EncodeCipWord (identity_status (g_identity s)) m)) None
        (\<lambda>s. le16 (identity_status (g_identity s))) kGetableSingleAndAll,
      state_attribute 6 kCipUdint (\<lambda>s m. Some (EncodeCipUdint (identity_serial_number (g_identity s)) m)) None
        (\<lambda>s. le32 (identity_serial_number (g_identity s))) kGetableSingleAndAll,
      state_attribute 7 kCipShortString (\<lambda>s m. EncodeCipShortString (product_name_string (g_identity s)) m) None
        (\<lambda>s. [short_string_length (product_name_string (g_identity s))]) kGetableSingleAndAll]"

definition CipIdentityInit :: "(size_t \<Rightarrow> bool) \<Rightarrow> stack \<Rightarrow> ('addr object_table \<times> stack) option" where
  "CipIdentityInit allocates s = do {
     (t, s) \<leftarrow> created (CreateCipClass allocates kCipIdentityClassCode
       \<lparr>size_class_attributes = 0, size_highest_class_attribute = 7, size_class_services = 2,
        size_instance_attributes = 7, size_highest_instance_attribute = 7, size_instance_services = 5\<rparr>
       1 ''identity'' 1 (Some InitializeCipIdentity) s);
     s \<leftarrow> (if identity_product_name (g_identity s) = []
           then SetDeviceProductName allocates (Some OPENER_DEVICE_NAME) s else Some s);
     t \<leftarrow> insert_attributes 1 identity_attributes t;
     t \<leftarrow> insert_services [(kGetAttributeSingle, Service_GetAttributeSingle),
       (kGetAttributeAll, Service_GetAttributeAll), (kReset, Service_Reset),
       (kGetAttributeList, Service_GetAttributeList), (kSetAttributeList, Service_SetAttributeList)] t;
     Some (t, s) }"

section \<open>Connection manager\<close>

definition kGetConnectionOwner :: u8 where "kGetConnectionOwner = 0x5A"

text \<open>The table that goes with the state \<open>ConnectionManagerInit\<close> leaves.\<close>

definition connection_manager_table :: "platform \<Rightarrow> stack \<Rightarrow> sockaddr_in object_table option" where
  "connection_manager_table pf s = do {
     ns \<leftarrow> class_instances kCipConnectionManagerClassCode s;
     t \<leftarrow> InitializeConnectionManager (empty_table kCipConnectionManagerClassCode
       connection_manager_size ns);
     insert_services [(kGetAttributeSingle, Service_GetAttributeSingle),
       (kGetAttributeAll, Service_GetAttributeAll),
       (kForwardOpen, Service_function (ForwardOpen pf)),
       (kLargeForwardOpen, Service_function (LargeForwardOpen pf)),
       (kForwardClose, Service_function ForwardClose),
       (kGetConnectionOwner, Service_function GetConnectionOwner),
       (kGetConnectionData, Service_function GetConnectionData),
       (kSearchConnectionData, Service_function SearchConnectionData)] t }"

section \<open>Assembly\<close>

definition AssemblyPreGetCallback :: "stack get_set_callback" where
  "AssemblyPreGetCallback i attribute code s = snd (BeforeAssemblyDataSend i s)"

definition AssemblyPostSetCallback :: "stack get_set_callback" where
  "AssemblyPostSetCallback i attribute code s = (case AfterAssemblyDataReceived i of _ \<Rightarrow> s)"

definition assembly_table :: "stack \<Rightarrow> 'addr object_table option" where
  "assembly_table s = do {
     ns \<leftarrow> class_instances kCipAssemblyClassCode s;
     t \<leftarrow> default_class 1 (empty_table kCipAssemblyClassCode assembly_class_size ns);
     t \<leftarrow> insert_services [(kGetAttributeSingle, Service_GetAttributeSingle),
       (kSetAttributeSingle, Service_SetAttributeSingle)] t;
     Some (t\<lparr>instance_side := InsertGetSetCallback AssemblyPostSetCallback kPostSetFunc
       (InsertGetSetCallback AssemblyPreGetCallback kPreGetFunc (instance_side t))\<rparr>) }"

definition assembly_bytes :: "u16 \<Rightarrow> stack \<Rightarrow> CipByteArray" where
  "assembly_bytes n s = \<lparr>byte_array_length = assembly_length n s, byte_array_data = g_assembly_data s n\<rparr>"

definition assembly_attributes :: "u16 \<Rightarrow> stack CipAttributeStruct list" where
  "assembly_attributes n =
     [state_attribute 3 kCipByteArray (\<lambda>s m. EncodeCipByteArray (assembly_bytes n s) m)
        (Some (\<lambda>request r s. do {
           (k, r, s) \<leftarrow> DecodeCipAssemblyAttribute3 n request r s;
           Some (k, request, r, s) }))
        (\<lambda>s. le16 (assembly_length n s)) (kSetAndGetAble OR kPreGetFunc OR kPostSetFunc),
      state_attribute 4 kCipUint (\<lambda>s m. Some (EncodeCipUint (assembly_length n s) m)) None
        (\<lambda>s. le16 (assembly_length n s)) kGetableSingle]"

primrec add_assemblies :: "u16 list \<Rightarrow> 'addr object_table \<Rightarrow> 'addr object_table option" where
  "add_assemblies [] t = Some t"
| "add_assemblies (n # ns) t = do {
     t \<leftarrow> insert_attributes n (assembly_attributes n) (add_table_instance n t);
     add_assemblies ns t }"

section \<open>Quality of service\<close>

definition set_dscp :: "(CipQosDscpValues \<Rightarrow> CipQosDscpValues) \<Rightarrow> stack \<Rightarrow> stack" where
  "set_dscp f s = s\<lparr>g_qos := (g_qos s)\<lparr>dscp := f (dscp (g_qos s))\<rparr>\<rparr>"

definition dscp_attribute :: "(CipQosDscpValues \<Rightarrow> u8) \<Rightarrow> (u8 \<Rightarrow> CipQosDscpValues \<Rightarrow> CipQosDscpValues) \<Rightarrow> u16
    \<Rightarrow> stack CipAttributeStruct" where
  "dscp_attribute field put n = variable_attribute EncodeCipUsint DecodeCipQoSAttribute (\<lambda>v. [v])
     (\<lambda>s. field (dscp (g_qos s))) (\<lambda>v. set_dscp (put v)) n kCipUsint (kGetableSingle OR kSetable OR kNvDataFunc)"

definition qos_attributes :: "stack CipAttributeStruct list" where
  "qos_attributes =
     [state_attribute 1 kCipUsint (\<lambda>s m. Some (EncodeCipUsint (q_frames_enable (g_qos s)) m)) None
        (\<lambda>s. [q_frames_enable (g_qos s)]) kNotSetOrGetable,
      state_attribute 2 kCipUsint (\<lambda>s m. Some (EncodeCipUsint (dscp_event (dscp (g_qos s))) m)) None
        (\<lambda>s. [dscp_event (dscp (g_qos s))]) kNotSetOrGetable,
      state_attribute 3 kCipUsint (\<lambda>s m. Some (EncodeCipUsint (dscp_general (dscp (g_qos s))) m)) None
        (\<lambda>s. [dscp_general (dscp (g_qos s))]) kNotSetOrGetable,
      dscp_attribute dscp_urgent (\<lambda>v x. x\<lparr>dscp_urgent := v\<rparr>) 4,
      dscp_attribute dscp_scheduled (\<lambda>v x. x\<lparr>dscp_scheduled := v\<rparr>) 5,
      dscp_attribute dscp_high (\<lambda>v x. x\<lparr>dscp_high := v\<rparr>) 6,
      dscp_attribute dscp_low (\<lambda>v x. x\<lparr>dscp_low := v\<rparr>) 7,
      dscp_attribute dscp_explicit_msg (\<lambda>v x. x\<lparr>dscp_explicit_msg := v\<rparr>) 8]"

definition CipQoSInit :: "(size_t \<Rightarrow> bool) \<Rightarrow> stack \<Rightarrow> ('addr object_table \<times> stack) option" where
  "CipQoSInit allocates s = do {
     (t, s) \<leftarrow> created (CreateCipClass allocates kCipQoSClassCode
       \<lparr>size_class_attributes = 7, size_highest_class_attribute = 7, size_class_services = 2,
        size_instance_attributes = 8, size_highest_instance_attribute = 8, size_instance_services = 2\<rparr>
       1 ''Quality of Service'' 1 None s);
     t \<leftarrow> insert_attributes 1 qos_attributes t;
     t \<leftarrow> insert_services [(kGetAttributeSingle, Service_GetAttributeSingle),
       (kSetAttributeSingle, Service_SetAttributeSingle)] t;
     Some (t, s) }"

section \<open>Device level ring\<close>

definition kCipDlrClassCode :: u32 where "kCipDlrClassCode = 0x47"
definition kDlrCapBeaconBased :: u32 where "kDlrCapBeaconBased = 0x02"
definition kDlrCapFlushTableFrame :: u32 where "kDlrCapFlushTableFrame = 0x80"
definition DLR_CLASS_REVISION :: u16 where "DLR_CLASS_REVISION = 3"

definition s_zero_node :: CipNodeAddress where
  "s_zero_node = \<lparr>device_ip = 0, device_mac = [0, 0, 0, 0, 0, 0]\<rparr>"

definition EncodeCipRingSupervisorConfig :: "ENIPMessage \<Rightarrow> ENIPMessage" where
  "EncodeCipRingSupervisorConfig m = FillNextNMessageOctetsWithValueAndMoveToNextPosition 0 12 m"

definition EncodeCipNodeAddress :: "CipNodeAddress \<Rightarrow> ENIPMessage \<Rightarrow> ENIPMessage option" where
  "EncodeCipNodeAddress x m = EncodeCipEthernetLinkPhyisicalAddress (device_mac x) (EncodeCipUdint (device_ip x) m)"

text \<open>An attribute whose pointer is a constant.\<close>

definition constant_attribute :: "u16 \<Rightarrow> u8 \<Rightarrow> (ENIPMessage \<Rightarrow> ENIPMessage option) \<Rightarrow> buf \<Rightarrow> u8
    \<Rightarrow> stack CipAttributeStruct" where
  "constant_attribute n type encode octets flags = state_attribute n type (\<lambda>s. encode) None (\<lambda>s. octets) flags"

definition dlr_attributes :: "stack CipAttributeStruct list" where
  "dlr_attributes =
     [state_attribute 1 kCipUsint (\<lambda>s m. Some (EncodeCipUsint (network_topology (g_dlr s)) m)) None
        (\<lambda>s. [network_topology (g_dlr s)]) kGetableSingleAndAll,
      state_attribute 2 kCipUsint (\<lambda>s m. Some (EncodeCipUsint (dlr_network_status (g_dlr s)) m)) None
        (\<lambda>s. [dlr_network_status (g_dlr s)]) kGetableSingleAndAll,
      constant_attribute 3 kCipUsint (\<lambda>m. Some (EncodeCipUsint 0xFF m)) [0xFF] kGetableAll,
      constant_attribute 4 kCipAny (\<lambda>m. Some (EncodeCipRingSupervisorConfig m)) (le32 0) kGetableAllDummy,
      constant_attribute 5 kCipUint (\<lambda>m. Some (EncodeCipUint 0 m)) (le16 0) kGetableAll,
      constant_attribute 6 kCipAny (EncodeCipNodeAddress s_zero_node) (le32 0) kGetableAll,
      constant_attribute 7 kCipAny (EncodeCipNodeAddress s_zero_node) (le32 0) kGetableAll,
      constant_attribute 8 kCipUint (\<lambda>m. Some (EncodeCipUint 0xFFFF m)) (le16 0xFFFF) kGetableAll,
      state_attribute 10 kCipAny (\<lambda>s m. EncodeCipNodeAddress (active_supervisor_address (g_dlr s)) m) None
        (\<lambda>s. le32 (device_ip (active_supervisor_address (g_dlr s)))) kGetableSingleAndAll,
      constant_attribute 11 kCipUsint (\<lambda>m. Some (EncodeCipUsint 0 m)) [0] kGetableAll,
      state_attribute 12 kCipDword (\<lambda>s m. Some (EncodeCipDword (CipDlrObject.capability_flags (g_dlr s)) m)) None
        (\<lambda>s. le32 (CipDlrObject.capability_flags (g_dlr s))) kGetableSingleAndAll]"

definition CipDlrInit :: "(size_t \<Rightarrow> bool) \<Rightarrow> stack \<Rightarrow> ('addr object_table \<times> stack) option" where
  "CipDlrInit allocates s = do {
     (t, s) \<leftarrow> created (CreateCipClass allocates kCipDlrClassCode
       \<lparr>size_class_attributes = 0, size_highest_class_attribute = 7, size_class_services = 2,
        size_instance_attributes = 11, size_highest_instance_attribute = 12, size_instance_services = 2\<rparr>
       1 ''DLR'' DLR_CLASS_REVISION None s);
     t \<leftarrow> insert_services [(kGetAttributeSingle, Service_GetAttributeSingle),
       (kGetAttributeAll, Service_GetAttributeAll)] t;
     t \<leftarrow> insert_attributes 1 dlr_attributes t;
     Some (t, s\<lparr>g_dlr := (g_dlr s)\<lparr>CipDlrObject.capability_flags := kDlrCapBeaconBased OR kDlrCapFlushTableFrame\<rparr>\<rparr>) }"

section \<open>The application\<close>

text \<open>The build switches, whether \<^verbatim>\<open>malloc\<close> of a size succeeds, and the numbers and sizes of the assemblies that
  the Java side sets.\<close>

record settings =
  tcpip_settable :: bool
  ethernet_link_control :: bool
  ethernet_link_label :: bool
  dlr_device :: bool
  allocates :: "size_t \<Rightarrow> bool"
  input_assembly_num :: int
  output_assembly_num :: int
  config_assembly_num :: int
  input_size :: int
  output_size :: int
  config_size :: int

type_synonym stack_table = "sockaddr_in object_table"

text \<open>The lookup of a class that the caller goes on to change.\<close>

primrec change_table :: "u32 \<Rightarrow> (stack_table \<Rightarrow> stack_table option) \<Rightarrow> stack_table list \<Rightarrow> stack_table list option" where
  "change_table code f [] = None"
| "change_table code f (t # ts) =
     (if table_code t = code then do { t \<leftarrow> f t; Some (t # ts) }
      else do { ts \<leftarrow> change_table code f ts; Some (t # ts) })"

definition install_callback :: "stack get_set_callback \<Rightarrow> u8 \<Rightarrow> stack_table \<Rightarrow> stack_table option" where
  "install_callback f callbacks_to_install t =
     Some (t\<lparr>instance_side := InsertGetSetCallback f callbacks_to_install (instance_side t)\<rparr>)"

definition ApplicationInitialization :: "settings \<Rightarrow> platform \<Rightarrow> stack_table list \<Rightarrow> stack
    \<Rightarrow> (EipStatus \<times> stack_table list \<times> stack) option" where
  "ApplicationInitialization z pf ts s = do {
     s \<leftarrow> create_application_assemblies (allocates z) (input_assembly_num z, input_size z)
            (output_assembly_num z, output_size z) (config_assembly_num z, config_size z) s;
     ns \<leftarrow> class_instances kCipAssemblyClassCode s;
     ts \<leftarrow> (if CipCalloc (allocates z) 1 sizeof_CipByteArray
       then change_table kCipAssemblyClassCode (add_assemblies ns) ts else Some ts);
     let s = configure_application_points (of_int (input_assembly_num z)) (of_int (output_assembly_num z))
               (of_int (config_assembly_num z)) s;
     ts \<leftarrow> change_table kCipQoSClassCode (install_callback (NvQosSetCallback pf) kNvDataFunc) ts;
     ts \<leftarrow> change_table kCipTcpIpInterfaceClassCode (install_callback (NvTcpipSetCallback pf) kNvDataFunc) ts;
     Some (kEipStatusOk, ts, s) }"

section \<open>Start and shutdown of the stack\<close>

definition CipStackInit :: "settings \<Rightarrow> platform \<Rightarrow> u16 \<Rightarrow> stack \<Rightarrow> (EipStatus \<times> stack_table list \<times> stack) option" where
  "CipStackInit z pf unique_connection_id s = do {
     (router, s) \<leftarrow> CipMessageRouterInit (allocates z) s;
     (identity, s) \<leftarrow> CipIdentityInit (allocates z) s;
     (tcpip, s) \<leftarrow> CipTcpIpInterfaceInit (tcpip_settable z) (allocates z) (platform_endianess pf) s;
     (link, s) \<leftarrow> CipEthernetLinkInit (allocates z) (ethernet_link_control z) (ethernet_link_label z) s;
     (eip_status, s) \<leftarrow> ConnectionManagerInit (allocates z) unique_connection_id s;
     c_assert (kEipStatusOk = eip_status);
     manager \<leftarrow> connection_manager_table pf s;
     (eip_status, s) \<leftarrow> CipAssemblyInitialize (allocates z) s;
     c_assert (kEipStatusOk = eip_status);
     assembly \<leftarrow> assembly_table s;
     (dlr, s) \<leftarrow> (if dlr_device z then do { (t, s) \<leftarrow> CipDlrInit (allocates z) s; Some ([t], s) } else Some ([], s));
     (qos, s) \<leftarrow> CipQoSInit (allocates z) s;
     (eip_status, ts, s) \<leftarrow> ApplicationInitialization z pf
       ([router, identity, tcpip, link, manager, assembly] @ dlr @ [qos]) s;
     c_assert (kEipStatusOk = eip_status);
     Some (eip_status, ts, s) }"

text \<open>The message router's view of the classes.\<close>

definition stack_classes :: "stack_table list \<Rightarrow> stack \<Rightarrow> stack_class list" where
  "stack_classes ts s = map (router_class s) ts"

definition DeleteAllClasses :: "stack \<Rightarrow> stack" where
  "DeleteAllClasses s = s\<lparr>g_classes := []\<rparr>"

text \<open>\<^verbatim>\<open>ShutdownAssemblies\<close> frees the byte array of every instance that has attribute 3, but neither the
  instance nor the octets.\<close>

definition ShutdownAssemblies :: "stack \<Rightarrow> stack" where
  "ShutdownAssemblies s =
     (case class_instances kCipAssemblyClassCode s of
        None \<Rightarrow> s
      | Some ns \<Rightarrow> s\<lparr>g_assembly_data := (\<lambda>n. if n \<in> set ns then None else g_assembly_data s n)\<rparr>)"

definition ShutdownCipStack :: "stack \<Rightarrow> stack option" where
  "ShutdownCipStack s = do {
     s \<leftarrow> CloseAllConnections s;
     s \<leftarrow> EncapsulationShutDown s;
     Some (DeleteAllClasses (ShutdownTcpIpInterface (ShutdownAssemblies s))) }"

end
