(* ===== verification/Startup.thy ===== *)
theory Startup
  imports Objects
begin

text \<open>
  The start of the stack succeeds: the sizes that the initialisation functions announce to
  \<^verbatim>\<open>CreateCipClass\<close> have room for the attributes and services they insert, so none of the assertions on the
  way fails.
\<close>

section \<open>Room for attributes\<close>

definition free_slots :: "'st CipAttributeStruct list \<Rightarrow> nat" where
  "free_slots as = length (filter (\<lambda>a. attr_data a = None) as)"

definition masks_fit :: "stack object_class \<Rightarrow> bool" where
  "masks_fit c \<longleftrightarrow> length (get_single_bit_mask c) = Suc (CalculateIndex (highest_attribute_number c))
     \<and> length (get_all_bit_mask c) = Suc (CalculateIndex (highest_attribute_number c))
     \<and> length (set_bit_mask c) = Suc (CalculateIndex (highest_attribute_number c))"

definition fits :: "u16 \<Rightarrow> stack CipAttributeStruct \<Rightarrow> bool" where
  "fits highest a \<longleftrightarrow> attr_data a \<noteq> None \<and> attr_number a \<le> highest"

lemma free_slots_simps [simp]:
  "free_slots (replicate n unused_attribute) = n"
  by (simp add: free_slots_def unused_attribute_def)

lemma fill_slot_room:
  "attr_data a \<noteq> None \<Longrightarrow> 0 < free_slots as \<Longrightarrow> \<exists>bs. fill_slot a as = Some bs \<and> free_slots bs = free_slots as - 1"
  by (induction as) (auto simp: free_slots_def)

lemma mark_room: "n \<le> h \<Longrightarrow> length bits = Suc (CalculateIndex h) \<Longrightarrow> \<exists>bits'. mark b n bits = Some bits' \<and> length bits' = length bits"
  by (auto simp: mark_def CalculateIndex_def word_le_nat_alt less_Suc_eq_le intro: div_le_mono)

lemma InsertAttribute_room:
  assumes "masks_fit c" and "fits (highest_attribute_number c) a" and "0 < free_slots as"
  shows "\<exists>d bs. InsertAttribute a (c, as) = Some (d, bs) \<and> masks_fit d \<and> highest_attribute_number d = highest_attribute_number c
    \<and> free_slots bs = free_slots as - 1"
proof -
  obtain bs where bs: "fill_slot a as = Some bs" "free_slots bs = free_slots as - 1"
    using fill_slot_room [of a as] assms(2,3) by (auto simp: fits_def)
  have h: "attr_number a \<le> highest_attribute_number c" "attr_data a \<noteq> None"
    using assms(2) by (auto simp: fits_def)
  obtain single where "mark (attr_flags a AND kGetableSingle \<noteq> 0) (attr_number a) (get_single_bit_mask c) = Some single"
    "length single = length (get_single_bit_mask c)"
    using mark_room h(1) assms(1) by (metis masks_fit_def)
  moreover obtain all where "mark (attr_flags a AND (kGetableAll OR kGetableAllDummy) \<noteq> 0) (attr_number a) (get_all_bit_mask c) = Some all"
    "length all = length (get_all_bit_mask c)"
    using mark_room h(1) assms(1) by (metis masks_fit_def)
  moreover obtain settable where "mark (attr_flags a AND kSetable \<noteq> 0) (attr_number a) (set_bit_mask c) = Some settable"
    "length settable = length (set_bit_mask c)"
    using mark_room h(1) assms(1) by (metis masks_fit_def)
  ultimately show ?thesis
    using bs h assms(1) by (simp add: InsertAttribute_def masks_fit_def)
qed

text \<open>A table with room for \<open>n\<close> more attributes of object \<open>i\<close>.\<close>

definition room :: "'addr object_table \<Rightarrow> u16 \<Rightarrow> nat \<Rightarrow> bool" where
  "room t i n \<longleftrightarrow> masks_fit (side_of t i) \<and> (i = 0 \<or> map_of (instance_attributes t) i \<noteq> None)
     \<and> n \<le> free_slots (attributes_of t i)"

text \<open>What an insertion of attributes leaves as it is.\<close>

definition same_frame :: "'addr object_table \<Rightarrow> 'addr object_table \<Rightarrow> bool" where
  "same_frame t t' \<longleftrightarrow> table_code t' = table_code t
     \<and> highest_attribute_number (class_side t') = highest_attribute_number (class_side t)
     \<and> highest_attribute_number (instance_side t') = highest_attribute_number (instance_side t)
     \<and> (masks_fit (class_side t) \<longrightarrow> masks_fit (class_side t'))
     \<and> (masks_fit (instance_side t) \<longrightarrow> masks_fit (instance_side t'))
     \<and> class_service_slots t' = class_service_slots t \<and> instance_service_slots t' = instance_service_slots t
     \<and> number_of_attributes t' = number_of_attributes t"

lemma same_frame_refl [simp]: "same_frame t t"
  by (simp add: same_frame_def)

lemma same_frame_trans: "same_frame t u \<Longrightarrow> same_frame u v \<Longrightarrow> same_frame t v"
  by (simp add: same_frame_def)

lemma insert_attribute_room:
  assumes "room t i (Suc n)" and "fits (highest_attribute_number (side_of t i)) a"
  shows "\<exists>t'. insert_attribute i a t = Some t' \<and> same_frame t t' \<and> room t' i n
    \<and> (\<forall>j. j \<noteq> i \<longrightarrow> map_of (instance_attributes t') j = map_of (instance_attributes t) j)
    \<and> (i \<noteq> 0 \<longrightarrow> class_attributes t' = class_attributes t) \<and> (i = 0 \<longrightarrow> instance_attributes t' = instance_attributes t)"
proof (cases "i = 0")
  case True
  obtain c as where "InsertAttribute a (class_side t, class_attributes t) = Some (c, as)" "masks_fit c"
    "highest_attribute_number c = highest_attribute_number (class_side t)" "free_slots as = free_slots (class_attributes t) - 1"
    using InsertAttribute_room [of "class_side t" a "class_attributes t"] assms True
    by (auto simp: room_def side_of_def attributes_of_def)
  then show ?thesis
    using assms(1) True by (auto simp: insert_attribute_def same_frame_def room_def side_of_def attributes_of_def)
next
  case False
  obtain as where as: "map_of (instance_attributes t) i = Some as"
    using assms(1) False by (auto simp: room_def)
  then obtain c bs where "InsertAttribute a (instance_side t, as) = Some (c, bs)" "masks_fit c"
    "highest_attribute_number c = highest_attribute_number (instance_side t)" "free_slots bs = free_slots as - 1"
    using InsertAttribute_room [of "instance_side t" a as] assms False
    by (auto simp: room_def side_of_def attributes_of_def)
  then show ?thesis
    using assms(1) False as by (auto simp: insert_attribute_def same_frame_def room_def side_of_def attributes_of_def update_conv')
qed

lemma insert_attributes_room:
  "room t i (length as) \<Longrightarrow> list_all (fits (highest_attribute_number (side_of t i))) as \<Longrightarrow>
    \<exists>t'. insert_attributes i as t = Some t' \<and> same_frame t t'
    \<and> (\<forall>j. j \<noteq> i \<longrightarrow> map_of (instance_attributes t') j = map_of (instance_attributes t) j)
    \<and> (i \<noteq> 0 \<longrightarrow> class_attributes t' = class_attributes t) \<and> (i = 0 \<longrightarrow> instance_attributes t' = instance_attributes t)"
proof (induction as arbitrary: t)
  case (Cons a as)
  obtain u where u: "insert_attribute i a t = Some u" "same_frame t u" "room u i (length as)"
    "\<forall>j. j \<noteq> i \<longrightarrow> map_of (instance_attributes u) j = map_of (instance_attributes t) j"
    "i \<noteq> 0 \<longrightarrow> class_attributes u = class_attributes t" "i = 0 \<longrightarrow> instance_attributes u = instance_attributes t"
    using insert_attribute_room [of t i "length as" a] Cons.prems by auto
  have "list_all (fits (highest_attribute_number (side_of u i))) as"
    using Cons.prems(2) u(2) by (auto simp: list_all_iff fits_def same_frame_def side_of_def)
  from Cons.IH [OF u(3) this] show ?case
    using u same_frame_trans [OF u(2)] by auto
qed simp

section \<open>Room for services\<close>

definition free_services :: "'f CipServiceStruct list \<Rightarrow> nat" where
  "free_services ss = length (filter (\<lambda>s. service_function s = None) ss)"

lemma free_services_simps [simp]: "free_services (replicate n unused_service) = n"
  by (simp add: free_services_def unused_service_def)

lemma InsertService_room:
  "0 < free_services ss \<Longrightarrow> \<exists>ts. InsertService n f ss = Some ts \<and> free_services ss - 1 \<le> free_services ts"
  by (induction ss) (auto simp: free_services_def)

text \<open>What an insertion of services leaves as it is.\<close>

definition same_attributes :: "'addr object_table \<Rightarrow> 'addr object_table \<Rightarrow> bool" where
  "same_attributes t t' \<longleftrightarrow> table_code t' = table_code t \<and> class_side t' = class_side t \<and> instance_side t' = instance_side t
     \<and> class_attributes t' = class_attributes t \<and> instance_attributes t' = instance_attributes t
     \<and> number_of_attributes t' = number_of_attributes t"

lemma insert_class_service_room:
  assumes "Suc n \<le> free_services (class_service_slots t)"
  shows "\<exists>t'. insert_class_service k f t = Some t' \<and> same_attributes t t' \<and> n \<le> free_services (class_service_slots t')
    \<and> instance_service_slots t' = instance_service_slots t"
proof -
  obtain ss where "InsertService k f (class_service_slots t) = Some ss"
    "free_services (class_service_slots t) - 1 \<le> free_services ss"
    using InsertService_room [of "class_service_slots t" k f] assms by auto
  then show ?thesis
    using assms by (simp add: insert_class_service_def same_attributes_def)
qed

lemma insert_services_room:
  "length fs \<le> free_services (instance_service_slots t) \<Longrightarrow>
    \<exists>t'. insert_services fs t = Some t' \<and> same_attributes t t' \<and> class_service_slots t' = class_service_slots t"
proof (induction fs arbitrary: t)
  case (Cons x fs)
  obtain k f where x: "x = (k, f)"
    by (cases x)
  obtain ss where ss: "InsertService k f (instance_service_slots t) = Some ss"
    "free_services (instance_service_slots t) - 1 \<le> free_services ss"
    using InsertService_room [of "instance_service_slots t" k f] Cons.prems by auto
  show ?case
    using Cons.IH [of "t\<lparr>instance_service_slots := ss\<rparr>"] Cons.prems ss
    by (auto simp: x insert_service_def same_attributes_def)
qed (simp add: same_attributes_def)

section \<open>A new class\<close>

text \<open>What the class part of \<^verbatim>\<open>CreateCipClass\<close> leaves for the instances.\<close>

definition ready_table :: "u32 \<Rightarrow> class_size \<Rightarrow> u16 list \<Rightarrow> 'addr object_table \<Rightarrow> bool" where
  "ready_table code z ns t \<longleftrightarrow> table_code t = code \<and> masks_fit (instance_side t)
     \<and> highest_attribute_number (instance_side t) = size_highest_instance_attribute z
     \<and> instance_attributes t = map (\<lambda>n. (n, replicate (size_instance_attributes z) unused_attribute)) ns
     \<and> instance_service_slots t = replicate (size_instance_services z) unused_service
     \<and> number_of_attributes t = size_instance_attributes z"

lemma new_class_fits [simp]: "masks_fit (new_object_class h)" "highest_attribute_number (new_object_class h) = h"
  by (simp_all add: new_object_class_def AllocateAttributeMasks_def masks_fit_def Let_def)

lemma ready_frame:
  "ready_table code z ns t \<Longrightarrow> same_frame t t' \<Longrightarrow> instance_attributes t' = instance_attributes t \<Longrightarrow> ready_table code z ns t'"
  "ready_table code z ns t \<Longrightarrow> same_attributes t t' \<Longrightarrow> instance_service_slots t' = instance_service_slots t
   \<Longrightarrow> ready_table code z ns t'"
  by (simp_all add: ready_table_def same_frame_def same_attributes_def)

lemma class_side_room:
  assumes "length as \<le> size_class_attributes z + 7" and "list_all (fits (size_highest_class_attribute z)) as"
  shows "\<exists>t :: 'addr object_table. insert_attributes 0 as (empty_table code z ns) = Some t \<and> ready_table code z ns t
    \<and> class_service_slots t = replicate (size_class_services z) unused_service"
proof -
  let ?t = "empty_table code z ns :: 'addr object_table"
  have "room ?t 0 (length as)" "list_all (fits (highest_attribute_number (side_of ?t 0))) as"
    using assms by (simp_all add: room_def side_of_def attributes_of_def empty_table_def)
  from insert_attributes_room [OF this] obtain t where t: "insert_attributes 0 as ?t = Some t" "same_frame ?t t"
    "instance_attributes t = instance_attributes ?t"
    by auto
  have "ready_table code z ns ?t"
    by (simp add: ready_table_def empty_table_def)
  then show ?thesis
    using t ready_frame(1) [of code z ns ?t t] by (auto simp: same_frame_def empty_table_def)
qed

lemma class_services_room:
  assumes "ready_table code z ns t" and "Suc n \<le> free_services (class_service_slots t)"
  shows "\<exists>t'. insert_class_service k f t = Some t' \<and> ready_table code z ns t' \<and> n \<le> free_services (class_service_slots t')"
  using insert_class_service_room [OF assms(2), of k f] ready_frame(2) [OF assms(1)] by blast

lemma class_attribute_fits [simp]:
  "fits h (class_attribute code field n flags) \<longleftrightarrow> n \<le> h" "fits h (fixed_attribute v n flags) \<longleftrightarrow> n \<le> h"
  "fits h (state_attribute n type encode decode octets flags) \<longleftrightarrow> n \<le> h"
  "fits h (constant_attribute n type encode' octets' flags) \<longleftrightarrow> n \<le> h"
  "fits h (dscp_attribute get put n) \<longleftrightarrow> n \<le> h"
  by (simp_all add: fits_def class_attribute_def fixed_attribute_def state_attribute_def constant_attribute_def
      dscp_attribute_def variable_attribute_def)

lemma default_class_ready:
  assumes "size_highest_class_attribute z = 7" and "n \<le> 2" and "n \<le> size_class_services z"
  shows "\<exists>t :: 'addr object_table. default_class n (empty_table code z ns) = Some t \<and> ready_table code z ns t"
proof -
  let ?e = "empty_table code z ns :: 'addr object_table" and ?h = "size_highest_class_attribute z"
  let ?as = "default_class_attributes (table_code ?e) (highest_attribute_number (class_side ?e))
      (highest_attribute_number (instance_side ?e))"
  have "list_all (fits ?h) ?as"
    by (simp add: default_class_attributes_def assms(1))
  moreover have "length ?as \<le> size_class_attributes z + 7"
    by (simp add: default_class_attributes_def)
  ultimately obtain t :: "'addr object_table" where t: "insert_attributes 0 ?as ?e = Some t" "ready_table code z ns t"
    "class_service_slots t = replicate (size_class_services z) unused_service"
    using class_side_room [of ?as z code ns] by auto
  consider "n = 0" | "n = 1" | "n = 2"
    using assms(2) by linarith
  then show ?thesis
  proof cases
    case 1
    then show ?thesis
      using t by (simp add: default_class_def)
  next
    case 2
    then show ?thesis
      using t class_services_room [OF t(2), of 0 kGetAttributeSingle Service_GetAttributeSingle] assms(3)
      by (auto simp: default_class_def)
  next
    case 3
    then obtain u where u: "insert_class_service kGetAttributeAll Service_GetAttributeAll t = Some u"
      "ready_table code z ns u" "1 \<le> free_services (class_service_slots u)"
      using t class_services_room [OF t(2), of 1 kGetAttributeAll Service_GetAttributeAll] assms(3) by auto
    then show ?thesis
      using 3 t class_services_room [OF u(2), of 0 kGetAttributeSingle Service_GetAttributeSingle]
      by (auto simp: default_class_def)
  qed
qed

lemma initializers_ready:
  assumes "size_highest_class_attribute z = 7" and "2 \<le> size_class_services z"
  shows "\<exists>t :: 'addr object_table. InitializeCipMessageRouterClass (empty_table code z ns) = Some t \<and> ready_table code z ns t"
    and "\<exists>t :: 'addr object_table. InitializeConnectionManager (empty_table code z ns) = Some t \<and> ready_table code z ns t"
    and "\<exists>t :: 'addr object_table. InitializeCipIdentity (empty_table code z ns) = Some t \<and> ready_table code z ns t"
proof -
  have build: "\<exists>t :: 'addr object_table. (do {
      t \<leftarrow> insert_attributes 0 as (empty_table code z ns);
      t \<leftarrow> insert_class_service kGetAttributeAll Service_GetAttributeAll t;
      insert_class_service kGetAttributeSingle Service_GetAttributeSingle t }) = Some t \<and> ready_table code z ns t"
    if as: "length as \<le> 7" "list_all (fits 7) as" for as
  proof -
    obtain t :: "'addr object_table" where t: "insert_attributes 0 as (empty_table code z ns) = Some t"
      "ready_table code z ns t" "class_service_slots t = replicate (size_class_services z) unused_service"
      using class_side_room [of as z code ns] as assms(1) by auto
    obtain u where u: "insert_class_service kGetAttributeAll Service_GetAttributeAll t = Some u"
      "ready_table code z ns u" "1 \<le> free_services (class_service_slots u)"
      using class_services_room [OF t(2), of 1 kGetAttributeAll Service_GetAttributeAll] t(3) assms(2) by auto
    then show ?thesis
      using t(1) class_services_room [OF u(2), of 0 kGetAttributeSingle Service_GetAttributeSingle] by auto
  qed
  let ?e = "empty_table code z ns :: 'addr object_table"
  show "\<exists>t. InitializeCipMessageRouterClass ?e = Some t \<and> ready_table code z ns t"
    unfolding InitializeCipMessageRouterClass_def Let_def by (rule build) simp_all
  show manager: "\<exists>t. InitializeConnectionManager ?e = Some t \<and> ready_table code z ns t"
    unfolding InitializeConnectionManager_def Let_def by (rule build) simp_all
  show "\<exists>t. InitializeCipIdentity ?e = Some t \<and> ready_table code z ns t"
    using manager by (auto simp: InitializeCipIdentity_def ready_table_def)
qed

text \<open>Attributes and services of a class with one instance.\<close>

lemma instance_side_room:
  assumes "ready_table code z ns t" and "i \<in> set ns" and "i \<noteq> 0" and "distinct ns"
    and "length as \<le> size_instance_attributes z" and "list_all (fits (size_highest_instance_attribute z)) as"
  shows "\<exists>t'. insert_attributes i as t = Some t' \<and> same_frame t t'
    \<and> (\<forall>j. j \<noteq> i \<longrightarrow> map_of (instance_attributes t') j = map_of (instance_attributes t) j)"
proof -
  have "map_of (instance_attributes t) i = Some (replicate (size_instance_attributes z) unused_attribute)"
    using assms(1,2) by (simp add: ready_table_def map_of_map_restrict)
  then have "room t i (length as)" "list_all (fits (highest_attribute_number (side_of t i))) as"
    using assms by (simp_all add: room_def ready_table_def side_of_def attributes_of_def)
  from insert_attributes_room [OF this] show ?thesis
    by blast
qed

lemma single_instance:
  assumes "ready_table code z [1] t" and "length as \<le> size_instance_attributes z"
    and "list_all (fits (size_highest_instance_attribute z)) as" and "length fs \<le> size_instance_services z"
  shows "\<exists>t'. (do { t \<leftarrow> insert_attributes 1 as t; insert_services fs t }) = Some t' \<and> table_code t' = code"
    and "\<exists>t'. (do { t \<leftarrow> insert_services fs t; insert_attributes 1 as t }) = Some t' \<and> table_code t' = code"
proof -
  obtain u where u: "insert_attributes 1 as t = Some u" "same_frame t u"
    using instance_side_room [OF assms(1), of 1 as] assms(2,3) by auto
  have "length fs \<le> free_services (instance_service_slots u)"
    using u(2) assms(1,4) by (simp add: same_frame_def ready_table_def)
  from insert_services_room [OF this] show "\<exists>t'. (do { t \<leftarrow> insert_attributes 1 as t; insert_services fs t }) = Some t' \<and> table_code t' = code"
    using u assms(1) by (auto simp: same_frame_def same_attributes_def ready_table_def)
next
  have "length fs \<le> free_services (instance_service_slots t)"
    using assms(1,4) by (simp add: ready_table_def)
  from insert_services_room [OF this] obtain u where u: "insert_services fs t = Some u" "same_attributes t u"
    by blast
  have "room u 1 (length as)" "list_all (fits (highest_attribute_number (side_of u 1))) as"
    using assms(1,2,3) u(2) by (simp_all add: room_def ready_table_def same_attributes_def side_of_def attributes_of_def)
  from insert_attributes_room [OF this] show "\<exists>t'. (do { t \<leftarrow> insert_services fs t; insert_attributes 1 as t }) = Some t' \<and> table_code t' = code"
    using u assms(1) by (auto simp: same_frame_def same_attributes_def ready_table_def)
qed

section \<open>Memory for a class\<close>

text \<open>No structure of the classes of the stack is larger than 1024 octets.\<close>

definition grants :: "(size_t \<Rightarrow> bool) \<Rightarrow> bool" where
  "grants al \<longleftrightarrow> (\<forall>k \<le> 1024. al k)"

definition small_class :: "class_size \<Rightarrow> string \<Rightarrow> bool" where
  "small_class z name \<longleftrightarrow> size_class_attributes z \<le> 7 \<and> size_highest_class_attribute z \<le> 64 \<and> size_class_services z \<le> 8
     \<and> size_instance_attributes z \<le> 13 \<and> size_highest_instance_attribute z \<le> 64 \<and> size_instance_services z \<le> 8
     \<and> 0 < length name \<and> length name \<le> 64"

lemma grants_calloc:
  assumes "grants al" and "n * k \<le> 1024"
  shows "CipCalloc al n k" and "array_allocated al n k"
proof -
  have "(of_nat (n * k) :: size_t) \<le> of_nat 1024"
    using assms(2) by (simp only: word_le_nat_alt unat_of_nat) simp
  then show "CipCalloc al n k"
    using assms(1) unfolding CipCalloc_def grants_def by simp
  then show "array_allocated al n k"
    by (simp add: array_allocated_def)
qed

lemma grants_masks:
  assumes "grants al" and "highest \<le> 64"
  shows "masks_allocated al highest"
proof -
  have "unat highest \<le> 64"
    using assms(2) by (simp add: word_le_nat_alt)
  then show ?thesis
    using grants_calloc(1) [OF assms(1), of "1 + unat highest div 8" 1] by (simp add: masks_allocated_def)
qed

lemma grants_instance: "grants al \<Longrightarrow> n \<le> 13 \<Longrightarrow> instance_memory al n"
  by (simp add: instance_memory_def grants_calloc sizes)

section \<open>The classes\<close>

definition add_class :: "u32 \<Rightarrow> CipClassData \<Rightarrow> stack \<Rightarrow> stack" where
  "add_class code d s = s\<lparr>g_classes := g_classes s @ [(code, d)]\<rparr>"

definition new_class_data :: "u16 \<Rightarrow> nat \<Rightarrow> CipClassData" where
  "new_class_data revision n = \<lparr>class_revision = revision, max_instance = GetMaxInstanceNumber (map of_nat [1..<Suc n]),
     number_of_instances = of_nat n, instance_chain = map of_nat [1..<Suc n]\<rparr>"

lemma add_class_simps [simp]:
  "class_data c (add_class code d s) = (case class_data c s of None \<Rightarrow> if c = code then Some d else None | Some e \<Rightarrow> Some e)"
  "connection_list (add_class code d s) = connection_list s"
  "g_ethernet_link (add_class code d s) = g_ethernet_link s"
  "g_identity (add_class code d s) = g_identity s"
  by (auto simp: add_class_def class_data_def map_add_def split: option.split)

lemma other_fields_class_data [simp]:
  "class_data c (s\<lparr>g_ethernet_link := a\<rparr>) = class_data c s" "class_data c (s\<lparr>g_dlr := b\<rparr>) = class_data c s"
  "class_data c (s\<lparr>g_identity := f\<rparr>) = class_data c s" "class_data c (s\<lparr>g_incarnation_id := h\<rparr>) = class_data c s"
  "class_data c (s\<lparr>g_connection_management_list := l\<rparr>) = class_data c s"
  "class_data c (s\<lparr>g_assembly_data := m\<rparr>) = class_data c s"
  by (simp_all add: class_data_def)

lemma of_nat_u16_eq: "a < 2 ^ 16 \<Longrightarrow> b < 2 ^ 16 \<Longrightarrow> (of_nat a :: u16) = of_nat b \<longleftrightarrow> a = b"
  by (simp add: word_of_nat_eq_iff take_bit_nat_eq_self)

lemma add_instances_fresh:
  "instance_memory al as \<Longrightarrow> 0 < a \<Longrightarrow> a + k \<le> 2 ^ 16 \<Longrightarrow>
   add_instances al as k (of_nat a) (map of_nat [1..<a]) = Some (map of_nat [a..<a + k], map of_nat [1..<a + k])"
proof (induction k arbitrary: a)
  case (Suc k)
  have "(of_nat a :: u16) \<notin> set (map of_nat [1..<a])"
    using Suc.prems by (auto simp: of_nat_u16_eq simp del: of_nat_eq_iff)
  then have "find_free_number (Suc (length (map of_nat [1..<a] :: u16 list))) (of_nat a) (map of_nat [1..<a]) = Some (of_nat a)"
    by simp
  moreover have "map of_nat [1..<a] @ [of_nat a :: u16] = map of_nat [1..<Suc a]"
    using Suc.prems(2) by simp
  moreover have "add_instances al as k (of_nat (Suc a)) (map of_nat [1..<Suc a])
      = Some (map of_nat [Suc a..<Suc a + k], map of_nat [1..<Suc a + k])"
    using Suc.IH [of "Suc a"] Suc.prems by simp
  ultimately show ?case
    using Suc.prems(1,2) by (simp add: add.commute upt_conv_Cons instance_memory_def del: upt_Suc find_free_number.simps)
qed simp

lemma register_new:
  assumes "class_data code s = None" and "n < 2 ^ 16" and "grants al" and "small_class z name"
  shows "register_class al code z (of_nat n) name revision s = Some (kEipStatusOk, add_class code (new_class_data revision n) s)"
proof -
  have n: "unat (of_nat n :: u16) = n"
    using assms(2) by (simp add: unat_of_nat)
  note small = assms(4) [unfolded small_class_def]
  have "CipCalloc al 1 sizeof_CipClass" "CipCalloc al 1 sizeof_CipMessageRouterObject"
    "CipCalloc al (length name + 1) 1" "CipCalloc al 1 (length name + 6)"
    "CipCalloc al (size_class_attributes z + 7) sizeof_CipAttributeStruct"
    "array_allocated al (size_class_services z) sizeof_CipServiceStruct"
    "array_allocated al (size_instance_services z) sizeof_CipServiceStruct"
    "masks_allocated al (size_highest_class_attribute z)" "masks_allocated al (size_highest_instance_attribute z)"
    using small by (auto intro!: grants_calloc grants_masks assms(3) simp: sizes)
  note memory = this
  have add: "add_instances al (size_instance_attributes z) n 1 [] = Some (map of_nat [1..<Suc n], map of_nat [1..<Suc n])"
    using add_instances_fresh [of al _ 1 n] grants_instance [OF assms(3)] assms(2) small by simp
  show ?thesis
  proof (cases "n = 0")
    case False
    then have "(of_nat n :: u16) \<noteq> 0"
      using n by auto
    then show ?thesis
      using assms(1) small memory by (simp add: register_class_def RegisterCipClass_def AddCipInstances_def n add add_class_def new_class_data_def
          word_neq_0_conv del: upt_Suc)
  qed (use assms(1) small memory in \<open>simp add: register_class_def RegisterCipClass_def add_class_def new_class_data_def GetMaxInstanceNumber_def\<close>)
qed

lemma CreateCipClass_new:
  assumes "class_data code s = None" and "n < 2 ^ 16" and "grants al" and "small_class z name"
    and "(case f of None \<Rightarrow> default_class (size_class_services z) (empty_table code z (map of_nat [1..<Suc n]))
          | Some g \<Rightarrow> g (empty_table code z (map of_nat [1..<Suc n]))) = Some t"
  shows "created (CreateCipClass al code z (of_nat n) name revision f s) = Some (t, add_class code (new_class_data revision n) s)"
  using assms(1,5) register_new [OF assms(1-4), of revision]
  by (simp add: CreateCipClass_def created_def class_instances_def new_class_data_def del: upt_Suc One_nat_def)

lemma one_instance: "map of_nat [1..<Suc 1] = [1 :: u16]"
  by simp

lemma CipMessageRouterInit_starts:
  assumes "class_data kCipMessageRouterClassCode s = None" and "grants al"
  shows "\<exists>t :: 'addr object_table. CipMessageRouterInit al s
     = Some (t, add_class kCipMessageRouterClassCode (new_class_data 1 1) s) \<and> table_code t = kCipMessageRouterClassCode"
proof -
  let ?z = "\<lparr>size_class_attributes = 7, size_highest_class_attribute = 7, size_class_services = 2,
    size_instance_attributes = 0, size_highest_instance_attribute = 0, size_instance_services = 1\<rparr>"
  obtain t :: "'addr object_table" where t: "InitializeCipMessageRouterClass (empty_table kCipMessageRouterClassCode ?z [1]) = Some t"
    "ready_table kCipMessageRouterClassCode ?z [1] t"
    using initializers_ready(1) [of ?z kCipMessageRouterClassCode "[1]"] by auto
  have "created (CreateCipClass al kCipMessageRouterClassCode ?z 1 ''message router'' 1 (Some InitializeCipMessageRouterClass) s)
      = Some (t, add_class kCipMessageRouterClassCode (new_class_data 1 1) s)"
    using CreateCipClass_new [OF assms(1) _ assms(2), where n = 1 and f = "Some InitializeCipMessageRouterClass" and z = ?z and t = t] t(1)
    by (simp add: one_instance small_class_def)
  moreover obtain u where "insert_services [(kGetAttributeSingle, Service_GetAttributeSingle)] t = Some u"
    "table_code u = kCipMessageRouterClassCode"
    using single_instance(1) [OF t(2), of "[]" "[(kGetAttributeSingle, Service_GetAttributeSingle)]"] by auto
  ultimately show ?thesis
    by (simp add: CipMessageRouterInit_def del: insert_services.simps)
qed

lemma CipIdentityInit_starts:
  assumes "class_data kCipIdentityClassCode s = None" and "grants al"
  shows "\<exists>(t :: 'addr object_table) name. CipIdentityInit al s = Some (t, set_identity (\<lambda>i. i\<lparr>identity_product_name := name\<rparr>)
       (add_class kCipIdentityClassCode (new_class_data 1 1) s)) \<and> table_code t = kCipIdentityClassCode"
proof -
  let ?z = "\<lparr>size_class_attributes = 0, size_highest_class_attribute = 7, size_class_services = 2,
    size_instance_attributes = 7, size_highest_instance_attribute = 7, size_instance_services = 5\<rparr>"
  let ?s = "add_class kCipIdentityClassCode (new_class_data 1 1) s"
  let ?fs = "[(kGetAttributeSingle, Service_GetAttributeSingle), (kGetAttributeAll, Service_GetAttributeAll),
    (kReset, Service_Reset), (kGetAttributeList, Service_GetAttributeList),
    (kSetAttributeList, Service_SetAttributeList)] :: (u8 \<times> 'addr service_ref) list"
  obtain t :: "'addr object_table" where t: "InitializeCipIdentity (empty_table kCipIdentityClassCode ?z [1]) = Some t"
    "ready_table kCipIdentityClassCode ?z [1] t"
    using initializers_ready(3) [of ?z kCipIdentityClassCode "[1]"] by auto
  have create: "created (CreateCipClass al kCipIdentityClassCode ?z 1 ''identity'' 1 (Some InitializeCipIdentity) s) = Some (t, ?s)"
    using CreateCipClass_new [OF assms(1) _ assms(2), where n = 1 and f = "Some InitializeCipIdentity" and z = ?z and t = t] t(1)
    by (simp add: one_instance small_class_def)
  have "length identity_attributes \<le> 7" "list_all (fits 7) identity_attributes"
    by (simp_all add: identity_attributes_def)
  then obtain u where u: "(do { t \<leftarrow> insert_attributes 1 identity_attributes t; insert_services ?fs t }) = Some u"
    "table_code u = kCipIdentityClassCode"
    using single_instance(1) [OF t(2), of identity_attributes ?fs] by auto
  have "\<exists>name. (if identity_product_name (g_identity ?s) = [] then SetDeviceProductName al (Some OPENER_DEVICE_NAME) ?s
      else Some ?s) = Some (set_identity (\<lambda>i. i\<lparr>identity_product_name := name\<rparr>) ?s)"
  proof (cases "identity_product_name (g_identity ?s) = []")
    case True
    then show ?thesis
      by (auto simp: SetDeviceProductName_def SetCipShortStringByCstr_def SetCipShortStringByData_def copied_def
          OPENER_DEVICE_NAME_def Let_def)
  next
    case False
    then show ?thesis
      by (intro exI [of _ "identity_product_name (g_identity ?s)"]) (simp add: set_identity_def)
  qed
  then show ?thesis
    using create u by (auto simp: CipIdentityInit_def bind_Some_iff simp del: insert_services.simps)
qed

lemma plain_class_starts:
  assumes "class_data code s = None" and "grants al" and "small_class z name"
    and "size_highest_class_attribute z = 7" and "size_class_services z \<le> 2"
    and "length as \<le> size_instance_attributes z" and "list_all (fits (size_highest_instance_attribute z)) as"
    and "length fs \<le> size_instance_services z"
  shows "\<exists>(t :: 'addr object_table) u v.
    created (CreateCipClass al code z 1 name revision None s) = Some (t, add_class code (new_class_data revision 1) s)
    \<and> (do { t \<leftarrow> insert_attributes 1 as t; insert_services fs t }) = Some u \<and> table_code u = code
    \<and> (do { t \<leftarrow> insert_services fs t; insert_attributes 1 as t }) = Some v \<and> table_code v = code"
proof -
  obtain t :: "'addr object_table" where t: "default_class (size_class_services z) (empty_table code z [1]) = Some t"
    "ready_table code z [1] t"
    using default_class_ready [OF assms(4,5) order_refl, of code "[1]"] by auto
  have "created (CreateCipClass al code z 1 name revision None s) = Some (t, add_class code (new_class_data revision 1) s)"
    using CreateCipClass_new [OF assms(1) _ assms(2,3), where n = 1 and f = None and t = t] t(1) by (simp add: one_instance)
  then show ?thesis
    using single_instance [OF t(2) assms(6,7,8)] by blast
qed

lemma CipTcpIpInterfaceInit_starts:
  assumes "class_data kCipTcpIpInterfaceClassCode s = None" and "grants al"
  shows "\<exists>t :: 'addr object_table. CipTcpIpInterfaceInit settable al e s
     = Some (t, add_class kCipTcpIpInterfaceClassCode (new_class_data 4 1) s) \<and> table_code t = kCipTcpIpInterfaceClassCode"
proof -
  let ?z = "\<lparr>size_class_attributes = 0, size_highest_class_attribute = 7, size_class_services = 2,
    size_instance_attributes = 13, size_highest_instance_attribute = 13, size_instance_services = 3\<rparr>"
  let ?fs = "[(kGetAttributeSingle, Service_GetAttributeSingle), (kGetAttributeAll, Service_GetAttributeAll),
    (kSetAttributeSingle, Service_SetAttributeSingle)] :: (u8 \<times> 'addr service_ref) list"
  have "length (tcpip_attributes settable al e) \<le> 13" "list_all (fits 13) (tcpip_attributes settable al e)"
    by (simp_all add: tcpip_attributes_def)
  then show ?thesis
    using plain_class_starts [OF assms, of ?z "''TCP/IP interface''" "tcpip_attributes settable al e" ?fs 4]
    by (auto simp: CipTcpIpInterfaceInit_def bind_Some_iff small_class_def simp del: insert_services.simps)
qed

lemma CipQoSInit_starts:
  assumes "class_data kCipQoSClassCode s = None" and "grants al"
  shows "\<exists>t :: 'addr object_table. CipQoSInit al s
     = Some (t, add_class kCipQoSClassCode (new_class_data 1 1) s) \<and> table_code t = kCipQoSClassCode"
proof -
  let ?z = "\<lparr>size_class_attributes = 7, size_highest_class_attribute = 7, size_class_services = 2,
    size_instance_attributes = 8, size_highest_instance_attribute = 8, size_instance_services = 2\<rparr>"
  let ?fs = "[(kGetAttributeSingle, Service_GetAttributeSingle), (kSetAttributeSingle, Service_SetAttributeSingle)]
    :: (u8 \<times> 'addr service_ref) list"
  have "length qos_attributes \<le> 8" "list_all (fits 8) qos_attributes"
    by (simp_all add: qos_attributes_def)
  then show ?thesis
    using plain_class_starts [OF assms, of ?z "''Quality of Service''" qos_attributes ?fs 1]
    by (auto simp: CipQoSInit_def bind_Some_iff small_class_def simp del: insert_services.simps)
qed

lemma CipDlrInit_starts:
  assumes "class_data kCipDlrClassCode s = None" and "grants al"
  shows "\<exists>(t :: 'addr object_table) d. CipDlrInit al s = Some (t, (add_class kCipDlrClassCode (new_class_data 3 1) s)\<lparr>g_dlr := d\<rparr>)
     \<and> table_code t = kCipDlrClassCode"
proof -
  let ?z = "\<lparr>size_class_attributes = 0, size_highest_class_attribute = 7, size_class_services = 2,
    size_instance_attributes = 11, size_highest_instance_attribute = 12, size_instance_services = 2\<rparr>"
  let ?fs = "[(kGetAttributeSingle, Service_GetAttributeSingle), (kGetAttributeAll, Service_GetAttributeAll)]
    :: (u8 \<times> 'addr service_ref) list"
  have "length dlr_attributes \<le> 11" "list_all (fits 12) dlr_attributes"
    by (simp_all add: dlr_attributes_def)
  then show ?thesis
    using plain_class_starts [OF assms, of ?z "''DLR''" dlr_attributes ?fs 3]
    by (auto simp: CipDlrInit_def DLR_CLASS_REVISION_def bind_Some_iff small_class_def simp del: insert_services.simps)
qed

lemma map_of_instances: "n \<in> set ns \<Longrightarrow> map_of (map (\<lambda>n. (n, x)) ns) n = Some x"
  by (induction ns) auto

text \<open>One instance of the Ethernet link per interface.\<close>

lemma link_attributes_fit: "length (link_attributes ctrl label idx) = 11" "list_all (fits 11) (link_attributes ctrl label idx)"
  by (simp_all add: link_attributes_def Let_def)

lemma insert_links_room:
  "masks_fit (instance_side t) \<Longrightarrow> highest_attribute_number (instance_side t) = 11 \<Longrightarrow> distinct ids
   \<Longrightarrow> \<forall>idx \<in> set ids. idx + 1 < 2 ^ 16 \<and> map_of (instance_attributes t) (of_nat (idx + 1)) = Some (replicate 11 unused_attribute)
   \<Longrightarrow> \<exists>t'. insert_links ctrl label ids t = Some t' \<and> table_code t' = table_code t"
proof (induction ids arbitrary: t)
  case (Cons idx ids)
  let ?i = "of_nat (idx + 1) :: u16"
  have i: "?i \<noteq> 0"
    using Cons.prems(4) of_nat_u16_eq [of "idx + 1" 0] by auto
  have m: "map_of (instance_attributes t) ?i = Some (replicate 11 unused_attribute)"
    using Cons.prems(4) by simp
  have "room t ?i (length (link_attributes ctrl label idx))"
    "list_all (fits (highest_attribute_number (side_of t ?i))) (link_attributes ctrl label idx)"
    using i m Cons.prems(1,2) link_attributes_fit by (simp_all add: room_def side_of_def attributes_of_def)
  from insert_attributes_room [OF this] obtain u where
    u: "insert_attributes ?i (link_attributes ctrl label idx) t = Some u" "same_frame t u"
      "\<forall>j. j \<noteq> ?i \<longrightarrow> map_of (instance_attributes u) j = map_of (instance_attributes t) j"
    by blast
  have "of_nat (j + 1) \<noteq> ?i" if "j \<in> set ids" for j
    using that Cons.prems(3,4) of_nat_u16_eq [of "j + 1" "idx + 1"] by auto
  then have "\<exists>t'. insert_links ctrl label ids u = Some t' \<and> table_code t' = table_code u"
    using u Cons.prems by (intro Cons.IH) (auto simp: same_frame_def)
  then show ?case
    using u by (auto simp: same_frame_def)
qed simp

lemma CipEthernetLinkInit_starts:
  assumes "class_data CIP_ETHERNETLINK_CLASS_CODE s = None" and "length (g_ethernet_link s) < 2 ^ 16" and "grants al"
  shows "\<exists>(t :: 'addr object_table) l. CipEthernetLinkInit al ctrl label s = Some (t,
       (add_class CIP_ETHERNETLINK_CLASS_CODE (new_class_data 4 (length (g_ethernet_link s))) s)\<lparr>g_ethernet_link := l\<rparr>)
     \<and> table_code t = CIP_ETHERNETLINK_CLASS_CODE"
proof -
  let ?z = "\<lparr>size_class_attributes = 0, size_highest_class_attribute = 7, size_class_services = 2,
    size_instance_attributes = 11, size_highest_instance_attribute = 11, size_instance_services = 2 + of_bool ctrl\<rparr>"
  let ?fs = "[(kGetAttributeSingle, Service_GetAttributeSingle), (kGetAttributeAll, Service_GetAttributeAll)]
    @ (if ctrl then [(kSetAttributeSingle, Service_SetAttributeSingle)] else []) :: (u8 \<times> 'addr service_ref) list"
  let ?n = "length (g_ethernet_link s)"
  let ?ns = "map of_nat [1..<Suc ?n] :: u16 list"
  obtain t :: "'addr object_table" where t: "default_class 2 (empty_table CIP_ETHERNETLINK_CLASS_CODE ?z ?ns) = Some t"
    "ready_table CIP_ETHERNETLINK_CLASS_CODE ?z ?ns t"
    using default_class_ready [of ?z 2 CIP_ETHERNETLINK_CLASS_CODE ?ns] by auto
  have create: "created (CreateCipClass al CIP_ETHERNETLINK_CLASS_CODE ?z (of_nat ?n) ''Ethernet Link'' 4 None s)
      = Some (t, add_class CIP_ETHERNETLINK_CLASS_CODE (new_class_data 4 ?n) s)"
    using CreateCipClass_new [OF assms, where f = None and z = ?z and t = t] t(1) by (simp add: small_class_def)
  have "length ?fs \<le> free_services (instance_service_slots t)"
    by (cases ctrl) (use t(2) in \<open>simp_all add: ready_table_def free_services_def unused_service_def\<close>)
  from insert_services_room [OF this] obtain u where u: "insert_services ?fs t = Some u" "same_attributes t u"
    by blast
  have "map_of (instance_attributes u) (of_nat (idx + 1)) = Some (replicate 11 unused_attribute)" if "idx < ?n" for idx
  proof -
    have "of_nat (idx + 1) \<in> set ?ns"
      unfolding set_map by (rule imageI) (use that in auto)
    moreover have "instance_attributes u = map (\<lambda>n. (n, replicate 11 unused_attribute)) ?ns"
      using u(2) t(2) by (simp add: same_attributes_def ready_table_def del: upt_Suc map_map)
    ultimately show ?thesis
      by (simp only: map_of_instances)
  qed
  then obtain v where "insert_links ctrl label [0..<?n] u = Some v" "table_code v = table_code u"
    using insert_links_room [of u "[0..<?n]" ctrl label] u(2) t(2) assms(2) by (auto simp: same_attributes_def ready_table_def)
  then show ?thesis
    using create u t(2) by (auto simp: CipEthernetLinkInit_def Let_def bind_Some_iff same_attributes_def ready_table_def
        simp del: insert_services.simps)
qed

lemma connection_manager_table_starts:
  assumes "class_instances kCipConnectionManagerClassCode s = Some [1]"
  shows "\<exists>t. connection_manager_table pf s = Some t \<and> table_code t = kCipConnectionManagerClassCode"
proof -
  let ?z = connection_manager_size
  let ?fs = "[(kGetAttributeSingle, Service_GetAttributeSingle), (kGetAttributeAll, Service_GetAttributeAll),
    (kForwardOpen, Service_function (ForwardOpen pf)), (kLargeForwardOpen, Service_function (LargeForwardOpen pf)),
    (kForwardClose, Service_function ForwardClose), (kGetConnectionOwner, Service_function GetConnectionOwner),
    (kGetConnectionData, Service_function GetConnectionData),
    (kSearchConnectionData, Service_function SearchConnectionData)]"
  obtain t :: "sockaddr_in object_table" where
    t: "InitializeConnectionManager (empty_table kCipConnectionManagerClassCode ?z [1]) = Some t"
      "ready_table kCipConnectionManagerClassCode ?z [1] t"
    using initializers_ready(2) [of ?z kCipConnectionManagerClassCode "[1]"] by (auto simp: connection_manager_size_def)
  obtain u where "insert_services ?fs t = Some u" "table_code u = kCipConnectionManagerClassCode"
    using single_instance(1) [OF t(2), of "[]" ?fs] by (auto simp: connection_manager_size_def)
  then show ?thesis
    using assms t(1) by (simp add: connection_manager_table_def del: insert_services.simps)
qed

lemma ConnectionManagerInit_starts:
  assumes "class_data kCipConnectionManagerClassCode s = None" and "grants al"
  shows "\<exists>s'. ConnectionManagerInit al u s = Some (kEipStatusOk, s') \<and> connection_list s' = connection_list s
    \<and> g_classes s' = g_classes s @ [(kCipConnectionManagerClassCode, new_class_data 1 1)]"
proof -
  let ?s = "InitializeConnectionManagerData s"
  have same: "g_classes ?s = g_classes s" "connection_list ?s = connection_list s"
    by (simp_all add: InitializeConnectionManagerData_def InitializeIoConnectionData_def InitializeClass3ConnectionData_def)
  then have "register_class al kCipConnectionManagerClassCode connection_manager_size 1 ''connection manager'' 1 ?s
      = Some (kEipStatusOk, add_class kCipConnectionManagerClassCode (new_class_data 1 1) ?s)"
    using register_new [of kCipConnectionManagerClassCode ?s 1 al connection_manager_size] assms
    by (simp add: class_data_def small_class_def connection_manager_size_def)
  then show ?thesis
    using same by (auto simp: ConnectionManagerInit_def AddConnectableObject_def add_class_def Let_def case_prod_unfold)
qed

section \<open>The assemblies\<close>

lemma callback_frame [simp]:
  "masks_fit (InsertGetSetCallback f k c) = masks_fit c"
  "highest_attribute_number (InsertGetSetCallback f k c) = highest_attribute_number c"
  by (simp_all add: InsertGetSetCallback_def masks_fit_def Let_def)

text \<open>A table that takes further assemblies.\<close>

definition assembly_room :: "'addr object_table \<Rightarrow> bool" where
  "assembly_room t \<longleftrightarrow> masks_fit (instance_side t) \<and> highest_attribute_number (instance_side t) = 4
     \<and> number_of_attributes t = 2 \<and> table_code t = kCipAssemblyClassCode"

lemma assembly_table_starts:
  assumes "class_instances kCipAssemblyClassCode s = Some []"
  shows "\<exists>t :: 'addr object_table. assembly_table s = Some t \<and> assembly_room t \<and> instance_attributes t = []"
proof -
  let ?z = assembly_class_size
  let ?fs = "[(kGetAttributeSingle, Service_GetAttributeSingle), (kSetAttributeSingle, Service_SetAttributeSingle)]
    :: (u8 \<times> 'addr service_ref) list"
  obtain t :: "'addr object_table" where t: "default_class 1 (empty_table kCipAssemblyClassCode ?z []) = Some t"
    "ready_table kCipAssemblyClassCode ?z [] t"
    using default_class_ready [of ?z 1 kCipAssemblyClassCode "[]"] by (auto simp: assembly_class_size_def)
  have "length ?fs \<le> free_services (instance_service_slots t)"
    using t(2) by (simp add: ready_table_def free_services_def unused_service_def assembly_class_size_def)
  from insert_services_room [OF this] obtain u where u: "insert_services ?fs t = Some u" "same_attributes t u"
    by blast
  then show ?thesis
    using assms t by (simp add: assembly_table_def assembly_room_def same_attributes_def ready_table_def assembly_class_size_def
        del: insert_services.simps)
qed

lemma add_assemblies_room:
  "assembly_room t \<Longrightarrow> distinct ns \<Longrightarrow> \<forall>n \<in> set ns. n \<noteq> 0 \<and> map_of (instance_attributes t) n = None
   \<Longrightarrow> \<exists>t'. add_assemblies ns t = Some t' \<and> table_code t' = kCipAssemblyClassCode"
proof (induction ns arbitrary: t)
  case (Cons n ns)
  let ?t = "add_table_instance n t"
  have n: "n \<noteq> 0" "map_of (instance_attributes t) n = None"
    using Cons.prems(3) by auto
  then have t: "instance_attributes ?t = instance_attributes t @ [(n, replicate 2 unused_attribute)]" "assembly_room ?t"
    using Cons.prems(1) by (simp_all add: add_table_instance_def assembly_room_def)
  then have "room ?t n (length (assembly_attributes n))"
    "list_all (fits (highest_attribute_number (side_of ?t n))) (assembly_attributes n)"
    using n by (simp_all add: room_def side_of_def attributes_of_def assembly_room_def assembly_attributes_def map_add_def
        free_slots_def unused_attribute_def)
  from insert_attributes_room [OF this] obtain u where u: "insert_attributes n (assembly_attributes n) ?t = Some u"
    "same_frame ?t u" "\<forall>j. j \<noteq> n \<longrightarrow> map_of (instance_attributes u) j = map_of (instance_attributes ?t) j"
    by blast
  have "\<exists>t'. add_assemblies ns u = Some t' \<and> table_code t' = kCipAssemblyClassCode"
    using Cons.prems(2,3) t u by (intro Cons.IH) (auto simp: assembly_room_def same_frame_def map_add_def)
  then show ?case
    using u(1) by simp
qed (simp add: assembly_room_def)

text \<open>The assemblies in the state: their numbers are distinct and none is 0.\<close>

definition assemblies :: "stack \<Rightarrow> u16 list \<Rightarrow> bool" where
  "assemblies s ns \<longleftrightarrow> class_instances kCipAssemblyClassCode s = Some ns \<and> distinct ns \<and> 0 \<notin> set ns \<and> length ns < 2 ^ 16"

lemma CreateAssemblyObject_starts:
  assumes "assemblies s ns" and "i \<notin> set ns" and "i \<noteq> 0" and "length ns + 1 < 2 ^ 16" and "grants al"
  shows "\<exists>s'. CreateAssemblyObject al i p len s = Some s' \<and> assemblies s' (ns @ [i]) \<and> connection_list s' = connection_list s"
proof -
  obtain d where d: "class_data kCipAssemblyClassCode s = Some d" "instance_chain d = ns"
    using assms(1) by (auto simp: assemblies_def class_instances_def)
  obtain m where m: "find_free_number (Suc (length ns)) 1 ns = Some m"
    using find_free_number_found [of ns 1] assms(4) by auto
  obtain d' where d': "AddCipInstance al 2 i d = Some d'" "instance_chain d' = ns @ [i]"
    using d(2) assms(2,3) m grants_instance [OF assms(5), of 2]
    by (auto simp: AddCipInstance_def AddCipInstances_def instance_memory_def has_instance_def simp del: find_free_number.simps)
  then show ?thesis
    using d assms by (auto simp: CreateAssemblyObject_def Let_def assembly_class_size_def has_instance_def assemblies_def class_instances_def
        set_class_data_def class_data_def map_of_set)
qed

lemma CreateDynamicAssembly_starts:
  assumes "assemblies s ns" and "i \<notin> set ns" and "i \<noteq> 0" and "length ns + 1 < 2 ^ 16" and "grants al"
  shows "\<exists>s' ns'. CreateDynamicAssembly al i n s = Some s' \<and> assemblies s' ns' \<and> connection_list s' = connection_list s
    \<and> set ns' \<subseteq> insert i (set ns) \<and> length ns' \<le> length ns + 1"
proof (cases "al n")
  case True
  then show ?thesis
    using CreateAssemblyObject_starts [OF assms, of "Some (replicate (unat n) 0)" "ucast n"]
    by (fastforce simp: CreateDynamicAssembly_def)
qed (use assms(1) in \<open>auto simp: CreateDynamicAssembly_def\<close>)

lemma create_application_assemblies_starts:
  assumes "assemblies s []" and "distinct [0, 152, 153, 154, of_int (fst input), of_int (fst output), of_int (fst config) :: u16]" and "grants al"
  shows "\<exists>s' ns. create_application_assemblies al input output config s = Some s' \<and> assemblies s' ns
    \<and> connection_list s' = connection_list s"
proof -
  have d: "of_int (fst input) \<noteq> (0 :: u16)" "of_int (fst output) \<noteq> (0 :: u16)" "of_int (fst config) \<noteq> (0 :: u16)"
    "of_int (fst output) \<noteq> (of_int (fst input) :: u16)" "of_int (fst config) \<noteq> (of_int (fst input) :: u16)"
    "of_int (fst config) \<noteq> (of_int (fst output) :: u16)"
    "\<And>k. k \<in> {152, 153, 154 :: u16} \<Longrightarrow> k \<noteq> of_int (fst input) \<and> k \<noteq> of_int (fst output) \<and> k \<noteq> of_int (fst config)"
    using assms(2) by auto
  obtain s1 n1 where 1: "CreateDynamicAssembly al (of_int (fst input)) (of_int (snd input)) s = Some s1"
    "assemblies s1 n1" "connection_list s1 = connection_list s" "set n1 \<subseteq> {of_int (fst input)}" "length n1 \<le> 1"
    using CreateDynamicAssembly_starts [OF assms(1), of "of_int (fst input)" al "of_int (snd input)"] assms(3) d(1) by auto
  obtain s2 n2 where 2: "CreateDynamicAssembly al (of_int (fst output)) (of_int (snd output)) s1 = Some s2"
    "assemblies s2 n2" "connection_list s2 = connection_list s" "set n2 \<subseteq> {of_int (fst output), of_int (fst input)}" "length n2 \<le> 2"
    using CreateDynamicAssembly_starts [OF 1(2), of "of_int (fst output)" al "of_int (snd output)"] assms(3) 1(3-) d(2,4) by fastforce
  obtain s3 n3 where 3: "CreateDynamicAssembly al (of_int (fst config)) (of_int (snd config)) s2 = Some s3"
    "assemblies s3 n3" "connection_list s3 = connection_list s"
    "set n3 \<subseteq> {of_int (fst config), of_int (fst output), of_int (fst input)}" "length n3 \<le> 3"
    using CreateDynamicAssembly_starts [OF 2(2), of "of_int (fst config)" al "of_int (snd config)"] assms(3) 2(3-) d(3,5,6) by fastforce
  have fresh: "k \<notin> set n3" if "k \<in> {152, 153, 154 :: u16}" for k
    using d(7) [OF that] 3(4) by blast
  obtain s4 where 4: "CreateAssemblyObject al 152 None 0 s3 = Some s4" "assemblies s4 (n3 @ [152])"
    "connection_list s4 = connection_list s"
    using CreateAssemblyObject_starts [OF 3(2) fresh, of 152 al None 0] assms(3) 3(3,5) by auto
  obtain s5 where 5: "CreateAssemblyObject al 153 None 0 s4 = Some s5" "assemblies s5 (n3 @ [152, 153])"
    "connection_list s5 = connection_list s"
    using CreateAssemblyObject_starts [OF 4(2), of 153 al None 0] 4(3) fresh [of 153] assms(3) 3(5) by auto
  obtain s6 where "CreateAssemblyObject al 154 (Some (replicate 32 0)) 32 s5 = Some s6" "assemblies s6 (n3 @ [152, 153, 154])"
    "connection_list s6 = connection_list s"
    using CreateAssemblyObject_starts [OF 5(2), of 154 al "Some (replicate 32 0)" 32] 5(3) fresh [of 154] assms(3) 3(5) by auto
  then show ?thesis
    using 1(1) 2(1) 3(1) 4(1) 5(1)
    by (auto simp: create_application_assemblies_def DEMO_APP_HEARTBEAT_INPUT_ONLY_ASSEMBLY_NUM_def
        DEMO_APP_HEARTBEAT_LISTEN_ONLY_ASSEMBLY_NUM_def DEMO_APP_EXPLICT_ASSEMBLY_NUM_def)
qed

lemma CreateAssemblyClass_starts:
  assumes "class_data kCipAssemblyClassCode s = None" and "grants al"
  shows "CipAssemblyInitialize al s = Some (kEipStatusOk, add_class kCipAssemblyClassCode (new_class_data 2 0) s)"
    and "assemblies (add_class kCipAssemblyClassCode (new_class_data 2 0) s) []"
  using assms register_new [of kCipAssemblyClassCode s 0 al assembly_class_size "''assembly''" 2]
  by (simp_all add: CipAssemblyInitialize_def CreateAssemblyClass_def small_class_def assembly_class_size_def assemblies_def class_instances_def new_class_data_def)

lemma change_table_found:
  assumes "code \<in> set (map table_code ts)"
    and "\<And>t. t \<in> set ts \<Longrightarrow> table_code t = code \<Longrightarrow> \<exists>t'. f t = Some t' \<and> table_code t' = code"
  shows "\<exists>ts'. change_table code f ts = Some ts' \<and> map table_code ts' = map table_code ts"
  using assms
proof (induction ts)
  case (Cons t ts)
  then show ?case
    by (cases "table_code t = code") fastforce+
qed simp

lemma install_callback_code: "\<exists>t'. install_callback f k t = Some t' \<and> table_code t' = table_code t"
  by (simp add: install_callback_def)

lemma ApplicationInitialization_starts:
  assumes "assemblies s []" and "distinct [0, 152, 153, 154, of_int (input_assembly_num z), of_int (output_assembly_num z),
      of_int (config_assembly_num z) :: u16]" and "grants (allocates z)"
    and "\<And>t. t \<in> set ts \<Longrightarrow> table_code t = kCipAssemblyClassCode \<Longrightarrow> assembly_room t \<and> instance_attributes t = []"
    and "{kCipAssemblyClassCode, kCipQoSClassCode, kCipTcpIpInterfaceClassCode} \<subseteq> set (map table_code ts)"
  shows "\<exists>ts' s'. ApplicationInitialization z pf ts s = Some (kEipStatusOk, ts', s')
    \<and> map table_code ts' = map table_code ts \<and> connection_list s' = connection_list s"
proof -
  obtain s1 ns where 1: "create_application_assemblies (allocates z) (input_assembly_num z, input_size z)
      (output_assembly_num z, output_size z) (config_assembly_num z, config_size z) s = Some s1"
    "assemblies s1 ns" "connection_list s1 = connection_list s"
    using create_application_assemblies_starts [OF assms(1), of "(input_assembly_num z, input_size z)"
        "(output_assembly_num z, output_size z)" "(config_assembly_num z, config_size z)" "allocates z"] assms(2,3) by auto
  have ns: "class_instances kCipAssemblyClassCode s1 = Some ns" "distinct ns" "0 \<notin> set ns"
    using 1(2) by (simp_all add: assemblies_def)
  obtain t1 where t1: "change_table kCipAssemblyClassCode (add_assemblies ns) ts = Some t1" "map table_code t1 = map table_code ts"
    using change_table_found [of kCipAssemblyClassCode ts "add_assemblies ns"] assms(4,5) add_assemblies_room [OF _ ns(2)] ns(3)
    by fastforce
  obtain t2 where t2: "change_table kCipQoSClassCode (install_callback (NvQosSetCallback pf) kNvDataFunc) t1 = Some t2"
    "map table_code t2 = map table_code ts"
    using change_table_found [of kCipQoSClassCode t1] assms(5) t1(2) install_callback_code by (metis insert_subset)
  obtain t3 where t3: "change_table kCipTcpIpInterfaceClassCode (install_callback (NvTcpipSetCallback pf) kNvDataFunc) t2 = Some t3"
    "map table_code t3 = map table_code ts"
    using change_table_found [of kCipTcpIpInterfaceClassCode t2] assms(5) t2(2) install_callback_code by (metis insert_subset)
  have points: "connection_list (configure_application_points a b c s1) = connection_list s" for a b c
    using 1(3) by (simp add: configure_application_points_def ConfigureListenOnlyConnectionPoint_def
        ConfigureInputOnlyConnectionPoint_def ConfigureExclusiveOwnerConnectionPoint_def)
  show ?thesis
    using 1(1) ns(1) t1(1) t2(1) t3 points grants_calloc(1) [OF assms(3), of 1 sizeof_CipByteArray]
    by (auto simp: sizeof_CipByteArray_def ApplicationInitialization_def Let_def)
qed

section \<open>The stack\<close>

lemma class_codes_distinct:
  "distinct [kCipIdentityClassCode, kCipMessageRouterClassCode, kCipAssemblyClassCode, kCipConnectionManagerClassCode,
     kCipDlrClassCode, kCipQoSClassCode, kCipTcpIpInterfaceClassCode, CIP_ETHERNETLINK_CLASS_CODE]"
  "distinct [CIP_ETHERNETLINK_CLASS_CODE, kCipTcpIpInterfaceClassCode, kCipQoSClassCode, kCipDlrClassCode,
     kCipConnectionManagerClassCode, kCipAssemblyClassCode, kCipMessageRouterClassCode, kCipIdentityClassCode]"
  by (simp_all add: kCipIdentityClassCode_def kCipMessageRouterClassCode_def kCipAssemblyClassCode_def
      kCipConnectionManagerClassCode_def kCipDlrClassCode_def kCipQoSClassCode_def kCipTcpIpInterfaceClassCode_def
      CIP_ETHERNETLINK_CLASS_CODE_def)

lemma class_data_identity [simp]:
  "class_data c (set_identity f s) = class_data c s" "connection_list (set_identity f s) = connection_list s"
  "g_ethernet_link (set_identity f s) = g_ethernet_link s"
  by (simp_all add: set_identity_def class_data_def)

lemma last_class:
  "g_classes s' = g_classes s @ [(code, d)] \<Longrightarrow> class_data code s = None \<Longrightarrow> class_data code s' = Some d"
  "g_classes s' = g_classes s @ [(code, d)] \<Longrightarrow> c \<noteq> code \<Longrightarrow> class_data c s' = class_data c s"
  by (simp_all add: class_data_def map_add_def split: option.split)

lemma dlr_starts:
  assumes "class_data kCipDlrClassCode s = None" and "class_data kCipAssemblyClassCode s = Some a"
    and "class_data kCipQoSClassCode s = None" and "grants al"
  shows "\<exists>(ts :: 'addr object_table list) s'. (if dlr_device z then do { (t, s) \<leftarrow> CipDlrInit al s; Some ([t], s) } else Some ([], s)) = Some (ts, s')
    \<and> map table_code ts = (if dlr_device z then [kCipDlrClassCode] else []) \<and> connection_list s' = connection_list s
    \<and> class_data kCipAssemblyClassCode s' = Some a \<and> class_data kCipQoSClassCode s' = None"
proof (cases "dlr_device z")
  case True
  obtain t :: "'addr object_table" and d where "CipDlrInit al s = Some (t, (add_class kCipDlrClassCode (new_class_data 3 1) s)\<lparr>g_dlr := d\<rparr>)"
    "table_code t = kCipDlrClassCode"
    using CipDlrInit_starts [OF assms(1,4)] by blast
  then show ?thesis
    using True assms class_codes_distinct by auto
qed (use assms in simp)

lemma CipStackInit_starts:
  assumes "g_classes s = []" and "length (g_ethernet_link s) < 2 ^ 16"
    and "distinct [0, 152, 153, 154, of_int (input_assembly_num z), of_int (output_assembly_num z),
      of_int (config_assembly_num z) :: u16]" and "grants (allocates z)"
  shows "\<exists>ts s'. CipStackInit z pf u s = Some (kEipStatusOk, ts, s')
    \<and> map table_code ts = [kCipMessageRouterClassCode, kCipIdentityClassCode, kCipTcpIpInterfaceClassCode,
        CIP_ETHERNETLINK_CLASS_CODE, kCipConnectionManagerClassCode, kCipAssemblyClassCode]
        @ (if dlr_device z then [kCipDlrClassCode] else []) @ [kCipQoSClassCode]
    \<and> connection_list s' = connection_list s"
proof -
  have none: "class_data c s = None" for c
    by (simp add: class_data_def assms(1))
  obtain router :: stack_table where 1: "CipMessageRouterInit (allocates z) s = Some (router, add_class kCipMessageRouterClassCode (new_class_data 1 1) s)"
    "table_code router = kCipMessageRouterClassCode"
    using CipMessageRouterInit_starts [OF none assms(4)] by blast
  let ?s1 = "add_class kCipMessageRouterClassCode (new_class_data 1 1) s"
  obtain ident :: stack_table and name where
    2: "CipIdentityInit (allocates z) ?s1 = Some (ident, set_identity (\<lambda>i. i\<lparr>identity_product_name := name\<rparr>)
       (add_class kCipIdentityClassCode (new_class_data 1 1) ?s1))" "table_code ident = kCipIdentityClassCode"
    using CipIdentityInit_starts [of ?s1 "allocates z"] none assms(4) class_codes_distinct by auto
  define s2 where "s2 = set_identity (\<lambda>i. i\<lparr>identity_product_name := name\<rparr>)
       (add_class kCipIdentityClassCode (new_class_data 1 1) ?s1)"
  have s2: "connection_list s2 = connection_list s" "g_ethernet_link s2 = g_ethernet_link s"
    "class_data kCipAssemblyClassCode s2 = None" "class_data kCipConnectionManagerClassCode s2 = None"
    "class_data kCipDlrClassCode s2 = None" "class_data kCipQoSClassCode s2 = None"
    "class_data kCipTcpIpInterfaceClassCode s2 = None" "class_data CIP_ETHERNETLINK_CLASS_CODE s2 = None"
    using none class_codes_distinct by (simp_all add: s2_def)
  obtain tcpip :: stack_table where 3: "CipTcpIpInterfaceInit (tcpip_settable z) (allocates z) (platform_endianess pf) s2
      = Some (tcpip, add_class kCipTcpIpInterfaceClassCode (new_class_data 4 1) s2)" "table_code tcpip = kCipTcpIpInterfaceClassCode"
    using CipTcpIpInterfaceInit_starts [OF s2(7) assms(4)] by blast
  let ?s3 = "add_class kCipTcpIpInterfaceClassCode (new_class_data 4 1) s2"
  have "class_data CIP_ETHERNETLINK_CLASS_CODE ?s3 = None" "length (g_ethernet_link ?s3) < 2 ^ 16"
    using s2 assms(2) class_codes_distinct by simp_all
  from CipEthernetLinkInit_starts [OF this assms(4)] obtain link :: stack_table and l where
    4: "CipEthernetLinkInit (allocates z) (ethernet_link_control z) (ethernet_link_label z) ?s3 = Some (link,
       (add_class CIP_ETHERNETLINK_CLASS_CODE (new_class_data 4 (length (g_ethernet_link ?s3))) ?s3)\<lparr>g_ethernet_link := l\<rparr>)"
    "table_code link = CIP_ETHERNETLINK_CLASS_CODE"
    by blast
  define s4 where "s4 = (add_class CIP_ETHERNETLINK_CLASS_CODE (new_class_data 4 (length (g_ethernet_link ?s3))) ?s3)\<lparr>g_ethernet_link := l\<rparr>"
  have s4: "connection_list s4 = connection_list s"
    "class_data kCipAssemblyClassCode s4 = None" "class_data kCipConnectionManagerClassCode s4 = None"
    "class_data kCipDlrClassCode s4 = None" "class_data kCipQoSClassCode s4 = None"
    using s2 class_codes_distinct by (simp_all add: s4_def)
  obtain s5 where 5: "ConnectionManagerInit (allocates z) u s4 = Some (kEipStatusOk, s5)" "connection_list s5 = connection_list s4"
    "g_classes s5 = g_classes s4 @ [(kCipConnectionManagerClassCode, new_class_data 1 1)]"
    using ConnectionManagerInit_starts [OF s4(3) assms(4)] by blast
  have "class_data kCipConnectionManagerClassCode s5 = Some (new_class_data 1 1)"
    using last_class(1) [OF 5(3) s4(3)] .
  then obtain manager where 6: "connection_manager_table pf s5 = Some manager" "table_code manager = kCipConnectionManagerClassCode"
    using connection_manager_table_starts [of s5 pf] by (auto simp: class_instances_def new_class_data_def)
  have s5: "class_data kCipAssemblyClassCode s5 = None" "class_data kCipDlrClassCode s5 = None" "class_data kCipQoSClassCode s5 = None"
    using last_class(2) [OF 5(3)] s4 class_codes_distinct by auto
  let ?s6 = "add_class kCipAssemblyClassCode (new_class_data 2 0) s5"
  have 7: "CipAssemblyInitialize (allocates z) s5 = Some (kEipStatusOk, ?s6)" "assemblies ?s6 []"
    using CreateAssemblyClass_starts [OF s5(1) assms(4)] by auto
  then obtain assembly :: stack_table where 8: "assembly_table ?s6 = Some assembly" "assembly_room assembly" "instance_attributes assembly = []"
    using assembly_table_starts [of ?s6] by (auto simp: assemblies_def)
  obtain dlr :: "stack_table list" and s7 where 9: "(if dlr_device z then do { (t, s) \<leftarrow> CipDlrInit (allocates z) ?s6; Some ([t], s) } else Some ([], ?s6)) = Some (dlr, s7)"
    "map table_code dlr = (if dlr_device z then [kCipDlrClassCode] else [])" "connection_list s7 = connection_list s"
    "class_data kCipAssemblyClassCode s7 = Some (new_class_data 2 0)" "class_data kCipQoSClassCode s7 = None"
    using dlr_starts [of ?s6 "new_class_data 2 0" "allocates z" z] s5 5(2) s4(1) assms(4) class_codes_distinct by auto
  obtain qos :: stack_table where 10: "CipQoSInit (allocates z) s7 = Some (qos, add_class kCipQoSClassCode (new_class_data 1 1) s7)" "table_code qos = kCipQoSClassCode"
    using CipQoSInit_starts [OF 9(5) assms(4)] by blast
  let ?s8 = "add_class kCipQoSClassCode (new_class_data 1 1) s7"
  let ?ts = "[router, ident, tcpip, link, manager, assembly] @ dlr @ [qos]"
  have "assemblies ?s8 []"
    using 9(4) by (simp add: assemblies_def class_instances_def new_class_data_def)
  moreover have "assembly_room t \<and> instance_attributes t = []" if "t \<in> set ?ts" "table_code t = kCipAssemblyClassCode" for t
  proof -
    have "table_code t = kCipDlrClassCode" if "t \<in> set dlr"
      using 9(2) that by (cases "dlr_device z") auto
    then show ?thesis
      using that 1(2) 2(2) 3(2) 4(2) 6(2) 8 10(2) class_codes_distinct by auto
  qed
  moreover have "{kCipAssemblyClassCode, kCipQoSClassCode, kCipTcpIpInterfaceClassCode} \<subseteq> set (map table_code ?ts)"
    using 3(2) 8(2) 10(2) by (simp add: assembly_room_def)
  ultimately obtain ts s' where "ApplicationInitialization z pf ?ts ?s8 = Some (kEipStatusOk, ts, s')"
    "map table_code ts = map table_code ?ts" "connection_list s' = connection_list ?s8"
    using ApplicationInitialization_starts [of ?s8 z ?ts pf] assms(3,4) by blast
  then show ?thesis
    using 1 2 3 4 5(1) 6 7(1) 8 9 10 by (auto simp: CipStackInit_def s2_def s4_def assembly_room_def)
qed

section \<open>Properties\<close>

text \<open>C3: The stack starts: with assembly numbers that are distinct, not 0 and none of the three the application
  adds itself, and with memory for every structure of up to 1024 octets, no assertion of \<^verbatim>\<open>CipStackInit\<close> fails,
  those on the allocated classes, names, instances and attributes included, however the switches of the build
  are set and whatever \<^verbatim>\<open>malloc\<close> answers for the larger buffers of the assemblies; the classes are registered
  in the order of the calls and no connection is open.\<close>

theorem stack_starts:
  assumes "g_classes s = []" and "length (g_ethernet_link s) < 2 ^ 16"
    and "distinct [0, 152, 153, 154, of_int (input_assembly_num z), of_int (output_assembly_num z),
      of_int (config_assembly_num z) :: u16]" and "\<forall>k \<le> 1024. allocates z k"
  shows "\<exists>ts s'. CipStackInit z pf unique_connection_id s = Some (kEipStatusOk, ts, s')
    \<and> map table_code ts = [0x02, 0x01, 0xF5, 0xF6, 0x06, 0x04] @ (if dlr_device z then [0x47] else []) @ [0x48]
    \<and> connection_list s' = connection_list s"
  using CipStackInit_starts [OF assms(1-3), of pf unique_connection_id] assms(4)
  by (simp add: grants_def kCipIdentityClassCode_def kCipMessageRouterClassCode_def kCipAssemblyClassCode_def
      kCipConnectionManagerClassCode_def kCipDlrClassCode_def kCipQoSClassCode_def kCipTcpIpInterfaceClassCode_def
      kCipDlrClassCode_def CIP_ETHERNETLINK_CLASS_CODE_def cong: if_cong)

definition example_settings :: settings where
  "example_settings = \<lparr>tcpip_settable = True, ethernet_link_control = False, ethernet_link_label = False,
     dlr_device = False, allocates = \<lambda>n. n < 4096, input_assembly_num = 100, output_assembly_num = 150,
     config_assembly_num = 151, input_size = 32, output_size = 32, config_size = 10\<rparr>"

theorem stack_starts_witness:
  "\<exists>ts s'. CipStackInit example_settings (example_platform 5) 7 initial_stack = Some (kEipStatusOk, ts, s')
    \<and> map table_code ts = [0x02, 0x01, 0xF5, 0xF6, 0x06, 0x04, 0x48] \<and> connection_list s' = []"
proof -
  have "g_classes initial_stack = []" "length (g_ethernet_link initial_stack) < 2 ^ 16"
    "distinct [0, 152, 153, 154, of_int (input_assembly_num example_settings), of_int (output_assembly_num example_settings),
      of_int (config_assembly_num example_settings) :: u16]" "\<forall>k \<le> 1024. allocates example_settings k" "connection_list initial_stack = []"
    by (auto simp: initial_stack_def example_settings_def elim: order_le_less_trans)
  then show ?thesis
    using stack_starts [of initial_stack example_settings "example_platform 5" 7] by (simp add: example_settings_def)
qed

end
