(* ===== verification/Object_Access.thy ===== *)
theory Object_Access
  imports Startup
begin

text \<open>
  What a client reaches of the attributes of an object as its initialisation leaves it: the interface control of the
  Ethernet links (\<^verbatim>\<open>cip/cipethernetlink.c\<close>) and the values of the quality of service object
  (\<^verbatim>\<open>cip/cipqos.c\<close>), through the services of \<^verbatim>\<open>cip/cipcommon.c\<close>, the masks of the class and the callbacks of
  the application.
\<close>

section \<open>What insertions leave in a table\<close>

text \<open>Masks only grow, and the callbacks stay.\<close>

definition side_grows :: "'st object_class \<Rightarrow> 'st object_class \<Rightarrow> bool" where
  "side_grows c d \<longleftrightarrow> (\<forall>n. marked n (get_single_bit_mask c) = Some True \<longrightarrow> marked n (get_single_bit_mask d) = Some True)
     \<and> (\<forall>n. marked n (set_bit_mask c) = Some True \<longrightarrow> marked n (set_bit_mask d) = Some True)
     \<and> PreGetCallback d = PreGetCallback c \<and> PostGetCallback d = PostGetCallback c
     \<and> PreSetCallback d = PreSetCallback c \<and> PostSetCallback d = PostSetCallback c"

text \<open>The flags of an attribute are in the masks.\<close>

definition in_masks :: "'st object_class \<Rightarrow> 'st CipAttributeStruct \<Rightarrow> bool" where
  "in_masks c a \<longleftrightarrow> (attr_flags a AND kGetableSingle \<noteq> 0 \<longrightarrow> marked (attr_number a) (get_single_bit_mask c) = Some True)
     \<and> (attr_flags a AND kSetable \<noteq> 0 \<longrightarrow> marked (attr_number a) (set_bit_mask c) = Some True)"

lemma side_grows_refl [simp]: "side_grows c c"
  by (simp add: side_grows_def)

lemma side_grows_trans: "side_grows c d \<Longrightarrow> side_grows d e \<Longrightarrow> side_grows c e"
  by (simp add: side_grows_def)

lemma in_masks_grows: "in_masks c a \<Longrightarrow> side_grows c d \<Longrightarrow> in_masks d a"
  by (simp add: in_masks_def side_grows_def)

lemma InsertAttribute_effect:
  assumes "InsertAttribute a (c, as) = Some (d, bs)"
  shows "side_grows c d" and "in_masks d a" and "fill_slot a as = Some bs" and "attr_data a \<noteq> None"
proof -
  obtain x y z where ins: "fill_slot a as = Some bs" "attr_data a \<noteq> None"
    and m: "mark (attr_flags a AND kGetableSingle \<noteq> 0) (attr_number a) (get_single_bit_mask c) = Some x"
      "mark (attr_flags a AND kSetable \<noteq> 0) (attr_number a) (set_bit_mask c) = Some z"
    and d: "d = c\<lparr>get_single_bit_mask := x, get_all_bit_mask := y, set_bit_mask := z\<rparr>"
    using assms by (auto simp: InsertAttribute_def bind_Some_iff)
  show "side_grows c d" "in_masks d a"
    by (simp_all add: side_grows_def in_masks_def d marked_mark [OF m(1)] marked_mark [OF m(2)])
  show "fill_slot a as = Some bs" "attr_data a \<noteq> None"
    by (fact ins)+
qed

lemma fill_slot_first:
  "list_all (\<lambda>b. attr_data b \<noteq> None) bs \<Longrightarrow> fill_slot a (bs @ replicate (Suc n) unused_attribute) = Some (bs @ a # replicate n unused_attribute)"
  by (induction bs) (auto simp: unused_attribute_def)

definition slots :: "'addr object_table \<Rightarrow> u16 \<Rightarrow> stack CipAttributeStruct list \<Rightarrow> nat \<Rightarrow> bool" where
  "slots t i bs n \<longleftrightarrow> i \<noteq> 0 \<and> map_of (instance_attributes t) i = Some (bs @ replicate n unused_attribute)
     \<and> list_all (\<lambda>b. attr_data b \<noteq> None) bs"

lemma insert_attribute_effect:
  assumes "insert_attribute i a t = Some u" and "slots t i bs (Suc n)"
  shows "slots u i (bs @ [a]) n" and "side_grows (instance_side t) (instance_side u)" and "in_masks (instance_side u) a"
    and "j \<noteq> i \<Longrightarrow> map_of (instance_attributes u) j = map_of (instance_attributes t) j"
proof -
  obtain c cs where c: "InsertAttribute a (instance_side t, bs @ replicate (Suc n) unused_attribute) = Some (c, cs)"
    and u: "u = t\<lparr>instance_side := c, instance_attributes := AList.update i cs (instance_attributes t)\<rparr>"
    using assms by (auto simp: insert_attribute_def slots_def bind_Some_iff simp del: replicate_Suc)
  note effect = InsertAttribute_effect [OF c]
  have "cs = bs @ a # replicate n unused_attribute"
    using effect(3) assms(2) by (simp add: slots_def fill_slot_first del: replicate_Suc)
  then show "slots u i (bs @ [a]) n"
    using assms(2) effect(4) by (simp add: slots_def u update_conv')
  show "side_grows (instance_side t) (instance_side u)" "in_masks (instance_side u) a"
    using effect(1,2) by (simp_all add: u)
  show "map_of (instance_attributes u) j = map_of (instance_attributes t) j" if "j \<noteq> i"
    using that by (simp add: u update_conv')
qed

lemma insert_attributes_effect:
  "insert_attributes i as t = Some u \<Longrightarrow> slots t i bs (length as + n)
   \<Longrightarrow> slots u i (bs @ as) n \<and> side_grows (instance_side t) (instance_side u) \<and> list_all (in_masks (instance_side u)) as
     \<and> (\<forall>j. j \<noteq> i \<longrightarrow> map_of (instance_attributes u) j = map_of (instance_attributes t) j)"
proof (induction as arbitrary: t bs)
  case (Cons a as)
  obtain v where v: "insert_attribute i a t = Some v" "insert_attributes i as v = Some u"
    using Cons.prems(1) by (auto simp: bind_Some_iff)
  note effect = insert_attribute_effect [OF v(1), of bs "length as + n"]
  have s: "slots t i bs (Suc (length as + n))"
    using Cons.prems(2) by simp
  show ?case
    using Cons.IH [OF v(2) effect(1) [OF s]] effect(2-) [OF s] side_grows_trans in_masks_grows
    by (auto simp: list_all_iff)
qed simp

text \<open>What concerns the class object leaves the instances alone.\<close>

lemma class_insertions:
  "insert_attributes 0 as t = Some u \<Longrightarrow> instance_side u = instance_side t \<and> instance_attributes u = instance_attributes t"
proof (induction as arbitrary: t)
  case (Cons a as)
  obtain v where v: "insert_attribute 0 a t = Some v" "insert_attributes 0 as v = Some u"
    using Cons.prems by (auto simp: bind_Some_iff)
  then show ?case
    using Cons.IH [OF v(2)] by (auto simp: insert_attribute_def bind_Some_iff)
qed simp

lemma insert_services_same: "insert_services fs t = Some u \<Longrightarrow> instance_side u = instance_side t \<and> instance_attributes u = instance_attributes t"
proof (induction fs arbitrary: t)
  case (Cons f fs)
  then obtain k g v where v: "insert_service k g t = Some v" "insert_services fs v = Some u"
    by (cases f) (auto simp: bind_Some_iff)
  then show ?case
    using Cons.IH [OF v(2)] by (auto simp: insert_service_def bind_Some_iff)
qed simp

lemma default_class_same:
  assumes "default_class n t = Some u"
  shows "instance_side u = instance_side t \<and> instance_attributes u = instance_attributes t"
proof -
  obtain v where v: "insert_attributes 0 (default_class_attributes (table_code t)
      (highest_attribute_number (class_side t)) (highest_attribute_number (instance_side t))) t = Some v"
    using assms by (auto simp: default_class_def bind_Some_iff)
  then show ?thesis
    using class_insertions [OF v] assms by (auto simp: default_class_def insert_class_service_def bind_Some_iff split: if_splits)
qed

text \<open>A class without an initializer of its own, as it is handed over to the initialisation of its object.\<close>

lemma add_instances_memory: "add_instances al as (Suc k) n ns = Some x \<Longrightarrow> instance_memory al as"
  by (auto simp: instance_memory_def bind_Some_iff)

lemma class_created:
  assumes "created (CreateCipClass al code z (of_nat n) name revision None s) = Some (t, s')" and "n < 2 ^ 16"
  shows "instance_side t = new_object_class (size_highest_instance_attribute z)
    \<and> instance_attributes t = map (\<lambda>i. (i, replicate (size_instance_attributes z) unused_attribute)) (map of_nat [1..<Suc n])"
proof -
  obtain ns where r: "register_class al code z (of_nat n) name revision s = Some (kEipStatusOk, s')"
    "class_instances code s' = Some ns" "default_class (size_class_services z) (empty_table code z ns) = Some t"
    using assms(1) by (auto simp: created_def CreateCipClass_def bind_Some_iff register_class_def Let_def split: if_splits prod.splits)
  have n: "unat (of_nat n :: u16) = n"
    using assms(2) by (simp add: unat_of_nat)
  have "ns = map of_nat [1..<Suc n]"
  proof (cases n)
    case 0
    then show ?thesis
      using r(1,2) by (auto simp: register_class_def RegisterCipClass_def bind_Some_iff Let_def class_instances_def class_data_def
          map_add_def split: if_splits option.splits)
  next
    case (Suc k)
    have nz: "(of_nat n :: u16) \<noteq> 0"
      using n Suc by auto
    obtain new d where add: "AddCipInstances al (size_instance_attributes z) (of_nat n)
        \<lparr>class_revision = revision, max_instance = 0, number_of_instances = 0, instance_chain = []\<rparr> = Some (new, d)"
      and ns: "ns = instance_chain d"
      using r(1,2) nz by (auto simp: register_class_def RegisterCipClass_def bind_Some_iff Let_def class_instances_def class_data_def
          map_add_def word_neq_0_conv split: if_splits option.splits)
    then obtain x where "add_instances al (size_instance_attributes z) (Suc k) 1 [] = Some x"
      using n Suc by (auto simp: AddCipInstances_def bind_Some_iff simp del: add_instances.simps)
    then have mem: "instance_memory al (size_instance_attributes z)"
      by (rule add_instances_memory)
    then show ?thesis
      using add ns add_instances_fresh [OF mem, of 1 n] assms(2) n by (auto simp: AddCipInstances_def bind_Some_iff simp del: upt_Suc)
  qed
  then show ?thesis
    using default_class_same [OF r(3)] by (simp add: empty_table_def)
qed

section \<open>The interface control of the Ethernet links\<close>

lemma insert_links_effect:
  "insert_links ctrl label ids t = Some u \<Longrightarrow> distinct ids
   \<Longrightarrow> \<forall>idx \<in> set ids. idx + 1 < 2 ^ 16 \<and> slots t (of_nat (idx + 1)) [] 11
   \<Longrightarrow> side_grows (instance_side t) (instance_side u)
     \<and> (\<forall>idx \<in> set ids. slots u (of_nat (idx + 1)) (link_attributes ctrl label idx) 0
         \<and> list_all (in_masks (instance_side u)) (link_attributes ctrl label idx))
     \<and> (\<forall>j. j \<notin> (\<lambda>idx. of_nat (idx + 1)) ` set ids \<longrightarrow> map_of (instance_attributes u) j = map_of (instance_attributes t) j)"
proof (induction ids arbitrary: t)
  case (Cons idx ids)
  let ?i = "of_nat (idx + 1) :: u16"
  obtain v where v: "insert_attributes ?i (link_attributes ctrl label idx) t = Some v" "insert_links ctrl label ids v = Some u"
    using Cons.prems(1) by (auto simp: bind_Some_iff)
  have "slots t ?i [] (length (link_attributes ctrl label idx) + 0)"
    using Cons.prems(3) by (simp add: link_attributes_fit(1))
  from insert_attributes_effect [OF v(1) this]
  have effect: "slots v ?i (link_attributes ctrl label idx) 0" "side_grows (instance_side t) (instance_side v)"
    "list_all (in_masks (instance_side v)) (link_attributes ctrl label idx)"
    "\<And>j. j \<noteq> ?i \<Longrightarrow> map_of (instance_attributes v) j = map_of (instance_attributes t) j"
    by auto
  have other: "of_nat (k + 1) \<noteq> ?i" if "k \<in> set ids" for k
    using that Cons.prems(2,3) of_nat_u16_eq [of "k + 1" "idx + 1"] by auto
  then have "\<forall>k \<in> set ids. k + 1 < 2 ^ 16 \<and> slots v (of_nat (k + 1)) [] 11"
    using Cons.prems(3) effect(4) by (auto simp: slots_def)
  then have rest: "side_grows (instance_side v) (instance_side u)"
    "\<And>k. k \<in> set ids \<Longrightarrow> slots u (of_nat (k + 1)) (link_attributes ctrl label k) 0
       \<and> list_all (in_masks (instance_side u)) (link_attributes ctrl label k)"
    "\<And>j. j \<notin> (\<lambda>idx. of_nat (idx + 1)) ` set ids \<Longrightarrow> map_of (instance_attributes u) j = map_of (instance_attributes v) j"
    using Cons.IH [OF v(2)] Cons.prems(2) by simp_all
  have "?i \<notin> (\<lambda>idx. of_nat (idx + 1)) ` set ids"
  proof
    assume "?i \<in> (\<lambda>idx. of_nat (idx + 1)) ` set ids"
    then obtain k where "?i = of_nat (k + 1)" "k \<in> set ids"
      by (rule imageE)
    then show False
      using other [of k] by simp
  qed
  then have "slots u ?i (link_attributes ctrl label idx) 0"
    using rest(3) effect(1) by (simp add: slots_def)
  moreover have "list_all (in_masks (instance_side u)) (link_attributes ctrl label idx)"
    using effect(3) in_masks_grows [OF _ rest(1)] by (simp add: list_all_iff)
  ultimately have all: "slots u (of_nat (k + 1)) (link_attributes ctrl label k) 0
      \<and> list_all (in_masks (instance_side u)) (link_attributes ctrl label k)" if "k \<in> set (idx # ids)" for k
    using rest(2) that by (metis set_ConsD)
  have "map_of (instance_attributes u) j = map_of (instance_attributes t) j"
    if "j \<notin> (\<lambda>idx. of_nat (idx + 1)) ` set (idx # ids)" for j
  proof -
    have "j \<notin> (\<lambda>idx. of_nat (idx + 1)) ` set ids" "j \<noteq> ?i"
      using that unfolding list.set(2) image_insert by blast+
    then show ?thesis
      using rest(3) [of j] effect(4) [of j] by simp
  qed
  then show ?case
    using side_grows_trans [OF effect(2) rest(1)] all by blast
qed simp

lemma link_table:
  fixes t :: "'addr object_table"
  assumes "CipEthernetLinkInit al ctrl label s0 = Some (t, s1)" and "length (g_ethernet_link s0) < 2 ^ 16"
    and "idx < length (g_ethernet_link s0)"
  shows "attributes_of t (of_nat (idx + 1)) = link_attributes ctrl label idx"
    and "list_all (in_masks (instance_side t)) (link_attributes ctrl label idx)"
    and "PreSetCallback (instance_side t) = None" and "PostSetCallback (instance_side t) = None"
    and "of_nat (idx + 1) \<noteq> (0 :: u16)"
proof -
  let ?n = "length (g_ethernet_link s0)"
  let ?ns = "map of_nat [1..<Suc ?n] :: u16 list"
  obtain t0 t1 :: "'addr object_table" and s2 where t: "created (CreateCipClass al CIP_ETHERNETLINK_CLASS_CODE
      \<lparr>size_class_attributes = 0, size_highest_class_attribute = 7, size_class_services = 2,
       size_instance_attributes = 11, size_highest_instance_attribute = 11, size_instance_services = 2 + of_bool ctrl\<rparr>
      (of_nat ?n) ''Ethernet Link'' 4 None s0) = Some (t0, s2)"
    "instance_side t1 = instance_side t0 \<and> instance_attributes t1 = instance_attributes t0"
    "insert_links ctrl label [0..<?n] t1 = Some t"
    using assms(1) by (auto simp: CipEthernetLinkInit_def bind_Some_iff Let_def simp del: insert_services.simps
        dest!: insert_services_same)
  note class0 = class_created [OF t(1) assms(2)]
  have "slots t1 (of_nat (k + 1)) [] 11" if "k < ?n" for k
  proof -
    have "of_nat (k + 1) \<in> set ?ns"
      unfolding set_map by (rule imageI) (use that in auto)
    moreover have "instance_attributes t1 = map (\<lambda>n. (n, replicate 11 unused_attribute)) ?ns"
      using class0 t(2) by (simp del: upt_Suc map_map)
    moreover have "(of_nat (k + 1) :: u16) \<noteq> 0"
      using of_nat_u16_eq [of "k + 1" 0] that assms(2) by auto
    ultimately show ?thesis
      by (simp only: slots_def map_of_instances) simp
  qed
  then have links: "side_grows (instance_side t1) (instance_side t)"
    "\<And>k. k < ?n \<Longrightarrow> slots t (of_nat (k + 1)) (link_attributes ctrl label k) 0
       \<and> list_all (in_masks (instance_side t)) (link_attributes ctrl label k)"
    using insert_links_effect [OF t(3)] assms(2) by auto
  show "attributes_of t (of_nat (idx + 1)) = link_attributes ctrl label idx" "of_nat (idx + 1) \<noteq> (0 :: u16)"
    "list_all (in_masks (instance_side t)) (link_attributes ctrl label idx)"
    using links(2) [OF assms(3)] by (simp_all add: slots_def attributes_of_def)
  show "PreSetCallback (instance_side t) = None" "PostSetCallback (instance_side t) = None"
    using links(1) class0 t(2) by (simp_all add: side_grows_def new_object_class_def AllocateAttributeMasks_def Let_def)
qed

lemma link_control:
  "GetCipAttribute (link_attributes True label idx) 6 = Some (state_attribute 6 kCipAny
     (\<lambda>s m. Some (EncodeCipEthernetLinkInterfaceControl True (interface_control (g_ethernet_link s ! idx)) m))
     (Some (DecodeCipEthernetLinkInterfaceControl idx)) (\<lambda>s. []) (if idx = 2 then 0x83 else 0x87))"
  by (simp add: link_attributes_def Let_def state_attribute_def IFACE_CTRL_ACCESS_MODE_def attribute_flags)

text \<open>C34: In a build with interface control, \<^verbatim>\<open>SetAttributeSingle\<close> of the interface control of an Ethernet link
  is accepted exactly for the settings that the link supports: automatic negotiation with nothing forced, or a forced
  speed and duplex mode that the link's selector names.  What is accepted is stored in this link and nothing
  else changes; what is refused changes nothing.  This holds for the internal switch port, instance 3, as for
  the other links, although its attribute is the one without the set flag and the comment in
  \<^verbatim>\<open>CipEthernetLinkInit\<close> calls it never settable: the mask that the service asks is shared by the instances of
  the class.\<close>

theorem interface_control_set:
  assumes "CipEthernetLinkInit al True label s0 = Some (t, s1)" and "length (g_ethernet_link s0) < 2 ^ 16"
    and "length (g_ethernet_link s) = length (g_ethernet_link s0)" and "link_of i s = Some link"
    and "attribute_number (request_path request) = 6" and "instance_number (request_path request) = i"
    and "request_data request = le16 bits @ le16 speed @ rest"
  shows "(\<exists>a. GetCipAttribute (attributes_of t i) 6 = Some a \<and> (attr_flags a AND kSetable \<noteq> 0 \<longleftrightarrow> i \<noteq> 3))
    \<and> (\<exists>r'. if supported_control (speed_duplex_selector (interface_caps link)) (bits, speed)
        then run_service t Service_SetAttributeSingle i request r peer h s = Some (kEipStatusOkSend, r',
            s\<lparr>g_ethernet_link := (g_ethernet_link s)[unat i - 1 := link\<lparr>interface_control :=
              \<lparr>control_bits = bits, forced_interface_speed = speed\<rparr>\<rparr>]\<rparr>)
          \<and> general_status r' = kCipErrorSuccess
        else run_service t Service_SetAttributeSingle i request r peer h s = Some (kEipStatusOkSend, r', s)
          \<and> general_status r' \<in> {kCipErrorInvalidAttributeValue, kCipErrorObjectStateConflict})"
proof -
  define idx where "idx = unat i - 1"
  have i: "i = of_nat (idx + 1)" "idx < length (g_ethernet_link s0)" "0 < length (g_ethernet_link s0)"
    and link: "g_ethernet_link s ! idx = link"
    using assms(3,4) by (auto simp: link_of_def idx_def word_le_nat_alt split: if_splits)
  have three: "i = 3 \<longleftrightarrow> idx = 2"
    using of_nat_u16_eq [of "idx + 1" 3] i(2) assms(2) by (auto simp: i(1))
  note tables = link_table [OF assms(1,2) i(2), folded i(1)]
  have "in_masks (instance_side t) (the (GetCipAttribute (link_attributes True label 0) 6))"
    using link_table(2) [OF assms(1,2) i(3)] GetCipAttribute_in [OF link_control [where label = label and idx = 0]]
    unfolding link_control by (auto simp: list_all_iff)
  then have marked: "marked 6 (set_bit_mask (instance_side t)) = Some True"
    by (simp add: link_control in_masks_def state_attribute_def kSetable_def)
  have run: "run_service t Service_SetAttributeSingle i request r peer h s = do {
      (_, _, r, s) \<leftarrow> DecodeCipEthernetLinkInterfaceControl idx request (GenerateSetAttributeSingleHeader request r) s;
      Some (kEipStatusOkSend, r, s) }"
    using tables marked
    by (simp add: run_service_def SetAttributeSingle_def assms(5) link_control state_attribute_def side_of_def
        attribute_flags call_back_def Let_def)
  show ?thesis
    unfolding idx_def [symmetric]
    using interface_control_decided [OF assms(7), of s link idx "GenerateSetAttributeSingleHeader request r"] assms(4)
    by (auto simp: assms(6) run tables(1) link_control three state_attribute_def kSetable_def link split: if_splits)
qed

theorem interface_control_set_witness:
  "\<exists>(t :: unit object_table) s1 r'. CipEthernetLinkInit (\<lambda>n. True) True False
      (initial_stack\<lparr>g_ethernet_link := replicate 3 zero_ethernet_link\<rparr>) = Some (t, s1)
    \<and> run_service t Service_SetAttributeSingle 3 (zero_request\<lparr>request_path :=
        \<lparr>path_size = 3, class_id = 0xF6, instance_number = 3, attribute_number = 6\<rparr>, request_data := [2, 0, 100, 0]\<rparr>)
        InitializeMessageRouterResponse () 0
        (initial_stack\<lparr>g_ethernet_link := replicate 3 (initial_link True False 2 zero_ethernet_link)\<rparr>)
      = Some (kEipStatusOkSend, r', initial_stack\<lparr>g_ethernet_link :=
          replicate 2 (initial_link True False 2 zero_ethernet_link) @ [(initial_link True False 2 zero_ethernet_link)
            \<lparr>interface_control := \<lparr>control_bits = 2, forced_interface_speed = 100\<rparr>\<rparr>]\<rparr>)"
proof -
  let ?old = "initial_stack\<lparr>g_ethernet_link := replicate 3 zero_ethernet_link\<rparr>"
  let ?l = "initial_link True False 2 zero_ethernet_link"
  let ?s = "initial_stack\<lparr>g_ethernet_link := replicate 3 ?l\<rparr>"
  let ?q = "zero_request\<lparr>request_path := \<lparr>path_size = 3, class_id = 0xF6, instance_number = 3,
    attribute_number = 6\<rparr>, request_data := [2, 0, 100, 0]\<rparr>"
  have "class_data CIP_ETHERNETLINK_CLASS_CODE ?old = None" "length (g_ethernet_link ?old) < 2 ^ 16" "grants (\<lambda>n. True)"
    by (simp_all add: class_data_def initial_stack_def grants_def)
  from CipEthernetLinkInit_starts [OF this] obtain t :: "unit object_table" and s1 where
    t: "CipEthernetLinkInit (\<lambda>n. True) True False ?old = Some (t, s1)"
    by blast
  have small: "length (g_ethernet_link ?old) < 2 ^ 16" "length (g_ethernet_link ?s) = length (g_ethernet_link ?old)"
    by simp_all
  have link: "link_of 3 ?s = Some ?l"
    by (simp add: link_of_def)
  have q: "attribute_number (request_path ?q) = 6" "instance_number (request_path ?q) = 3"
    "request_data ?q = le16 2 @ le16 100 @ []"
    by (simp_all add: le16_def)
  have "supported_control (speed_duplex_selector (interface_caps ?l)) (2, 100)"
    unfolding supported_control_def six_entries table_entries
    by (simp add: initial_link_def kEthLinkSpeedDpx_100_FD_def bit_numeral_simps)
  moreover have "(g_ethernet_link ?s)[unat (3 :: u16) - 1 := x] = replicate 2 ?l @ [x]" for x
  proof -
    have "unat (3 :: u16) - 1 = 2"
      by simp
    then show ?thesis
      by (simp only:) (simp add: eval_nat_numeral)
  qed
  ultimately have "\<exists>r'. run_service t Service_SetAttributeSingle 3 ?q InitializeMessageRouterResponse () 0 ?s
      = Some (kEipStatusOkSend, r', initial_stack\<lparr>g_ethernet_link :=
          replicate 2 ?l @ [?l\<lparr>interface_control := \<lparr>control_bits = 2, forced_interface_speed = 100\<rparr>\<rparr>]\<rparr>)"
    using interface_control_set [OF t small link q, of InitializeMessageRouterResponse "()" 0] by auto
  then show ?thesis
    using t by blast
qed

section \<open>The values of the quality of service object\<close>

text \<open>The value that an attribute shows.\<close>

definition dscp_value :: "u16 \<Rightarrow> CipQosDscpValues \<Rightarrow> u8" where
  "dscp_value n d = (if n = 4 then dscp_urgent d else if n = 5 then dscp_scheduled d else if n = 6 then dscp_high d
     else if n = 7 then dscp_low d else dscp_explicit_msg d)"

definition with_dscp_value :: "u16 \<Rightarrow> u8 \<Rightarrow> CipQosDscpValues \<Rightarrow> CipQosDscpValues" where
  "with_dscp_value n v d = (if n = 4 then d\<lparr>dscp_urgent := v\<rparr> else if n = 5 then d\<lparr>dscp_scheduled := v\<rparr>
     else if n = 6 then d\<lparr>dscp_high := v\<rparr> else if n = 7 then d\<lparr>dscp_low := v\<rparr> else d\<lparr>dscp_explicit_msg := v\<rparr>)"

lemma dscp_value_same: "dscp_value n (with_dscp_value n v d) = v"
  by (simp add: dscp_value_def with_dscp_value_def)

lemma qos_value_attribute:
  assumes "n \<in> {4, 5, 6, 7, 8}"
  shows "GetCipAttribute qos_attributes n = Some (dscp_attribute (dscp_value n) (with_dscp_value n) n)"
  using assms by (auto simp: qos_attributes_def state_attribute_def dscp_attribute_def variable_attribute_def
      dscp_value_def with_dscp_value_def [abs_def])

lemma qos_table:
  fixes t :: "'addr object_table"
  assumes "CipQoSInit al s0 = Some (t, s1)"
  shows "attributes_of t 1 = qos_attributes" and "list_all (in_masks (instance_side t)) qos_attributes"
    and "side_grows (new_object_class 8) (instance_side t)"
proof -
  obtain t0 t1 :: "'addr object_table" and s2 where t: "created (CreateCipClass al kCipQoSClassCode
      \<lparr>size_class_attributes = 7, size_highest_class_attribute = 7, size_class_services = 2,
       size_instance_attributes = 8, size_highest_instance_attribute = 8, size_instance_services = 2\<rparr>
      (of_nat 1) ''Quality of Service'' 1 None s0) = Some (t0, s2)"
    "insert_attributes 1 qos_attributes t0 = Some t1"
    "instance_side t = instance_side t1 \<and> instance_attributes t = instance_attributes t1"
    using assms by (auto simp: CipQoSInit_def bind_Some_iff simp del: insert_services.simps dest!: insert_services_same)
  note class0 = class_created [OF t(1)]
  have "length qos_attributes = 8"
    by (simp add: qos_attributes_def)
  then have "slots t0 1 [] (length qos_attributes + 0)"
    using class0 by (simp add: slots_def)
  from insert_attributes_effect [OF t(2) this]
  show "attributes_of t 1 = qos_attributes" "list_all (in_masks (instance_side t)) qos_attributes"
    "side_grows (new_object_class 8) (instance_side t)"
    using t(3) class0 by (simp_all add: slots_def attributes_of_def)
qed

lemma NvQosStore_values: "g_qos (snd (NvQosStore pf q s)) = g_qos s"
  by (auto simp: NvQosStore_def ConfFileOpen_def ConfFileClose_def syscall_def emit_def Let_def)

text \<open>C12: A value of the quality of service object survives writing and reading: on the object as
  \<^verbatim>\<open>CipQoSInit\<close> and the application leave it, \<^verbatim>\<open>SetAttributeSingle\<close> of an attribute from 4 to 8 with an octet
  below 64 answers success and assigns this value and no other, and \<^verbatim>\<open>GetAttributeSingle\<close> then answers success with
  this octet.  A larger octet is refused with "invalid attribute value" and reading gives the old value.  In both
  cases the callback of the application writes the values the object has then to the settings file, if the file can
  be opened, and reading changes nothing.\<close>

theorem dscp_value_set_and_read:
  assumes "CipQoSInit al s0 = Some (t, s1)" and "install_callback (NvQosSetCallback pf) kNvDataFunc t = Some u"
    and "n \<in> {4, 5, 6, 7, 8}" and "attribute_number (request_path request) = n" and "request_data request = v # rest"
    and "attribute_number (request_path request') = n"
    and "q = (if v < 64 then (g_qos s)\<lparr>dscp := with_dscp_value n v (dscp (g_qos s))\<rparr> else g_qos s)"
  shows "\<exists>r1 r2 s2. run_service u Service_SetAttributeSingle 1 request r peer h s = Some (kEipStatusOkSend, r1, s2)
    \<and> general_status r1 = (if v < 64 then kCipErrorSuccess else kCipErrorInvalidAttributeValue)
    \<and> s2 = snd (NvQosStore pf q (s\<lparr>g_qos := q\<rparr>)) \<and> g_qos s2 = q
    \<and> trace s2 = trace s @ (if fst (ConfFileOpen pf True s) then [fwrite_event QOS_CFG_NAME (qos_text q)] else [])
    \<and> run_service u Service_GetAttributeSingle 1 request' r' peer' h' s2 = Some (kEipStatusOkSend, r2, s2)
    \<and> general_status r2 = kCipErrorSuccess
    \<and> message r2 = append_octets [if v < 64 then v else dscp_value n (dscp (g_qos s))] InitializeENIPMessage"
proof -
  let ?a = "dscp_attribute (dscp_value n) (with_dscp_value n) n"
  note tables = qos_table [OF assms(1)]
  have u: "attributes_of u 1 = qos_attributes" "side_of u 1 = InsertGetSetCallback (NvQosSetCallback pf) kNvDataFunc (instance_side t)"
    using assms(2) tables(1) by (auto simp: install_callback_def side_of_def attributes_of_def cong: option.case_cong)
  have class0: "PreGetCallback (side_of u 1) = None" "PostGetCallback (side_of u 1) = None" "PreSetCallback (side_of u 1) = None"
    "PostSetCallback (side_of u 1) = Some (NvQosSetCallback pf)"
    using tables(3) unfolding u by (simp_all add: InsertGetSetCallback_def side_grows_def new_object_class_def
        AllocateAttributeMasks_def attribute_flags Let_def)
  have "in_masks (instance_side t) ?a"
    using tables(2) GetCipAttribute_in [OF qos_value_attribute [OF assms(3)]] by (auto simp: list_all_iff)
  then have marked: "marked n (get_single_bit_mask (side_of u 1)) = Some True" "marked n (set_bit_mask (side_of u 1)) = Some True"
    unfolding u by (simp_all add: in_masks_def dscp_attribute_def variable_attribute_def attribute_flags InsertGetSetCallback_def Let_def)
  have set: "run_service u Service_SetAttributeSingle 1 request r peer h s
      = Some (kEipStatusOkSend, (GenerateSetAttributeSingleHeader request r)\<lparr>general_status :=
          if v < 64 then kCipErrorSuccess else kCipErrorInvalidAttributeValue\<rparr>, snd (NvQosStore pf q (s\<lparr>g_qos := q\<rparr>)))"
    using assms(7) marked(2)
    by (simp add: run_service_def SetAttributeSingle_def u(1) assms(4,5) qos_value_attribute [OF assms(3)] class0 call_back_def
        dscp_attribute_def variable_attribute_def attribute_flags DecodeCipQoSAttribute_def
        NvQosSetCallback_def set_dscp_def with_dscp_value_def dscp_value_def Let_def)
  have get: "run_service u Service_GetAttributeSingle 1 request' r' peer' h' s2
      = Some (kEipStatusOkSend, (GenerateGetAttributeSingleHeader request' r')\<lparr>message :=
          append_octets [dscp_value n (dscp (g_qos s2))] InitializeENIPMessage, general_status := kCipErrorSuccess\<rparr>, s2)" for s2
    using marked(1)
    by (simp add: run_service_def GetAttributeSingle_def u(1) assms(6) qos_value_attribute [OF assms(3)] class0 call_back_def
        dscp_attribute_def variable_attribute_def attribute_flags GenerateGetAttributeSingleHeader_def EncodeCipUsint_def enc Let_def)
  have "g_qos (snd (NvQosStore pf q (s\<lparr>g_qos := q\<rparr>))) = q"
    by (simp add: NvQosStore_values)
  moreover have "trace (snd (NvQosStore pf q (s\<lparr>g_qos := q\<rparr>)))
      = trace s @ (if fst (ConfFileOpen pf True s) then [fwrite_event QOS_CFG_NAME (qos_text q)] else [])"
    by (simp add: NvQosStore_trace ConfFileOpen_def syscall_def Let_def)
  moreover have "dscp_value n (dscp q) = (if v < 64 then v else dscp_value n (dscp (g_qos s)))"
    by (simp add: assms(7) dscp_value_same)
  ultimately show ?thesis
    using set get [of "snd (NvQosStore pf q (s\<lparr>g_qos := q\<rparr>))"] by simp
qed

theorem dscp_value_set_and_read_witness:
  "\<exists>t s1 u r1 r2 s2. CipQoSInit (\<lambda>n. True) initial_stack = Some (t, s1)
    \<and> install_callback (NvQosSetCallback (example_platform 1)) kNvDataFunc t = Some u
    \<and> run_service u Service_SetAttributeSingle 1 (zero_request\<lparr>request_path :=
        \<lparr>path_size = 3, class_id = 0x48, instance_number = 1, attribute_number = 7\<rparr>, request_data := [33]\<rparr>)
        InitializeMessageRouterResponse zero_sockaddr 0 initial_stack = Some (kEipStatusOkSend, r1, s2)
    \<and> general_status r1 = kCipErrorSuccess \<and> dscp_low (dscp (g_qos s2)) = 33
    \<and> trace s2 = [fwrite_event QOS_CFG_NAME (qos_text (g_qos s2))]
    \<and> run_service u Service_GetAttributeSingle 1 (zero_request\<lparr>request_path :=
        \<lparr>path_size = 3, class_id = 0x48, instance_number = 1, attribute_number = 7\<rparr>\<rparr>)
        InitializeMessageRouterResponse zero_sockaddr 0 s2 = Some (kEipStatusOkSend, r2, s2)
    \<and> message r2 = append_octets [33] InitializeENIPMessage"
proof -
  let ?p = "\<lparr>path_size = 3, class_id = 0x48, instance_number = 1, attribute_number = 7\<rparr>"
  let ?put = "zero_request\<lparr>request_path := ?p, request_data := [33]\<rparr>" and ?get = "zero_request\<lparr>request_path := ?p\<rparr>"
  let ?q = "(g_qos initial_stack)\<lparr>dscp := with_dscp_value 7 33 (dscp (g_qos initial_stack))\<rparr>"
  have "class_data kCipQoSClassCode initial_stack = None" "grants (\<lambda>n. True)"
    by (simp_all add: class_data_def initial_stack_def grants_def)
  from CipQoSInit_starts [OF this] obtain t :: stack_table and s1 where t: "CipQoSInit (\<lambda>n. True) initial_stack = Some (t, s1)"
    by blast
  obtain u where u: "install_callback (NvQosSetCallback (example_platform 1)) kNvDataFunc t = Some u"
    by (simp add: install_callback_def)
  have q: "attribute_number (request_path ?put) = 7" "request_data ?put = 33 # []" "attribute_number (request_path ?get) = 7"
    "?q = (if (33 :: u8) < 64 then (g_qos initial_stack)\<lparr>dscp := with_dscp_value 7 33 (dscp (g_qos initial_stack))\<rparr>
       else g_qos initial_stack)"
    by simp_all
  have "fst (ConfFileOpen (example_platform 1) True initial_stack)" "trace initial_stack = []"
    "dscp_low (dscp ?q) = 33"
    by (simp_all add: ConfFileOpen_def syscall_def example_platform_def initial_stack_def with_dscp_value_def)
  then show ?thesis
    using dscp_value_set_and_read [OF t u _ q, of InitializeMessageRouterResponse zero_sockaddr 0 InitializeMessageRouterResponse
        zero_sockaddr 0] t u by auto
qed

end
