(* ===== verification/Network_Config.thy ===== *)
theory Network_Config
  imports Tcpip Nv_Data
begin

text \<open>
  What the stack reads from the system's network configuration (\<^verbatim>\<open>ports/POSIX/networkconfig.c\<close>): the hardware
  address, the address, mask and gateway of an interface, the name servers and the domain, waiting for an
  address, and the host name.

  The files \<^verbatim>\<open>/proc/net/route\<close> and \<^verbatim>\<open>/etc/resolv.conf\<close> are the octets that the platform delivers; the
  functions of the C library that take them apart are modelled here.  A C string is its octets without the
  terminating zero.
\<close>

section \<open>Strings of the C library\<close>

fun strstr :: "buf \<Rightarrow> buf \<Rightarrow> buf option" where
  "strstr [] needle = (if needle = [] then Some [] else None)"
| "strstr (b # hay) needle = (if take (length needle) (b # hay) = needle then Some (b # hay) else strstr hay needle)"

text \<open>\<^verbatim>\<open>strtok_r\<close>: the token, null at the end of the string, and where the search goes on.\<close>

definition strtok_r :: "buf \<Rightarrow> buf \<Rightarrow> buf option \<times> buf" where
  "strtok_r separators p =
     (let p = dropWhile (\<lambda>b. b \<in> set separators) p
      in if p = [] then (None, [])
         else (Some (takeWhile (\<lambda>b. b \<notin> set separators) p), drop 1 (dropWhile (\<lambda>b. b \<notin> set separators) p)))"

lemma strtok_r_shorter: "strtok_r separators p = (Some t, q) \<Longrightarrow> length q < length p"
proof -
  assume "strtok_r separators p = (Some t, q)"
  then have "q = drop 1 (dropWhile (\<lambda>b. b \<notin> set separators) (dropWhile (\<lambda>b. b \<in> set separators) p))"
    and "dropWhile (\<lambda>b. b \<in> set separators) p \<noteq> []"
    by (auto simp: strtok_r_def Let_def split: if_splits)
  then show ?thesis
    using length_dropWhile_le [of "\<lambda>b. b \<notin> set separators" "dropWhile (\<lambda>b. b \<in> set separators) p"]
      length_dropWhile_le [of "\<lambda>b. b \<in> set separators" p]
    by (cases "dropWhile (\<lambda>b. b \<in> set separators) p") (auto split: if_splits)
qed

text \<open>The tokens of a string, as a loop over \<^verbatim>\<open>strtok_r\<close> delivers them.\<close>

function tokens :: "buf \<Rightarrow> buf \<Rightarrow> buf list" where
  "tokens separators p =
     (case strtok_r separators p of (None, _) \<Rightarrow> [] | (Some t, p) \<Rightarrow> t # tokens separators p)"
  by pat_completeness auto

termination
  by (relation "measure (\<lambda>(_, p). length p)") (auto dest: strtok_r_shorter [OF sym])

declare tokens.simps [simp del]

text \<open>\<^verbatim>\<open>fgets\<close> with a buffer of \<open>n\<close> octets: the line with its end of line, and the rest of the file.\<close>

definition fgets :: "nat \<Rightarrow> buf \<Rightarrow> buf \<times> buf" where
  "fgets n text =
     (let p = take (n - 1) text;
          l = takeWhile (\<lambda>b. b \<noteq> 0x0A) p;
          k = (if l = p then length l else Suc (length l))
      in (take k text, drop k text))"

text \<open>\<^verbatim>\<open>strtoul\<close> with base 16: the value, whether it was out of range, and the end of the number, which is the
  start of the string if there are no digits.\<close>

definition hex_digit :: "u8 \<Rightarrow> nat option" where
  "hex_digit b = (if 0x30 \<le> b \<and> b \<le> 0x39 then Some (unat b - 0x30)
     else if 0x41 \<le> b \<and> b \<le> 0x46 then Some (unat b - 0x37)
     else if 0x61 \<le> b \<and> b \<le> 0x66 then Some (unat b - 0x57) else None)"

definition strtoul16 :: "buf \<Rightarrow> u64 \<times> bool \<times> buf" where
  "strtoul16 p =
     (let q = skip_space p;
          negative = (case q of [] \<Rightarrow> False | b # _ \<Rightarrow> b = 0x2D);
          q = (case q of [] \<Rightarrow> [] | b # r \<Rightarrow> if b = 0x2B \<or> b = 0x2D then r else q);
          q = (case q of zero # x # d # r \<Rightarrow>
                 if zero = 0x30 \<and> (x = 0x78 \<or> x = 0x58) \<and> hex_digit d \<noteq> None then d # r else q | _ \<Rightarrow> q);
          ds = takeWhile (\<lambda>b. hex_digit b \<noteq> None) q;
          v = foldl (\<lambda>v d. 16 * v + the (hex_digit d)) 0 ds
      in if ds = [] then (0, False, p)
         else if v < 2 ^ 64 then (if negative then - of_nat v else of_nat v, False, drop (length ds) q)
         else (- 1, True, drop (length ds) q))"

text \<open>\<^verbatim>\<open>inet_pton\<close> of an IPv4 address: four decimal numbers of at most 255 without leading zeros.\<close>

definition address_octet :: "buf \<Rightarrow> u8 option" where
  "address_octet p = (if p \<noteq> [] \<and> length p \<le> 3 \<and> list_all is_digit p \<and> (length p = 1 \<or> hd p \<noteq> 0x30) \<and> digits_value p \<le> 255
     then Some (of_nat (digits_value p)) else None)"

fun split_at :: "u8 \<Rightarrow> buf \<Rightarrow> buf list" where
  "split_at c [] = [[]]"
| "split_at c (b # p) = (if b = c then [] # split_at c p else (b # hd (split_at c p)) # tl (split_at c p))"

definition inet_pton :: "OpenerEndianess \<Rightarrow> buf \<Rightarrow> u32 option" where
  "inet_pton e p =
     (case map address_octet (split_at 0x2E p) of
        [Some a, Some b, Some c, Some d] \<Rightarrow> Some (htonl e (join32 d c b a))
      | _ \<Rightarrow> None)"

section \<open>The interface\<close>

text \<open>\<^verbatim>\<open>IFNAMSIZ\<close> is 16 with the terminating zero; the address is 6 of the 14 octets that \<^verbatim>\<open>ioctl\<close> delivers.\<close>

definition IFNAMSIZ :: nat where "IFNAMSIZ = 16"

definition IfaceGetMacAddress :: "platform \<Rightarrow> buf \<Rightarrow> stack \<Rightarrow> EipStatus \<times> buf \<times> stack" where
  "IfaceGetMacAddress pf iface s =
     (if length iface < IFNAMSIZ
      then let (f, s) = syscall pf s;
               k = os_index s;
               (r, s) = syscall pf s;
               (_, s) = syscall pf s
           in (if r = 0 then kEipStatusOk else kEipStatusError, take 6 (os_octets pf k @ replicate 6 0), s)
      else (kEipStatusError, [], s))"

definition GetIpAndNetmaskFromInterface ::
    "platform \<Rightarrow> buf \<Rightarrow> CipTcpIpInterfaceConfiguration \<Rightarrow> stack \<Rightarrow> EipStatus \<times> CipTcpIpInterfaceConfiguration \<times> stack" where
  "GetIpAndNetmaskFromInterface pf iface iface_cfg s =
     (if length iface < IFNAMSIZ
      then let (f, s) = syscall pf s;
               ipaddr = s_addr (os_address pf (os_index s));
               (r, s) = syscall pf s
           in if r = 0
              then let netaddr = s_addr (os_address pf (os_index s));
                       (r, s) = syscall pf s;
                       (_, s) = syscall pf s
                   in if r = 0
                      then (kEipStatusOk, iface_cfg\<lparr>interface_ip_address := ipaddr, interface_network_mask := netaddr\<rparr>, s)
                      else (kEipStatusError, iface_cfg, s)
              else (kEipStatusError, iface_cfg, snd (syscall pf s))
      else (kEipStatusError, iface_cfg, s))"

section \<open>The gateway\<close>

text \<open>The search for the first line with the name of the interface, from where the name stands in it.\<close>

lemma fgets_shorter: "fgets n text = (line, rest) \<Longrightarrow> text \<noteq> [] \<Longrightarrow> 1 < n \<Longrightarrow> length rest < length text"
  by (cases "text"; cases "n - 1") (auto simp: fgets_def Let_def split: if_splits)

function route_line :: "buf \<Rightarrow> buf \<Rightarrow> buf \<Rightarrow> buf option" where
  "route_line iface file_buffer text =
     (case strstr file_buffer iface of
        Some needle_start \<Rightarrow> Some needle_start
      | None \<Rightarrow> if text = [] then None
                else let (line, rest) = fgets 132 text in route_line iface (takeWhile (\<lambda>b. b \<noteq> 0) line) rest)"
  by pat_completeness auto

termination
  by (relation "measure (\<lambda>(_, _, text). length text)") (auto dest!: fgets_shorter [OF sym])

declare route_line.simps [simp del]

definition blanks :: buf where "blanks = [0x20, 0x09]"

definition INADDR_LOOPBACK :: u32 where "INADDR_LOOPBACK = 0x7F000001"

text \<open>Converting the null pointer, if the line has no third column, is undefined.\<close>

definition gateway_of_line :: "buf \<Rightarrow> CipTcpIpInterfaceConfiguration \<Rightarrow> (EipStatus \<times> CipTcpIpInterfaceConfiguration) option" where
  "gateway_of_line needle_start iface_cfg = do {
     let (_, p) = strtok_r blanks needle_start;
     let (_, p) = strtok_r blanks p;
     gateway_string \<leftarrow> fst (strtok_r blanks p);
     let (tmp_gw, range_error, end_of_number) = strtoul16 gateway_string;
     if (range_error \<and> tmp_gw = - 1) \<or> end_of_number = gateway_string \<or> end_of_number \<noteq> []
     then Some (kEipStatusError, iface_cfg\<lparr>interface_gateway := 0\<rparr>)
     else do {
       let gateway = (ucast tmp_gw :: u32);
       Some (kEipStatusOk, iface_cfg\<lparr>interface_gateway := (if INADDR_LOOPBACK \<noteq> gateway then gateway else 0)\<rparr>) } }"

definition GetGatewayFromRoute ::
    "platform \<Rightarrow> buf \<Rightarrow> CipTcpIpInterfaceConfiguration \<Rightarrow> stack \<Rightarrow> (EipStatus \<times> CipTcpIpInterfaceConfiguration \<times> stack) option" where
  "GetGatewayFromRoute pf iface iface_cfg s = do {
     let text = os_octets pf (os_index s);
     let (file_handle, s) = syscall pf s;
     if file_handle = 0 then Some (kEipStatusError, iface_cfg, s)
     else do {
       let (_, s) = syscall pf s;
       case route_line iface [] text of
         None \<Rightarrow> Some (kEipStatusError, iface_cfg, s)
       | Some needle_start \<Rightarrow> do {
           (status, iface_cfg) \<leftarrow> gateway_of_line needle_start iface_cfg;
           Some (status, iface_cfg, s) } } }"

section \<open>Name servers and domain\<close>

text \<open>Where the next address goes: the two name servers and then a variable that is not used.\<close>

datatype dns_target = Name_server | Name_server_2 | Dmy_dns

definition next_dns :: "dns_target \<Rightarrow> dns_target" where
  "next_dns dns = (if dns \<noteq> Dmy_dns then if dns = Name_server then Name_server_2 else Dmy_dns else Dmy_dns)"

text \<open>An address that does not convert leaves the value as it is.\<close>

definition store_dns :: "dns_target \<Rightarrow> u32 option \<Rightarrow> CipTcpIpInterfaceConfiguration \<Rightarrow> CipTcpIpInterfaceConfiguration" where
  "store_dns dns a iface_cfg =
     (case (a, dns) of
        (Some a, Name_server) \<Rightarrow> iface_cfg\<lparr>name_server := a\<rparr>
      | (Some a, Name_server_2) \<Rightarrow> iface_cfg\<lparr>name_server_2 := a\<rparr>
      | _ \<Rightarrow> iface_cfg)"

text \<open>The words \<^verbatim>\<open>search\<close>, \<^verbatim>\<open>domain\<close> and \<^verbatim>\<open>nameserver\<close>.\<close>

definition word_search :: buf where "word_search = [0x73, 0x65, 0x61, 0x72, 0x63, 0x68]"
definition word_domain :: buf where "word_domain = [0x64, 0x6F, 0x6D, 0x61, 0x69, 0x6E]"
definition word_nameserver :: buf where
  "word_nameserver = [0x6E, 0x61, 0x6D, 0x65, 0x73, 0x65, 0x72, 0x76, 0x65, 0x72]"

definition resolv_line :: "(size_t \<Rightarrow> bool) \<Rightarrow> OpenerEndianess \<Rightarrow> buf \<Rightarrow> dns_target \<times> CipTcpIpInterfaceConfiguration
    \<Rightarrow> (dns_target \<times> CipTcpIpInterfaceConfiguration) option" where
  "resolv_line allocates e line = (\<lambda>(dns, iface_cfg). do {
     b \<leftarrow> peek line 0;
     let (key, p) = strtok_r blanks line;
     if b = 0x64 \<or> b = 0x73
     then if key = Some word_search \<or> key = Some word_domain
       then (case fst (strtok_r blanks p) of
           None \<Rightarrow> Some (dns, iface_cfg)
         | Some value_string \<Rightarrow> do {
             (_, name) \<leftarrow> SetCipStringByCstr allocates (domain_name iface_cfg) value_string;
             Some (dns, iface_cfg\<lparr>domain_name := name\<rparr>) })
       else Some (dns, iface_cfg)
     else if b = 0x6E \<and> key = Some word_nameserver
     then (case fst (strtok_r blanks p) of
         None \<Rightarrow> Some (dns, iface_cfg)
       | Some value_string \<Rightarrow> Some (next_dns dns, store_dns dns (inet_pton e value_string) iface_cfg))
     else Some (dns, iface_cfg) })"

primrec resolv_lines :: "(size_t \<Rightarrow> bool) \<Rightarrow> OpenerEndianess \<Rightarrow> buf list \<Rightarrow> dns_target \<times> CipTcpIpInterfaceConfiguration
    \<Rightarrow> (dns_target \<times> CipTcpIpInterfaceConfiguration) option" where
  "resolv_lines allocates e [] x = Some x"
| "resolv_lines allocates e (l # ls) x = do { x \<leftarrow> resolv_line allocates e l x; resolv_lines allocates e ls x }"

text \<open>The calls are \<^verbatim>\<open>fopen\<close>, \<^verbatim>\<open>fseek\<close>, \<^verbatim>\<open>ftell\<close>, \<^verbatim>\<open>fseek\<close>, \<^verbatim>\<open>fread\<close> and \<^verbatim>\<open>fclose\<close>.\<close>

definition GetDnsInfoFromResolvConf :: "(size_t \<Rightarrow> bool) \<Rightarrow> platform \<Rightarrow> CipTcpIpInterfaceConfiguration \<Rightarrow> stack
    \<Rightarrow> (EipStatus \<times> CipTcpIpInterfaceConfiguration \<times> stack) option" where
  "GetDnsInfoFromResolvConf allocates pf iface_cfg s = do {
     let (file_handle, s) = syscall pf s;
     if file_handle = 0 then Some (kEipStatusError, iface_cfg, s)
     else do {
       let (_, s) = syscall pf s;
       let (n, s) = syscall pf s;
       let (_, s) = syscall pf s;
       let file_length = (of_int n :: size_t);
       if allocates (file_length + 1)
       then do {
         let text = os_octets pf (os_index s);
         let (rd_sz, s) = syscall pf s;
         let (_, s) = syscall pf s;
         if of_int rd_sz \<noteq> file_length then Some (kEipStatusError, iface_cfg, s)
         else do {
           let file_buffer = takeWhile (\<lambda>b. b \<noteq> 0) (take (unat file_length) text);
           (_, iface_cfg) \<leftarrow> resolv_lines allocates (platform_endianess pf) (tokens [0x0A] file_buffer)
             (Name_server, iface_cfg);
           Some (kEipStatusOk, iface_cfg, s) } }
       else Some (kEipStatusError, iface_cfg, snd (syscall pf s)) } }"

section \<open>Reading and waiting\<close>

partial_function (option) sleep_again :: "platform \<Rightarrow> stack \<Rightarrow> (int \<times> stack) option" where
  "sleep_again pf s = do {
     let (rc, s) = syscall pf s;
     if rc = -1
     then do {
       let (errno, s) = syscall pf s;
       if os_interrupted pf = errno then sleep_again pf s else Some (rc, s) }
     else Some (rc, s) }"

declare sleep_again.simps [code]

definition nanosleep_simple32 :: "platform \<Rightarrow> u32 \<Rightarrow> stack \<Rightarrow> (int \<times> stack) option" where
  "nanosleep_simple32 pf sleep_ns s = do { c_assert (sleep_ns < 1000000000); sleep_again pf s }"

definition no_configuration :: CipTcpIpInterfaceConfiguration where
  "no_configuration = \<lparr>interface_ip_address = 0, interface_network_mask = 0, interface_gateway = 0, name_server = 0,
     name_server_2 = 0, domain_name = \<lparr>string_length = 0, string_octets = None\<rparr>\<rparr>"

definition IfaceGetConfiguration :: "(size_t \<Rightarrow> bool) \<Rightarrow> platform \<Rightarrow> buf \<Rightarrow> CipTcpIpInterfaceConfiguration \<Rightarrow> stack
    \<Rightarrow> (EipStatus \<times> CipTcpIpInterfaceConfiguration \<times> stack) option" where
  "IfaceGetConfiguration allocates pf iface iface_cfg s = do {
     let (status, local_cfg, s) = GetIpAndNetmaskFromInterface pf iface no_configuration s;
     (status, local_cfg, s) \<leftarrow> (if kEipStatusOk = status
       then do {
         (_, s) \<leftarrow> nanosleep_simple32 pf 300000000 s;
         (status, local_cfg, s) \<leftarrow> GetGatewayFromRoute pf iface local_cfg s;
         if kEipStatusOk = status then GetDnsInfoFromResolvConf allocates pf local_cfg s
         else Some (status, local_cfg, s) }
       else Some (status, local_cfg, s));
     Some (status, if kEipStatusOk = status then local_cfg else iface_cfg, s) }"

text \<open>\<open>stop i\<close> is the stop flag when it is read for the \<open>i\<close>th time; \<^verbatim>\<open>ioctl\<close> returns 0 or -1.  The loop
  delivers how often the flag was read.  The descriptor stays open if the call fails for another reason than a
  missing address.\<close>

definition WAIT_CYCLE_NS :: u32 where "WAIT_CYCLE_NS = 100000000"

definition EADDRNOTAVAIL :: int where "EADDRNOTAVAIL = 99"

partial_function (option) wait_for_address ::
    "platform \<Rightarrow> (nat \<Rightarrow> int) \<Rightarrow> int \<Rightarrow> nat \<Rightarrow> stack \<Rightarrow> (EipStatus \<times> nat \<times> stack) option" where
  "wait_for_address pf stop timeout i s = do {
     let address = s_addr (os_address pf (os_index s));
     let (rc, s) = syscall pf s;
     let (errno, s) = (if rc = 0 then (0, s) else syscall pf s);
     if rc \<noteq> 0 \<and> EADDRNOTAVAIL \<noteq> errno then Some (kEipStatusError, i, s)
     else do {
       let ipaddr = (if rc = 0 then address else 0);
       let timeout = (if timeout > 0 then timeout - 1 else timeout);
       let result = (if rc = 0 then kEipStatusOk else kEipStatusError);
       if ipaddr = 0 \<and> timeout \<noteq> 0
       then if stop i = 0
         then do {
           (slept, s) \<leftarrow> nanosleep_simple32 pf WAIT_CYCLE_NS s;
           if slept = 0 then wait_for_address pf stop timeout (Suc i) s
           else Some (result, Suc i, snd (syscall pf s)) }
         else Some (result, Suc i, snd (syscall pf s))
       else Some (result, i, snd (syscall pf s)) } }"

declare wait_for_address.simps [code]

definition IfaceWaitForIp :: "platform \<Rightarrow> buf \<Rightarrow> int \<Rightarrow> (nat \<Rightarrow> int) \<Rightarrow> nat \<Rightarrow> stack \<Rightarrow> (EipStatus \<times> nat \<times> stack) option" where
  "IfaceWaitForIp pf iface timeout stop i s =
     (if length iface < IFNAMSIZ
      then do {
        let (fd, s) = syscall pf s;
        c_assert (- (2 ^ 31) \<le> timeout * 10 \<and> timeout * 10 < 2 ^ 31);
        wait_for_address pf stop (timeout * 10) i s }
      else Some (kEipStatusError, i, s))"

definition HOST_NAME_MAX :: nat where "HOST_NAME_MAX = 64"

definition GetHostName :: "(size_t \<Rightarrow> bool) \<Rightarrow> platform \<Rightarrow> CipString \<Rightarrow> stack \<Rightarrow> (CipString \<times> stack) option" where
  "GetHostName allocates pf name s = do {
     let name_buf = takeWhile (\<lambda>b. b \<noteq> 0) (take (HOST_NAME_MAX - 1) (os_octets pf (os_index s)));
     let (rc, s) = syscall pf s;
     if 0 = rc
     then do { (_, name) \<leftarrow> SetCipStringByCstr allocates name name_buf; Some (name, s) }
     else Some (name, s) }"

section \<open>Reading the files\<close>

lemma split_at_dot: "c \<notin> set a \<Longrightarrow> split_at c (a @ c # b) = a # split_at c b"
  by (induction a) auto

lemma split_at_end: "c \<notin> set a \<Longrightarrow> split_at c a = [a]"
  by (induction a) auto

lemma decimal_split: "10 \<le> n \<Longrightarrow> decimal n = decimal (n div 10) @ [of_nat (0x30 + n mod 10)]"
  by (subst decimal.simps) simp

lemma decimal_no_leading_zero: "10 \<le> n \<Longrightarrow> hd (decimal n) \<noteq> 0x30"
proof (induction n rule: decimal.induct)
  case (1 n)
  show ?case
  proof (cases "n div 10 < 10")
    case True
    have "\<not> 256 dvd n div 10"
      using 1(2) True by (intro nat_dvd_not_less) auto
    then show ?thesis
      using 1(2) True by (simp add: decimal_split decimal_small word_of_nat_eq_0_iff)
  next
    case False
    then show ?thesis
      using 1 by (simp add: decimal_split [of n])
  qed
qed

lemma decimal_length: "n < 1000 \<Longrightarrow> length (decimal n) \<le> 3"
proof -
  assume n: "n < 1000"
  have two: "length (decimal m) \<le> 2" if "m < 100" for m
    using that by (cases "m < 10") (simp_all add: decimal_small decimal_split)
  show ?thesis
    using n two [of "n div 10"] by (cases "n < 10") (simp_all add: decimal_small decimal_split)
qed

lemma address_octet_decimal: "address_octet (decimal (unat a)) = Some a"
proof -
  have a: "unat a < 256"
    using unsigned_less [of a] by simp
  have "length (decimal (unat a)) = 1 \<or> hd (decimal (unat a)) \<noteq> 0x30"
    using decimal_no_leading_zero [of "unat a"] by (cases "unat a < 10") (simp_all add: decimal_small)
  then show ?thesis
    using a decimal_length [of "unat a"] by (simp add: address_octet_def decimal_digits decimal_value)
qed

lemma decimal_octets: "b \<in> set (decimal n) \<Longrightarrow> 0x30 \<le> b \<and> b \<le> 0x39"
  using decimal_digits [of n] by (auto simp: list_all_iff is_digit_def)

lemma decimal_without: "c < 0x30 \<Longrightarrow> c \<notin> set (decimal n)"
  using decimal_octets [of c n] by (auto simp: word_le_nat_alt word_less_nat_alt)

definition dotted :: "u8 \<Rightarrow> u8 \<Rightarrow> u8 \<Rightarrow> u8 \<Rightarrow> buf" where
  "dotted a b c d = decimal (unat a) @ 0x2E # decimal (unat b) @ 0x2E # decimal (unat c) @ 0x2E # decimal (unat d)"

lemma inet_pton_dotted: "inet_pton e (dotted a b c d) = Some (htonl e (join32 d c b a))"
  by (simp add: inet_pton_def dotted_def split_at_dot split_at_end decimal_without address_octet_decimal)

lemma dotted_octets: "x \<in> set (dotted a b c d) \<Longrightarrow> 0x2E \<le> x"
  by (auto simp: dotted_def word_le_nat_alt dest!: decimal_octets)

lemma dotted_not_Nil [simp]: "dotted a b c d \<noteq> []"
  by (simp add: dotted_def)

lemma strtok_r_first:
  assumes "t \<noteq> []" and "set t \<inter> set separators = {}" and "c \<in> set separators"
  shows "strtok_r separators (t @ c # p) = (Some t, p)" and "strtok_r separators t = (Some t, [])"
proof -
  have d: "dropWhile (\<lambda>b. b \<in> set separators) (t @ q) = t @ q" for q
    using assms(1,2) by (cases t) auto
  have t: "\<forall>x \<in> set t. x \<notin> set separators"
    using assms(2) by blast
  then have none: "dropWhile (\<lambda>b. b \<notin> set separators) t = []"
    by (simp add: dropWhile_eq_Nil_conv)
  show "strtok_r separators (t @ c # p) = (Some t, p)" "strtok_r separators t = (Some t, [])"
    using t d [of "c # p"] d [of "[]"] assms(1,3) by (simp_all add: strtok_r_def takeWhile_append2 dropWhile_append2 none)
qed

lemma tokens_lines:
  assumes "\<And>l. l \<in> set ls \<Longrightarrow> l \<noteq> [] \<and> c \<notin> set l"
  shows "tokens [c] (concat (map (\<lambda>l. l @ [c]) ls)) = ls"
  using assms
proof (induction ls)
  case Nil
  then show ?case
    by (simp add: tokens.simps strtok_r_def)
next
  case (Cons l ls)
  have "strtok_r [c] (l @ c # concat (map (\<lambda>l. l @ [c]) ls)) = (Some l, concat (map (\<lambda>l. l @ [c]) ls))"
    using Cons.prems [of l] by (intro strtok_r_first) auto
  then show ?case
    using Cons by (subst tokens.simps) simp
qed

text \<open>The lines of the file that the function understands, and how they are written.\<close>

datatype conf_line = Nameserver u8 u8 u8 u8 | Search buf | Domain buf | Comment buf

primrec conf_line_text :: "conf_line \<Rightarrow> buf" where
  "conf_line_text (Nameserver a b c d) = word_nameserver @ 0x20 # dotted a b c d"
| "conf_line_text (Search n) = word_search @ 0x20 # n"
| "conf_line_text (Domain n) = word_domain @ 0x20 # n"
| "conf_line_text (Comment t) = 0x23 # t"

primrec conf_line_wf :: "conf_line \<Rightarrow> bool" where
  "conf_line_wf (Nameserver a b c d) \<longleftrightarrow> True"
| "conf_line_wf (Search n) \<longleftrightarrow> n \<noteq> [] \<and> length n < 2 ^ 16 \<and> set n \<inter> {0, 0x09, 0x0A, 0x20} = {}"
| "conf_line_wf (Domain n) \<longleftrightarrow> n \<noteq> [] \<and> length n < 2 ^ 16 \<and> set n \<inter> {0, 0x09, 0x0A, 0x20} = {}"
| "conf_line_wf (Comment t) \<longleftrightarrow> set t \<inter> {0, 0x0A} = {}"

primrec line_address :: "OpenerEndianess \<Rightarrow> conf_line \<Rightarrow> u32 list" where
  "line_address e (Nameserver a b c d) = [htonl e (join32 d c b a)]"
| "line_address e (Search n) = []"
| "line_address e (Domain n) = []"
| "line_address e (Comment t) = []"

primrec line_domain :: "conf_line \<Rightarrow> buf list" where
  "line_domain (Nameserver a b c d) = []"
| "line_domain (Search n) = [n]"
| "line_domain (Domain n) = [n]"
| "line_domain (Comment t) = []"

text \<open>What the lines mean: the first two addresses and the last domain.\<close>

definition with_servers :: "dns_target \<Rightarrow> u32 list \<Rightarrow> CipTcpIpInterfaceConfiguration \<Rightarrow> CipTcpIpInterfaceConfiguration" where
  "with_servers dns as cfg =
     (case (dns, as) of
        (Name_server, a # b # _) \<Rightarrow> cfg\<lparr>name_server := a, name_server_2 := b\<rparr>
      | (Name_server, [a]) \<Rightarrow> cfg\<lparr>name_server := a\<rparr>
      | (Name_server_2, b # _) \<Rightarrow> cfg\<lparr>name_server_2 := b\<rparr>
      | _ \<Rightarrow> cfg)"

definition with_domain :: "buf list \<Rightarrow> CipTcpIpInterfaceConfiguration \<Rightarrow> CipTcpIpInterfaceConfiguration" where
  "with_domain ns cfg = (if ns = [] then cfg
     else cfg\<lparr>domain_name := \<lparr>string_length = of_nat (length (List.last ns)), string_octets = Some (List.last ns)\<rparr>\<rparr>)"

lemma with_servers_Cons: "with_servers dns (a # as) cfg = with_servers (next_dns dns) as (store_dns dns (Some a) cfg)"
  by (cases dns; cases as; simp add: with_servers_def next_dns_def store_dns_def split: list.split)

lemma with_domain_Nil [simp]: "with_domain [] cfg = cfg"
  by (simp add: with_domain_def)

lemma with_domain_Cons: "with_domain (n # ns) cfg
    = with_domain ns (cfg\<lparr>domain_name := \<lparr>string_length = of_nat (length n), string_octets = Some n\<rparr>\<rparr>)"
  by (simp add: with_domain_def)

lemma domain_servers: "with_servers dns as (cfg\<lparr>domain_name := x\<rparr>) = (with_servers dns as cfg)\<lparr>domain_name := x\<rparr>"
  by (simp add: with_servers_def split: list.split dns_target.split)

lemma domain_set:
  assumes "n \<noteq> []" and "length n < 2 ^ 16" and "\<And>k. k < 2 ^ 16 \<Longrightarrow> allocates k"
  shows "SetCipStringByCstr allocates x n = Some (True, \<lparr>string_length = of_nat (length n), string_octets = Some n\<rparr>)"
proof -
  have n: "unat (of_nat (length n) :: u16) = length n"
    using assms(2) by (simp add: unat_of_nat)
  then have "(of_nat (length n) :: u16) \<noteq> 0"
    using assms(1) by (metis length_0_conv unat_0)
  moreover have "(ucast (of_nat (length n) :: u16) :: size_t) < 2 ^ 16"
    using n assms(2) by (simp add: word_less_nat_alt unat_ucast_mod)
  ultimately show ?thesis
    using assms(3) n by (simp add: SetCipStringByCstr_def SetCipStringByData_def ClearCipString_def copied_def Let_def)
qed

lemmas word_defs = word_search_def word_domain_def word_nameserver_def blanks_def

lemma words_distinct: "word_search \<noteq> word_domain" "word_nameserver \<noteq> word_search" "word_nameserver \<noteq> word_domain"
  by (simp_all add: word_defs)

lemma key_split:
  assumes "key \<in> {word_search, word_domain, word_nameserver}"
  shows "strtok_r blanks (key @ 0x20 # p) = (Some key, p)"
  using assms by (intro strtok_r_first) (auto simp: word_defs)

lemma value_split: "n \<noteq> [] \<Longrightarrow> set n \<inter> {0x09, 0x20} = {} \<Longrightarrow> strtok_r blanks n = (Some n, [])"
  by (rule strtok_r_first(2) [where c = "0x20"]) (auto simp: blanks_def)

lemma dotted_no_blank: "set (dotted a b c d) \<inter> {0, 0x09, 0x0A, 0x20} = {}"
  by (auto dest!: dotted_octets simp: word_le_nat_alt)

lemma resolv_line_read:
  assumes "conf_line_wf l" and "\<And>k. k < 2 ^ 16 \<Longrightarrow> allocates k"
  shows "resolv_line allocates e (conf_line_text l) (dns, cfg)
    = Some (if line_address e l = [] then dns else next_dns dns,
        with_domain (line_domain l) (case line_address e l of [] \<Rightarrow> cfg | a # _ \<Rightarrow> store_dns dns (Some a) cfg))"
proof (cases l)
  case (Nameserver a b c d)
  have "strtok_r blanks (dotted a b c d) = (Some (dotted a b c d), [])"
    using dotted_no_blank [of a b c d] by (intro value_split) auto
  moreover have "peek (word_nameserver @ p) 0 = Some 0x6E" for p
    by (simp add: peek_def word_defs)
  ultimately show ?thesis
    using Nameserver words_distinct(2,3)
    by (simp add: resolv_line_def key_split inet_pton_dotted)
next
  case (Search n)
  moreover have "peek (word_search @ p) 0 = Some 0x73" for p
    by (simp add: peek_def word_defs)
  moreover have "strtok_r blanks n = (Some n, [])"
    using assms(1) Search by (intro value_split) auto
  moreover have "SetCipStringByCstr allocates x n = Some (True, \<lparr>string_length = of_nat (length n), string_octets = Some n\<rparr>)" for x
    using assms(1) Search by (intro domain_set assms(2)) auto
  ultimately show ?thesis
    by (simp add: resolv_line_def key_split with_domain_Cons)
next
  case (Domain n)
  moreover have "peek (word_domain @ p) 0 = Some 0x64" for p
    by (simp add: peek_def word_defs)
  moreover have "strtok_r blanks n = (Some n, [])"
    using assms(1) Domain by (intro value_split) auto
  moreover have "SetCipStringByCstr allocates x n = Some (True, \<lparr>string_length = of_nat (length n), string_octets = Some n\<rparr>)" for x
    using assms(1) Domain by (intro domain_set assms(2)) auto
  ultimately show ?thesis
    by (simp add: resolv_line_def key_split with_domain_Cons)
next
  case (Comment t)
  then show ?thesis
    by (simp add: resolv_line_def peek_def case_prod_unfold Let_def)
qed

lemma resolv_lines_read:
  assumes "list_all conf_line_wf ls" and "\<And>k. k < 2 ^ 16 \<Longrightarrow> allocates k"
  shows "\<exists>dns'. resolv_lines allocates e (map conf_line_text ls) (dns, cfg)
    = Some (dns', with_domain (concat (map line_domain ls)) (with_servers dns (concat (map (line_address e) ls)) cfg))"
  using assms(1)
proof (induction ls arbitrary: dns cfg)
  case Nil
  then show ?case
    by (simp add: with_domain_def with_servers_def split: dns_target.split)
next
  case (Cons l ls)
  show ?case
  proof (cases l)
    case (Nameserver a b c d)
    then show ?thesis
      using Cons resolv_line_read [of l allocates e dns cfg] assms(2) by (simp add: with_servers_Cons)
  next
    case (Comment t)
    then show ?thesis
      using Cons resolv_line_read [of l allocates e dns cfg] assms(2) by simp
  next
    case (Search n)
    then show ?thesis
      using Cons resolv_line_read [of l allocates e dns cfg] assms(2) by (simp add: with_domain_Cons domain_servers [symmetric])
  next
    case (Domain n)
    then show ?thesis
      using Cons resolv_line_read [of l allocates e dns cfg] assms(2) by (simp add: with_domain_Cons domain_servers [symmetric])
  qed
qed

lemma conf_line_octets:
  assumes "conf_line_wf l"
  shows "conf_line_text l \<noteq> [] \<and> set (conf_line_text l) \<inter> {0, 0x0A} = {}"
  using assms dotted_no_blank by (cases l) (auto simp: word_defs)

definition conf_file :: "conf_line list \<Rightarrow> buf" where
  "conf_file ls = concat (map (\<lambda>l. conf_line_text l @ [0x0A]) ls)"

lemma conf_file_tokens:
  assumes "list_all conf_line_wf ls"
  shows "tokens [0x0A] (conf_file ls) = map conf_line_text ls" and "0 \<notin> set (conf_file ls)"
proof -
  have l: "conf_line_text l \<noteq> [] \<and> set (conf_line_text l) \<inter> {0, 0x0A} = {}" if "l \<in> set ls" for l
    using assms conf_line_octets that by (auto simp: list_all_iff)
  have "conf_file ls = concat (map (\<lambda>l. l @ [0x0A]) (map conf_line_text ls))"
    by (simp add: conf_file_def comp_def)
  moreover have "tokens [0x0A] (concat (map (\<lambda>l. l @ [0x0A]) (map conf_line_text ls))) = map conf_line_text ls"
    using l by (intro tokens_lines) auto
  ultimately show "tokens [0x0A] (conf_file ls) = map conf_line_text ls"
    by simp
  show "0 \<notin> set (conf_file ls)"
    using l by (auto simp: conf_file_def)
qed

section \<open>Properties\<close>

text \<open>C40: Reading the resolver configuration takes from a file made of comments, name servers, search and
  domain lines, written with one blank behind the word and an IPv4 address in dotted decimal or a name without
  blanks, the first two addresses in network byte order and the last name, and leaves every other field as it is,
  provided the file can be opened and read whole and there is memory for it and for the names.\<close>

theorem resolver_configuration_read:
  assumes "list_all conf_line_wf ls" and "\<And>n. allocates n" and "length (conf_file ls) < 2 ^ 63"
    and "os_result pf (os_index s) \<noteq> 0" and "os_result pf (os_index s + 2) = int (length (conf_file ls))"
    and "os_octets pf (os_index s + 4) = conf_file ls" and "os_result pf (os_index s + 4) = int (length (conf_file ls))"
  shows "\<exists>s'. GetDnsInfoFromResolvConf allocates pf cfg s = Some (kEipStatusOk,
      with_domain (concat (map line_domain ls))
        (with_servers Name_server (concat (map (line_address (platform_endianess pf)) ls)) cfg), s')"
proof -
  have whole: "takeWhile (\<lambda>b. b \<noteq> 0) (conf_file ls) = conf_file ls"
    using conf_file_tokens(2) [OF assms(1)] by (auto simp: takeWhile_eq_all_conv)
  have "unat (of_nat (length (conf_file ls)) :: size_t) = length (conf_file ls)"
    using assms(3) by (simp add: unat_of_nat)
  moreover obtain dns where "resolv_lines allocates (platform_endianess pf) (map conf_line_text ls) (Name_server, cfg)
    = Some (dns, with_domain (concat (map line_domain ls))
        (with_servers Name_server (concat (map (line_address (platform_endianess pf)) ls)) cfg))"
    using resolv_lines_read [OF assms(1), of allocates "platform_endianess pf" Name_server cfg] assms(2) by blast
  ultimately show ?thesis
    using assms(2,4-) conf_file_tokens(1) [OF assms(1)]
    by (simp add: GetDnsInfoFromResolvConf_def syscall_def numeral_eq_Suc whole)
qed

definition example_lines :: "conf_line list" where
  "example_lines = [Comment [0x21], Domain [0x61, 0x2E, 0x62], Nameserver 192 168 0 1, Nameserver 8 8 4 4, Nameserver 1 1 1 1]"

theorem resolver_configuration_read_witness:
  "\<exists>s'. GetDnsInfoFromResolvConf (\<lambda>n. True)
      ((example_platform (int (length (conf_file example_lines))))\<lparr>os_octets := \<lambda>k. conf_file example_lines\<rparr>)
      no_configuration initial_stack
    = Some (kEipStatusOk, no_configuration\<lparr>name_server := 0x0100A8C0, name_server_2 := 0x04040808,
        domain_name := \<lparr>string_length = 3, string_octets = Some [0x61, 0x2E, 0x62]\<rparr>\<rparr>, s')"
proof -
  let ?pf = "(example_platform (int (length (conf_file example_lines))))\<lparr>os_octets := \<lambda>k. conf_file example_lines\<rparr>"
  have "length (conf_file example_lines) < 2 ^ 63" "conf_file example_lines \<noteq> []"
    by (simp_all add: conf_file_def example_lines_def word_defs dotted_def decimal_split decimal_small)
  moreover have "list_all conf_line_wf example_lines"
    by (simp add: example_lines_def)
  moreover have "concat (map (line_address kOpENerEndianessLittle) example_lines) = [0x0100A8C0, 0x04040808, 0x01010101]"
    "concat (map line_domain example_lines) = [[0x61, 0x2E, 0x62]]"
    by (simp_all add: example_lines_def ntohl_def swap32_def join32_def)
  ultimately show ?thesis
    using resolver_configuration_read [of example_lines "\<lambda>n. True" ?pf initial_stack no_configuration]
    by (simp add: example_platform_def with_servers_def with_domain_def no_configuration_def)
qed

section \<open>Waiting\<close>

text \<open>No system call is interrupted by a signal.\<close>

definition uninterrupted :: "platform \<Rightarrow> bool" where
  "uninterrupted pf \<longleftrightarrow> (\<forall>k. os_result pf k = -1 \<longrightarrow> os_result pf (Suc k) \<noteq> os_interrupted pf)"

lemma sleep_returns:
  assumes "uninterrupted pf" and "ns < 1000000000"
  shows "\<exists>rc s'. nanosleep_simple32 pf ns s = Some (rc, s')"
proof (cases "os_result pf (os_index s) = -1")
  case True
  then have "os_interrupted pf \<noteq> os_result pf (Suc (os_index s))"
    using assms(1) by (metis uninterrupted_def)
  then show ?thesis
    using True assms(2) by (simp add: nanosleep_simple32_def sleep_again.simps [of pf s] syscall_def Let_def)
next
  case False
  then show ?thesis
    using assms(2) by (simp add: nanosleep_simple32_def sleep_again.simps [of pf s] syscall_def)
qed

lemma wait_for_address_returns:
  assumes "uninterrupted pf"
  shows "0 \<le> timeout \<Longrightarrow> \<exists>status j s'. wait_for_address pf stop timeout i s = Some (status, j, s') \<and> j \<le> i + nat timeout"
proof (induction "nat timeout" arbitrary: timeout i s)
  case 0
  then show ?case
    by (subst wait_for_address.simps) (simp add: syscall_def Let_def)
next
  case (Suc n)
  have n: "n = nat (timeout - 1)" "0 \<le> timeout - 1"
    using Suc.hyps(2) by simp_all
  obtain st j s' where again: "\<And>t. wait_for_address pf stop (timeout - 1) (Suc i) t = Some (st t, j t, s' t)"
    and j: "\<And>t. j t \<le> Suc i + nat (timeout - 1)"
    using Suc.hyps(1) [OF n, of "Suc i"] by metis
  have j: "j t \<le> i + nat timeout" "0 < timeout" "Suc 0 \<le> nat timeout" for t
    using j [of t] n Suc.hyps(2) by linarith+
  have "WAIT_CYCLE_NS < 1000000000"
    by (simp add: WAIT_CYCLE_NS_def)
  then obtain rc t' where slept: "\<And>t. nanosleep_simple32 pf WAIT_CYCLE_NS t = Some (rc t, t' t)"
    using sleep_returns [OF assms] by metis
  show ?case
    using j by (subst wait_for_address.simps) (simp add: syscall_def Let_def again slept)
qed

text \<open>Waiting with a time-out ends after at most ten tries a second.\<close>

lemma IfaceWaitForIp_returns:
  assumes "uninterrupted pf" and "0 \<le> timeout" and "timeout * 10 < 2 ^ 31"
  shows "\<exists>status j s'. IfaceWaitForIp pf iface timeout stop i s = Some (status, j, s') \<and> j \<le> i + 10 * nat timeout"
proof (cases "length iface < IFNAMSIZ")
  case True
  obtain status j s' where "wait_for_address pf stop (timeout * 10) i (snd (syscall pf s)) = Some (status, j, s')"
    and "j \<le> i + nat (timeout * 10)"
    using wait_for_address_returns [OF assms(1), of "timeout * 10"] assms(2) by (metis mult_nonneg_nonneg zero_le_numeral)
  moreover have "nat (timeout * 10) = 10 * nat timeout"
    using assms(2) by simp
  ultimately show ?thesis
    using True assms(2,3) by (simp add: IfaceWaitForIp_def syscall_def)
qed (simp add: IfaceWaitForIp_def)

section \<open>All or nothing\<close>

lemma IfaceGetConfiguration_keeps:
  "IfaceGetConfiguration allocates pf iface cfg s = Some (status, cfg', s') \<Longrightarrow> status \<noteq> kEipStatusOk \<Longrightarrow> cfg' = cfg"
  by (auto simp: IfaceGetConfiguration_def bind_Some_iff Let_def split: prod.splits if_splits)

section \<open>The gateway of a line\<close>

lemma strtoul16_digits:
  assumes "p \<noteq> []" and "length p \<le> 8" and "\<forall>b \<in> set p. hex_digit b \<noteq> None"
  shows "strtoul16 p = (of_nat (foldl (\<lambda>v d. 16 * v + the (hex_digit d)) 0 p), False, [])"
proof -
  have digit: "\<not> is_space b \<and> b \<noteq> 0x2B \<and> b \<noteq> 0x2D \<and> b \<noteq> 0x78 \<and> b \<noteq> 0x58" if "hex_digit b \<noteq> None" for b
    using that by (auto simp: hex_digit_def is_space_def word_le_nat_alt split: if_splits)
  have nibble: "the (hex_digit b) < 16" if "hex_digit b \<noteq> None" for b
    using that by (auto simp: hex_digit_def word_le_nat_alt split: if_splits)
  have fold: "foldl (\<lambda>v d. 16 * v + the (hex_digit d)) v q < (v + 1) * 16 ^ length q" if "\<forall>b \<in> set q. hex_digit b \<noteq> None" for v q
    using that
  proof (induction q arbitrary: v)
    case (Cons b q)
    have "foldl (\<lambda>v d. 16 * v + the (hex_digit d)) (16 * v + the (hex_digit b)) q < (16 * v + the (hex_digit b) + 1) * 16 ^ length q"
      using Cons by simp
    also have "\<dots> \<le> (v + 1) * 16 * 16 ^ length q"
      using nibble [of b] Cons.prems by (intro mult_le_mono1) simp
    finally show ?case
      by (simp add: algebra_simps)
  qed simp
  obtain b q where p: "p = b # q"
    using assms(1) by (cases p) auto
  have "(16 :: nat) ^ length p \<le> 16 ^ 8"
    using assms(2) by (intro power_increasing) auto
  then have small: "foldl (\<lambda>v d. 16 * v + the (hex_digit d)) 0 p < 2 ^ 64"
    using fold [of p 0] assms(3) by simp
  have all: "takeWhile (\<lambda>b. hex_digit b \<noteq> None) p = p" "skip_space p = p"
    using assms(3) digit p by (auto simp: skip_space_def takeWhile_eq_all_conv)
  have sign: "(case p of [] \<Rightarrow> False | b # _ \<Rightarrow> b = 0x2D) = False"
    "(case p of [] \<Rightarrow> [] | b # r \<Rightarrow> if b = 0x2B \<or> b = 0x2D then r else p) = p"
    using digit [of b] assms(3) p by simp_all
  have prefix: "(case p of zero # x # d # r \<Rightarrow>
      if zero = 0x30 \<and> (x = 0x78 \<or> x = 0x58) \<and> hex_digit d \<noteq> None then d # r else p | _ \<Rightarrow> p) = p"
    using assms(3) digit by (auto split: list.split)
  show ?thesis
    unfolding strtoul16_def Let_def all(2) sign prefix all(1) using small assms(1) by simp
qed

lemma low_word: "(ucast (of_nat n :: u64) :: u32) = of_nat n"
  by (simp add: word_unat_eq_iff unat_ucast_mod unat_of_nat mod_mod_cancel)

lemma gateway_read:
  assumes "\<And>c. c \<in> {name, destination, gateway} \<Longrightarrow> c \<noteq> [] \<and> set c \<inter> {0x20, 0x09} = {}"
    and "length gateway \<le> 8" and "\<forall>b \<in> set gateway. hex_digit b \<noteq> None"
    and "(of_nat (foldl (\<lambda>v d. 16 * v + the (hex_digit d)) 0 gateway) :: u32) = v"
  shows "gateway_of_line (name @ 0x09 # destination @ 0x09 # gateway @ 0x09 # rest) cfg
    = Some (kEipStatusOk, cfg\<lparr>interface_gateway := (if v = INADDR_LOOPBACK then 0 else v)\<rparr>)"
proof -
  have split: "strtok_r blanks (c @ 0x09 # p) = (Some c, p)" if "c \<in> {name, destination, gateway}" for c p
    using assms(1) [OF that] by (intro strtok_r_first) (auto simp: blanks_def)
  moreover have "gateway \<noteq> []"
    using assms(1) by blast
  ultimately show ?thesis
    using assms(2-) by (simp add: gateway_of_line_def strtoul16_digits low_word)
qed

end
