(* ===== verification/Main_Loop.thy ===== *)
theory Main_Loop
  imports Startup Network_Handler Network_Config
begin

text \<open>
  The program around the stack: \<^verbatim>\<open>startOpENerStack\<close> and the thread it starts (\<^verbatim>\<open>native-lib.cpp\<close>), with the
  event loop that calls the network handler until the stop flag is set.

  The second half shows that no service of the registered classes breaks the invariant of the connections,
  which instantiates the interface of the network handler, and what holds while the loop runs and after it.
\<close>

section \<open>The program\<close>

definition setAssemblyData :: "int \<Rightarrow> int \<Rightarrow> int \<Rightarrow> int \<Rightarrow> int \<Rightarrow> int \<Rightarrow> settings \<Rightarrow> settings" where
  "setAssemblyData input_num output_num config_num inputs outputs configs z =
     z\<lparr>input_assembly_num := input_num, output_assembly_num := output_num, config_assembly_num := config_num,
       input_size := inputs, output_size := outputs, config_size := configs\<rparr>"

text \<open>The tables of the classes if the thread is started.\<close>

definition startOpENerStack :: "settings \<Rightarrow> platform \<Rightarrow> buf \<Rightarrow> stack \<Rightarrow> (stack_table list option \<times> stack) option" where
  "startOpENerStack z pf interfaceName s = do {
     let s = s\<lparr>connection_list := []\<rparr>;
     let (status, iface_mac, s) = IfaceGetMacAddress pf interfaceName s;
     if kEipStatusError = status then Some (None, s)
     else do {
       let s = SetDeviceSerialNumber 123456789 s;
       (eip_status, ts, s) \<leftarrow> CipStackInit z pf (ucast (os_rand pf 0)) s;
       if eip_status \<noteq> kEipStatusOk then Some (None, s)
       else do {
         s \<leftarrow> CipEthernetLinkSetMac iface_mac s;
         (_, s) \<leftarrow> NvdataLoad pf s;
         let (ret, s) = NetworkHandlerInitialize pf s;
         Some (if kEipStatusOk = ret then Some ts else None, s) } } }"

definition timeout_checker_array :: "TimeoutCheckerFunction option list" where
  "timeout_checker_array = replicate 10 None"

text \<open>The loop in which the stop flag is seen after \<open>n\<close> cycles.\<close>

primrec executeEventLoop :: "platform \<Rightarrow> stack_table list \<Rightarrow> nat \<Rightarrow> stack \<Rightarrow> stack option" where
  "executeEventLoop pf ts 0 s = Some s"
| "executeEventLoop pf ts (Suc n) s = do {
     (status, s) \<leftarrow> NetworkHandlerProcessCyclic pf (stack_classes ts) timeout_checker_array s;
     if kEipStatusOk \<noteq> status then Some s else executeEventLoop pf ts n s }"

definition background_thread :: "platform \<Rightarrow> stack_table list \<Rightarrow> nat \<Rightarrow> stack \<Rightarrow> stack option" where
  "background_thread pf ts n s = do {
     s \<leftarrow> executeEventLoop pf ts n s;
     (_, s) \<leftarrow> NetworkHandlerFinish s;
     ShutdownCipStack s }"

section \<open>What keeps an invariant of the state\<close>

text \<open>The parts of a table that can change the state, for an invariant \<open>P\<close>.\<close>

definition attribute_keeps :: "(stack \<Rightarrow> bool) \<Rightarrow> stack CipAttributeStruct \<Rightarrow> bool" where
  "attribute_keeps P a \<longleftrightarrow> (\<forall>decode request r s. attr_decode a = Some decode \<longrightarrow> P s
     \<longrightarrow> ensures (\<lambda>(k, request', r', s'). P s') (decode request r s))"

definition callback_keeps :: "(stack \<Rightarrow> bool) \<Rightarrow> stack get_set_callback option \<Rightarrow> bool" where
  "callback_keeps P f \<longleftrightarrow> (\<forall>g i a n s. f = Some g \<longrightarrow> P s \<longrightarrow> P (g i a n s))"

definition side_keeps :: "(stack \<Rightarrow> bool) \<Rightarrow> stack object_class \<Rightarrow> bool" where
  "side_keeps P c \<longleftrightarrow> callback_keeps P (PreGetCallback c) \<and> callback_keeps P (PostGetCallback c)
     \<and> callback_keeps P (PreSetCallback c) \<and> callback_keeps P (PostSetCallback c)"

definition function_keeps :: "(stack \<Rightarrow> bool) \<Rightarrow> ('addr, stack) service_fn \<Rightarrow> bool" where
  "function_keeps P f \<longleftrightarrow> (\<forall>i request r originator h s. P s
     \<longrightarrow> ensures (\<lambda>(status, r', s'). P s') (f i request r originator h s))"

definition service_keeps :: "(stack \<Rightarrow> bool) \<Rightarrow> 'addr service_ref CipServiceStruct \<Rightarrow> bool" where
  "service_keeps P x \<longleftrightarrow> (\<forall>f. service_function x = Some (Service_function f) \<longrightarrow> function_keeps P f)"

definition reset_keeps :: "(stack \<Rightarrow> bool) \<Rightarrow> cip_callback option \<Rightarrow> bool" where
  "reset_keeps P f \<longleftrightarrow> (\<forall>i request r s. P s \<longrightarrow> ensures (\<lambda>(status, r', s'). P s') (run_callback f i request r s))"

definition table_keeps :: "(stack \<Rightarrow> bool) \<Rightarrow> 'addr object_table \<Rightarrow> bool" where
  "table_keeps P t \<longleftrightarrow> side_keeps P (class_side t) \<and> side_keeps P (instance_side t)
     \<and> list_all (attribute_keeps P) (class_attributes t)
     \<and> list_all (\<lambda>x. list_all (attribute_keeps P) (snd x)) (instance_attributes t)
     \<and> list_all (service_keeps P) (class_service_slots t) \<and> list_all (service_keeps P) (instance_service_slots t)
     \<and> reset_keeps P (PreResetCallback (callbacks t)) \<and> reset_keeps P (PostResetCallback (callbacks t))"

lemma attribute_keepsD:
  "attribute_keeps P a \<Longrightarrow> attr_decode a = Some decode \<Longrightarrow> decode request r s = Some (k, request', r', s') \<Longrightarrow> P s \<Longrightarrow> P s'"
  by (fastforce simp: attribute_keeps_def ensures_def)

lemma call_back_keeps: "callback_keeps P f \<Longrightarrow> P s \<Longrightarrow> P (call_back b f i a n s)"
  by (auto simp: callback_keeps_def call_back_def split: option.split)

lemma attribute_found: "GetCipAttribute as n = Some a \<Longrightarrow> a \<in> set as"
  by (induction as n rule: GetCipAttribute.induct) (auto split: if_splits)

lemma attributes_of_keep:
  assumes "table_keeps P t" and "a \<in> set (attributes_of t i)"
  shows "attribute_keeps P a"
proof -
  have "attribute_keeps P unused_attribute"
    by (simp add: attribute_keeps_def unused_attribute_def)
  then show ?thesis
    using assms by (fastforce simp: attributes_of_def table_keeps_def list_all_iff split: if_splits option.splits
        dest: map_of_SomeD)
qed

lemma side_of_keeps: "table_keeps P t \<Longrightarrow> side_keeps P (side_of t i)"
  by (simp add: side_of_def table_keeps_def)

lemma GetAttributeSingle_keeps:
  assumes "side_keeps P c" and "P s" and "GetAttributeSingle c attrs i request r h e s = Some (status, r', s')"
  shows "P s'"
  using assms by (auto simp: GetAttributeSingle_def side_keeps_def bind_Some_iff Let_def
      split: option.splits if_splits intro!: call_back_keeps [where P = P])

lemma SetAttributeSingle_keeps:
  assumes "side_keeps P c" and "\<And>a. a \<in> set (attrs i) \<Longrightarrow> attribute_keeps P a" and "P s"
    and "SetAttributeSingle c attrs i request r h e s = Some (status, r', s')"
  shows "P s'"
  using assms by (auto simp: SetAttributeSingle_def side_keeps_def bind_Some_iff Let_def
      split: option.splits if_splits intro!: call_back_keeps [where P = P]
      dest!: attribute_found attribute_keepsD [where P = P, rotated])

lemma set_list_entries_keeps:
  assumes "\<And>a. a \<in> set as \<Longrightarrow> attribute_keeps P a"
  shows "set_list_entries k c as request r s = Some (b, r', s') \<Longrightarrow> P s \<Longrightarrow> P s'"
proof (induction k arbitrary: request r s)
  case (Suc k)
  have entry: "P t" if "set_list_entry c n (GetCipAttribute as n) q x s = Some (more, q', x', t)" for n q x more q' x' t
    using that Suc.prems(2) assms
    by (auto simp: set_list_entry_def bind_Some_iff Let_def split: option.splits if_splits
        dest!: attribute_found attribute_keepsD [where P = P, rotated])
  show ?case
    using Suc.prems Suc.IH by (auto simp: bind_Some_iff Let_def split: if_splits dest: entry)
qed simp

lemma SetAttributeList_keeps:
  assumes "\<And>a. a \<in> set (attrs i) \<Longrightarrow> attribute_keeps P a" and "P s"
    and "SetAttributeList c attrs i request r h e s = Some (status, r', s')"
  shows "P s'"
  using assms(2,3) set_list_entries_keeps [of "attrs i" P, OF assms(1)]
  by (auto simp: SetAttributeList_def bind_Some_iff Let_def split: if_splits)

lemma reset_callback_keeps: "reset_keeps P f \<Longrightarrow> run_callback f i request r s = Some (status, r', s') \<Longrightarrow> P s \<Longrightarrow> P s'"
  by (fastforce simp: reset_keeps_def ensures_def)

lemma CipResetService_keeps:
  assumes "reset_keeps P (PreResetCallback b)" and "reset_keeps P (PostResetCallback b)" and "P s"
    and "CipResetService b i request r h e s = Some (status, r', s')"
  shows "P s'"
  using assms by (auto simp: CipResetService_def bind_Some_iff Let_def split: if_splits
      dest!: reset_callback_keeps [where P = P])

lemma run_service_keeps:
  assumes "table_keeps P t" and "service_keeps P x" and "service_function x = Some f" and "P s"
    and "run_service t f i request r h e s = Some (status, r', s')"
  shows "P s'"
proof (cases f)
  case Service_GetAttributeSingle
  then show ?thesis
    using GetAttributeSingle_keeps [OF side_of_keeps [OF assms(1)] assms(4)] assms(5) by (simp add: run_service_def)
next
  case Service_SetAttributeSingle
  then show ?thesis
    using SetAttributeSingle_keeps [OF side_of_keeps [OF assms(1)] attributes_of_keep [OF assms(1)] assms(4)] assms(5)
    by (simp add: run_service_def)
next
  case Service_SetAttributeList
  then show ?thesis
    using SetAttributeList_keeps [OF attributes_of_keep [OF assms(1)] assms(4)] assms(5) by (simp add: run_service_def)
next
  case Service_Reset
  then show ?thesis
    using CipResetService_keeps [of P "callbacks t", OF _ _ assms(4)] assms(1,5) by (simp add: run_service_def table_keeps_def)
next
  case (Service_function g)
  then show ?thesis
    using assms by (fastforce simp: run_service_def service_keeps_def function_keeps_def ensures_def)
qed (use assms in \<open>auto simp: run_service_def GetAttributeAll_def GetAttributeList_def bind_Some_iff Let_def split: if_splits\<close>)

section \<open>Building a table\<close>

lemma unused_keeps [simp]: "attribute_keeps P unused_attribute"
  by (simp add: attribute_keeps_def unused_attribute_def)

lemma set_update_subset: "set (AList.update k v xs) \<subseteq> insert (k, v) (set xs)"
  by (induction xs) auto

lemma InsertAttribute_sides:
  "InsertAttribute a (c, as) = Some (d, bs) \<Longrightarrow> set bs \<subseteq> insert a (set as) \<and> side_keeps P d = side_keeps P c"
  by (auto simp: InsertAttribute_def bind_Some_iff side_keeps_def dest!: unused_fill)

lemma insert_attribute_keeps:
  assumes "insert_attribute i a t = Some t'" and "table_keeps P t" and "attribute_keeps P a"
  shows "table_keeps P t'"
proof (cases "i = 0")
  case True
  obtain c as where ins: "InsertAttribute a (class_side t, class_attributes t) = Some (c, as)"
    and t': "t' = t\<lparr>class_side := c, class_attributes := as\<rparr>"
    using assms(1) True by (auto simp: insert_attribute_def bind_Some_iff)
  show ?thesis
    using InsertAttribute_sides [OF ins, of P] assms(2,3) by (auto simp: t' table_keeps_def list_all_iff)
next
  case False
  obtain as where as: "map_of (instance_attributes t) i = Some as"
    using assms(1) False by (auto simp: insert_attribute_def bind_Some_iff)
  then obtain c bs where ins: "InsertAttribute a (instance_side t, as) = Some (c, bs)"
    and t': "t' = t\<lparr>instance_side := c, instance_attributes := AList.update i bs (instance_attributes t)\<rparr>"
    using assms(1) False by (auto simp: insert_attribute_def bind_Some_iff)
  have "list_all (attribute_keeps P) as"
    using map_of_SomeD [OF as] assms(2) by (auto simp: table_keeps_def list_all_iff)
  then have "list_all (attribute_keeps P) bs"
    using InsertAttribute_sides [OF ins, of P] assms(3) by (auto simp: list_all_iff)
  then have "list_all (\<lambda>x. list_all (attribute_keeps P) (snd x)) (AList.update i bs (instance_attributes t))"
    using set_update_subset [of i bs "instance_attributes t"] assms(2) by (fastforce simp: table_keeps_def list_all_iff)
  then show ?thesis
    using InsertAttribute_sides [OF ins, of P] assms(2) by (simp add: t' table_keeps_def)
qed

lemma insert_attributes_keep:
  "insert_attributes i as t = Some t' \<Longrightarrow> table_keeps P t \<Longrightarrow> list_all (attribute_keeps P) as \<Longrightarrow> table_keeps P t'"
proof (induction as arbitrary: t)
  case (Cons a as)
  then obtain u where u: "insert_attribute i a t = Some u" "insert_attributes i as u = Some t'"
    by (auto simp: bind_Some_iff)
  show ?case
    using Cons.IH [OF u(2)] insert_attribute_keeps [OF u(1)] Cons.prems(2,3) by simp
qed simp

lemma InsertService_subset:
  "InsertService n f ss = Some ts \<Longrightarrow> set ts \<subseteq> insert \<lparr>service_number = n, service_function = Some f\<rparr> (set ss)"
  by (induction n f ss arbitrary: ts rule: InsertService.induct) (fastforce simp: bind_Some_iff split: if_splits)+

definition ref_keeps :: "(stack \<Rightarrow> bool) \<Rightarrow> 'addr service_ref \<Rightarrow> bool" where
  "ref_keeps P f \<longleftrightarrow> (\<forall>g. f = Service_function g \<longrightarrow> function_keeps P g)"

lemma insert_service_keeps:
  "insert_service n f t = Some t' \<Longrightarrow> table_keeps P t \<Longrightarrow> ref_keeps P f \<Longrightarrow> table_keeps P t'"
  "insert_class_service n f t = Some t' \<Longrightarrow> table_keeps P t \<Longrightarrow> ref_keeps P f \<Longrightarrow> table_keeps P t'"
  by (fastforce simp: insert_service_def insert_class_service_def bind_Some_iff table_keeps_def list_all_iff
      service_keeps_def ref_keeps_def dest!: InsertService_subset)+

lemma insert_services_keep:
  "insert_services fs t = Some t' \<Longrightarrow> table_keeps P t \<Longrightarrow> list_all (\<lambda>x. ref_keeps P (snd x)) fs \<Longrightarrow> table_keeps P t'"
proof (induction fs arbitrary: t)
  case (Cons f fs)
  then obtain n g u where u: "insert_service n g t = Some u" "insert_services fs u = Some t'" "f = (n, g)"
    by (cases f) (auto simp: bind_Some_iff)
  show ?case
    using Cons.IH [OF u(2)] insert_service_keeps(1) [OF u(1)] Cons.prems(2,3) u(3) by simp
qed simp

lemma built_in_keeps [simp]:
  "ref_keeps P Service_GetAttributeSingle" "ref_keeps P Service_GetAttributeAll" "ref_keeps P Service_SetAttributeSingle"
  "ref_keeps P Service_GetAttributeList" "ref_keeps P Service_SetAttributeList" "ref_keeps P Service_Reset"
  by (simp_all add: ref_keeps_def)

lemma read_only_keeps [simp]:
  "attribute_keeps P (state_attribute n type encode None octets flags)"
  "attribute_keeps P (class_attribute code field n flags)"
  "attribute_keeps P (fixed_attribute v n flags)"
  "attribute_keeps P (constant_attribute n type encode' octets' flags)"
  by (simp_all add: attribute_keeps_def state_attribute_def class_attribute_def fixed_attribute_def constant_attribute_def)

lemma empty_table_keeps [simp]: "table_keeps P (empty_table code z ns)"
  by (auto simp: table_keeps_def empty_table_def side_keeps_def new_object_class_def AllocateAttributeMasks_def Let_def
      callback_keeps_def service_keeps_def unused_service_def list_all_iff reset_keeps_def no_callbacks_def run_callback_def)

lemma default_class_keeps:
  assumes "default_class n t = Some t'" and "table_keeps P t"
  shows "table_keeps P t'"
proof -
  obtain u where u: "insert_attributes 0 (default_class_attributes (table_code t)
      (highest_attribute_number (class_side t)) (highest_attribute_number (instance_side t))) t = Some u"
    and rest: "(if n > 0 then do {
       t \<leftarrow> (if n > 1 then insert_class_service kGetAttributeAll Service_GetAttributeAll u else Some u);
       insert_class_service kGetAttributeSingle Service_GetAttributeSingle t } else Some u) = Some t'"
    using assms(1) unfolding default_class_def bind_eq_Some_conv by blast
  have keeps: "table_keeps P u"
    using insert_attributes_keep [OF u assms(2)] by (simp add: default_class_attributes_def)
  show ?thesis
  proof (cases "n > 0")
    case True
    then obtain v where v: "(if n > 1 then insert_class_service kGetAttributeAll Service_GetAttributeAll u else Some u) = Some v"
      "insert_class_service kGetAttributeSingle Service_GetAttributeSingle v = Some t'"
      using rest by (auto simp: bind_Some_iff)
    have "table_keeps P v"
      using v(1) keeps insert_service_keeps(2) [of kGetAttributeAll Service_GetAttributeAll u v P] by (auto split: if_splits)
    then show ?thesis
      using insert_service_keeps(2) [OF v(2)] by simp
  qed (use rest keeps in simp)
qed

lemma CreateCipClass_keeps:
  assumes "created (CreateCipClass al code z n name revision f s) = Some (t, s')"
    and "\<And>g u v. f = Some g \<Longrightarrow> g u = Some v \<Longrightarrow> table_keeps P u \<Longrightarrow> table_keeps P v"
  shows "table_keeps P t"
  using assms by (auto simp: created_def CreateCipClass_def bind_Some_iff split: option.splits if_splits dest!: default_class_keeps [where P = P])

lemma register_class_connections:
  "register_class al code z n name revision s = Some (k, s') \<Longrightarrow> connection_list s' = connection_list s \<and> conn s' = conn s"
  by (auto simp: register_class_def RegisterCipClass_def bind_Some_iff Let_def split: if_splits)

lemma CreateCipClass_connections:
  "created (CreateCipClass al code z n name revision f s) = Some (t, s') \<Longrightarrow> connection_list s' = connection_list s \<and> conn s' = conn s"
  by (auto simp: created_def CreateCipClass_def bind_Some_iff split: if_splits dest!: register_class_connections)

lemma add_table_instance_keeps [simp]: "table_keeps P t \<Longrightarrow> table_keeps P (add_table_instance i t)"
  by (simp add: add_table_instance_def table_keeps_def list_all_iff)

lemma InsertGetSetCallback_keeps: "callback_keeps P (Some f) \<Longrightarrow> side_keeps P c \<Longrightarrow> side_keeps P (InsertGetSetCallback f k c)"
  by (simp add: InsertGetSetCallback_def side_keeps_def Let_def)

lemma change_table_keeps:
  assumes "\<And>t t'. f t = Some t' \<Longrightarrow> table_keeps P t \<Longrightarrow> table_keeps P t'"
  shows "change_table code f ts = Some ts' \<Longrightarrow> list_all (table_keeps P) ts \<Longrightarrow> list_all (table_keeps P) ts'"
  by (induction ts arbitrary: ts') (auto simp: bind_Some_iff split: if_splits dest: assms)

lemma install_callback_keeps:
  "install_callback f k t = Some t' \<Longrightarrow> callback_keeps P (Some f) \<Longrightarrow> table_keeps P t \<Longrightarrow> table_keeps P t'"
  by (auto simp: install_callback_def table_keeps_def intro: InsertGetSetCallback_keeps)

section \<open>The classes of the stack keep the invariant of the connections\<close>

lemma object_fields_inv [simp]:
  "connections_inv (s\<lparr>g_tcpip := a\<rparr>) = connections_inv s"
  "connections_inv (s\<lparr>g_ethernet_link := b\<rparr>) = connections_inv s"
  "connections_inv (s\<lparr>g_qos := c\<rparr>) = connections_inv s"
  "connections_inv (s\<lparr>s_active_dscp := d\<rparr>) = connections_inv s"
  "connections_inv (s\<lparr>g_identity := f\<rparr>) = connections_inv s"
  by (simp_all add: connections_inv_def conn_ok_def)

lemma set_tcpip_inv [simp]: "connections_inv (set_tcpip f s) = connections_inv s"
  by (simp add: set_tcpip_def)

lemma tcpip_decoders_keep:
  "ensures (\<lambda>(k, request', r', s'). connections_inv s' = connections_inv s) (DecodeTcpIpInterfaceConfigurationControl request r s)"
  "ensures (\<lambda>(k, request', r', s'). connections_inv s' = connections_inv s) (DecodeCipTcpIpInterfaceConfiguration al e request r s)"
  "ensures (\<lambda>(k, request', r', s'). connections_inv s' = connections_inv s) (DecodeCipTcpIpInterfaceHostName al request r s)"
  "ensures (\<lambda>(k, request', r', s'). connections_inv s' = connections_inv s) (DecodeCipTcpIpInterfaceEncapsulationInactivityTimeout request r s)"
  unfolding DecodeTcpIpInterfaceConfigurationControl_def DecodeCipTcpIpInterfaceConfiguration_def
    DecodeCipTcpIpInterfaceHostName_def DecodeCipTcpIpInterfaceEncapsulationInactivityTimeout_def refused_def Let_def
  by (auto intro!: ensuresI simp: bind_Some_iff split: if_splits)

lemma decoder_keeps:
  assumes "\<And>request r s. ensures (\<lambda>(k, request', r', s'). connections_inv s' = connections_inv s) (d request r s)"
  shows "attribute_keeps connections_inv (state_attribute n type encode (Some d) octets flags)"
  using assms by (fastforce simp: attribute_keeps_def state_attribute_def ensures_def)

lemma tcpip_attributes_keep: "list_all (attribute_keeps connections_inv) (tcpip_attributes settable al e)"
  by (simp add: tcpip_attributes_def decoder_keeps tcpip_decoders_keep)

lemma link_decoder_keeps:
  "ensures (\<lambda>(k, request', r', s'). connections_inv s' = connections_inv s) (DecodeCipEthernetLinkInterfaceControl idx request r s)"
proof -
  have any: "ensures (\<lambda>_. True) m" for m :: "'b option"
    by (simp add: ensures_def)
  show ?thesis
    unfolding DecodeCipEthernetLinkInterfaceControl_def refused_def Let_def
    by (intro ensures_bindI [OF any] | clarsimp simp del: ensures_bind split: prod.split | rule conjI impI)+
qed

lemma link_attributes_keep: "list_all (attribute_keeps connections_inv) (link_attributes ctrl label idx)"
  by (simp add: link_attributes_def Let_def decoder_keeps link_decoder_keeps)

lemma dscp_attribute_keeps: "attribute_keeps connections_inv (dscp_attribute field put n)"
  by (auto simp: dscp_attribute_def attribute_keeps_def variable_attribute_def set_dscp_def ensures_def bind_Some_iff)

lemma qos_attributes_keep: "list_all (attribute_keeps connections_inv) qos_attributes"
  by (simp add: qos_attributes_def dscp_attribute_keeps)

lemma assembly_attributes_keep: "list_all (attribute_keeps connections_inv) (assembly_attributes n)"
  by (auto simp: assembly_attributes_def attribute_keeps_def state_attribute_def ensures_def bind_Some_iff
      dest: DecodeCipAssemblyAttribute3_inv)

lemma read_only_tables:
  "list_all (attribute_keeps P) identity_attributes" "list_all (attribute_keeps P) dlr_attributes"
  by (simp_all add: identity_attributes_def dlr_attributes_def)

lemma insert_links_keep: "insert_links ctrl label ids t = Some t' \<Longrightarrow> table_keeps connections_inv t \<Longrightarrow> table_keeps connections_inv t'"
  by (induction ids arbitrary: t)
    (auto simp: bind_Some_iff dest: insert_attributes_keep [where P = connections_inv, OF _ _ link_attributes_keep])

lemma add_assemblies_keep: "add_assemblies ns t = Some t' \<Longrightarrow> table_keeps connections_inv t \<Longrightarrow> table_keeps connections_inv t'"
  by (induction ns arbitrary: t)
    (auto simp: bind_Some_iff dest: insert_attributes_keep [where P = connections_inv, OF _ _ assembly_attributes_keep])

lemma reset_device_inv:
  "ResetDevice s = Some (status, s') \<Longrightarrow> connections_inv s \<Longrightarrow> connections_inv s'"
  "ResetDeviceToInitialConfiguration s = Some (status, s') \<Longrightarrow> connections_inv s \<Longrightarrow> connections_inv s'"
proof -
  show reset: "ResetDevice s = Some (status, s') \<Longrightarrow> connections_inv s \<Longrightarrow> connections_inv s'" for s status s'
    by (auto simp: ResetDevice_def CloseAllConnections_def CipQosUpdateUsedSetQosValues_def bind_Some_iff dest: close_all_inv)
  show "ResetDeviceToInitialConfiguration s = Some (status, s') \<Longrightarrow> connections_inv s \<Longrightarrow> connections_inv s'"
    by (auto simp: ResetDeviceToInitialConfiguration_def CipQosResetAttributesToDefaultValues_def bind_Some_iff Let_def
        dest!: reset)
qed

lemma identity_reset_keeps: "reset_keeps connections_inv (Some (\<lambda>i. IdentityObjectPreResetCallback))"
  by (auto simp: reset_keeps_def run_callback_def IdentityObjectPreResetCallback_def bind_Some_iff
      intro!: ensuresI split: if_splits dest: reset_device_inv)

lemma class_side_initializers:
  assumes "table_keeps P t"
  shows "InitializeCipMessageRouterClass t = Some t' \<Longrightarrow> table_keeps P t'"
    and "InitializeConnectionManager t = Some t' \<Longrightarrow> table_keeps P t'"
proof -
  have attributes: "ensures (table_keeps P) (insert_attributes 0 as t)" if "list_all (attribute_keeps P) as" for as
    using insert_attributes_keep [OF _ assms that] by (auto intro: ensuresI)
  have services: "ensures (table_keeps P) (insert_class_service n f u)" if "ref_keeps P f" "table_keeps P u" for n f u
    using insert_service_keeps(2) that by (auto intro!: ensuresI)
  have "ensures (table_keeps P) (InitializeCipMessageRouterClass t)" "ensures (table_keeps P) (InitializeConnectionManager t)"
    unfolding InitializeCipMessageRouterClass_def InitializeConnectionManager_def Let_def
    by (intro ensures_bindI [OF attributes] ensures_bindI [OF services] services; simp)+
  then show "InitializeCipMessageRouterClass t = Some t' \<Longrightarrow> table_keeps P t'"
    and "InitializeConnectionManager t = Some t' \<Longrightarrow> table_keeps P t'"
    by (auto dest: ensuresD)
qed

lemma InitializeCipIdentity_keeps:
  assumes "InitializeCipIdentity t = Some t'" and "table_keeps connections_inv t"
  shows "table_keeps connections_inv t'"
proof -
  obtain u where u: "InitializeConnectionManager t = Some u"
    and t': "t' = u\<lparr>callbacks := (callbacks u)\<lparr>PreResetCallback := Some (\<lambda>i. IdentityObjectPreResetCallback)\<rparr>\<rparr>"
    using assms(1) by (auto simp: InitializeCipIdentity_def bind_Some_iff)
  show ?thesis
    using class_side_initializers(2) [OF assms(2) u] identity_reset_keeps by (simp add: t' table_keeps_def)
qed

lemma manager_services_keep:
  "function_keeps connections_inv (ForwardOpen pf)" "function_keeps connections_inv (LargeForwardOpen pf)"
  "function_keeps connections_inv ForwardClose" "function_keeps connections_inv GetConnectionOwner"
  "function_keeps connections_inv GetConnectionData" "function_keeps connections_inv SearchConnectionData"
  unfolding function_keeps_def
  by (intro allI impI ForwardOpen_inv ForwardClose_inv; assumption
    | force intro!: ensuresI simp: GetConnectionOwner_def GetConnectionData_def SearchConnectionData_def bind_Some_iff Let_def)+

section \<open>Starting the stack\<close>

text \<open>What every initialisation of a class ensures: a table that keeps the invariant and no new connection.\<close>

definition class_ready :: "stack \<Rightarrow> 'addr object_table \<times> stack \<Rightarrow> bool" where
  "class_ready s x \<longleftrightarrow> table_keeps connections_inv (fst x) \<and> connection_list (snd x) = connection_list s"

lemma class_ready_simps [simp]:
  "class_ready s (t, s') \<longleftrightarrow> table_keeps connections_inv t \<and> connection_list s' = connection_list s"
  by (simp add: class_ready_def)

lemma CreateCipClass_ready:
  assumes "\<And>g u v. f = Some g \<Longrightarrow> g u = Some v \<Longrightarrow> table_keeps connections_inv u \<Longrightarrow> table_keeps connections_inv v"
  shows "ensures (class_ready s) (created (CreateCipClass al code z n name revision f s))"
proof (rule ensuresI)
  fix x
  assume "created (CreateCipClass al code z n name revision f s) = Some x"
  moreover obtain t s' where "x = (t, s')"
    by (cases x)
  ultimately show "class_ready s x"
    using CreateCipClass_keeps [of al code z n name revision f s t s' connections_inv] assms
      CreateCipClass_connections [of al code z n name revision f s t s'] by simp
qed

lemma attributes_ready:
  assumes "list_all (attribute_keeps connections_inv) as" and "table_keeps connections_inv t"
  shows "ensures (table_keeps connections_inv) (insert_attributes i as t)"
  using insert_attributes_keep [OF _ assms(2,1)] by (auto intro: ensuresI)

lemma services_ready:
  assumes "list_all (\<lambda>x. ref_keeps connections_inv (snd x)) fs" and "table_keeps connections_inv t"
  shows "ensures (table_keeps connections_inv) (insert_services fs t)"
  using insert_services_keep [OF _ assms(2,1)] by (auto intro: ensuresI)

lemma no_initializer: "None = Some g \<Longrightarrow> Q"
  by simp

lemma product_name_ready: "SetDeviceProductName al name s = Some s' \<Longrightarrow> connection_list s' = connection_list s"
  by (auto simp: SetDeviceProductName_def set_identity_def bind_Some_iff split: option.splits)

lemma CipMessageRouterInit_ready: "ensures (class_ready s) (CipMessageRouterInit al s)"
  unfolding CipMessageRouterInit_def
  by (rule ensures_bindI [OF CreateCipClass_ready])
    (auto dest: class_side_initializers simp del: ensures_bind insert_services.simps insert_attributes.simps intro!: ensures_bindI [OF services_ready])

lemma CipIdentityInit_ready: "ensures (class_ready s) (CipIdentityInit al s)"
proof -
  have name: "ensures (\<lambda>s'. connection_list s' = connection_list t) (if b then SetDeviceProductName al p t else Some t)" for b p t
    using product_name_ready by (auto intro: ensuresI)
  show ?thesis
    unfolding CipIdentityInit_def
    by (rule ensures_bindI [OF CreateCipClass_ready])
      (auto dest: InitializeCipIdentity_keeps simp: read_only_tables simp del: ensures_bind insert_services.simps insert_attributes.simps
        intro!: ensures_bindI [OF name] ensures_bindI [OF attributes_ready] ensures_bindI [OF services_ready])
qed

lemma CipTcpIpInterfaceInit_ready: "ensures (class_ready s) (CipTcpIpInterfaceInit settable al e s)"
  unfolding CipTcpIpInterfaceInit_def
  by (rule ensures_bindI [OF CreateCipClass_ready])
    (auto simp: tcpip_attributes_keep simp del: ensures_bind insert_services.simps insert_attributes.simps
      intro!: ensures_bindI [OF attributes_ready] ensures_bindI [OF services_ready])

lemma CipEthernetLinkInit_ready: "ensures (class_ready s) (CipEthernetLinkInit al ctrl label s)"
proof -
  have links: "ensures (table_keeps connections_inv) (insert_links c label ids t)" if "table_keeps connections_inv t" for c ids t
    using that by (auto intro!: ensuresI dest: insert_links_keep)
  show ?thesis
    unfolding CipEthernetLinkInit_def Let_def
    by (rule ensures_bindI [OF CreateCipClass_ready])
      (auto simp del: ensures_bind insert_services.simps insert_attributes.simps intro!: ensures_bindI [OF links] ensures_bindI [OF services_ready])
qed

lemma CipQoSInit_ready: "ensures (class_ready s) (CipQoSInit al s)"
  unfolding CipQoSInit_def
  by (rule ensures_bindI [OF CreateCipClass_ready])
    (auto simp: qos_attributes_keep simp del: ensures_bind insert_services.simps insert_attributes.simps
      intro!: ensures_bindI [OF attributes_ready] ensures_bindI [OF services_ready])

lemma CipDlrInit_ready: "ensures (class_ready s) (CipDlrInit al s)"
  unfolding CipDlrInit_def
  by (rule ensures_bindI [OF CreateCipClass_ready])
    (auto simp: read_only_tables simp del: ensures_bind insert_services.simps insert_attributes.simps
      intro!: ensures_bindI [OF attributes_ready] ensures_bindI [OF services_ready])

lemma connection_manager_table_ready: "ensures (table_keeps connections_inv) (connection_manager_table pf s)"
proof -
  have any: "ensures (\<lambda>_. True) m" for m :: "'b option"
    by (simp add: ensures_def)
  have side: "ensures (table_keeps connections_inv) (InitializeConnectionManager t)" if "table_keeps connections_inv t"
    for t :: "'addr object_table"
    using class_side_initializers(2) [OF that] by (auto intro: ensuresI)
  show ?thesis
    unfolding connection_manager_table_def
    by (intro ensures_bindI [OF any] ensures_bindI [OF side] services_ready)
      (simp_all add: ref_keeps_def manager_services_keep)
qed

lemma callbacks_keep:
  "callback_keeps connections_inv (Some AssemblyPreGetCallback)" "callback_keeps connections_inv (Some AssemblyPostSetCallback)"
  "callback_keeps connections_inv (Some (NvQosSetCallback pf))" "callback_keeps connections_inv (Some (NvTcpipSetCallback pf))"
  by (auto simp: callback_keeps_def AssemblyPreGetCallback_def AssemblyPostSetCallback_def BeforeAssemblyDataSend_def
      NvQosSetCallback_def NvTcpipSetCallback_def NvQosStore_def NvTcpipStore_def ConfFileOpen_def ConfFileClose_def
      syscall_def Let_def split: option.split EipStatus.split)

lemma assembly_table_ready: "ensures (table_keeps connections_inv) (assembly_table s)"
proof -
  have any: "ensures (\<lambda>_. True) m" for m :: "'b option"
    by (simp add: ensures_def)
  have side: "ensures (table_keeps connections_inv) (default_class n t)" if "table_keeps connections_inv t"
    for n and t :: "'addr object_table"
    using that by (auto intro!: ensuresI dest: default_class_keeps)
  show ?thesis
    unfolding assembly_table_def
    by (rule ensures_bindI [OF any], rule ensures_bindI [OF side], simp, rule ensures_bindI [OF services_ready])
      (auto simp: table_keeps_def intro!: InsertGetSetCallback_keeps callbacks_keep)
qed

lemma CreateAssemblyObject_connections:
  "ensures (\<lambda>s'. connection_list s' = connection_list s) (CreateAssemblyObject al i p n s)"
proof -
  have any: "ensures (\<lambda>_. True) m" for m :: "'b option"
    by (simp add: ensures_def)
  have "ensures (\<lambda>(k, t). connection_list t = connection_list s)
      (if class_data kCipAssemblyClassCode s = None then CreateAssemblyClass al s else Some (kEipStatusOk, s))"
    by (auto intro!: ensuresI simp: CreateAssemblyClass_def dest!: register_class_connections)
  then show ?thesis
    unfolding CreateAssemblyObject_def
    by (rule ensures_bindI) (auto simp: set_class_data_def Let_def any)
qed

lemma ApplicationInitialization_ready:
  assumes "ApplicationInitialization z pf ts s = Some (k, ts', s')" and "list_all (table_keeps connections_inv) ts"
  shows "list_all (table_keeps connections_inv) ts' \<and> connection_list s' = connection_list s"
proof -
  obtain u ns t1 t2 where u: "create_application_assemblies (allocates z) (input_assembly_num z, input_size z)
      (output_assembly_num z, output_size z) (config_assembly_num z, config_size z) s = Some u"
    and t1: "(if CipCalloc (allocates z) 1 sizeof_CipByteArray then change_table kCipAssemblyClassCode (add_assemblies ns) ts
      else Some ts) = Some t1"
    and t2: "change_table kCipQoSClassCode (install_callback (NvQosSetCallback pf) kNvDataFunc) t1 = Some t2"
    and t3: "change_table kCipTcpIpInterfaceClassCode (install_callback (NvTcpipSetCallback pf) kNvDataFunc) t2 = Some ts'"
    and s': "s' = configure_application_points (of_int (input_assembly_num z)) (of_int (output_assembly_num z))
               (of_int (config_assembly_num z)) u"
    using assms(1) by (auto simp: ApplicationInitialization_def bind_Some_iff Let_def)
  have "list_all (table_keeps connections_inv) t1"
    using t1 change_table_keeps [of "add_assemblies ns" connections_inv kCipAssemblyClassCode ts t1] assms(2)
      add_assemblies_keep by (auto split: if_splits)
  then have "list_all (table_keeps connections_inv) t2"
    using change_table_keeps [OF _ t2] install_callback_keeps callbacks_keep(3) by blast
  then have "list_all (table_keeps connections_inv) ts'"
    using change_table_keeps [OF _ t3] install_callback_keeps callbacks_keep(4) by blast
  moreover have "connection_list u = connection_list s"
    using u by (auto simp: create_application_assemblies_def CreateDynamicAssembly_def bind_Some_iff split: if_splits
        dest!: CreateAssemblyObject_connections [THEN ensuresD])
  then have "connection_list s' = connection_list s"
    by (simp add: s' configure_application_points_def ConfigureListenOnlyConnectionPoint_def
        ConfigureInputOnlyConnectionPoint_def ConfigureExclusiveOwnerConnectionPoint_def)
  ultimately show ?thesis ..
qed

text \<open>The tables of the stack never break the invariant, and the stack starts with the connections it is given.\<close>

lemma CipStackInit_ready:
  "ensures (\<lambda>(k, ts, s'). list_all (table_keeps connections_inv) ts \<and> connection_list s' = connection_list s)
     (CipStackInit z pf u s)"
proof -
  have manager: "ensures (\<lambda>(k, s'). connection_list s' = connection_list t) (ConnectionManagerInit (allocates z) u t)" for t
  proof -
    have "connection_list (InitializeConnectionManagerData t) = connection_list t"
      by (simp add: InitializeConnectionManagerData_def InitializeIoConnectionData_def InitializeClass3ConnectionData_def)
    then show ?thesis
      by (auto intro!: ensuresI simp: ConnectionManagerInit_def AddConnectableObject_def bind_Some_iff Let_def case_prod_unfold
          split: if_splits dest!: register_class_connections)
  qed
  have creates: "ensures (\<lambda>(k, s'). connection_list s' = connection_list t) (CipAssemblyInitialize (allocates z) t)" for t
    by (auto intro!: ensuresI simp: CipAssemblyInitialize_def CreateAssemblyClass_def dest!: register_class_connections)
  have dlr: "ensures (\<lambda>(ts, s'). list_all (table_keeps connections_inv) ts \<and> connection_list s' = connection_list t)
      (if dlr_device z then do { (t, s) \<leftarrow> CipDlrInit (allocates z) t; Some ([t], s) } else Some ([], t))" for t
    by (auto simp del: ensures_bind intro!: ensures_bindI [OF CipDlrInit_ready])
  have app: "ensures (\<lambda>(k, ts', s'). list_all (table_keeps connections_inv) ts' \<and> connection_list s' = connection_list t)
      (ApplicationInitialization z pf ts t)" if "list_all (table_keeps connections_inv) ts" for ts t
    using that by (auto intro!: ensuresI dest: ApplicationInitialization_ready)
  have any: "ensures (\<lambda>_. True) (c_assert b)" for b
    by (simp add: ensures_def)
  show ?thesis
    unfolding CipStackInit_def
    apply (rule ensures_bindI [OF CipMessageRouterInit_ready], clarsimp simp del: ensures_bind)
    apply (rule ensures_bindI [OF CipIdentityInit_ready], clarsimp simp del: ensures_bind)
    apply (rule ensures_bindI [OF CipTcpIpInterfaceInit_ready], clarsimp simp del: ensures_bind)
    apply (rule ensures_bindI [OF CipEthernetLinkInit_ready], clarsimp simp del: ensures_bind)
    apply (rule ensures_bindI [OF manager], clarsimp simp del: ensures_bind)
    apply (rule ensures_bindI [OF any])
    apply (rule ensures_bindI [OF connection_manager_table_ready])
    apply (rule ensures_bindI [OF creates], clarsimp simp del: ensures_bind split del: if_split)
    apply (rule ensures_bindI [OF any])
    apply (rule ensures_bindI [OF assembly_table_ready])
    apply (rule ensures_bindI [OF dlr], clarsimp simp del: ensures_bind)
    apply (rule ensures_bindI [OF CipQoSInit_ready], clarsimp simp del: ensures_bind)
    apply (rule ensures_bindI [OF app], simp, clarsimp simp del: ensures_bind)
    apply (rule ensures_bindI [OF any], simp)
    done
qed

section \<open>The services of the running stack\<close>

text \<open>The tables that the start of the stack leaves; none if it fails.\<close>

definition installed_tables :: "settings \<Rightarrow> platform \<Rightarrow> u16 \<Rightarrow> stack \<Rightarrow> stack_table list" where
  "installed_tables z pf u s = (case CipStackInit z pf u s of None \<Rightarrow> [] | Some (k, ts, s') \<Rightarrow> ts)"

lemma installed_tables_keep: "list_all (table_keeps connections_inv) (installed_tables z pf u s)"
  using CipStackInit_ready [of s z pf u] by (auto simp: installed_tables_def ensures_def split: option.split)

lemma tables_keep_services:
  assumes "list_all (table_keeps connections_inv) ts" and "connections_inv s'" and "c \<in> set (stack_classes ts s)"
    and "x \<in> set (services c) \<union> set (meta_class_services c)" and "service_function x = Some f"
    and "f i request r originator h s' = Some (status, r', s'')"
  shows "connections_inv s''"
proof -
  obtain t where t: "t \<in> set ts" "c = router_class s t"
    using assms(3) by (auto simp: stack_classes_def)
  then obtain y where y: "y \<in> set (instance_service_slots t) \<union> set (class_service_slots t)"
    "x = \<lparr>service_number = service_number y, service_function = map_option (run_service t) (service_function y)\<rparr>"
    using assms(4) by (auto simp: router_class_def bind_services_def)
  then obtain g where g: "service_function y = Some g" "f = run_service t g"
    using assms(5) by auto
  have keeps: "table_keeps connections_inv t"
    using assms(1) t(1) by (simp add: list_all_iff)
  then have "service_keeps connections_inv y"
    using y(1) by (auto simp: table_keeps_def list_all_iff)
  then show ?thesis
    using run_service_keeps [OF keeps _ g(1) assms(2)] assms(6) g(2) by blast
qed

interpretation running: connection_services "stack_classes (installed_tables z pf u s0) s" for z pf u s0 s
  by unfold_locales (rule tables_keep_services [OF installed_tables_keep])

section \<open>The connections while the stack runs\<close>

lemma os_call_list:
  assumes "\<And>r s'. connection_list s' = l \<Longrightarrow> connection_list (snd (continue r s')) = l"
  shows "connection_list s = l \<Longrightarrow> connection_list (snd (os_call pf bad continue s)) = l"
  using assms by (simp add: os_call_def syscall_def Let_def)

lemma NetworkHandlerInitialize_list: "connection_list (snd (NetworkHandlerInitialize pf s)) = connection_list s"
proof -
  have finish: "connection_list (snd (finish_network pf t)) = l" if "connection_list t = l" for t l
    using that by (simp add: finish_network_def syscall_def set_elapsed_time_def Let_def)
  have qos: "connection_list (set_explicit_qos pf f t) = connection_list t" for f t
    by (simp add: set_explicit_qos_def syscall_def)
  have status: "connection_list (set_network_status f t) = connection_list t" for f t
    by (simp add: set_network_status_def)
  have "connection_list (prepare_network e s) = connection_list s" for e
    by (simp add: prepare_network_def EncapsulationInit_def CipQosUpdateUsedSetQosValues_def status Let_def)
  then show ?thesis
    unfolding NetworkHandlerInitialize_def open_tcp_listener_def open_udp_listeners_def reuse_and_unblock_def bind_listeners_def
    by (intro os_call_list finish; simp add: status qos)
qed

lemma file_list:
  "ConfFileOpen pf w s = (f, p, s') \<Longrightarrow> connection_list s' = connection_list s"
  "ConfFileClose pf s = (k, s') \<Longrightarrow> connection_list s' = connection_list s"
  by (auto simp: ConfFileOpen_def ConfFileClose_def syscall_def Let_def split: if_splits)

lemma NvQosStore_list: "NvQosStore pf q s = (k, s') \<Longrightarrow> connection_list s' = connection_list s"
  by (auto simp: NvQosStore_def syscall_def Let_def split: prod.splits if_splits dest!: file_list)

lemma NvQosLoad_list: "NvQosLoad pf q s = Some (k, q', s') \<Longrightarrow> connection_list s' = connection_list s"
proof -
  have read: "ensures (\<lambda>(vs, k, s'). connection_list s' = connection_list s)
      (if f then do { vs \<leftarrow> scan_list 5 p; let (k, s) = ConfFileClose pf t; Some (vs, k, s) } else Some ([], kEipStatusError, t))"
    if "ConfFileOpen pf False s = (f, p, t)" for f p t
    using file_list(1) [OF that] by (auto intro!: ensuresI simp: bind_Some_iff dest!: file_list(2) split: prod.splits)
  have "ensures (\<lambda>(k, q', s'). connection_list s' = connection_list s) (NvQosLoad pf q s)"
    unfolding NvQosLoad_def Let_def
    by (cases "ConfFileOpen pf False s", simp only: prod.case, rule ensures_bindI [OF read [unfolded Let_def]], assumption)
      (auto split: list.split)
  then show "NvQosLoad pf q s = Some (k, q', s') \<Longrightarrow> connection_list s' = connection_list s"
    by (simp add: ensures_def)
qed

lemma NvdataLoad_list: "NvdataLoad pf s = Some (k, s') \<Longrightarrow> connection_list s' = connection_list s"
  by (auto simp: NvdataLoad_def bind_Some_iff Let_def split: prod.splits if_splits dest!: NvQosLoad_list NvQosStore_list)

lemma IfaceGetMacAddress_list: "IfaceGetMacAddress pf name s = (k, mac, s') \<Longrightarrow> connection_list s' = connection_list s"
  by (auto simp: IfaceGetMacAddress_def syscall_def Let_def split: if_splits)

text \<open>The stack that was started has no connection, and its tables are those of the initialisation.\<close>

lemma startOpENerStack_ready:
  assumes "startOpENerStack z pf name s = Some (Some ts, s1)"
  shows "connections_inv s1 \<and> (\<exists>u s0. ts = installed_tables z pf u s0)"
proof -
  obtain k mac t where t: "IfaceGetMacAddress pf name (s\<lparr>connection_list := []\<rparr>) = (k, mac, t)"
    by (cases "IfaceGetMacAddress pf name (s\<lparr>connection_list := []\<rparr>)")
  let ?u = "ucast (os_rand pf 0) :: u16" and ?t = "SetDeviceSerialNumber 123456789 t"
  from assms t obtain j ts' a b l c where a: "CipStackInit z pf ?u ?t = Some (j, ts', a)"
    and b: "CipEthernetLinkSetMac mac a = Some b" and c: "NvdataLoad pf b = Some (l, c)"
    and s1: "ts' = ts" "s1 = snd (NetworkHandlerInitialize pf c)"
    by (auto simp: startOpENerStack_def bind_Some_iff Let_def case_prod_unfold split: if_splits)
  have "connection_list a = connection_list ?t"
    using CipStackInit_ready [of ?t z pf ?u] a by (simp add: ensures_def)
  moreover have "connection_list ?t = []"
    using IfaceGetMacAddress_list [OF t] by (simp add: SetDeviceSerialNumber_def)
  moreover have "connection_list b = connection_list a"
    using b by (auto simp: CipEthernetLinkSetMac_def bind_Some_iff)
  ultimately have "connection_list s1 = []"
    using NvdataLoad_list [OF c] NetworkHandlerInitialize_list [of pf c] s1(2) by simp
  then show ?thesis
    using a s1(1) by (auto simp: connections_inv_def installed_tables_def intro!: exI [of _ ?u] exI [of _ ?t])
qed

lemma executeEventLoop_inv:
  "executeEventLoop pf (installed_tables z pf u s0) n s = Some s' \<Longrightarrow> connections_inv s \<Longrightarrow> connections_inv s'"
proof (induction n arbitrary: s)
  case (Suc n)
  have step: "connections_inv t" if "NetworkHandlerProcessCyclic pf (stack_classes (installed_tables z pf u s0))
      timeout_checker_array s = Some (k, t)" for k t
    by (rule cycle_inv [OF running.connection_services_axioms _ that Suc.prems(2)]) (simp add: timeout_checker_array_def)
  show ?case
    using Suc.prems(1) Suc.IH step by (auto simp: bind_Some_iff split: if_splits)
qed simp

section \<open>Shutting down\<close>

lemma close_sessions_all:
  assumes "distinct js"
  shows "\<exists>s'. close_sessions js s = Some s' \<and> connection_list s' = connection_list s
    \<and> length (g_registered_sessions s') = length (g_registered_sessions s)
    \<and> (\<forall>i. i \<notin> set js \<longrightarrow> g_registered_sessions s' ! i = g_registered_sessions s ! i)
    \<and> (\<forall>i \<in> set js. i < length (g_registered_sessions s) \<longrightarrow> g_registered_sessions s' ! i = kEipInvalidSocket)"
  using assms
proof (induction js arbitrary: s)
  case (Cons i js)
  let ?f = "g_registered_sessions s ! i"
  obtain t where t: "(if kEipInvalidSocket \<noteq> ?f
      then do { s \<leftarrow> CloseTcpSocket ?f s; Some (set_session i kEipInvalidSocket s) } else Some s) = Some t"
    "connection_list t = connection_list s" "length (g_registered_sessions t) = length (g_registered_sessions s)"
    "\<forall>j. j \<noteq> i \<longrightarrow> g_registered_sessions t ! j = g_registered_sessions s ! j"
    "i < length (g_registered_sessions s) \<longrightarrow> g_registered_sessions t ! i = kEipInvalidSocket"
  proof (cases "?f = kEipInvalidSocket")
    case False
    then obtain u where u: "CloseTcpSocket ?f s = Some u" "connection_list u = connection_list s"
      "g_registered_sessions u = g_registered_sessions s"
      using RemoveSocketTimerFromList_valid [of ?f] by (auto simp: CloseTcpSocket_def CloseSocket_def emit_def Let_def)
    show thesis
      by (rule that [of "set_session i kEipInvalidSocket u"]) (use False u in \<open>simp_all add: set_session_def\<close>)
  qed (use that in auto)
  obtain s' where s': "close_sessions js t = Some s'" "connection_list s' = connection_list t"
    "length (g_registered_sessions s') = length (g_registered_sessions t)"
    "\<forall>j. j \<notin> set js \<longrightarrow> g_registered_sessions s' ! j = g_registered_sessions t ! j"
    "\<forall>j \<in> set js. j < length (g_registered_sessions t) \<longrightarrow> g_registered_sessions s' ! j = kEipInvalidSocket"
    using Cons.IH [of t] Cons.prems by auto
  have "close_sessions (i # js) s = Some s'"
    unfolding close_sessions.simps t(1) by (simp add: s'(1))
  then show ?case
    using s' t Cons.prems by auto
qed simp

lemma NetworkHandlerFinish_returns:
  assumes "tcp_listener (g_network_status s) \<noteq> kEipInvalidSocket"
  shows "\<exists>s'. NetworkHandlerFinish s = Some (kEipStatusOk, s') \<and> connection_list s' = connection_list s \<and> conn s' = conn s
    \<and> g_exlusive_owner_connections s' = g_exlusive_owner_connections s"
  using RemoveSocketTimerFromList_valid [OF assms]
  by (simp add: NetworkHandlerFinish_def CloseTcpSocket_def CloseUdpSocket_def CloseSocket_def emit_def Let_def)

lemma ShutdownCipStack_returns:
  assumes "connections_inv s"
  shows "\<exists>s'. ShutdownCipStack s = Some s' \<and> connection_list s' = [] \<and> g_classes s' = []
    \<and> (\<forall>i < OPENER_NUMBER_OF_SUPPORTED_SESSIONS. i < length (g_registered_sessions s') \<longrightarrow> g_registered_sessions s' ! i = kEipInvalidSocket)"
proof -
  obtain t where t: "CloseAllConnections s = Some t" "connection_list t = []"
    using close_all_returns [OF assms order_refl] by (auto simp: CloseAllConnections_def)
  obtain u where "EncapsulationShutDown t = Some u" "connection_list u = connection_list t"
    "length (g_registered_sessions u) = length (g_registered_sessions t)"
    "\<forall>i < OPENER_NUMBER_OF_SUPPORTED_SESSIONS. i < length (g_registered_sessions t) \<longrightarrow> g_registered_sessions u ! i = kEipInvalidSocket"
    using close_sessions_all [of "[0..<OPENER_NUMBER_OF_SUPPORTED_SESSIONS]" t] by (auto simp: EncapsulationShutDown_def)
  then show ?thesis
    using t by (simp add: ShutdownCipStack_def DeleteAllClasses_def ShutdownTcpIpInterface_def set_tcpip_def ShutdownAssemblies_def
        split: option.split)
qed

section \<open>An idle stack\<close>

text \<open>On a host where every system call returns 0: no socket is ready and the clock does not move.\<close>

definition idle :: "stack \<Rightarrow> bool" where
  "idle s \<longleftrightarrow> (\<forall>t \<in> set (g_timestamps s). socket t = kEipInvalidSocket) \<and> network_elapsed_time (g_network_status s) = 0
     \<and> g_last_time s = 0 \<and> tcp_listener (g_network_status s) = 0"

lemma idle_sockets:
  assumes "\<And>f. 0 \<le> f \<Longrightarrow> body f s = Some s"
  shows "0 \<le> f \<Longrightarrow> for_sockets body f s = Some s"
proof (induction "nat (highest_socket_handle s + 1 - f)" arbitrary: f)
  case 0
  then show ?case
    by (simp add: for_sockets.simps [of body f])
next
  case (Suc k)
  have "for_sockets body (f + 1) s = Some s" if "f \<le> highest_socket_handle s"
    using Suc.hyps(1) [of "f + 1"] Suc.hyps(2) Suc.prems that by simp
  then show ?case
    using assms [OF Suc.prems] by (simp add: for_sockets.simps [of body f])
qed

lemma search_idle: "(\<forall>t \<in> set ts. socket t = kEipInvalidSocket) \<Longrightarrow> 0 \<le> f \<Longrightarrow> search_socket i f ts = None"
  by (induction ts arbitrary: i) (auto simp: kEipInvalidSocket_def)

lemma idle_cycle:
  assumes "idle s"
  shows "\<exists>s'. NetworkHandlerProcessCyclic (example_platform 0) classes timeout_checker_array s = Some (kEipStatusOk, s') \<and> idle s'"
proof -
  let ?pf = "example_platform 0"
  let ?s = "(snd (syscall ?pf s))\<lparr>read_socket := filter (\<lambda>f. f \<le> highest_socket_handle s \<and> os_ready ?pf (os_index s) f) (master_socket s)\<rparr>"
  have idle: "idle ?s"
    using assms by (simp add: idle_def syscall_def)
  then have "CheckEncapsulationInactivity f ?s = Some ?s" if "0 \<le> f" for f
    using search_idle [of "g_timestamps ?s" f 0] that
    by (simp add: CheckEncapsulationInactivity_def SocketTimerArrayGetSocketTimer_def idle_def)
  then have "for_sockets CheckEncapsulationInactivity 0 ?s = Some ?s"
    by (intro idle_sockets) simp_all
  moreover obtain s' where "run_timers ?pf timeout_checker_array ?s = Some s'" "idle s'"
    using idle by (simp add: run_timers_def syscall_def example_platform_def set_elapsed_time_def idle_def kOpenerTimerTickInMilliSeconds_def)
  ultimately show ?thesis
    by (simp add: NetworkHandlerProcessCyclic_def syscall_def example_platform_def kEipInvalidSocket_def)
qed

lemma idle_loop: "idle s \<Longrightarrow> \<exists>s'. executeEventLoop (example_platform 0) ts n s = Some s' \<and> idle s'"
proof (induction n arbitrary: s)
  case (Suc n)
  obtain t where "NetworkHandlerProcessCyclic (example_platform 0) (stack_classes ts) timeout_checker_array s = Some (kEipStatusOk, t)"
    "idle t"
    using idle_cycle [OF Suc.prems] by blast
  then show ?case
    using Suc.IH by simp
qed simp

lemma idle_start: "\<exists>ts s1. startOpENerStack example_settings (example_platform 0) [0x65, 0x74, 0x68, 0x30] initial_stack = Some (Some ts, s1) \<and> idle s1"
proof -
  let ?pf = "example_platform 0" and ?n = "[0x65, 0x74, 0x68, 0x30] :: buf"
  let ?s = "initial_stack\<lparr>connection_list := [], os_index := 3\<rparr>"
  have mac: "IfaceGetMacAddress ?pf ?n (initial_stack\<lparr>connection_list := []\<rparr>) = (kEipStatusOk, replicate 6 0, ?s)"
    by (simp add: IfaceGetMacAddress_def IFNAMSIZ_def syscall_def example_platform_def initial_stack_def eval_nat_numeral)
  have "g_classes (SetDeviceSerialNumber 123456789 ?s) = []" "length (g_ethernet_link (SetDeviceSerialNumber 123456789 ?s)) < 2 ^ 16"
    by (simp_all add: SetDeviceSerialNumber_def set_identity_def initial_stack_def)
  moreover have "distinct [0, 152, 153, 154, of_int (input_assembly_num example_settings), of_int (output_assembly_num example_settings),
      of_int (config_assembly_num example_settings) :: u16]"
    by (simp add: example_settings_def)
  moreover have "grants (allocates example_settings)"
    by (auto simp: grants_def example_settings_def elim: order_le_less_trans)
  ultimately obtain ts a where a: "CipStackInit example_settings ?pf (ucast (os_rand ?pf 0)) (SetDeviceSerialNumber 123456789 ?s)
      = Some (kEipStatusOk, ts, a)"
    using CipStackInit_starts by blast
  obtain b where b: "CipEthernetLinkSetMac (replicate 6 0) a = Some b"
    by (simp add: CipEthernetLinkSetMac_def copied_def)
  obtain l c where c: "NvdataLoad ?pf b = Some (l, c)"
    by (simp add: NvdataLoad_def NvQosLoad_def ConfFileOpen_def syscall_def example_platform_def)
  obtain d where d: "NetworkHandlerInitialize ?pf c = (kEipStatusOk, d)" "idle d"
    by (simp add: NetworkHandlerInitialize_def open_tcp_listener_def open_udp_listeners_def reuse_and_unblock_def bind_listeners_def
        os_call_def syscall_def example_platform_def finish_network_def set_explicit_qos_def set_network_status_def
        set_elapsed_time_def prepare_network_def idle_def kEipInvalidSocket_def SocketTimerArrayInitialize_def SocketTimerClear_def
        CipQosUpdateUsedSetQosValues_def EncapsulationInit_def emit_def Let_def)
  show ?thesis
    using mac a b c d by (auto simp: startOpENerStack_def)
qed

section \<open>Properties\<close>

text \<open>C2: While the stack runs: after it was started and after any number of cycles of the event loop, whatever
  the network delivers and the system calls return, the list of active connections is as the code needs it (no
  connection twice, no more than the pool has nodes, each established or timed out and with its close and
  time-out functions).\<close>

theorem running_stack_connections:
  assumes "startOpENerStack z pf interfaceName s = Some (Some ts, s1)" and "executeEventLoop pf ts n s1 = Some s2"
  shows "distinct (connection_list s2) \<and> length (connection_list s2) \<le> kNodesAmount
    \<and> (\<forall>c \<in> set (connection_list s2). c \<noteq> dummy_connection_object_ref
        \<and> connection_close_function (conn s2 c) \<noteq> None \<and> connection_timeout_function (conn s2 c) \<noteq> None
        \<and> state (conn s2 c) \<in> {3, 4})"
proof -
  obtain u s0 where "ts = installed_tables z pf u s0" "connections_inv s1"
    using startOpENerStack_ready [OF assms(1)] by blast
  then show ?thesis
    using executeEventLoop_inv assms(2) by (auto simp: connections_inv_def conn_ok_def)
qed

theorem running_stack_connections_witness:
  "\<exists>ts s1 s2. startOpENerStack example_settings (example_platform 0) [0x65, 0x74, 0x68, 0x30] initial_stack = Some (Some ts, s1)
    \<and> executeEventLoop (example_platform 0) ts 5 s1 = Some s2 \<and> length (connection_list s2) \<le> kNodesAmount"
proof -
  obtain ts s1 where s1: "startOpENerStack example_settings (example_platform 0) [0x65, 0x74, 0x68, 0x30] initial_stack = Some (Some ts, s1)"
    "idle s1"
    using idle_start by blast
  obtain s2 where "executeEventLoop (example_platform 0) ts 5 s1 = Some s2"
    using idle_loop [OF s1(2)] by blast
  then show ?thesis
    using s1(1) running_stack_connections [OF s1(1)] by blast
qed

text \<open>C4: The end of the event loop: with its listener still open, the thread that ran the loop for any number
  of cycles closes the network handler and shuts the stack down without a failing assertion, a call through a
  null pointer or a search that does not end; no connection, class or session is left.\<close>

theorem shutdown_leaves_nothing:
  assumes "startOpENerStack z pf interfaceName s = Some (Some ts, s1)" and "executeEventLoop pf ts n s1 = Some s2"
    and "tcp_listener (g_network_status s2) \<noteq> kEipInvalidSocket"
  shows "\<exists>s3. background_thread pf ts n s1 = Some s3 \<and> connection_list s3 = [] \<and> g_classes s3 = []
    \<and> (\<forall>i < OPENER_NUMBER_OF_SUPPORTED_SESSIONS. i < length (g_registered_sessions s3)
        \<longrightarrow> g_registered_sessions s3 ! i = kEipInvalidSocket)"
proof -
  obtain u s0 where "ts = installed_tables z pf u s0" "connections_inv s1"
    using startOpENerStack_ready [OF assms(1)] by blast
  then have inv: "connections_inv s2"
    using executeEventLoop_inv assms(2) by blast
  obtain t where t: "NetworkHandlerFinish s2 = Some (kEipStatusOk, t)" "connection_list t = connection_list s2"
    "conn t = conn s2" "g_exlusive_owner_connections t = g_exlusive_owner_connections s2"
    using NetworkHandlerFinish_returns [OF assms(3)] by blast
  then have "connections_inv t"
    using inv by (simp add: connections_inv_def conn_ok_def)
  from ShutdownCipStack_returns [OF this] show ?thesis
    using assms(2) t(1) by (simp add: background_thread_def)
qed

theorem shutdown_leaves_nothing_witness:
  "\<exists>ts s1 s3. startOpENerStack example_settings (example_platform 0) [0x65, 0x74, 0x68, 0x30] initial_stack = Some (Some ts, s1)
    \<and> background_thread (example_platform 0) ts 5 s1 = Some s3 \<and> connection_list s3 = [] \<and> g_classes s3 = []"
proof -
  obtain ts s1 where s1: "startOpENerStack example_settings (example_platform 0) [0x65, 0x74, 0x68, 0x30] initial_stack = Some (Some ts, s1)"
    "idle s1"
    using idle_start by blast
  obtain s2 where "executeEventLoop (example_platform 0) ts 5 s1 = Some s2" "tcp_listener (g_network_status s2) \<noteq> kEipInvalidSocket"
    using idle_loop [OF s1(2), of ts 5] by (auto simp: idle_def kEipInvalidSocket_def)
  then show ?thesis
    using s1(1) shutdown_leaves_nothing [OF s1(1), of 5 s2] by blast
qed

end
