(* ===== verification/Spec2Isabelle.thy ===== *)
theory Spec2Isabelle
  imports Endian Linked_List Cip_Types Electronic_Key Epath Xorshift Socket_Timer Conn_Object Conn_Pool Cpf Encap
    Io_Data Conn_Path Conn_Manager Conn_Reach Attribute_Lists Object_Table Tcpip Ethernet_Link Network_Handler
    Nv_Data Objects Startup Object_Access Network_Config Main_Loop
begin

text \<open>
  This development models the EtherNet/IP adapter stack (OpENer, \<^verbatim>\<open>src/main/cpp/opener\<close>) of the
  library: the C code that turns packets from the network into actions on sessions, connections and
  objects, and produces the replies and the cyclic I/O data.

  \<^bold>\<open>How a packet travels.\<close>  The network handler (\<^verbatim>\<open>ports/generic_networkhandler.c\<close>) receives octets
  from a TCP or UDP socket and calls the encapsulation layer (\<^verbatim>\<open>enet_encap/encap.c\<close>), which decodes a
  24-octet header, keeps the table of sessions and dispatches the commands.  SendRRData and
  SendUnitData carry the common packet format (\<^verbatim>\<open>enet_encap/cpf.c\<close>), whose data item goes to the
  message router (\<^verbatim>\<open>cip/cipmessagerouter.c\<close>): it decodes the padded path, looks up the class and the
  service and calls it.  The services of the connection manager (\<^verbatim>\<open>cip/cipconnectionmanager.c\<close>) open and
  close connections; an open connection sits in a list of nodes from a static pool, consumes and
  produces data of assembly objects over UDP sockets, and is watched by timers in a cyclic run.

  The stack is set up and driven from the Java side (\<^verbatim>\<open>native-lib.cpp\<close>): \<^verbatim>\<open>startOpENerStack\<close> registers all
  objects (\<^verbatim>\<open>CipStackInit\<close>), loads the stored settings (\<^verbatim>\<open>ports/nvdata\<close>), opens the listening sockets and
  starts a thread that calls \<^verbatim>\<open>NetworkHandlerProcessCyclic\<close> until it is told to stop and then shuts
  everything down.

  \<^bold>\<open>Theories.\<close>
    \<^item> \<open>Prelude\<close>: words, octets, buffers and pointers into them; \<open>None\<close> of a modelled function stands for
      undefined behaviour of C (a read outside the buffer, a null pointer), a failed assertion or a loop
      that does not end.
    \<^item> \<open>Endian\<close> (\<^verbatim>\<open>endianconv.c\<close>, \<^verbatim>\<open>enipmessage.c\<close>): the little-endian readers and writers and the
      message buffer, with the locale \<open>field_codec\<close> of the fields that can be read back; \<open>Cip_Types\<close>,
      \<open>Cip_Status\<close> (\<^verbatim>\<open>ciptypes.h\<close>, \<^verbatim>\<open>ciperror.h\<close>): shared data and codes.
    \<^item> \<open>Linked_List\<close> (\<^verbatim>\<open>doublylinkedlist.c\<close>) over an explicit heap, with the locale \<open>node_pool\<close> of its
      allocators, and \<open>Conn_Pool\<close>: the list of connections in the node pool refines the plain list that
      the rest of the model uses.
    \<^item> \<open>Epath\<close>, \<open>Electronic_Key\<close>, \<open>Xorshift\<close>, \<open>Socket_Timer\<close>: the leaf modules of these names.
    \<^item> \<open>Conn_Object\<close> (\<^verbatim>\<open>cipconnectionobject.c\<close>): the whole connection object with its bit fields, the
      decoding of an open request, timers, identifiers.
    \<^item> \<open>Stack_State\<close>: the record \<open>stack\<close> of the global variables; calls that leave the program are
      events in its \<open>trace\<close>.
    \<^item> \<open>Cip_Data\<close> (\<^verbatim>\<open>cipcommon.c\<close>, \<^verbatim>\<open>cipstring.c\<close>): every function that encodes or decodes an attribute,
      with the locale \<open>attribute_type\<close>; \<open>Cip_Object\<close>, \<open>Attribute_Lists\<close> (\<^verbatim>\<open>cipcommon.c\<close>): attributes, masks,
      callbacks and the services that read and write them; \<open>Cip_Class\<close>: instances and the services that
      create, delete and reset them; \<open>Object_Table\<close>: a class as \<^verbatim>\<open>CreateCipClass\<close> builds it.
    \<^item> \<open>Cpf\<close>, \<open>Cpf_Notify\<close>, \<open>Encap_Header\<close>, \<open>Encap\<close>, \<open>Sessions\<close>: packets, commands, sessions,
      inactivity; \<open>Msg_Router\<close>: path and dispatch.
    \<^item> \<open>App_Connections\<close> (\<^verbatim>\<open>appcontype.c\<close>), \<open>Assembly\<close>, \<open>Identity\<close>, \<open>Qos\<close>, \<open>Tcpip\<close>, \<open>Ethernet_Link\<close>:
      the objects behind connections and the objects of the device.
    \<^item> \<open>Net_Sockets\<close>, \<open>Io_Connection\<close>, \<open>Io_Data\<close> (\<^verbatim>\<open>cipioconnection.c\<close>): establishing a connection and its
      sockets, producing and consuming.
    \<^item> \<open>Conn_Close\<close>: closing, with the hand-over of a multicast producer, and the time-outs.
    \<^item> \<open>Conn_Path\<close>, \<open>Conn_Manager\<close> (\<^verbatim>\<open>cipconnectionmanager.c\<close>): the connection path and the services and
      the cyclic run of the connection manager.
    \<^item> \<open>Conn_Invariant\<close>, \<open>Conn_Reach\<close>: the invariant \<open>connections_inv\<close> of the active connections, kept by
      every service, by data from the network, by the cyclic run and by the end of a session, as rule
      induction over the sequences of these steps.
    \<^item> \<open>Network_Handler\<close> (\<^verbatim>\<open>generic_networkhandler.c\<close>): the sockets, the cycle that serves them and its
      timers, with the locale \<open>connection_services\<close> of what it needs of the registered classes.
    \<^item> \<open>Nv_Data\<close> (\<^verbatim>\<open>ports/nvdata\<close>): the stored settings; \<open>Objects\<close>: the attribute and service tables of
      every object and \<^verbatim>\<open>CipStackInit\<close>; \<open>Startup\<close>: that the tables have room for what is inserted and
      what memory the start asks for; \<open>Object_Access\<close>: the set and get services on the registered tables of
      the quality of service object and the Ethernet links, where the masks are shared by all instances.
    \<^item> \<open>Network_Config\<close> (\<^verbatim>\<open>ports/POSIX/networkconfig.c\<close>): the address of an interface, the gateway from the
      routing table, name servers and domain from the resolver file, waiting for an address, the host name.
    \<^item> \<open>Main_Loop\<close> (\<^verbatim>\<open>native-lib.cpp\<close>): the program.  The interpretation \<open>running\<close> shows that the classes
      that \<^verbatim>\<open>CipStackInit\<close> registers meet \<open>connection_services\<close>, so that the invariant of the
      connections holds in every cycle of a started stack.

  \<^bold>\<open>Correspondence.\<close>  A struct is a record with its fields, a w-bit integer a \<open>w word\<close>, so that
  arithmetic wraps as it does in C.  A pointer into a packet is the list of octets it gives access to.
  A C function that changes global state takes and returns the state; a pointer to a connection object
  is a \<open>conn_ref\<close> (\<open>exlusive_owner_ref\<close> and so on, one for each static array), so that aliasing is
  visible.  A function pointer stored in a struct is a constructor of a datatype, and calling it a
  case distinction.  What is not under \<^verbatim>\<open>src/\<close> (the socket calls, the clock, random numbers, the
  allocator) is the record \<open>platform\<close> of functions or a parameter.

  \<^bold>\<open>Memory.\<close>  Which calls of \<^verbatim>\<open>CipCalloc\<close> and \<^verbatim>\<open>malloc\<close> succeed is a parameter, a predicate on the number of
  octets.  It decides about the structures of a class, its names, attributes, services, instances, masks and
  entry in the message router, about the byte arrays and buffers of the assemblies, the strings of attributes
  and the buffer of a file.  Where the code answers a null pointer with an error, so does the model; where it
  fails an assertion, or uses the pointer without looking at it, the model ends with \<open>None\<close>, for the latter
  at the allocation.  No lemma assumes this memory unless its statement says so.  One allocation is not
  covered: the 10 octets of \<^verbatim>\<open>ElectronicKeyFormat4New\<close>, for the time the connection path is parsed, are taken
  as given; the parser would use the null pointer.

  \<^bold>\<open>Loops and bounds.\<close>  Loops over lists are structural, and loops that consume a text or a path are
  functions with a measure.  A loop that may not end is a \<open>partial_function (option)\<close>
  (\<open>RemoveSocketTimerFromList\<close>, \<open>manage_from\<close>, \<open>draw\<close>, \<open>drop_packet\<close>, \<open>consume_from\<close>, \<open>for_sockets\<close>,
  \<open>sleep_again\<close>, \<open>wait_for_address\<close>), and the theorems about it state when it returns.  The others take fuel,
  and are \<open>None\<close> without it:
    \<^item> \<open>CloseIoConnection_depth\<close>, whose recursion is at most two deep because a listen only connection
      closes no further ones;
    \<^item> \<open>close_same_type\<close>, \<open>close_all\<close> and \<open>close_class3\<close>, the loops that close connections while they walk the
      list: the number of connections at the start is enough, because every step removes the current one or
      moves on to one behind it (that closing returns is shown in \<open>Conn_Close\<close>, \<open>Sessions\<close> and
      \<open>Conn_Reach\<close>; the one that can read a removed node is in the example at the end of \<open>Sessions\<close>);
    \<^item> \<open>find_free_number\<close>, where one more try than there are numbers in use is enough;
    \<^item> \<open>remove_connection_from\<close> and \<open>destroy_from\<close>, for which the number of nodes of the list is enough.
  The event loop takes the number of its cycles before the stop flag is seen, and the theorems hold for
  every number.

  \<^bold>\<open>Not modelled.\<close>  Tracing; the conversion of Java objects in \<^verbatim>\<open>native-lib.cpp\<close>; the command line program
  with its signals (\<^verbatim>\<open>ports/POSIX/main.c\<close>), which repeats the start of the stack; the system calls
  behind the platform (\<^verbatim>\<open>ports/POSIX/networkhandler.c\<close>); the clearing
  and copying of international strings, which no object uses; the simulated counters of the Ethernet
  link and the branches for them, which do not compile; the file and security objects, whose sources
  are not in the repository; the Java side.  Freeing the memory of a class is the removal of its table.
\<close>

end
